(* ===== verification/Prelude.thy ===== *)
theory Prelude
  imports Main "HOL-Library.AList" "HOL-Library.Sublist"
begin

text \<open>
  Shared vocabulary of the development.

  A Go \<^verbatim>\<open>string\<close> and a Go \<^verbatim>\<open>[]byte\<close> are sequences of bytes, and so is an Isabelle
  \<^typ>\<open>string\<close> (a list of \<^typ>\<open>char\<close>, one \<^typ>\<open>char\<close> per byte); \<^verbatim>\<open>len\<close> is \<^const>\<open>length\<close>.  This theory
  defines the functions of Go's \<^verbatim>\<open>strings\<close> package that the sources call, the association
  lists that stand for Go maps, the three-way result of comparisons, and the two contracts
  (\<open>normaliser\<close>, \<open>invariant_system\<close>) that several components share.

  Unicode: \<^verbatim>\<open>strings.TrimSpace\<close> is exact, because every white-space rune has one UTF-8
  encoding and the two ends of a byte string decode to that rune exactly when the encoding is
  a prefix (suffix).  \<^verbatim>\<open>strings.ToLower\<close> and \<^verbatim>\<open>strings.EqualFold\<close> map every rune whose lower
  case (or case fold) is an ASCII character, which are the ASCII letters, U+0130, U+212A and,
  for folding, U+017F; other runes are left alone.  The sources compare the results only
  with ASCII constants or with each other.
\<close>

named_theorems go_simps \<open>unfolding rules for the modelled Go library functions\<close>
named_theorems inv_intros \<open>preservation rules for the component invariants\<close>

type_synonym bytes = string

section \<open>Bytes and byte classes\<close>

definition byte :: "char \<Rightarrow> nat" where
  "byte c = of_char c"

definition is_digit :: "char \<Rightarrow> bool" where
  "is_digit c \<longleftrightarrow> 48 \<le> byte c \<and> byte c \<le> 57"

definition is_lower_hex :: "char \<Rightarrow> bool" where
  "is_lower_hex c \<longleftrightarrow> (97 \<le> byte c \<and> byte c \<le> 102) \<or> is_digit c"

definition is_upper :: "char \<Rightarrow> bool" where
  "is_upper c \<longleftrightarrow> 65 \<le> byte c \<and> byte c \<le> 90"

definition is_lower :: "char \<Rightarrow> bool" where
  "is_lower c \<longleftrightarrow> 97 \<le> byte c \<and> byte c \<le> 122"

definition lower_byte :: "char \<Rightarrow> char" where
  "lower_byte c = (if is_upper c then char_of (byte c + 32) else c)"

section \<open>Go's strings package\<close>

definition HasPrefix :: "string \<Rightarrow> string \<Rightarrow> bool" where
  "HasPrefix s p \<longleftrightarrow> prefix p s"

definition HasSuffix :: "string \<Rightarrow> string \<Rightarrow> bool" where
  "HasSuffix s p \<longleftrightarrow> suffix p s"

definition TrimPrefix :: "string \<Rightarrow> string \<Rightarrow> string" where
  "TrimPrefix s p = (if HasPrefix s p then drop (length p) s else s)"

definition Contains :: "string \<Rightarrow> string \<Rightarrow> bool" where
  "Contains s t \<longleftrightarrow> sublist t s"

definition ContainsAny :: "string \<Rightarrow> string \<Rightarrow> bool" where
  "ContainsAny s chars \<longleftrightarrow> (\<exists>c \<in> set s. c \<in> set chars)"

definition TrimRight :: "string \<Rightarrow> string \<Rightarrow> string" where
  "TrimRight s cutset = rev (dropWhile (\<lambda>c. c \<in> set cutset) (rev s))"

definition TrimBoth :: "string \<Rightarrow> string \<Rightarrow> string" where
  "TrimBoth s cutset = TrimRight (dropWhile (\<lambda>c. c \<in> set cutset) s) cutset"

fun SplitAt :: "char \<Rightarrow> string \<Rightarrow> string list" where
  "SplitAt sep [] = [[]]"
| "SplitAt sep (c # cs) =
     (if c = sep then [] # SplitAt sep cs
      else (case SplitAt sep cs of [] \<Rightarrow> [[c]] | w # ws \<Rightarrow> (c # w) # ws))"

text \<open>The UTF-8 encodings of the runes for which \<^verbatim>\<open>unicode.IsSpace\<close> holds.\<close>

definition space_encodings :: "string list" where
  "space_encodings =
     map (map char_of)
       [[9], [10], [11], [12], [13], [32], [194, 133], [194, 160], [225, 154, 128],
        [226, 128, 128], [226, 128, 129], [226, 128, 130], [226, 128, 131], [226, 128, 132],
        [226, 128, 133], [226, 128, 134], [226, 128, 135], [226, 128, 136], [226, 128, 137],
        [226, 128, 138], [226, 128, 168], [226, 128, 169], [226, 128, 175], [226, 129, 159],
        [227, 128, 128 :: nat]]"

definition leading :: "string list \<Rightarrow> string \<Rightarrow> string option" where
  "leading encs s = List.find (\<lambda>e. prefix e s) encs"

function trim_front :: "string list \<Rightarrow> string \<Rightarrow> string" where
  "trim_front encs s =
     (case leading encs s of
        None \<Rightarrow> s
      | Some e \<Rightarrow> if e = [] then s else trim_front encs (drop (length e) s))"
  by pat_completeness auto
termination
proof (relation "measure (\<lambda>(encs, s). length s)")
  fix encs s e
  assume "leading encs s = Some e" and "e \<noteq> []"
  then have "prefix e s" by (auto simp: leading_def find_Some_iff)
  with \<open>e \<noteq> []\<close> show "((encs, drop (length e) s), encs, s) \<in> measure (\<lambda>(encs, s). length s)"
    by (cases s) auto
qed simp

declare trim_front.simps [simp del]

definition TrimSpace :: "string \<Rightarrow> string" where
  "TrimSpace s =
     (let t = trim_front space_encodings s
      in rev (trim_front (map rev space_encodings) (rev t)))"

fun ToLower :: "string \<Rightarrow> string" where
  "ToLower [] = []"
| "ToLower (c # cs) =
     (if prefix [char_of (176 :: nat)] cs \<and> byte c = 196 then CHR ''i'' # ToLower (drop 1 cs)
      else if prefix [char_of (132 :: nat), char_of (170 :: nat)] cs \<and> byte c = 226
        then CHR ''k'' # ToLower (drop 2 cs)
      else lower_byte c # ToLower cs)"

fun fold_case :: "string \<Rightarrow> string" where
  "fold_case [] = []"
| "fold_case (c # cs) =
     (if prefix [char_of (191 :: nat)] cs \<and> byte c = 197 then CHR ''s'' # fold_case (drop 1 cs)
      else if prefix [char_of (132 :: nat), char_of (170 :: nat)] cs \<and> byte c = 226
        then CHR ''k'' # fold_case (drop 2 cs)
      else lower_byte c # fold_case cs)"

definition EqualFold :: "string \<Rightarrow> string \<Rightarrow> bool" where
  "EqualFold s t \<longleftrightarrow> fold_case s = fold_case t"

section \<open>Go maps as association lists\<close>

text \<open>
  A Go map is an association list with distinct keys, updated by \<^const>\<open>AList.update\<close> and
  \<^const>\<open>AList.delete\<close>; \<^const>\<open>map_of\<close> is the lookup.  Go leaves the iteration order open: the
  model iterates in list order, and no property depends on which order that is.
\<close>

type_synonym 'v gomap = "(string \<times> 'v) list"

abbreviation map_get :: "'v gomap \<Rightarrow> string \<Rightarrow> 'v option" where
  "map_get m k \<equiv> map_of m k"

abbreviation map_put :: "string \<Rightarrow> 'v \<Rightarrow> 'v gomap \<Rightarrow> 'v gomap" where
  "map_put k v m \<equiv> AList.update k v m"

abbreviation map_del :: "string \<Rightarrow> 'v gomap \<Rightarrow> 'v gomap" where
  "map_del k m \<equiv> AList.delete k m"

definition gomap_ok :: "'v gomap \<Rightarrow> bool" where
  "gomap_ok m \<longleftrightarrow> distinct (map fst m)"

section \<open>Contracts shared by several components\<close>

text \<open>
  A normaliser is what the code applies to untrusted text before it compares or stores it.
  Its only law is that a second application changes nothing; then two inputs are
  interchangeable for the code exactly when they have the same normal form.
\<close>

locale normaliser =
  fixes norm :: "'a \<Rightarrow> 'a"
  assumes norm_idem: "norm (norm x) = norm x"
begin

lemma normal_iff_image: "norm x = x \<longleftrightarrow> (\<exists>y. x = norm y)"
  using norm_idem by metis

lemma norm_of_norm_eq: "norm x = norm y \<Longrightarrow> norm (norm x) = norm y"
  by (simp add: norm_idem)

end

text \<open>
  A component with state promises an invariant: the initial states have it and every step
  keeps it.  Reachability and its induction are proved here once, for every component that
  is such a system.
\<close>

inductive steps :: "('s \<Rightarrow> 's \<Rightarrow> bool) \<Rightarrow> 's \<Rightarrow> 's \<Rightarrow> bool" for step where
  steps_refl: "steps step s s"
| steps_step: "steps step s t \<Longrightarrow> step t u \<Longrightarrow> steps step s u"

locale invariant_system =
  fixes init :: "'s \<Rightarrow> bool"
    and step :: "'s \<Rightarrow> 's \<Rightarrow> bool"
    and inv :: "'s \<Rightarrow> bool"
  assumes inv_init: "init s \<Longrightarrow> inv s"
    and inv_step: "inv s \<Longrightarrow> step s t \<Longrightarrow> inv t"
begin

lemma inv_steps: "steps step s t \<Longrightarrow> inv s \<Longrightarrow> inv t"
  by (induction rule: steps.induct) (auto intro: inv_step)

lemma reachable_inv: "init s \<Longrightarrow> steps step s t \<Longrightarrow> inv t"
  using inv_init inv_steps by blast

end

section \<open>Lemmas on bytes and characters\<close>

lemma byte_less [simp]: "byte c < 256"
  by (simp add: byte_def)

lemma char_of_byte [simp]: "char_of (byte c) = c"
  by (simp add: byte_def)

lemma byte_char_of [simp]: "n < 256 \<Longrightarrow> byte (char_of n) = n"
  by (simp add: byte_def)

lemma byte_inject [simp]: "byte c = byte d \<longleftrightarrow> c = d"
  by (metis char_of_byte)

lemma lower_byte_idem [simp]: "lower_byte (lower_byte c) = lower_byte c"
  by (auto simp: lower_byte_def is_upper_def)

section \<open>Lemmas on the string functions\<close>

lemma HasPrefix_append [simp]: "HasPrefix (p @ s) p"
  by (simp add: HasPrefix_def)

lemma TrimPrefix_append [simp]: "TrimPrefix (p @ s) p = s"
  by (simp add: TrimPrefix_def)

lemma HasPrefix_decomp: "HasPrefix s p \<Longrightarrow> s = p @ TrimPrefix s p"
  by (auto simp: HasPrefix_def TrimPrefix_def prefix_def)

lemma HasSuffix_append [simp]: "HasSuffix (s @ p) p"
  by (simp add: HasSuffix_def suffix_def)

lemma SplitAt_nonempty [simp]: "SplitAt sep s \<noteq> []"
  by (induction s) (auto split: list.splits)

lemma SplitAt_no_sep: "w \<in> set (SplitAt sep s) \<Longrightarrow> sep \<notin> set w"
  by (induction s arbitrary: w) (auto split: list.splits if_splits)

lemma SplitAt_single [simp]: "sep \<notin> set s \<Longrightarrow> SplitAt sep s = [s]"
  by (induction s) auto

lemma leading_Some: "leading encs s = Some e \<Longrightarrow> e \<in> set encs \<and> prefix e s"
  by (auto simp: leading_def find_Some_iff)

lemma leading_None: "leading encs s = None \<longleftrightarrow> (\<forall>e \<in> set encs. \<not> prefix e s)"
  by (auto simp: leading_def find_None_iff)

lemma trim_front_suffix: "suffix (trim_front encs s) s"
proof (induction encs s rule: trim_front.induct)
  case (1 encs s)
  then show ?case
    by (subst trim_front.simps)
      (auto split: option.splits intro: suffix_order.trans [OF _ suffix_drop])
qed

lemma leading_trim_front:
  "[] \<notin> set encs \<Longrightarrow> leading encs (trim_front encs s) = None"
proof (induction encs s rule: trim_front.induct)
  case (1 encs s)
  show ?case
  proof (cases "leading encs s")
    case None
    then show ?thesis by (simp add: trim_front.simps [of encs s])
  next
    case (Some e)
    with "1.prems" have "e \<noteq> []" using leading_Some [OF Some] by auto
    with Some "1.IH" [OF Some] "1.prems" show ?thesis
      by (simp add: trim_front.simps [of encs s])
  qed
qed

lemma trim_front_fix: "leading encs s = None \<Longrightarrow> trim_front encs s = s"
  by (simp add: trim_front.simps [of encs s])

lemma leading_prefix_None: "leading encs t = None \<Longrightarrow> prefix s t \<Longrightarrow> leading encs s = None"
  by (auto simp: leading_None dest: prefix_order.trans)

lemma Nil_notin_space_encodings [simp]:
  "[] \<notin> set space_encodings" "[] \<notin> rev ` set space_encodings"
  by (auto simp: space_encodings_def)

lemma TrimSpace_idem [simp]: "TrimSpace (TrimSpace s) = TrimSpace s"
proof -
  let ?t = "trim_front space_encodings s"
  let ?u = "trim_front (map rev space_encodings) (rev ?t)"
  have "prefix (rev ?u) ?t"
    using trim_front_suffix [of "map rev space_encodings" "rev ?t"] by (simp add: suffix_to_prefix)
  moreover have "leading space_encodings ?t = None" by (simp add: leading_trim_front)
  ultimately have "trim_front space_encodings (rev ?u) = rev ?u"
    by (blast intro: trim_front_fix leading_prefix_None)
  moreover have "trim_front (map rev space_encodings) ?u = ?u"
    by (simp add: leading_trim_front trim_front_fix)
  ultimately show ?thesis by (simp add: TrimSpace_def Let_def)
qed

lemma TrimSpace_sublist: "sublist (TrimSpace s) s"
proof -
  let ?t = "trim_front space_encodings s"
  have "prefix (TrimSpace s) ?t"
    using trim_front_suffix [of "map rev space_encodings" "rev ?t"]
    by (simp add: suffix_to_prefix TrimSpace_def Let_def)
  then show ?thesis
    using trim_front_suffix [of space_encodings s]
    by (meson prefix_imp_sublist suffix_imp_sublist sublist_order.order.trans)
qed

lemma set_TrimSpace: "set (TrimSpace s) \<subseteq> set s"
  using TrimSpace_sublist by (rule set_mono_sublist)

lemma length_TrimSpace: "length (TrimSpace s) \<le> length s"
  using TrimSpace_sublist by (rule sublist_length_le)

text \<open>Text with no white space at its ends, in particular hexadecimal text, is its own trim.\<close>

definition space_byte :: "char \<Rightarrow> bool" where
  "space_byte c \<longleftrightarrow> byte c \<in> {9, 10, 11, 12, 13, 32} \<or> 128 \<le> byte c"

lemma space_encoding_bytes: "e \<in> set space_encodings \<Longrightarrow> \<forall>c \<in> set e. space_byte c"
  by (auto simp: space_encodings_def space_byte_def)

lemma leading_space_None:
  assumes "s = [] \<or> \<not> space_byte (hd s)"
  shows "leading space_encodings s = None" "leading (map rev space_encodings) s = None"
proof -
  have "\<not> prefix e s" if "e \<noteq> []" "\<forall>c \<in> set e. space_byte c" for e
    using assms that by (cases e; cases s) auto
  moreover have "e \<noteq> [] \<and> (\<forall>c \<in> set e. space_byte c)"
    if "e \<in> set space_encodings \<union> rev ` set space_encodings" for e
    using that space_encoding_bytes Nil_notin_space_encodings by auto
  ultimately show "leading space_encodings s = None" "leading (map rev space_encodings) s = None"
    unfolding leading_None by auto
qed

lemma TrimSpace_id:
  assumes "s = [] \<or> \<not> space_byte (hd s)" and "s = [] \<or> \<not> space_byte (last s)"
  shows "TrimSpace s = s"
proof -
  have "trim_front space_encodings s = s"
    using assms(1) by (simp add: leading_space_None trim_front_fix)
  moreover have "trim_front (map rev space_encodings) (rev s) = rev s"
    using assms(2) by (auto simp: hd_rev leading_space_None trim_front_fix)
  ultimately show ?thesis by (simp add: TrimSpace_def)
qed

lemma TrimSpace_plain: "\<forall>c \<in> set s. \<not> space_byte c \<Longrightarrow> TrimSpace s = s"
  by (rule TrimSpace_id) auto

lemma TrimSpace_Nil [simp]: "TrimSpace [] = []"
  by (simp add: TrimSpace_id)

interpretation trim: normaliser TrimSpace
  by unfold_locales simp

text \<open>Lower-casing never makes a byte above the ASCII range: it only keeps those it finds.\<close>

lemma lower_byte_high [simp]: "128 \<le> byte c \<Longrightarrow> lower_byte c = c"
  by (simp add: lower_byte_def is_upper_def)

lemma lower_byte_high2: "128 \<le> byte (lower_byte c) \<Longrightarrow> lower_byte c = c"
  by (auto simp: lower_byte_def is_upper_def split: if_splits)

lemma byte_i_k [simp]: "byte (CHR ''i'') = 105" "byte (CHR ''k'') = 107"
  by (simp_all add: byte_def)

lemma ToLower_first: "prefix [d] (ToLower s) \<Longrightarrow> 128 \<le> byte d \<Longrightarrow> prefix [d] s"
  by (cases s) (auto intro: lower_byte_high2 split: if_splits)

lemma ToLower_first2:
  "prefix [d, e] (ToLower s) \<Longrightarrow> 128 \<le> byte d \<Longrightarrow> 128 \<le> byte e \<Longrightarrow> prefix [d, e] s"
  by (cases s) (auto intro: lower_byte_high2 dest: ToLower_first split: if_splits)

lemma ToLower_idem [simp]: "ToLower (ToLower s) = ToLower s"
proof (induction s rule: ToLower.induct)
  case (2 c cs)
  have "prefix [char_of (176 :: nat)] cs"
    if "prefix [char_of (176 :: nat)] (ToLower cs)" using ToLower_first [OF that] by simp
  moreover have "prefix [char_of (132 :: nat), char_of (170 :: nat)] cs"
    if "prefix [char_of (132 :: nat), char_of (170 :: nat)] (ToLower cs)"
    using ToLower_first2 [OF that] by simp
  ultimately show ?case using "2.IH"
    by (auto simp: byte_def lower_byte_def is_upper_def)
qed simp

interpretation lower: normaliser ToLower
  by unfold_locales simp

lemma EqualFold_refl [simp]: "EqualFold s s"
  by (simp add: EqualFold_def)

lemma EqualFold_sym: "EqualFold s t \<Longrightarrow> EqualFold t s"
  by (simp add: EqualFold_def)

lemma EqualFold_trans: "EqualFold s t \<Longrightarrow> EqualFold t u \<Longrightarrow> EqualFold s u"
  by (simp add: EqualFold_def)

section \<open>Lemmas on Go maps\<close>

lemma map_put_get [simp]: "map_get (map_put k v m) k' = (if k' = k then Some v else map_get m k')"
  by (simp add: update_conv')

lemma map_del_get [simp]: "map_get (map_del k m) k' = (if k' = k then None else map_get m k')"
  by (simp add: delete_conv')

lemma gomap_ok_put [simp, inv_intros]: "gomap_ok m \<Longrightarrow> gomap_ok (map_put k v m)"
  by (simp add: gomap_ok_def distinct_update)

lemma gomap_ok_del [simp, inv_intros]: "gomap_ok m \<Longrightarrow> gomap_ok (map_del k m)"
  by (simp add: gomap_ok_def distinct_delete)

lemma gomap_ok_Nil [simp]: "gomap_ok []"
  by (simp add: gomap_ok_def)

lemma gomap_get_iff: "gomap_ok m \<Longrightarrow> map_get m k = Some v \<longleftrightarrow> (k, v) \<in> set m"
  by (simp add: gomap_ok_def)

end
