(* ===== verification/Encoding.thy ===== *)
theory Encoding
  imports Prelude
begin

text \<open>
  The textual encodings the sources use: \<^verbatim>\<open>encoding/hex\<close> and the four alphabets of
  \<^verbatim>\<open>encoding/base64\<close> (\<^verbatim>\<open>StdEncoding\<close>, \<^verbatim>\<open>RawStdEncoding\<close>, \<^verbatim>\<open>URLEncoding\<close>, \<^verbatim>\<open>RawURLEncoding\<close>),
  as Go's decoders behave: hexadecimal input of either case, base64 input with carriage
  returns and line feeds skipped, padding demanded or refused.  The contract of an encoder
  with its decoder is the locale \<open>codec\<close>.
\<close>

section \<open>Hexadecimal\<close>

definition hex_digit :: "nat \<Rightarrow> char" where
  "hex_digit n = ''0123456789abcdef'' ! n"

definition hex_value :: "char \<Rightarrow> nat option" where
  "hex_value c =
     (if is_digit c then Some (byte c - 48)
      else if 97 \<le> byte c \<and> byte c \<le> 102 then Some (byte c - 87)
      else if 65 \<le> byte c \<and> byte c \<le> 70 then Some (byte c - 55)
      else None)"

fun hex_encode :: "bytes \<Rightarrow> string" where
  "hex_encode [] = []"
| "hex_encode (c # cs) = hex_digit (byte c div 16) # hex_digit (byte c mod 16) # hex_encode cs"

fun hex_decode :: "string \<Rightarrow> bytes option" where
  "hex_decode [] = Some []"
| "hex_decode [c] = None"
| "hex_decode (c # d # cs) =
     (case (hex_value c, hex_value d, hex_decode cs) of
        (Some h, Some l, Some rest) \<Rightarrow> Some (char_of (16 * h + l) # rest)
      | _ \<Rightarrow> None)"

section \<open>Base64\<close>

definition std_alphabet :: string where
  "std_alphabet = ''ABCDEFGHIJKLMNOPQRSTUVWXYZabcdefghijklmnopqrstuvwxyz0123456789+/''"

definition url_alphabet :: string where
  "url_alphabet = ''ABCDEFGHIJKLMNOPQRSTUVWXYZabcdefghijklmnopqrstuvwxyz0123456789-_''"

fun index_of :: "'a \<Rightarrow> 'a list \<Rightarrow> nat option" where
  "index_of x [] = None"
| "index_of x (y # ys) = (if x = y then Some 0 else map_option Suc (index_of x ys))"

fun b64_encode :: "string \<Rightarrow> bool \<Rightarrow> bytes \<Rightarrow> string" where
  "b64_encode al pad [] = []"
| "b64_encode al pad [a] =
     [al ! (byte a div 4), al ! (byte a mod 4 * 16)] @ (if pad then ''=='' else [])"
| "b64_encode al pad [a, b] =
     [al ! (byte a div 4), al ! (byte a mod 4 * 16 + byte b div 16), al ! (byte b mod 16 * 4)]
     @ (if pad then ''='' else [])"
| "b64_encode al pad (a # b # c # cs) =
     al ! (byte a div 4) # al ! (byte a mod 4 * 16 + byte b div 16)
     # al ! (byte b mod 16 * 4 + byte c div 64) # al ! (byte c mod 64) # b64_encode al pad cs"

definition b64_bytes :: "nat \<Rightarrow> nat \<Rightarrow> nat \<Rightarrow> nat \<Rightarrow> bytes" where
  "b64_bytes p q r s =
     [char_of (p * 4 + q div 16), char_of (q mod 16 * 16 + r div 4), char_of (r mod 4 * 64 + s)]"

fun b64_clean :: "string \<Rightarrow> bool \<Rightarrow> string \<Rightarrow> bytes option" where
  "b64_clean al pad [] = Some []"
| "b64_clean al pad [c1] = None"
| "b64_clean al pad [c1, c2] =
     (case (index_of c1 al, index_of c2 al) of
        (Some p, Some q) \<Rightarrow> if pad then None else Some (take 1 (b64_bytes p q 0 0))
      | _ \<Rightarrow> None)"
| "b64_clean al pad [c1, c2, c3] =
     (case (index_of c1 al, index_of c2 al, index_of c3 al) of
        (Some p, Some q, Some r) \<Rightarrow> if pad then None else Some (take 2 (b64_bytes p q r 0))
      | _ \<Rightarrow> None)"
| "b64_clean al pad (c1 # c2 # c3 # c4 # cs) =
     (case (index_of c1 al, index_of c2 al) of
        (Some p, Some q) \<Rightarrow>
          (case index_of c3 al of
             None \<Rightarrow> if pad \<and> c3 = CHR ''='' \<and> c4 = CHR ''='' \<and> cs = []
                     then Some (take 1 (b64_bytes p q 0 0)) else None
           | Some r \<Rightarrow>
               (case index_of c4 al of
                  None \<Rightarrow> if pad \<and> c4 = CHR ''='' \<and> cs = []
                          then Some (take 2 (b64_bytes p q r 0)) else None
                | Some s \<Rightarrow> map_option (\<lambda>rest. b64_bytes p q r s @ rest) (b64_clean al pad cs)))
      | _ \<Rightarrow> None)"

definition line_break :: "char \<Rightarrow> bool" where
  "line_break c \<longleftrightarrow> byte c = 10 \<or> byte c = 13"

definition b64_decode :: "string \<Rightarrow> bool \<Rightarrow> string \<Rightarrow> bytes option" where
  "b64_decode al pad s = b64_clean al pad (filter (\<lambda>c. \<not> line_break c) s)"

abbreviation StdEncode :: "bytes \<Rightarrow> string" where "StdEncode \<equiv> b64_encode std_alphabet True"
abbreviation StdDecode :: "string \<Rightarrow> bytes option" where "StdDecode \<equiv> b64_decode std_alphabet True"
abbreviation RawStdEncode :: "bytes \<Rightarrow> string" where "RawStdEncode \<equiv> b64_encode std_alphabet False"
abbreviation RawStdDecode :: "string \<Rightarrow> bytes option" where "RawStdDecode \<equiv> b64_decode std_alphabet False"
abbreviation URLDecode :: "string \<Rightarrow> bytes option" where "URLDecode \<equiv> b64_decode url_alphabet True"
abbreviation RawURLEncode :: "bytes \<Rightarrow> string" where "RawURLEncode \<equiv> b64_encode url_alphabet False"
abbreviation RawURLDecode :: "string \<Rightarrow> bytes option" where "RawURLDecode \<equiv> b64_decode url_alphabet False"

section \<open>Groups of three bytes\<close>

lemma triple_induct [case_names Nil One Two Step]:
  assumes "P []" "\<And>a. P [a]" "\<And>a b. P [a, b]"
    and "\<And>a b c xs. P xs \<Longrightarrow> P (a # b # c # xs)"
  shows "P xs"
proof (induction xs rule: length_induct)
  case (1 xs)
  show ?case
  proof (cases xs rule: remdups_adj.cases)
    case (3 a b ys)
    then show ?thesis
      using "1.IH" assms by (cases ys) auto
  qed (use assms in auto)
qed

lemma byte_parts [simp]:
  "byte c div 16 < 16" "byte c div 16 div 16 = 0" "byte c div 64 div 4 = 0"
  using byte_less [of c] by linarith+

lemma byte_parts_mod [simp]:
  "byte c div 16 mod 16 = byte c div 16" "byte c div 64 mod 4 = byte c div 64"
  using byte_less [of c] by (auto intro: mod_less simp: less_mult_imp_div_less)

lemma line_break_pad [simp]: "\<not> line_break CHR ''=''"
  by (simp add: line_break_def byte_def)

section \<open>The codec contract\<close>

text \<open>What every encoder promises with its decoder; distinct inputs then have distinct texts.\<close>

locale codec =
  fixes enc :: "'a \<Rightarrow> 'b" and dec :: "'b \<Rightarrow> 'a option"
  assumes dec_enc: "dec (enc x) = Some x"
begin

lemma enc_inject: "enc x = enc y \<longleftrightarrow> x = y"
  using dec_enc by (metis option.inject)

lemma inj_enc: "inj enc"
  by (simp add: inj_def enc_inject)

lemma dec_None_no_image: "dec b = None \<Longrightarrow> enc x \<noteq> b"
  using dec_enc by fastforce

end

locale base64_alphabet =
  fixes al :: string
  assumes alphabet_length: "length al = 64"
    and alphabet_distinct: "distinct al"
    and alphabet_plain: "c \<in> set al \<Longrightarrow> \<not> line_break c \<and> c \<noteq> CHR ''=''"
begin

lemma index_nth: "n < 64 \<Longrightarrow> index_of (al ! n) al = Some n"
proof -
  have "n < length xs \<Longrightarrow> distinct xs \<Longrightarrow> index_of (xs ! n) xs = Some n" for xs :: string
  proof (induction xs arbitrary: n)
    case (Cons x xs)
    then show ?case by (cases n) (auto simp: nth_eq_iff_index_eq)
  qed simp
  then show "n < 64 \<Longrightarrow> index_of (al ! n) al = Some n"
    by (simp add: alphabet_length alphabet_distinct)
qed

lemma index_pad: "index_of CHR ''='' al = None"
proof -
  have "x \<notin> set xs \<Longrightarrow> index_of x xs = None" for x and xs :: string
    by (induction xs) auto
  then show ?thesis using alphabet_plain by blast
qed

lemma nth_plain: "n < 64 \<Longrightarrow> \<not> line_break (al ! n)"
  using alphabet_plain nth_mem alphabet_length by fastforce

lemma six_bit:
  "byte a div 4 < 64" "byte a mod 4 * 16 < 64" "byte a mod 4 * 16 + byte b div 16 < 64"
  "byte b mod 16 * 4 < 64" "byte b mod 16 * 4 + byte c div 64 < 64" "byte c mod 64 < 64"
  using byte_less [of a] byte_less [of b] byte_less [of c] by linarith+

lemma encode_plain: "filter (\<lambda>c. \<not> line_break c) (b64_encode al pad x) = b64_encode al pad x"
  by (induction x rule: triple_induct)
    (simp_all add: nth_plain six_bit)

lemma clean_encode: "b64_clean al pad (b64_encode al pad x) = Some x"
  by (induction x rule: triple_induct)
    (simp_all add: index_nth index_pad six_bit b64_bytes_def)

lemma decode_encode: "b64_decode al pad (b64_encode al pad x) = Some x"
  by (simp add: b64_decode_def encode_plain clean_encode)

end

sublocale base64_alphabet \<subseteq> padded: codec "b64_encode al True" "b64_decode al True"
  by unfold_locales (rule decode_encode)

sublocale base64_alphabet \<subseteq> raw: codec "b64_encode al False" "b64_decode al False"
  by unfold_locales (rule decode_encode)

interpretation std64: base64_alphabet std_alphabet
proof
  show "length std_alphabet = 64" "distinct std_alphabet" by code_simp+
  have "list_all (\<lambda>c. \<not> line_break c \<and> c \<noteq> CHR ''='') std_alphabet" by code_simp
  then show "c \<in> set std_alphabet \<Longrightarrow> \<not> line_break c \<and> c \<noteq> CHR ''=''" for c
    by (simp add: list_all_iff)
qed

interpretation url64: base64_alphabet url_alphabet
proof
  show "length url_alphabet = 64" "distinct url_alphabet" by code_simp+
  have "list_all (\<lambda>c. \<not> line_break c \<and> c \<noteq> CHR ''='') url_alphabet" by code_simp
  then show "c \<in> set url_alphabet \<Longrightarrow> \<not> line_break c \<and> c \<noteq> CHR ''=''" for c
    by (simp add: list_all_iff)
qed

section \<open>Hexadecimal is a codec\<close>

lemma hex_value_digit: "n < 16 \<Longrightarrow> hex_value (hex_digit n) = Some n"
  by (auto simp: less_Suc_eq numeral_eq_Suc hex_digit_def hex_value_def is_digit_def byte_def)

lemma nibbles: "char_of (16 * (byte c div 16) + byte c mod 16) = c"
  by simp

lemma hex_decode_encode [simp]: "hex_decode (hex_encode x) = Some x"
  by (induction x) (simp_all add: hex_value_digit nibbles del: mult_div_mod_eq)

interpretation hex: codec hex_encode hex_decode
  by unfold_locales simp

lemma hex_digit_lower: "n < 16 \<Longrightarrow> is_lower_hex (hex_digit n)"
  by (auto simp: less_Suc_eq numeral_eq_Suc hex_digit_def is_lower_hex_def is_digit_def byte_def)

lemma hex_encode_lower: "c \<in> set (hex_encode x) \<Longrightarrow> is_lower_hex c"
  by (induction x) (auto simp: hex_digit_lower)

lemma length_hex_encode [simp]: "length (hex_encode x) = 2 * length x"
  by (induction x) auto

lemma hex_decode_length: "hex_decode s = Some x \<Longrightarrow> length s = 2 * length x"
  by (induction s arbitrary: x rule: hex_decode.induct) (auto split: option.splits)

lemma lower_hex_not_space: "is_lower_hex c \<Longrightarrow> \<not> space_byte c"
  by (auto simp: is_lower_hex_def is_digit_def space_byte_def)

lemma TrimSpace_hex [simp]: "TrimSpace (hex_encode x) = hex_encode x"
proof (rule TrimSpace_id)
  show "hex_encode x = [] \<or> \<not> space_byte (hd (hex_encode x))"
    by (cases x) (auto simp: hex_digit_lower lower_hex_not_space)
  show "hex_encode x = [] \<or> \<not> space_byte (last (hex_encode x))"
    by (metis hex_encode_lower last_in_set lower_hex_not_space)
qed

lemma TrimSpace_prefixed_hex:
  "p \<noteq> [] \<Longrightarrow> \<not> space_byte (hd p) \<Longrightarrow> x \<noteq> [] \<Longrightarrow> TrimSpace (p @ hex_encode x) = p @ hex_encode x"
proof (rule TrimSpace_id)
  assume "p \<noteq> []" "\<not> space_byte (hd p)" "x \<noteq> []"
  then show "p @ hex_encode x = [] \<or> \<not> space_byte (hd (p @ hex_encode x))" by simp
  from \<open>x \<noteq> []\<close> have "hex_encode x \<noteq> []" by (cases x) auto
  then show "p @ hex_encode x = [] \<or> \<not> space_byte (last (p @ hex_encode x))"
    by (metis hex_encode_lower last_appendR last_in_set lower_hex_not_space)
qed

end
