(* ===== verification/Utf8.thy ===== *)
theory Utf8
  imports Prelude
begin

text \<open>
  UTF-8 as \<^verbatim>\<open>unicode/utf8\<close> reads it: \<open>rune_len\<close> is the length of the well-formed rune at the
  front of a byte string, \<open>runes\<close> the conversion \<^verbatim>\<open>[]rune(s)\<close> (each rune kept as its
  encoding, each ill-formed byte replaced by U+FFFD), \<open>ValidString\<close> is
  \<^verbatim>\<open>utf8.ValidString\<close>, and \<open>utf8_coerce\<close> is what \<^verbatim>\<open>string([]rune(s))\<close> and the string encoder
  of \<^verbatim>\<open>encoding/json\<close> make of a byte string.
\<close>

definition in_range :: "nat \<Rightarrow> nat \<Rightarrow> char \<Rightarrow> bool" where
  "in_range lo hi c \<longleftrightarrow> lo \<le> byte c \<and> byte c \<le> hi"

abbreviation continuation :: "char \<Rightarrow> bool" where
  "continuation \<equiv> in_range 128 191"

definition second_ok :: "char \<Rightarrow> char \<Rightarrow> bool" where
  "second_ok c d =
     (if byte c = 224 then in_range 160 191 d
      else if byte c = 237 then in_range 128 159 d
      else if byte c = 240 then in_range 144 191 d
      else if byte c = 244 then in_range 128 143 d
      else continuation d)"

fun rune_len :: "string \<Rightarrow> nat option" where
  "rune_len [] = None"
| "rune_len (c # cs) =
     (if byte c < 128 then Some 1
      else if in_range 194 223 c then
        (case cs of d # _ \<Rightarrow> if second_ok c d then Some 2 else None | _ \<Rightarrow> None)
      else if in_range 224 239 c then
        (case cs of d # e # _ \<Rightarrow> if second_ok c d \<and> continuation e then Some 3 else None
         | _ \<Rightarrow> None)
      else if in_range 240 244 c then
        (case cs of d # e # f # _ \<Rightarrow>
           if second_ok c d \<and> continuation e \<and> continuation f then Some 4 else None
         | _ \<Rightarrow> None)
      else None)"

definition replacement :: string where
  "replacement = map char_of [239, 191, 189 :: nat]"

lemma rune_len_pos: "rune_len s = Some n \<Longrightarrow> 0 < n \<and> n \<le> length s"
  by (cases s) (auto split: if_splits list.splits)

function runes :: "string \<Rightarrow> string list" where
  "runes [] = []"
| "runes (c # cs) =
     (case rune_len (c # cs) of
        None \<Rightarrow> replacement # runes cs
      | Some n \<Rightarrow> take n (c # cs) # runes (drop n (c # cs)))"
  by pat_completeness auto
termination
  by (relation "measure length") (auto simp del: rune_len.simps dest!: rune_len_pos)

function ValidString :: "string \<Rightarrow> bool" where
  "ValidString [] = True"
| "ValidString (c # cs) =
     (case rune_len (c # cs) of
        None \<Rightarrow> False
      | Some n \<Rightarrow> ValidString (drop n (c # cs)))"
  by pat_completeness auto
termination
  by (relation "measure length") (auto simp del: rune_len.simps dest!: rune_len_pos)

definition utf8_coerce :: "string \<Rightarrow> string" where
  "utf8_coerce s = concat (runes s)"

definition rune_count :: "string \<Rightarrow> nat" where
  "rune_count s = length (runes s)"

lemma utf8_coerce_valid: "ValidString s \<Longrightarrow> utf8_coerce s = s"
proof (induction s rule: ValidString.induct)
  case (2 c cs)
  from "2.prems" obtain n where n: "rune_len (c # cs) = Some n"
    and v: "ValidString (drop n (c # cs))"
    by (auto simp del: rune_len.simps split: option.splits)
  from "2.IH" [OF n v] n show ?case
    by (simp add: utf8_coerce_def del: rune_len.simps)
qed (simp add: utf8_coerce_def)

lemma rune_len_append: "rune_len s = Some n \<Longrightarrow> rune_len (s @ t) = Some n"
  by (cases s) (auto split: if_splits list.splits simp: Cons_eq_append_conv)

lemma ValidString_append: "ValidString s \<Longrightarrow> ValidString t \<Longrightarrow> ValidString (s @ t)"
proof (induction s rule: ValidString.induct)
  case (2 c cs)
  from "2.prems"(1) obtain n where n: "rune_len (c # cs) = Some n"
    and v: "ValidString (drop n (c # cs))"
    by (auto simp del: rune_len.simps split: option.splits)
  from rune_len_append [OF n] have "rune_len (c # cs @ t) = Some n" by simp
  moreover from n have "drop n (c # cs @ t) = drop n (c # cs) @ t"
    using rune_len_pos [OF n] by (cases n) auto
  ultimately show ?case using "2.IH" [OF n v "2.prems"(2)]
    by (simp del: rune_len.simps)
qed simp

lemma take_rune_valid: "rune_len s = Some n \<Longrightarrow> ValidString (take n s)"
  by (cases s) (auto split: if_splits list.splits)

lemma runes_valid: "r \<in> set (runes s) \<Longrightarrow> ValidString r"
proof (induction s rule: runes.induct)
  case (2 c cs)
  have "ValidString replacement"
    by (simp add: replacement_def in_range_def second_ok_def)
  with 2 show ?case
    by (auto simp del: rune_len.simps simp: take_rune_valid split: option.splits)
qed simp

lemma concat_valid: "\<forall>r \<in> set rs. ValidString r \<Longrightarrow> ValidString (concat rs)"
  by (induction rs) (auto intro: ValidString_append)

lemma ValidString_coerce [simp]: "ValidString (utf8_coerce s)"
  by (auto simp: utf8_coerce_def intro: concat_valid runes_valid)

interpretation utf8: normaliser utf8_coerce
  by unfold_locales (simp add: utf8_coerce_valid)

lemma runes_nonempty: "r \<in> set (runes s) \<Longrightarrow> r \<noteq> []"
proof (induction s rule: runes.induct)
  case (2 c cs)
  then show ?case
    by (auto simp del: rune_len.simps simp: replacement_def split: option.splits
        dest!: rune_len_pos)
qed simp

lemma ascii_valid: "\<forall>c \<in> set s. byte c < 128 \<Longrightarrow> ValidString s"
  by (induction s) auto

end
