(* ===== verification/Store_Crypto.thy ===== *)
theory Store_Crypto
  imports Encoding Utf8
begin

text \<open>
  \<^verbatim>\<open>internal/store/crypto.go\<close>: parsing the data encryption key and sealing tokens with
  AES-256-GCM.

  The primitives of \<^verbatim>\<open>crypto/sha256\<close>, \<^verbatim>\<open>crypto/aes\<close> and \<^verbatim>\<open>crypto/cipher\<close> are the fields of a
  \<open>crypto\<close> record that every definition takes as an argument.  The predicate \<open>crypto_ok\<close>
  collects what the code relies on: digests of 32 bytes, and an authenticated cipher that
  opens what it sealed under the same key, nonce and additional data.  Random bytes are
  arguments too: \<^const>\<open>None\<close> is a failing random source.

  The locale \<open>token_vault\<close> is the contract that the identity store relies on; the
  interpretation at the end discharges it for the modelled cipher.
\<close>

record crypto =
  Sum256 :: "bytes \<Rightarrow> bytes"
  Seal :: "bytes \<Rightarrow> bytes \<Rightarrow> bytes \<Rightarrow> bytes \<Rightarrow> bytes"
  OpenSealed :: "bytes \<Rightarrow> bytes \<Rightarrow> bytes \<Rightarrow> bytes \<Rightarrow> bytes option"

definition crypto_ok :: "crypto \<Rightarrow> bool" where
  "crypto_ok C \<longleftrightarrow>
     (\<forall>x. length (Sum256 C x) = 32) \<and>
     (\<forall>k n p a. length (Seal C k n p a) = length p + 16) \<and>
     (\<forall>k n p a. length k = 32 \<longrightarrow> length n = 12 \<longrightarrow> OpenSealed C k n (Seal C k n p a) a = Some p)"

datatype crypto_error =
    KeyRequired
  | KeyMalformed
  | KeyLength
  | CipherUnavailable
  | NonceGeneration
  | EncryptionKeyMissing
  | NonceInvalid
  | CiphertextInvalid
  | AuthenticationFailed

definition encryptionKeySize :: nat where
  "encryptionKeySize = 32"

definition nonceSize :: nat where
  "nonceSize = 12"

definition overhead :: nat where
  "overhead = 16"

text \<open>A cipher is determined by its key: the AES block and the GCM mode are built from it.\<close>

record tokenCipher =
  cipherKey :: bytes

fun first_of_size :: "nat \<Rightarrow> bytes option list \<Rightarrow> bytes option" where
  "first_of_size n [] = None"
| "first_of_size n (None # ds) = first_of_size n ds"
| "first_of_size n (Some d # ds) = (if length d = n then Some d else first_of_size n ds)"

definition ParseEncryptionKey :: "string \<Rightarrow> crypto_error + bytes" where
  "ParseEncryptionKey value =
     (let v = TrimSpace value in
      if v = [] then Inl KeyRequired
      else (case first_of_size encryptionKeySize [hex_decode v, StdDecode v, RawStdDecode v] of
              Some k \<Rightarrow> Inr k
            | None \<Rightarrow> Inl KeyMalformed))"

text \<open>
  \<^verbatim>\<open>aes.NewCipher\<close> accepts every key of 32 bytes and \<^verbatim>\<open>cipher.NewGCM\<close> every block cipher of
  block size 16, so the code's two further error returns cannot be taken.
\<close>

definition newTokenCipher :: "bytes \<Rightarrow> crypto_error + tokenCipher" where
  "newTokenCipher key =
     (if length key \<noteq> encryptionKeySize then Inl KeyLength else Inr \<lparr>cipherKey = key\<rparr>)"

definition tokenAAD :: "string \<Rightarrow> bytes" where
  "tokenAAD identityID = ''codex-access-token-sidecar:identity:v3:'' @ TrimSpace identityID"

text \<open>\<^verbatim>\<open>io.ReadFull(rand.Reader, buffer)\<close>: all the bytes asked for, or an error.\<close>

definition ReadFull :: "nat \<Rightarrow> bytes option \<Rightarrow> bytes option" where
  "ReadFull n src =
     (case src of None \<Rightarrow> None | Some b \<Rightarrow> if length b < n then None else Some (take n b))"

definition encrypt ::
  "crypto \<Rightarrow> tokenCipher option \<Rightarrow> bytes option \<Rightarrow> string \<Rightarrow> string \<Rightarrow> crypto_error + string \<times> string" where
  "encrypt C c rnd identityID token =
     (case c of
        None \<Rightarrow> Inl CipherUnavailable
      | Some tc \<Rightarrow>
          (case ReadFull nonceSize rnd of
             None \<Rightarrow> Inl NonceGeneration
           | Some nonce \<Rightarrow>
               Inr (RawStdEncode nonce,
                    RawStdEncode (Seal C (cipherKey tc) nonce token (tokenAAD identityID)))))"

definition decrypt ::
  "crypto \<Rightarrow> tokenCipher option \<Rightarrow> string \<Rightarrow> string \<Rightarrow> string \<Rightarrow> crypto_error + string" where
  "decrypt C c identityID encodedNonce encodedCiphertext =
     (case c of
        None \<Rightarrow> Inl EncryptionKeyMissing
      | Some tc \<Rightarrow>
          (case RawStdDecode (TrimSpace encodedNonce) of
             None \<Rightarrow> Inl NonceInvalid
           | Some nonce \<Rightarrow>
               if length nonce \<noteq> nonceSize then Inl NonceInvalid
               else (case RawStdDecode (TrimSpace encodedCiphertext) of
                       None \<Rightarrow> Inl CiphertextInvalid
                     | Some ct \<Rightarrow>
                         if length ct < overhead then Inl CiphertextInvalid
                         else (case OpenSealed C (cipherKey tc) nonce ct (tokenAAD identityID) of
                                 None \<Rightarrow> Inl AuthenticationFailed
                               | Some plain \<Rightarrow> Inr plain))))"

definition cipher_ok :: "tokenCipher option \<Rightarrow> bool" where
  "cipher_ok c \<longleftrightarrow> (\<forall>tc. c = Some tc \<longrightarrow> length (cipherKey tc) = encryptionKeySize)"

lemmas crypto_consts = encryptionKeySize_def nonceSize_def overhead_def

section \<open>Keys\<close>

lemma newTokenCipher_ok: "newTokenCipher key = Inr tc \<Longrightarrow> cipher_ok (Some tc)"
  by (auto simp: newTokenCipher_def cipher_ok_def split: if_splits)

lemma first_of_size_length: "first_of_size n ds = Some d \<Longrightarrow> length d = n"
  by (induction n ds rule: first_of_size.induct) (auto split: if_splits)

lemma b64_padded_length: "b64_clean al True s = Some x \<Longrightarrow> length s mod 4 = 0"
  by (induction al True s arbitrary: x rule: b64_clean.induct) (auto split: option.splits if_splits)

lemma std_alphabet_plain: "n < 64 \<Longrightarrow> \<not> space_byte (std_alphabet ! n)"
proof -
  have "\<forall>c \<in> set std_alphabet. \<not> space_byte c"
    by (simp add: std_alphabet_def space_byte_def byte_def)
  then show "n < 64 \<Longrightarrow> \<not> space_byte (std_alphabet ! n)"
    by (simp add: std64.alphabet_length)
qed

lemma std_encode_plain: "\<forall>c \<in> set (b64_encode std_alphabet pad x). \<not> space_byte c"
proof -
  have "\<not> space_byte CHR ''=''" by (simp add: space_byte_def byte_def)
  then show ?thesis
    by (induction x rule: triple_induct) (simp_all add: std_alphabet_plain std64.six_bit)
qed

lemma TrimSpace_base64 [simp]:
  "TrimSpace (b64_encode std_alphabet pad x) = b64_encode std_alphabet pad x"
  by (rule TrimSpace_plain) (rule std_encode_plain)

lemma length_b64_encode:
  "length (b64_encode al True x) = (length x + 2) div 3 * 4"
  "length (b64_encode al False x) = (length x * 4 + 2) div 3"
  by (induction x rule: triple_induct) (simp_all, presburger)

lemma ParseEncryptionKey_length:
  "ParseEncryptionKey v = Inr k \<Longrightarrow> length k = 32"
  by (auto simp: ParseEncryptionKey_def Let_def crypto_consts dest: first_of_size_length
      split: if_splits option.splits)

lemma ParseEncryptionKey_hex: "length k = 32 \<Longrightarrow> ParseEncryptionKey (hex_encode k) = Inr k"
  by (simp add: ParseEncryptionKey_def crypto_consts flip: length_0_conv)

lemma hex_decode_wrong_length:
  "length s \<noteq> 2 * n \<Longrightarrow> first_of_size n (hex_decode s # ds) = first_of_size n ds"
  by (cases "hex_decode s") (auto dest: hex_decode_length)

lemma ParseEncryptionKey_std:
  assumes "length k = 32"
  shows "ParseEncryptionKey (StdEncode k) = Inr k"
proof -
  have "length (StdEncode k) = 44" using assms by (simp add: length_b64_encode)
  then have "StdEncode k \<noteq> []" "length (StdEncode k) \<noteq> 2 * 32" by auto
  with assms show ?thesis
    by (simp add: ParseEncryptionKey_def crypto_consts hex_decode_wrong_length
        std64.padded.dec_enc del: first_of_size.simps(2))
qed

lemma ParseEncryptionKey_raw:
  assumes "length k = 32"
  shows "ParseEncryptionKey (RawStdEncode k) = Inr k"
proof -
  have len: "length (RawStdEncode k) = 43" using assms by (simp add: length_b64_encode)
  have "StdDecode (RawStdEncode k) = None"
  proof (cases "StdDecode (RawStdEncode k)")
    case (Some x)
    with b64_padded_length [of std_alphabet "RawStdEncode k" x] len show ?thesis
      by (simp add: b64_decode_def std64.encode_plain)
  qed
  moreover from len have "RawStdEncode k \<noteq> []" "length (RawStdEncode k) \<noteq> 2 * 32" by auto
  ultimately show ?thesis using assms
    by (simp add: ParseEncryptionKey_def crypto_consts hex_decode_wrong_length std64.raw.dec_enc)
qed

section \<open>The token vault\<close>

text \<open>
  What the store relies on: a token sealed under an identity opens again under the same
  identity, with the nonce and ciphertext exactly as they were written to disk.
\<close>

locale token_vault =
  fixes ok :: "'c \<Rightarrow> 'k option \<Rightarrow> bool"
    and enc :: "'c \<Rightarrow> 'k option \<Rightarrow> 'r \<Rightarrow> string \<Rightarrow> string \<Rightarrow> 'e + string \<times> string"
    and dec :: "'c \<Rightarrow> 'k option \<Rightarrow> string \<Rightarrow> string \<Rightarrow> string \<Rightarrow> 'e + string"
  assumes open_sealed: "ok C c \<Longrightarrow> enc C c r i t = Inr (n, x) \<Longrightarrow> TrimSpace j = TrimSpace i \<Longrightarrow>
      dec C c j n x = Inr t"
    and no_key_no_open: "dec C None i n x \<noteq> Inr t"
    and sealed_plain: "enc C c r i t = Inr (n, x) \<Longrightarrow> ValidString n \<and> ValidString x"
begin

lemma opens_to_one_token:
  "ok C c \<Longrightarrow> enc C c r i t = Inr (n, x) \<Longrightarrow> enc C c r' i t' = Inr (n, x) \<Longrightarrow> t = t'"
  by (metis open_sealed sum.inject(2))

end

definition vault_ok :: "crypto \<Rightarrow> tokenCipher option \<Rightarrow> bool" where
  "vault_ok C c \<longleftrightarrow> crypto_ok C \<and> cipher_ok c"

lemma ReadFull_length: "ReadFull n src = Some b \<Longrightarrow> length b = n"
  by (auto simp: ReadFull_def split: option.splits if_splits)

lemma decrypt_encrypt:
  assumes "vault_ok C c" and "encrypt C c rnd i t = Inr (n, x)" and "TrimSpace j = TrimSpace i"
  shows "decrypt C c j n x = Inr t"
proof -
  from assms(2) obtain tc nonce where c: "c = Some tc" and nonce: "ReadFull nonceSize rnd = Some nonce"
    and n: "n = RawStdEncode nonce"
    and x: "x = RawStdEncode (Seal C (cipherKey tc) nonce t (tokenAAD i))"
    by (auto simp: encrypt_def split: option.splits)
  have aad: "tokenAAD j = tokenAAD i" by (simp add: tokenAAD_def assms(3))
  from assms(1) c ReadFull_length [OF nonce] show ?thesis
    by (simp add: decrypt_def n x aad std64.raw.dec_enc vault_ok_def crypto_ok_def cipher_ok_def
        crypto_consts)
qed

lemma std_encode_valid: "ValidString (b64_encode std_alphabet pad x)"
proof (rule ascii_valid)
  show "\<forall>c \<in> set (b64_encode std_alphabet pad x). byte c < 128"
    using std_encode_plain [of pad x] by (auto simp: space_byte_def not_le)
qed

interpretation vault: token_vault vault_ok encrypt decrypt
proof unfold_locales
  show "vault_ok C c \<Longrightarrow> encrypt C c r i t = Inr (n, x) \<Longrightarrow> TrimSpace j = TrimSpace i \<Longrightarrow>
      decrypt C c j n x = Inr t" for C c r i t n x j
    by (rule decrypt_encrypt)
  show "decrypt C None i n x \<noteq> Inr t" for C i n x t
    by (simp add: decrypt_def)
  show "encrypt C c r i t = Inr (n, x) \<Longrightarrow> ValidString n \<and> ValidString x" for C c r i t n x
    by (auto simp: encrypt_def std_encode_valid split: option.splits)
qed

end
