(* ===== verification/Identity_Store.thy ===== *)
theory Identity_Store
  imports Store_Crypto "HOL-Library.List_Lexorder" "HOL-Library.Char_ord"
begin

text \<open>
  \<^verbatim>\<open>internal/store/store.go\<close>: the persisted identities, their opaque client keys, and the
  owner-only files behind them.

  The state is a \<open>Store\<close> (the three in-memory maps and the optional cipher) and a \<open>disk\<close>
  (the data directory: file name to node).  A file's bytes are represented by what
  \<^verbatim>\<open>json.Unmarshal\<close> reads from them into a \<^verbatim>\<open>persistedIdentity\<close>, the only way the code looks
  at them; \<open>json_marshal\<close> is \<^verbatim>\<open>json.MarshalIndent\<close> seen the same way (ill-formed UTF-8
  becomes U+FFFD, a time outside the years 0 to 9999 is an error).  Identities are never
  changed after they are published in the maps, so the two maps hold values where the code
  holds pointers.

  Every operating-system call the code makes may fail: \<open>fails\<close> says which do.  Random bytes
  are arguments.  An instant is its distance in nanoseconds from \<^verbatim>\<open>time.Time{}\<close>, so that zero
  is the zero time and \<^verbatim>\<open>UTC()\<close> is the identity.
\<close>

section \<open>Data\<close>

type_synonym time = int

record Identity =
  idVersion :: int
  idID :: string
  idToken :: string
  idClientKey :: string
  idClientKeyHash :: string
  idCreatedAt :: time
  idKind :: string
  idEmail :: string
  idPlanType :: string
  idAccountID :: string
  idAccountScoped :: bool
  idExpiresAt :: time
  idFedRAMP :: bool

record persistedIdentity =
  pVersion :: int
  pID :: string
  pToken :: string
  pTokenNonce :: string
  pTokenCiphertext :: string
  pClientKey :: string
  pClientKeyHash :: string
  pCreatedAt :: time
  pKind :: string
  pEmail :: string
  pPlanType :: string
  pAccountID :: string
  pAccountScoped :: bool
  pExpiresAt :: "time option"
  pFedRAMP :: bool

record PublicIdentity =
  pubID :: string
  pubCreatedAt :: time
  pubKind :: string
  pubEmail :: string
  pubPlanType :: string
  pubAccountID :: string
  pubAccountScoped :: bool
  pubExpiresAt :: "time option"
  pubFedRAMP :: bool

record CredentialMetadata =
  mdKind :: string
  mdEmail :: string
  mdPlanType :: string
  mdAccountID :: string
  mdAccountScoped :: bool
  mdExpiresAt :: time
  mdFedRAMP :: bool

type_synonym path = "string \<times> string"

record Store =
  stDir :: string
  byID :: "Identity gomap"
  byKeyHash :: "Identity gomap"
  fileByID :: "path gomap"
  stCipher :: "tokenCipher option"

datatype json_doc = Doc persistedIdentity | Undecodable bytes

record fnode =
  nodeDir :: bool
  nodeSymlink :: bool
  nodeRegular :: bool
  nodePerm :: nat
  nodeData :: json_doc

record disk =
  realDirectory :: bool
  entries :: "fnode gomap"

datatype os_op =
    MkdirAll | LstatDir | ChmodDir | ReadDir | SyncDir | CreateTemp
  | EntryInfo string | ReadFile string | WriteTemp string | Rename string
  | Remove string | LstatFile string

record os_env =
  windows :: bool
  fails :: "os_op \<Rightarrow> bool"

datatype store_error =
    DirectoryRequired | CreateDirectoryFailed | NotARealDirectory | SecureDirectoryFailed
  | ReadDirectoryFailed | NotRegular string | PermissionsTooBroad string | ReadFailed string
  | FileInvalid string | FileDuplicate string | EncryptFileFailed string
  | TokenRequired | AccountIDRequired | ClientKeyFailed | EncodeFailed | NotExist
  | TempFailed | WriteFailed | ReplaceFailed | SyncFailed | DeleteFailed
  | SnapshotNotRegular | SnapshotRequired | IdentityRequired | JsonInvalid
  | PlaintextInEncrypted | VersionUnsupported | StatFailed | CryptoError crypto_error

definition clientKeyPrefix :: string where "clientKeyPrefix = ''cais_''"
definition identityVersionLegacyHash :: int where "identityVersionLegacyHash = 1"
definition identityVersionPlaintext :: int where "identityVersionPlaintext = 2"
definition identityVersionEncrypted :: int where "identityVersionEncrypted = 3"

lemmas store_consts = clientKeyPrefix_def identityVersionLegacyHash_def
  identityVersionPlaintext_def identityVersionEncrypted_def

section \<open>Identifiers and keys\<close>

definition hexSum256 :: "crypto \<Rightarrow> bytes \<Rightarrow> string" where
  "hexSum256 C x = hex_encode (Sum256 C x)"

definition IdentityID :: "crypto \<Rightarrow> string \<Rightarrow> string" where
  "IdentityID C token = ''agent-'' @ hex_encode (take 6 (Sum256 C (TrimSpace token)))"

definition nul :: string where "nul = [char_of (0 :: nat)]"

definition IdentityIDForAccount :: "crypto \<Rightarrow> string \<Rightarrow> string \<Rightarrow> string" where
  "IdentityIDForAccount C token accountID =
     (let token = TrimSpace token; accountID = TrimSpace accountID in
      if accountID = [] then IdentityID C token
      else ''agent-'' @ hex_encode
             (take 6 (Sum256 C (''codex-account-scoped-v1'' @ nul @ token @ nul @ accountID))))"

definition randomClientKey :: "bytes option \<Rightarrow> string option" where
  "randomClientKey rnd =
     map_option (\<lambda>raw. clientKeyPrefix @ hex_encode raw) (ReadFull 32 rnd)"

definition validIdentity :: "crypto \<Rightarrow> Identity \<Rightarrow> bool" where
  "validIdentity C i =
     (if idVersion i \<noteq> identityVersionLegacyHash \<and> idVersion i \<noteq> identityVersionPlaintext
         \<and> idVersion i \<noteq> identityVersionEncrypted then False
      else if TrimSpace (idID i) = [] \<or> TrimSpace (idToken i) = [] then False
      else if idAccountScoped i \<and> TrimSpace (idAccountID i) = [] then False
      else if idID i \<noteq> (if idAccountScoped i then IdentityIDForAccount C (idToken i) (idAccountID i)
                         else IdentityID C (idToken i)) then False
      else (case hex_decode (idClientKeyHash i) of
              None \<Rightarrow> False
            | Some d \<Rightarrow>
                if length d \<noteq> 32 then False
                else if idClientKey i = [] then
                  idVersion i = identityVersionLegacyHash \<or> idVersion i = identityVersionEncrypted
                else if \<not> HasPrefix (idClientKey i) clientKeyPrefix then False
                else idClientKeyHash i = hexSum256 C (idClientKey i)))"

section \<open>Encoding\<close>

definition timePointer :: "time \<Rightarrow> time option" where
  "timePointer t = (if t = 0 then None else Some t)"

definition timeValue :: "time option \<Rightarrow> time" where
  "timeValue t = (case t of None \<Rightarrow> 0 | Some v \<Rightarrow> v)"

text \<open>
  \<^verbatim>\<open>time.MarshalJSON\<close> refuses years outside 0 to 9999: 366 days before the zero time to 3652059
  days after it.
\<close>

definition day :: int where "day = 86400 * 10 ^ 9"

definition time_marshals :: "time \<Rightarrow> bool" where
  "time_marshals t \<longleftrightarrow> - (366 * day) \<le> t \<and> t < 3652059 * day"

definition json_marshal :: "persistedIdentity \<Rightarrow> json_doc option" where
  "json_marshal p =
     (if \<not> time_marshals (pCreatedAt p) \<or> \<not> time_marshals (timeValue (pExpiresAt p)) then None
      else Some (Doc \<lparr>pVersion = pVersion p, pID = utf8_coerce (pID p),
             pToken = utf8_coerce (pToken p), pTokenNonce = utf8_coerce (pTokenNonce p),
             pTokenCiphertext = utf8_coerce (pTokenCiphertext p),
             pClientKey = utf8_coerce (pClientKey p),
             pClientKeyHash = utf8_coerce (pClientKeyHash p), pCreatedAt = pCreatedAt p,
             pKind = utf8_coerce (pKind p), pEmail = utf8_coerce (pEmail p),
             pPlanType = utf8_coerce (pPlanType p), pAccountID = utf8_coerce (pAccountID p),
             pAccountScoped = pAccountScoped p, pExpiresAt = pExpiresAt p,
             pFedRAMP = pFedRAMP p\<rparr>))"

definition persist :: "Identity \<Rightarrow> persistedIdentity" where
  "persist i = \<lparr>pVersion = idVersion i, pID = idID i, pToken = [], pTokenNonce = [],
     pTokenCiphertext = [], pClientKey = idClientKey i, pClientKeyHash = idClientKeyHash i,
     pCreatedAt = idCreatedAt i, pKind = idKind i, pEmail = idEmail i, pPlanType = idPlanType i,
     pAccountID = idAccountID i, pAccountScoped = idAccountScoped i,
     pExpiresAt = timePointer (idExpiresAt i), pFedRAMP = idFedRAMP i\<rparr>"

definition marshalled :: "persistedIdentity \<Rightarrow> store_error + json_doc" where
  "marshalled p = (case json_marshal p of None \<Rightarrow> Inl EncodeFailed | Some d \<Rightarrow> Inr d)"

definition encodeIdentity ::
  "crypto \<Rightarrow> tokenCipher option \<Rightarrow> bytes option \<Rightarrow> Identity \<Rightarrow> store_error + json_doc" where
  "encodeIdentity C c rnd i =
     (if \<not> validIdentity C i then Inl IdentityRequired
      else if c \<noteq> None then
        (case encrypt C c rnd (idID i) (idToken i) of
           Inl e \<Rightarrow> Inl (CryptoError e)
         | Inr (nonce, ciphertext) \<Rightarrow>
             marshalled ((persist i)\<lparr>pVersion := identityVersionEncrypted,
               pTokenNonce := nonce, pTokenCiphertext := ciphertext\<rparr>))
      else if idVersion i = identityVersionEncrypted then Inl (CryptoError EncryptionKeyMissing)
      else marshalled ((persist i)\<lparr>pToken := idToken i\<rparr>))"

definition decodeIdentity ::
  "crypto \<Rightarrow> tokenCipher option \<Rightarrow> json_doc \<Rightarrow> store_error + Identity" where
  "decodeIdentity C c doc =
     (case doc of
        Undecodable raw \<Rightarrow> Inl JsonInvalid
      | Doc p \<Rightarrow>
          (let i = \<lparr>idVersion = pVersion p, idID = TrimSpace (pID p), idToken = [],
                 idClientKey = TrimSpace (pClientKey p),
                 idClientKeyHash = TrimSpace (pClientKeyHash p),
                 idCreatedAt = pCreatedAt p, idKind = TrimSpace (pKind p),
                 idEmail = TrimSpace (pEmail p), idPlanType = TrimSpace (pPlanType p),
                 idAccountID = TrimSpace (pAccountID p), idAccountScoped = pAccountScoped p,
                 idExpiresAt = timeValue (pExpiresAt p), idFedRAMP = pFedRAMP p\<rparr>
           in if pVersion p = identityVersionLegacyHash \<or> pVersion p = identityVersionPlaintext
              then Inr (i\<lparr>idToken := TrimSpace (pToken p)\<rparr>)
              else if pVersion p = identityVersionEncrypted then
                if TrimSpace (pToken p) \<noteq> [] then Inl PlaintextInEncrypted
                else (case decrypt C c (idID i) (pTokenNonce p) (pTokenCiphertext p) of
                        Inl e \<Rightarrow> Inl (CryptoError e)
                      | Inr t \<Rightarrow> Inr (i\<lparr>idToken := TrimSpace t\<rparr>))
              else Inl VersionUnsupported))"

definition publicIdentity :: "Identity \<Rightarrow> PublicIdentity" where
  "publicIdentity i = \<lparr>pubID = idID i, pubCreatedAt = idCreatedAt i, pubKind = idKind i,
     pubEmail = idEmail i, pubPlanType = idPlanType i, pubAccountID = idAccountID i,
     pubAccountScoped = idAccountScoped i, pubExpiresAt = timePointer (idExpiresAt i),
     pubFedRAMP = idFedRAMP i\<rparr>"

section \<open>The file system\<close>

definition owner_only :: "json_doc \<Rightarrow> fnode" where
  "owner_only d = \<lparr>nodeDir = False, nodeSymlink = False, nodeRegular = True,
     nodePerm = 384, nodeData = d\<rparr>"

definition syncDirectory :: "os_env \<Rightarrow> bool" where
  "syncDirectory os \<longleftrightarrow> windows os \<or> \<not> fails os SyncDir"

text \<open>
  \<^verbatim>\<open>writeOwnerOnlyAtomic\<close>: the data goes to a temporary file (removed on every failure) that is
  renamed over the target.  A failing directory sync is reported after the file has been
  replaced; on Windows the target is removed before the rename.
\<close>

definition writeOwnerOnlyAtomic ::
  "os_env \<Rightarrow> string \<Rightarrow> json_doc \<Rightarrow> disk \<Rightarrow> (store_error + unit) \<times> disk" where
  "writeOwnerOnlyAtomic os name data d =
     (if fails os CreateTemp then (Inl TempFailed, d)
      else if fails os (WriteTemp name) then (Inl WriteFailed, d)
      else (let d1 = (if windows os then d\<lparr>entries := map_del name (entries d)\<rparr> else d) in
            if fails os (Rename name) then (Inl ReplaceFailed, d1)
            else (let d2 = d1\<lparr>entries := map_put name (owner_only data) (entries d1)\<rparr> in
                  if syncDirectory os then (Inr (), d2) else (Inl SyncFailed, d2))))"

definition identityFileName :: "string \<Rightarrow> string" where
  "identityFileName i = ''identity-'' @ TrimPrefix i ''agent-'' @ ''.json''"

section \<open>Opening a store\<close>

text \<open>
  One entry of the data directory: skipped, refused, or loaded and perhaps re-encrypted with a
  fresh nonce (the argument \<open>rnd\<close> gives the random bytes read for each file name).
\<close>

definition loadIdentityFile ::
  "crypto \<Rightarrow> os_env \<Rightarrow> (string \<Rightarrow> bytes option) \<Rightarrow> string \<times> fnode \<Rightarrow> Store \<times> disk \<Rightarrow>
   (store_error + Store) \<times> disk" where
  "loadIdentityFile C os rnd e sd =
     (case e of (name, node) \<Rightarrow> (case sd of (s, d) \<Rightarrow>
       if nodeDir node \<or> nodeSymlink node \<or> \<not> HasSuffix (ToLower name) ''.json'' then (Inr s, d)
       else if fails os (EntryInfo name) \<or> \<not> nodeRegular node then (Inl (NotRegular name), d)
       else if \<not> windows os \<and> nodePerm node mod 64 \<noteq> 0 then (Inl (PermissionsTooBroad name), d)
       else if fails os (ReadFile name) then (Inl (ReadFailed name), d)
       else (case decodeIdentity C (stCipher s) (nodeData node) of
               Inl e \<Rightarrow> (Inl (FileInvalid name), d)
             | Inr i \<Rightarrow>
                 if \<not> validIdentity C i then (Inl (FileInvalid name), d)
                 else if map_get (byID s) (idID i) \<noteq> None
                         \<or> map_get (byKeyHash s) (idClientKeyHash i) \<noteq> None
                   then (Inl (FileDuplicate name), d)
                 else
                   (let migrate = stCipher s \<noteq> None \<and> idVersion i \<noteq> identityVersionEncrypted;
                        i = (if migrate then i\<lparr>idVersion := identityVersionEncrypted\<rparr> else i);
                        s' = s\<lparr>byID := map_put (idID i) i (byID s),
                               byKeyHash := map_put (idClientKeyHash i) i (byKeyHash s),
                               fileByID := map_put (idID i) (stDir s, name) (fileByID s)\<rparr>
                    in if \<not> migrate then (Inr s', d)
                       else (case encodeIdentity C (stCipher s) (rnd name) i of
                               Inl e \<Rightarrow> (Inl (EncryptFileFailed name), d)
                             | Inr data \<Rightarrow>
                                 (case writeOwnerOnlyAtomic os name data d of
                                    (Inl e, d') \<Rightarrow> (Inl (EncryptFileFailed name), d')
                                  | (Inr _, d') \<Rightarrow> (Inr s', d')))))))"

fun loadIdentityFiles ::
  "crypto \<Rightarrow> os_env \<Rightarrow> (string \<Rightarrow> bytes option) \<Rightarrow> (string \<times> fnode) list \<Rightarrow> Store \<times> disk \<Rightarrow>
   (store_error + Store) \<times> disk" where
  "loadIdentityFiles C os rnd [] (s, d) = (Inr s, d)"
| "loadIdentityFiles C os rnd (e # es) (s, d) =
     (case loadIdentityFile C os rnd e (s, d) of
        (Inl err, d') \<Rightarrow> (Inl err, d')
      | (Inr s', d') \<Rightarrow> loadIdentityFiles C os rnd es (s', d'))"

definition emptyStore :: "string \<Rightarrow> tokenCipher option \<Rightarrow> Store" where
  "emptyStore dir c = \<lparr>stDir = dir, byID = [], byKeyHash = [], fileByID = [], stCipher = c\<rparr>"

definition Open ::
  "crypto \<Rightarrow> os_env \<Rightarrow> (string \<Rightarrow> bytes option) \<Rightarrow> bytes option \<Rightarrow> string \<Rightarrow> disk \<Rightarrow> (store_error + Store) \<times> disk" where
  "Open C os rnd key dir d =
     (let dir = TrimSpace dir in
      if dir = [] then (Inl DirectoryRequired, d)
      else if fails os MkdirAll then (Inl CreateDirectoryFailed, d)
      else if fails os LstatDir \<or> \<not> realDirectory d then (Inl NotARealDirectory, d)
      else if \<not> windows os \<and> fails os ChmodDir then (Inl SecureDirectoryFailed, d)
      else (case (case key of None \<Rightarrow> Inr None | Some k \<Rightarrow> map_sum id Some (newTokenCipher k)) of
              Inl e \<Rightarrow> (Inl (CryptoError e), d)
            | Inr c \<Rightarrow>
                if fails os ReadDir then (Inl ReadDirectoryFailed, d)
                else loadIdentityFiles C os rnd (sort_key fst (entries d)) (emptyStore dir c, d)))"

section \<open>Operations\<close>

definition publish :: "Identity \<Rightarrow> path \<Rightarrow> Store \<Rightarrow> Store" where
  "publish i p s =
     (let keys = (case map_get (byID s) (idID i) of
                    None \<Rightarrow> byKeyHash s
                  | Some previous \<Rightarrow> map_del (idClientKeyHash previous) (byKeyHash s))
      in s\<lparr>byID := map_put (idID i) i (byID s),
           byKeyHash := map_put (idClientKeyHash i) i keys,
           fileByID := map_put (idID i) p (fileByID s)\<rparr>)"

text \<open>
  The tail that an import and a restore share: encode, replace the file, then publish the
  identity in the maps.
\<close>

definition commitIdentity ::
  "crypto \<Rightarrow> os_env \<Rightarrow> bytes option \<Rightarrow> Identity \<Rightarrow> Store \<times> disk \<Rightarrow>
   (store_error + unit) \<times> Store \<times> disk" where
  "commitIdentity C os rnd i sd =
     (case sd of (s, d) \<Rightarrow>
      let name = identityFileName (idID i) in
      case encodeIdentity C (stCipher s) rnd i of
        Inl e \<Rightarrow> (Inl EncodeFailed, s, d)
      | Inr data \<Rightarrow>
          (case writeOwnerOnlyAtomic os name data d of
             (Inl e, d') \<Rightarrow> (Inl e, s, d')
           | (Inr _, d') \<Rightarrow> (Inr (), publish i (stDir s, name) s, d')))"

record entropy =
  keyRandom :: "bytes option"
  nonceRandom :: "bytes option"

definition newIdentity ::
  "crypto \<Rightarrow> tokenCipher option \<Rightarrow> string \<Rightarrow> string \<Rightarrow> CredentialMetadata \<Rightarrow> time \<Rightarrow> Identity" where
  "newIdentity C c token clientKey md now =
     (let accountID = TrimSpace (mdAccountID md) in
      \<lparr>idVersion = (if c = None then identityVersionPlaintext else identityVersionEncrypted),
       idID = (if mdAccountScoped md then IdentityIDForAccount C token accountID
               else IdentityID C token),
       idToken = token, idClientKey = clientKey, idClientKeyHash = hexSum256 C clientKey,
       idCreatedAt = now, idKind = TrimSpace (mdKind md), idEmail = TrimSpace (mdEmail md),
       idPlanType = TrimSpace (mdPlanType md), idAccountID = accountID,
       idAccountScoped = mdAccountScoped md, idExpiresAt = mdExpiresAt md,
       idFedRAMP = mdFedRAMP md\<rparr>)"

definition ImportWithMetadata ::
  "crypto \<Rightarrow> os_env \<Rightarrow> entropy \<Rightarrow> string \<Rightarrow> CredentialMetadata \<Rightarrow> time \<Rightarrow> Store \<times> disk \<Rightarrow>
   (store_error + PublicIdentity \<times> string) \<times> Store \<times> disk" where
  "ImportWithMetadata C os r token md now sd =
     (case sd of (s, d) \<Rightarrow>
      let token = TrimSpace token in
      if token = [] then (Inl TokenRequired, s, d)
      else if mdAccountScoped md \<and> TrimSpace (mdAccountID md) = [] then (Inl AccountIDRequired, s, d)
      else (case randomClientKey (keyRandom r) of
              None \<Rightarrow> (Inl ClientKeyFailed, s, d)
            | Some clientKey \<Rightarrow>
                (let i = newIdentity C (stCipher s) token clientKey md now in
                 case commitIdentity C os (nonceRandom r) i (s, d) of
                   (Inl e, sd') \<Rightarrow> (Inl e, sd')
                 | (Inr _, sd') \<Rightarrow> (Inr (publicIdentity i, clientKey), sd'))))"

definition emptyMetadata :: CredentialMetadata where
  "emptyMetadata = \<lparr>mdKind = [], mdEmail = [], mdPlanType = [], mdAccountID = [],
     mdAccountScoped = False, mdExpiresAt = 0, mdFedRAMP = False\<rparr>"

definition Import ::
  "crypto \<Rightarrow> os_env \<Rightarrow> entropy \<Rightarrow> string \<Rightarrow> time \<Rightarrow> Store \<times> disk \<Rightarrow>
   (store_error + PublicIdentity \<times> string) \<times> Store \<times> disk" where
  "Import C os r token now sd = ImportWithMetadata C os r token emptyMetadata now sd"

definition Lookup :: "crypto \<Rightarrow> Store \<Rightarrow> string \<Rightarrow> Identity option" where
  "Lookup C s clientKey =
     (if \<not> HasPrefix clientKey clientKeyPrefix then None
      else (case map_get (byKeyHash s) (hexSum256 C clientKey) of
              None \<Rightarrow> None
            | Some i \<Rightarrow> if idClientKeyHash i \<noteq> hexSum256 C clientKey then None else Some i))"

definition ListPublic :: "Store \<Rightarrow> PublicIdentity list" where
  "ListPublic s = map (\<lambda>(_, i). publicIdentity i) (byID s)"

definition ListForSync :: "Store \<Rightarrow> Identity list" where
  "ListForSync s = map snd (byID s)"

definition GetByID :: "Store \<Rightarrow> string \<Rightarrow> Identity option" where
  "GetByID s i = map_get (byID s) (TrimSpace i)"

definition LookupByTokenAndAccount :: "crypto \<Rightarrow> Store \<Rightarrow> string \<Rightarrow> string \<Rightarrow> Identity option" where
  "LookupByTokenAndAccount C s token accountID =
     (let token = TrimSpace token; accountID = TrimSpace accountID in
      if token = [] then None
      else (case GetByID s (if accountID = [] then IdentityID C token
                            else IdentityIDForAccount C token accountID) of
              Some i \<Rightarrow> Some i
            | None \<Rightarrow>
                if accountID = [] then None
                else (case GetByID s (IdentityID C token) of
                        None \<Rightarrow> None
                      | Some legacy \<Rightarrow>
                          if idAccountScoped legacy \<or> TrimSpace (idAccountID legacy) \<noteq> accountID
                          then None else Some legacy)))"

definition withMetadata :: "CredentialMetadata \<Rightarrow> Identity \<Rightarrow> Identity" where
  "withMetadata md current =
     (let accountID = TrimSpace (mdAccountID md);
          next1 = current\<lparr>idKind := TrimSpace (mdKind md), idEmail := TrimSpace (mdEmail md),
                 idPlanType := TrimSpace (mdPlanType md)\<rparr>;
          next2 = (if accountID = [] then next1
                   else next1\<lparr>idAccountID := accountID,
                         idAccountScoped := mdAccountScoped md \<or> idAccountScoped next1\<rparr>)
      in next2\<lparr>idExpiresAt := mdExpiresAt md, idFedRAMP := mdFedRAMP md\<rparr>)"

definition UpdateMetadata ::
  "crypto \<Rightarrow> os_env \<Rightarrow> bytes option \<Rightarrow> string \<Rightarrow> CredentialMetadata \<Rightarrow> Store \<times> disk \<Rightarrow>
   (store_error + unit) \<times> Store \<times> disk" where
  "UpdateMetadata C os rnd i md sd =
     (case sd of (s, d) \<Rightarrow>
      let i = TrimSpace i in
      case (map_get (byID s) i, map_get (fileByID s) i) of
        (Some current, Some path) \<Rightarrow>
          (let next = withMetadata md current in
           case encodeIdentity C (stCipher s) rnd next of
             Inl e \<Rightarrow> (Inl EncodeFailed, s, d)
           | Inr data \<Rightarrow>
               (case writeOwnerOnlyAtomic os (snd path) data d of
                  (Inl e, d') \<Rightarrow> (Inl e, s, d')
                | (Inr _, d') \<Rightarrow>
                    (Inr (), s\<lparr>byID := map_put i next (byID s),
                               byKeyHash := map_put (idClientKeyHash next) next (byKeyHash s)\<rparr>, d')))
      | _ \<Rightarrow> (Inl NotExist, s, d))"

definition SnapshotFile :: "os_env \<Rightarrow> string \<Rightarrow> Store \<times> disk \<Rightarrow> store_error + string \<times> json_doc" where
  "SnapshotFile os i sd =
     (case sd of (s, d) \<Rightarrow>
      let i = TrimSpace i in
      case (map_get (byID s) i, map_get (fileByID s) i) of
        (Some identity, Some path) \<Rightarrow>
          (case map_get (entries d) (snd path) of
             None \<Rightarrow> Inl StatFailed
           | Some node \<Rightarrow>
               if fails os (LstatFile (snd path)) then Inl StatFailed
               else if \<not> nodeRegular node \<or> nodeSymlink node then Inl SnapshotNotRegular
               else if fails os (ReadFile (snd path)) then Inl (ReadFailed (snd path))
               else Inr (snd path, nodeData node))
      | _ \<Rightarrow> Inl NotExist)"

definition Restore ::
  "crypto \<Rightarrow> os_env \<Rightarrow> bytes option \<Rightarrow> Identity \<Rightarrow> Store \<times> disk \<Rightarrow>
   (store_error + unit) \<times> Store \<times> disk" where
  "Restore C os rnd identity sd =
     (case sd of (s, d) \<Rightarrow>
      if \<not> validIdentity C identity then (Inl SnapshotRequired, s, d)
      else commitIdentity C os rnd
             (if stCipher s \<noteq> None then identity\<lparr>idVersion := identityVersionEncrypted\<rparr>
              else identity) (s, d))"

definition Delete ::
  "os_env \<Rightarrow> string \<Rightarrow> Store \<times> disk \<Rightarrow> (store_error + unit) \<times> Store \<times> disk" where
  "Delete os i sd =
     (case sd of (s, d) \<Rightarrow>
      let i = TrimSpace i in
      case map_get (byID s) i of
        None \<Rightarrow> (Inl NotExist, s, d)
      | Some identity \<Rightarrow>
          (let s' = s\<lparr>byID := map_del i (byID s),
                      byKeyHash := map_del (idClientKeyHash identity) (byKeyHash s),
                      fileByID := map_del i (fileByID s)\<rparr>;
               name = (case map_get (fileByID s) i of None \<Rightarrow> [] | Some p \<Rightarrow> snd p)
           in if fails os (Remove name) then (Inl DeleteFailed, s', d)
              else (let d' = d\<lparr>entries := map_del name (entries d)\<rparr> in
                    if syncDirectory os then (Inr (), s', d') else (Inl SyncFailed, s', d'))))"

end
