(* ===== verification/Store_Invariant.thy ===== *)
theory Store_Invariant
  imports Identity_Store
begin

text \<open>
  The in-memory invariant of the identity store and the operations that keep it.

  \<open>store_ok\<close> says that the identity map and the client-key map are two indexes of the same
  set of valid identities, that exactly the stored identities have a file, and that an
  encrypted store holds encrypted identities only.  \<open>store_step\<close> is one call of a mutating
  operation under arbitrary operating-system failures; \<open>stores\<close> interprets the generic
  invariant contract for it.
\<close>

section \<open>Identifiers\<close>

lemma agent_id_trim: "x \<noteq> [] \<Longrightarrow> TrimSpace (''agent-'' @ hex_encode x) = ''agent-'' @ hex_encode x"
  by (rule TrimSpace_prefixed_hex) (simp_all add: space_byte_def byte_def)

lemma IdentityIDForAccount_shape:
  "\<exists>x. IdentityIDForAccount C t a = ''agent-'' @ hex_encode (take 6 (Sum256 C x))"
  by (auto simp: IdentityIDForAccount_def IdentityID_def Let_def)

lemma IdentityID_shape: "\<exists>x. IdentityID C t = ''agent-'' @ hex_encode (take 6 (Sum256 C x))"
  by (auto simp: IdentityID_def)

lemma sum_nonempty: "crypto_ok C \<Longrightarrow> take 6 (Sum256 C x) \<noteq> []"
  by (auto simp: crypto_ok_def dest: spec [of _ x] simp flip: length_0_conv)

lemma identity_id_trim [simp]:
  assumes "crypto_ok C"
  shows "TrimSpace (IdentityID C t) = IdentityID C t"
    "TrimSpace (IdentityIDForAccount C t a) = IdentityIDForAccount C t a"
  using IdentityID_shape [of C t] IdentityIDForAccount_shape [of C t a]
    agent_id_trim sum_nonempty [OF assms] by metis+

lemma identity_id_trim_args [simp]:
  "IdentityID C (TrimSpace t) = IdentityID C t"
  "IdentityIDForAccount C (TrimSpace t) a = IdentityIDForAccount C t a"
  "IdentityIDForAccount C t (TrimSpace a) = IdentityIDForAccount C t a"
  "IdentityIDForAccount C t [] = IdentityID C t"
  by (simp_all add: IdentityID_def IdentityIDForAccount_def Let_def)

definition expectedID :: "crypto \<Rightarrow> Identity \<Rightarrow> string" where
  "expectedID C i = (if idAccountScoped i then IdentityIDForAccount C (idToken i) (idAccountID i)
                     else IdentityID C (idToken i))"

lemma validIdentity_iff:
  "validIdentity C i \<longleftrightarrow>
     idVersion i \<in> {1, 2, 3} \<and> TrimSpace (idID i) \<noteq> [] \<and> TrimSpace (idToken i) \<noteq> [] \<and>
     (idAccountScoped i \<longrightarrow> TrimSpace (idAccountID i) \<noteq> []) \<and> idID i = expectedID C i \<and>
     (\<exists>d. hex_decode (idClientKeyHash i) = Some d \<and> length d = 32) \<and>
     (if idClientKey i = [] then idVersion i \<noteq> 2
      else HasPrefix (idClientKey i) clientKeyPrefix \<and> idClientKeyHash i = hexSum256 C (idClientKey i))"
  by (auto simp: validIdentity_def expectedID_def store_consts split: option.splits)

lemma expectedID_trim [simp]: "crypto_ok C \<Longrightarrow> TrimSpace (expectedID C i) = expectedID C i"
  by (simp add: expectedID_def)

lemma valid_id_trim: "crypto_ok C \<Longrightarrow> validIdentity C i \<Longrightarrow> TrimSpace (idID i) = idID i"
  by (auto simp: validIdentity_iff)

lemma validIdentity_upgrade:
  "validIdentity C i \<Longrightarrow> validIdentity C (i\<lparr>idVersion := identityVersionEncrypted\<rparr>)"
  by (auto simp: validIdentity_iff expectedID_def store_consts)

section \<open>The invariant\<close>

definition store_ok :: "crypto \<Rightarrow> Store \<Rightarrow> bool" where
  "store_ok C s \<longleftrightarrow>
     gomap_ok (byID s) \<and> gomap_ok (byKeyHash s) \<and> gomap_ok (fileByID s) \<and> cipher_ok (stCipher s) \<and>
     (\<forall>k i. map_get (byID s) k = Some i \<longrightarrow>
        idID i = k \<and> validIdentity C i \<and> map_get (byKeyHash s) (idClientKeyHash i) = Some i \<and>
        (stCipher s \<noteq> None \<longrightarrow> idVersion i = identityVersionEncrypted)) \<and>
     (\<forall>h i. map_get (byKeyHash s) h = Some i \<longrightarrow>
        idClientKeyHash i = h \<and> map_get (byID s) (idID i) = Some i) \<and>
     (\<forall>k. map_get (fileByID s) k = None \<longleftrightarrow> map_get (byID s) k = None)"

text \<open>The client key of an identity about to be published does not belong to another one.\<close>

definition key_unused :: "Store \<Rightarrow> Identity \<Rightarrow> bool" where
  "key_unused s i \<longleftrightarrow>
     (\<forall>j. map_get (byKeyHash s) (idClientKeyHash i) = Some j \<longrightarrow> idID j = idID i)"

lemma store_okD:
  assumes "store_ok C s"
  shows "map_get (byID s) k = Some i \<Longrightarrow> idID i = k"
    and "map_get (byID s) k = Some i \<Longrightarrow> validIdentity C i"
    and "map_get (byID s) k = Some i \<Longrightarrow> map_get (byKeyHash s) (idClientKeyHash i) = Some i"
    and "map_get (byKeyHash s) h = Some i \<Longrightarrow> idClientKeyHash i = h"
    and "map_get (byKeyHash s) h = Some i \<Longrightarrow> map_get (byID s) (idID i) = Some i"
    and "map_get (fileByID s) k = None \<longleftrightarrow> map_get (byID s) k = None"
    and "map_get (byID s) k = Some i \<Longrightarrow> stCipher s \<noteq> None \<Longrightarrow> idVersion i = identityVersionEncrypted"
    and "cipher_ok (stCipher s)"
  using assms by (auto simp: store_ok_def)

lemma store_okI:
  assumes "gomap_ok (byID s)" "gomap_ok (byKeyHash s)" "gomap_ok (fileByID s)" "cipher_ok (stCipher s)"
    and "\<And>k i. map_get (byID s) k = Some i \<Longrightarrow>
      idID i = k \<and> validIdentity C i \<and> map_get (byKeyHash s) (idClientKeyHash i) = Some i \<and>
      (stCipher s \<noteq> None \<longrightarrow> idVersion i = identityVersionEncrypted)"
    and "\<And>h i. map_get (byKeyHash s) h = Some i \<Longrightarrow>
      idClientKeyHash i = h \<and> map_get (byID s) (idID i) = Some i"
    and "\<And>k. map_get (fileByID s) k = None \<longleftrightarrow> map_get (byID s) k = None"
  shows "store_ok C s"
  using assms unfolding store_ok_def by blast

lemma store_ok_empty [simp]: "cipher_ok c \<Longrightarrow> store_ok C (emptyStore dir c)"
  by (simp add: store_ok_def emptyStore_def)

lemma publish_fields [simp]:
  "stCipher (publish i p s) = stCipher s" "stDir (publish i p s) = stDir s"
  "map_get (byID (publish i p s)) k = (if k = idID i then Some i else map_get (byID s) k)"
  "map_get (fileByID (publish i p s)) k = (if k = idID i then Some p else map_get (fileByID s) k)"
  by (simp_all add: publish_def Let_def)

lemma publish_keys:
  "map_get (byKeyHash (publish i p s)) h =
     (if h = idClientKeyHash i then Some i
      else (case map_get (byID s) (idID i) of
              None \<Rightarrow> map_get (byKeyHash s) h
            | Some j \<Rightarrow> if h = idClientKeyHash j then None else map_get (byKeyHash s) h))"
  by (simp add: publish_def Let_def split: option.splits)

lemma publish_maps_ok:
  "store_ok C s \<Longrightarrow> gomap_ok (byID (publish i p s)) \<and> gomap_ok (byKeyHash (publish i p s)) \<and>
     gomap_ok (fileByID (publish i p s))"
  by (auto simp: publish_def Let_def store_ok_def split: option.splits)

lemma publish_ok [inv_intros]:
  assumes ok: "store_ok C s" and v: "validIdentity C i" and unused: "key_unused s i"
    and ver: "stCipher s \<noteq> None \<Longrightarrow> idVersion i = identityVersionEncrypted"
  shows "store_ok C (publish i p s)"
proof -
  note D = store_okD [OF ok]
  have other: "map_get (byKeyHash (publish i p s)) (idClientKeyHash j) = Some j"
    if "map_get (byID s) k = Some j" "k \<noteq> idID i" for k j
    using that D(1,3) unused
    by (auto simp: publish_keys key_unused_def split: option.splits) (metis option.inject)+
  have index: "idClientKeyHash j = h \<and> map_get (byID (publish i p s)) (idID j) = Some j"
    if "map_get (byKeyHash (publish i p s)) h = Some j" for h j
    using that D(1,3,4,5)
    by (auto simp: publish_keys split: if_splits option.splits) (metis option.distinct(1))+
  show ?thesis
  proof (rule store_okI)
    fix k j
    assume "map_get (byID (publish i p s)) k = Some j"
    then show "idID j = k \<and> validIdentity C j \<and>
        map_get (byKeyHash (publish i p s)) (idClientKeyHash j) = Some j \<and>
        (stCipher (publish i p s) \<noteq> None \<longrightarrow> idVersion j = identityVersionEncrypted)"
      using D(1,2,7) other v ver publish_keys [of i p s "idClientKeyHash i"]
      by (cases "k = idID i") simp_all
  next
    fix h j
    assume "map_get (byKeyHash (publish i p s)) h = Some j"
    then show "idClientKeyHash j = h \<and> map_get (byID (publish i p s)) (idID j) = Some j"
      by (rule index)
  qed (use publish_maps_ok [OF ok, of i p] D(6,8) in simp_all)
qed

section \<open>Every operation keeps the invariant\<close>

lemma encode_valid: "encodeIdentity C c rnd i = Inr doc \<Longrightarrow> validIdentity C i"
  by (auto simp: encodeIdentity_def split: if_splits)

lemma encode_version:
  "encodeIdentity C c rnd i = Inr doc \<Longrightarrow> c = None \<Longrightarrow> idVersion i \<noteq> identityVersionEncrypted"
  by (auto simp: encodeIdentity_def split: if_splits)

definition fresh_key :: "crypto \<Rightarrow> Store \<Rightarrow> bytes option \<Rightarrow> bool" where
  "fresh_key C s rnd \<longleftrightarrow>
     (\<forall>k. randomClientKey rnd = Some k \<longrightarrow> map_get (byKeyHash s) (hexSum256 C k) = None)"

lemma commit_cases:
  assumes "commitIdentity C os rnd i (s, d) = (res, s', d')"
  shows "(\<exists>e. res = Inl e) \<and> s' = s \<or>
    res = Inr () \<and> s' = publish i (stDir s, identityFileName (idID i)) s \<and>
    (\<exists>data. encodeIdentity C (stCipher s) rnd i = Inr data \<and>
       writeOwnerOnlyAtomic os (identityFileName (idID i)) data d = (Inr (), d'))"
  using assms by (auto simp: commitIdentity_def Let_def split: sum.splits prod.splits)

lemma commit_ok [inv_intros]:
  assumes "store_ok C s" "key_unused s i"
    and "stCipher s \<noteq> None \<Longrightarrow> idVersion i = identityVersionEncrypted"
    and "commitIdentity C os rnd i (s, d) = (res, s', d')"
  shows "store_ok C s'"
  using commit_cases [OF assms(4)] assms(1,2,3) encode_valid publish_ok by metis

lemma Import_cases:
  assumes "ImportWithMetadata C os r token md now (s, d) = (res, s', d')"
  shows "(\<exists>e. res = Inl e) \<and> s' = s \<and> d' = d \<or>
    (\<exists>key r0. randomClientKey (keyRandom r) = Some key \<and>
       commitIdentity C os (nonceRandom r)
         (newIdentity C (stCipher s) (TrimSpace token) key md now) (s, d) = (r0, s', d') \<and>
       res = map_sum id (\<lambda>_. (publicIdentity
         (newIdentity C (stCipher s) (TrimSpace token) key md now), key)) r0)"
  using assms
  by (simp add: ImportWithMetadata_def Let_def split: if_splits option.splits prod.splits sum.splits)
    blast+

lemma Import_success:
  assumes "ImportWithMetadata C os r token md now (s, d) = (Inr (pub, key), s', d')"
  shows "randomClientKey (keyRandom r) = Some key \<and>
    pub = publicIdentity (newIdentity C (stCipher s) (TrimSpace token) key md now) \<and>
    commitIdentity C os (nonceRandom r)
      (newIdentity C (stCipher s) (TrimSpace token) key md now) (s, d) = (Inr (), s', d')"
proof -
  from Import_cases [OF assms] obtain k r0 where k: "randomClientKey (keyRandom r) = Some k"
    "commitIdentity C os (nonceRandom r)
      (newIdentity C (stCipher s) (TrimSpace token) k md now) (s, d) = (r0, s', d')"
    "Inr (pub, key) = map_sum id (\<lambda>_. (publicIdentity
      (newIdentity C (stCipher s) (TrimSpace token) k md now), k)) r0" by blast
  then show ?thesis by (cases r0) auto
qed

lemma newIdentity_fields [simp]:
  "idClientKey (newIdentity C c t k md now) = k"
  "idClientKeyHash (newIdentity C c t k md now) = hexSum256 C k"
  "idToken (newIdentity C c t k md now) = t"
  "c \<noteq> None \<Longrightarrow> idVersion (newIdentity C c t k md now) = identityVersionEncrypted"
  "idID (newIdentity C c t k md now) =
     (if mdAccountScoped md then IdentityIDForAccount C t (mdAccountID md) else IdentityID C t)"
  by (auto simp: newIdentity_def Let_def)

lemma Import_ok [inv_intros]:
  assumes "store_ok C s" "fresh_key C s (keyRandom r)"
    and "ImportWithMetadata C os r token md now (s, d) = (res, s', d')"
  shows "store_ok C s'"
proof -
  have "key_unused s (newIdentity C (stCipher s) (TrimSpace token) key md now)"
    if "randomClientKey (keyRandom r) = Some key" for key
    using assms(2) that by (simp add: fresh_key_def key_unused_def)
  with Import_cases [OF assms(3)] assms(1) show ?thesis
    by (auto intro: commit_ok)
qed

lemma Restore_ok [inv_intros]:
  assumes "store_ok C s" "key_unused s i" and "Restore C os rnd i (s, d) = (res, s', d')"
  shows "store_ok C s'"
proof (cases "validIdentity C i")
  case True
  with assms show ?thesis
    by (auto simp: Restore_def key_unused_def elim!: commit_ok [rotated 3] split: if_splits)
qed (use assms in \<open>simp add: Restore_def\<close>)

lemma Delete_cases:
  assumes "Delete os i (s, d) = (res, s', d')"
  shows "map_get (byID s) (TrimSpace i) = None \<and> res = Inl NotExist \<and> s' = s \<and> d' = d \<or>
    (\<exists>j. map_get (byID s) (TrimSpace i) = Some j \<and>
       s' = s\<lparr>byID := map_del (TrimSpace i) (byID s),
              byKeyHash := map_del (idClientKeyHash j) (byKeyHash s),
              fileByID := map_del (TrimSpace i) (fileByID s)\<rparr>)"
  using assms by (simp add: Delete_def Let_def split: if_splits option.splits)

lemma hash_separates:
  assumes "store_ok C s" "map_get (byID s) k = Some i" "map_get (byID s) l = Some j" "k \<noteq> l"
  shows "idClientKeyHash i \<noteq> idClientKeyHash j"
  using store_okD(1,3) [OF assms(1)] assms(2-4) by (metis option.inject)

lemma Delete_ok [inv_intros]:
  assumes ok: "store_ok C s" and "Delete os i (s, d) = (res, s', d')"
  shows "store_ok C s'"
proof -
  note D = store_okD [OF ok]
  let ?k = "TrimSpace i"
  have "store_ok C (s\<lparr>byID := map_del ?k (byID s), byKeyHash := map_del (idClientKeyHash j) (byKeyHash s),
      fileByID := map_del ?k (fileByID s)\<rparr>)" if j: "map_get (byID s) ?k = Some j" for j
  proof (rule store_okI, goal_cases)
    case (5 k l)
    then show ?case using D(1,2,3,7) hash_separates [OF ok _ j] by (auto split: if_splits)
  next
    case (6 h l)
    then have "map_get (byKeyHash s) h = Some l" "h \<noteq> idClientKeyHash j"
      by (simp_all split: if_splits)
    with D(4) [of h l] D(5) [of h l] j show ?case by auto
  qed (use ok D(6) in \<open>auto simp: store_ok_def\<close>)
  with Delete_cases [OF assms(2)] ok show ?thesis by auto
qed

lemma withMetadata_fields [simp]:
  "idID (withMetadata md i) = idID i" "idClientKeyHash (withMetadata md i) = idClientKeyHash i"
  "idVersion (withMetadata md i) = idVersion i" "idToken (withMetadata md i) = idToken i"
  "idClientKey (withMetadata md i) = idClientKey i" "idCreatedAt (withMetadata md i) = idCreatedAt i"
  by (simp_all add: withMetadata_def Let_def)

lemma UpdateMetadata_cases:
  assumes "UpdateMetadata C os rnd i md (s, d) = (res, s', d')"
  shows "(\<exists>e. res = Inl e) \<and> s' = s \<or>
    (\<exists>cur p data. map_get (byID s) (TrimSpace i) = Some cur \<and>
      map_get (fileByID s) (TrimSpace i) = Some p \<and>
      encodeIdentity C (stCipher s) rnd (withMetadata md cur) = Inr data \<and>
      writeOwnerOnlyAtomic os (snd p) data d = (Inr (), d') \<and> res = Inr () \<and>
      s' = s\<lparr>byID := map_put (TrimSpace i) (withMetadata md cur) (byID s),
              byKeyHash := map_put (idClientKeyHash cur) (withMetadata md cur) (byKeyHash s)\<rparr>)"
  using assms
  by (auto simp: UpdateMetadata_def Let_def split: option.splits sum.splits prod.splits)

lemma update_maps_ok:
  assumes ok: "store_ok C s" and cur: "map_get (byID s) k = Some cur"
    and v: "validIdentity C (withMetadata md cur)"
  shows "store_ok C (s\<lparr>byID := map_put k (withMetadata md cur) (byID s),
      byKeyHash := map_put (idClientKeyHash cur) (withMetadata md cur) (byKeyHash s)\<rparr>)"
proof -
  note D = store_okD [OF ok]
  show ?thesis
  proof (rule store_okI, goal_cases)
    case (5 l j)
    show ?case
    proof (cases "l = k")
      case True
      with 5 have "j = withMetadata md cur" by simp
      then show ?thesis using True D(1) [OF cur] D(7) [OF cur] v by simp
    next
      case False
      with 5 have j: "map_get (byID s) l = Some j" by simp
      with hash_separates [OF ok j cur False] D(1) [OF j] D(2) [OF j] D(3) [OF j] D(7) [OF j]
      show ?thesis by simp
    qed
  next
    case (6 h j)
    show ?case
    proof (cases "h = idClientKeyHash cur")
      case True
      with 6 have "j = withMetadata md cur" by simp
      then show ?thesis using True D(1) [OF cur] by simp
    next
      case False
      with 6 have j: "map_get (byKeyHash s) h = Some j" by simp
      with D(4) [OF j] D(5) [OF j] False cur show ?thesis by auto
    qed
  qed (use ok D(6) cur in \<open>auto simp: store_ok_def\<close>)
qed

lemma UpdateMetadata_ok [inv_intros]:
  assumes ok: "store_ok C s" and "UpdateMetadata C os rnd i md (s, d) = (res, s', d')"
  shows "store_ok C s'"
  using UpdateMetadata_cases [OF assms(2)] ok update_maps_ok [OF ok] encode_valid by blast

section \<open>The store as a system of steps\<close>

text \<open>
  One call of a mutating operation, with any operating-system failures.  An import draws a
  client key that no stored identity has, and a restored snapshot does not carry the client
  key of another identity.
\<close>

inductive store_step :: "crypto \<Rightarrow> Store \<times> disk \<Rightarrow> Store \<times> disk \<Rightarrow> bool" for C where
  import_step: "fresh_key C s (keyRandom r) \<Longrightarrow>
     ImportWithMetadata C os r token md now (s, d) = (res, s', d') \<Longrightarrow> store_step C (s, d) (s', d')"
| update_step: "UpdateMetadata C os rnd i md (s, d) = (res, s', d') \<Longrightarrow>
     store_step C (s, d) (s', d')"
| restore_step: "key_unused s i \<Longrightarrow> Restore C os rnd i (s, d) = (res, s', d') \<Longrightarrow>
     store_step C (s, d) (s', d')"
| delete_step: "Delete os i (s, d) = (res, s', d') \<Longrightarrow> store_step C (s, d) (s', d')"

definition store_init :: "Store \<times> disk \<Rightarrow> bool" where
  "store_init sd \<longleftrightarrow> (\<exists>dir c. fst sd = emptyStore dir c \<and> cipher_ok c)"

definition store_inv :: "crypto \<Rightarrow> Store \<times> disk \<Rightarrow> bool" where
  "store_inv C sd \<longleftrightarrow> store_ok C (fst sd)"

inductive_cases store_stepE: "store_step C sd sd'"

lemma store_step_inv: "store_inv C sd \<Longrightarrow> store_step C sd sd' \<Longrightarrow> store_inv C sd'"
  by (erule store_stepE) (auto simp: store_inv_def intro: inv_intros)

interpretation stores: invariant_system store_init "store_step C" "store_inv C" for C
proof unfold_locales
  show "store_init s \<Longrightarrow> store_inv C s" for s
    by (auto simp: store_inv_def store_init_def)
  show "store_inv C s \<Longrightarrow> store_step C s t \<Longrightarrow> store_inv C t" for s t
    by (rule store_step_inv)
qed

end
