(* ===== verification/Store_Durability.thy ===== *)
theory Store_Durability
  imports Store_Invariant
begin

text \<open>
  The identity store and its files.

  \<open>storable\<close> identities come back from disk unchanged; \<open>consistent\<close> says that the data
  directory holds exactly one canonical file per stored identity and that each decodes to it;
  the operations keep that when the operating system does, and opening the directory again
  rebuilds the same maps.
\<close>

section \<open>Text that survives a file\<close>

definition plain :: "string \<Rightarrow> bool" where
  "plain s \<longleftrightarrow> ValidString s \<and> TrimSpace s = s"

definition storable :: "Identity \<Rightarrow> bool" where
  "storable i \<longleftrightarrow> plain (idToken i) \<and> plain (idClientKey i) \<and> plain (idKind i) \<and>
     plain (idEmail i) \<and> plain (idPlanType i) \<and> plain (idAccountID i)"

lemma hex_value_ascii: "hex_value c = Some n \<Longrightarrow> byte c < 128 \<and> \<not> space_byte c"
  by (auto simp: hex_value_def is_digit_def space_byte_def split: if_splits)

lemma hex_decode_ascii: "hex_decode s = Some x \<Longrightarrow> c \<in> set s \<Longrightarrow> byte c < 128 \<and> \<not> space_byte c"
  by (induction s arbitrary: x rule: hex_decode.induct)
    (auto split: option.splits dest: hex_value_ascii)

lemma plain_ascii: "(\<And>c. c \<in> set s \<Longrightarrow> byte c < 128 \<and> \<not> space_byte c) \<Longrightarrow> plain s"
  by (auto simp: plain_def intro: ascii_valid TrimSpace_plain)

lemma plain_hash: "validIdentity C i \<Longrightarrow> plain (idClientKeyHash i)"
  by (auto simp: validIdentity_iff intro: plain_ascii dest: hex_decode_ascii)

lemma agent_ascii: "c \<in> set (''agent-'' @ hex_encode x) \<Longrightarrow> byte c < 128 \<and> \<not> space_byte c"
  using hex_decode_ascii [OF hex_decode_encode]
  by (auto simp: byte_def space_byte_def)

lemma expectedID_shape: "\<exists>x. expectedID C i = ''agent-'' @ hex_encode (take 6 (Sum256 C x))"
  using IdentityID_shape IdentityIDForAccount_shape by (simp add: expectedID_def)

lemma plain_id: "validIdentity C i \<Longrightarrow> plain (idID i)"
  using expectedID_shape [of C i] agent_ascii
  by (metis plain_ascii validIdentity_iff)

lemma coerce_plain: "plain s \<Longrightarrow> utf8_coerce s = s" "plain s \<Longrightarrow> TrimSpace s = s"
  by (simp_all add: plain_def utf8_coerce_valid)

lemma plain_Nil [simp]: "plain []"
  by (simp add: plain_def)

lemma timeValue_timePointer [simp]: "timeValue (timePointer t) = t"
  by (simp add: timeValue_def timePointer_def)

section \<open>Decoding what was encoded\<close>

lemma marshalled_plain:
  assumes "marshalled p = Inr doc"
    and "ValidString (pID p)" "ValidString (pToken p)" "ValidString (pTokenNonce p)"
      "ValidString (pTokenCiphertext p)" "ValidString (pClientKey p)" "ValidString (pClientKeyHash p)"
      "ValidString (pKind p)" "ValidString (pEmail p)" "ValidString (pPlanType p)"
      "ValidString (pAccountID p)"
  shows "doc = Doc p"
  using assms
  by (auto simp: marshalled_def json_marshal_def utf8_coerce_valid split: if_splits option.splits)

lemma decodeIdentity_encodeIdentity:
  assumes ok: "vault_ok C c" and enc: "encodeIdentity C c rnd i = Inr doc" and st: "storable i"
    and ver: "c \<noteq> None \<Longrightarrow> idVersion i = identityVersionEncrypted"
  shows "decodeIdentity C c doc = Inr i"
proof -
  from encode_valid [OF enc] have v: "validIdentity C i" .
  note pl = plain_id [OF v] plain_hash [OF v] st [unfolded storable_def]
  note strs = pl [unfolded plain_def]
  have version: "idVersion i \<in> {1, 2, 3}" using v by (simp add: validIdentity_iff)
  show ?thesis
  proof (cases "c = None")
    case True
    with enc v encode_version [OF enc] have
      "marshalled ((persist i)\<lparr>pToken := idToken i\<rparr>) = Inr doc"
      by (simp add: encodeIdentity_def)
    then have "doc = Doc ((persist i)\<lparr>pToken := idToken i\<rparr>)"
      by (rule marshalled_plain) (use strs in \<open>simp_all add: persist_def\<close>)
    with strs version encode_version [OF enc True] show ?thesis
      by (auto simp: decodeIdentity_def persist_def store_consts)
  next
    case False
    with enc v obtain n x where e: "encrypt C c rnd (idID i) (idToken i) = Inr (n, x)"
      and m: "marshalled ((persist i)\<lparr>pVersion := identityVersionEncrypted, pTokenNonce := n,
        pTokenCiphertext := x\<rparr>) = Inr doc"
      by (auto simp: encodeIdentity_def split: sum.splits)
    from m have "doc = Doc ((persist i)\<lparr>pVersion := identityVersionEncrypted, pTokenNonce := n,
        pTokenCiphertext := x\<rparr>)"
      by (rule marshalled_plain)
        (use strs vault.sealed_plain [OF e] in \<open>simp_all add: persist_def\<close>)
    moreover have "decrypt C c (idID i) n x = Inr (idToken i)"
      by (rule vault.open_sealed [OF ok e refl])
    ultimately show ?thesis
      using strs ver [OF False] by (simp add: decodeIdentity_def persist_def store_consts)
  qed
qed

end
