(* ===== verification/Store_Reopen.thy ===== *)
theory Store_Reopen
  imports Store_Durability
begin

text \<open>
  The data directory as a faithful image of the store: the \<open>consistent\<close> states, the operations
  that keep them, and the theorem that opening such a directory rebuilds the store.
\<close>

section \<open>Identity files\<close>

definition identity_entry :: "string \<Rightarrow> fnode \<Rightarrow> bool" where
  "identity_entry name node \<longleftrightarrow>
     \<not> nodeDir node \<and> \<not> nodeSymlink node \<and> HasSuffix (ToLower name) ''.json''"

definition holds :: "crypto \<Rightarrow> Store \<Rightarrow> disk \<Rightarrow> string \<Rightarrow> Identity \<Rightarrow> bool" where
  "holds C s d name i \<longleftrightarrow>
     (\<exists>node. map_get (entries d) name = Some node \<and> identity_entry name node \<and>
        nodeRegular node \<and> nodePerm node mod 64 = 0 \<and>
        decodeIdentity C (stCipher s) (nodeData node) = Inr i)"

definition consistent :: "crypto \<Rightarrow> Store \<Rightarrow> disk \<Rightarrow> bool" where
  "consistent C s d \<longleftrightarrow>
     store_ok C s \<and> realDirectory d \<and> gomap_ok (entries d) \<and>
     (\<forall>k p. map_get (fileByID s) k = Some p \<longrightarrow> p = (stDir s, identityFileName k)) \<and>
     (\<forall>k i. map_get (byID s) k = Some i \<longrightarrow> holds C s d (identityFileName k) i) \<and>
     (\<forall>name node. map_get (entries d) name = Some node \<longrightarrow> identity_entry name node \<longrightarrow>
        (\<exists>k. map_get (byID s) k \<noteq> None \<and> name = identityFileName k))"

lemma consistentD:
  assumes "consistent C s d"
  shows "store_ok C s" "realDirectory d" "gomap_ok (entries d)"
    and "map_get (fileByID s) k = Some p \<Longrightarrow> p = (stDir s, identityFileName k)"
    and "map_get (byID s) k = Some i \<Longrightarrow> holds C s d (identityFileName k) i"
    and "map_get (entries d) name = Some node \<Longrightarrow> identity_entry name node \<Longrightarrow>
      \<exists>k. map_get (byID s) k \<noteq> None \<and> name = identityFileName k"
  using assms unfolding consistent_def by blast+

lemma ToLower_fixed: "(\<And>c. c \<in> set s \<Longrightarrow> byte c < 128 \<and> \<not> is_upper c) \<Longrightarrow> ToLower s = s"
proof (induction s)
  case (Cons c cs)
  from Cons.prems [of c] have "byte c \<noteq> 196" "byte c \<noteq> 226" "\<not> is_upper c" by auto
  with Cons show ?case by (simp add: lower_byte_def)
qed simp

lemma lower_hex_plain: "is_lower_hex c \<Longrightarrow> byte c < 128 \<and> \<not> is_upper c"
  by (auto simp: is_lower_hex_def is_digit_def is_upper_def)

lemma identityFileName_hex:
  "identityFileName (''agent-'' @ hex_encode x) = ''identity-'' @ hex_encode x @ ''.json''"
  unfolding identityFileName_def TrimPrefix_append ..

lemma identityFileName_json: "HasSuffix (ToLower (identityFileName (''agent-'' @ hex_encode x))) ''.json''"
proof -
  have "byte c < 128 \<and> \<not> is_upper c"
    if "c \<in> set (identityFileName (''agent-'' @ hex_encode x))" for c
    using that lower_hex_plain [OF hex_encode_lower]
    by (auto simp only: identityFileName_hex set_append) (auto simp: byte_def is_upper_def)
  then have "ToLower (identityFileName (''agent-'' @ hex_encode x)) =
      identityFileName (''agent-'' @ hex_encode x)"
    by (rule ToLower_fixed)
  moreover have "HasSuffix ((''identity-'' @ hex_encode x) @ ''.json'') ''.json''"
    by (rule HasSuffix_append)
  ultimately show ?thesis by (simp only: identityFileName_hex append_assoc)
qed

lemma valid_id_hex: "validIdentity C i \<Longrightarrow> \<exists>x. idID i = ''agent-'' @ hex_encode x"
  using expectedID_shape [of C i] by (metis validIdentity_iff)

lemma identityFileName_inject:
  assumes "validIdentity C i" "validIdentity C j" "identityFileName (idID i) = identityFileName (idID j)"
  shows "idID i = idID j"
proof -
  from valid_id_hex [OF assms(1)] valid_id_hex [OF assms(2)] obtain x y
    where x: "idID i = ''agent-'' @ hex_encode x" and y: "idID j = ''agent-'' @ hex_encode y" by blast
  from assms(3) have "hex_encode x = hex_encode y"
    unfolding x y identityFileName_hex by simp
  with x y show ?thesis by simp
qed

section \<open>Writing and removing one file\<close>

definition steady :: "os_env \<Rightarrow> bool" where
  "steady os \<longleftrightarrow> (\<forall>op. \<not> fails os op)"

lemma write_Inr:
  "writeOwnerOnlyAtomic os name data d = (Inr (), d') \<Longrightarrow>
     realDirectory d' = realDirectory d \<and> (gomap_ok (entries d) \<longrightarrow> gomap_ok (entries d')) \<and>
     map_get (entries d') = (map_get (entries d))(name \<mapsto> owner_only data)"
  by (auto simp: writeOwnerOnlyAtomic_def Let_def split: if_splits)

lemma write_steady: "steady os \<Longrightarrow> \<exists>d'. writeOwnerOnlyAtomic os name data d = (Inr (), d')"
  by (simp add: writeOwnerOnlyAtomic_def steady_def syncDirectory_def Let_def)

text \<open>A failing write leaves the directory alone, unless it failed after the rename or on Windows.\<close>

lemma write_Inl:
  "writeOwnerOnlyAtomic os name data d = (Inl e, d') \<Longrightarrow> \<not> windows os \<Longrightarrow> e \<noteq> SyncFailed \<Longrightarrow> d' = d"
  by (auto simp: writeOwnerOnlyAtomic_def Let_def split: if_splits)

lemma holds_written:
  assumes "decodeIdentity C (stCipher s) data = Inr i" "validIdentity C i" "idID i = k"
    and "map_get (entries d) (identityFileName k) = Some (owner_only data)"
  shows "holds C s d (identityFileName k) i"
proof -
  from valid_id_hex [OF assms(2)] assms(3) have "HasSuffix (ToLower (identityFileName k)) ''.json''"
    using identityFileName_json by auto
  with assms show ?thesis by (auto simp: holds_def identity_entry_def owner_only_def)
qed

lemma holds_cong:
  "stCipher s' = stCipher s \<Longrightarrow> map_get (entries d') name = map_get (entries d) name \<Longrightarrow>
     holds C s' d' name i = holds C s d name i"
  by (simp add: holds_def)

text \<open>
  Replacing one file and one identity at the same key keeps the image; \<open>s'\<close> is any store
  that differs from \<open>s\<close> in that identity only.
\<close>

lemma consistent_replace:
  assumes con: "consistent C s d" and ok: "store_ok C s'"
    and st: "storable i" and vault: "vault_ok C (stCipher s)"
    and enc: "encodeIdentity C (stCipher s) rnd i = Inr data"
    and wr: "writeOwnerOnlyAtomic os (identityFileName (idID i)) data d = (Inr (), d')"
    and s': "stCipher s' = stCipher s" "stDir s' = stDir s"
      "\<And>k. map_get (byID s') k = (if k = idID i then Some i else map_get (byID s) k)"
      "\<And>k. map_get (fileByID s') k =
         (if k = idID i then Some (stDir s, identityFileName k) else map_get (fileByID s) k)"
  shows "consistent C s' d'"
proof -
  let ?n = "identityFileName (idID i)"
  note W = write_Inr [OF wr]
  have vi: "validIdentity C i" by (rule encode_valid [OF enc])
  have dec: "decodeIdentity C (stCipher s) data = Inr i"
    using store_okD(7) [OF ok, of "idID i" i] s' by (intro decodeIdentity_encodeIdentity [OF vault enc st]) auto
  have held: "holds C s' d' (identityFileName k) j" if "map_get (byID s') k = Some j" for k j
  proof (cases "k = idID i")
    case True
    with that s' dec vi W show ?thesis by (auto intro: holds_written)
  next
    case False
    with that s' have j: "map_get (byID s) k = Some j" by simp
    from con have vj: "validIdentity C j" "idID j = k"
      using store_okD(1,2) j by (auto simp: consistent_def)
    with False identityFileName_inject [OF vj(1) vi] have "identityFileName k \<noteq> ?n" by auto
    with con j s'(1) W show ?thesis
      by (auto simp: consistent_def holds_cong [of s' s d' "identityFileName k" d])
  qed
  have "\<exists>k. map_get (byID s') k \<noteq> None \<and> name = identityFileName k"
    if "map_get (entries d') name = Some node" "identity_entry name node" for name node
  proof (cases "name = ?n")
    case True
    with s'(3) show ?thesis by (intro exI [of _ "idID i"]) simp
  next
    case False
    with that W have "map_get (entries d) name = Some node" by simp
    from consistentD(6) [OF con this that(2)]
    obtain k where "map_get (byID s) k \<noteq> None" "name = identityFileName k" by blast
    with s'(3) show ?thesis by (intro exI [of _ k]) auto
  qed
  with held con ok s' W show ?thesis by (auto simp: consistent_def)
qed

lemma commit_consistent:
  assumes "consistent C s d" "vault_ok C (stCipher s)" "storable i" "key_unused s i"
    and ver: "stCipher s \<noteq> None \<Longrightarrow> idVersion i = identityVersionEncrypted"
    and "commitIdentity C os rnd i (s, d) = (Inr (), s', d')"
  shows "consistent C s' d'"
proof -
  from commit_cases [OF assms(6)] obtain data where
    s': "s' = publish i (stDir s, identityFileName (idID i)) s"
    and enc: "encodeIdentity C (stCipher s) rnd i = Inr data"
    and wr: "writeOwnerOnlyAtomic os (identityFileName (idID i)) data d = (Inr (), d')" by auto
  have "store_ok C s'"
    using commit_ok [OF consistentD(1) [OF assms(1)] assms(4) ver assms(6)] .
  from consistent_replace [OF assms(1) this assms(3,2) enc wr] show ?thesis
    by (simp add: s')
qed

lemma update_consistent:
  assumes con: "consistent C s d" and "vault_ok C (stCipher s)"
    and st: "\<And>cur. map_get (byID s) (TrimSpace i) = Some cur \<Longrightarrow> storable (withMetadata md cur)"
    and up: "UpdateMetadata C os rnd i md (s, d) = (Inr (), s', d')"
  shows "consistent C s' d'"
proof -
  from UpdateMetadata_cases [OF up] obtain cur p data where
    cur: "map_get (byID s) (TrimSpace i) = Some cur"
    and p: "map_get (fileByID s) (TrimSpace i) = Some p"
    and enc: "encodeIdentity C (stCipher s) rnd (withMetadata md cur) = Inr data"
    and wr: "writeOwnerOnlyAtomic os (snd p) data d = (Inr (), d')"
    and s': "s' = s\<lparr>byID := map_put (TrimSpace i) (withMetadata md cur) (byID s),
              byKeyHash := map_put (idClientKeyHash cur) (withMetadata md cur) (byKeyHash s)\<rparr>"
    by auto
  have k: "idID cur = TrimSpace i" by (rule store_okD(1) [OF consistentD(1) [OF con] cur])
  have pk: "p = (stDir s, identityFileName (TrimSpace i))" by (rule consistentD(4) [OF con p])
  have "store_ok C s'" by (rule UpdateMetadata_ok [OF consistentD(1) [OF con] up])
  from consistent_replace [OF con this st [OF cur] assms(2) enc] wr show ?thesis
    by (simp add: s' k pk p)
qed

lemma delete_consistent:
  assumes con: "consistent C s d" and del: "Delete os i (s, d) = (Inr (), s', d')"
  shows "consistent C s' d'"
proof -
  let ?k = "TrimSpace i"
  have ok: "store_ok C s" by (rule consistentD(1) [OF con])
  from Delete_cases [OF del] obtain j where j: "map_get (byID s) ?k = Some j" by auto
  then obtain p where p: "map_get (fileByID s) ?k = Some p"
    using store_okD(6) [OF ok, of ?k] by auto
  have pk: "p = (stDir s, identityFileName ?k)" by (rule consistentD(4) [OF con p])
  from del j p pk have s': "map_get (byID s') = (map_get (byID s))(?k := None)"
      "map_get (fileByID s') = (map_get (fileByID s))(?k := None)"
      "stCipher s' = stCipher s" "stDir s' = stDir s"
    and d': "d' = d\<lparr>entries := map_del (identityFileName ?k) (entries d)\<rparr>"
    by (auto simp: Delete_def Let_def fun_eq_iff split: if_splits)
  have vj: "validIdentity C j" "idID j = ?k" using store_okD(1,2) [OF ok j] by auto
  have held: "holds C s' d' (identityFileName k) l" if "map_get (byID s') k = Some l" for k l
  proof -
    from that s' have l: "map_get (byID s) k = Some l" and "k \<noteq> ?k" by (auto split: if_splits)
    moreover have "validIdentity C l" "idID l = k" using store_okD(1,2) [OF ok l] by auto
    ultimately have "identityFileName k \<noteq> identityFileName ?k"
      using identityFileName_inject vj by metis
    then have "map_get (entries d') (identityFileName k) = map_get (entries d) (identityFileName k)"
      by (simp add: d')
    from holds_cong [OF s'(3) this] consistentD(5) [OF con l] show ?thesis by simp
  qed
  have own: "\<exists>k. map_get (byID s') k \<noteq> None \<and> name = identityFileName k"
    if "map_get (entries d') name = Some node" "identity_entry name node" for name node
  proof -
    from that d' have e: "map_get (entries d) name = Some node" and n: "name \<noteq> identityFileName ?k"
      by (auto split: if_splits)
    from consistentD(6) [OF con e that(2)] obtain k where
      k: "map_get (byID s) k \<noteq> None" "name = identityFileName k" by blast
    with n show ?thesis by (intro exI [of _ k]) (auto simp: s')
  qed
  show ?thesis
    unfolding consistent_def
    using Delete_ok [OF ok del] consistentD(2,3) [OF con] held own consistentD(4) [OF con]
    by (auto simp: s' d')
qed

section \<open>New identities\<close>

lemma randomClientKey_Some:
  assumes "randomClientKey rnd = Some key"
  obtains raw where "key = clientKeyPrefix @ hex_encode raw" "length raw = 32"
  using assms by (auto simp: randomClientKey_def dest: ReadFull_length)

lemma client_key_ascii:
  assumes "c \<in> set (clientKeyPrefix @ hex_encode raw)"
  shows "byte c < 128 \<and> \<not> space_byte c"
  using assms hex_decode_ascii [OF hex_decode_encode [of raw], of c]
  by (auto simp: clientKeyPrefix_def byte_def space_byte_def)

lemma randomClientKey_plain: "randomClientKey rnd = Some key \<Longrightarrow> plain key"
  by (erule randomClientKey_Some) (auto intro!: plain_ascii client_key_ascii)

lemma newIdentity_valid:
  assumes C: "crypto_ok C" and key: "randomClientKey rnd = Some key"
    and token: "TrimSpace token \<noteq> []"
    and scope: "mdAccountScoped md \<Longrightarrow> TrimSpace (mdAccountID md) \<noteq> []"
  shows "validIdentity C (newIdentity C c (TrimSpace token) key md now)"
proof -
  let ?i = "newIdentity C c (TrimSpace token) key md now"
  from key have prefix: "HasPrefix key clientKeyPrefix" "key \<noteq> []"
    by (auto elim!: randomClientKey_Some simp: clientKeyPrefix_def HasPrefix_def)
  have fields: "idAccountScoped ?i = mdAccountScoped md" "idAccountID ?i = TrimSpace (mdAccountID md)"
    "idVersion ?i \<in> {2, 3}"
    by (auto simp: newIdentity_def Let_def store_consts)
  have e: "idID ?i = expectedID C ?i" by (simp add: expectedID_def fields)
  then have "TrimSpace (idID ?i) = idID ?i" "idID ?i \<noteq> []"
    using expectedID_shape [of C ?i] C by auto
  with prefix token scope C e fields show ?thesis
    unfolding validIdentity_iff by (auto simp: hexSum256_def crypto_ok_def)
qed

lemma newIdentity_storable:
  assumes "randomClientKey rnd = Some key" "ValidString (TrimSpace token)"
    and "ValidString (TrimSpace (mdKind md))" "ValidString (TrimSpace (mdEmail md))"
      "ValidString (TrimSpace (mdPlanType md))" "ValidString (TrimSpace (mdAccountID md))"
  shows "storable (newIdentity C c (TrimSpace token) key md now)"
  using assms randomClientKey_plain [OF assms(1)]
  by (simp add: storable_def newIdentity_def plain_def Let_def)

lemma encode_succeeds:
  assumes "validIdentity C i" "time_marshals (idCreatedAt i)" "time_marshals (idExpiresAt i)"
    and "c = None \<Longrightarrow> idVersion i \<noteq> identityVersionEncrypted"
    and "c \<noteq> None \<Longrightarrow> ReadFull nonceSize rnd \<noteq> None"
  shows "\<exists>doc. encodeIdentity C c rnd i = Inr doc"
  using assms
  by (auto simp: encodeIdentity_def encrypt_def marshalled_def json_marshal_def persist_def)

section \<open>Opening the directory again\<close>

text \<open>\<open>loaded s t D\<close>: the store \<open>t\<close> under construction holds the identities of \<open>s\<close> in \<open>D\<close>.\<close>

definition loaded :: "Store \<Rightarrow> Store \<Rightarrow> string set \<Rightarrow> bool" where
  "loaded s t D \<longleftrightarrow> stDir t = stDir s \<and> stCipher t = stCipher s \<and>
     (\<forall>k. map_get (byID t) k = (if k \<in> D then map_get (byID s) k else None)) \<and>
     (\<forall>h. map_get (byKeyHash t) h =
        (case map_get (byKeyHash s) h of
           Some i \<Rightarrow> if idID i \<in> D then Some i else None | None \<Rightarrow> None)) \<and>
     (\<forall>k. map_get (fileByID t) k = (if k \<in> D then map_get (fileByID s) k else None))"

lemma load_skips: "\<not> identity_entry name node \<Longrightarrow> loadIdentityFile C os rnd (name, node) (t, d) = (Inr t, d)"
  by (auto simp: loadIdentityFile_def identity_entry_def)

lemma load_one:
  assumes con: "consistent C s d" and os: "steady os" and ld: "loaded s t D"
    and k: "map_get (byID s) k = Some i" "k \<notin> D"
    and node: "map_get (entries d) (identityFileName k) = Some node"
  shows "\<exists>t'. loadIdentityFile C os rnd (identityFileName k, node) (t, d) = (Inr t', d) \<and>
    loaded s t' (insert k D)"
proof -
  have ok: "store_ok C s" by (rule consistentD(1) [OF con])
  note D = store_okD [OF ok]
  from consistentD(5) [OF con k(1)] node have n: "identity_entry (identityFileName k) node"
    "nodeRegular node" "nodePerm node mod 64 = 0"
    "decodeIdentity C (stCipher s) (nodeData node) = Inr i"
    by (auto simp: holds_def)
  have i: "idID i = k" "validIdentity C i" "map_get (byKeyHash s) (idClientKeyHash i) = Some i"
    using D(1,2,3) k(1) by auto
  have fresh: "map_get (byID t) k = None" "map_get (byKeyHash t) (idClientKeyHash i) = None"
    using ld k i by (auto simp: loaded_def)
  obtain p where p: "map_get (fileByID s) k = Some p" using D(6) [of k] k(1) by auto
  let ?t = "t\<lparr>byID := map_put k i (byID t), byKeyHash := map_put (idClientKeyHash i) i (byKeyHash t),
    fileByID := map_put k (stDir t, identityFileName k) (fileByID t)\<rparr>"
  have "loadIdentityFile C os rnd (identityFileName k, node) (t, d) = (Inr ?t, d)"
    using n fresh(2) os D(7) [OF k(1)] ld [unfolded loaded_def, THEN conjunct2, THEN conjunct1]
      i(1,2) fresh(1)
    by (cases "stCipher s = None") (simp_all add: loadIdentityFile_def identity_entry_def steady_def)
  moreover have "loaded s ?t (insert k D)"
  proof -
    have "map_get (byKeyHash ?t) h = (case map_get (byKeyHash s) h of
           Some j \<Rightarrow> if idID j \<in> insert k D then Some j else None | None \<Rightarrow> None)" for h
    proof (cases "map_get (byKeyHash s) h")
      case None
      with ld i(3) show ?thesis by (auto simp: loaded_def)
    next
      case (Some j)
      have L: "map_get (byKeyHash t) h = (if idID j \<in> D then Some j else None)"
        using ld Some by (simp add: loaded_def)
      show ?thesis
      proof (cases "h = idClientKeyHash i")
        case True
        with Some i(3) have "j = i" by simp
        with True Some i(1) show ?thesis by simp
      next
        case False
        with D(4) [OF Some] D(5) [OF Some] k(1) have "idID j \<noteq> k" by auto
        with False Some L show ?thesis by simp
      qed
    qed
    then show ?thesis using ld k(1) p consistentD(4) [OF con p] by (simp add: loaded_def)
  qed
  ultimately show ?thesis by blast
qed

definition owners :: "Store \<Rightarrow> (string \<times> fnode) list \<Rightarrow> string set" where
  "owners s es = {k. map_get (byID s) k \<noteq> None \<and> identityFileName k \<in> fst ` set es}"

lemma owner_unique:
  assumes "store_ok C s" "map_get (byID s) k \<noteq> None" "map_get (byID s) l \<noteq> None"
    and "identityFileName k = identityFileName l"
  shows "k = l"
proof -
  from assms(2,3) obtain i j where i: "map_get (byID s) k = Some i" and j: "map_get (byID s) l = Some j"
    by auto
  note D = store_okD(1,2) [OF assms(1)]
  from identityFileName_inject [OF D(2) [OF i] D(2) [OF j]] assms(4) show ?thesis
    by (simp add: D(1) [OF i] D(1) [OF j])
qed

lemma load_all:
  assumes con: "consistent C s d" and os: "steady os"
  shows "loaded s t D \<Longrightarrow> distinct (map fst es) \<Longrightarrow> D \<inter> owners s es = {} \<Longrightarrow>
    (\<And>name node. (name, node) \<in> set es \<Longrightarrow> map_get (entries d) name = Some node) \<Longrightarrow>
    \<exists>t'. loadIdentityFiles C os rnd es (t, d) = (Inr t', d) \<and> loaded s t' (D \<union> owners s es)"
proof (induction es arbitrary: t D)
  case (Cons e es)
  obtain name node where e: "e = (name, node)" by (cases e)
  have node: "map_get (entries d) name = Some node" using Cons.prems(4) e by simp
  have ok: "store_ok C s" by (rule consistentD(1) [OF con])
  show ?case
  proof (cases "\<exists>k. map_get (byID s) k \<noteq> None \<and> name = identityFileName k")
    case True
    then obtain k i where k: "map_get (byID s) k = Some i" and nm: "name = identityFileName k" by auto
    have own: "owners s (e # es) = insert k (owners s es)"
      using k nm e owner_unique [OF ok] by (auto simp: owners_def)
    have "k \<notin> D" "k \<notin> owners s es"
      using Cons.prems(2,3) own nm e by (auto simp: owners_def)
    with load_one [OF con os Cons.prems(1) k] node nm obtain t' where
      t': "loadIdentityFile C os rnd e (t, d) = (Inr t', d)" "loaded s t' (insert k D)"
      using e by auto
    have "insert k D \<inter> owners s es = {}"
      using Cons.prems(3) own \<open>k \<notin> owners s es\<close> by auto
    from Cons.IH [OF t'(2) _ this] Cons.prems(2,4) t'(1) show ?thesis
      by (auto simp: own)
  next
    case False
    with consistentD(6) [OF con node] have "\<not> identity_entry name node" by blast
    then have skip: "loadIdentityFile C os rnd e (t, d) = (Inr t, d)" by (simp add: e load_skips)
    have "identityFileName k \<noteq> name" if "map_get (byID s) k \<noteq> None" for k
      using False that by blast
    then have own: "owners s (e # es) = owners s es" unfolding owners_def e by auto
    from Cons.IH [OF Cons.prems(1)] Cons.prems(2-4) own skip show ?thesis by simp
  qed
qed (simp add: owners_def)

lemma consistent_owners:
  assumes "consistent C s d"
  shows "owners s (sort_key fst (entries d)) = {k. map_get (byID s) k \<noteq> None}"
proof -
  have "identityFileName k \<in> fst ` set (entries d)" if "map_get (byID s) k = Some i" for k i
    using consistentD(5) [OF assms that] by (auto simp: holds_def dest!: map_of_SomeD) force
  then show ?thesis by (auto simp: owners_def)
qed

lemma open_consistent:
  assumes con: "consistent C s d" and os: "steady os"
    and key: "key = map_option cipherKey (stCipher s)" and dir: "TrimSpace dir = stDir s" "stDir s \<noteq> []"
  shows "\<exists>t. Open C os rnd key dir d = (Inr t, d) \<and>
    map_get (byID t) = map_get (byID s) \<and> map_get (byKeyHash t) = map_get (byKeyHash s) \<and>
    map_get (fileByID t) = map_get (fileByID s) \<and> stCipher t = stCipher s"
proof -
  have ok: "store_ok C s" by (rule consistentD(1) [OF con])
  let ?e = "emptyStore (stDir s) (stCipher s)"
  have "loaded s ?e {}" by (auto simp: loaded_def emptyStore_def split: option.splits)
  moreover have "distinct (map fst (sort_key fst (entries d)))"
    using consistentD(3) [OF con] by (simp add: gomap_ok_def distinct_map)
  moreover have "map_get (entries d) name = Some node" if "(name, node) \<in> set (sort_key fst (entries d))"
    for name node using that consistentD(3) [OF con] by (simp add: gomap_get_iff)
  ultimately obtain t where
    t: "loadIdentityFiles C os rnd (sort_key fst (entries d)) (?e, d) = (Inr t, d)"
    "loaded s t (owners s (sort_key fst (entries d)))"
    using load_all [OF con os, of ?e "{}" "sort_key fst (entries d)" rnd] by auto
  have c: "(case key of None \<Rightarrow> Inr None | Some k \<Rightarrow> map_sum id Some (newTokenCipher k)) = Inr (stCipher s)"
    using store_okD(8) [OF ok]
    by (cases "stCipher s") (auto simp: key newTokenCipher_def cipher_ok_def)
  have "Open C os rnd key dir d = (Inr t, d)"
    using t(1) os dir consistentD(2) [OF con] by (simp add: Open_def c steady_def)
  moreover note L = t(2) [unfolded loaded_def consistent_owners [OF con]]
  have "map_get (byID t) k = map_get (byID s) k" for k using L by auto
  moreover have "map_get (fileByID t) k = map_get (fileByID s) k" for k
    using L store_okD(6) [OF ok, of k] by (cases "map_get (byID s) k") auto
  moreover have "map_get (byKeyHash t) h = map_get (byKeyHash s) h" for h
    using L store_okD(5) [OF ok, of h] by (cases "map_get (byKeyHash s) h") auto
  ultimately show ?thesis using L by (auto simp: fun_eq_iff)
qed

section \<open>Runs of successful operations\<close>

text \<open>
  One successful call with text that survives a file.  The interpretation \<open>images\<close> shows that
  such calls, from an empty directory, keep the directory a faithful image.
\<close>

inductive image_step :: "crypto \<Rightarrow> Store \<times> disk \<Rightarrow> Store \<times> disk \<Rightarrow> bool" for C where
  image_import: "fresh_key C s (keyRandom r) \<Longrightarrow> ValidString (TrimSpace token) \<Longrightarrow>
     ValidString (TrimSpace (mdKind md)) \<Longrightarrow> ValidString (TrimSpace (mdEmail md)) \<Longrightarrow>
     ValidString (TrimSpace (mdPlanType md)) \<Longrightarrow> ValidString (TrimSpace (mdAccountID md)) \<Longrightarrow>
     ImportWithMetadata C os r token md now (s, d) = (Inr res, s', d') \<Longrightarrow> image_step C (s, d) (s', d')"
| image_update: "(\<And>cur. map_get (byID s) (TrimSpace i) = Some cur \<Longrightarrow> storable (withMetadata md cur)) \<Longrightarrow>
     UpdateMetadata C os rnd i md (s, d) = (Inr (), s', d') \<Longrightarrow> image_step C (s, d) (s', d')"
| image_restore: "key_unused s i \<Longrightarrow> storable i \<Longrightarrow>
     Restore C os rnd i (s, d) = (Inr (), s', d') \<Longrightarrow> image_step C (s, d) (s', d')"
| image_delete: "Delete os i (s, d) = (Inr (), s', d') \<Longrightarrow> image_step C (s, d) (s', d')"

definition image_init :: "string \<Rightarrow> tokenCipher option \<Rightarrow> Store \<times> disk \<Rightarrow> bool" where
  "image_init dir c sd \<longleftrightarrow> sd = (emptyStore dir c, \<lparr>realDirectory = True, entries = []\<rparr>)"

definition image_inv :: "crypto \<Rightarrow> string \<Rightarrow> tokenCipher option \<Rightarrow> Store \<times> disk \<Rightarrow> bool" where
  "image_inv C dir c sd \<longleftrightarrow> (crypto_ok C \<and> cipher_ok c \<longrightarrow>
     consistent C (fst sd) (snd sd) \<and> stCipher (fst sd) = c \<and> stDir (fst sd) = dir)"

lemma step_frame:
  "ImportWithMetadata C os r token md now (s, d) = (res, s', d') \<Longrightarrow> stCipher s' = stCipher s \<and> stDir s' = stDir s"
  "UpdateMetadata C os rnd i md (s, d) = (res1, s', d') \<Longrightarrow> stCipher s' = stCipher s \<and> stDir s' = stDir s"
  "Restore C os rnd j (s, d) = (res1, s', d') \<Longrightarrow> stCipher s' = stCipher s \<and> stDir s' = stDir s"
  "Delete os i (s, d) = (res1, s', d') \<Longrightarrow> stCipher s' = stCipher s \<and> stDir s' = stDir s"
  using commit_cases [of C os _ _ s d _ s' d']
  by (fastforce dest: Import_cases UpdateMetadata_cases Delete_cases simp: Restore_def
      split: if_splits)+

lemma image_step_inv:
  assumes "image_inv C dir c sd" "image_step C sd sd'"
  shows "image_inv C dir c sd'"
proof (cases "crypto_ok C \<and> cipher_ok c")
  case True
  obtain s d s' d' where sd: "sd = (s, d)" "sd' = (s', d')" by (metis surj_pair)
  from True assms(1) have con: "consistent C s d" and c: "stCipher s = c" "stDir s = dir"
    and vault: "vault_ok C (stCipher s)"
    by (auto simp: image_inv_def sd vault_ok_def)
  have ver: "stCipher s \<noteq> None \<Longrightarrow>
      idVersion (newIdentity C (stCipher s) t k md now) = identityVersionEncrypted" for t k md now
    by simp
  from assms(2) have "consistent C s' d' \<and> stCipher s' = stCipher s \<and> stDir s' = stDir s"
    unfolding sd
  proof cases
    case (image_import r token md os now res)
    obtain pub key where res: "res = (pub, key)" by (cases res)
    from Import_success [OF image_import(7) [unfolded res]]
    have key: "randomClientKey (keyRandom r) = Some key"
      and commit: "commitIdentity C os (nonceRandom r)
        (newIdentity C (stCipher s) (TrimSpace token) key md now) (s, d) = (Inr (), s', d')" by auto
    have "key_unused s (newIdentity C (stCipher s) (TrimSpace token) key md now)"
      using image_import(1) key by (simp add: fresh_key_def key_unused_def)
    from commit_consistent [OF con vault newIdentity_storable [OF key image_import(2-6)] this _ commit]
    show ?thesis using step_frame(1) [OF image_import(7)] by simp
  next
    case (image_update i md os rnd)
    from update_consistent [OF con vault image_update] step_frame(2) [OF image_update(2)]
    show ?thesis by blast
  next
    case (image_restore i os rnd)
    let ?j = "if stCipher s \<noteq> None then i\<lparr>idVersion := identityVersionEncrypted\<rparr> else i"
    have "commitIdentity C os rnd ?j (s, d) = (Inr (), s', d')"
      using image_restore(3) by (auto simp: Restore_def split: if_splits)
    from commit_consistent [OF con vault _ _ _ this] image_restore(1,2)
      step_frame(3) [OF image_restore(3)]
    show ?thesis by (auto simp: storable_def key_unused_def)
  next
    case (image_delete os i)
    from delete_consistent [OF con image_delete] step_frame(4) [OF image_delete] show ?thesis by blast
  qed
  with c sd show ?thesis by (simp add: image_inv_def)
qed (auto simp: image_inv_def)

interpretation images: invariant_system "image_init dir c" "image_step C" "image_inv C dir c" for C dir c
proof unfold_locales
  show "image_init dir c s \<Longrightarrow> image_inv C dir c s" for s
    by (auto simp: image_init_def image_inv_def consistent_def) (auto simp: emptyStore_def)
  show "image_inv C dir c s \<Longrightarrow> image_step C s t \<Longrightarrow> image_inv C dir c t" for s t
    by (rule image_step_inv)
qed

end
