(* ===== verification/Store_Properties.thy ===== *)
theory Store_Properties
  imports Store_Reopen
begin

text \<open>
  The properties of the identity store (\<^verbatim>\<open>internal/store\<close>), with their witnesses.  The witnesses
  use \<open>demo_crypto\<close>, a concrete instance of the cryptographic primitives that satisfies
  \<^const>\<open>crypto_ok\<close>, and \<open>calm\<close>, an operating system on which no call fails.
\<close>

section \<open>Concrete instances for the witnesses\<close>

definition demo_crypto :: crypto where
  "demo_crypto = \<lparr>Sum256 = (\<lambda>x. take 32 (x @ replicate 32 (CHR ''0''))),
     Seal = (\<lambda>k n p a. replicate 16 (CHR ''0'') @ p),
     OpenSealed = (\<lambda>k n c a. Some (drop 16 c))\<rparr>"

definition calm :: os_env where
  "calm = \<lparr>windows = False, fails = (\<lambda>_. False)\<rparr>"

definition demo_entropy :: entropy where
  "demo_entropy = \<lparr>keyRandom = Some (replicate 32 (CHR ''k'')), nonceRandom = Some (replicate 12 (CHR ''n''))\<rparr>"

definition demo_cipher :: "tokenCipher option" where
  "demo_cipher = Some \<lparr>cipherKey = replicate 32 (CHR ''e'')\<rparr>"

definition demo_disk :: disk where
  "demo_disk = \<lparr>realDirectory = True, entries = []\<rparr>"

definition demo_import :: "(store_error + PublicIdentity \<times> string) \<times> Store \<times> disk" where
  "demo_import = ImportWithMetadata demo_crypto calm demo_entropy ''at-1'' emptyMetadata 5
     (emptyStore ''data'' demo_cipher, demo_disk)"

definition demo_key :: string where
  "demo_key = clientKeyPrefix @ hex_encode (replicate 32 (CHR ''k''))"

definition demo_identity :: Identity where
  "demo_identity = newIdentity demo_crypto demo_cipher (TrimSpace ''at-1'') demo_key emptyMetadata 5"

lemma demo_crypto_ok [simp]: "crypto_ok demo_crypto"
  by (auto simp: crypto_ok_def demo_crypto_def min_def)

lemma demo_cipher_ok [simp]: "cipher_ok demo_cipher"
  by (simp add: cipher_ok_def demo_cipher_def encryptionKeySize_def)

lemma demo_vault_ok [simp]: "vault_ok demo_crypto demo_cipher"
  by (simp add: vault_ok_def)

lemma calm_steady [simp]: "steady calm"
  by (simp add: steady_def calm_def)

lemma demo_fresh [simp]: "fresh_key C (emptyStore dir c) rnd"
  by (simp add: fresh_key_def emptyStore_def)

lemma demo_import_step:
  "store_step demo_crypto (emptyStore ''data'' demo_cipher, demo_disk)
     (fst (snd demo_import), snd (snd demo_import))"
  by (rule import_step [where r = demo_entropy and os = calm and token = "''at-1''"
        and md = emptyMetadata and now = 5 and res = "fst demo_import"])
    (simp_all add: demo_import_def)

lemma emptyMetadata_fields [simp]:
  "mdKind emptyMetadata = []" "mdEmail emptyMetadata = []" "mdPlanType emptyMetadata = []"
  "mdAccountID emptyMetadata = []" "mdAccountScoped emptyMetadata = False"
  by (simp_all add: emptyMetadata_def)

lemma demo_random: "randomClientKey (keyRandom demo_entropy) = Some demo_key"
  by (simp add: randomClientKey_def demo_entropy_def demo_key_def ReadFull_def)

lemma demo_token: "TrimSpace ''at-1'' = ''at-1''"
  by (rule TrimSpace_plain) (simp add: space_byte_def byte_def)

lemma demo_identity_valid: "validIdentity demo_crypto demo_identity"
  unfolding demo_identity_def
  by (rule newIdentity_valid [OF demo_crypto_ok demo_random])
    (simp_all add: demo_token emptyMetadata_def)

lemma demo_identity_storable: "storable demo_identity"
  unfolding demo_identity_def
  by (rule newIdentity_storable [OF demo_random])
    (auto simp: demo_token emptyMetadata_def intro: ascii_valid simp: byte_def)

lemma demo_identity_encodes:
  "\<exists>doc. encodeIdentity demo_crypto demo_cipher (nonceRandom demo_entropy) demo_identity = Inr doc"
  by (rule encode_succeeds)
    (simp_all add: demo_identity_valid demo_cipher_def, simp_all add: demo_identity_def newIdentity_def
       Let_def emptyMetadata_def time_marshals_def day_def ReadFull_def nonceSize_def demo_entropy_def)

lemma demo_imports:
  "\<exists>d'. demo_import = (Inr (publicIdentity demo_identity, demo_key),
     publish demo_identity (''data'', identityFileName (idID demo_identity)) (emptyStore ''data'' demo_cipher), d')"
proof -
  obtain doc where "encodeIdentity demo_crypto demo_cipher (nonceRandom demo_entropy) demo_identity = Inr doc"
    using demo_identity_encodes by blast
  moreover obtain d' where "writeOwnerOnlyAtomic calm (identityFileName (idID demo_identity)) doc demo_disk
      = (Inr (), d')" using write_steady [OF calm_steady] by blast
  ultimately have c: "commitIdentity demo_crypto calm (nonceRandom demo_entropy) demo_identity
      (emptyStore ''data'' demo_cipher, demo_disk) = (Inr (),
     publish demo_identity (''data'', identityFileName (idID demo_identity)) (emptyStore ''data'' demo_cipher), d')"
    by (simp add: commitIdentity_def emptyStore_def)
  have "stCipher (emptyStore ''data'' demo_cipher) = demo_cipher" by (simp add: emptyStore_def)
  with c have "demo_import = (Inr (publicIdentity demo_identity, demo_key),
     publish demo_identity (''data'', identityFileName (idID demo_identity)) (emptyStore ''data'' demo_cipher), d')"
    using demo_random
    by (simp add: demo_import_def ImportWithMetadata_def demo_token emptyMetadata_def
        flip: demo_identity_def [unfolded demo_token emptyMetadata_def])
  then show ?thesis by blast
qed

lemma demo_dir: "TrimSpace ''data'' = ''data''"
  by (rule TrimSpace_plain) (simp add: space_byte_def byte_def)

lemma demo_run:
  "steps (image_step demo_crypto) (emptyStore ''data'' demo_cipher, \<lparr>realDirectory = True, entries = []\<rparr>)
     (fst (snd demo_import), snd (snd demo_import))"
proof -
  obtain d' where d': "demo_import = (Inr (publicIdentity demo_identity, demo_key),
     publish demo_identity (''data'', identityFileName (idID demo_identity)) (emptyStore ''data'' demo_cipher), d')"
    using demo_imports by blast
  have "image_step demo_crypto (emptyStore ''data'' demo_cipher, demo_disk)
     (publish demo_identity (''data'', identityFileName (idID demo_identity)) (emptyStore ''data'' demo_cipher), d')"
    by (rule image_import [OF demo_fresh _ _ _ _ _ d' [unfolded demo_import_def]])
      (auto simp: demo_token byte_def intro: ascii_valid)
  then show ?thesis unfolding d' demo_disk_def snd_conv fst_conv
    by (rule steps_step [rotated]) (rule steps_refl)
qed

lemma demo_consistent:
  "consistent demo_crypto (fst (snd demo_import)) (snd (snd demo_import)) \<and>
   stCipher (fst (snd demo_import)) = demo_cipher \<and> stDir (fst (snd demo_import)) = ''data''"
  using images.reachable_inv [OF _ demo_run, of "''data''" demo_cipher]
  by (simp add: image_init_def image_inv_def)

section \<open>The two indexes\<close>



section \<open>Files\<close>

text \<open>
  C2: an identity whose text fields are trimmed, well-formed UTF-8 is read back from its
  encoded file unchanged, encrypted or not: \<^verbatim>\<open>decodeIdentity\<close> inverts \<^verbatim>\<open>encodeIdentity\<close>.
\<close>

theorem identity_file_roundtrip:
  assumes "crypto_ok C" and "cipher_ok c" and "storable i"
    and "c \<noteq> None \<longrightarrow> idVersion i = identityVersionEncrypted"
    and "encodeIdentity C c rnd i = Inr doc"
  shows "decodeIdentity C c doc = Inr i"
  using decodeIdentity_encodeIdentity [of C c rnd i doc] assms by (simp add: vault_ok_def)

theorem identity_file_roundtrip_witness:
  "\<exists>doc. encodeIdentity demo_crypto demo_cipher (nonceRandom demo_entropy) demo_identity = Inr doc \<and>
     decodeIdentity demo_crypto demo_cipher doc = Inr demo_identity"
proof -
  obtain doc where doc: "encodeIdentity demo_crypto demo_cipher (nonceRandom demo_entropy)
      demo_identity = Inr doc" using demo_identity_encodes by blast
  have "demo_cipher \<noteq> None \<longrightarrow> idVersion demo_identity = identityVersionEncrypted"
    by (simp add: demo_identity_def)
  from identity_file_roundtrip [OF demo_crypto_ok demo_cipher_ok demo_identity_storable this doc] doc
  show ?thesis by blast
qed





section \<open>Client keys\<close>

lemma Lookup_stored:
  assumes "store_ok C s" "map_get (byID s) k = Some i" "idClientKey i \<noteq> []"
  shows "Lookup C s (idClientKey i) = Some i"
proof -
  have "validIdentity C i" "map_get (byKeyHash s) (idClientKeyHash i) = Some i"
    using store_okD(2,3) [OF assms(1,2)] .
  with assms(3) show ?thesis by (auto simp: Lookup_def validIdentity_iff)
qed

text \<open>
  C5: a successful import returns a client key that selects exactly the imported token; the
  identity is found under its identifier, the client key the same identity had before is
  revoked, and every other key selects what it selected before.
\<close>

theorem import_rotates_client_key:
  assumes "store_ok C s" and "fresh_key C s (keyRandom r)"
    and "ImportWithMetadata C os r token md now (s, d) = (Inr (pub, key), s', d')"
  shows "\<exists>i. Lookup C s' key = Some i \<and> idToken i = TrimSpace token \<and> publicIdentity i = pub \<and>
    map_get (byID s') (pubID pub) = Some i \<and>
    (\<forall>k. Lookup C s' k =
       (if HasPrefix k clientKeyPrefix \<and> hexSum256 C k = idClientKeyHash i then Some i
        else case map_get (byID s) (pubID pub) of
               Some old \<Rightarrow> if hexSum256 C k = idClientKeyHash old then None else Lookup C s k
             | None \<Rightarrow> Lookup C s k))"
proof -
  let ?i = "newIdentity C (stCipher s) (TrimSpace token) key md now"
  from Import_success [OF assms(3)] have key: "randomClientKey (keyRandom r) = Some key"
    and pub: "pub = publicIdentity ?i"
    and commit: "commitIdentity C os (nonceRandom r) ?i (s, d) = (Inr (), s', d')" by auto
  from commit_cases [OF commit] have s': "s' = publish ?i (stDir s, identityFileName (idID ?i)) s"
    by auto
  have ok: "store_ok C s'" by (rule Import_ok [OF assms])
  have id: "pubID pub = idID ?i" by (simp add: pub publicIdentity_def)
  have i: "map_get (byID s') (idID ?i) = Some ?i" by (simp add: s')
  from key have "key \<noteq> []" by (auto elim!: randomClientKey_Some simp: clientKeyPrefix_def)
  then have "Lookup C s' key = Some ?i" using Lookup_stored [OF ok i] by simp
  moreover have "Lookup C s' k =
       (if HasPrefix k clientKeyPrefix \<and> hexSum256 C k = idClientKeyHash ?i then Some ?i
        else case map_get (byID s) (idID ?i) of
               Some old \<Rightarrow> if hexSum256 C k = idClientKeyHash old then None else Lookup C s k
             | None \<Rightarrow> Lookup C s k)" for k
    by (simp add: Lookup_def s' publish_keys split: option.splits)
  ultimately show ?thesis using i by (intro exI [of _ ?i]) (simp add: pub id publicIdentity_def)
qed

theorem import_rotates_client_key_witness:
  "\<exists>i. Lookup demo_crypto (fst (snd demo_import)) demo_key = Some i \<and> idToken i = ''at-1''"
proof -
  obtain d' where d': "demo_import = (Inr (publicIdentity demo_identity, demo_key),
     publish demo_identity (''data'', identityFileName (idID demo_identity)) (emptyStore ''data'' demo_cipher), d')"
    using demo_imports by blast
  from import_rotates_client_key [OF store_ok_empty [OF demo_cipher_ok] demo_fresh
      d' [unfolded demo_import_def]]
  show ?thesis by (auto simp: d' demo_token)
qed

text \<open>
  C6: deleting a stored identity revokes its client key at once, even when removing the file
  fails: no key with its hash selects anything, the identifier is gone, and all other
  identities and keys stay.
\<close>

theorem delete_revokes_client_key:
  assumes "store_ok C s" and "map_get (byID s) (TrimSpace i) = Some j"
    and "Delete os i (s, d) = (res, s', d')"
  shows "GetByID s' i = None \<and> (\<forall>k. hexSum256 C k = idClientKeyHash j \<longrightarrow> Lookup C s' k = None) \<and>
    (\<forall>k. k \<noteq> TrimSpace i \<longrightarrow> map_get (byID s') k = map_get (byID s) k) \<and>
    (\<forall>k. hexSum256 C k \<noteq> idClientKeyHash j \<longrightarrow> Lookup C s' k = Lookup C s k)"
  using Delete_cases [OF assms(3)] assms(2)
  by (auto simp: GetByID_def Lookup_def split: if_splits)

theorem delete_revokes_client_key_witness:
  "GetByID (fst (snd (Delete calm (idID demo_identity) (snd demo_import)))) (idID demo_identity) = None"
proof -
  obtain d' where d': "demo_import = (Inr (publicIdentity demo_identity, demo_key),
     publish demo_identity (''data'', identityFileName (idID demo_identity)) (emptyStore ''data'' demo_cipher), d')"
    using demo_imports by blast
  let ?s = "fst (snd demo_import)" and ?d = "snd (snd demo_import)"
  have ok: "store_ok demo_crypto ?s"
    using Import_ok [OF store_ok_empty [OF demo_cipher_ok] demo_fresh d' [unfolded demo_import_def]]
    by (simp add: d')
  have "map_get (byID ?s) (TrimSpace (idID demo_identity)) = Some demo_identity"
    using valid_id_trim [OF demo_crypto_ok demo_identity_valid] by (simp add: d')
  from delete_revokes_client_key [OF ok this, of calm ?d "fst (Delete calm (idID demo_identity) (?s, ?d))"
      "fst (snd (Delete calm (idID demo_identity) (?s, ?d)))"
      "snd (snd (Delete calm (idID demo_identity) (?s, ?d)))"]
  show ?thesis by simp
qed



lemma steady_import:
  assumes "crypto_ok C" and "steady os" and "TrimSpace token \<noteq> []"
    and "mdAccountScoped md \<longrightarrow> TrimSpace (mdAccountID md) \<noteq> []"
    and "32 \<le> length (the (keyRandom r))" "keyRandom r \<noteq> None"
    and "12 \<le> length (the (nonceRandom r))" "nonceRandom r \<noteq> None"
    and "time_marshals now" and "time_marshals (mdExpiresAt md)"
  shows "\<exists>pub key s' d'. ImportWithMetadata C os r token md now (s, d) = (Inr (pub, key), s', d')"
proof -
  obtain key where key: "randomClientKey (keyRandom r) = Some key"
    using assms(5,6) by (auto simp: randomClientKey_def ReadFull_def)
  let ?i = "newIdentity C (stCipher s) (TrimSpace token) key md now"
  have "validIdentity C ?i"
    using newIdentity_valid [OF assms(1) key assms(3)] assms(4) by blast
  then obtain doc where doc: "encodeIdentity C (stCipher s) (nonceRandom r) ?i = Inr doc"
    using assms(7-10) encode_succeeds [of C ?i "stCipher s" "nonceRandom r"]
    by (auto simp: newIdentity_def Let_def ReadFull_def nonceSize_def store_consts)
  obtain d' where "writeOwnerOnlyAtomic os (identityFileName (idID ?i)) doc d = (Inr (), d')"
    using write_steady [OF assms(2)] by blast
  with doc have "commitIdentity C os (nonceRandom r) ?i (s, d) =
      (Inr (), publish ?i (stDir s, identityFileName (idID ?i)) s, d')"
    by (simp add: commitIdentity_def del: newIdentity_fields)
  with key assms(3,4) show ?thesis by (simp add: ImportWithMetadata_def Let_def del: newIdentity_fields)
qed

text \<open>
  An import goes through whenever nothing is wrong: with a non-blank token, an account
  identifier if the import is account-scoped, working random source and file system, and
  times that JSON can carry, it returns a client key and commits.
\<close>

theorem import_succeeds:
  assumes "crypto_ok C" and "steady os" and "TrimSpace token \<noteq> []"
    and "mdAccountScoped md \<longrightarrow> TrimSpace (mdAccountID md) \<noteq> []"
    and "32 \<le> length (the (keyRandom r))" "keyRandom r \<noteq> None"
    and "12 \<le> length (the (nonceRandom r))" "nonceRandom r \<noteq> None"
    and "time_marshals now" and "time_marshals (mdExpiresAt md)"
  shows "\<exists>pub key s' d'. ImportWithMetadata C os r token md now (s, d) = (Inr (pub, key), s', d')"
  by (rule steady_import [OF assms])

theorem import_succeeds_witness:
  "\<exists>pub key s' d'. ImportWithMetadata demo_crypto calm demo_entropy ''at-1'' emptyMetadata 5
     (emptyStore ''data'' demo_cipher, demo_disk) = (Inr (pub, key), s', d')"
  by (rule import_succeeds)
    (simp_all add: demo_token demo_entropy_def time_marshals_def day_def emptyMetadata_def)

text \<open>
  A delete whose file removal fails does not last.  The call reports an error after the
  identity has left memory, the file stays, and the next \<^verbatim>\<open>Open\<close> of the directory brings the
  identity and its client key back.
\<close>

theorem failed_delete_comes_back:
  assumes "consistent C s d" and "map_get (byID s) (TrimSpace i) = Some j"
    and "fails os (Remove (identityFileName (TrimSpace i)))" and "steady os'"
    and "TrimSpace dir = stDir s" and "stDir s \<noteq> []"
  shows "\<exists>s' t. Delete os i (s, d) = (Inl DeleteFailed, s', d) \<and> GetByID s' i = None \<and>
    Open C os' rnd (map_option cipherKey (stCipher s)) dir d = (Inr t, d) \<and> GetByID t i = Some j"
proof -
  have ok: "store_ok C s" by (rule consistentD(1) [OF assms(1)])
  obtain p where p: "map_get (fileByID s) (TrimSpace i) = Some p"
    using store_okD(6) [OF ok, of "TrimSpace i"] assms(2) by auto
  have "snd p = identityFileName (TrimSpace i)" using consistentD(4) [OF assms(1) p] by simp
  with p assms(2,3) have "\<exists>s'. Delete os i (s, d) = (Inl DeleteFailed, s', d) \<and> GetByID s' i = None"
    by (simp add: Delete_def GetByID_def Let_def)
  moreover obtain t where "Open C os' rnd (map_option cipherKey (stCipher s)) dir d = (Inr t, d)"
    "map_get (byID t) = map_get (byID s)"
    using open_consistent [OF assms(1,4) refl assms(5,6)] by blast
  ultimately show ?thesis using assms(2) by (auto simp: GetByID_def)
qed

theorem failed_delete_comes_back_witness:
  "\<exists>s' t. Delete (calm\<lparr>fails := (\<lambda>op. \<exists>n. op = Remove n)\<rparr>) (idID demo_identity) (snd demo_import) =
      (Inl DeleteFailed, s', snd (snd demo_import)) \<and> GetByID s' (idID demo_identity) = None \<and>
    Open demo_crypto calm (\<lambda>_. None) (map_option cipherKey demo_cipher) ''data'' (snd (snd demo_import)) =
      (Inr t, snd (snd demo_import)) \<and> GetByID t (idID demo_identity) = Some demo_identity"
proof -
  let ?os = "calm\<lparr>fails := (\<lambda>op. \<exists>n. op = Remove n)\<rparr>"
  have con: "consistent demo_crypto (fst (snd demo_import)) (snd (snd demo_import))"
    and c: "stCipher (fst (snd demo_import)) = demo_cipher" "stDir (fst (snd demo_import)) = ''data''"
    using demo_consistent by auto
  obtain d' where d': "demo_import = (Inr (publicIdentity demo_identity, demo_key),
     publish demo_identity (''data'', identityFileName (idID demo_identity)) (emptyStore ''data'' demo_cipher), d')"
    using demo_imports by blast
  have "map_get (byID (fst (snd demo_import))) (TrimSpace (idID demo_identity)) = Some demo_identity"
    using valid_id_trim [OF demo_crypto_ok demo_identity_valid] by (simp add: d')
  from failed_delete_comes_back [OF con this, of ?os calm "''data''" "\<lambda>_. None"] show ?thesis
    by (simp add: c demo_dir)
qed

text \<open>
  \<^verbatim>\<open>ParseEncryptionKey\<close> yields keys of exactly 32 bytes, and accepts every such key in
  hexadecimal and in padded and unpadded standard base64.
\<close>

theorem encryption_key_encodings:
  "(\<forall>v k. ParseEncryptionKey v = Inr k \<longrightarrow> length k = 32) \<and>
   (\<forall>k. length k = 32 \<longrightarrow> ParseEncryptionKey (hex_encode k) = Inr k \<and>
      ParseEncryptionKey (StdEncode k) = Inr k \<and> ParseEncryptionKey (RawStdEncode k) = Inr k)"
  by (simp add: ParseEncryptionKey_length ParseEncryptionKey_hex ParseEncryptionKey_std
      ParseEncryptionKey_raw)

theorem encryption_key_encodings_witness:
  "ParseEncryptionKey (StdEncode (replicate 32 (CHR ''e''))) = Inr (replicate 32 (CHR ''e''))"
  using encryption_key_encodings by simp

text \<open>
  The duplicate check of an import finds what the import stored.  After a successful
  import, \<^verbatim>\<open>LookupByTokenAndAccount\<close> with the same token and account returns that identity,
  for account-scoped imports and for token-only ones.
\<close>

theorem import_then_lookup_by_token:
  assumes "crypto_ok C"
    and "ImportWithMetadata C os r token md now (s, d) = (Inr (pub, key), s', d')"
  shows "\<exists>i. LookupByTokenAndAccount C s' token (if mdAccountScoped md then mdAccountID md else []) = Some i \<and>
    publicIdentity i = pub \<and> idClientKey i = key \<and> idToken i = TrimSpace token"
proof -
  let ?i = "newIdentity C (stCipher s) (TrimSpace token) key md now"
  from Import_success [OF assms(2)] have pub: "pub = publicIdentity ?i"
    and commit: "commitIdentity C os (nonceRandom r) ?i (s, d) = (Inr (), s', d')" by auto
  from commit_cases [OF commit] have s': "s' = publish ?i (stDir s, identityFileName (idID ?i)) s"
    by auto
  have guards: "TrimSpace token \<noteq> []" "mdAccountScoped md \<longrightarrow> TrimSpace (mdAccountID md) \<noteq> []"
    using assms(2) by (auto simp: ImportWithMetadata_def Let_def split: if_splits)
  have "LookupByTokenAndAccount C s' token (if mdAccountScoped md then mdAccountID md else []) = Some ?i"
    using guards assms(1)
    by (auto simp: LookupByTokenAndAccount_def GetByID_def Let_def s')
  then show ?thesis by (simp add: pub)
qed

theorem import_then_lookup_by_token_witness:
  "\<exists>i. LookupByTokenAndAccount demo_crypto (fst (snd demo_import)) ''at-1'' [] = Some i \<and>
     idClientKey i = demo_key"
proof -
  obtain d' where d': "demo_import = (Inr (publicIdentity demo_identity, demo_key),
     publish demo_identity (''data'', identityFileName (idID demo_identity)) (emptyStore ''data'' demo_cipher), d')"
    using demo_imports by blast
  from import_then_lookup_by_token [OF demo_crypto_ok d' [unfolded demo_import_def]]
  show ?thesis by (auto simp: d')
qed

end
