(* ===== verification/Go_Json.thy ===== *)
theory Go_Json
  imports Encoding Utf8
begin

text \<open>
  The part of \<^verbatim>\<open>encoding/json\<close> the sources use: the text of a value (\<^verbatim>\<open>json.Marshal\<close>, with its
  HTML-safe string escapes), the parser, and the rules by which \<^verbatim>\<open>json.Unmarshal\<close> fills a struct.

  Parsing is the decoder's own machine: a lexer (\<open>lex\<close>) and a pushdown automaton
  (\<open>json_step\<close>) whose stack holds the open arrays and objects, at most 10000 of them.  A number
  is kept as its literal.  The main lemma, \<open>parse_text\<close>, is that the parser reads
  back every printed value.  Out of the model: a number that overflows \<^verbatim>\<open>float64\<close> when decoded
  into \<^verbatim>\<open>any\<close> is an error in Go and kept here.
\<close>

section \<open>Values and tokens\<close>

datatype json = JNull | JBool bool | JNum string | JStr string | JArr "json list"
  | JObj "(string \<times> json) list"

datatype token = TOpenObj | TCloseObj | TOpenArr | TCloseArr | TColon | TComma | TLit json

abbreviation quotation :: char where "quotation \<equiv> CHR 0x22"
abbreviation backslash :: char where "backslash \<equiv> CHR 0x5C"

section \<open>Strings\<close>

definition hex_text :: "nat \<Rightarrow> string" where
  "hex_text n = [hex_digit (n div 4096 mod 16), hex_digit (n div 256 mod 16), hex_digit (n div 16 mod 16), hex_digit (n mod 16)]"

definition escape_u :: "nat \<Rightarrow> string" where
  "escape_u n = [backslash, CHR ''u''] @ hex_text n"

definition escape_byte :: "char \<Rightarrow> string" where
  "escape_byte c =
     (if c = quotation \<or> c = backslash then [backslash, c]
      else if byte c = 8 then [backslash, CHR ''b'']
      else if byte c = 12 then [backslash, CHR ''f'']
      else if byte c = 10 then [backslash, CHR ''n'']
      else if byte c = 13 then [backslash, CHR ''r'']
      else if byte c = 9 then [backslash, CHR ''t'']
      else if byte c < 32 \<or> c = CHR ''<'' \<or> c = CHR ''>'' \<or> c = CHR ''&'' then escape_u (byte c)
      else [c])"

definition escape_rune :: "string \<Rightarrow> string" where
  "escape_rune r =
     (if map byte r = [226, 128, 168] then escape_u 8232
      else if map byte r = [226, 128, 169] then escape_u 8233
      else concat (map escape_byte r))"

function escape :: "string \<Rightarrow> string" where
  "escape [] = []"
| "escape (c # cs) =
     (case rune_len (c # cs) of
        None \<Rightarrow> escape_u 65533 @ escape cs
      | Some n \<Rightarrow> escape_rune (take n (c # cs)) @ escape (drop n (c # cs)))"
  by pat_completeness auto
termination
  by (relation "measure length") (auto simp del: rune_len.simps dest!: rune_len_pos)

definition encode_rune :: "nat \<Rightarrow> string" where
  "encode_rune r =
     (if r < 128 then [char_of r]
      else if r < 2048 then [char_of (192 + r div 64), char_of (128 + r mod 64)]
      else if r < 65536 then
        [char_of (224 + r div 4096), char_of (128 + r div 64 mod 64), char_of (128 + r mod 64)]
      else [char_of (240 + r div 262144), char_of (128 + r div 4096 mod 64),
            char_of (128 + r div 64 mod 64), char_of (128 + r mod 64)])"

definition hex4 :: "char \<Rightarrow> char \<Rightarrow> char \<Rightarrow> char \<Rightarrow> nat option" where
  "hex4 a b c d =
     (case (hex_value a, hex_value b, hex_value c, hex_value d) of
        (Some w, Some x, Some y, Some z) \<Rightarrow> Some (4096 * w + 256 * x + 16 * y + z)
      | _ \<Rightarrow> None)"

fun getu4 :: "string \<Rightarrow> nat option" where
  "getu4 (e # u # a # b # c # d # _) = (if e = backslash \<and> u = CHR ''u'' then hex4 a b c d else None)"
| "getu4 _ = None"

definition surrogate :: "nat \<Rightarrow> bool" where
  "surrogate r \<longleftrightarrow> 55296 \<le> r \<and> r < 57344"

definition DecodeRune :: "nat \<Rightarrow> nat option \<Rightarrow> nat option" where
  "DecodeRune r1 r2 =
     (case r2 of
        Some r2 \<Rightarrow> if 55296 \<le> r1 \<and> r1 < 56320 \<and> 56320 \<le> r2 \<and> r2 < 57344
                    then Some (65536 + (r1 - 55296) * 1024 + (r2 - 56320)) else None
      | None \<Rightarrow> None)"

definition simple_escape :: "char \<Rightarrow> char" where
  "simple_escape e =
     (if e = CHR ''b'' then char_of (8 :: nat) else if e = CHR ''f'' then char_of (12 :: nat)
      else if e = CHR ''n'' then char_of (10 :: nat) else if e = CHR ''r'' then char_of (13 :: nat)
      else if e = CHR ''t'' then char_of (9 :: nat) else e)"

fun unescape :: "string \<Rightarrow> string" where
  "unescape [] = []"
| "unescape (c # s) =
     (if c \<noteq> backslash then c # unescape s
      else case getu4 (c # s) of
        None \<Rightarrow> (if s = [] then [] else simple_escape (hd s) # unescape (drop 1 s))
      | Some r \<Rightarrow>
          if surrogate r then
            (case DecodeRune r (getu4 (drop 5 s)) of
               Some d \<Rightarrow> encode_rune d @ unescape (drop 11 s)
             | None \<Rightarrow> replacement @ unescape (drop 5 s))
          else encode_rune r @ unescape (drop 5 s))"

definition unquote :: "string \<Rightarrow> string" where
  "unquote s = utf8_coerce (unescape s)"

definition escapable :: "char \<Rightarrow> bool" where
  "escapable e \<longleftrightarrow> e = quotation \<or> e = backslash \<or> e \<in> set ''/bfnrt''"

fun lex_str :: "string \<Rightarrow> (string \<times> string) option" where
  "lex_str [] = None"
| "lex_str (c # s) =
     (if c = quotation then Some ([], s)
      else if c = backslash then
        (if s \<noteq> [] \<and> escapable (hd s)
           then map_option (\<lambda>(raw, rest). (c # hd s # raw, rest)) (lex_str (drop 1 s))
         else if getu4 (c # s) \<noteq> None
           then map_option (\<lambda>(raw, rest). (c # take 5 s @ raw, rest)) (lex_str (drop 5 s))
         else None)
      else if byte c < 32 then None
      else map_option (\<lambda>(raw, rest). (c # raw, rest)) (lex_str s))"

section \<open>Numbers\<close>

definition lex_exp :: "string \<Rightarrow> string \<Rightarrow> (string \<times> string) option" where
  "lex_exp acc s =
     (case s of
        e # s1 \<Rightarrow>
          if e = CHR ''e'' \<or> e = CHR ''E'' then
            (let sign = takeWhile (\<lambda>c. c = CHR ''+'' \<or> c = CHR ''-'') (take 1 s1);
                 s2 = drop (length sign) s1;
                 ds = takeWhile is_digit s2
             in if ds = [] then None else Some (acc @ e # sign @ ds, dropWhile is_digit s2))
          else Some (acc, s)
      | [] \<Rightarrow> Some (acc, s))"

definition lex_frac :: "string \<Rightarrow> string \<Rightarrow> (string \<times> string) option" where
  "lex_frac acc s =
     (case s of
        c # s1 \<Rightarrow>
          if c = CHR ''.'' then
            (let ds = takeWhile is_digit s1
             in if ds = [] then None else lex_exp (acc @ CHR ''.'' # ds) (dropWhile is_digit s1))
          else lex_exp acc s
      | [] \<Rightarrow> lex_exp acc s)"

definition lex_int :: "string \<Rightarrow> string \<Rightarrow> (string \<times> string) option" where
  "lex_int acc s =
     (case s of
        [] \<Rightarrow> None
      | d # r \<Rightarrow>
          if d = CHR ''0'' then lex_frac (acc @ [d]) r
          else if is_digit d then lex_frac (acc @ takeWhile is_digit s) (dropWhile is_digit s)
          else None)"

definition lex_num :: "string \<Rightarrow> (string \<times> string) option" where
  "lex_num s =
     (case s of
        c # r \<Rightarrow> if c = CHR ''-'' then lex_int [c] r else lex_int [] s
      | [] \<Rightarrow> None)"

section \<open>The parser\<close>

definition json_space :: "char \<Rightarrow> bool" where
  "json_space c \<longleftrightarrow> byte c = 32 \<or> byte c = 9 \<or> byte c = 10 \<or> byte c = 13"

definition punctuation :: "char \<Rightarrow> token option" where
  "punctuation c =
     (if c = CHR ''{'' then Some TOpenObj else if c = CHR ''}'' then Some TCloseObj
      else if c = CHR ''['' then Some TOpenArr else if c = CHR '']'' then Some TCloseArr
      else if c = CHR '':'' then Some TColon else if c = CHR '','' then Some TComma
      else None)"

definition word_token :: "string \<Rightarrow> (token \<times> string) option" where
  "word_token s =
     (if prefix ''null'' s then Some (TLit JNull, drop 4 s)
      else if prefix ''true'' s then Some (TLit (JBool True), drop 4 s)
      else if prefix ''false'' s then Some (TLit (JBool False), drop 5 s)
      else None)"

definition next_token :: "string \<Rightarrow> (token \<times> string) option" where
  "next_token s =
     (case s of
        [] \<Rightarrow> None
      | c # r \<Rightarrow>
          (case punctuation c of
             Some t \<Rightarrow> Some (t, r)
           | None \<Rightarrow>
               if c = quotation then map_option (\<lambda>(raw, rest). (TLit (JStr (unquote raw)), rest)) (lex_str r)
               else if c = CHR ''-'' \<or> is_digit c
                 then map_option (\<lambda>(n, rest). (TLit (JNum n), rest)) (lex_num s)
               else word_token s))"

lemma lex_str_shorter: "lex_str s = Some (raw, rest) \<Longrightarrow> length rest < length s"
  by (induction s arbitrary: raw rest rule: lex_str.induct)
     (fastforce split: if_splits)+

lemma lex_exp_shorter: "lex_exp acc s = Some (n, rest) \<Longrightarrow> length rest \<le> length s"
  by (auto simp: lex_exp_def Let_def split: list.splits if_splits)
     (metis diff_le_self le_SucI le_trans length_dropWhile_le length_drop)+

lemma lex_frac_shorter: "lex_frac acc s = Some (n, rest) \<Longrightarrow> length rest \<le> length s"
  by (auto simp: lex_frac_def Let_def split: list.splits if_splits dest!: lex_exp_shorter)
     (metis le_SucI le_trans length_dropWhile_le)

lemma lex_int_shorter: "lex_int acc s = Some (n, rest) \<Longrightarrow> length rest < length s"
  by (auto simp: lex_int_def split: list.splits if_splits dest!: lex_frac_shorter)
     (metis le_imp_less_Suc le_trans length_dropWhile_le)

lemma lex_num_shorter: "lex_num s = Some (n, rest) \<Longrightarrow> length rest < length s"
  by (auto simp: lex_num_def split: list.splits if_splits dest!: lex_int_shorter)

lemma next_token_shorter: "next_token s = Some (t, rest) \<Longrightarrow> length rest < length s"
  by (auto simp: next_token_def word_token_def dest!: lex_str_shorter lex_num_shorter
      split: list.splits option.splits if_splits)

function lex :: "string \<Rightarrow> token list option" where
  "lex s =
     (case s of
        [] \<Rightarrow> Some []
      | c # r \<Rightarrow>
          if json_space c then lex r
          else case next_token s of
            None \<Rightarrow> None
          | Some (t, rest) \<Rightarrow> map_option ((#) t) (lex rest))"
  by pat_completeness auto
termination
  by (relation "measure length") (auto dest: next_token_shorter)

declare lex.simps [simp del]

datatype frame = InArr "json list" | InObj "(string \<times> json) list" | InField "(string \<times> json) list" string

datatype expectation = WantValue bool | WantKey bool | WantColon string | Done json

definition maxNestingDepth :: nat where "maxNestingDepth = 10000"

definition push :: "frame \<Rightarrow> frame list \<Rightarrow> expectation \<Rightarrow> (frame list \<times> expectation) option" where
  "push f st e = (if length st < maxNestingDepth then Some (f # st, e) else None)"

fun json_step :: "token \<Rightarrow> frame list \<times> expectation \<Rightarrow> (frame list \<times> expectation) option" where
  "json_step (TLit v) (st, WantValue b) = Some (st, Done v)"
| "json_step TOpenArr (st, WantValue b) = push (InArr []) st (WantValue True)"
| "json_step TOpenObj (st, WantValue b) = push (InObj []) st (WantKey True)"
| "json_step TCloseArr (InArr vs # st, WantValue True) = Some (st, Done (JArr vs))"
| "json_step (TLit (JStr k)) (st, WantKey b) = Some (st, WantColon k)"
| "json_step TCloseObj (InObj kvs # st, WantKey True) = Some (st, Done (JObj kvs))"
| "json_step TColon (InObj kvs # st, WantColon k) = Some (InField kvs k # st, WantValue False)"
| "json_step TComma (InArr vs # st, Done v) = Some (InArr (vs @ [v]) # st, WantValue False)"
| "json_step TComma (InField kvs k # st, Done v) = Some (InObj (kvs @ [(k, v)]) # st, WantKey False)"
| "json_step TCloseArr (InArr vs # st, Done v) = Some (st, Done (JArr (vs @ [v])))"
| "json_step TCloseObj (InField kvs k # st, Done v) = Some (st, Done (JObj (kvs @ [(k, v)])))"
| "json_step _ _ = None"

fun json_run :: "token list \<Rightarrow> frame list \<times> expectation \<Rightarrow> (frame list \<times> expectation) option" where
  "json_run [] c = Some c"
| "json_run (t # ts) c = (case json_step t c of None \<Rightarrow> None | Some c' \<Rightarrow> json_run ts c')"

definition json_parse :: "bytes \<Rightarrow> json option" where
  "json_parse s =
     (case lex s of
        None \<Rightarrow> None
      | Some ts \<Rightarrow>
          (case json_run ts ([], WantValue False) of
             Some ([], Done v) \<Rightarrow> Some v
           | _ \<Rightarrow> None))"

section \<open>Printing\<close>

definition text_str :: "string \<Rightarrow> string" where
  "text_str s = quotation # escape s @ [quotation]"

fun sep_by :: "'a list \<Rightarrow> 'a list list \<Rightarrow> 'a list" where
  "sep_by d [] = []"
| "sep_by d [x] = x"
| "sep_by d (x # xs) = x @ d @ sep_by d xs"

fun json_text :: "json \<Rightarrow> string" where
  "json_text JNull = ''null''"
| "json_text (JBool b) = (if b then ''true'' else ''false'')"
| "json_text (JNum n) = n"
| "json_text (JStr s) = text_str s"
| "json_text (JArr vs) = ''['' @ sep_by '','' (map json_text vs) @ '']''"
| "json_text (JObj kvs) = ''{'' @ sep_by '','' (map (\<lambda>(k, v). text_str k @ '':'' @ json_text v) kvs) @ ''}''"

section \<open>Reading back what was printed\<close>

lemma hex_value_digit_iff [simp]: "n < 16 \<Longrightarrow> hex_value (hex_digit n) = Some n"
  by (rule hex_value_digit)

lemma hex4_text: "n < 65536 \<Longrightarrow> hex4 (hex_digit (n div 4096 mod 16)) (hex_digit (n div 256 mod 16))
    (hex_digit (n div 16 mod 16)) (hex_digit (n mod 16)) = Some n"
proof -
  assume n: "n < 65536"
  have d: "n div 256 = n div 16 div 16" "n div 4096 = n div 16 div 16 div 16"
    by (simp_all add: div_mult2_eq [symmetric])
  have "n = 16 * (n div 16) + n mod 16" "n div 16 = 16 * (n div 256) + n div 16 mod 16"
    "n div 256 = 16 * (n div 4096) + n div 256 mod 16"
    unfolding d by simp_all
  then have "4096 * (n div 4096) + 256 * (n div 256 mod 16) + 16 * (n div 16 mod 16) + n mod 16 = n"
    by linarith
  with n show ?thesis by (simp add: hex4_def)
qed

lemma getu4_escape_u: "n < 65536 \<Longrightarrow> getu4 (escape_u n @ s) = Some n"
  using hex4_text [of n] by (simp add: escape_u_def hex_text_def)

lemma escape_u_unescape:
  assumes "n < 65536" "\<not> surrogate n"
  shows "unescape (escape_u n @ s) = encode_rune n @ unescape s"
proof -
  have "escape_u n @ s = backslash # (CHR ''u'' # hex_text n @ s)" by (simp add: escape_u_def)
  then show ?thesis
    using getu4_escape_u [OF assms(1), of s] assms(2) by (simp add: hex_text_def)
qed

lemma getu4_none: "e \<noteq> CHR ''u'' \<Longrightarrow> getu4 (backslash # e # s) = None"
  by (cases "(backslash # e # s)" rule: getu4.cases) auto

lemma escape_u_lex:
  assumes "n < 65536"
  shows "lex_str (escape_u n @ s) = map_option (\<lambda>(raw, rest). (escape_u n @ raw, rest)) (lex_str s)"
proof -
  have "escape_u n @ s = backslash # (CHR ''u'' # hex_text n @ s)" by (simp add: escape_u_def)
  moreover have "\<not> escapable (CHR ''u'')" by (simp add: escapable_def)
  moreover have "getu4 (backslash # (CHR ''u'' # hex_text n @ s)) = Some n"
    using getu4_escape_u [OF assms, of s] by (simp add: escape_u_def)
  ultimately show ?thesis by (simp add: escape_u_def hex_text_def)
qed

lemma byte_eq_iff: "byte c = n \<Longrightarrow> n < 256 \<Longrightarrow> c = char_of n"
  by (metis char_of_byte)

lemma escape_byte_cases:
  obtains (same) "escape_byte c = [c]" "c \<noteq> quotation" "c \<noteq> backslash" "32 \<le> byte c"
  | (short) e where "escape_byte c = [backslash, e]" "escapable e" "e \<noteq> CHR ''u''" "simple_escape e = c" "byte c < 128"
  | (coded) "escape_byte c = escape_u (byte c)" "byte c < 128"
proof -
  have b: "byte (CHR ''<'') < 128" "byte (CHR ''>'') < 128" "byte (CHR ''&'') < 128"
    "byte quotation < 128" "byte backslash < 128" by (simp_all add: byte_def)
  have s: "escapable e \<and> e \<noteq> CHR ''u'' \<and> simple_escape e = char_of n" if "(e, n) \<in> set [(CHR ''b'', 8 :: nat),
      (CHR ''f'', 12), (CHR ''n'', 10), (CHR ''r'', 13), (CHR ''t'', 9)]" for e n
    using that by (auto simp: escapable_def simple_escape_def)
  show thesis
  proof (cases "c = quotation \<or> c = backslash")
    case True
    then have "escape_byte c = [backslash, c]" "escapable c" "c \<noteq> CHR ''u''" "simple_escape c = c" "byte c < 128"
      using b by (auto simp: escape_byte_def escapable_def simple_escape_def)
    then show thesis by (rule short)
  next
    case plain: False
    show thesis
    proof (cases "byte c \<in> {8, 12, 10, 13, 9}")
      case True
      then obtain e where e: "(e, byte c) \<in> set [(CHR ''b'', 8 :: nat), (CHR ''f'', 12), (CHR ''n'', 10), (CHR ''r'', 13), (CHR ''t'', 9)]"
        "escape_byte c = [backslash, e]"
        using plain by (elim insertE emptyE) (simp_all add: escape_byte_def)
      from True have "byte c < 128" by auto
      with e s [OF e(1)] show thesis by (intro short [of e]) auto
    next
      case False
      then show thesis
      proof (cases "byte c < 32 \<or> c = CHR ''<'' \<or> c = CHR ''>'' \<or> c = CHR ''&''")
        case True
        with plain False b show thesis by (intro coded) (auto simp: escape_byte_def)
      next
        case other: False
        with plain False show thesis by (intro same) (simp_all add: escape_byte_def)
      qed
    qed
  qed
qed

lemma escape_byte_lex:
  "lex_str (escape_byte c @ s) = map_option (\<lambda>(raw, rest). (escape_byte c @ raw, rest)) (lex_str s)"
  by (cases c rule: escape_byte_cases) (auto simp: escape_u_lex)

lemma escape_byte_unescape: "unescape (escape_byte c @ s) = c # unescape s"
proof (cases c rule: escape_byte_cases)
  case coded
  then show ?thesis by (simp add: escape_u_unescape surrogate_def) (simp add: encode_rune_def)
qed (auto simp: getu4_none)

lemma escape_bytes:
  "lex_str (concat (map escape_byte r) @ s) =
     map_option (\<lambda>(raw, rest). (concat (map escape_byte r) @ raw, rest)) (lex_str s)"
  "unescape (concat (map escape_byte r) @ s) = r @ unescape s"
  by (induction r)
     (auto simp: escape_byte_lex escape_byte_unescape option.map_comp comp_def case_prod_beta' option.map_ident)

lemma map_byte: "map byte r = ns \<Longrightarrow> r = map char_of ns"
  by (induction r arbitrary: ns) auto

lemma escape_rune_lex:
  "lex_str (escape_rune r @ s) = map_option (\<lambda>(raw, rest). (escape_rune r @ raw, rest)) (lex_str s)"
  by (simp add: escape_rune_def escape_u_lex escape_bytes)

lemma escape_rune_unescape: "unescape (escape_rune r @ s) = r @ unescape s"
  by (auto simp: escape_rune_def escape_bytes escape_u_unescape surrogate_def encode_rune_def dest!: map_byte)

lemma escape_lex: "lex_str (escape s @ quotation # rest) = Some (escape s, rest)"
  by (induction s rule: escape.induct)
     (auto simp: escape_u_lex escape_rune_lex simp del: rune_len.simps split: option.splits)

lemma escape_unescape: "unescape (escape s) = utf8_coerce s"
proof (induction s rule: escape.induct)
  case (2 c cs)
  have "unescape (escape_u 65533 @ t) = replacement @ unescape t" for t
    by (simp add: escape_u_unescape surrogate_def) (simp add: encode_rune_def replacement_def)
  with 2 show ?case
    by (auto simp: escape_rune_unescape utf8_coerce_def simp del: rune_len.simps split: option.splits)
qed (simp add: utf8_coerce_def)

lemma unquote_escape: "unquote (escape s) = utf8_coerce s"
  by (simp add: unquote_def escape_unescape utf8_coerce_valid)

definition number_ok :: "string \<Rightarrow> bool" where
  "number_ok n \<longleftrightarrow> lex_num n = Some (n, [])"

definition delimited :: "string \<Rightarrow> bool" where
  "delimited s \<longleftrightarrow> s = [] \<or> \<not> is_digit (hd s) \<and> hd s \<notin> set ''.eE+-''"

lemma takeWhile_delimited:
  "delimited t \<Longrightarrow> takeWhile is_digit (s @ t) = takeWhile is_digit s"
  "delimited t \<Longrightarrow> dropWhile is_digit (s @ t) = dropWhile is_digit s @ t"
  by (induction s) (cases t; auto simp: delimited_def)+

lemma lex_exp_append:
  assumes "delimited t" "lex_exp acc s = Some (n, r)"
  shows "lex_exp acc (s @ t) = Some (n, r @ t)"
proof (cases s)
  case Nil
  with assms show ?thesis by (cases t) (auto simp: lex_exp_def delimited_def)
next
  case (Cons e s1)
  show ?thesis
  proof (cases s1)
    case Nil
    with Cons assms show ?thesis by (auto simp: lex_exp_def split: if_splits)
  next
    case (Cons x s2)
    with \<open>s = e # s1\<close> assms takeWhile_delimited [OF assms(1), of s2] takeWhile_delimited [OF assms(1), of "x # s2"]
    show ?thesis by (auto simp: lex_exp_def Let_def split: if_splits)
  qed
qed

lemma lex_frac_append:
  assumes "delimited t" "lex_frac acc s = Some (n, r)"
  shows "lex_frac acc (s @ t) = Some (n, r @ t)"
  using assms lex_exp_append [OF assms(1), of acc s n r] lex_exp_append [OF assms(1), of acc "[]"]
  by (cases s; cases t)
     (auto simp: lex_frac_def Let_def takeWhile_delimited delimited_def lex_exp_append split: if_splits)

lemma lex_int_append:
  assumes "delimited t" "lex_int acc s = Some (n, r)"
  shows "lex_int acc (s @ t) = Some (n, r @ t)"
  using assms takeWhile_delimited [OF assms(1), of s]
  by (cases s) (auto simp: lex_int_def lex_frac_append split: if_splits)

lemma lex_num_append:
  assumes "delimited t" "lex_num s = Some (n, r)"
  shows "lex_num (s @ t) = Some (n, r @ t)"
  using assms lex_int_append [OF assms(1), of "[]" s]
  by (cases s) (auto simp: lex_num_def lex_int_append split: if_splits)

fun toks :: "json \<Rightarrow> token list" where
  "toks (JArr vs) = TOpenArr # sep_by [TComma] (map toks vs) @ [TCloseArr]"
| "toks (JObj kvs) =
     TOpenObj # sep_by [TComma] (map (\<lambda>(k, v). TLit (JStr k) # TColon # toks v) kvs) @ [TCloseObj]"
| "toks v = [TLit v]"

fun json_depth :: "json \<Rightarrow> nat" where
  "json_depth (JArr vs) = Suc (foldr max (map json_depth vs) 0)"
| "json_depth (JObj kvs) = Suc (foldr max (map (\<lambda>(k, v). json_depth v) kvs) 0)"
| "json_depth v = 0"

text \<open>The values that survive printing: valid UTF-8 strings, number literals.\<close>

fun clean :: "json \<Rightarrow> bool" where
  "clean (JNum n) = number_ok n"
| "clean (JStr s) = ValidString s"
| "clean (JArr vs) = list_all clean vs"
| "clean (JObj kvs) = list_all (\<lambda>(k, v). ValidString k \<and> clean v) kvs"
| "clean v = True"

lemma foldr_max_le: "x \<in> set xs \<Longrightarrow> x \<le> foldr max xs (m :: nat)"
  by (induction xs) auto

lemma lex_next:
  "next_token (c # s) = Some (t, rest) \<Longrightarrow> \<not> json_space c \<Longrightarrow> lex (c # s) = map_option ((#) t) (lex rest)"
  by (subst lex.simps) simp

lemma lex_punctuation: "punctuation c = Some t \<Longrightarrow> lex (c # s) = map_option ((#) t) (lex s)"
  by (rule lex_next) (auto simp: next_token_def punctuation_def json_space_def byte_def split: if_splits)

lemmas lex_marks = lex_punctuation [of "CHR ''{''" TOpenObj, simplified punctuation_def, simplified]
  lex_punctuation [of "CHR ''}''" TCloseObj, simplified punctuation_def, simplified]
  lex_punctuation [of "CHR ''[''" TOpenArr, simplified punctuation_def, simplified]
  lex_punctuation [of "CHR '']''" TCloseArr, simplified punctuation_def, simplified]
  lex_punctuation [of "CHR '':''" TColon, simplified punctuation_def, simplified]
  lex_punctuation [of "CHR '',''" TComma, simplified punctuation_def, simplified]

lemma lex_string: "lex (text_str s @ rest) = map_option ((#) (TLit (JStr (utf8_coerce s)))) (lex rest)"
proof -
  have "next_token (quotation # (escape s @ quotation # rest)) = Some (TLit (JStr (utf8_coerce s)), rest)"
    by (simp add: next_token_def punctuation_def escape_lex unquote_escape)
  from lex_next [OF this] show ?thesis by (simp add: text_str_def json_space_def byte_def)
qed

lemma lex_number:
  assumes "number_ok n" "delimited rest"
  shows "lex (n @ rest) = map_option ((#) (TLit (JNum n))) (lex rest)"
proof -
  have num: "lex_num (n @ rest) = Some (n, rest)"
    using lex_num_append [OF assms(2), of n n "[]"] assms(1) by (simp add: number_ok_def)
  obtain c r where n: "n = c # r" and c: "c = CHR ''-'' \<or> is_digit c"
    using assms(1) by (cases n) (auto simp: number_ok_def lex_num_def lex_int_def is_digit_def byte_def
        split: if_splits)
  have "punctuation c = None" "c \<noteq> quotation" "\<not> json_space c"
    using c by (auto simp: punctuation_def json_space_def is_digit_def byte_def)
  with num n c show ?thesis by (simp add: lex_next next_token_def)
qed

lemma lex_words:
  "lex (''null'' @ rest) = map_option ((#) (TLit JNull)) (lex rest)"
  "lex (''true'' @ rest) = map_option ((#) (TLit (JBool True))) (lex rest)"
  "lex (''false'' @ rest) = map_option ((#) (TLit (JBool False))) (lex rest)"
  by (simp_all add: lex_next next_token_def punctuation_def word_token_def json_space_def is_digit_def byte_def)

lemma delimited_marks [simp]: "delimited []" "delimited (CHR '','' # s)" "delimited (CHR '']'' # s)" "delimited (CHR ''}'' # s)"
  by (simp_all add: delimited_def is_digit_def byte_def)

lemma lex_sep:
  assumes "\<And>x r. x \<in> set xs \<Longrightarrow> delimited r \<Longrightarrow> lex (f x @ r) = map_option ((@) (g x)) (lex r)"
    and "delimited rest"
  shows "lex (sep_by '','' (map f xs) @ rest) = map_option ((@) (sep_by [TComma] (map g xs))) (lex rest)"
  using assms
proof (induction xs)
  case (Cons x xs)
  show ?case
  proof (cases xs)
    case Nil
    with Cons show ?thesis by simp
  next
    case (Cons y ys)
    with Cons.IH Cons.prems have IH: "lex (sep_by '','' (map f (y # ys)) @ rest) =
        map_option ((@) (sep_by [TComma] (map g (y # ys)))) (lex rest)" by simp
    have "lex (f x @ CHR '','' # sep_by '','' (map f (y # ys)) @ rest) =
        map_option ((@) (g x)) (lex (CHR '','' # sep_by '','' (map f (y # ys)) @ rest))"
      by (rule Cons.prems) auto
    with IH Cons show ?thesis by (simp add: lex_marks option.map_comp comp_def)
  qed
qed (simp add: append_Nil [abs_def] option.map_ident)

lemma append_Cons_map: "map_option ((@) [t]) x = map_option ((#) t) x"
  by (cases x) simp_all

lemma lex_text:
  "clean v \<Longrightarrow> delimited rest \<Longrightarrow> lex (json_text v @ rest) = map_option ((@) (toks v)) (lex rest)"
proof (induction v arbitrary: rest rule: json_text.induct)
  case (5 vs)
  have "lex (sep_by '','' (map json_text vs) @ CHR '']'' # rest) =
      map_option ((@) (sep_by [TComma] (map toks vs))) (lex (CHR '']'' # rest))"
    using 5 by (intro lex_sep) (auto simp: list_all_iff)
  then show ?case by (simp add: lex_marks option.map_comp comp_def)
next
  case (6 kvs)
  have field: "lex (text_str k @ '':'' @ json_text v @ r) =
      map_option ((@) (TLit (JStr k) # TColon # toks v)) (lex r)"
    if "(k, v) \<in> set kvs" "delimited r" for k v r
  proof -
    have kv: "ValidString k" "clean v" using "6.prems"(1) that(1) by (auto simp: list_all_iff)
    have "lex (json_text v @ r) = map_option ((@) (toks v)) (lex r)"
      by (rule "6.IH" [OF that(1) refl kv(2) that(2)])
    then show ?thesis by (cases "lex r") (simp_all add: lex_string lex_marks utf8_coerce_valid kv)
  qed
  have "lex (sep_by '','' (map (\<lambda>(k, v). text_str k @ '':'' @ json_text v) kvs) @ CHR ''}'' # rest) =
      map_option ((@) (sep_by [TComma] (map (\<lambda>(k, v). TLit (JStr k) # TColon # toks v) kvs))) (lex (CHR ''}'' # rest))"
    by (intro lex_sep) (auto simp: field simp del: append_Cons)
  then show ?case by (simp add: lex_marks option.map_comp comp_def)
qed (auto simp: lex_words [simplified] lex_number lex_string utf8_coerce_valid append_Cons_map)

lemma json_run_append:
  "json_run (ts @ us) c = (case json_run ts c of None \<Rightarrow> None | Some c' \<Rightarrow> json_run us c')"
  by (induction ts arbitrary: c) (auto split: option.splits)

lemma run_elements:
  assumes "\<And>x st b. x \<in> set xs \<Longrightarrow> length st \<le> d \<Longrightarrow> json_run (toks x) (st, WantValue b) = Some (st, Done x)"
    and "Suc (length st) \<le> d" and "xs \<noteq> []"
  shows "json_run (sep_by [TComma] (map toks xs) @ [TCloseArr]) (InArr ys # st, WantValue b) = Some (st, Done (JArr (ys @ xs)))"
  using assms
proof (induction xs arbitrary: ys b)
  case (Cons x xs)
  show ?case
  proof (cases xs)
    case Nil
    with Cons show ?thesis by (simp add: json_run_append)
  next
    case (Cons z zs)
    with Cons.IH [of "ys @ [x]" False] Cons.prems show ?thesis by (simp add: json_run_append)
  qed
qed simp

lemma run_fields:
  assumes "\<And>k x st b. (k, x) \<in> set xs \<Longrightarrow> length st \<le> d \<Longrightarrow> json_run (toks x) (st, WantValue b) = Some (st, Done x)"
    and "Suc (length st) \<le> d" and "xs \<noteq> []"
  shows "json_run (sep_by [TComma] (map (\<lambda>(k, v). TLit (JStr k) # TColon # toks v) xs) @ [TCloseObj]) (InObj ys # st, WantKey b) =
     Some (st, Done (JObj (ys @ xs)))"
  using assms
proof (induction xs arbitrary: ys b)
  case (Cons kx xs)
  obtain k x where kx: "kx = (k, x)" by (cases kx)
  have x: "json_run (toks x) (InField ys k # st, WantValue False) = Some (InField ys k # st, Done x)"
    using Cons.prems(1) [of k x "InField ys k # st" False] Cons.prems(2) kx by simp
  show ?case
  proof (cases xs)
    case Nil
    with x kx show ?thesis by (simp add: json_run_append)
  next
    case (Cons z zs)
    have "json_run (sep_by [TComma] (map (\<lambda>(k, v). TLit (JStr k) # TColon # toks v) xs) @ [TCloseObj])
        (InObj (ys @ [(k, x)]) # st, WantKey False) = Some (st, Done (JObj ((ys @ [(k, x)]) @ xs)))"
      by (rule Cons.IH) (use Cons.prems Cons in auto)
    with Cons x kx show ?thesis by (simp add: json_run_append)
  qed
qed simp

lemma run_toks:
  "length st + json_depth v \<le> maxNestingDepth \<Longrightarrow> json_run (toks v) (st, WantValue b) = Some (st, Done v)"
proof (induction v arbitrary: st b rule: toks.induct)
  case (1 vs)
  have each: "json_run (toks x) (st', WantValue b') = Some (st', Done x)"
    if "x \<in> set vs" "length st' \<le> Suc (length st)" for x st' b'
    using that "1.prems" foldr_max_le [of "json_depth x" "map json_depth vs" 0]
    by (intro "1.IH") auto
  show ?case
  proof (cases "vs = []")
    case False
    from run_elements [of vs "Suc (length st)" st "[]" True, OF each _ this] show ?thesis
      using "1.prems" by (simp add: push_def)
  qed (use "1.prems" in \<open>simp add: push_def\<close>)
next
  case (2 kvs)
  have each: "json_run (toks x) (st', WantValue b') = Some (st', Done x)"
    if "(k, x) \<in> set kvs" "length st' \<le> Suc (length st)" for k x st' b'
    using that "2.prems" foldr_max_le [of "json_depth x" "map (\<lambda>(k, v). json_depth v) kvs" 0]
    by (intro "2.IH") force+
  show ?case
  proof (cases "kvs = []")
    case False
    from run_fields [of kvs "Suc (length st)" st "[]" True, OF each _ this] show ?thesis
      using "2.prems" by (simp add: push_def)
  qed (use "2.prems" in \<open>simp add: push_def\<close>)
qed auto

theorem parse_text:
  assumes "clean v" "json_depth v \<le> maxNestingDepth"
  shows "json_parse (json_text v) = Some v"
proof -
  have "lex [] = Some []" by (subst lex.simps) simp
  then show ?thesis
    using lex_text [OF assms(1), of "[]"] run_toks [of "[]" v False] assms(2) by (simp add: json_parse_def)
qed

section \<open>Streams and interface values\<close>

text \<open>
  \<^verbatim>\<open>json.Decoder.Decode\<close> reads one value from the front of a stream and leaves the rest; a stream of
  blanks is at its end.
\<close>

function stream_run :: "string \<Rightarrow> frame list \<times> expectation \<Rightarrow> (json \<times> string) option" where
  "stream_run s c =
     (case c of
        ([], Done v) \<Rightarrow> Some (v, s)
      | _ \<Rightarrow>
          (case s of
             [] \<Rightarrow> None
           | ch # r \<Rightarrow>
               if json_space ch then stream_run r c
               else case next_token s of
                 None \<Rightarrow> None
               | Some (t, rest) \<Rightarrow>
                   (case json_step t c of None \<Rightarrow> None | Some c' \<Rightarrow> stream_run rest c')))"
  by pat_completeness auto
termination
  by (relation "measure (length o fst)") (auto dest: next_token_shorter)

declare stream_run.simps [simp del]

datatype decoded = StreamEOF | StreamError | StreamValue json string

definition Decode :: "string \<Rightarrow> decoded" where
  "Decode s =
     (if list_all json_space s then StreamEOF
      else case stream_run s ([], WantValue False) of
        None \<Rightarrow> StreamError
      | Some (v, rest) \<Rightarrow> StreamValue v rest)"

lemma json_step_done: "json_step t ([], Done v) = None"
  by (cases t; simp)

lemma lex_blank: "lex s = Some [] \<Longrightarrow> list_all json_space s"
  by (induction s rule: lex.induct) (subst (asm) (2) lex.simps, auto split: list.splits if_splits option.splits)

lemma stream_run_prefix:
  "lex s = Some (ts @ us) \<Longrightarrow> json_run ts c = Some ([], Done v) \<Longrightarrow>
     \<exists>rest. stream_run s c = Some (v, rest) \<and> lex rest = Some us"
proof (induction "length s" arbitrary: s c ts rule: less_induct)
  case less
  show ?case
  proof (cases "\<exists>w. c = ([], Done w)")
    case True
    then obtain w where c: "c = ([], Done w)" by blast
    with less.prems(2) have "ts = [] \<and> v = w" by (cases ts) (auto simp: json_step_done)
    with c less.prems(1) show ?thesis by (simp add: stream_run.simps)
  next
    case False
    then have nd: "stream_run s c = (case s of [] \<Rightarrow> None | ch # r \<Rightarrow>
        if json_space ch then stream_run r c
        else case next_token s of None \<Rightarrow> None
          | Some (t, rest) \<Rightarrow> (case json_step t c of None \<Rightarrow> None | Some c' \<Rightarrow> stream_run rest c'))"
      by (subst stream_run.simps) (auto split: list.splits prod.splits expectation.splits)
    obtain t0 ts0 where ts: "ts = t0 # ts0" using False less.prems(2) by (cases ts) auto
    obtain ch r where s: "s = ch # r" using less.prems(1) ts by (cases s) (auto simp: lex.simps)
    show ?thesis
    proof (cases "json_space ch")
      case True
      with s less.prems(1) have "lex r = Some (ts @ us)" by (simp add: lex.simps)
      with True s nd less.hyps [of r ts c] less.prems(2) show ?thesis by simp
    next
      case ns: False
      with s ts less.prems(1) obtain rest where t: "next_token s = Some (t0, rest)" "lex rest = Some (ts0 @ us)"
        by (subst (asm) lex.simps) (auto split: option.splits)
      with ts less.prems(2) obtain c' where c': "json_step t0 c = Some c'" "json_run ts0 c' = Some ([], Done v)"
        by (auto split: option.splits)
      have "\<exists>rest'. stream_run rest c' = Some (v, rest') \<and> lex rest' = Some us"
        by (rule less.hyps [OF next_token_shorter [OF t(1)] t(2) c'(2)])
      with nd s ns t c' show ?thesis by simp
    qed
  qed
qed

lemma stream_run_stuck:
  "lex s = Some (t # us) \<Longrightarrow> json_step t ([], WantValue b) = None \<Longrightarrow> stream_run s ([], WantValue b) = None"
proof (induction s)
  case (Cons c s)
  show ?case
  proof (cases "json_space c")
    case True
    with Cons.prems(1) have "lex s = Some (t # us)" by (simp add: lex.simps)
    with True Cons show ?thesis by (simp add: stream_run.simps [of "c # s"])
  next
    case False
    with Cons.prems(1) obtain rest where "next_token (c # s) = Some (t, rest)"
      by (subst (asm) lex.simps) (auto split: option.splits)
    with False Cons.prems(2) show ?thesis by (simp add: stream_run.simps [of "c # s"])
  qed
qed (simp add: stream_run.simps)

lemma stream_run_lex:
  "lex s = Some ts \<Longrightarrow> json_run ts c = Some ([], Done v) \<Longrightarrow>
     \<exists>rest. stream_run s c = Some (v, rest) \<and> list_all json_space rest"
  using stream_run_prefix [of s ts "[]" c v] lex_blank by fastforce

lemma Decode_parse:
  assumes "json_parse s = Some v"
  shows "\<exists>rest. Decode s = StreamValue v rest \<and> list_all json_space rest"
proof -
  obtain ts where ts: "lex s = Some ts" "json_run ts ([], WantValue False) = Some ([], Done v)"
    using assms by (auto simp: json_parse_def split: option.splits prod.splits list.splits expectation.splits)
  have blank: "lex s = Some []" if "list_all json_space s"
    using that by (induction s) (simp_all add: lex.simps)
  have "\<not> list_all json_space s"
  proof
    assume "list_all json_space s"
    with blank ts(1) have "ts = []" by simp
    with ts(2) show False by simp
  qed
  with stream_run_lex [OF ts] show ?thesis by (auto simp: Decode_def)
qed

text \<open>Decoding into \<^verbatim>\<open>any\<close> makes a Go map of an object: the last of two equal keys wins.\<close>

fun json_any :: "json \<Rightarrow> json" where
  "json_any (JArr vs) = JArr (map json_any vs)"
| "json_any (JObj kvs) = JObj (fold (\<lambda>(k, v) m. map_put k v m) (map (\<lambda>(k, v). (k, json_any v)) kvs) [])"
| "json_any v = v"

section \<open>Filling a struct\<close>

text \<open>
  \<^verbatim>\<open>json.Unmarshal\<close> walks the keys of an object in order and decodes each value into the field whose
  name it matches, ignoring case; later keys win.  \<^verbatim>\<open>null\<close> leaves a string, number or boolean field as
  it is and sets a pointer or an interface to nil.  A value of the wrong type makes the call fail,
  which is all its callers look at.  A decoder takes the field's current value.
\<close>

type_synonym 'a decoder = "'a \<Rightarrow> json \<Rightarrow> 'a option"

definition dec_str :: "string decoder" where
  "dec_str cur v = (case v of JStr s \<Rightarrow> Some s | JNull \<Rightarrow> Some cur | _ \<Rightarrow> None)"

definition dec_bool :: "bool decoder" where
  "dec_bool cur v = (case v of JBool b \<Rightarrow> Some b | JNull \<Rightarrow> Some cur | _ \<Rightarrow> None)"

definition dec_any :: "json decoder" where
  "dec_any cur v = Some v"

fun digits_value :: "nat \<Rightarrow> string \<Rightarrow> nat" where
  "digits_value n [] = n"
| "digits_value n (c # s) = digits_value (10 * n + (byte c - 48)) s"

text \<open>\<^verbatim>\<open>strconv.ParseInt(literal, 10, 64)\<close> on the literal of a JSON number.\<close>

definition ParseInt64 :: "string \<Rightarrow> int option" where
  "ParseInt64 lit =
     (let neg = HasPrefix lit ''-''; ds = TrimPrefix lit ''-'' in
      if ds = [] \<or> \<not> list_all is_digit ds then None
      else let n = (if neg then - int (digits_value 0 ds) else int (digits_value 0 ds)) in
        if - (2 ^ 63) \<le> n \<and> n < 2 ^ 63 then Some n else None)"

definition dec_int64 :: "int decoder" where
  "dec_int64 cur v = (case v of JNum n \<Rightarrow> ParseInt64 n | JNull \<Rightarrow> Some cur | _ \<Rightarrow> None)"

definition dec_ptr :: "'a decoder \<Rightarrow> 'a \<Rightarrow> 'a option decoder" where
  "dec_ptr dec zero cur v =
     (if v = JNull then Some None
      else map_option Some (dec (case cur of None \<Rightarrow> zero | Some x \<Rightarrow> x) v))"

fun dec_elems :: "'a decoder \<Rightarrow> 'a \<Rightarrow> json list \<Rightarrow> 'a list option" where
  "dec_elems dec zero [] = Some []"
| "dec_elems dec zero (v # vs) =
     (case dec zero v of
        None \<Rightarrow> None
      | Some x \<Rightarrow> map_option ((#) x) (dec_elems dec zero vs))"

definition dec_list :: "'a decoder \<Rightarrow> 'a \<Rightarrow> 'a list decoder" where
  "dec_list dec zero cur v =
     (case v of JArr vs \<Rightarrow> dec_elems dec zero vs | JNull \<Rightarrow> Some [] | _ \<Rightarrow> None)"

fun field :: "'a decoder \<Rightarrow> string \<Rightarrow> (string \<times> json) list \<Rightarrow> 'a \<Rightarrow> 'a option" where
  "field dec name [] cur = Some cur"
| "field dec name ((k, v) # kvs) cur =
     (if EqualFold k name
      then (case dec cur v of None \<Rightarrow> None | Some x \<Rightarrow> field dec name kvs x)
      else field dec name kvs cur)"

text \<open>The keys of a top-level value decoded into a struct.\<close>

definition struct_keys :: "json \<Rightarrow> (string \<times> json) list option" where
  "struct_keys v = (case v of JObj kvs \<Rightarrow> Some kvs | JNull \<Rightarrow> Some [] | _ \<Rightarrow> None)"

fun FormatInt :: "nat \<Rightarrow> string" where
  "FormatInt n = (if n < 10 then [char_of (48 + n)] else FormatInt (n div 10) @ [char_of (48 + n mod 10)])"

declare FormatInt.simps [simp del]

definition int_text :: "int \<Rightarrow> string" where
  "int_text i = (if i < 0 then ''-'' @ FormatInt (nat (- i)) else FormatInt (nat i))"

lemma digits_value_append: "digits_value n (s @ t) = digits_value (digits_value n s) t"
  by (induction s arbitrary: n) auto

lemma byte_digit: "d < 10 \<Longrightarrow> byte (char_of (48 + d)) = 48 + d"
  by (simp add: byte_char_of)

lemma FormatInt_digits: "FormatInt n \<noteq> [] \<and> list_all is_digit (FormatInt n) \<and> digits_value 0 (FormatInt n) = n"
proof (induction n rule: FormatInt.induct)
  case (1 n)
  have "byte (char_of (48 + n mod 10)) = 48 + n mod 10" by (rule byte_digit) simp
  with 1 byte_digit [of n] show ?case
    by (subst (1 2 3) FormatInt.simps) (auto simp: is_digit_def [of "char_of _"] digits_value_append)
qed

lemma ParseInt64_text:
  assumes "- (2 ^ 63) \<le> i" "i < 2 ^ 63"
  shows "ParseInt64 (int_text i) = Some i"
proof -
  have no: "\<not> HasPrefix (FormatInt n) ''-''" for n
  proof
    assume "HasPrefix (FormatInt n) ''-''"
    then obtain s where "FormatInt n = CHR ''-'' # s" by (auto simp: HasPrefix_def prefix_def)
    with FormatInt_digits [of n] have "is_digit (CHR ''-'')" by auto
    then show False by (simp add: is_digit_def byte_def)
  qed
  show ?thesis
  proof (cases "i < 0")
    case True
    have "HasPrefix (''-'' @ FormatInt (nat (- i))) ''-''" by (rule HasPrefix_append)
    moreover have "TrimPrefix (''-'' @ FormatInt (nat (- i))) ''-'' = FormatInt (nat (- i))" by (rule TrimPrefix_append)
    ultimately show ?thesis
      using True FormatInt_digits [of "nat (- i)"] assms by (simp add: ParseInt64_def int_text_def Let_def)
  next
    case False
    then show ?thesis
      using no [of "nat i"] FormatInt_digits [of "nat i"] assms
      by (simp add: ParseInt64_def int_text_def Let_def TrimPrefix_def)
  qed
qed

end
