(* ===== verification/Go_Net.thy ===== *)
theory Go_Net
  imports Go_Json Identity_Store
begin

text \<open>
  What the components share of \<^verbatim>\<open>net/http\<close> and \<^verbatim>\<open>time\<close>.

  The other end of an HTTP exchange is not under the repository: a transport is a parameter that
  maps a request and the state of the outside world to an outcome and a new state.  The failures
  of \<^verbatim>\<open>http.NewRequestWithContext\<close> (an unparsable URL) and of \<^verbatim>\<open>client.Do\<close> are outcomes too.
  Times are nanoseconds since the zero \<^verbatim>\<open>time.Time\<close>, as in \<^verbatim>\<open>Identity_Store\<close>;
  conversions that Go performs on \<^verbatim>\<open>int64\<close> wrap around explicitly.
\<close>

section \<open>HTTP\<close>

record request =
  rqMethod :: string
  rqURL :: string
  rqHeader :: "(string \<times> string) list"
  rqBody :: bytes

record response =
  rsStatus :: int
  rsHeader :: "(string \<times> string) list"
  rsBody :: bytes
  rsReadable :: bool

datatype http_outcome =
    BadRequest
  | NetError bool
  | Response response

type_synonym 'w transport = "request \<Rightarrow> 'w \<Rightarrow> http_outcome \<times> 'w"

text \<open>\<^verbatim>\<open>Header.Get\<close>: the first value of a header whose name matches, or the empty string.\<close>

fun header_get :: "(string \<times> string) list \<Rightarrow> string \<Rightarrow> string" where
  "header_get [] name = []"
| "header_get ((k, v) # hs) name = (if EqualFold k name then v else header_get hs name)"

text \<open>\<^verbatim>\<open>io.LimitReader\<close>: a body longer than the limit is cut.\<close>

definition LimitReader :: "nat \<Rightarrow> response \<Rightarrow> bytes option" where
  "LimitReader n r = (if rsReadable r then Some (take n (rsBody r)) else None)"

definition success_status :: "int \<Rightarrow> bool" where
  "success_status c \<longleftrightarrow> 200 \<le> c \<and> c < 300"

section \<open>Time\<close>

definition wrap64 :: "int \<Rightarrow> int" where
  "wrap64 x = (x + 2 ^ 63) mod 2 ^ 64 - 2 ^ 63"

lemma wrap64_id: "- (2 ^ 63) \<le> x \<Longrightarrow> x < 2 ^ 63 \<Longrightarrow> wrap64 x = x"
  by (simp add: wrap64_def)

definition unixToInternal :: int where "unixToInternal = 62135596800"
definition second :: int where "second = 10 ^ 9"

text \<open>\<^verbatim>\<open>time.Unix(sec, 0)\<close> and \<^verbatim>\<open>Time.Unix\<close>.\<close>

definition time_Unix :: "int \<Rightarrow> time" where
  "time_Unix sec = wrap64 (sec + unixToInternal) * second"

definition Unix :: "time \<Rightarrow> int" where
  "Unix t = t div second - unixToInternal"

lemma less_mult_iff_div:
  assumes "0 < (s :: int)"
  shows "t < n * s \<longleftrightarrow> t div s < n"
proof
  assume "t < n * s"
  then have "t \<le> n * s - 1" by simp
  then have "t div s \<le> (n * s - 1) div s" using assms by (rule zdiv_mono1)
  also have "(n * s - 1) div s = n + (- 1) div s" using assms by (simp add: div_mult_self1 [of s "- 1" n, symmetric] algebra_simps)
  also have "(- 1) div s = - 1" using assms by (simp add: div_eq_minus1)
  finally show "t div s < n" by simp
next
  assume "t div s < n"
  then have "(t div s + 1) * s \<le> n * s" using assms by (intro mult_right_mono) auto
  moreover have "t < (t div s + 1) * s"
  proof -
    have "t = t div s * s + t mod s" by simp
    also have "\<dots> < t div s * s + s" using pos_mod_bound [OF assms, of t] by (rule add_strict_left_mono)
    finally show ?thesis by (simp add: algebra_simps)
  qed
  ultimately show "t < n * s" by simp
qed

lemma time_Unix_before:
  assumes "- (2 ^ 62) \<le> sec" "sec < 2 ^ 62"
  shows "t < time_Unix sec \<longleftrightarrow> Unix t < sec"
proof -
  have "wrap64 (sec + unixToInternal) = sec + unixToInternal"
    using assms by (intro wrap64_id) (simp_all add: unixToInternal_def)
  then have "t < time_Unix sec \<longleftrightarrow> t < (sec + unixToInternal) * second" by (simp only: time_Unix_def)
  also have "\<dots> \<longleftrightarrow> t div second < sec + unixToInternal"
    by (rule less_mult_iff_div) (simp add: second_def)
  finally show ?thesis by (simp only: Unix_def) linarith
qed

text \<open>
  The layout \<^verbatim>\<open>2006-01-02T15:04:05Z\<close> of \<^verbatim>\<open>Time.Format\<close>: the civil date from the number of days since
  0001-01-01, by 400-, 100-, 4- and 1-year cycles as in \<^verbatim>\<open>package time\<close>.
\<close>

definition pad :: "nat \<Rightarrow> nat \<Rightarrow> string" where
  "pad w n = (let s = FormatInt n in replicate (w - length s) (CHR ''0'') @ s)"

definition leap :: "nat \<Rightarrow> bool" where
  "leap y \<longleftrightarrow> y mod 4 = 0 \<and> (y mod 100 \<noteq> 0 \<or> y mod 400 = 0)"

definition month_days :: "nat \<Rightarrow> nat list" where
  "month_days y = [31, if leap y then 29 else 28, 31, 30, 31, 30, 31, 31, 30, 31, 30, 31]"

fun month_of :: "nat \<Rightarrow> nat \<Rightarrow> nat list \<Rightarrow> nat \<times> nat" where
  "month_of m d [] = (m, Suc d)"
| "month_of m d (n # ns) = (if d < n then (m, Suc d) else month_of (Suc m) (d - n) ns)"

definition civil :: "nat \<Rightarrow> nat \<times> nat \<times> nat" where
  "civil days =
     (let n400 = days div 146097; d = days mod 146097;
          n100 = min 3 (d div 36524); d = d - n100 * 36524;
          n4 = d div 1461; d = d mod 1461;
          n1 = min 3 (d div 365); d = d - n1 * 365;
          y = 400 * n400 + 100 * n100 + 4 * n4 + n1 + 1
      in (y, month_of 1 d (month_days y)))"

definition format_utc :: "time \<Rightarrow> string" where
  "format_utc t =
     (let s = nat (t div second); (y, m, d) = civil (s div 86400); r = s mod 86400 in
      pad 4 y @ ''-'' @ pad 2 m @ ''-'' @ pad 2 d @ ''T'' @
      pad 2 (r div 3600) @ '':'' @ pad 2 (r div 60 mod 60) @ '':'' @ pad 2 (r mod 60) @ ''Z'')"

lemma FormatInt_ascii: "c \<in> set (FormatInt n) \<Longrightarrow> is_digit c"
  using FormatInt_digits [of n] by (simp add: list_all_iff)

lemma pad_ascii: "c \<in> set (pad w n) \<Longrightarrow> is_digit c"
  by (auto simp: pad_def Let_def dest: FormatInt_ascii) (simp add: is_digit_def byte_def)

lemma format_utc_chars: "c \<in> set (format_utc t) \<Longrightarrow> is_digit c \<or> c \<in> set ''-T:Z''"
  by (auto simp: format_utc_def Let_def split: prod.splits dest: pad_ascii)

lemma format_utc_valid: "ValidString (format_utc t)"
  by (rule ascii_valid) (auto dest!: format_utc_chars simp: is_digit_def byte_def)

end
