(* ===== verification/Identity_Protocol.thy ===== *)
theory Identity_Protocol
  imports Go_Net "HOL-Library.Word"
begin

unbundle bit_operations_syntax

text \<open>
  The Agent Identity protocol (\<^verbatim>\<open>internal/identity/protocol.go\<close>, \<^verbatim>\<open>errors.go\<close>): JWT verification
  against a key set, the private key, the signed assertion of a request, task registration, the
  key-set cache and the retry rule.

  Public-key primitives are parameters (record \<^verbatim>\<open>suite\<close>): RSA PKCS#1 v1.5 verification, the PKCS#8
  parser, Ed25519 signing, SHA-512, X25519 on the base point and anonymous box opening.  SHA-256
  is the \<^verbatim>\<open>crypto\<close> parameter of the store.  Errors are a datatype with one constructor per message
  of the source.
\<close>

section \<open>Data\<close>

datatype pkcs8_key = Ed25519 bytes | OtherKey

record suite =
  VerifyPKCS1v15 :: "nat \<Rightarrow> 64 word \<Rightarrow> bytes \<Rightarrow> bytes \<Rightarrow> bool"
  ParsePKCS8PrivateKey :: "bytes \<Rightarrow> pkcs8_key option"
  Sign :: "bytes \<Rightarrow> bytes \<Rightarrow> bytes"
  Sum512 :: "bytes \<Rightarrow> bytes"
  X25519Base :: "bytes \<Rightarrow> bytes option"
  OpenAnonymous :: "bytes \<Rightarrow> bytes \<Rightarrow> bytes \<Rightarrow> bytes option"

record Claims =
  AgentRuntimeID :: string
  AgentPrivateKey :: string
  clAccountID :: string
  ChatGPTUserID :: string
  clEmail :: string
  clPlanType :: string
  ChatGPTAccountIsFedRAMP :: bool
  Issuer :: string
  Audience :: json
  clExpiresAt :: int
  clIssuedAt :: int

record Material =
  mtClaims :: Claims
  mtPrivateKey :: bytes
  mtTokenHash :: string

record JWK =
  jkKid :: string
  jkKty :: string
  jkAlg :: string
  jkUse :: string
  jkN :: string
  jkE :: string

type_synonym JWKS = "JWK list"

datatype id_error =
    CredentialInvalid | ServiceUnavailable
  | JwtFormat | JwtHeader | JwtHeaderNotTrusted | JwtKidNotTrusted
  | JwkNotRSA | JwkAlg | JwkUse | JwkModulus | JwkExponent | JwkValues
  | JwtSignature | JwtSignatureMismatch | JwtPayload | JwtClaims
  | JwtIssuer | JwtAudience | JwtExpired | JwtIncomplete
  | KeyNotBase64 | KeyNotPKCS8 | KeyNotEd25519
  | AssertionMaterial | AssertionFailed
  | TaskRequest | TaskRead | TaskInvalid | TaskOmitted | TaskEncryptedInvalid | TaskKeyDerivation
  | TaskDecrypt | TaskFailed
  | HTTPStatus int | TransportError bool | ContextDone
  | CacheNotConfigured | TokenInvalid

definition JWTIssuer :: string where
  "JWTIssuer = ''https://chatgpt.com/codex-backend/agent-identity''"
definition JWTAudience :: string where
  "JWTAudience = ''codex-app-server''"
definition DefaultAuthAPIURL :: string where
  "DefaultAuthAPIURL = ''https://auth.openai.com/api/accounts''"
definition defaultJWKSCacheTTL :: int where
  "defaultJWKSCacheTTL = 10 * 60 * second"
definition PrivateKeySize :: nat where "PrivateKeySize = 64"

definition CredentialServiceUnavailable :: "id_error \<Rightarrow> bool" where
  "CredentialServiceUnavailable e \<longleftrightarrow> e = ServiceUnavailable"

section \<open>Key sets\<close>

definition find_kid :: "JWKS \<Rightarrow> string \<Rightarrow> JWK option" where
  "find_kid j kid = List.find (\<lambda>k. jkKid k = kid) j"

definition decodeBase64URL :: "string \<Rightarrow> bytes option" where
  "decodeBase64URL value =
     (case RawURLDecode (TrimSpace value) of
        Some decoded \<Rightarrow> Some decoded
      | None \<Rightarrow> URLDecode (TrimSpace value))"

text \<open>The exponent is a Go \<^verbatim>\<open>int\<close>: \<^verbatim>\<open>exponent<<8 + int(b)\<close> wraps at 64 bits.\<close>

definition exponent_of :: "bytes \<Rightarrow> 64 word" where
  "exponent_of e = foldl (\<lambda>x b. push_bit 8 x + of_nat (byte b)) 0 e"

text \<open>\<^verbatim>\<open>big.Int.SetBytes\<close>, big-endian.\<close>

definition SetBytes :: "bytes \<Rightarrow> nat" where
  "SetBytes n = foldl (\<lambda>x b. 256 * x + byte b) 0 n"

definition rsaPublicKey :: "JWK \<Rightarrow> id_error + nat \<times> 64 word" where
  "rsaPublicKey j =
     (if \<not> EqualFold (TrimSpace (jkKty j)) ''RSA'' then Inl JwkNotRSA
      else let alg = TrimSpace (jkAlg j); use = TrimSpace (jkUse j) in
      if alg \<noteq> [] \<and> \<not> EqualFold alg ''RS256'' then Inl JwkAlg
      else if use \<noteq> [] \<and> \<not> EqualFold use ''sig'' then Inl JwkUse
      else case decodeBase64URL (jkN j) of
        None \<Rightarrow> Inl JwkModulus
      | Some n \<Rightarrow>
          if n = [] then Inl JwkModulus
          else case decodeBase64URL (jkE j) of
            None \<Rightarrow> Inl JwkExponent
          | Some e \<Rightarrow>
              if e = [] then Inl JwkExponent
              else let exponent = exponent_of e; modulus = SetBytes n in
                if sint exponent \<le> 0 \<or> modulus = 0 then Inl JwkValues
                else Inr (modulus, exponent))"

section \<open>Tokens\<close>

definition decode_header :: "json \<Rightarrow> (string \<times> string) option" where
  "decode_header v =
     Option.bind (struct_keys v) (\<lambda>kvs.
     Option.bind (field dec_str ''alg'' kvs []) (\<lambda>alg.
     Option.bind (field dec_str ''kid'' kvs []) (\<lambda>kid. Some (alg, kid))))"

definition decode_claims :: "json \<Rightarrow> Claims option" where
  "decode_claims v =
     Option.bind (struct_keys v) (\<lambda>kvs.
     Option.bind (field dec_str ''agent_runtime_id'' kvs []) (\<lambda>runtime.
     Option.bind (field dec_str ''agent_private_key'' kvs []) (\<lambda>key.
     Option.bind (field dec_str ''account_id'' kvs []) (\<lambda>account.
     Option.bind (field dec_str ''chatgpt_user_id'' kvs []) (\<lambda>user.
     Option.bind (field dec_str ''email'' kvs []) (\<lambda>email.
     Option.bind (field dec_str ''plan_type'' kvs []) (\<lambda>plan.
     Option.bind (field dec_bool ''chatgpt_account_is_fedramp'' kvs False) (\<lambda>fedramp.
     Option.bind (field dec_str ''iss'' kvs []) (\<lambda>iss.
     Option.bind (field dec_any ''aud'' kvs JNull) (\<lambda>aud.
     Option.bind (field dec_int64 ''exp'' kvs 0) (\<lambda>exp.
     Option.bind (field dec_int64 ''iat'' kvs 0) (\<lambda>iat.
     Some \<lparr>AgentRuntimeID = runtime, AgentPrivateKey = key, clAccountID = account,
       ChatGPTUserID = user, clEmail = email, clPlanType = plan,
       ChatGPTAccountIsFedRAMP = fedramp, Issuer = iss, Audience = aud,
       clExpiresAt = exp, clIssuedAt = iat\<rparr>))))))))))))"

definition audienceContains :: "json \<Rightarrow> string \<Rightarrow> bool" where
  "audienceContains audience want =
     (case audience of
        JStr value \<Rightarrow> TrimSpace value = want
      | JArr items \<Rightarrow> list_ex (\<lambda>item. case item of JStr t \<Rightarrow> TrimSpace t = want | _ \<Rightarrow> False) items
      | _ \<Rightarrow> False)"

definition checkClaims :: "time \<Rightarrow> Claims \<Rightarrow> id_error + Claims" where
  "checkClaims now claims =
     (if TrimSpace (Issuer claims) \<noteq> JWTIssuer then Inl JwtIssuer
      else if \<not> audienceContains (Audience claims) JWTAudience then Inl JwtAudience
      else if clExpiresAt claims = 0 \<or> \<not> now < time_Unix (clExpiresAt claims) then Inl JwtExpired
      else if TrimSpace (AgentRuntimeID claims) = [] \<or> TrimSpace (AgentPrivateKey claims) = [] \<or>
         TrimSpace (clAccountID claims) = [] \<or> TrimSpace (ChatGPTUserID claims) = [] then Inl JwtIncomplete
      else Inr claims)"

definition verifyParts ::
    "crypto \<Rightarrow> suite \<Rightarrow> JWKS \<Rightarrow> time \<Rightarrow> string \<Rightarrow> string \<Rightarrow> string \<Rightarrow> id_error + Claims" where
  "verifyParts C S jwks now h p g =
     (case Option.bind (decodeBase64URL h) (\<lambda>b. Option.bind (json_parse b) decode_header) of
        None \<Rightarrow> Inl JwtHeader
      | Some (alg, kid) \<Rightarrow>
          if \<not> EqualFold alg ''RS256'' \<or> TrimSpace kid = [] then Inl JwtHeaderNotTrusted
          else case find_kid jwks kid of
            None \<Rightarrow> Inl JwtKidNotTrusted
          | Some jwk \<Rightarrow>
              (case rsaPublicKey jwk of
                 Inl e \<Rightarrow> Inl e
               | Inr (n, e) \<Rightarrow>
                   (case decodeBase64URL g of
                      None \<Rightarrow> Inl JwtSignature
                    | Some signature \<Rightarrow>
                        if \<not> VerifyPKCS1v15 S n e (Sum256 C (h @ ''.'' @ p)) signature then Inl JwtSignatureMismatch
                        else case decodeBase64URL p of
                          None \<Rightarrow> Inl JwtPayload
                        | Some payload \<Rightarrow>
                            (case Option.bind (json_parse payload) decode_claims of
                               None \<Rightarrow> Inl JwtClaims
                             | Some claims \<Rightarrow> checkClaims now claims))))"

definition VerifyJWT :: "crypto \<Rightarrow> suite \<Rightarrow> string \<Rightarrow> JWKS \<Rightarrow> time \<Rightarrow> id_error + Claims" where
  "VerifyJWT C S token jwks now =
     (case SplitAt (CHR ''.'') (TrimSpace token) of
        [h, p, g] \<Rightarrow>
          if h = [] \<or> p = [] \<or> g = [] then Inl JwtFormat else verifyParts C S jwks now h p g
      | _ \<Rightarrow> Inl JwtFormat)"

definition ParsePrivateKey :: "suite \<Rightarrow> string \<Rightarrow> id_error + bytes" where
  "ParsePrivateKey S encoded =
     (case StdDecode (TrimSpace encoded) of
        None \<Rightarrow> Inl KeyNotBase64
      | Some der \<Rightarrow>
          (case ParsePKCS8PrivateKey S der of
             None \<Rightarrow> Inl KeyNotPKCS8
           | Some OtherKey \<Rightarrow> Inl KeyNotEd25519
           | Some (Ed25519 k) \<Rightarrow> if length k \<noteq> PrivateKeySize then Inl KeyNotEd25519 else Inr k))"

definition ParseMaterial :: "crypto \<Rightarrow> suite \<Rightarrow> string \<Rightarrow> JWKS \<Rightarrow> time \<Rightarrow> id_error + Material" where
  "ParseMaterial C S token jwks now =
     (case VerifyJWT C S token jwks now of
        Inl e \<Rightarrow> Inl e
      | Inr claims \<Rightarrow>
          (case ParsePrivateKey S (AgentPrivateKey claims) of
             Inl e \<Rightarrow> Inl e
           | Inr k \<Rightarrow> Inr \<lparr>mtClaims = claims, mtPrivateKey = k,
               mtTokenHash = hexSum256 C (TrimSpace token)\<rparr>))"

section \<open>Assertions and tasks\<close>

definition assertion_payload :: "Material \<Rightarrow> string \<Rightarrow> string \<Rightarrow> string" where
  "assertion_payload material taskID timestamp =
     AgentRuntimeID (mtClaims material) @ '':'' @ taskID @ '':'' @ timestamp"

definition assertion_json :: "suite \<Rightarrow> Material \<Rightarrow> string \<Rightarrow> string \<Rightarrow> json" where
  "assertion_json S material taskID timestamp =
     JObj [(''agent_runtime_id'', JStr (AgentRuntimeID (mtClaims material))),
           (''signature'', JStr (StdEncode (Sign S (mtPrivateKey material) (assertion_payload material taskID timestamp)))),
           (''task_id'', JStr taskID),
           (''timestamp'', JStr timestamp)]"

definition BuildAssertion :: "suite \<Rightarrow> Material \<Rightarrow> string \<Rightarrow> time \<Rightarrow> id_error + string" where
  "BuildAssertion S material taskID now =
     (if length (mtPrivateKey material) \<noteq> PrivateKeySize \<or> TrimSpace taskID = [] then Inl AssertionMaterial
      else Inr (''AgentAssertion '' @ RawURLEncode (json_text (assertion_json S material taskID (format_utc now)))))"

definition clamp :: "bytes \<Rightarrow> bytes" where
  "clamp k =
     (let k1 = k[0 := char_of (byte (k ! 0) AND 248)];
          k2 = k1[31 := char_of (byte (k1 ! 31) AND 127)]
      in k2[31 := char_of (byte (k2 ! 31) OR 64)])"

text \<open>\<^verbatim>\<open>copy\<close> into a zeroed 32-byte array.\<close>

definition copy32 :: "bytes \<Rightarrow> bytes" where
  "copy32 b = take 32 b @ replicate (32 - length b) (char_of (0 :: nat))"

definition decryptTaskID :: "suite \<Rightarrow> bytes \<Rightarrow> string \<Rightarrow> id_error + string" where
  "decryptTaskID S privateKey encrypted =
     (case StdDecode (TrimSpace encrypted) of
        None \<Rightarrow> Inl TaskEncryptedInvalid
      | Some ciphertext \<Rightarrow>
          let curvePrivateKey = clamp (copy32 (take 32 (Sum512 S (take 32 privateKey)))) in
          (case X25519Base S curvePrivateKey of
             None \<Rightarrow> Inl TaskKeyDerivation
           | Some pub \<Rightarrow>
               (case OpenAnonymous S ciphertext (copy32 pub) curvePrivateKey of
                  None \<Rightarrow> Inl TaskDecrypt
                | Some plaintext \<Rightarrow>
                    if \<not> ValidString plaintext then Inl TaskDecrypt else Inr plaintext)))"

definition task_endpoint :: "string \<Rightarrow> Material \<Rightarrow> string" where
  "task_endpoint base material =
     (let b = TrimRight (TrimSpace base) ''/'' in
      (if b = [] then DefaultAuthAPIURL else b) @ ''/v1/agent/'' @
      AgentRuntimeID (mtClaims material) @ ''/task/register'')"

definition task_request :: "suite \<Rightarrow> string \<Rightarrow> Material \<Rightarrow> time \<Rightarrow> request" where
  "task_request S base material now =
     (let timestamp = format_utc now;
          signature = StdEncode (Sign S (mtPrivateKey material)
            (AgentRuntimeID (mtClaims material) @ '':'' @ timestamp))
      in \<lparr>rqMethod = ''POST'', rqURL = task_endpoint base material,
          rqHeader = [(''Content-Type'', ''application/json''), (''Accept'', ''application/json'')],
          rqBody = json_text (JObj [(''signature'', JStr signature), (''timestamp'', JStr timestamp)])\<rparr>)"

definition task_response :: "suite \<Rightarrow> Material \<Rightarrow> json \<Rightarrow> id_error + string" where
  "task_response S material v =
     (case Option.bind (struct_keys v) (\<lambda>kvs.
           Option.bind (field dec_str ''task_id'' kvs []) (\<lambda>a.
           Option.bind (field dec_str ''taskId'' kvs []) (\<lambda>b.
           Option.bind (field dec_str ''encrypted_task_id'' kvs []) (\<lambda>c.
           Option.bind (field dec_str ''encryptedTaskId'' kvs []) (\<lambda>d. Some (a, b, c, d)))))) of
        None \<Rightarrow> Inl TaskInvalid
      | Some (a, b, c, d) \<Rightarrow>
          if TrimSpace a \<noteq> [] then Inr (TrimSpace a)
          else if TrimSpace b \<noteq> [] then Inr (TrimSpace b)
          else let encrypted = (if TrimSpace c = [] then TrimSpace d else TrimSpace c) in
            if encrypted = [] then Inl TaskOmitted
            else decryptTaskID S (mtPrivateKey material) encrypted)"

definition RegisterTask ::
    "suite \<Rightarrow> 'w transport \<Rightarrow> string \<Rightarrow> Material \<Rightarrow> time \<Rightarrow> 'w \<Rightarrow> (id_error + string) \<times> 'w" where
  "RegisterTask S client base material now w =
     (case client (task_request S base material now) w of
        (BadRequest, w') \<Rightarrow> (Inl TaskRequest, w')
      | (NetError timeout, w') \<Rightarrow> (Inl (TransportError timeout), w')
      | (Response r, w') \<Rightarrow>
          (case LimitReader 65536 r of
             None \<Rightarrow> (Inl TaskRead, w')
           | Some body \<Rightarrow>
               if \<not> success_status (rsStatus r) then (Inl (HTTPStatus (rsStatus r)), w')
               else case json_parse body of
                 None \<Rightarrow> (Inl TaskInvalid, w')
               | Some v \<Rightarrow> (task_response S material v, w')))"

definition Retryable :: "id_error option \<Rightarrow> bool" where
  "Retryable err =
     (case err of
        None \<Rightarrow> False
      | Some ContextDone \<Rightarrow> False
      | Some (HTTPStatus c) \<Rightarrow> c = 429 \<or> c \<ge> 500
      | Some (TransportError _) \<Rightarrow> True
      | _ \<Rightarrow> False)"

section \<open>The key-set cache\<close>

record JWKSCache =
  jcURL :: string
  jcCached :: "JWKS option"
  jcExpiresAt :: time

definition NewJWKSCache :: "string \<Rightarrow> JWKSCache" where
  "NewJWKSCache url = \<lparr>jcURL = TrimSpace url, jcCached = None, jcExpiresAt = 0\<rparr>"

definition decode_jwk :: "JWK decoder" where
  "decode_jwk cur v =
     Option.bind (struct_keys v) (\<lambda>kvs.
     Option.bind (field dec_str ''kid'' kvs (jkKid cur)) (\<lambda>kid.
     Option.bind (field dec_str ''kty'' kvs (jkKty cur)) (\<lambda>kty.
     Option.bind (field dec_str ''alg'' kvs (jkAlg cur)) (\<lambda>alg.
     Option.bind (field dec_str ''use'' kvs (jkUse cur)) (\<lambda>use.
     Option.bind (field dec_str ''n'' kvs (jkN cur)) (\<lambda>n.
     Option.bind (field dec_str ''e'' kvs (jkE cur)) (\<lambda>e.
     Some \<lparr>jkKid = kid, jkKty = kty, jkAlg = alg, jkUse = use, jkN = n, jkE = e\<rparr>)))))))"

definition zeroJWK :: JWK where
  "zeroJWK = \<lparr>jkKid = [], jkKty = [], jkAlg = [], jkUse = [], jkN = [], jkE = []\<rparr>"

definition decode_jwks :: "json \<Rightarrow> JWKS option" where
  "decode_jwks v = Option.bind (struct_keys v) (\<lambda>kvs. field (dec_list decode_jwk zeroJWK) ''keys'' kvs [])"

text \<open>\<^verbatim>\<open>fmt.Sscanf(item, \"max-age=%d\", &seconds)\<close>: the literal part is matched exactly, then blanks are
  skipped and a signed decimal read; what follows is ignored.\<close>

definition scan_max_age :: "string \<Rightarrow> int option" where
  "scan_max_age item =
     (if \<not> HasPrefix item ''max-age='' then None
      else let s = dropWhile (\<lambda>c. c = CHR '' '' \<or> byte c = 9) (TrimPrefix item ''max-age='');
               sign = takeWhile (\<lambda>c. c = CHR ''+'' \<or> c = CHR ''-'') (take 1 s);
               ds = takeWhile is_digit (drop (length sign) s)
           in if ds = [] then None
              else ParseInt64 ((if sign = ''-'' then ''-'' else []) @ ds))"

fun cache_ttl :: "string list \<Rightarrow> int \<Rightarrow> int" where
  "cache_ttl [] ttl = ttl"
| "cache_ttl (x # xs) ttl =
     (let item = TrimSpace x in
      cache_ttl xs
        (if HasPrefix (ToLower item) ''max-age='' then
           (case scan_max_age item of
              Some seconds \<Rightarrow> if seconds > 0 then wrap64 (seconds * second) else ttl
            | None \<Rightarrow> ttl)
         else ttl))"

text \<open>\<^verbatim>\<open>now\<close> is the clock at the freshness test, \<^verbatim>\<open>later\<close> when the answer is stored.\<close>

definition jwks_request :: "string \<Rightarrow> request" where
  "jwks_request url = \<lparr>rqMethod = ''GET'', rqURL = url, rqHeader = [], rqBody = []\<rparr>"

definition fetchJWKS :: "'w transport \<Rightarrow> string \<Rightarrow> 'w \<Rightarrow> (JWKS \<times> int) option \<times> 'w" where
  "fetchJWKS client url w =
     (case client (jwks_request url) w of
        (Response r, w') \<Rightarrow>
          (case LimitReader 1048576 r of
             None \<Rightarrow> (None, w')
           | Some body \<Rightarrow>
               if \<not> success_status (rsStatus r) then (None, w')
               else case Option.bind (json_parse body) decode_jwks of
                 None \<Rightarrow> (None, w')
               | Some keys \<Rightarrow>
                   if keys = [] then (None, w')
                   else (Some (keys, cache_ttl (SplitAt (CHR '','') (header_get (rsHeader r) ''Cache-Control''))
                           defaultJWKSCacheTTL), w'))
      | (_, w') \<Rightarrow> (None, w'))"

definition GetJWKS ::
    "'w transport \<Rightarrow> bool \<Rightarrow> time \<Rightarrow> time \<Rightarrow> JWKSCache \<times> 'w \<Rightarrow> (id_error + JWKS) \<times> JWKSCache \<times> 'w" where
  "GetJWKS client force now later cw =
     (case cw of (c, w) \<Rightarrow>
      if jcURL c = [] then (Inl CacheNotConfigured, c, w)
      else if \<not> force \<and> jcCached c \<noteq> None \<and> now < jcExpiresAt c then (Inr (the (jcCached c)), c, w)
      else case fetchJWKS client (jcURL c) w of
        (None, w') \<Rightarrow> (Inl ServiceUnavailable, c, w')
      | (Some (keys, ttl), w') \<Rightarrow>
          (Inr keys, c\<lparr>jcCached := Some keys, jcExpiresAt := later + ttl\<rparr>, w'))"

definition ParseWithCache ::
    "crypto \<Rightarrow> suite \<Rightarrow> 'w transport \<Rightarrow> string \<Rightarrow> time \<Rightarrow> time \<Rightarrow> JWKSCache \<times> 'w \<Rightarrow>
      (id_error + Material) \<times> JWKSCache \<times> 'w" where
  "ParseWithCache C S client token now later cw =
     (case GetJWKS client False now later cw of
        (Inl e, cw1) \<Rightarrow> (Inl e, cw1)
      | (Inr jwks, cw1) \<Rightarrow>
          (case ParseMaterial C S token jwks now of
             Inl JwtKidNotTrusted \<Rightarrow>
               (case GetJWKS client True now later cw1 of
                  (Inl e, cw2) \<Rightarrow> (Inl e, cw2)
                | (Inr refreshed, cw2) \<Rightarrow> (ParseMaterial C S token refreshed now, cw2))
           | r \<Rightarrow> (r, cw1)))"

end
