(* ===== verification/Identity_Manager.thy ===== *)
theory Identity_Manager
  imports Identity_Protocol
begin

text \<open>
  The credential manager (\<^verbatim>\<open>internal/identity/manager.go\<close>, \<^verbatim>\<open>personal_access_token.go\<close>): verified
  materials, registered tasks and inspected personal access tokens, each in a cache keyed by a
  hash of the token, and the authorization of one upstream request.

  Every operation passes the manager and the outside world explicitly.  A call that may download
  keys takes two clock readings (\<^verbatim>\<open>now\<close>, \<^verbatim>\<open>later\<close>); \<^verbatim>\<open>done\<close> says whether the request's context ends while
  attempt \<^verbatim>\<open>n\<close> of a registration waits for its retry.  These are the calls of one request at a time;
  concurrent requests for one task are the subject of the theory \<^verbatim>\<open>Task_Flight\<close>.
\<close>

datatype CredentialKind = CredentialKindAgentIdentity | CredentialKindPersonalAccessToken

record CredentialInfo =
  ciKind :: CredentialKind
  ciAccountID :: string
  ciUserID :: string
  ciEmail :: string
  ciPlanType :: string
  ciExpiresAt :: time
  ciFedRAMP :: bool
  ciTokenHash :: string

record Authorization =
  auHeader :: string
  auAccountID :: string
  auFedRAMP :: bool
  auTokenHash :: string
  auKind :: CredentialKind

record Manager =
  materials :: "Material gomap"
  tasks :: "string gomap"
  jwksCache :: JWKSCache
  authAPIBase :: string
  personalAccessTokens :: "CredentialInfo gomap"
  personalAccessTokenAuthAPIBase :: string

definition registerAttempts :: nat where "registerAttempts = 3"
definition PersonalAccessTokenPrefix :: string where "PersonalAccessTokenPrefix = ''at-''"
definition DefaultJWKSURL :: string where
  "DefaultJWKSURL = ''https://chatgpt.com/backend-api/wham/agent-identities/jwks''"
definition DefaultPersonalAccessTokenAuthAPIURL :: string where
  "DefaultPersonalAccessTokenAuthAPIURL = ''https://auth.openai.com/api/accounts''"
definition personalAccessTokenWhoAmIPath :: string where
  "personalAccessTokenWhoAmIPath = ''/v1/user-auth-credential/whoami''"

definition orDefault :: "string \<Rightarrow> string \<Rightarrow> string" where
  "orDefault value fallback = (if TrimSpace value = [] then fallback else value)"

definition NewManagerWithPersonalAccessTokenAPI :: "string \<Rightarrow> string \<Rightarrow> string \<Rightarrow> Manager" where
  "NewManagerWithPersonalAccessTokenAPI jwksURL authBase patBase =
     \<lparr>materials = [], tasks = [],
      jwksCache = NewJWKSCache (orDefault jwksURL DefaultJWKSURL),
      authAPIBase = TrimRight (TrimSpace (orDefault authBase DefaultAuthAPIURL)) ''/'',
      personalAccessTokens = [],
      personalAccessTokenAuthAPIBase =
        TrimRight (TrimSpace (orDefault patBase DefaultPersonalAccessTokenAuthAPIURL)) ''/''\<rparr>"

definition NewManager :: "string \<Rightarrow> string \<Rightarrow> Manager" where
  "NewManager jwksURL authBase =
     NewManagerWithPersonalAccessTokenAPI jwksURL authBase DefaultPersonalAccessTokenAuthAPIURL"

section \<open>Agent Identity materials\<close>

definition parseAndCache ::
    "crypto \<Rightarrow> suite \<Rightarrow> 'w transport \<Rightarrow> time \<Rightarrow> time \<Rightarrow> string \<Rightarrow> string \<Rightarrow> Manager \<times> 'w \<Rightarrow>
      (id_error + Material) \<times> Manager \<times> 'w" where
  "parseAndCache C S client now later token tokenHash mw =
     (case mw of (m, w) \<Rightarrow>
      (case ParseWithCache C S client token now later (jwksCache m, w) of
         (Inl e, c, w') \<Rightarrow>
           (Inl (if CredentialServiceUnavailable e then e else CredentialInvalid), m\<lparr>jwksCache := c\<rparr>, w')
       | (Inr mat, c, w') \<Rightarrow>
           (Inr mat, m\<lparr>jwksCache := c, materials := map_put tokenHash mat (materials m)\<rparr>, w')))"

definition material ::
    "crypto \<Rightarrow> suite \<Rightarrow> 'w transport \<Rightarrow> time \<Rightarrow> time \<Rightarrow> string \<Rightarrow> Manager \<times> 'w \<Rightarrow>
      (id_error + Material) \<times> Manager \<times> 'w" where
  "material C S client now later token mw =
     (case mw of (m, w) \<Rightarrow>
      let token = TrimSpace token; tokenHash = hexSum256 C token;
          missed = parseAndCache C S client now later token tokenHash
            (m\<lparr>materials := map_del tokenHash (materials m)\<rparr>, w)
      in case map_get (materials m) tokenHash of
        Some mat \<Rightarrow> if Unix now < clExpiresAt (mtClaims mat) then (Inr mat, m, w) else missed
      | None \<Rightarrow> missed)"

definition Validate ::
    "crypto \<Rightarrow> suite \<Rightarrow> 'w transport \<Rightarrow> time \<Rightarrow> time \<Rightarrow> string \<Rightarrow> Manager \<times> 'w \<Rightarrow>
      (id_error + Material) \<times> Manager \<times> 'w" where
  "Validate = material"

section \<open>Tasks\<close>

definition taskKey :: "crypto \<Rightarrow> string \<Rightarrow> string \<Rightarrow> string \<Rightarrow> string" where
  "taskKey C identityID tokenHash sessionID =
     (let i = TrimSpace identityID; s = TrimSpace sessionID;
          i = (if i = [] then ''default'' else i); s = (if s = [] then ''default'' else s)
      in i @ ''|'' @ tokenHash @ ''|'' @ hex_encode (take 8 (Sum256 C s)))"

text \<open>
  The retry loop of \<^verbatim>\<open>registerTask\<close>: \<^verbatim>\<open>attempt\<close> counts from 1, and \<^verbatim>\<open>fuel\<close> is the number of attempts
  left after this one, so the loop ends at \<^verbatim>\<open>registerAttempts\<close>.
\<close>

fun registerLoop ::
    "suite \<Rightarrow> 'w transport \<Rightarrow> (nat \<Rightarrow> bool) \<Rightarrow> (nat \<Rightarrow> time) \<Rightarrow> string \<Rightarrow> Material \<Rightarrow> nat \<Rightarrow> nat \<Rightarrow> 'w \<Rightarrow>
      (id_error + string) \<times> 'w" where
  "registerLoop S client stop clock base mat left attempt w =
     (case RegisterTask S client base mat (clock attempt) w of
        (r, w') \<Rightarrow>
          let err = (case r of Inl e \<Rightarrow> Some e | Inr _ \<Rightarrow> None) in
          if (case r of Inl _ \<Rightarrow> False | Inr t \<Rightarrow> TrimSpace t \<noteq> []) then (r, w')
          else if \<not> Retryable err \<or> left = 0
            then (Inl (case err of None \<Rightarrow> TaskFailed | Some e \<Rightarrow> e), w')
          else if stop attempt then (Inl ContextDone, w')
          else registerLoop S client stop clock base mat (left - 1) (Suc attempt) w')"

declare registerLoop.simps [simp del]

definition registerTask ::
    "suite \<Rightarrow> 'w transport \<Rightarrow> (nat \<Rightarrow> bool) \<Rightarrow> (nat \<Rightarrow> time) \<Rightarrow> Manager \<Rightarrow> Material \<Rightarrow> 'w \<Rightarrow>
      (id_error + string) \<times> 'w" where
  "registerTask S client stop clock m mat w =
     registerLoop S client stop clock (authAPIBase m) mat (registerAttempts - 1) 1 w"

text \<open>\<^verbatim>\<open>task\<close> when no other registration of the key is under way.\<close>

definition task ::
    "suite \<Rightarrow> 'w transport \<Rightarrow> (nat \<Rightarrow> bool) \<Rightarrow> (nat \<Rightarrow> time) \<Rightarrow> string \<Rightarrow> Material \<Rightarrow> Manager \<times> 'w \<Rightarrow>
      (id_error + string) \<times> Manager \<times> 'w" where
  "task S client stop clock key mat mw =
     (case mw of (m, w) \<Rightarrow>
      let cached = (case map_get (tasks m) key of None \<Rightarrow> [] | Some t \<Rightarrow> t) in
      if cached \<noteq> [] then (Inr cached, m, w)
      else case registerTask S client stop clock m mat w of
        (r, w') \<Rightarrow>
          (r, (case r of
                 Inr t \<Rightarrow> if t \<noteq> [] then m\<lparr>tasks := map_put key t (tasks m)\<rparr> else m
               | Inl _ \<Rightarrow> m), w'))"

definition InvalidateTask :: "crypto \<Rightarrow> string \<Rightarrow> string \<Rightarrow> string \<Rightarrow> Manager \<Rightarrow> Manager" where
  "InvalidateTask C identityID tokenHash sessionID m =
     m\<lparr>tasks := map_del (taskKey C identityID tokenHash sessionID) (tasks m)\<rparr>"

section \<open>Personal access tokens\<close>

definition IsPersonalAccessToken :: "string \<Rightarrow> bool" where
  "IsPersonalAccessToken token \<longleftrightarrow> HasPrefix (TrimSpace token) PersonalAccessTokenPrefix"

definition whoami_request :: "string \<Rightarrow> string \<Rightarrow> string \<Rightarrow> request" where
  "whoami_request base token accountID =
     \<lparr>rqMethod = ''GET'', rqURL = TrimRight base ''/'' @ personalAccessTokenWhoAmIPath,
      rqHeader = [(''Authorization'', ''Bearer '' @ token), (''Accept'', ''application/json'')] @
        (if accountID \<noteq> [] then [(''ChatGPT-Account-ID'', accountID)] else []),
      rqBody = []\<rparr>"

definition decode_whoami :: "json \<Rightarrow> (string \<times> string \<times> string \<times> string \<times> bool) option" where
  "decode_whoami v =
     Option.bind (struct_keys v) (\<lambda>kvs.
     Option.bind (field dec_str ''email'' kvs []) (\<lambda>email.
     Option.bind (field dec_str ''chatgpt_user_id'' kvs []) (\<lambda>user.
     Option.bind (field dec_str ''chatgpt_account_id'' kvs []) (\<lambda>account.
     Option.bind (field dec_str ''chatgpt_plan_type'' kvs []) (\<lambda>plan.
     Option.bind (field dec_bool ''chatgpt_account_is_fedramp'' kvs False) (\<lambda>fedramp.
     Some (email, user, account, plan, fedramp)))))))"

text \<open>The \<^verbatim>\<open>whoami\<close> answer; the body is read by a stream decoder, which takes its first value.\<close>

definition first_json :: "bytes \<Rightarrow> json option" where
  "first_json b = (case Decode b of StreamValue v _ \<Rightarrow> Some v | _ \<Rightarrow> None)"

definition whoami_result :: "string \<Rightarrow> string \<Rightarrow> http_outcome \<Rightarrow> id_error + CredentialInfo" where
  "whoami_result accountID tokenHash out =
     (case out of
        Response r \<Rightarrow>
          if \<not> success_status (rsStatus r) then
            Inl (if rsStatus r = 429 \<or> rsStatus r \<ge> 500 then ServiceUnavailable else CredentialInvalid)
          else (case Option.bind (LimitReader 1048576 r) (\<lambda>b. Option.bind (first_json b) decode_whoami) of
                  None \<Rightarrow> Inl ServiceUnavailable
                | Some (email, user, account, plan, fedramp) \<Rightarrow>
                    let account = TrimSpace account; user = TrimSpace user in
                    if account = [] \<or> user = [] then Inl ServiceUnavailable
                    else if accountID \<noteq> [] \<and> account \<noteq> accountID then Inl CredentialInvalid
                    else Inr \<lparr>ciKind = CredentialKindPersonalAccessToken, ciAccountID = account,
                           ciUserID = user, ciEmail = TrimSpace email, ciPlanType = TrimSpace plan,
                           ciExpiresAt = 0, ciFedRAMP = fedramp, ciTokenHash = tokenHash\<rparr>)
      | _ \<Rightarrow> Inl ServiceUnavailable)"

definition patCacheKey :: "crypto \<Rightarrow> string \<Rightarrow> string \<Rightarrow> string" where
  "patCacheKey C tokenHash accountID =
     (if accountID \<noteq> [] then hexSum256 C (tokenHash @ nul @ accountID) else tokenHash)"

definition personalAccessTokenForAccount ::
    "crypto \<Rightarrow> 'w transport \<Rightarrow> string \<Rightarrow> string \<Rightarrow> Manager \<times> 'w \<Rightarrow>
      (id_error + CredentialInfo) \<times> Manager \<times> 'w" where
  "personalAccessTokenForAccount C client token accountID mw =
     (case mw of (m, w) \<Rightarrow>
      let token = TrimSpace token in
      if \<not> IsPersonalAccessToken token then (Inl TokenInvalid, m, w)
      else let tokenHash = hexSum256 C token; cacheKey = patCacheKey C tokenHash accountID in
        case map_get (personalAccessTokens m) cacheKey of
          Some cached \<Rightarrow> (Inr cached, m, w)
        | None \<Rightarrow>
            (case client (whoami_request (personalAccessTokenAuthAPIBase m) token accountID) w of
               (out, w') \<Rightarrow>
                 (case whoami_result accountID tokenHash out of
                    Inl e \<Rightarrow> (Inl e, m, w')
                  | Inr credential \<Rightarrow>
                      (Inr credential,
                       m\<lparr>personalAccessTokens := map_put cacheKey credential (personalAccessTokens m)\<rparr>, w'))))"

definition materialInfo :: "Material \<Rightarrow> CredentialInfo" where
  "materialInfo mat =
     \<lparr>ciKind = CredentialKindAgentIdentity, ciAccountID = clAccountID (mtClaims mat),
      ciUserID = ChatGPTUserID (mtClaims mat), ciEmail = clEmail (mtClaims mat),
      ciPlanType = clPlanType (mtClaims mat), ciExpiresAt = time_Unix (clExpiresAt (mtClaims mat)),
      ciFedRAMP = ChatGPTAccountIsFedRAMP (mtClaims mat), ciTokenHash = mtTokenHash mat\<rparr>"

definition InspectForAccount ::
    "crypto \<Rightarrow> suite \<Rightarrow> 'w transport \<Rightarrow> time \<Rightarrow> time \<Rightarrow> string \<Rightarrow> string \<Rightarrow> Manager \<times> 'w \<Rightarrow>
      (id_error + CredentialInfo) \<times> Manager \<times> 'w" where
  "InspectForAccount C S client now later token accountID mw =
     (if IsPersonalAccessToken token
      then personalAccessTokenForAccount C client token (TrimSpace accountID) mw
      else case material C S client now later token mw of
        (Inl e, mw') \<Rightarrow> (Inl e, mw')
      | (Inr mat, mw') \<Rightarrow> (Inr (materialInfo mat), mw'))"

definition Inspect ::
    "crypto \<Rightarrow> suite \<Rightarrow> 'w transport \<Rightarrow> time \<Rightarrow> time \<Rightarrow> string \<Rightarrow> Manager \<times> 'w \<Rightarrow>
      (id_error + CredentialInfo) \<times> Manager \<times> 'w" where
  "Inspect C S client now later token mw = InspectForAccount C S client now later token [] mw"

section \<open>Authorization of a request\<close>

definition AuthorizeForAccount ::
    "crypto \<Rightarrow> suite \<Rightarrow> 'w transport \<Rightarrow> (nat \<Rightarrow> bool) \<Rightarrow> (nat \<Rightarrow> time) \<Rightarrow> string \<Rightarrow> string \<Rightarrow> string \<Rightarrow> string \<Rightarrow>
      Manager \<times> 'w \<Rightarrow> (id_error + Authorization) \<times> Manager \<times> 'w" where
  "AuthorizeForAccount C S client stop clock identityID token sessionID accountID mw =
     (if IsPersonalAccessToken token then
        (case personalAccessTokenForAccount C client token (TrimSpace accountID) mw of
           (Inl e, mw') \<Rightarrow> (Inl e, mw')
         | (Inr cred, mw') \<Rightarrow>
             (Inr \<lparr>auHeader = ''Bearer '' @ TrimSpace token, auAccountID = ciAccountID cred,
                auFedRAMP = ciFedRAMP cred, auTokenHash = ciTokenHash cred, auKind = ciKind cred\<rparr>, mw'))
      else case material C S client (clock 0) (clock 0) token mw of
        (Inl e, mw1) \<Rightarrow> (Inl e, mw1)
      | (Inr mat, mw1) \<Rightarrow>
          (case task S client stop clock (taskKey C identityID (mtTokenHash mat) sessionID) mat mw1 of
             (Inl e, mw2) \<Rightarrow> (Inl e, mw2)
           | (Inr taskID, mw2) \<Rightarrow>
               (case BuildAssertion S mat taskID (clock 4) of
                  Inl _ \<Rightarrow> (Inl AssertionFailed, mw2)
                | Inr header \<Rightarrow>
                    (Inr \<lparr>auHeader = header, auAccountID = clAccountID (mtClaims mat),
                       auFedRAMP = ChatGPTAccountIsFedRAMP (mtClaims mat), auTokenHash = mtTokenHash mat,
                       auKind = CredentialKindAgentIdentity\<rparr>, mw2))))"

definition Authorize ::
    "crypto \<Rightarrow> suite \<Rightarrow> 'w transport \<Rightarrow> (nat \<Rightarrow> bool) \<Rightarrow> (nat \<Rightarrow> time) \<Rightarrow> string \<Rightarrow> string \<Rightarrow> string \<Rightarrow>
      Manager \<times> 'w \<Rightarrow> (id_error + Authorization) \<times> Manager \<times> 'w" where
  "Authorize C S client stop clock identityID token sessionID mw =
     AuthorizeForAccount C S client stop clock identityID token sessionID [] mw"

end
