(* ===== verification/Identity_Tokens.thy ===== *)
theory Identity_Tokens
  imports Identity_Protocol Store_Properties
begin

text \<open>
  Properties of tokens and assertions: a verified token was signed by a key of the set and carries
  current, complete claims; a token issued in the expected form verifies to exactly its claims; an
  assertion header decodes to the fields that were signed; the RSA exponent is the encoded number
  modulo \<^verbatim>\<open>2^64\<close>; an unknown key id refreshes the key set once.
\<close>

section \<open>Segments of a token\<close>

definition segment_byte :: "char \<Rightarrow> bool" where
  "segment_byte c \<longleftrightarrow> c \<in> set url_alphabet"

lemma url_nth: "n < 64 \<Longrightarrow> segment_byte (url_alphabet ! n)"
  by (simp add: segment_byte_def url64.alphabet_length)

lemma url_encode_segment: "c \<in> set (RawURLEncode x) \<Longrightarrow> segment_byte c"
  by (induction x rule: triple_induct) (auto simp: url_nth url64.six_bit)

lemma segment_plain: "segment_byte c \<Longrightarrow> \<not> space_byte c \<and> c \<noteq> CHR ''.''"
proof -
  have "list_all (\<lambda>c. \<not> space_byte c \<and> c \<noteq> CHR ''.'') url_alphabet"
    by (simp add: url_alphabet_def space_byte_def byte_def)
  then show "segment_byte c \<Longrightarrow> \<not> space_byte c \<and> c \<noteq> CHR ''.''"
    by (auto simp: segment_byte_def list_all_iff)
qed

lemma url_encode_trim: "TrimSpace (RawURLEncode x) = RawURLEncode x"
  by (rule TrimSpace_plain) (auto dest: url_encode_segment segment_plain)

lemma decodeBase64URL_encode [simp]: "decodeBase64URL (RawURLEncode x) = Some x"
  by (simp add: decodeBase64URL_def url_encode_trim url64.raw.dec_enc)

lemma RawURLEncode_Nil [simp]: "RawURLEncode x = [] \<longleftrightarrow> x = []"
  by (induction x rule: triple_induct) auto

lemma SplitAt_append: "sep \<notin> set s \<Longrightarrow> SplitAt sep (s @ sep # t) = s # SplitAt sep t"
  by (induction s) auto

definition token_of :: "bytes \<Rightarrow> bytes \<Rightarrow> bytes \<Rightarrow> string" where
  "token_of h p g = RawURLEncode h @ ''.'' @ RawURLEncode p @ ''.'' @ RawURLEncode g"

lemma token_of_split: "SplitAt (CHR ''.'') (TrimSpace (token_of h p g)) = [RawURLEncode h, RawURLEncode p, RawURLEncode g]"
proof -
  have no: "CHR ''.'' \<notin> set (RawURLEncode x)" for x by (auto dest!: url_encode_segment segment_plain)
  have "\<not> space_byte (CHR ''.'')" by (simp add: space_byte_def byte_def)
  then have "TrimSpace (token_of h p g) = token_of h p g"
    by (intro TrimSpace_plain) (auto simp: token_of_def dest!: url_encode_segment dest: segment_plain)
  then show ?thesis by (simp add: token_of_def SplitAt_append no)
qed

section \<open>Fields of a printed object\<close>

definition plain_name :: "string \<Rightarrow> bool" where
  "plain_name s \<longleftrightarrow> list_all (\<lambda>c. byte c < 128 \<and> \<not> is_upper c) s"

lemma fold_case_plain: "plain_name s \<Longrightarrow> fold_case s = s"
  by (induction s rule: fold_case.induct) (auto simp: plain_name_def lower_byte_def)

lemma EqualFold_plain: "plain_name s \<Longrightarrow> plain_name t \<Longrightarrow> EqualFold s t \<longleftrightarrow> s = t"
  by (simp add: EqualFold_def fold_case_plain)

lemma field_skip:
  "list_all (\<lambda>(k, v). plain_name k \<and> k \<noteq> name) kvs \<Longrightarrow> plain_name name \<Longrightarrow> field dec name kvs cur = Some cur"
  by (induction kvs) (auto simp: EqualFold_plain)

text \<open>In an object with distinct plain names each field is read from its own key.\<close>

lemma field_lookup:
  assumes "list_all (plain_name \<circ> fst) kvs" "plain_name name" "distinct (map fst kvs)" "map_get kvs name = Some v"
  shows "field dec name kvs cur = dec cur v"
  using assms
proof (induction kvs)
  case (Cons kv kvs)
  obtain k w where kv: "kv = (k, w)" by (cases kv)
  show ?case
  proof (cases "k = name")
    case True
    then have "list_all (\<lambda>(k, v). plain_name k \<and> k \<noteq> name) kvs"
      using Cons.prems kv by (force simp: list_all_iff)
    with field_skip [OF this Cons.prems(2)] True kv Cons.prems show ?thesis
      by (auto simp: EqualFold_plain split: option.splits)
  next
    case False
    with kv Cons show ?thesis by (simp add: EqualFold_plain)
  qed
qed simp

definition header_json :: "string \<Rightarrow> json" where
  "header_json kid = JObj [(''alg'', JStr ''RS256''), (''kid'', JStr kid)]"

definition claims_keys :: "Claims \<Rightarrow> (string \<times> json) list" where
  "claims_keys cl =
     [(''agent_runtime_id'', JStr (AgentRuntimeID cl)), (''agent_private_key'', JStr (AgentPrivateKey cl)),
      (''account_id'', JStr (clAccountID cl)), (''chatgpt_user_id'', JStr (ChatGPTUserID cl)),
      (''email'', JStr (clEmail cl)), (''plan_type'', JStr (clPlanType cl)),
      (''chatgpt_account_is_fedramp'', JBool (ChatGPTAccountIsFedRAMP cl)), (''iss'', JStr (Issuer cl)),
      (''aud'', Audience cl), (''exp'', JNum (int_text (clExpiresAt cl))), (''iat'', JNum (int_text (clIssuedAt cl)))]"

definition int64 :: "int \<Rightarrow> bool" where
  "int64 i \<longleftrightarrow> - (2 ^ 63) \<le> i \<and> i < 2 ^ 63"

lemma claims_names: "list_all (plain_name \<circ> fst) (claims_keys cl)" "distinct (map fst (claims_keys cl))"
  by (simp_all add: claims_keys_def plain_name_def is_upper_def byte_def)

lemma field_of_claims:
  assumes "n \<in> set (map fst (claims_keys cl))"
  shows "field dec n (claims_keys cl) cur = dec cur (the (map_get (claims_keys cl) n))"
proof -
  obtain v where v: "map_get (claims_keys cl) n = Some v" using assms by (metis map_of_eq_None_iff not_None_eq set_map)
  have "plain_name n" using assms claims_names(1) [of cl] by (auto simp: list_all_iff)
  with field_lookup [OF claims_names(1) _ claims_names(2) v] v show ?thesis by simp
qed

lemma decode_claims_keys:
  assumes "int64 (clExpiresAt cl)" "int64 (clIssuedAt cl)"
  shows "decode_claims (JObj (claims_keys cl)) = Some cl"
proof -
  have names: "map fst (claims_keys cl) = [''agent_runtime_id'', ''agent_private_key'', ''account_id'',
      ''chatgpt_user_id'', ''email'', ''plan_type'', ''chatgpt_account_is_fedramp'', ''iss'', ''aud'', ''exp'', ''iat'']"
    by (simp add: claims_keys_def)
  have f: "field dec n (claims_keys cl) cur = dec cur (the (map_get (claims_keys cl) n))"
    if "n \<in> set [''agent_runtime_id'', ''agent_private_key'', ''account_id'',
      ''chatgpt_user_id'', ''email'', ''plan_type'', ''chatgpt_account_is_fedramp'', ''iss'', ''aud'', ''exp'', ''iat'']"
    for dec n cur
    using that by (intro field_of_claims) (simp only: names)
  have ints: "ParseInt64 (int_text (clExpiresAt cl)) = Some (clExpiresAt cl)"
    "ParseInt64 (int_text (clIssuedAt cl)) = Some (clIssuedAt cl)"
    using assms by (simp_all only: int64_def ParseInt64_text)
  have "decode_claims (JObj (claims_keys cl)) = Some \<lparr>AgentRuntimeID = AgentRuntimeID cl,
      AgentPrivateKey = AgentPrivateKey cl, clAccountID = clAccountID cl, ChatGPTUserID = ChatGPTUserID cl,
      clEmail = clEmail cl, clPlanType = clPlanType cl, ChatGPTAccountIsFedRAMP = ChatGPTAccountIsFedRAMP cl,
      Issuer = Issuer cl, Audience = Audience cl, clExpiresAt = clExpiresAt cl, clIssuedAt = clIssuedAt cl\<rparr>"
    unfolding decode_claims_def
    by (simp add: f struct_keys_def)
      (simp add: claims_keys_def dec_str_def dec_bool_def dec_any_def dec_int64_def ints)
  then show ?thesis by simp
qed

lemma FormatInt_head: "0 < n \<Longrightarrow> hd (FormatInt n) \<noteq> CHR ''0''"
proof (induction n rule: FormatInt.induct)
  case (1 n)
  show ?case
  proof (cases "n < 10")
    case True
    have "byte (char_of (48 + n)) = 48 + n" using True by (rule byte_digit)
    moreover have "byte (CHR ''0'') = 48" by (simp add: byte_def)
    ultimately have "char_of (48 + n) \<noteq> CHR ''0''" using "1.prems" by (metis add_cancel_right_right less_irrefl)
    with True show ?thesis by (simp add: FormatInt.simps)
  next
    case False
    then have "hd (FormatInt (n div 10)) \<noteq> CHR ''0''" by (intro "1.IH") auto
    with False FormatInt_digits [of "n div 10"] show ?thesis by (simp add: FormatInt.simps [of n])
  qed
qed

lemma lex_int_digits:
  assumes "list_all is_digit ds" "ds \<noteq> []" "ds = ''0'' \<or> hd ds \<noteq> CHR ''0''"
  shows "lex_int acc ds = Some (acc @ ds, [])"
proof -
  have tw: "takeWhile is_digit ds = ds" "dropWhile is_digit ds = []" using assms(1) by (simp_all add: list_all_iff)
  obtain d r where ds: "ds = d # r" "is_digit d" using assms by (cases ds) auto
  have fin: "lex_frac x [] = Some (x, [])" for x by (simp add: lex_frac_def lex_exp_def)
  show ?thesis
  proof (cases "d = CHR ''0''")
    case True
    with ds assms(3) have "r = []" by auto
    with True ds show ?thesis by (simp add: lex_int_def fin)
  next
    case False
    then have "lex_int acc ds = lex_frac (acc @ takeWhile is_digit ds) (dropWhile is_digit ds)"
      using ds by (simp add: lex_int_def)
    then show ?thesis by (simp add: tw fin)
  qed
qed

lemma number_ok_int: "number_ok (int_text i)"
proof -
  have ds: "lex_int acc (FormatInt n) = Some (acc @ FormatInt n, [])" for acc n
  proof (rule lex_int_digits)
    show "list_all is_digit (FormatInt n)" "FormatInt n \<noteq> []" using FormatInt_digits [of n] by simp_all
    have "char_of (48 :: nat) = CHR ''0''" by code_simp
    then have "FormatInt 0 = ''0''" by (subst FormatInt.simps) simp
    then show "FormatInt n = ''0'' \<or> hd (FormatInt n) \<noteq> CHR ''0''" using FormatInt_head [of n] by (cases "n = 0") simp_all
  qed
  have pos: "lex_num (FormatInt n) = Some (FormatInt n, [])" for n
  proof -
    obtain c r where c: "FormatInt n = c # r" "is_digit c"
      using FormatInt_digits [of n] by (cases "FormatInt n") auto
    then have "c \<noteq> CHR ''-''" by (auto simp: is_digit_def byte_def)
    with c have "lex_num (FormatInt n) = lex_int [] (FormatInt n)" by (simp add: lex_num_def)
    then show ?thesis by (simp add: ds)
  qed
  show ?thesis by (simp add: number_ok_def int_text_def pos) (simp add: lex_num_def ds)
qed

definition issued :: "string \<Rightarrow> Claims \<Rightarrow> bytes \<Rightarrow> string" where
  "issued kid cl signature = token_of (json_text (header_json kid)) (json_text (JObj (claims_keys cl))) signature"

definition signed_input :: "string \<Rightarrow> Claims \<Rightarrow> bytes" where
  "signed_input kid cl = RawURLEncode (json_text (header_json kid)) @ ''.'' @ RawURLEncode (json_text (JObj (claims_keys cl)))"

definition claims_text_ok :: "Claims \<Rightarrow> bool" where
  "claims_text_ok cl \<longleftrightarrow> list_all ValidString [AgentRuntimeID cl, AgentPrivateKey cl, clAccountID cl, ChatGPTUserID cl,
     clEmail cl, clPlanType cl, Issuer cl] \<and> clean (Audience cl) \<and> json_depth (Audience cl) < maxNestingDepth \<and>
     int64 (clExpiresAt cl) \<and> int64 (clIssuedAt cl)"

lemma plain_name_valid: "plain_name n \<Longrightarrow> ValidString n"
  by (rule ascii_valid) (simp add: plain_name_def list_all_iff)

lemma claims_parse: "claims_text_ok cl \<Longrightarrow> json_parse (json_text (JObj (claims_keys cl))) = Some (JObj (claims_keys cl))"
proof (rule parse_text)
  assume ok: "claims_text_ok cl"
  have "clean v" if "(k, v) \<in> set (claims_keys cl)" for k v
    using that ok by (auto simp: claims_keys_def claims_text_ok_def number_ok_int)
  moreover have "ValidString k" if "(k, v) \<in> set (claims_keys cl)" for k v
    using that claims_names(1) [of cl] by (auto simp: list_all_iff intro!: plain_name_valid)
  ultimately show "clean (JObj (claims_keys cl))" by (auto simp: list_all_iff)
  show "json_depth (JObj (claims_keys cl)) \<le> maxNestingDepth"
    using ok by (simp add: claims_keys_def claims_text_ok_def)
qed

lemma header_parse:
  assumes "ValidString kid"
  shows "json_parse (json_text (header_json kid)) = Some (header_json kid)"
    and "decode_header (header_json kid) = Some (''RS256'', kid)"
proof -
  have names: "plain_name ''alg''" "plain_name ''kid''" by (simp_all add: plain_name_def is_upper_def byte_def)
  show "json_parse (json_text (header_json kid)) = Some (header_json kid)"
    using assms names [THEN plain_name_valid]
    by (intro parse_text) (simp_all add: header_json_def maxNestingDepth_def ascii_valid byte_def)
  show "decode_header (header_json kid) = Some (''RS256'', kid)"
    by (simp add: decode_header_def header_json_def struct_keys_def EqualFold_plain names dec_str_def)
qed

lemma json_text_nonempty: "json_text (JObj kvs) \<noteq> []"
  by simp

lemma VerifyJWT_issued:
  assumes "ValidString kid" "TrimSpace kid \<noteq> []" "find_kid jwks kid = Some jwk" "rsaPublicKey jwk = Inr (n, e)"
    and "VerifyPKCS1v15 S n e (Sum256 C (signed_input kid cl)) signature" "signature \<noteq> []"
    and "claims_text_ok cl" "checkClaims now cl = Inr cl"
  shows "VerifyJWT C S (issued kid cl signature) jwks now = Inr cl"
proof -
  have "decode_claims (JObj (claims_keys cl)) = Some cl"
    using assms(7) by (intro decode_claims_keys) (simp_all add: claims_text_ok_def)
  moreover have "json_text (header_json kid) \<noteq> []" by (simp add: header_json_def)
  ultimately show ?thesis
    using assms header_parse [OF assms(1)] claims_parse [OF assms(7)]
    by (simp add: VerifyJWT_def issued_def token_of_split verifyParts_def signed_input_def del: json_text.simps)
       (simp add: json_text_nonempty del: json_text.simps)?
qed

section \<open>Properties\<close>

text \<open>
  C8: only signed tokens are trusted.  When \<^verbatim>\<open>VerifyJWT\<close> accepts a token, the token has three segments,
  some key of the given set verifies the signature over the first two, and the returned claims are
  those of the signed payload, with the expected issuer and audience, not expired at \<^verbatim>\<open>now\<close>, and
  with a runtime id, private key, account and user.
\<close>

theorem verified_jwt_is_signed:
  assumes "VerifyJWT C S token jwks now = Inr claims"
  shows "\<exists>h p g jwk n e signature payload v.
    TrimSpace token = h @ ''.'' @ p @ ''.'' @ g \<and> jwk \<in> set jwks \<and> rsaPublicKey jwk = Inr (n, e) \<and>
    decodeBase64URL g = Some signature \<and> VerifyPKCS1v15 S n e (Sum256 C (h @ ''.'' @ p)) signature \<and>
    decodeBase64URL p = Some payload \<and> json_parse payload = Some v \<and> decode_claims v = Some claims \<and>
    TrimSpace (Issuer claims) = JWTIssuer \<and> audienceContains (Audience claims) JWTAudience \<and>
    now < time_Unix (clExpiresAt claims) \<and> TrimSpace (AgentRuntimeID claims) \<noteq> [] \<and>
    TrimSpace (AgentPrivateKey claims) \<noteq> [] \<and> TrimSpace (clAccountID claims) \<noteq> [] \<and> TrimSpace (ChatGPTUserID claims) \<noteq> []"
proof -
  have join: "s = h @ ''.'' @ p @ ''.'' @ g" if "SplitAt (CHR ''.'') s = [h, p, g]" for s h p g
  proof -
    have "s = concat (map (\<lambda>x. x @ ''.'') (butlast (SplitAt (CHR ''.'') s))) @ last (SplitAt (CHR ''.'') s)" for s
      by (induction s) (auto split: list.splits simp: SplitAt_nonempty)
    from this [of s] that show ?thesis by simp
  qed
  obtain h p g where s: "SplitAt (CHR ''.'') (TrimSpace token) = [h, p, g]" and v: "verifyParts C S jwks now h p g = Inr claims"
    using assms by (auto simp: VerifyJWT_def split: list.splits if_splits)
  from v obtain kid jwk n e signature payload x where
    jwk: "find_kid jwks kid = Some jwk" "rsaPublicKey jwk = Inr (n, e)" and
    g: "decodeBase64URL g = Some signature" "VerifyPKCS1v15 S n e (Sum256 C (h @ ''.'' @ p)) signature" and
    p: "decodeBase64URL p = Some payload" "json_parse payload = Some x" and
    c: "Option.bind (decode_claims x) (\<lambda>c. case checkClaims now c of Inl _ \<Rightarrow> None | Inr c' \<Rightarrow> Some c') = Some claims"
    by (auto simp: verifyParts_def bind_eq_Some_conv split: option.splits prod.splits if_splits sum.splits)
  have "jwk \<in> set jwks" using jwk(1) by (auto simp: find_kid_def find_Some_iff)
  moreover have "decode_claims x = Some claims" "checkClaims now claims = Inr claims"
    using c by (auto simp: bind_eq_Some_conv checkClaims_def split: sum.splits if_splits)
  ultimately show ?thesis using join [OF s] jwk(2) g p
    by (intro exI [of _ h] exI [of _ p] exI [of _ g] exI [of _ jwk] exI [of _ n] exI [of _ e]
        exI [of _ signature] exI [of _ payload] exI [of _ x])
       (simp add: checkClaims_def split: if_splits)
qed

lemma SetBytes_exponent: "exponent_of e = of_nat (SetBytes e)"
proof -
  have "foldl (\<lambda>x b. push_bit 8 x + of_nat (byte b)) (of_nat n) e =
      (of_nat (foldl (\<lambda>x b. 256 * x + byte b) n e) :: 64 word)" for n
  proof (induction e arbitrary: n)
    case (Cons b e)
    have "push_bit 8 (of_nat n) + of_nat (byte b) = (of_nat (256 * n + byte b) :: 64 word)"
      by (simp add: push_bit_eq_mult)
    with Cons.IH [of "256 * n + byte b"] show ?case by simp
  qed simp
  from this [of 0] show ?thesis by (simp add: exponent_of_def SetBytes_def)
qed

lemma SetBytes_less: "SetBytes e < 256 ^ length e"
proof -
  have "foldl (\<lambda>x b. 256 * x + byte b) n e < Suc n * 256 ^ length e" for n
  proof (induction e arbitrary: n)
    case (Cons b e)
    have "foldl (\<lambda>x b. 256 * x + byte b) (256 * n + byte b) e < Suc (256 * n + byte b) * 256 ^ length e" by (rule Cons.IH)
    also have "byte b \<le> 255" using byte_less [of b] by linarith
    then have "Suc (256 * n + byte b) * 256 ^ length e \<le> (256 * Suc n) * 256 ^ length e" by (intro mult_le_mono1) simp
    finally show ?case by (simp add: algebra_simps)
  qed simp
  from this [of 0] show ?thesis by (simp add: SetBytes_def)
qed

text \<open>
  The RSA exponent of an accepted key is the encoded number modulo \<^verbatim>\<open>2^64\<close>, because the source
  accumulates it in a machine integer: it is exact up to seven bytes, and a longer encoding is
  accepted with a wrapped value.
\<close>

theorem rsa_exponent_wraps:
  assumes "rsaPublicKey j = Inr (n, e)"
  shows "\<exists>b. decodeBase64URL (jkE j) = Some b \<and> unat e = SetBytes b mod 2 ^ 64 \<and> 0 < sint e \<and>
     (length b \<le> 7 \<longrightarrow> unat e = SetBytes b)"
proof -
  obtain b where b: "decodeBase64URL (jkE j) = Some b" "e = exponent_of b" "0 < sint e"
    using assms by (auto simp: rsaPublicKey_def Let_def split: if_splits option.splits)
  have u: "unat e = SetBytes b mod 2 ^ 64"
    unfolding b(2) SetBytes_exponent by (simp add: unat_of_nat)
  have "unat e = SetBytes b" if "length b \<le> 7"
  proof -
    have "(256 :: nat) ^ length b \<le> 256 ^ 7" using that by (intro power_increasing) auto
    with SetBytes_less [of b] have "SetBytes b < 2 ^ 64" by simp
    with u show ?thesis by simp
  qed
  with b(1,3) u show ?thesis by blast
qed

text \<open>
  An assertion carries what was signed.  The header \<^verbatim>\<open>BuildAssertion\<close> makes decodes to an object with
  the runtime id, the task and the timestamp, and a signature of exactly those three under the
  identity's private key.
\<close>

theorem assertion_carries_signed_fields:
  assumes "length (mtPrivateKey mat) = 64" "TrimSpace taskID \<noteq> []" "ValidString taskID"
    and "ValidString (AgentRuntimeID (mtClaims mat))"
  shows "\<exists>raw signature. BuildAssertion S mat taskID now = Inr (''AgentAssertion '' @ raw) \<and>
     Option.bind (RawURLDecode raw) json_parse = Some (JObj
       [(''agent_runtime_id'', JStr (AgentRuntimeID (mtClaims mat))), (''signature'', JStr signature),
        (''task_id'', JStr taskID), (''timestamp'', JStr (format_utc now))]) \<and>
     StdDecode signature = Some (Sign S (mtPrivateKey mat)
       (AgentRuntimeID (mtClaims mat) @ '':'' @ taskID @ '':'' @ format_utc now))"
proof -
  let ?j = "assertion_json S mat taskID (format_utc now)"
  have names: "ValidString ''agent_runtime_id''" "ValidString ''signature''" "ValidString ''task_id''" "ValidString ''timestamp''"
    by (rule plain_name_valid, simp add: plain_name_def is_upper_def byte_def)+
  have "json_parse (json_text ?j) = Some ?j"
    using assms names
    by (intro parse_text) (simp_all add: assertion_json_def maxNestingDepth_def format_utc_valid std_encode_valid del: ValidString.simps)
  moreover have "BuildAssertion S mat taskID now = Inr (''AgentAssertion '' @ RawURLEncode (json_text ?j))"
    using assms by (simp add: BuildAssertion_def PrivateKeySize_def)
  ultimately show ?thesis
    by (intro exI [of _ "RawURLEncode (json_text ?j)"]
        exI [of _ "StdEncode (Sign S (mtPrivateKey mat) (assertion_payload mat taskID (format_utc now)))"])
       (simp add: url64.raw.dec_enc std64.padded.dec_enc assertion_json_def assertion_payload_def del: json_text.simps)
qed

section \<open>Issue and verify\<close>


text \<open>
  With a fresh key set in the cache, verification downloads nothing unless the token's key id is
  unknown; then the set is downloaded once, replaces the cached one and decides.
\<close>

theorem unknown_kid_refreshes_once:
  assumes "jcURL c \<noteq> []" "jcCached c = Some keys" "now < jcExpiresAt c"
  shows "ParseWithCache C S client token now later (c, w) =
    (if ParseMaterial C S token keys now \<noteq> Inl JwtKidNotTrusted then (ParseMaterial C S token keys now, c, w)
     else case fetchJWKS client (jcURL c) w of
       (None, w') \<Rightarrow> (Inl ServiceUnavailable, c, w')
     | (Some (keys', ttl), w') \<Rightarrow>
         (ParseMaterial C S token keys' now, c\<lparr>jcCached := Some keys', jcExpiresAt := later + ttl\<rparr>, w'))"
  using assms
  by (auto simp: ParseWithCache_def GetJWKS_def split: sum.splits id_error.splits option.splits prod.splits)

section \<open>Concrete instances\<close>

definition demo_suite :: suite where
  "demo_suite = \<lparr>VerifyPKCS1v15 = (\<lambda>n e digest signature. n = 77 \<and> signature = digest),
     ParsePKCS8PrivateKey = (\<lambda>der. Some (Ed25519 (take 64 (der @ replicate 64 (CHR ''0''))))),
     Sign = (\<lambda>k m. m), Sum512 = (\<lambda>x. replicate 64 (CHR ''5'')),
     X25519Base = (\<lambda>k. Some k), OpenAnonymous = (\<lambda>c p k. Some c)\<rparr>"

definition demo_claims :: Claims where
  "demo_claims = \<lparr>AgentRuntimeID = ''rt'', AgentPrivateKey = StdEncode ''key'', clAccountID = ''acc'',
     ChatGPTUserID = ''user'', clEmail = [], clPlanType = [], ChatGPTAccountIsFedRAMP = False,
     Issuer = JWTIssuer, Audience = JArr [JStr JWTAudience], clExpiresAt = 1000, clIssuedAt = 0\<rparr>"

definition demo_jwk :: JWK where
  "demo_jwk = \<lparr>jkKid = ''k1'', jkKty = ''RSA'', jkAlg = [], jkUse = ''sig'', jkN = RawURLEncode ''M'',
     jkE = RawURLEncode ''AB''\<rparr>"

definition demo_signature :: bytes where
  "demo_signature = Sum256 demo_crypto (signed_input ''k1'' demo_claims)"

lemma demo_trims:
  "TrimSpace ''rt'' = ''rt''" "TrimSpace ''acc'' = ''acc''" "TrimSpace ''user'' = ''user''" "TrimSpace ''k1'' = ''k1''"
  "TrimSpace ''RSA'' = ''RSA''" "TrimSpace ''sig'' = ''sig''" "TrimSpace JWTIssuer = JWTIssuer" "TrimSpace JWTAudience = JWTAudience"
  by (rule TrimSpace_plain, simp add: JWTIssuer_def JWTAudience_def space_byte_def byte_def)+

lemma demo_valid:
  "ValidString ''rt''" "ValidString ''acc''" "ValidString ''user''" "ValidString ''k1''" "ValidString JWTIssuer" "ValidString JWTAudience"
  by (rule ascii_valid, simp add: JWTIssuer_def JWTAudience_def byte_def)+

lemma demo_key_nonempty: "StdEncode ''key'' \<noteq> []"
  by simp

lemma demo_claims_check: "checkClaims 0 demo_claims = Inr demo_claims"
proof -
  have "(0 :: int) < time_Unix 1000"
    using time_Unix_before [of 1000 0] by (simp add: Unix_def unixToInternal_def)
  then show ?thesis
    by (simp add: checkClaims_def demo_claims_def audienceContains_def demo_trims demo_key_nonempty del: b64_encode.simps)
qed

lemma demo_claims_ok: "claims_text_ok demo_claims"
  by (simp add: claims_text_ok_def demo_claims_def demo_valid std_encode_valid int64_def maxNestingDepth_def
      del: b64_encode.simps ValidString.simps) simp

lemma demo_key_ok: "rsaPublicKey demo_jwk = Inr (77, exponent_of ''AB'')"
proof -
  have "exponent_of ''AB'' = (16706 :: 64 word)" by (simp add: exponent_of_def push_bit_eq_mult byte_def)
  moreover have "SetBytes ''M'' = 77" by (simp add: SetBytes_def byte_def)
  moreover have "sint (16706 :: 64 word) = 16706" by simp
  ultimately show ?thesis
    by (simp add: rsaPublicKey_def demo_jwk_def demo_trims EqualFold_refl del: b64_encode.simps)
qed

lemma demo_sum_length: "length demo_signature = 32"
  using demo_crypto_ok by (simp add: demo_signature_def crypto_ok_def)

lemma demo_verifies: "VerifyPKCS1v15 demo_suite 77 e (Sum256 demo_crypto (signed_input ''k1'' demo_claims)) demo_signature"
  by (simp add: demo_suite_def demo_signature_def)

lemma demo_find: "find_kid [demo_jwk] ''k1'' = Some demo_jwk"
  by (simp add: find_kid_def demo_jwk_def)

lemma demo_kid: "TrimSpace ''k1'' \<noteq> []" "demo_signature \<noteq> []"
  using demo_sum_length by (auto simp: demo_trims)

lemma demo_issued: "VerifyJWT demo_crypto demo_suite (issued ''k1'' demo_claims demo_signature) [demo_jwk] 0 = Inr demo_claims"
  by (rule VerifyJWT_issued [OF demo_valid(4) demo_kid(1) demo_find demo_key_ok demo_verifies demo_kid(2) demo_claims_ok demo_claims_check])


theorem verified_jwt_is_signed_witness:
  "\<exists>h p g n e signature. TrimSpace (issued ''k1'' demo_claims demo_signature) = h @ ''.'' @ p @ ''.'' @ g \<and>
     VerifyPKCS1v15 demo_suite n e (Sum256 demo_crypto (h @ ''.'' @ p)) signature \<and> 0 < time_Unix (clExpiresAt demo_claims)"
  using verified_jwt_is_signed [OF demo_issued] by blast

theorem rsa_exponent_wraps_witness:
  "\<exists>b. decodeBase64URL (jkE demo_jwk) = Some b \<and> unat (exponent_of ''AB'') = SetBytes b mod 2 ^ 64"
  using rsa_exponent_wraps [OF demo_key_ok] by blast

definition demo_material :: Material where
  "demo_material = \<lparr>mtClaims = demo_claims, mtPrivateKey = replicate 64 (CHR ''p''),
     mtTokenHash = hexSum256 demo_crypto (TrimSpace (issued ''k1'' demo_claims demo_signature))\<rparr>"

lemma demo_material_fields:
  "length (mtPrivateKey demo_material) = 64" "AgentRuntimeID (mtClaims demo_material) = ''rt''"
  by (simp_all add: demo_material_def demo_claims_def)

theorem assertion_carries_signed_fields_witness:
  "\<exists>raw. BuildAssertion demo_suite demo_material ''rt'' 0 = Inr (''AgentAssertion '' @ raw)"
proof -
  have t: "TrimSpace ''rt'' \<noteq> []" by (simp add: demo_trims)
  have r: "ValidString (AgentRuntimeID (mtClaims demo_material))" unfolding demo_material_fields by (rule demo_valid)
  show ?thesis
    using assertion_carries_signed_fields [OF demo_material_fields(1) t demo_valid(1) r, of demo_suite 0] by blast
qed

theorem unknown_kid_refreshes_once_witness:
  "ParseWithCache demo_crypto demo_suite (\<lambda>r w. (BadRequest, Suc w)) ''a.b'' 0 0
     (\<lparr>jcURL = ''u'', jcCached = Some [], jcExpiresAt = 5\<rparr>, 0) =
   (Inl JwtFormat, \<lparr>jcURL = ''u'', jcCached = Some [], jcExpiresAt = 5\<rparr>, 0)"
proof -
  have "TrimSpace ''a.b'' = ''a.b''" by (rule TrimSpace_plain) (simp add: space_byte_def byte_def)
  then have "ParseMaterial demo_crypto demo_suite ''a.b'' [] 0 = Inl JwtFormat"
    by (simp add: ParseMaterial_def VerifyJWT_def)
  then show ?thesis
    using unknown_kid_refreshes_once [of "\<lparr>jcURL = ''u'', jcCached = Some [], jcExpiresAt = 5\<rparr>" "[]" 0
        demo_crypto demo_suite "\<lambda>r w. (BadRequest, Suc w)" "''a.b''" 0 0] by simp
qed

end
