(* ===== verification/Identity_Sessions.thy ===== *)
theory Identity_Sessions
  imports Identity_Manager Identity_Tokens
begin

text \<open>
  Properties of the credential manager: an invariant of its three caches over any sequence of calls,
  and what an authorized request can rely on.  Cache keys are hashes; where a statement needs that
  two different credentials do not share a key, the hypothesis is that SHA-256 is injective on the
  finite set of strings hashed for the credentials presented so far.
\<close>

section \<open>The caches\<close>

definition pat_entry :: "crypto \<Rightarrow> (string \<times> string) set \<Rightarrow> string \<Rightarrow> CredentialInfo \<Rightarrow> bool" where
  "pat_entry C U k ci \<longleftrightarrow> (\<exists>(t, a) \<in> U. IsPersonalAccessToken t \<and> k = patCacheKey C (hexSum256 C t) a \<and>
     ciTokenHash ci = hexSum256 C t \<and> ciKind ci = CredentialKindPersonalAccessToken \<and>
     (a \<noteq> [] \<longrightarrow> ciAccountID ci = a))"

definition material_entry :: "crypto \<Rightarrow> suite \<Rightarrow> string \<Rightarrow> Material \<Rightarrow> bool" where
  "material_entry C S h mat \<longleftrightarrow> (\<exists>token jwks t. h = hexSum256 C (TrimSpace token) \<and> ParseMaterial C S token jwks t = Inr mat)"

definition manager_inv :: "crypto \<Rightarrow> suite \<Rightarrow> (string \<times> string) set \<Rightarrow> Manager \<times> 'w \<Rightarrow> bool" where
  "manager_inv C S U mw \<longleftrightarrow>
     (\<forall>k ci. map_get (personalAccessTokens (fst mw)) k = Some ci \<longrightarrow> pat_entry C U k ci) \<and>
     (\<forall>h mat. map_get (materials (fst mw)) h = Some mat \<longrightarrow> material_entry C S h mat) \<and>
     (\<forall>k t. map_get (tasks (fst mw)) k = Some t \<longrightarrow> TrimSpace t \<noteq> [])"

text \<open>One call of the manager for a credential of \<^verbatim>\<open>U\<close>, a set of trimmed token and account pairs.\<close>

inductive manager_step ::
    "crypto \<Rightarrow> suite \<Rightarrow> 'w transport \<Rightarrow> (string \<times> string) set \<Rightarrow> Manager \<times> 'w \<Rightarrow> Manager \<times> 'w \<Rightarrow> bool" for C S client U where
  inspect: "(TrimSpace token, TrimSpace account) \<in> U \<Longrightarrow>
     InspectForAccount C S client now later token account mw = (r, mw') \<Longrightarrow> manager_step C S client U mw mw'"
| authorize: "(TrimSpace token, TrimSpace account) \<in> U \<Longrightarrow>
     AuthorizeForAccount C S client stop clock i token session account mw = (r, mw') \<Longrightarrow> manager_step C S client U mw mw'"
| validate: "Validate C S client now later token mw = (r, mw') \<Longrightarrow> manager_step C S client U mw mw'"
| invalidate: "manager_step C S client U (m, w) (InvalidateTask C i h session m, w)"

inductive_cases manager_stepE: "manager_step C S client U mw mw'"

definition manager_init :: "Manager \<times> 'w \<Rightarrow> bool" where
  "manager_init mw \<longleftrightarrow> (\<exists>a b c. fst mw = NewManagerWithPersonalAccessTokenAPI a b c)"

lemma IsPersonalAccessToken_trim [simp]: "IsPersonalAccessToken (TrimSpace t) = IsPersonalAccessToken t"
  by (simp add: IsPersonalAccessToken_def)

lemma pat_cases:
  assumes "personalAccessTokenForAccount C client token a (m, w) = (r, m', w')"
  defines "k \<equiv> patCacheKey C (hexSum256 C (TrimSpace token)) a"
  shows "m' = m \<and> (\<forall>ci. r = Inr ci \<longrightarrow> map_get (personalAccessTokens m) k = Some ci) \<or>
    (\<exists>ci out. r = Inr ci \<and> IsPersonalAccessToken token \<and> whoami_result a (hexSum256 C (TrimSpace token)) out = Inr ci \<and>
       m' = m\<lparr>personalAccessTokens := map_put k ci (personalAccessTokens m)\<rparr>)"
proof (cases "IsPersonalAccessToken token \<and> map_get (personalAccessTokens m) k = None")
  case True
  obtain out w2 where c: "client (whoami_request (personalAccessTokenAuthAPIBase m) (TrimSpace token) a) w = (out, w2)"
    by fastforce
  show ?thesis
  proof (cases "whoami_result a (hexSum256 C (TrimSpace token)) out")
    case (Inl e)
    with assms(1) True c show ?thesis by (auto simp: personalAccessTokenForAccount_def Let_def k_def)
  next
    case (Inr ci)
    with assms(1) True c have "r = Inr ci" "m' = m\<lparr>personalAccessTokens := map_put k ci (personalAccessTokens m)\<rparr>"
      by (simp_all add: personalAccessTokenForAccount_def Let_def k_def)
    with Inr True show ?thesis by blast
  qed
next
  case False
  with assms(1) show ?thesis
    by (cases "map_get (personalAccessTokens m) k") (auto simp: personalAccessTokenForAccount_def Let_def k_def split: if_splits)
qed

lemma whoami_result_fields:
  "whoami_result a h out = Inr ci \<Longrightarrow> ciTokenHash ci = h \<and> ciKind ci = CredentialKindPersonalAccessToken \<and>
     ciAccountID ci \<noteq> [] \<and> (a \<noteq> [] \<longrightarrow> ciAccountID ci = a)"
  by (auto simp: whoami_result_def Let_def split: http_outcome.splits if_splits option.splits prod.splits)

lemma whoami_entry:
  assumes "whoami_result a (hexSum256 C (TrimSpace token)) out = Inr ci" "IsPersonalAccessToken token" "(TrimSpace token, a) \<in> U"
  shows "pat_entry C U (patCacheKey C (hexSum256 C (TrimSpace token)) a) ci"
  using whoami_result_fields [OF assms(1)] assms(2,3)
  by (auto simp: pat_entry_def intro!: bexI [of _ "(TrimSpace token, a)"])

lemma pat_result:
  assumes "manager_inv C S U (m, w)" "(TrimSpace token, a) \<in> U"
    and "personalAccessTokenForAccount C client token a (m, w) = (r, m', w')"
  shows "manager_inv C S U (m', w')"
    and "r = Inr ci \<Longrightarrow> pat_entry C U (patCacheKey C (hexSum256 C (TrimSpace token)) a) ci"
proof -
  let ?k = "patCacheKey C (hexSum256 C (TrimSpace token)) a"
  from pat_cases [OF assms(3)] show "manager_inv C S U (m', w')"
  proof (elim disjE exE conjE)
    fix ci out
    assume "whoami_result a (hexSum256 C (TrimSpace token)) out = Inr ci" "IsPersonalAccessToken token"
      "m' = m\<lparr>personalAccessTokens := map_put ?k ci (personalAccessTokens m)\<rparr>"
    with whoami_entry [OF _ _ assms(2)] assms(1) show ?thesis by (auto simp: manager_inv_def update_conv')
  qed (use assms(1) in \<open>auto simp: manager_inv_def\<close>)
  from pat_cases [OF assms(3)] show "r = Inr ci \<Longrightarrow> pat_entry C U ?k ci"
    using whoami_entry [OF _ _ assms(2)] assms(1) by (auto simp: manager_inv_def)
qed

lemma ParseWithCache_parsed:
  "ParseWithCache C S client t now later cw = (Inr mat, cw') \<Longrightarrow> \<exists>jwks. ParseMaterial C S t jwks now = Inr mat"
  by (auto simp: ParseWithCache_def split: prod.splits sum.splits id_error.splits)

lemma material_cases:
  assumes "material C S client now later token (m, w) = (r, m', w')"
  defines "h \<equiv> hexSum256 C (TrimSpace token)"
  shows "(\<exists>mat. r = Inr mat \<and> m' = m \<and> w' = w \<and> map_get (materials m) h = Some mat \<and> Unix now < clExpiresAt (mtClaims mat)) \<or>
    (\<exists>mat c jwks. r = Inr mat \<and> ParseMaterial C S (TrimSpace token) jwks now = Inr mat \<and>
      m' = m\<lparr>jwksCache := c, materials := map_put h mat (map_del h (materials m))\<rparr>) \<or>
    (\<exists>e c. r = Inl e \<and> m' = m\<lparr>materials := map_del h (materials m), jwksCache := c\<rparr>)" (is "?hit \<or> ?parsed \<or> ?failed")
proof (cases "\<exists>mat. map_get (materials m) h = Some mat \<and> Unix now < clExpiresAt (mtClaims mat)")
  case True
  then obtain mat where mat: "map_get (materials m) h = Some mat" "Unix now < clExpiresAt (mtClaims mat)" by blast
  with assms(1) have ?hit by (simp add: material_def Let_def h_def)
  then show ?thesis ..
next
  case False
  have missed: "material C S client now later token (m, w) =
      parseAndCache C S client now later (TrimSpace token) h (m\<lparr>materials := map_del h (materials m)\<rparr>, w)"
    using False by (cases "map_get (materials m) h") (auto simp: material_def Let_def h_def)
  obtain x c w2 where p: "ParseWithCache C S client (TrimSpace token) now later (jwksCache m, w) = (x, c, w2)"
    by (metis prod_cases3)
  show ?thesis
  proof (cases x)
    case (Inl e)
    with assms(1) missed p have ?failed by (auto simp: parseAndCache_def)
    then show ?thesis by blast
  next
    case (Inr mat)
    with p obtain jwks where "ParseMaterial C S (TrimSpace token) jwks now = Inr mat" using ParseWithCache_parsed by blast
    moreover have "r = Inr mat" "m' = m\<lparr>jwksCache := c, materials := map_put h mat (map_del h (materials m))\<rparr>"
      using Inr assms(1) missed p by (simp_all add: parseAndCache_def)
    ultimately show ?thesis by blast
  qed
qed

lemma material_inv:
  assumes "manager_inv C S U (m, w)" "material C S client now later token (m, w) = (r, m', w')"
  shows "manager_inv C S U (m', w')"
  using material_cases [OF assms(2)]
proof (elim disjE exE conjE)
  fix mat c jwks
  let ?h = "hexSum256 C (TrimSpace token)"
  assume *: "ParseMaterial C S (TrimSpace token) jwks now = Inr mat"
    "m' = m\<lparr>jwksCache := c, materials := map_put ?h mat (map_del ?h (materials m))\<rparr>"
  have "material_entry C S ?h mat"
    unfolding material_entry_def using * by (intro exI [of _ "TrimSpace token"] exI [of _ jwks] exI [of _ now]) simp
  with assms(1) *(2) show ?thesis by (auto simp: manager_inv_def update_conv' delete_conv')
qed (use assms(1) in \<open>auto simp: manager_inv_def delete_conv' split: if_splits\<close>)

section \<open>Registration\<close>

text \<open>A transport that also counts its requests.\<close>

definition counted :: "'w transport \<Rightarrow> ('w \<times> nat) transport" where
  "counted client rq wn = (case client rq (fst wn) of (out, w') \<Rightarrow> (out, w', Suc (snd wn)))"

lemma RegisterTask_counted:
  "RegisterTask S (counted client) base mat now (w, n) =
     (case RegisterTask S client base mat now w of (r, w') \<Rightarrow> (r, w', Suc n))"
  by (auto simp: RegisterTask_def counted_def split: prod.splits http_outcome.splits option.splits)

lemma registerLoop_bound:
  "registerLoop S (counted client) stop clock base mat left attempt (w, n) = (r, w', n') \<Longrightarrow>
     n < n' \<and> n' \<le> n + Suc left \<and> (\<forall>t. r = Inr t \<longrightarrow> TrimSpace t \<noteq> []) \<and>
     (\<forall>e. r = Inl e \<longrightarrow> Retryable (Some e) \<longrightarrow> n' = n + Suc left)"
proof (induction left arbitrary: attempt w n)
  case 0
  then show ?case
    by (subst (asm) registerLoop.simps)
       (auto simp: RegisterTask_counted Let_def split: prod.splits sum.splits if_splits)
next
  case (Suc left)
  obtain r1 w1 where r1: "RegisterTask S client base mat (clock attempt) w = (r1, w1)" by fastforce
  let ?err = "case r1 of Inl e \<Rightarrow> Some e | Inr _ \<Rightarrow> None"
  have unfold: "registerLoop S (counted client) stop clock base mat (Suc left) attempt (w, n) =
    (if (case r1 of Inl _ \<Rightarrow> False | Inr t \<Rightarrow> TrimSpace t \<noteq> []) then (r1, w1, Suc n)
     else if \<not> Retryable ?err then (Inl (case ?err of None \<Rightarrow> TaskFailed | Some e \<Rightarrow> e), w1, Suc n)
     else if stop attempt then (Inl ContextDone, w1, Suc n)
     else registerLoop S (counted client) stop clock base mat left (Suc attempt) (w1, Suc n))"
    by (subst registerLoop.simps) (simp add: RegisterTask_counted r1 Let_def)
  have nr: "\<not> Retryable (Some ContextDone)" "\<not> Retryable (Some TaskFailed)" by (simp_all add: Retryable_def)
  show ?case
    using Suc.prems Suc.IH [of "Suc attempt" w1 "Suc n"] nr unfolding unfold
    by (auto split: if_splits sum.splits)
qed

lemma registerLoop_nonblank:
  assumes "registerLoop S client stop clock base mat left attempt w = (Inr t, w')"
  shows "TrimSpace t \<noteq> []"
  using assms
proof (induction left arbitrary: attempt w)
  case 0
  then show ?case
    by (subst (asm) registerLoop.simps) (auto simp: Let_def split: prod.splits sum.splits if_splits)
next
  case (Suc left)
  from Suc.prems show ?case
    by (subst (asm) registerLoop.simps) (auto simp: Let_def split: prod.splits sum.splits if_splits dest: Suc.IH)
qed

lemma registerTask_nonblank: "registerTask S client stop clock m mat w = (Inr t, w') \<Longrightarrow> TrimSpace t \<noteq> []"
  unfolding registerTask_def by (rule registerLoop_nonblank)

lemma task_cases:
  assumes "task S client stop clock k mat (m, w) = (r, m', w')"
  shows "m' = m \<and> (\<forall>t. r = Inr t \<longrightarrow> map_get (tasks m) k = Some t \<and> w' = w) \<or>
    (\<exists>t. r = Inr t \<and> TrimSpace t \<noteq> [] \<and> m' = m\<lparr>tasks := map_put k t (tasks m)\<rparr>)"
proof -
  obtain x w2 where x: "registerTask S client stop clock m mat w = (x, w2)" by fastforce
  consider (hit) t where "map_get (tasks m) k = Some t" "t \<noteq> []"
    | (miss) "(case map_get (tasks m) k of None \<Rightarrow> [] | Some t \<Rightarrow> t) = []"
    by (cases "map_get (tasks m) k") auto
  then show ?thesis
  proof cases
    case hit
    with assms show ?thesis by (auto simp: task_def Let_def)
  next
    case miss
    show ?thesis
    proof (cases x)
      case (Inl e)
      with assms miss x show ?thesis by (auto simp: task_def Let_def)
    next
      case (Inr t)
      then have "TrimSpace t \<noteq> []" using x registerTask_nonblank [of S client stop clock m mat w t w2] by simp
      then have "t \<noteq> []" by auto
      with assms miss x Inr have "r = Inr t" "m' = m\<lparr>tasks := map_put k t (tasks m)\<rparr>"
        by (auto simp: task_def Let_def)
      with \<open>TrimSpace t \<noteq> []\<close> show ?thesis by blast
    qed
  qed
qed

lemma task_inv:
  assumes "manager_inv C S U (m, w)" "task S client stop clock k mat (m, w) = (r, m', w')"
  shows "manager_inv C S U (m', w')"
  using task_cases [OF assms(2)] assms(1) by (auto simp: manager_inv_def split: if_splits)

lemma authorize_inv:
  assumes "manager_inv C S U mw" "(TrimSpace token, TrimSpace account) \<in> U"
    and "AuthorizeForAccount C S client stop clock i token session account mw = (r, mw')"
  shows "manager_inv C S U mw'"
proof (cases "IsPersonalAccessToken token")
  case True
  obtain x m1 w1 where x: "personalAccessTokenForAccount C client token (TrimSpace account) mw = (x, m1, w1)" by (metis prod_cases3)
  obtain m w where mw: "mw = (m, w)" by (cases mw)
  from assms(3) True x have "mw' = (m1, w1)" by (auto simp: AuthorizeForAccount_def split: sum.splits)
  with pat_result(1) [OF assms(1) [unfolded mw] assms(2) x [unfolded mw]] show ?thesis by simp
next
  case False
  obtain m w where mw: "mw = (m, w)" by (cases mw)
  obtain x m1 w1 where x: "material C S client (clock 0) (clock 0) token (m, w) = (x, m1, w1)" by (metis prod_cases3)
  have inv1: "manager_inv C S U (m1, w1)" by (rule material_inv [OF assms(1) [unfolded mw] x])
  show ?thesis
  proof (cases x)
    case (Inl e)
    with assms(3) False x mw inv1 show ?thesis by (auto simp: AuthorizeForAccount_def)
  next
    case (Inr mat)
    obtain y m2 w2 where y: "task S client stop clock (taskKey C i (mtTokenHash mat) session) mat (m1, w1) = (y, m2, w2)"
      by (metis prod_cases3)
    from assms(3) False x mw Inr y have "mw' = (m2, w2)" by (auto simp: AuthorizeForAccount_def split: sum.splits)
    with task_inv [OF inv1 y] show ?thesis by simp
  qed
qed

lemma inspect_inv:
  assumes "manager_inv C S U mw" "(TrimSpace token, TrimSpace account) \<in> U"
    and "InspectForAccount C S client now later token account mw = (r, mw')"
  shows "manager_inv C S U mw'"
proof -
  obtain m w where mw: "mw = (m, w)" by (cases mw)
  obtain m' w' where mw': "mw' = (m', w')" by (cases mw')
  show ?thesis
  proof (cases "IsPersonalAccessToken token")
    case True
    with assms(3) mw mw' have "personalAccessTokenForAccount C client token (TrimSpace account) (m, w) = (r, m', w')"
      by (simp add: InspectForAccount_def)
    then show ?thesis using pat_result(1) [OF assms(1) [unfolded mw] assms(2)] unfolding mw' by blast
  next
    case False
    obtain x m1 w1 where x: "material C S client now later token (m, w) = (x, m1, w1)" by (metis prod_cases3)
    with assms(3) mw mw' False have "(m1, w1) = (m', w')" by (auto simp: InspectForAccount_def split: sum.splits)
    with material_inv [OF assms(1) [unfolded mw] x] mw' show ?thesis by simp
  qed
qed

lemma manager_step_inv: "manager_inv C S U mw \<Longrightarrow> manager_step C S client U mw mw' \<Longrightarrow> manager_inv C S U mw'"
proof (erule manager_stepE)
  fix token account now later r
  assume "manager_inv C S U mw" "(TrimSpace token, TrimSpace account) \<in> U" "InspectForAccount C S client now later token account mw = (r, mw')"
  then show ?thesis by (rule inspect_inv)
next
  fix token account stop clock i session r
  assume "manager_inv C S U mw" "(TrimSpace token, TrimSpace account) \<in> U"
    "AuthorizeForAccount C S client stop clock i token session account mw = (r, mw')"
  then show ?thesis by (rule authorize_inv)
next
  fix now later token r
  assume "manager_inv C S U mw" "Validate C S client now later token mw = (r, mw')"
  then show ?thesis by (cases mw; cases mw') (auto simp: Validate_def intro: material_inv)
next
  fix m w i h session
  assume "manager_inv C S U mw" "mw = (m, w)" "mw' = (InvalidateTask C i h session m, w)"
  then show ?thesis by (auto simp: manager_inv_def InvalidateTask_def split: if_splits)
qed

interpretation managers: invariant_system manager_init "manager_step C S client U" "manager_inv C S U" for C S client U
proof unfold_locales
  show "manager_init mw \<Longrightarrow> manager_inv C S U mw" for mw :: "Manager \<times> 'a"
    by (auto simp: manager_init_def manager_inv_def NewManagerWithPersonalAccessTokenAPI_def)
  show "manager_inv C S U s \<Longrightarrow> manager_step C S client U s t \<Longrightarrow> manager_inv C S U t" for s t
    by (rule manager_step_inv)
qed

section \<open>Cache keys\<close>

lemma verified_claims: "VerifyJWT C S token jwks now = Inr claims \<Longrightarrow> now < time_Unix (clExpiresAt claims)"
  by (auto simp: VerifyJWT_def verifyParts_def checkClaims_def split: list.splits if_splits option.splits prod.splits sum.splits)

definition hash_inputs :: "crypto \<Rightarrow> (string \<times> string) set \<Rightarrow> bytes set" where
  "hash_inputs C U = fst ` U \<union> (\<lambda>(t, a). hexSum256 C t @ nul @ a) ` U"

lemma pat_not_scoped:
  assumes "crypto_ok C" "TrimSpace t = t" "IsPersonalAccessToken t"
  shows "t \<noteq> hexSum256 C u @ nul @ a"
proof
  assume eq: "t = hexSum256 C u @ nul @ a"
  have "length (hexSum256 C u) = 64" using assms(1) by (simp add: hexSum256_def crypto_ok_def)
  then have "t ! 2 \<in> set (hexSum256 C u)" unfolding eq by (simp add: nth_append)
  then have "is_lower_hex (t ! 2)" unfolding hexSum256_def by (rule hex_encode_lower)
  moreover have "t ! 2 = CHR ''-''"
    using assms(2,3) by (auto simp: IsPersonalAccessToken_def HasPrefix_def PersonalAccessTokenPrefix_def prefix_def)
  ultimately show False by (simp add: is_lower_hex_def is_digit_def byte_def)
qed

lemma patCacheKey_inject:
  assumes "crypto_ok C" "inj_on (Sum256 C) (hash_inputs C U)" "(t, a) \<in> U" "(t', a') \<in> U"
    and "TrimSpace t = t" "TrimSpace t' = t'" "IsPersonalAccessToken t" "IsPersonalAccessToken t'"
    and "patCacheKey C (hexSum256 C t) a = patCacheKey C (hexSum256 C t') a'"
  shows "t = t' \<and> a = a'"
proof -
  have len: "length (hexSum256 C x) = 64" for x using assms(1) by (simp add: hexSum256_def crypto_ok_def)
  have inj: "x = y" if "hexSum256 C x = hexSum256 C y" "x \<in> hash_inputs C U" "y \<in> hash_inputs C U" for x y
    using that assms(2) by (auto simp: hexSum256_def hex.enc_inject inj_on_def)
  have mem: "t \<in> hash_inputs C U" "t' \<in> hash_inputs C U"
    "hexSum256 C t @ nul @ a \<in> hash_inputs C U" "hexSum256 C t' @ nul @ a' \<in> hash_inputs C U"
    using assms(3,4) by (force simp: hash_inputs_def)+
  show ?thesis
  proof (cases "a = []"; cases "a' = []")
    assume "a = []" "a' = []"
    with assms(9) inj mem show ?thesis by (simp add: patCacheKey_def)
  next
    assume "a = []" "a' \<noteq> []"
    with assms(9) inj [OF _ mem(1) mem(4)] have "t = hexSum256 C t' @ nul @ a'" by (simp add: patCacheKey_def)
    with pat_not_scoped [OF assms(1,5,7)] show ?thesis by blast
  next
    assume "a \<noteq> []" "a' = []"
    with assms(9) inj [OF _ mem(2) mem(3)] have "t' = hexSum256 C t @ nul @ a" by (simp add: patCacheKey_def)
    with pat_not_scoped [OF assms(1,6,8)] show ?thesis by blast
  next
    assume "a \<noteq> []" "a' \<noteq> []"
    with assms(9) inj [OF _ mem(3) mem(4)] have "hexSum256 C t @ nul @ a = hexSum256 C t' @ nul @ a'"
      by (simp add: patCacheKey_def)
    then have "hexSum256 C t = hexSum256 C t'" "a = a'" using len by (auto simp: append_eq_append_conv)
    with inj mem show ?thesis by blast
  qed
qed

section \<open>Properties\<close>

text \<open>
  C10: a personal access token is never relabelled.  In every reachable manager, an authorization for a
  selected account carries exactly that account, the hash of exactly that token, and the token as
  its bearer, whether it was answered from the cache or by the service; provided SHA-256 does not
  collide on the credentials presented.
\<close>

theorem pat_account_is_confirmed:
  assumes "crypto_ok C" "inj_on (Sum256 C) (hash_inputs C U)" "\<forall>(t, a) \<in> U. TrimSpace t = t"
    and "manager_init mw0" "steps (manager_step C S client U) mw0 mw"
    and "(TrimSpace token, TrimSpace account) \<in> U" "IsPersonalAccessToken token" "TrimSpace account \<noteq> []"
    and "AuthorizeForAccount C S client stop clock i token session account mw = (Inr au, mw')"
  shows "auAccountID au = TrimSpace account \<and> auTokenHash au = hexSum256 C (TrimSpace token) \<and>
    auHeader au = ''Bearer '' @ TrimSpace token \<and> auKind au = CredentialKindPersonalAccessToken"
proof -
  obtain m w where mw: "mw = (m, w)" by (cases mw)
  have inv: "manager_inv C S U (m, w)" using managers.reachable_inv [OF assms(4,5)] mw by simp
  obtain ci m' w' where ci: "personalAccessTokenForAccount C client token (TrimSpace account) (m, w) = (Inr ci, m', w')"
    and au: "au = \<lparr>auHeader = ''Bearer '' @ TrimSpace token, auAccountID = ciAccountID ci, auFedRAMP = ciFedRAMP ci,
      auTokenHash = ciTokenHash ci, auKind = ciKind ci\<rparr>"
    using assms(7,9) mw by (cases mw') (auto simp: AuthorizeForAccount_def split: prod.splits sum.splits)
  obtain t a where ta: "(t, a) \<in> U" "IsPersonalAccessToken t"
    "patCacheKey C (hexSum256 C (TrimSpace token)) (TrimSpace account) = patCacheKey C (hexSum256 C t) a"
    and f: "ciTokenHash ci = hexSum256 C t" "ciKind ci = CredentialKindPersonalAccessToken" "a \<noteq> [] \<longrightarrow> ciAccountID ci = a"
    using pat_result(2) [OF inv assms(6) ci refl] by (auto simp: pat_entry_def)
  have "TrimSpace token = t \<and> TrimSpace account = a"
    using ta assms(3,7) by (intro patCacheKey_inject [OF assms(1,2,6) ta(1)]) auto
  with f au assms(8) show ?thesis by simp
qed

text \<open>
  C11: a verified identity is current.  In every reachable manager, the material returned for a token has
  that token's hash and claims that have not expired, whether it comes from the cache or was just
  verified (for expiry times below \<^verbatim>\<open>2^62\<close> seconds, where Go's conversion does not wrap).
\<close>

theorem material_is_current:
  assumes "manager_init mw0" "steps (manager_step C S client U) mw0 mw"
    and "material C S client now later token mw = (Inr mat, mw')"
    and "- (2 ^ 62) \<le> clExpiresAt (mtClaims mat)" "clExpiresAt (mtClaims mat) < 2 ^ 62"
  shows "Unix now < clExpiresAt (mtClaims mat) \<and> mtTokenHash mat = hexSum256 C (TrimSpace token)"
proof -
  obtain m w where mw: "mw = (m, w)" by (cases mw)
  obtain m' w' where mw': "mw' = (m', w')" by (cases mw')
  have inv: "manager_inv C S U (m, w)" using managers.reachable_inv [OF assms(1,2)] mw by simp
  have parsed: "mtTokenHash x = hexSum256 C (TrimSpace t) \<and> now' < time_Unix (clExpiresAt (mtClaims x))"
    if "ParseMaterial C S t jwks now' = Inr x" for t jwks now' x
    using that by (auto simp: ParseMaterial_def split: sum.splits
        dest!: verified_claims)
  show ?thesis
    using material_cases [OF assms(3) [unfolded mw mw']]
  proof (elim disjE exE conjE)
    fix x assume x: "Inr mat = Inr x" "map_get (materials m) (hexSum256 C (TrimSpace token)) = Some x" "Unix now < clExpiresAt (mtClaims x)"
    then have "material_entry C S (hexSum256 C (TrimSpace token)) x" using inv by (simp add: manager_inv_def)
    then obtain t jwks s where "hexSum256 C (TrimSpace token) = hexSum256 C (TrimSpace t)" "ParseMaterial C S t jwks s = Inr x"
      by (auto simp: material_entry_def)
    with parsed x show ?thesis by auto
  next
    fix x jwks assume "Inr mat = Inr x" "ParseMaterial C S (TrimSpace token) jwks now = Inr x"
    with parsed [of "TrimSpace token" jwks now x] time_Unix_before [OF assms(4,5), of now] show ?thesis by simp
  qed simp
qed

text \<open>
  Registration is bounded and honest.  \<^verbatim>\<open>registerTask\<close> sends at least one and at most three requests; a
  task id it returns is not blank; and it gives up with a retryable error only after all three.
\<close>

theorem registration_is_bounded:
  assumes "registerTask S (counted client) stop clock m mat (w, 0) = (r, w', n)"
  shows "1 \<le> n \<and> n \<le> 3 \<and> (\<forall>t. r = Inr t \<longrightarrow> TrimSpace t \<noteq> []) \<and> (\<forall>e. r = Inl e \<longrightarrow> Retryable (Some e) \<longrightarrow> n = 3)"
  using registerLoop_bound [OF assms [unfolded registerTask_def]] by (auto simp: registerAttempts_def)

text \<open>The service answers from a script.\<close>

definition scripted :: "http_outcome list transport" where
  "scripted rq os = (case os of [] \<Rightarrow> (NetError False, []) | out # rest \<Rightarrow> (out, rest))"

definition transient :: "http_outcome \<Rightarrow> bool" where
  "transient out = (case out of NetError _ \<Rightarrow> True | BadRequest \<Rightarrow> False
     | Response r \<Rightarrow> rsReadable r \<and> (rsStatus r = 429 \<or> rsStatus r \<ge> 500))"

definition grants :: "string \<Rightarrow> http_outcome \<Rightarrow> bool" where
  "grants t out \<longleftrightarrow> (\<exists>r. out = Response r \<and> rsReadable r \<and> success_status (rsStatus r) \<and>
     json_parse (take 65536 (rsBody r)) = Some (JObj [(''task_id'', JStr t)]) \<and> TrimSpace t = t \<and> t \<noteq> [])"

lemma RegisterTask_transient:
  "transient out \<Longrightarrow> \<exists>e. RegisterTask S scripted base mat now (out # os) = (Inl e, os) \<and> Retryable (Some e)"
  by (auto simp: RegisterTask_def scripted_def transient_def LimitReader_def success_status_def Retryable_def
      split: http_outcome.splits)

lemma RegisterTask_grants:
  assumes "grants t out"
  shows "RegisterTask S scripted base mat now (out # os) = (Inr t, os)"
proof -
  have names: "plain_name ''task_id''" "plain_name ''encrypted_task_id''" by (simp_all add: plain_name_def is_upper_def byte_def)
  have e: "EqualFold ''task_id'' ''task_id''" "\<not> EqualFold ''task_id'' ''taskId''"
    "\<not> EqualFold ''task_id'' ''encrypted_task_id''" "\<not> EqualFold ''task_id'' ''encryptedTaskId''"
    using names
    by (simp_all add: EqualFold_plain) (simp_all add: EqualFold_def fold_case_plain lower_byte_def is_upper_def byte_def)
  have "task_response S mat (JObj [(''task_id'', JStr t)]) = Inr t"
    using assms by (auto simp: task_response_def struct_keys_def grants_def e dec_str_def)
  with assms show ?thesis
    by (auto simp: RegisterTask_def scripted_def grants_def LimitReader_def)
qed

lemma registerLoop_eventually:
  assumes "list_all transient fs" "length fs \<le> left" "\<forall>n. \<not> stop n" "grants t out"
  shows "registerLoop S scripted stop clock base mat left attempt (fs @ out # rest) = (Inr t, rest)"
  using assms
proof (induction fs arbitrary: left attempt)
  case Nil
  then show ?case by (subst registerLoop.simps) (auto simp: RegisterTask_grants grants_def)
next
  case (Cons f fs)
  obtain e where e: "RegisterTask S scripted base mat (clock attempt) (f # fs @ out # rest) = (Inl e, fs @ out # rest)"
    "Retryable (Some e)" using RegisterTask_transient [of f] Cons.prems(1) by fastforce
  from Cons.prems(2) obtain l where l: "left = Suc l" by (cases left) auto
  have "registerLoop S scripted stop clock base mat l (Suc attempt) (fs @ out # rest) = (Inr t, rest)"
    using Cons.prems l by (intro Cons.IH) auto
  with e l Cons.prems(3) show ?case by (subst registerLoop.simps) simp
qed

text \<open>
  C12: registration survives two transient failures.  If the first two answers at most are network errors,
  429 or 5xx, and the next one grants a task, \<^verbatim>\<open>registerTask\<close> returns that task.
\<close>

theorem registration_retries_transient_failures:
  assumes "list_all transient failures" "length failures \<le> 2" "\<forall>n. \<not> stop n" "grants t out"
  shows "registerTask S scripted stop clock m mat (failures @ out # rest) = (Inr t, rest)"
  unfolding registerTask_def using assms by (intro registerLoop_eventually) (simp_all add: registerAttempts_def)

lemma material_stored:
  assumes "material C S client now later token (m, w) = (Inr mat, m', w')"
  shows "map_get (materials m') (hexSum256 C (TrimSpace token)) = Some mat"
  using material_cases [OF assms] by auto

lemma material_hit:
  assumes "map_get (materials m) (hexSum256 C (TrimSpace token)) = Some mat" "Unix now < clExpiresAt (mtClaims mat)"
  shows "material C S client now later token (m, w) = (Inr mat, m, w)"
  using assms by (simp add: material_def Let_def)

lemma task_stored:
  assumes "task S client stop clock k mat (m, w) = (Inr t, m', w')"
  shows "map_get (tasks m') k = Some t \<and> materials m' = materials m"
  using task_cases [OF assms] by auto

lemma authorize_agent_cases:
  assumes "AuthorizeForAccount C S client stop clock i token session account (m, w) = (Inr au, m', w')"
    and "\<not> IsPersonalAccessToken token"
  obtains mat m1 w1 taskID header where
    "material C S client (clock 0) (clock 0) token (m, w) = (Inr mat, m1, w1)"
    "task S client stop clock (taskKey C i (mtTokenHash mat) session) mat (m1, w1) = (Inr taskID, m', w')"
    "BuildAssertion S mat taskID (clock 4) = Inr header"
    "au = \<lparr>auHeader = header, auAccountID = clAccountID (mtClaims mat), auFedRAMP = ChatGPTAccountIsFedRAMP (mtClaims mat),
       auTokenHash = mtTokenHash mat, auKind = CredentialKindAgentIdentity\<rparr>"
  using assms by (auto simp: AuthorizeForAccount_def split: prod.splits sum.splits)

text \<open>
  A session keeps its task.  After a request with an Agent Identity token was authorized, the next
  request of the same identity and session needs no network and no state change while the identity
  is current, and has the same account; after \<^verbatim>\<open>InvalidateTask\<close> for the authorization's token hash the
  task is gone from the cache.
\<close>

theorem session_reuses_task:
  assumes "\<not> IsPersonalAccessToken token"
    and "AuthorizeForAccount C S client stop clock i token session account (m, w) = (Inr au, m', w')"
    and "\<forall>mat. map_get (materials m') (hexSum256 C (TrimSpace token)) = Some mat \<longrightarrow> Unix (clock' 0) < clExpiresAt (mtClaims mat)"
  shows "(\<exists>au'. AuthorizeForAccount C S client' stop' clock' i token session account' (m', w2) = (Inr au', m', w2) \<and>
      auAccountID au' = auAccountID au \<and> auTokenHash au' = auTokenHash au) \<and>
    map_get (tasks (InvalidateTask C i (auTokenHash au) session m')) (taskKey C i (auTokenHash au) session) = None"
proof -
  from authorize_agent_cases [OF assms(2,1)] obtain mat m1 w1 taskID header where
    mat: "material C S client (clock 0) (clock 0) token (m, w) = (Inr mat, m1, w1)" and
    task: "task S client stop clock (taskKey C i (mtTokenHash mat) session) mat (m1, w1) = (Inr taskID, m', w')" and
    b: "BuildAssertion S mat taskID (clock 4) = Inr header" and
    au: "auAccountID au = clAccountID (mtClaims mat)" "auTokenHash au = mtTokenHash mat" by (metis Authorization.select_convs(2,4))
  have hit: "map_get (materials m') (hexSum256 C (TrimSpace token)) = Some mat"
    using material_stored [OF mat] task_stored [OF task] by simp
  have key: "map_get (tasks m') (taskKey C i (mtTokenHash mat) session) = Some taskID" using task_stored [OF task] by simp
  have "TrimSpace taskID \<noteq> []" "length (mtPrivateKey mat) = PrivateKeySize"
    using b by (auto simp: BuildAssertion_def split: if_splits)
  then obtain header' where b': "BuildAssertion S mat taskID (clock' 4) = Inr header'"
    by (auto simp: BuildAssertion_def)
  have "taskID \<noteq> []" using \<open>TrimSpace taskID \<noteq> []\<close> TrimSpace_Nil by metis
  then have "task S client' stop' clock' (taskKey C i (mtTokenHash mat) session) mat (m', w2) = (Inr taskID, m', w2)"
    using key by (simp add: task_def)
  with b' material_hit [OF hit, of "clock' 0" S client' "clock' 0" w2] assms(1,3) hit au show ?thesis
    by (simp add: AuthorizeForAccount_def InvalidateTask_def)
qed

section \<open>Witnesses\<close>

definition demo_manager :: Manager where
  "demo_manager = NewManagerWithPersonalAccessTokenAPI ''http://j'' ''http://a'' ''http://p''"

definition demo_whoami :: response where
  "demo_whoami = \<lparr>rsStatus = 200, rsHeader = [],
     rsBody = json_text (JObj [(''chatgpt_user_id'', JStr ''user''), (''chatgpt_account_id'', JStr ''acc'')]), rsReadable = True\<rparr>"

lemma demo_pat: "TrimSpace ''at-1'' = ''at-1''" "IsPersonalAccessToken ''at-1''"
proof -
  show t: "TrimSpace ''at-1'' = ''at-1''" by (rule TrimSpace_plain) (simp add: space_byte_def byte_def)
  show "IsPersonalAccessToken ''at-1''"
    unfolding IsPersonalAccessToken_def t by (simp add: HasPrefix_def PersonalAccessTokenPrefix_def)
qed

lemma demo_whoami_parse:
  "json_parse (rsBody demo_whoami) = Some (JObj [(''chatgpt_user_id'', JStr ''user''), (''chatgpt_account_id'', JStr ''acc'')])"
proof -
  have "plain_name ''chatgpt_user_id''" "plain_name ''chatgpt_account_id''"
    by (simp_all add: plain_name_def is_upper_def byte_def)
  then show ?thesis unfolding demo_whoami_def response.simps
    by (intro parse_text) (simp_all add: demo_valid plain_name_valid maxNestingDepth_def del: ValidString.simps)
qed

lemma length_escape: "length (escape s) \<le> 6 * length s"
proof (induction s rule: escape.induct)
  case (2 c cs)
  have one: "length (escape_byte x) \<le> 6" for x by (simp add: escape_byte_def escape_u_def hex_text_def)
  have many: "length (concat (map escape_byte r)) \<le> 6 * length r" for r
    by (induction r) (auto intro: order_trans [OF add_le_mono [OF one]])
  have rune: "length (escape_rune r) \<le> 6 * length r" if "r \<noteq> []" for r
    using many [of r] that by (cases r) (auto simp: escape_rune_def escape_u_def hex_text_def)
  show ?case
  proof (cases "rune_len (c # cs)")
    case None
    with 2 show ?thesis by (simp add: escape_u_def hex_text_def del: rune_len.simps)
  next
    case (Some n)
    have n: "0 < n" "n \<le> length (c # cs)" using rune_len_pos [OF Some] by auto
    have "length (escape (c # cs)) = length (escape_rune (take n (c # cs))) + length (escape (drop n (c # cs)))"
      using Some by (simp del: rune_len.simps)
    also have "\<dots> \<le> 6 * length (take n (c # cs)) + 6 * length (drop n (c # cs))"
      using "2.IH"(2) [OF Some] rune [of "take n (c # cs)"] n by (intro add_le_mono) auto
    also have "\<dots> = 6 * length (c # cs)" using n by simp
    finally show ?thesis .
  qed
qed simp

lemma length_text_str: "length (text_str s) \<le> 6 * length s + 2"
  using length_escape [of s] by (simp add: text_str_def)

lemma demo_whoami_first: "Option.bind (LimitReader 1048576 demo_whoami) (\<lambda>b. Option.bind (first_json b) decode_whoami) =
    Some ([], ''user'', ''acc'', [], False)"
proof -
  have "length (rsBody demo_whoami) \<le> 1048576"
    using length_text_str [of "''chatgpt_user_id''"] length_text_str [of "''chatgpt_account_id''"]
      length_text_str [of "''user''"] length_text_str [of "''acc''"] by (simp add: demo_whoami_def)
  then have "LimitReader 1048576 demo_whoami = Some (rsBody demo_whoami)"
    by (simp add: LimitReader_def) (simp add: demo_whoami_def)
  moreover have "first_json (rsBody demo_whoami) = Some (JObj [(''chatgpt_user_id'', JStr ''user''), (''chatgpt_account_id'', JStr ''acc'')])"
    using Decode_parse [OF demo_whoami_parse] by (auto simp: first_json_def)
  moreover have "plain_name n" if "n \<in> set [''chatgpt_user_id'', ''chatgpt_account_id'', ''email'', ''chatgpt_plan_type'', ''chatgpt_account_is_fedramp'']" for n
    using that by (auto simp: plain_name_def is_upper_def byte_def)
  ultimately show ?thesis
    by (simp add: decode_whoami_def struct_keys_def EqualFold_plain dec_str_def)
qed

abbreviation demo_service :: "unit transport" where
  "demo_service \<equiv> \<lambda>_ w. (Response demo_whoami, w)"

lemma demo_authorized:
  "\<exists>au mw'. AuthorizeForAccount demo_crypto demo_suite demo_service (\<lambda>_. False) (\<lambda>_. 0) ''i'' ''at-1'' ''s'' ''acc''
     (demo_manager, ()) = (Inr au, mw')"
proof -
  have st: "success_status (rsStatus demo_whoami)" by (simp add: success_status_def demo_whoami_def)
  have "\<exists>ci. whoami_result ''acc'' h (Response demo_whoami) = Inr ci" for h
    by (simp add: whoami_result_def st demo_whoami_first demo_trims)
  then show ?thesis
    by (auto simp: AuthorizeForAccount_def personalAccessTokenForAccount_def demo_pat demo_trims demo_manager_def
        NewManagerWithPersonalAccessTokenAPI_def Let_def split: sum.splits) (metis Inl_Inr_False)+
qed

theorem pat_account_is_confirmed_witness:
  "\<exists>au mw'. AuthorizeForAccount demo_crypto demo_suite demo_service (\<lambda>_. False) (\<lambda>_. 0) ''i'' ''at-1'' ''s'' ''acc''
     (demo_manager, ()) = (Inr au, mw') \<and> auAccountID au = ''acc''"
proof -
  obtain au mw' where au: "AuthorizeForAccount demo_crypto demo_suite demo_service (\<lambda>_. False) (\<lambda>_. 0) ''i'' ''at-1'' ''s'' ''acc''
     (demo_manager, ()) = (Inr au, mw')" using demo_authorized by blast
  have inj: "inj_on (Sum256 demo_crypto) (hash_inputs demo_crypto {(''at-1'', ''acc'')})"
    by (simp add: hash_inputs_def hexSum256_def demo_crypto_def hex_digit_def byte_def)
  have init: "manager_init (demo_manager, ())" by (auto simp: manager_init_def demo_manager_def)
  show ?thesis
    using pat_account_is_confirmed [OF demo_crypto_ok inj _ init steps_refl _ _ _ au] au
    by (intro exI [of _ au] exI [of _ mw']) (simp add: demo_pat demo_trims)
qed

text \<open>A service that publishes the key of \<^const>\<open>demo_jwk\<close> and grants the task \<^verbatim>\<open>rt\<close>.\<close>

definition demo_keys_json :: json where
  "demo_keys_json = JObj [(''keys'', JArr [JObj [(''kid'', JStr ''k1''), (''kty'', JStr ''RSA''), (''use'', JStr ''sig''),
     (''n'', JStr (RawURLEncode ''M'')), (''e'', JStr (RawURLEncode ''AB''))]])]"

definition demo_task_json :: json where
  "demo_task_json = JObj [(''task_id'', JStr ''rt'')]"

definition answer :: "json \<Rightarrow> response" where
  "answer v = \<lparr>rsStatus = 200, rsHeader = [], rsBody = json_text v, rsReadable = True\<rparr>"

definition demo_agent_service :: "unit transport" where
  "demo_agent_service rq w = (Response (answer (if rqMethod rq = ''GET'' then demo_keys_json else demo_task_json)), w)"

lemma demo_names:
  "list_all plain_name [''keys'', ''kid'', ''kty'', ''alg'', ''use'', ''n'', ''e'', ''task_id'', ''encrypted_task_id'']"
  by (simp add: plain_name_def is_upper_def byte_def)

lemma demo_names_valid: "n \<in> set [''keys'', ''kid'', ''kty'', ''use'', ''n'', ''e'', ''task_id''] \<Longrightarrow> ValidString n"
  using demo_names by (intro plain_name_valid) auto

lemma url_encode_valid: "ValidString (RawURLEncode x)"
  by (rule ascii_valid) (auto dest!: url_encode_segment segment_plain simp: space_byte_def not_le)

lemma demo_more_valid: "ValidString ''RSA''" "ValidString ''sig''"
  by (rule ascii_valid, simp add: byte_def)+

lemma demo_keys_parse: "json_parse (json_text demo_keys_json) = Some demo_keys_json"
  by (rule parse_text) (simp_all add: demo_keys_json_def demo_names_valid demo_valid demo_more_valid url_encode_valid maxNestingDepth_def
      del: ValidString.simps b64_encode.simps)

lemma demo_task_parse: "json_parse (json_text demo_task_json) = Some demo_task_json"
  by (rule parse_text) (simp_all add: demo_task_json_def demo_names_valid demo_valid maxNestingDepth_def
      del: ValidString.simps)

lemma demo_keys_decode: "decode_jwks demo_keys_json = Some [demo_jwk]"
proof -
  have p: "plain_name n" if "n \<in> set [''keys'', ''kid'', ''kty'', ''alg'', ''use'', ''n'', ''e'']" for n
    using that demo_names by auto
  show ?thesis
    by (simp add: decode_jwks_def demo_keys_json_def struct_keys_def EqualFold_plain p dec_list_def decode_jwk_def dec_str_def
        zeroJWK_def demo_jwk_def del: b64_encode.simps)
qed

lemma demo_keys_short: "length (json_text demo_keys_json) \<le> 1048576" "length (json_text demo_task_json) \<le> 65536"
proof -
  have t: "length (text_str s) \<le> 62" if "length s \<le> 10" for s using length_text_str [of s] that by linarith
  have "length (text_str ''keys'') \<le> 62" "length (text_str ''kid'') \<le> 62" "length (text_str ''kty'') \<le> 62" "length (text_str ''use'') \<le> 62"
    "length (text_str ''n'') \<le> 62" "length (text_str ''e'') \<le> 62" "length (text_str ''k1'') \<le> 62" "length (text_str ''RSA'') \<le> 62"
    "length (text_str ''sig'') \<le> 62" "length (text_str (RawURLEncode ''M'')) \<le> 62" "length (text_str (RawURLEncode ''AB'')) \<le> 62"
    "length (text_str ''task_id'') \<le> 62" "length (text_str ''rt'') \<le> 62"
    by (rule t, simp)+
  then show "length (json_text demo_keys_json) \<le> 1048576" "length (json_text demo_task_json) \<le> 65536"
    by (simp_all add: demo_keys_json_def demo_task_json_def del: b64_encode.simps)
qed

abbreviation demo_token :: string where
  "demo_token \<equiv> issued ''k1'' demo_claims demo_signature"

definition demo_verified :: Material where
  "demo_verified = \<lparr>mtClaims = demo_claims, mtPrivateKey = take 64 (''key'' @ replicate 64 (CHR ''0'')),
     mtTokenHash = hexSum256 demo_crypto (TrimSpace demo_token)\<rparr>"

lemma demo_parse_material: "ParseMaterial demo_crypto demo_suite (TrimSpace demo_token) [demo_jwk] 0 = Inr demo_verified"
proof -
  have v: "VerifyJWT demo_crypto demo_suite (TrimSpace demo_token) [demo_jwk] 0 = Inr demo_claims"
    using demo_issued by (simp add: VerifyJWT_def)
  have "ParsePrivateKey demo_suite (AgentPrivateKey demo_claims) = Inr (take 64 (''key'' @ replicate 64 (CHR ''0'')))"
    by (simp add: ParsePrivateKey_def demo_claims_def std64.padded.dec_enc demo_suite_def PrivateKeySize_def del: b64_encode.simps)
  with v show ?thesis by (simp add: ParseMaterial_def demo_verified_def)
qed

lemma demo_fetch: "\<exists>ttl. fetchJWKS demo_agent_service url () = (Some ([demo_jwk], ttl), ())"
  using demo_keys_short(1)
  by (simp add: fetchJWKS_def demo_agent_service_def jwks_request_def answer_def LimitReader_def success_status_def
      demo_keys_parse demo_keys_decode)

lemma demo_manager_fields: "materials demo_manager = []" "tasks demo_manager = []" "jcCached (jwksCache demo_manager) = None"
    "jcURL (jwksCache demo_manager) \<noteq> []"
proof -
  have "TrimSpace ''http://j'' = ''http://j''" by (rule TrimSpace_plain) (simp add: space_byte_def byte_def)
  then show "materials demo_manager = []" "tasks demo_manager = []" "jcCached (jwksCache demo_manager) = None"
    "jcURL (jwksCache demo_manager) \<noteq> []"
    by (simp_all add: demo_manager_def NewManagerWithPersonalAccessTokenAPI_def NewJWKSCache_def orDefault_def)
qed

lemma demo_material_found:
  "\<exists>m'. material demo_crypto demo_suite demo_agent_service 0 0 demo_token (demo_manager, ()) = (Inr demo_verified, m', ()) \<and> tasks m' = []"
proof -
  obtain ttl where f: "fetchJWKS demo_agent_service (jcURL (jwksCache demo_manager)) () = (Some ([demo_jwk], ttl), ())"
    using demo_fetch by blast
  have "\<exists>c. ParseWithCache demo_crypto demo_suite demo_agent_service (TrimSpace demo_token) 0 0 (jwksCache demo_manager, ()) =
      (Inr demo_verified, c, ())"
    by (simp add: ParseWithCache_def GetJWKS_def demo_manager_fields f demo_parse_material)
  then show ?thesis by (auto simp: material_def parseAndCache_def Let_def demo_manager_fields)
qed

lemma demo_init: "manager_init (demo_manager, w)"
  by (auto simp: manager_init_def demo_manager_def)

lemma demo_exp: "clExpiresAt (mtClaims demo_verified) = 1000"
  by (simp add: demo_verified_def demo_claims_def)

theorem material_is_current_witness:
  "\<exists>mw'. material demo_crypto demo_suite demo_agent_service 0 0 demo_token (demo_manager, ()) = (Inr demo_verified, mw') \<and>
     mtTokenHash demo_verified = hexSum256 demo_crypto (TrimSpace demo_token)"
proof -
  obtain m' where m': "material demo_crypto demo_suite demo_agent_service 0 0 demo_token (demo_manager, ()) = (Inr demo_verified, m', ())"
    using demo_material_found by blast
  show ?thesis
    using material_is_current [OF demo_init steps_refl m'] m' demo_exp by auto
qed

lemma demo_grants: "grants ''rt'' (Response (answer demo_task_json))"
  using demo_keys_short(2) demo_task_parse by (simp add: grants_def answer_def success_status_def demo_trims demo_task_json_def)

theorem registration_retries_transient_failures_witness:
  "registerTask demo_suite scripted (\<lambda>_. False) (\<lambda>_. 0) demo_manager demo_material
     [NetError True, NetError False, Response (answer demo_task_json)] = (Inr ''rt'', [])"
  using registration_retries_transient_failures [of "[NetError True, NetError False]" "\<lambda>_. False", OF _ _ _ demo_grants,
      of demo_suite "\<lambda>_. 0" demo_manager demo_material "[]"]
  by (simp add: transient_def)

theorem registration_is_bounded_witness:
  "\<exists>r w' n. registerTask demo_suite (counted (\<lambda>_ w. (NetError False, w))) (\<lambda>_. False) (\<lambda>_. 0) demo_manager demo_material ((), 0) = (r, w', n) \<and> n \<le> 3"
proof -
  obtain r w' n where "registerTask demo_suite (counted (\<lambda>_ w. (NetError False, w))) (\<lambda>_. False) (\<lambda>_. 0) demo_manager demo_material ((), 0) = (r, w', n)"
    by (metis prod_cases3)
  with registration_is_bounded [OF this] show ?thesis by blast
qed

lemma demo_register: "RegisterTask demo_suite demo_agent_service base mat now () = (Inr ''rt'', ())"
proof -
  have "RegisterTask demo_suite scripted base mat now [Response (answer demo_task_json)] = (Inr ''rt'', [])"
    by (rule RegisterTask_grants [OF demo_grants])
  then show ?thesis
    by (simp add: RegisterTask_def scripted_def demo_agent_service_def task_request_def Let_def
        split: prod.splits option.splits if_splits) auto
qed

lemma demo_not_pat: "\<not> IsPersonalAccessToken demo_token"
proof
  assume "IsPersonalAccessToken demo_token"
  then obtain r where "TrimSpace demo_token = ''at-'' @ r"
    by (auto simp: IsPersonalAccessToken_def HasPrefix_def PersonalAccessTokenPrefix_def prefix_def)
  moreover have "SplitAt (CHR ''.'') (TrimSpace demo_token) = [RawURLEncode (json_text (header_json ''k1'')),
      RawURLEncode (json_text (JObj (claims_keys demo_claims))), RawURLEncode demo_signature]"
    unfolding issued_def by (rule token_of_split)
  moreover have "\<exists>b c. SplitAt (CHR ''.'') (''at-'' @ r) = (CHR ''a'' # b) # c"
    by (auto split: list.splits)
  ultimately have "hd (RawURLEncode (json_text (header_json ''k1''))) = CHR ''a''" by auto
  moreover obtain z where "json_text (header_json ''k1'') = CHR ''{'' # z" by (simp add: header_json_def)
  moreover have "hd (RawURLEncode (CHR ''{'' # z)) = CHR ''e''"
    by (cases z; cases "tl z") (auto simp: byte_def url_alphabet_def)
  ultimately show False by simp
qed

theorem session_reuses_task_witness:
  "\<exists>au m'. AuthorizeForAccount demo_crypto demo_suite demo_agent_service (\<lambda>_. False) (\<lambda>_. 0) ''i'' demo_token ''s'' []
      (demo_manager, ()) = (Inr au, m', ()) \<and>
    (\<exists>au'. AuthorizeForAccount demo_crypto demo_suite (\<lambda>_ w. (NetError False, w)) (\<lambda>_. False) (\<lambda>_. 0) ''i'' demo_token ''s'' []
      (m', ()) = (Inr au', m', ()) \<and> auAccountID au' = auAccountID au)"
proof -
  obtain m1 where m1: "material demo_crypto demo_suite demo_agent_service 0 0 demo_token (demo_manager, ()) = (Inr demo_verified, m1, ())"
    and t1: "tasks m1 = []" using demo_material_found by blast
  have reg: "registerTask demo_suite demo_agent_service (\<lambda>_. False) (\<lambda>_. 0) m1 demo_verified () = (Inr ''rt'', ())"
    unfolding registerTask_def by (subst registerLoop.simps) (simp add: demo_register demo_trims)
  define k where "k = taskKey demo_crypto ''i'' (mtTokenHash demo_verified) ''s''"
  define m2 where "m2 = m1\<lparr>tasks := [(k, ''rt'')]\<rparr>"
  have t: "task demo_suite demo_agent_service (\<lambda>_. False) (\<lambda>_. 0) k demo_verified (m1, ()) = (Inr ''rt'', m2, ())"
    by (simp add: task_def t1 reg m2_def)
  have "length (mtPrivateKey demo_verified) = PrivateKeySize" by (simp add: demo_verified_def PrivateKeySize_def)
  then have "\<exists>au. AuthorizeForAccount demo_crypto demo_suite demo_agent_service (\<lambda>_. False) (\<lambda>_. 0) ''i'' demo_token ''s'' []
      (demo_manager, ()) = (Inr au, m2, ())"
    by (simp add: AuthorizeForAccount_def demo_not_pat m1 t [unfolded k_def] BuildAssertion_def demo_trims)
  then obtain au where au: "AuthorizeForAccount demo_crypto demo_suite demo_agent_service (\<lambda>_. False) (\<lambda>_. 0) ''i'' demo_token ''s'' []
      (demo_manager, ()) = (Inr au, m2, ())" by blast
  have "map_get (materials m2) (hexSum256 demo_crypto (TrimSpace demo_token)) = Some demo_verified"
    using material_stored [OF m1] by (simp add: m2_def)
  then have fresh: "\<forall>mat. map_get (materials m2) (hexSum256 demo_crypto (TrimSpace demo_token)) = Some mat \<longrightarrow>
      Unix ((\<lambda>_. 0) (0 :: nat)) < clExpiresAt (mtClaims mat)"
    by (simp add: demo_exp Unix_def unixToInternal_def)
  show ?thesis
    using session_reuses_task [OF demo_not_pat au fresh, of "\<lambda>_ w. (NetError False, w)" "\<lambda>_. False" "[]" "()"] au by blast
qed

end
