(* ===== verification/Release_Version.thy ===== *)
theory Release_Version
  imports Prelude "HOL-Library.Char_ord" "HOL-Library.List_Lexorder" "HOL-Library.Product_Lexorder"
begin

text \<open>
  Release versions (\<^verbatim>\<open>internal/releaseversion/version.go\<close>): the SemVer parser and the precedence
  comparison, with numeric components kept as digit strings as in the source.

  The specification of \<^verbatim>\<open>Compare\<close> is the lexicographic order of a key: the three components as
  natural numbers, then whether the version is a release, then the prerelease identifiers, where
  numeric identifiers come before alphanumeric ones.  The locale \<^verbatim>\<open>three_way\<close> is the contract of
  a comparison that follows such a key; both comparisons of the file are interpretations of it.
\<close>

section \<open>The code\<close>

record Version =
  major :: string
  minor :: string
  patch :: string
  prerelease :: "string list"

datatype version_error = NotSemVer | LeadingZero string

text \<open>
  The regular expression \<^verbatim>\<open>pattern\<close>.  It is anchored at both ends and every numeric group is
  followed by a byte that is not a digit, so a match is found by scanning digits.
\<close>

definition numeric_group :: "string \<Rightarrow> bool" where
  "numeric_group s \<longleftrightarrow> s = ''0'' \<or> s \<noteq> [] \<and> hd s \<noteq> CHR ''0'' \<and> list_all is_digit s"

definition scan_numeric :: "string \<Rightarrow> (string \<times> string) option" where
  "scan_numeric s = (let a = takeWhile is_digit s in
     if numeric_group a then Some (a, dropWhile is_digit s) else None)"

definition expect :: "char \<Rightarrow> string \<Rightarrow> string option" where
  "expect c s = (case s of [] \<Rightarrow> None | x # xs \<Rightarrow> if x = c then Some xs else None)"

definition identifier_byte :: "char \<Rightarrow> bool" where
  "identifier_byte c \<longleftrightarrow> is_digit c \<or> is_upper c \<or> is_lower c \<or> c = CHR ''-''"

definition prerelease_group :: "string \<Rightarrow> string option" where
  "prerelease_group s =
     (if s = [] then Some []
      else case expect (CHR ''-'') s of
        None \<Rightarrow> None
      | Some p \<Rightarrow> if list_all (\<lambda>i. i \<noteq> [] \<and> list_all identifier_byte i) (SplitAt (CHR ''.'') p)
                   then Some p else None)"

definition pattern :: "string \<Rightarrow> (string \<times> string \<times> string \<times> string) option" where
  "pattern value =
     Option.bind (scan_numeric value) (\<lambda>(a, r1).
     Option.bind (expect (CHR ''.'') r1) (\<lambda>r2.
     Option.bind (scan_numeric r2) (\<lambda>(b, r3).
     Option.bind (expect (CHR ''.'') r3) (\<lambda>r4.
     Option.bind (scan_numeric r4) (\<lambda>(c, r5).
     Option.bind (prerelease_group r5) (\<lambda>p. Some (a, b, c, p)))))))"

definition isNumeric :: "string \<Rightarrow> bool" where
  "isNumeric value \<longleftrightarrow> value \<noteq> [] \<and> list_all is_digit value"

fun addIdentifiers :: "Version \<Rightarrow> string list \<Rightarrow> version_error + Version" where
  "addIdentifiers result [] = Inr result"
| "addIdentifiers result (i # rest) =
     (if isNumeric i \<and> length i > 1 \<and> hd i = CHR ''0'' then Inl (LeadingZero i)
      else addIdentifiers (result\<lparr>prerelease := prerelease result @ [i]\<rparr>) rest)"

definition Parse :: "string \<Rightarrow> version_error + Version" where
  "Parse value =
     (case pattern value of
        None \<Rightarrow> Inl NotSemVer
      | Some (a, b, c, p) \<Rightarrow>
          let result = \<lparr>major = a, minor = b, patch = c, prerelease = []\<rparr> in
          if p = [] then Inr result else addIdentifiers result (SplitAt (CHR ''.'') p))"

definition compareNumeric :: "string \<Rightarrow> string \<Rightarrow> int" where
  "compareNumeric left right =
     (if length left < length right then - 1
      else if length left > length right then 1
      else if left < right then - 1
      else if left > right then 1
      else 0)"

fun comparePrerelease :: "string list \<Rightarrow> string list \<Rightarrow> int" where
  "comparePrerelease (l # ls) (r # rs) =
     (if isNumeric l \<and> isNumeric r then
        (if compareNumeric l r \<noteq> 0 then compareNumeric l r else comparePrerelease ls rs)
      else if isNumeric l \<noteq> isNumeric r then (if isNumeric l then - 1 else 1)
      else if l < r then - 1
      else if l > r then 1
      else comparePrerelease ls rs)"
| "comparePrerelease ls rs =
     (if length ls < length rs then - 1 else if length ls > length rs then 1 else 0)"

fun firstNonZero :: "(string \<times> string) list \<Rightarrow> int" where
  "firstNonZero [] = 0"
| "firstNonZero ((l, r) # ps) =
     (if compareNumeric l r \<noteq> 0 then compareNumeric l r else firstNonZero ps)"

definition Compare :: "Version \<Rightarrow> Version \<Rightarrow> int" where
  "Compare left right =
     (let result = firstNonZero
            [(major left, major right), (minor left, minor right), (patch left, patch right)] in
      if result \<noteq> 0 then result
      else if prerelease left = [] \<and> prerelease right = [] then 0
      else if prerelease left = [] then 1
      else if prerelease right = [] then - 1
      else comparePrerelease (prerelease left) (prerelease right))"

section \<open>Well-formed versions and their text\<close>

definition identifier_ok :: "string \<Rightarrow> bool" where
  "identifier_ok i \<longleftrightarrow> i \<noteq> [] \<and> list_all identifier_byte i \<and>
     (isNumeric i \<longrightarrow> numeric_group i)"

definition version_ok :: "Version \<Rightarrow> bool" where
  "version_ok v \<longleftrightarrow> numeric_group (major v) \<and> numeric_group (minor v) \<and> numeric_group (patch v) \<and>
     list_all identifier_ok (prerelease v)"

fun dotted :: "string list \<Rightarrow> string" where
  "dotted [] = []"
| "dotted [s] = s"
| "dotted (s # ss) = s @ CHR ''.'' # dotted ss"

definition format :: "Version \<Rightarrow> string" where
  "format v = major v @ ''.'' @ minor v @ ''.'' @ patch v @
     (if prerelease v = [] then [] else CHR ''-'' # dotted (prerelease v))"

lemma SplitAt_dotted:
  assumes "ss \<noteq> []" and "list_all (\<lambda>s. CHR ''.'' \<notin> set s) ss"
  shows "SplitAt (CHR ''.'') (dotted ss) = ss"
  using assms
proof (induction ss rule: dotted.induct)
  case (3 s t ss)
  have "SplitAt (CHR ''.'') (s @ CHR ''.'' # r) = s # SplitAt (CHR ''.'') r" if "CHR ''.'' \<notin> set s" for r
    using that by (induction s) auto
  with 3 show ?case by simp
qed (auto simp: SplitAt_no_sep)

lemma dotted_SplitAt: "dotted (SplitAt (CHR ''.'') s) = s"
proof (induction s)
  case (Cons c s)
  obtain x xs where "SplitAt (CHR ''.'') s = x # xs" using SplitAt_nonempty by (cases "SplitAt (CHR ''.'') s") auto
  with Cons show ?case by (cases xs) auto
qed simp

lemma scan_numeric_iff:
  "scan_numeric s = Some (a, r) \<longleftrightarrow> s = a @ r \<and> numeric_group a \<and> (r = [] \<or> \<not> is_digit (hd r))"
proof
  assume "scan_numeric s = Some (a, r)"
  then show "s = a @ r \<and> numeric_group a \<and> (r = [] \<or> \<not> is_digit (hd r))"
    by (auto simp: scan_numeric_def Let_def split: if_splits) (metis dropWhile_eq_Nil_conv hd_dropWhile set_takeWhileD)
next
  assume *: "s = a @ r \<and> numeric_group a \<and> (r = [] \<or> \<not> is_digit (hd r))"
  then have "list_all is_digit a" by (auto simp: numeric_group_def is_digit_def byte_def)
  with * have "takeWhile is_digit s = a" "dropWhile is_digit s = r"
    by (cases r; auto simp: takeWhile_append list_all_iff)+
  with * show "scan_numeric s = Some (a, r)" by (simp add: scan_numeric_def)
qed

lemma expect_iff: "expect c s = Some r \<longleftrightarrow> s = c # r"
  by (auto simp: expect_def split: list.splits)

lemma prerelease_group_iff:
  "prerelease_group s = Some p \<longleftrightarrow>
     s = [] \<and> p = [] \<or>
     s = CHR ''-'' # p \<and> list_all (\<lambda>i. i \<noteq> [] \<and> list_all identifier_byte i) (SplitAt (CHR ''.'') p)"
  by (auto simp: prerelease_group_def expect_def split: option.splits if_splits list.splits)

lemma not_digits: "\<not> is_digit (CHR ''.'')" "\<not> is_digit (CHR ''-'')"
  by (simp_all add: is_digit_def byte_def)

lemma scan_numeric_append:
  "numeric_group a \<Longrightarrow> r = [] \<or> \<not> is_digit (hd r) \<Longrightarrow> scan_numeric (a @ r) = Some (a, r)"
  by (simp add: scan_numeric_iff)

lemma pattern_iff:
  "pattern v = Some (a, b, c, p) \<longleftrightarrow>
     (\<exists>r. v = a @ ''.'' @ b @ ''.'' @ c @ r \<and> numeric_group a \<and> numeric_group b \<and> numeric_group c \<and>
       prerelease_group r = Some p)" (is "_ \<longleftrightarrow> ?rhs")
proof
  assume "pattern v = Some (a, b, c, p)"
  then show ?rhs
    by (auto simp: pattern_def bind_eq_Some_conv scan_numeric_iff expect_iff)
next
  assume ?rhs
  then obtain r where r: "v = a @ CHR ''.'' # b @ CHR ''.'' # c @ r" "numeric_group a" "numeric_group b"
    "numeric_group c" "prerelease_group r = Some p" by auto
  have "r = [] \<or> \<not> is_digit (hd r)" using r(5) not_digits by (auto simp: prerelease_group_iff)
  with r show "pattern v = Some (a, b, c, p)"
    by (simp add: pattern_def scan_numeric_append not_digits expect_def)
qed

lemma addIdentifiers_iff:
  "addIdentifiers v is = Inr w \<longleftrightarrow>
     w = v\<lparr>prerelease := prerelease v @ is\<rparr> \<and>
     list_all (\<lambda>i. \<not> (isNumeric i \<and> length i > 1 \<and> hd i = CHR ''0'')) is"
  by (induction v "is" rule: addIdentifiers.induct) auto

lemma numeric_identifier:
  assumes "isNumeric i"
  shows "numeric_group i \<longleftrightarrow> \<not> (length i > 1 \<and> hd i = CHR ''0'')"
  using assms by (cases i; cases "tl i"; auto simp: numeric_group_def isNumeric_def)

lemma identifier_ok_iff:
  "identifier_ok i \<longleftrightarrow> i \<noteq> [] \<and> list_all identifier_byte i \<and>
     \<not> (isNumeric i \<and> length i > 1 \<and> hd i = CHR ''0'')"
  using numeric_identifier by (auto simp: identifier_ok_def)

lemma identifier_no_dot: "list_all identifier_byte i \<Longrightarrow> CHR ''.'' \<notin> set i"
  by (auto simp: list_all_iff identifier_byte_def is_digit_def is_upper_def is_lower_def byte_def)

lemma Parse_iff: "Parse s = Inr v \<longleftrightarrow> version_ok v \<and> s = format v"
proof
  assume "Parse s = Inr v"
  then show "version_ok v \<and> s = format v"
    by (auto simp: Parse_def Let_def version_ok_def format_def pattern_iff prerelease_group_iff
        addIdentifiers_iff identifier_ok_iff dotted_SplitAt SplitAt_nonempty list_all_iff
        split: option.splits if_splits)
next
  assume *: "version_ok v \<and> s = format v"
  have split: "SplitAt (CHR ''.'') (dotted (prerelease v)) = prerelease v" if "prerelease v \<noteq> []"
    using that * by (intro SplitAt_dotted) (auto simp: version_ok_def list_all_iff identifier_ok_def identifier_no_dot)
  let ?p = "if prerelease v = [] then [] else dotted (prerelease v)"
  have p: "pattern s = Some (major v, minor v, patch v, ?p)"
    using * split
    by (auto simp: pattern_iff prerelease_group_iff format_def version_ok_def list_all_iff identifier_ok_def)
  have "dotted (prerelease v) \<noteq> []" if "prerelease v \<noteq> []"
  proof
    assume "dotted (prerelease v) = []"
    with split [OF that] have "prerelease v = [[]]" by simp
    with * show False by (simp add: version_ok_def identifier_ok_def)
  qed
  with p split * show "Parse s = Inr v"
    by (auto simp: Parse_def Let_def addIdentifiers_iff version_ok_def identifier_ok_iff list_all_iff)
qed

section \<open>Comparisons that follow a key\<close>

definition cmp3 :: "'k::linorder \<Rightarrow> 'k \<Rightarrow> int" where
  "cmp3 a b = (if a < b then - 1 else if a = b then 0 else 1)"

locale three_way =
  fixes cmp :: "'a \<Rightarrow> 'a \<Rightarrow> int" and key :: "'a \<Rightarrow> 'k::linorder" and valid :: "'a \<Rightarrow> bool"
  assumes follows_key: "valid x \<Longrightarrow> valid y \<Longrightarrow> cmp x y = cmp3 (key x) (key y)"
    and key_inject: "valid x \<Longrightarrow> valid y \<Longrightarrow> key x = key y \<Longrightarrow> x = y"
begin

lemma zero_iff: "valid x \<Longrightarrow> valid y \<Longrightarrow> cmp x y = 0 \<longleftrightarrow> x = y"
  using key_inject by (auto simp: follows_key cmp3_def)

lemma flip: "valid x \<Longrightarrow> valid y \<Longrightarrow> cmp y x = - cmp x y"
  by (auto simp: follows_key cmp3_def)

lemma le_trans: "valid x \<Longrightarrow> valid y \<Longrightarrow> valid z \<Longrightarrow> cmp x y \<le> 0 \<Longrightarrow> cmp y z \<le> 0 \<Longrightarrow> cmp x z \<le> 0"
  by (auto simp: follows_key cmp3_def split: if_splits)

lemma less_trans: "valid x \<Longrightarrow> valid y \<Longrightarrow> valid z \<Longrightarrow> cmp x y < 0 \<Longrightarrow> cmp y z \<le> 0 \<Longrightarrow> cmp x z < 0"
  by (auto simp: follows_key cmp3_def split: if_splits)

end

section \<open>Numeric components\<close>

fun decimal :: "string \<Rightarrow> nat" where
  "decimal [] = 0"
| "decimal (c # s) = (byte c - 48) * 10 ^ length s + decimal s"

lemma decimal_bound: "list_all is_digit s \<Longrightarrow> decimal s < 10 ^ length s"
proof (induction s)
  case (Cons c s)
  then have "byte c - 48 \<le> 9" "decimal s < 10 ^ length s" by (auto simp: is_digit_def)
  then have "(byte c - 48) * 10 ^ length s + decimal s < 9 * 10 ^ length s + 10 ^ length s"
    by (meson add_le_less_mono mult_le_mono1)
  then show ?case by simp
qed simp

lemma decimal_lex:
  assumes "list_all is_digit a" "list_all is_digit b" "length a = length b"
  shows "a < b \<longleftrightarrow> decimal a < decimal b"
  using assms(3,1,2)
proof (induction a b rule: list_induct2)
  case (Cons c a d b)
  then have IH: "a < b \<longleftrightarrow> decimal a < decimal b" by simp
  let ?p = "10 ^ length b :: nat" and ?c = "byte c - 48" and ?d = "byte d - 48"
  have bounds: "decimal a < ?p" "decimal b < ?p" using Cons decimal_bound [of a] decimal_bound [of b] by auto
  have "48 \<le> byte c" "48 \<le> byte d" using Cons.prems by (simp_all add: is_digit_def)
  then have "byte c < byte d \<longleftrightarrow> ?c < ?d" "byte c = byte d \<longleftrightarrow> ?c = ?d" by arith+
  then have cd: "c < d \<longleftrightarrow> ?c < ?d" "c = d \<longleftrightarrow> ?c = ?d"
    by (simp_all add: less_char_def byte_def)
  have step: "x * ?p + decimal a < y * ?p + decimal b" if "x < y" for x y :: nat
  proof -
    have "x * ?p + decimal a < x * ?p + ?p" using bounds by simp
    also have "\<dots> = Suc x * ?p" by simp
    also have "\<dots> \<le> y * ?p" using that by (intro mult_le_mono1) simp
    finally show ?thesis by simp
  qed
  have step': "y * ?p + decimal b < x * ?p + decimal a" if "y < x" for x y :: nat
  proof -
    have "y * ?p + decimal b < y * ?p + ?p" using bounds by simp
    also have "\<dots> = Suc y * ?p" by simp
    also have "\<dots> \<le> x * ?p" using that by (intro mult_le_mono1) simp
    finally show ?thesis by simp
  qed
  consider "?c < ?d" | "?d < ?c" | "?c = ?d" by linarith
  then show ?case
  proof cases
    case 1
    with cd step [OF 1] Cons(1) show ?thesis by simp
  next
    case 2
    with cd step' [OF 2] Cons(1) show ?thesis by auto
  next
    case 3
    with cd IH Cons(1) show ?thesis by simp
  qed
qed simp

lemma decimal_length:
  assumes "numeric_group a" "numeric_group b" "length a < length b"
  shows "decimal a < decimal b"
proof -
  obtain c s where b: "b = c # s" "c \<noteq> CHR ''0''" "list_all is_digit b"
    using assms by (cases b) (auto simp: numeric_group_def split: if_splits)
  have "list_all is_digit a" using assms(1) by (auto simp: numeric_group_def is_digit_def byte_def)
  then have "decimal a < 10 ^ length a" by (rule decimal_bound)
  also have "\<dots> \<le> 10 ^ length s" using assms(3) b by (intro power_increasing) auto
  also have "\<dots> \<le> decimal b"
  proof -
    have "byte c \<noteq> byte (CHR ''0'')" using b(2) by (simp add: byte_inject)
    then have "1 \<le> byte c - 48" using b(1,3) by (auto simp: is_digit_def byte_def)
    then have "1 * 10 ^ length s \<le> (byte c - 48) * 10 ^ length s" by (rule mult_le_mono1)
    then show ?thesis using b(1) by (simp add: trans_le_add1)
  qed
  finally show ?thesis .
qed

lemma numeric_digits: "numeric_group a \<Longrightarrow> list_all is_digit a"
  by (auto simp: numeric_group_def is_digit_def byte_def)

interpretation numeric: three_way compareNumeric decimal numeric_group
proof
  fix x y assume xy: "numeric_group x" "numeric_group y"
  have lex: "length x = length y \<Longrightarrow> x < y \<longleftrightarrow> decimal x < decimal y"
    "length x = length y \<Longrightarrow> y < x \<longleftrightarrow> decimal y < decimal x"
    using decimal_lex [OF numeric_digits numeric_digits] xy by auto
  show "compareNumeric x y = cmp3 (decimal x) (decimal y)"
    using decimal_length [of x y] decimal_length [of y x] xy lex
    by (cases "length x" "length y" rule: linorder_cases) (auto simp: compareNumeric_def cmp3_def)
  assume eq: "decimal x = decimal y"
  then have "length x = length y"
    using decimal_length [of x y] decimal_length [of y x] xy by (metis less_irrefl linorder_neqE_nat)
  with lex eq show "x = y" by (metis less_irrefl linorder_less_linear)
qed

section \<open>Prerelease identifiers and whole versions\<close>

datatype preid = Numeric nat | Alpha string

instantiation preid :: linorder
begin

fun less_preid :: "preid \<Rightarrow> preid \<Rightarrow> bool" where
  "less_preid (Numeric m) (Numeric n) \<longleftrightarrow> m < n"
| "less_preid (Numeric m) (Alpha t) \<longleftrightarrow> True"
| "less_preid (Alpha s) (Numeric n) \<longleftrightarrow> False"
| "less_preid (Alpha s) (Alpha t) \<longleftrightarrow> s < t"

definition less_eq_preid :: "preid \<Rightarrow> preid \<Rightarrow> bool" where
  "less_eq_preid x y \<longleftrightarrow> x < y \<or> x = y"

instance
proof
  fix x y z :: preid
  show "x < y \<longleftrightarrow> x \<le> y \<and> \<not> y \<le> x" by (cases x; cases y) (auto simp: less_eq_preid_def)
  show "x \<le> x" by (simp add: less_eq_preid_def)
  show "x \<le> y \<Longrightarrow> y \<le> z \<Longrightarrow> x \<le> z" by (cases x; cases y; cases z) (auto simp: less_eq_preid_def)
  show "x \<le> y \<Longrightarrow> y \<le> x \<Longrightarrow> x = y" by (cases x; cases y) (auto simp: less_eq_preid_def)
  show "x \<le> y \<or> y \<le> x" by (cases x; cases y) (auto simp: less_eq_preid_def)
qed

end

definition identifier_key :: "string \<Rightarrow> preid" where
  "identifier_key i = (if isNumeric i then Numeric (decimal i) else Alpha i)"

definition version_key :: "Version \<Rightarrow> nat \<times> nat \<times> nat \<times> bool \<times> preid list" where
  "version_key v = (decimal (major v), decimal (minor v), decimal (patch v), prerelease v = [],
     List.map identifier_key (prerelease v))"

lemma identifier_key_inject:
  "identifier_ok i \<Longrightarrow> identifier_ok j \<Longrightarrow> identifier_key i = identifier_key j \<Longrightarrow> i = j"
  using numeric.key_inject by (auto simp: identifier_key_def identifier_ok_def split: if_splits)

lemma list_map_inject:
  assumes "\<And>x y. P x \<Longrightarrow> P y \<Longrightarrow> f x = f y \<Longrightarrow> x = y"
    and "List.map f xs = List.map f ys" and "list_all P xs" and "list_all P ys"
  shows "xs = ys"
  using assms(2-4) by (induction xs arbitrary: ys) (auto simp: Cons_eq_map_conv intro: assms(1))

lemma comparePrerelease_key:
  "list_all identifier_ok ls \<Longrightarrow> list_all identifier_ok rs \<Longrightarrow>
     comparePrerelease ls rs = cmp3 (List.map identifier_key ls) (List.map identifier_key rs)"
proof (induction ls rs rule: comparePrerelease.induct)
  case (1 l ls r rs)
  consider "isNumeric l" "isNumeric r" | "isNumeric l \<noteq> isNumeric r" | "\<not> isNumeric l" "\<not> isNumeric r"
    by blast
  then show ?case
  proof cases
    case 1
    moreover have "compareNumeric l r = cmp3 (decimal l) (decimal r)"
      using "1.prems" 1 by (intro numeric.follows_key) (auto simp: identifier_ok_def)
    ultimately show ?thesis using "1.IH" "1.prems"
      by (auto simp: cmp3_def identifier_key_def split: if_splits)
  next
    case 2
    then show ?thesis by (auto simp: cmp3_def identifier_key_def)
  next
    case 3
    then show ?thesis using "1.IH" "1.prems"
      by (auto simp: cmp3_def identifier_key_def)
  qed
qed (auto simp: cmp3_def neq_Nil_conv)

lemma cmp3_pair: "cmp3 (a, x) (b, y) = (if cmp3 a b \<noteq> 0 then cmp3 a b else cmp3 x y)"
  by (auto simp: cmp3_def)

lemma Compare_key:
  assumes "version_ok x" "version_ok y"
  shows "Compare x y = cmp3 (version_key x) (version_key y)"
proof -
  have c: "compareNumeric (major x) (major y) = cmp3 (decimal (major x)) (decimal (major y))"
    "compareNumeric (minor x) (minor y) = cmp3 (decimal (minor x)) (decimal (minor y))"
    "compareNumeric (patch x) (patch y) = cmp3 (decimal (patch x)) (decimal (patch y))"
    using assms by (auto intro: numeric.follows_key simp: version_ok_def)
  have p: "comparePrerelease (prerelease x) (prerelease y) =
      cmp3 (List.map identifier_key (prerelease x)) (List.map identifier_key (prerelease y))"
    using assms by (auto intro: comparePrerelease_key simp: version_ok_def)
  show ?thesis
    by (simp add: Compare_def Let_def version_key_def cmp3_pair c p) (auto simp: cmp3_def)
qed

interpretation versions: three_way Compare version_key version_ok
proof
  fix x y assume xy: "version_ok x" "version_ok y"
  then show "Compare x y = cmp3 (version_key x) (version_key y)" by (rule Compare_key)
  assume k: "version_key x = version_key y"
  have "prerelease x = prerelease y"
    using k xy by (intro list_map_inject [where P = identifier_ok, OF identifier_key_inject])
      (auto simp: version_key_def version_ok_def)
  with k xy show "x = y"
    by (auto simp: version_key_def version_ok_def intro: numeric.key_inject Version.equality)
qed

section \<open>Properties\<close>

text \<open>
  \<^verbatim>\<open>Parse\<close> accepts exactly the texts of well-formed versions, and its result determines the text: the
  components are numerals without leading zeros and so are the numeric prerelease identifiers.
\<close>

theorem version_text_roundtrip:
  "Parse s = Inr v \<longleftrightarrow> version_ok v \<and> s = format v"
  by (rule Parse_iff)

text \<open>
  C13: \<^verbatim>\<open>Compare\<close> orders parsed versions by SemVer precedence (numeric components as numbers, a release
  after its prereleases, numeric identifiers before alphanumeric ones), however long the digit
  strings are; it is 0 only for equal texts, antisymmetric and transitive.
\<close>

theorem compare_is_semver_precedence:
  assumes "Parse s = Inr x" "Parse t = Inr y" "Parse u = Inr z"
  shows "Compare x y = cmp3 (version_key x) (version_key y) \<and> (Compare x y = 0 \<longleftrightarrow> s = t) \<and>
    Compare y x = - Compare x y \<and> (Compare x y < 0 \<longrightarrow> Compare y z \<le> 0 \<longrightarrow> Compare x z < 0)"
proof -
  have ok: "version_ok x" "version_ok y" "version_ok z" and st: "s = format x" "t = format y"
    using assms by (auto simp: Parse_iff)
  have "format x = format y \<longleftrightarrow> x = y" using ok Parse_iff [of "format x"] by (metis sum.inject(2))
  then show ?thesis
    using versions.follows_key versions.zero_iff versions.flip versions.less_trans ok st by metis
qed

theorem compare_is_semver_precedence_witness:
  "Parse ''1.2.0-rc.1'' = Inr \<lparr>major = ''1'', minor = ''2'', patch = ''0'', prerelease = [''rc'', ''1'']\<rparr> \<and>
   Compare \<lparr>major = ''1'', minor = ''2'', patch = ''0'', prerelease = [''rc'', ''1'']\<rparr>
     \<lparr>major = ''1'', minor = ''10'', patch = ''0'', prerelease = []\<rparr> < 0"
proof -
  let ?x = "\<lparr>major = ''1'', minor = ''2'', patch = ''0'', prerelease = [''rc'', ''1'']\<rparr>"
  let ?y = "\<lparr>major = ''1'', minor = ''10'', patch = ''0'', prerelease = []\<rparr>"
  have x: "Parse ''1.2.0-rc.1'' = Inr ?x" and y: "Parse ''1.10.0'' = Inr ?y"
    by (simp_all add: Parse_iff version_ok_def format_def numeric_group_def identifier_ok_def isNumeric_def
        identifier_byte_def is_digit_def is_lower_def is_upper_def byte_def)
  have "Compare ?x ?y = cmp3 (version_key ?x) (version_key ?y)"
    using compare_is_semver_precedence [OF x y y] by blast
  moreover have "cmp3 (version_key ?x) (version_key ?y) < 0" by (simp add: cmp3_def version_key_def byte_def)
  ultimately show ?thesis using x by simp
qed

end
