(* ===== verification/Batch_Parse.thy ===== *)
theory Batch_Parse
  imports Go_Json
begin

text \<open>
  The batch import parser (\<^verbatim>\<open>internal/server/batch_parse.go\<close>): a body is one JSON value, JSON lines, or
  plain lines of tokens, and becomes a bounded, numbered list of import candidates.

  \<^verbatim>\<open>appendCandidateValue\<close> grows the caller's slice even when it then fails, so it returns the slice
  with the error.  A Go map is iterated in the order of its list (Go leaves the order open).
\<close>

section \<open>Data\<close>

record importCandidate =
  icIndex :: nat
  icLabel :: string
  icToken :: string
  icAccountID :: string

datatype batch_error =
    BatchEmpty | BatchTooMany | BatchJson | BatchMultiple | BatchJsonl | BatchNone
  | LabelNotString | AccountNotString | TokenNotString | TokenOmitted | Unsupported
  | ItemEmpty nat | ItemNotUtf8 nat | AccountNotUtf8 nat | AccountTooLong nat

definition maxBatchImportItems :: nat where "maxBatchImportItems = 200"
definition maxBatchLabelRunes :: nat where "maxBatchLabelRunes = 128"
definition maxBatchAccountIDRunes :: nat where "maxBatchAccountIDRunes = 256"

definition normalizeBatchAccountID :: "string \<Rightarrow> string" where
  "normalizeBatchAccountID value = TrimSpace value"

definition normalizeBatchLabel :: "string \<Rightarrow> string" where
  "normalizeBatchLabel value =
     (let v = TrimSpace value in if v = [] then [] else concat (take maxBatchLabelRunes (runes v)))"

definition candidate :: "string \<Rightarrow> string \<Rightarrow> string \<Rightarrow> importCandidate" where
  "candidate token label account =
     \<lparr>icIndex = 0, icLabel = normalizeBatchLabel label, icToken = TrimSpace token,
      icAccountID = normalizeBatchAccountID account\<rparr>"

section \<open>JSON items\<close>

definition field_name :: "string \<Rightarrow> string" where
  "field_name key = ToLower (TrimSpace key)"

fun scanInherited :: "(string \<times> json) list \<Rightarrow> string \<Rightarrow> string \<Rightarrow> batch_error + string \<times> string" where
  "scanInherited [] label account = Inr (label, account)"
| "scanInherited ((key, item) # rest) label account =
     (if field_name key \<in> {''label'', ''name''} then
        (case item of JStr text \<Rightarrow> scanInherited rest text account | _ \<Rightarrow> Inl LabelNotString)
      else if field_name key \<in> {''account_id'', ''chatgpt_account_id'', ''team_id'', ''workspace_id''} then
        (case item of JStr text \<Rightarrow> scanInherited rest label text | _ \<Rightarrow> Inl AccountNotString)
      else scanInherited rest label account)"

definition container_name :: "string \<Rightarrow> bool" where
  "container_name key \<longleftrightarrow> field_name key \<in> {''items'', ''tokens'', ''credentials'', ''accounts''}"

definition token_name :: "string \<Rightarrow> bool" where
  "token_name key \<longleftrightarrow> field_name key \<in> {''codex_access_token'', ''agent_identity'', ''access_token'', ''token''}"

definition first_named :: "(string \<Rightarrow> bool) \<Rightarrow> (string \<times> json) list \<Rightarrow> json option" where
  "first_named p kvs = map_option snd (List.find (\<lambda>(k, v). p k) kvs)"

lemma first_named_mem: "first_named p kvs = Some v \<Longrightarrow> \<exists>k. (k, v) \<in> set kvs"
  by (auto simp: first_named_def find_Some_iff) (metis nth_mem)

lemma size_member: "(k, v) \<in> set kvs \<Longrightarrow> size v < size (JObj kvs)"
  by (induction kvs) auto

function (sequential)
  appendCandidateValue :: "importCandidate list \<Rightarrow> json \<Rightarrow> string \<Rightarrow> string \<Rightarrow> importCandidate list \<times> batch_error option" and
  appendItems :: "importCandidate list \<Rightarrow> json list \<Rightarrow> string \<Rightarrow> string \<Rightarrow> importCandidate list \<times> batch_error option" where
  "appendCandidateValue target value label account =
     (if length target \<ge> maxBatchImportItems then (target, Some BatchTooMany)
      else case value of
        JStr typed \<Rightarrow> (target @ [candidate typed label account], None)
      | JArr items \<Rightarrow> appendItems target items label account
      | JObj kvs \<Rightarrow>
          (case scanInherited kvs label account of
             Inl e \<Rightarrow> (target, Some e)
           | Inr (label', account') \<Rightarrow>
               (case first_named container_name kvs of
                  Some item \<Rightarrow> appendCandidateValue target item label' account'
                | None \<Rightarrow>
                    (case first_named token_name kvs of
                       Some (JStr text) \<Rightarrow> (target @ [candidate text label' account'], None)
                     | Some _ \<Rightarrow> (target, Some TokenNotString)
                     | None \<Rightarrow> (target, Some TokenOmitted))))
      | _ \<Rightarrow> (target, Some Unsupported))"
| "appendItems target [] label account = (target, None)"
| "appendItems target (item # items) label account =
     (case appendCandidateValue target item label account of
        (target', Some e) \<Rightarrow> (target', Some e)
      | (target', None) \<Rightarrow> appendItems target' items label account)"
  by pat_completeness auto

termination
  by (relation "measure (case_sum (\<lambda>(t, v, l, a). 2 * size v) (\<lambda>(t, vs, l, a). Suc (2 * size_list size vs)))")
     (auto dest!: first_named_mem size_member)

declare appendCandidateValue.simps [simp del] appendItems.simps [simp del]

definition appendJSONCandidates :: "importCandidate list \<Rightarrow> bytes \<Rightarrow> importCandidate list \<times> batch_error option" where
  "appendJSONCandidates target raw =
     (case Decode raw of
        StreamValue value rest \<Rightarrow>
          (case Decode rest of
             StreamValue _ _ \<Rightarrow> (target, Some BatchMultiple)
           | _ \<Rightarrow> appendCandidateValue target (json_any value) [] [])
      | _ \<Rightarrow> (target, Some BatchJson))"

section \<open>Bodies\<close>

fun finalizeFrom :: "nat \<Rightarrow> importCandidate list \<Rightarrow> batch_error + importCandidate list" where
  "finalizeFrom n [] = Inr []"
| "finalizeFrom n (c # cs) =
     (let token = TrimSpace (icToken c); account = normalizeBatchAccountID (icAccountID c) in
      if token = [] then Inl (ItemEmpty n)
      else if \<not> ValidString token then Inl (ItemNotUtf8 n)
      else if \<not> ValidString account then Inl (AccountNotUtf8 n)
      else if rune_count account > maxBatchAccountIDRunes then Inl (AccountTooLong n)
      else case finalizeFrom (Suc n) cs of
        Inl e \<Rightarrow> Inl e
      | Inr cs' \<Rightarrow> Inr (c\<lparr>icIndex := n, icToken := token, icAccountID := account\<rparr> # cs'))"

definition finalizeCandidates :: "importCandidate list \<Rightarrow> batch_error + importCandidate list" where
  "finalizeCandidates candidates =
     (if candidates = [] then Inl BatchNone
      else if length candidates > maxBatchImportItems then Inl BatchTooMany
      else finalizeFrom 1 candidates)"

text \<open>\<^verbatim>\<open>strings.ReplaceAll(body, CR LF, LF)\<close>.\<close>

fun unixLines :: "string \<Rightarrow> string" where
  "unixLines (c # d # s) = (if byte c = 13 \<and> byte d = 10 then d # unixLines s else c # unixLines (d # s))"
| "unixLines s = s"

definition newline :: char where "newline = char_of (10 :: nat)"

definition json_start :: "string \<Rightarrow> bool" where
  "json_start s \<longleftrightarrow> s \<noteq> [] \<and> (hd s = CHR ''['' \<or> hd s = CHR ''{'' \<or> hd s = quotation)"

fun parseLines :: "importCandidate list \<Rightarrow> string list \<Rightarrow> batch_error + importCandidate list" where
  "parseLines candidates [] = Inr candidates"
| "parseLines candidates (rawLine # rest) =
     (let line = TrimSpace rawLine in
      if line = [] \<or> HasPrefix line ''#'' then parseLines candidates rest
      else if json_start line then
        (case appendJSONCandidates candidates line of
           (_, Some _) \<Rightarrow> Inl BatchJsonl
         | (candidates', None) \<Rightarrow> parseLines candidates' rest)
      else let candidates' = candidates @ [\<lparr>icIndex = 0, icLabel = [], icToken = line, icAccountID = []\<rparr>] in
        if length candidates' > maxBatchImportItems then Inl BatchTooMany
        else parseLines candidates' rest)"

definition parseAsLines :: "importCandidate list \<Rightarrow> bytes \<Rightarrow> batch_error + importCandidate list" where
  "parseAsLines candidates body =
     (case parseLines candidates (SplitAt newline (unixLines body)) of
        Inl e \<Rightarrow> Inl e
      | Inr cs \<Rightarrow> finalizeCandidates cs)"

definition parseBatchCandidates :: "bytes \<Rightarrow> batch_error + importCandidate list" where
  "parseBatchCandidates raw =
     (let body = TrimSpace raw in
      if body = [] then Inl BatchEmpty
      else if json_start body then
        (case appendJSONCandidates [] body of
           (cs, None) \<Rightarrow> finalizeCandidates cs
         | (cs, Some e) \<Rightarrow> if hd body \<noteq> CHR ''{'' then Inl e else parseAsLines cs body)
      else parseAsLines [] body)"

section \<open>Bounds\<close>

lemma runes_concat: "\<forall>r \<in> set rs. rune_len r = Some (length r) \<Longrightarrow> runes (concat rs) = rs"
proof (induction rs)
  case (Cons r rs)
  from Cons.prems have r: "rune_len r = Some (length r)" by simp
  then obtain c cs where r': "r = c # cs" by (cases r) auto
  from rune_len_append [OF r] have "rune_len (c # cs @ concat rs) = Some (length r)" using r' by simp
  with r' Cons show ?case by (simp del: rune_len.simps)
qed simp

lemma rune_len_take: "rune_len s = Some n \<Longrightarrow> rune_len (take n s) = Some n"
  by (cases s) (auto split: if_splits list.splits)

lemma runes_are_runes: "r \<in> set (runes s) \<Longrightarrow> rune_len r = Some (length r)"
proof (induction s rule: runes.induct)
  case (2 c cs)
  have "rune_len replacement = Some (length replacement)" by (simp add: replacement_def in_range_def second_ok_def)
  moreover have "rune_len (take n (c # cs)) = Some (length (take n (c # cs)))" if "rune_len (c # cs) = Some n" for n
    using rune_len_take [OF that] rune_len_pos [OF that] by (simp add: min_def del: rune_len.simps)
  ultimately show ?case using 2 by (auto simp del: rune_len.simps split: option.splits)
qed simp

lemma label_bound: "rune_count (normalizeBatchLabel v) \<le> 128"
proof (cases "TrimSpace v = []")
  case False
  have "runes (concat (take 128 (runes (TrimSpace v)))) = take 128 (runes (TrimSpace v))"
    by (rule runes_concat) (auto dest: in_set_takeD runes_are_runes)
  with False show ?thesis by (simp add: normalizeBatchLabel_def Let_def rune_count_def maxBatchLabelRunes_def)
qed (simp add: normalizeBatchLabel_def rune_count_def)

definition labels_ok :: "importCandidate list \<Rightarrow> bool" where
  "labels_ok cs \<longleftrightarrow> (\<forall>c \<in> set cs. rune_count (icLabel c) \<le> 128)"

lemma labels_ok_candidate: "labels_ok cs \<Longrightarrow> labels_ok (cs @ [candidate t l a])"
  using label_bound by (auto simp: labels_ok_def candidate_def)

lemma append_labels:
  "labels_ok cs \<Longrightarrow> labels_ok (fst (appendCandidateValue cs v l a))"
  "labels_ok cs \<Longrightarrow> labels_ok (fst (appendItems cs vs l a))"
proof (induction cs v l a and cs vs l a rule: appendCandidateValue_appendItems.induct)
  case (1 cs v l a)
  then show ?case
    by (subst appendCandidateValue.simps)
       (auto simp: labels_ok_candidate split: json.splits sum.splits option.splits prod.splits)
next
  case (3 cs item items l a)
  then show ?case
    by (subst appendItems.simps) (auto split: prod.splits option.splits)
qed (simp add: appendItems.simps)

lemma appendJSON_labels: "labels_ok cs \<Longrightarrow> labels_ok (fst (appendJSONCandidates cs raw))"
  by (auto simp: appendJSONCandidates_def append_labels split: decoded.splits)

lemma parseLines_labels: "labels_ok cs \<Longrightarrow> parseLines cs ls = Inr ds \<Longrightarrow> labels_ok ds"
proof (induction cs ls rule: parseLines.induct)
  case (2 cs l ls)
  have "labels_ok (cs @ [\<lparr>icIndex = 0, icLabel = [], icToken = TrimSpace l, icAccountID = []\<rparr>])"
    using "2.prems"(1) by (auto simp: labels_ok_def rune_count_def)
  moreover have "labels_ok cs'" if "appendJSONCandidates cs (TrimSpace l) = (cs', None)" for cs'
    using appendJSON_labels [OF "2.prems"(1), of "TrimSpace l"] that by simp
  ultimately show ?case
    using "2.prems" "2.IH" by (auto simp: Let_def split: if_splits prod.splits option.splits)
qed simp

definition candidate_ok :: "nat \<Rightarrow> importCandidate \<Rightarrow> bool" where
  "candidate_ok n c \<longleftrightarrow> icIndex c = n \<and> icToken c \<noteq> [] \<and> TrimSpace (icToken c) = icToken c \<and> ValidString (icToken c) \<and>
     TrimSpace (icAccountID c) = icAccountID c \<and> ValidString (icAccountID c) \<and>
     rune_count (icAccountID c) \<le> 256 \<and> rune_count (icLabel c) \<le> 128"

lemma finalizeFrom_ok:
  "finalizeFrom n cs = Inr ds \<Longrightarrow> labels_ok cs \<Longrightarrow>
     length ds = length cs \<and> (\<forall>i < length ds. candidate_ok (n + i) (ds ! i))"
proof (induction n cs arbitrary: ds rule: finalizeFrom.induct)
  case (2 n c cs)
  let ?t = "TrimSpace (icToken c)" and ?a = "normalizeBatchAccountID (icAccountID c)"
  from "2.prems"(1) obtain ds' where ds: "ds = c\<lparr>icIndex := n, icToken := ?t, icAccountID := ?a\<rparr> # ds'"
    "finalizeFrom (Suc n) cs = Inr ds'" and g: "?t \<noteq> []" "ValidString ?t" "ValidString ?a" "rune_count ?a \<le> maxBatchAccountIDRunes"
    by (auto simp: Let_def split: if_splits sum.splits)
  have lab: "labels_ok cs" "rune_count (icLabel c) \<le> 128" using "2.prems"(2) by (auto simp: labels_ok_def)
  have IH: "length ds' = length cs \<and> (\<forall>i < length ds'. candidate_ok (Suc n + i) (ds' ! i))"
    using "2.IH" g ds(2) lab(1) by (simp add: not_less)
  have "candidate_ok n (c\<lparr>icIndex := n, icToken := ?t, icAccountID := ?a\<rparr>)"
    using g lab(2) by (simp add: candidate_ok_def normalizeBatchAccountID_def maxBatchAccountIDRunes_def)
  then have "candidate_ok (n + i) (ds ! i)" if "i < length ds" for i
    using that IH ds(1) by (cases i) auto
  with IH ds(1) show ?case by simp
qed simp

lemma finalize_ok:
  "finalizeCandidates cs = Inr ds \<Longrightarrow> labels_ok cs \<Longrightarrow>
     ds \<noteq> [] \<and> length ds \<le> 200 \<and> (\<forall>i < length ds. candidate_ok (Suc i) (ds ! i))"
  using finalizeFrom_ok [of 1 cs ds]
  by (auto simp: finalizeCandidates_def maxBatchImportItems_def split: if_splits)

section \<open>Properties\<close>

text \<open>
  C14: an accepted batch is bounded and clean.  It has between 1 and 200 candidates, numbered from 1 in
  order; every token is a non-empty, trimmed, valid UTF-8 string, every account selector is trimmed,
  valid and at most 256 runes long, and every label has at most 128 runes.
\<close>

theorem batch_is_bounded_and_clean:
  assumes "parseBatchCandidates body = Inr cs"
  shows "1 \<le> length cs \<and> length cs \<le> 200 \<and> (\<forall>i < length cs. candidate_ok (Suc i) (cs ! i))"
proof -
  have fin: "\<exists>ds. finalizeCandidates ds = Inr cs \<and> labels_ok ds"
    if "parseAsLines xs b = Inr cs" "labels_ok xs" for xs b
    using that parseLines_labels by (auto simp: parseAsLines_def split: sum.splits)
  have nil: "labels_ok []" by (simp add: labels_ok_def)
  obtain xs e where a: "appendJSONCandidates [] (TrimSpace body) = (xs, e)" by fastforce
  with appendJSON_labels [OF nil, of "TrimSpace body"] have xs: "labels_ok xs" by simp
  have "\<exists>ds. finalizeCandidates ds = Inr cs \<and> labels_ok ds"
    using assms a xs fin [OF _ nil] fin [OF _ xs]
    by (cases e) (auto simp: parseBatchCandidates_def Let_def split: if_splits)
  with finalize_ok show ?thesis by (metis One_nat_def Suc_leI length_greater_0_conv)
qed

section \<open>The three body formats\<close>

definition plain_token :: "string \<Rightarrow> bool" where
  "plain_token t \<longleftrightarrow> t \<noteq> [] \<and> list_all (\<lambda>c. \<not> space_byte c) t \<and> hd t \<noteq> CHR ''#'' \<and> \<not> json_start t"

definition numbered :: "nat \<Rightarrow> string list \<Rightarrow> importCandidate list" where
  "numbered n ts = map (\<lambda>(i, t). \<lparr>icIndex = i, icLabel = [], icToken = t, icAccountID = []\<rparr>) (enumerate n ts)"

lemma plain_token_facts:
  assumes "plain_token t"
  shows "TrimSpace t = t" "ValidString t" "newline \<notin> set t" "\<forall>c \<in> set t. byte c \<noteq> 13" "\<not> HasPrefix t ''#''"
proof -
  have ns: "\<forall>c \<in> set t. \<not> space_byte c" using assms by (simp add: plain_token_def list_all_iff)
  then show "TrimSpace t = t" by (rule TrimSpace_plain)
  show "ValidString t" using ns by (intro ascii_valid) (auto simp: space_byte_def not_le)
  have "space_byte newline" by (simp add: newline_def space_byte_def byte_def)
  then show "newline \<notin> set t" using ns by blast
  show "\<forall>c \<in> set t. byte c \<noteq> 13" using ns by (auto simp: space_byte_def)
  show "\<not> HasPrefix t ''#''" using assms by (cases t) (auto simp: HasPrefix_def plain_token_def)
qed

lemma rune_count_Nil: "rune_count [] = 0" by (simp add: rune_count_def)

lemma finalizeFrom_plain:
  "list_all plain_token ts \<Longrightarrow>
     finalizeFrom n (map (\<lambda>t. \<lparr>icIndex = 0, icLabel = [], icToken = t, icAccountID = []\<rparr>) ts) = Inr (numbered n ts)"
proof (induction ts arbitrary: n)
  case (Cons t ts)
  then have "plain_token t" by simp
  then have "t \<noteq> []" by (simp add: plain_token_def)
  with Cons plain_token_facts(1,2) [OF \<open>plain_token t\<close>] show ?case
    by (simp add: numbered_def normalizeBatchAccountID_def rune_count_Nil)
qed (simp add: numbered_def)

lemma candidate_plain:
  "plain_token t \<Longrightarrow> candidate t [] [] = \<lparr>icIndex = 0, icLabel = [], icToken = t, icAccountID = []\<rparr>"
  by (simp add: candidate_def plain_token_facts normalizeBatchLabel_def normalizeBatchAccountID_def)

lemma appendItems_plain:
  "list_all plain_token ts \<Longrightarrow> length cs + length ts \<le> 200 \<Longrightarrow>
     appendItems cs (map JStr ts) [] [] =
       (cs @ map (\<lambda>t. \<lparr>icIndex = 0, icLabel = [], icToken = t, icAccountID = []\<rparr>) ts, None)"
  by (induction ts arbitrary: cs)
     (auto simp: appendItems.simps appendCandidateValue.simps maxBatchImportItems_def candidate_plain)

lemma parseLines_plain:
  "list_all plain_token ts \<Longrightarrow> length cs + length ts \<le> 200 \<Longrightarrow>
     parseLines cs ts = Inr (cs @ map (\<lambda>t. \<lparr>icIndex = 0, icLabel = [], icToken = t, icAccountID = []\<rparr>) ts)"
proof (induction ts arbitrary: cs)
  case (Cons t ts)
  then have "plain_token t" by simp
  moreover then have "t \<noteq> []" "\<not> json_start t" by (simp_all add: plain_token_def)
  ultimately show ?case using Cons plain_token_facts(1,5) [OF \<open>plain_token t\<close>]
    by (simp add: Let_def maxBatchImportItems_def)
qed simp

lemma unixLines_id: "\<forall>c \<in> set s. byte c \<noteq> 13 \<Longrightarrow> unixLines s = s"
  by (induction s rule: unixLines.induct) auto

lemma SplitAt_sep_by:
  "ts \<noteq> [] \<Longrightarrow> \<forall>t \<in> set ts. sep \<notin> set t \<Longrightarrow> SplitAt sep (sep_by [sep] ts) = ts"
proof (induction ts)
  case (Cons x xs)
  have split: "SplitAt sep (x @ sep # r) = x # SplitAt sep r" for r
    using Cons.prems by (induction x) auto
  show ?case
  proof (cases xs)
    case Nil
    with Cons.prems show ?thesis by simp
  next
    case (Cons y ys)
    with split Cons.IH Cons.prems show ?thesis by simp
  qed
qed simp

lemma set_sep_by: "set (sep_by d ts) \<subseteq> set d \<union> \<Union> (set ` set ts)"
  by (induction d ts rule: sep_by.induct) auto

lemma sep_by_ends:
  "ts \<noteq> [] \<Longrightarrow> \<forall>t \<in> set ts. t \<noteq> [] \<Longrightarrow> sep_by d ts \<noteq> [] \<and> hd (sep_by d ts) = hd (hd ts) \<and> last (sep_by d ts) = last (last ts)"
  by (induction d ts rule: sep_by.induct) auto

lemma lines_body:
  assumes "ts \<noteq> []" "list_all plain_token ts" "length ts \<le> 200"
  shows "parseBatchCandidates (sep_by [newline] ts) = Inr (numbered 1 ts)"
proof -
  let ?b = "sep_by [newline] ts"
  have pl: "plain_token t" if "t \<in> set ts" for t using assms(2) that by (simp add: list_all_iff)
  have ne: "\<forall>t \<in> set ts. t \<noteq> []" using pl by (auto simp: plain_token_def)
  have ends: "?b \<noteq> []" "hd ?b = hd (hd ts)" "last ?b = last (last ts)" using sep_by_ends [OF assms(1) ne] by auto
  have first: "plain_token (hd ts)" "plain_token (last ts)" using pl assms(1) by auto
  then have "\<not> space_byte (hd ?b)" "\<not> space_byte (last ?b)"
    unfolding ends by (auto simp: plain_token_def list_all_iff)
  then have trim: "TrimSpace ?b = ?b" by (intro TrimSpace_id) auto
  have nj: "\<not> json_start ?b" using first(1) ends by (auto simp: json_start_def plain_token_def)
  have "\<forall>c \<in> set ?b. byte c \<noteq> 13"
    using set_sep_by [of "[newline]" ts] pl plain_token_facts(4) by (fastforce simp: newline_def byte_def)
  then have "SplitAt newline (unixLines ?b) = ts"
    using SplitAt_sep_by [OF assms(1)] pl plain_token_facts(3) by (simp add: unixLines_id)
  with trim nj ends(1) parseLines_plain [OF assms(2), of "[]"] finalizeFrom_plain [OF assms(2)] assms(1,3) show ?thesis
    by (simp add: parseBatchCandidates_def parseAsLines_def finalizeCandidates_def maxBatchImportItems_def)
qed

lemma json_body:
  assumes "appendCandidateValue [] (json_any v) [] [] = (map (\<lambda>t. \<lparr>icIndex = 0, icLabel = [], icToken = t, icAccountID = []\<rparr>) ts, None)"
    and "Decode (json_text v @ tail) = StreamValue v rest" "\<forall>w r. Decode rest \<noteq> StreamValue w r"
    and "TrimSpace (json_text v @ tail) = json_text v @ tail" "json_start (json_text v @ tail)"
    and "ts \<noteq> []" "list_all plain_token ts" "length ts \<le> 200"
  shows "parseBatchCandidates (json_text v @ tail) = Inr (numbered 1 ts)"
proof -
  have "appendJSONCandidates [] (json_text v @ tail) = (map (\<lambda>t. \<lparr>icIndex = 0, icLabel = [], icToken = t, icAccountID = []\<rparr>) ts, None)"
    using assms(1,2,3) by (auto simp: appendJSONCandidates_def split: decoded.splits)
  moreover have "json_text v @ tail \<noteq> []" using assms(5) by (simp add: json_start_def)
  ultimately show ?thesis
    using assms(4-) finalizeFrom_plain [OF assms(7), of 1]
    by (simp add: parseBatchCandidates_def Let_def finalizeCandidates_def maxBatchImportItems_def)
qed

lemma Decode_text:
  assumes "clean v" "json_depth v \<le> maxNestingDepth"
  shows "\<exists>rest. Decode (json_text v) = StreamValue v rest \<and> Decode rest = StreamEOF"
  using Decode_parse [OF parse_text [OF assms]] by (auto simp: Decode_def)

lemma tokens_clean: "list_all plain_token ts \<Longrightarrow> clean (JArr (map JStr ts))"
  by (induction ts) (auto simp: plain_token_facts)

lemma tokens_depth: "json_depth (JArr (map JStr ts)) \<le> 1"
  by (induction ts) auto

lemma tokens_append:
  assumes "list_all plain_token ts" "length ts \<le> 200"
  shows "appendCandidateValue [] (JArr (map JStr ts)) [] [] = (map (\<lambda>t. \<lparr>icIndex = 0, icLabel = [], icToken = t, icAccountID = []\<rparr>) ts, None)"
  using appendItems_plain [of ts "[]"] assms by (simp add: appendCandidateValue.simps maxBatchImportItems_def)

lemma json_any_tokens: "json_any (JArr (map JStr ts)) = JArr (map JStr ts)"
  by (simp add: comp_def)

lemma bracket_trim: "\<not> space_byte (CHR ''['')" "\<not> space_byte (CHR '']'')" "\<not> space_byte (CHR ''{'')" "\<not> space_byte (CHR ''}'')"
  by (simp_all add: space_byte_def byte_def)

lemma array_body:
  assumes "ts \<noteq> []" "list_all plain_token ts" "length ts \<le> 200"
  shows "parseBatchCandidates (json_text (JArr (map JStr ts))) = Inr (numbered 1 ts)"
proof -
  let ?v = "JArr (map JStr ts)"
  obtain rest where d: "Decode (json_text ?v) = StreamValue ?v rest" "Decode rest = StreamEOF"
    using Decode_text [OF tokens_clean [OF assms(2)]] tokens_depth [of ts] by (auto simp: maxNestingDepth_def)
  have ends: "json_text ?v = CHR ''['' # sep_by '','' (map json_text (map JStr ts)) @ '']''" by simp
  have "TrimSpace (json_text ?v @ []) = json_text ?v @ []" by (rule TrimSpace_id) (simp_all add: bracket_trim)
  moreover have "json_start (json_text ?v @ [])" by (simp add: json_start_def)
  ultimately show ?thesis
    using json_body [of ?v ts "[]" rest, unfolded json_any_tokens] d tokens_append [OF assms(2,3)] assms
    by (simp del: json_text.simps)
qed

lemma field_name_tokens: "field_name ''tokens'' = ''tokens''"
proof -
  have "TrimSpace ''tokens'' = ''tokens''" by (rule TrimSpace_plain) (simp add: space_byte_def byte_def)
  then show ?thesis by (simp add: field_name_def byte_def lower_byte_def is_upper_def)
qed

lemma object_body:
  assumes "ts \<noteq> []" "list_all plain_token ts" "length ts \<le> 200"
  shows "parseBatchCandidates (json_text (JObj [(''tokens'', JArr (map JStr ts))])) = Inr (numbered 1 ts)"
proof -
  let ?v = "JObj [(''tokens'', JArr (map JStr ts))]"
  have "ValidString ''tokens''" by (rule ascii_valid) (simp add: byte_def)
  then have cl: "clean ?v" using tokens_clean [OF assms(2)] by simp
  have "json_depth ?v \<le> maxNestingDepth" using tokens_depth [of ts] by (simp add: maxNestingDepth_def)
  then obtain rest where d: "Decode (json_text ?v) = StreamValue ?v rest" "Decode rest = StreamEOF"
    using Decode_text [OF cl] by blast
  have any: "json_any ?v = ?v" by (simp add: comp_def)
  have app: "appendCandidateValue [] ?v [] [] = (map (\<lambda>t. \<lparr>icIndex = 0, icLabel = [], icToken = t, icAccountID = []\<rparr>) ts, None)"
    by (subst appendCandidateValue.simps)
       (simp add: maxBatchImportItems_def field_name_tokens first_named_def container_name_def tokens_append [OF assms(2,3)])
  have "TrimSpace (json_text ?v @ []) = json_text ?v @ []" by (rule TrimSpace_id) (simp_all add: bracket_trim)
  moreover have "json_start (json_text ?v @ [])" by (simp add: json_start_def)
  ultimately show ?thesis
    using json_body [of ?v ts "[]" rest] d app any assms by (simp del: json_text.simps json_any.simps)
qed

text \<open>
  The format does not matter.  For up to 200 plain tokens, one per line, as a JSON array and as an
  object with a \<^verbatim>\<open>tokens\<close> array, the parser returns the same candidates, in order and without label or
  account.
\<close>

theorem batch_formats_agree:
  assumes "ts \<noteq> []" "list_all plain_token ts" "length ts \<le> 200"
  shows "parseBatchCandidates (sep_by [newline] ts) = Inr (numbered 1 ts) \<and>
    parseBatchCandidates (json_text (JArr (map JStr ts))) = Inr (numbered 1 ts) \<and>
    parseBatchCandidates (json_text (JObj [(''tokens'', JArr (map JStr ts))])) = Inr (numbered 1 ts)"
  using lines_body [OF assms] array_body [OF assms] object_body [OF assms] by blast

text \<open>
  Text after the first JSON value is ignored when it is not itself JSON.  A JSON array of tokens followed
  by a stray bracket is accepted with the array's candidates: the second \<^verbatim>\<open>Decode\<close> fails, and only its
  success is refused.
\<close>

theorem trailing_text_is_ignored:
  assumes "ts \<noteq> []" "list_all plain_token ts" "length ts \<le> 200"
  shows "parseBatchCandidates (json_text (JArr (map JStr ts)) @ '']'') = Inr (numbered 1 ts)"
proof -
  let ?v = "JArr (map JStr ts)"
  have "lex '']'' = Some [TCloseArr]" by (simp add: lex_marks) (simp add: lex.simps)
  then have lex: "lex (json_text ?v @ '']'') = Some (toks ?v @ [TCloseArr])"
    using lex_text [OF tokens_clean [OF assms(2)], of "'']''"] by simp
  have run: "json_run (toks ?v) ([], WantValue False) = Some ([], Done ?v)"
    using tokens_depth [of ts] by (intro run_toks) (simp add: maxNestingDepth_def)
  obtain rest where r: "stream_run (json_text ?v @ '']'') ([], WantValue False) = Some (?v, rest)" "lex rest = Some [TCloseArr]"
    using stream_run_prefix [OF lex run] by blast
  have "\<not> list_all json_space (json_text ?v @ '']'')" by (simp add: json_space_def byte_def)
  then have d: "Decode (json_text ?v @ '']'') = StreamValue ?v rest" using r(1) by (simp add: Decode_def del: json_text.simps)
  have "Decode rest \<noteq> StreamValue w t" for w t
    using stream_run_stuck [OF r(2), of False] by (simp add: Decode_def)
  moreover have "TrimSpace (json_text ?v @ '']'') = json_text ?v @ '']''" by (rule TrimSpace_id) (simp_all add: bracket_trim)
  moreover have "json_start (json_text ?v @ '']'')" by (simp add: json_start_def)
  ultimately show ?thesis
    using json_body [of ?v ts "'']''" rest, unfolded json_any_tokens] d tokens_append [OF assms(2,3)] assms
    by (simp del: json_text.simps)
qed

section \<open>Witnesses\<close>

lemma demo_plain: "list_all plain_token [''at-1'', ''at-2'']"
  by (simp add: plain_token_def json_start_def space_byte_def byte_def)

theorem batch_formats_agree_witness:
  "parseBatchCandidates (sep_by [newline] [''at-1'', ''at-2'']) = Inr (numbered 1 [''at-1'', ''at-2''])"
  using batch_formats_agree [OF _ demo_plain] by simp

theorem trailing_text_is_ignored_witness:
  "parseBatchCandidates (json_text (JArr [JStr ''at-1'', JStr ''at-2'']) @ '']'') = Inr (numbered 1 [''at-1'', ''at-2''])"
  using trailing_text_is_ignored [OF _ demo_plain] by (simp del: json_text.simps)

theorem batch_is_bounded_and_clean_witness:
  "candidate_ok 1 (hd (numbered 1 [''at-1'', ''at-2'']))"
proof -
  have "parseBatchCandidates (sep_by [newline] [''at-1'', ''at-2'']) = Inr (numbered 1 [''at-1'', ''at-2''])"
    by (rule lines_body [OF _ demo_plain]) simp_all
  from batch_is_bounded_and_clean [OF this] have "candidate_ok (Suc 0) (numbered 1 [''at-1'', ''at-2''] ! 0)"
    by (auto simp: numbered_def)
  then show ?thesis by (simp add: numbered_def)
qed

end
