(* ===== verification/Go_Url.thy ===== *)
theory Go_Url
  imports Encoding "HOL-Library.List_Lexorder" "HOL-Library.Char_ord"
begin

text \<open>
  The part of \<^verbatim>\<open>net/url\<close> the sources use: \<^verbatim>\<open>url.Parse\<close> with its scheme, authority, path, query and
  fragment rules, \<^verbatim>\<open>Hostname\<close>, \<^verbatim>\<open>Port\<close>, \<^verbatim>\<open>EscapedPath\<close> and \<^verbatim>\<open>String\<close>.  The password of the user information is
  not kept: the sources only ask whether there is user information.
\<close>

record url =
  Scheme :: string
  Opaque :: string
  HasUser :: bool
  Host :: string
  Path :: string
  RawPath :: string
  ForceQuery :: bool
  RawQuery :: string
  Fragment :: string

datatype escape_mode = EncodePath | EncodeHost | EncodeFragment

definition alnum :: "char \<Rightarrow> bool" where
  "alnum c \<longleftrightarrow> is_digit c \<or> is_lower c \<or> is_upper c"

definition host_char :: "char \<Rightarrow> bool" where
  "host_char c \<longleftrightarrow> c \<in> set ''!$&()*+,;=:[]<>'' \<or> byte c = 34 \<or> byte c = 39"

definition shouldEscape :: "escape_mode \<Rightarrow> char \<Rightarrow> bool" where
  "shouldEscape mode c =
     (if alnum c \<or> mode = EncodeHost \<and> host_char c \<or> c \<in> set ''-_.~'' then False
      else if c \<in> set ''$&+,/:;=?@'' then
        (case mode of EncodePath \<Rightarrow> c = CHR ''?'' | EncodeFragment \<Rightarrow> False | EncodeHost \<Rightarrow> True)
      else if mode = EncodeFragment \<and> c \<in> set ''!()*'' then False
      else True)"

definition upper_hex :: "nat \<Rightarrow> char" where
  "upper_hex n = ''0123456789ABCDEF'' ! n"

fun url_escape :: "escape_mode \<Rightarrow> string \<Rightarrow> string" where
  "url_escape mode [] = []"
| "url_escape mode (c # s) =
     (if shouldEscape mode c then CHR ''%'' # upper_hex (byte c div 16) # upper_hex (byte c mod 16) # url_escape mode s
      else c # url_escape mode s)"

text \<open>In a host only \<^verbatim>\<open>%25\<close> and the escapes of non-ASCII bytes are allowed.\<close>

fun url_unescape :: "escape_mode \<Rightarrow> string \<Rightarrow> string option" where
  "url_unescape mode [] = Some []"
| "url_unescape mode (c # s) =
     (if c = CHR ''%'' then
        (case s of
           a # b # rest \<Rightarrow>
             (case (hex_value a, hex_value b) of
                (Some h, Some l) \<Rightarrow>
                  if mode = EncodeHost \<and> h < 8 \<and> [a, b] \<noteq> ''25'' then None
                  else map_option ((#) (char_of (16 * h + l))) (url_unescape mode rest)
              | _ \<Rightarrow> None)
         | _ \<Rightarrow> None)
      else if mode = EncodeHost \<and> byte c < 128 \<and> shouldEscape mode c then None
      else map_option ((#) c) (url_unescape mode s))"

fun scheme_scan :: "bool \<Rightarrow> string \<Rightarrow> (string \<times> string) option option" where
  "scheme_scan first [] = Some None"
| "scheme_scan first (c # s) =
     (if is_lower c \<or> is_upper c \<or> \<not> first \<and> (is_digit c \<or> c \<in> set ''+-.'') then
        (case scheme_scan False s of
           None \<Rightarrow> None
         | Some None \<Rightarrow> Some None
         | Some (Some (sch, rest)) \<Rightarrow> Some (Some (c # sch, rest)))
      else if c = CHR '':'' then (if first then None else Some (Some ([], s)))
      else Some None)"

text \<open>\<^verbatim>\<open>getScheme\<close>: \<^verbatim>\<open>None\<close> is the error of a missing scheme before a colon.\<close>

definition getScheme :: "string \<Rightarrow> (string \<times> string) option" where
  "getScheme raw = (case scheme_scan True raw of
     None \<Rightarrow> None | Some None \<Rightarrow> Some ([], raw) | Some (Some (sch, rest)) \<Rightarrow> Some (sch, rest))"

fun cut :: "char \<Rightarrow> string \<Rightarrow> string \<times> string" where
  "cut sep [] = ([], [])"
| "cut sep (c # s) = (if c = sep then ([], s) else (case cut sep s of (a, b) \<Rightarrow> (c # a, b)))"

definition after_last :: "char \<Rightarrow> string \<Rightarrow> string" where
  "after_last sep s = rev (takeWhile (\<lambda>c. c \<noteq> sep) (rev s))"

definition before_last :: "char \<Rightarrow> string \<Rightarrow> string" where
  "before_last sep s = rev (drop 1 (dropWhile (\<lambda>c. c \<noteq> sep) (rev s)))"

definition validOptionalPort :: "string \<Rightarrow> bool" where
  "validOptionalPort port \<longleftrightarrow> port = [] \<or> hd port = CHR '':'' \<and> list_all is_digit (tl port)"

definition valid_userinfo :: "string \<Rightarrow> bool" where
  "valid_userinfo s \<longleftrightarrow> list_all (\<lambda>c. alnum c \<or> c \<in> set ''-._:~!$&()*+,;=%@'' \<or> byte c = 39) s"

definition parseHost :: "string \<Rightarrow> string option" where
  "parseHost host =
     (if HasPrefix host ''['' then
        (if CHR '']'' \<notin> set host then None
         else if \<not> validOptionalPort (after_last (CHR '']'') host) then None
         else url_unescape EncodeHost host)
      else if CHR '':'' \<in> set host \<and> \<not> validOptionalPort (CHR '':'' # after_last (CHR '':'') host) then None
      else url_unescape EncodeHost host)"

definition parseAuthority :: "string \<Rightarrow> (bool \<times> string) option" where
  "parseAuthority authority =
     (if CHR ''@'' \<notin> set authority then map_option (Pair False) (parseHost authority)
      else case parseHost (after_last (CHR ''@'') authority) of
        None \<Rightarrow> None
      | Some h \<Rightarrow> if valid_userinfo (before_last (CHR ''@'') authority) then Some (True, h) else None)"

definition control_byte :: "char \<Rightarrow> bool" where
  "control_byte c \<longleftrightarrow> byte c < 32 \<or> byte c = 127"

definition zero_url :: url where
  "zero_url = \<lparr>Scheme = [], Opaque = [], HasUser = False, Host = [], Path = [], RawPath = [], ForceQuery = False,
     RawQuery = [], Fragment = []\<rparr>"

definition setPath :: "string \<Rightarrow> url \<Rightarrow> url option" where
  "setPath p u =
     (case url_unescape EncodePath p of
        None \<Rightarrow> None
      | Some path \<Rightarrow> Some (u\<lparr>Path := path, RawPath := (if url_escape EncodePath path = p then [] else p)\<rparr>))"

definition split_query :: "string \<Rightarrow> bool \<times> string \<times> string" where
  "split_query s =
     (if HasSuffix s ''?'' \<and> length (filter (\<lambda>c. c = CHR ''?'') s) = 1 then (True, [], butlast s)
      else case cut (CHR ''?'') s of (rest, q) \<Rightarrow> (False, q, rest))"

definition parse_rest :: "string \<Rightarrow> string \<Rightarrow> bool \<Rightarrow> string \<Rightarrow> url option" where
  "parse_rest sch rest fq q =
     (let u = zero_url\<lparr>Scheme := ToLower sch, ForceQuery := fq, RawQuery := q\<rparr> in
      if \<not> HasPrefix rest ''/'' \<and> sch \<noteq> [] then Some (u\<lparr>Opaque := rest\<rparr>)
      else if \<not> HasPrefix rest ''/'' \<and> CHR '':'' \<in> set (fst (cut (CHR ''/'') rest)) then None
      else if (sch \<noteq> [] \<or> \<not> HasPrefix rest ''///'') \<and> HasPrefix rest ''//'' then
        (let authority = takeWhile (\<lambda>c. c \<noteq> CHR ''/'') (drop 2 rest);
             path = dropWhile (\<lambda>c. c \<noteq> CHR ''/'') (drop 2 rest)
         in case parseAuthority authority of
              None \<Rightarrow> None
            | Some (user, host) \<Rightarrow> setPath path (u\<lparr>HasUser := user, Host := host\<rparr>))
      else setPath rest u)"

definition url_Parse :: "string \<Rightarrow> url option" where
  "url_Parse rawURL =
     (case cut (CHR ''#'') rawURL of (raw, frag) \<Rightarrow>
      if list_ex control_byte raw then None
      else if raw = ''*'' then Some (zero_url\<lparr>Path := ''*'', Fragment := frag\<rparr>)
      else case getScheme raw of
        None \<Rightarrow> None
      | Some (sch, rest0) \<Rightarrow>
          (case split_query rest0 of (fq, q, rest) \<Rightarrow>
           (case parse_rest sch rest fq q of
              None \<Rightarrow> None
            | Some u \<Rightarrow>
                (case url_unescape EncodeFragment frag of
                   None \<Rightarrow> None
                 | Some f \<Rightarrow> Some (u\<lparr>Fragment := f\<rparr>)))))"

definition valid_port_suffix :: "string \<Rightarrow> bool" where
  "valid_port_suffix h \<longleftrightarrow> CHR '':'' \<in> set h \<and> list_all is_digit (after_last (CHR '':'') h)"

definition strip_brackets :: "string \<Rightarrow> string" where
  "strip_brackets h = (if HasPrefix h ''['' \<and> HasSuffix h '']'' then butlast (tl h) else h)"

definition Hostname :: "url \<Rightarrow> string" where
  "Hostname u = (let h = Host u in strip_brackets (if valid_port_suffix h then before_last (CHR '':'') h else h))"

definition Port :: "url \<Rightarrow> string" where
  "Port u = (if valid_port_suffix (Host u) then after_last (CHR '':'') (Host u) else [])"

definition validEncodedPath :: "string \<Rightarrow> bool" where
  "validEncodedPath s \<longleftrightarrow> list_all (\<lambda>c. c \<in> set ''!$&()*+,;=:@[]%'' \<or> byte c = 39 \<or> \<not> shouldEscape EncodePath c) s"

definition EscapedPath :: "url \<Rightarrow> string" where
  "EscapedPath u =
     (if RawPath u \<noteq> [] \<and> validEncodedPath (RawPath u) \<and> url_unescape EncodePath (RawPath u) = Some (Path u) then RawPath u
      else if Path u = ''*'' then ''*'' else url_escape EncodePath (Path u))"

section \<open>Queries and printing\<close>

definition query_char :: "char \<Rightarrow> bool" where
  "query_char c \<longleftrightarrow> alnum c \<or> c \<in> set ''-_.~''"

fun QueryEscape :: "string \<Rightarrow> string" where
  "QueryEscape [] = []"
| "QueryEscape (c # s) =
     (if c = CHR '' '' then CHR ''+'' # QueryEscape s
      else if query_char c then c # QueryEscape s
      else CHR ''%'' # upper_hex (byte c div 16) # upper_hex (byte c mod 16) # QueryEscape s)"

fun QueryUnescape :: "string \<Rightarrow> string option" where
  "QueryUnescape [] = Some []"
| "QueryUnescape (c # s) =
     (if c = CHR ''%'' then
        (case s of
           a # b # rest \<Rightarrow>
             (case (hex_value a, hex_value b) of
                (Some h, Some l) \<Rightarrow> map_option ((#) (char_of (16 * h + l))) (QueryUnescape rest)
              | _ \<Rightarrow> None)
         | _ \<Rightarrow> None)
      else if c = CHR ''+'' then map_option ((#) (CHR '' '')) (QueryUnescape s)
      else map_option ((#) c) (QueryUnescape s))"

type_synonym url_values = "string list gomap"

definition add_value :: "string \<Rightarrow> url_values \<Rightarrow> url_values" where
  "add_value part m =
     (if CHR '';'' \<in> set part \<or> part = [] then m
      else case cut (CHR ''='') part of (k, v) \<Rightarrow>
        (case (QueryUnescape k, QueryUnescape v) of
           (Some k', Some v') \<Rightarrow> map_put k' ((case map_get m k' of None \<Rightarrow> [] | Some vs \<Rightarrow> vs) @ [v']) m
         | _ \<Rightarrow> m))"

text \<open>\<^verbatim>\<open>URL.Query\<close>: ill-formed parts are dropped.  \<^verbatim>\<open>Values.Encode\<close> sorts by key.\<close>

definition Query :: "url \<Rightarrow> url_values" where
  "Query u = fold add_value (SplitAt (CHR ''&'') (RawQuery u)) []"

fun join_amp :: "string list \<Rightarrow> string" where
  "join_amp [] = []"
| "join_amp [s] = s"
| "join_amp (s # ss) = s @ ''&'' @ join_amp ss"

definition Encode :: "url_values \<Rightarrow> string" where
  "Encode m = join_amp (concat (map (\<lambda>(k, vs). map (\<lambda>v. QueryEscape k @ ''='' @ QueryEscape v) vs) (sort_key fst m)))"

text \<open>\<^verbatim>\<open>URL.String\<close> for a URL without user information.\<close>

definition url_String :: "url \<Rightarrow> string" where
  "url_String u =
     (if Scheme u = [] then [] else Scheme u @ '':'') @
     (if Opaque u \<noteq> [] then Opaque u
      else
        (if Scheme u \<noteq> [] \<or> Host u \<noteq> []
         then (if Host u \<noteq> [] \<or> Path u \<noteq> [] then ''//'' else []) @ url_escape EncodeHost (Host u) else []) @
        (let path = EscapedPath u in
         (if path \<noteq> [] \<and> hd path \<noteq> CHR ''/'' \<and> Host u \<noteq> [] then ''/'' else
          if Scheme u = [] \<and> Host u = [] \<and> CHR '':'' \<in> set (fst (cut (CHR ''/'') path)) then ''./'' else []) @ path)) @
     (if ForceQuery u \<or> RawQuery u \<noteq> [] then ''?'' @ RawQuery u else []) @
     (if Fragment u \<noteq> [] then ''#'' @ url_escape EncodeFragment (Fragment u) else [])"

section \<open>Lemmas\<close>

lemma hex_value_upper: "n < 16 \<Longrightarrow> hex_value (upper_hex n) = Some n"
  by (auto simp: less_Suc_eq numeral_eq_Suc upper_hex_def hex_value_def is_digit_def byte_def)

lemma percent_escaped: "mode \<noteq> EncodeHost \<Longrightarrow> shouldEscape mode (CHR ''%'')"
  by (cases mode) (simp_all add: shouldEscape_def alnum_def is_digit_def is_lower_def is_upper_def byte_def)

lemma url_unescape_escape: "mode \<noteq> EncodeHost \<Longrightarrow> url_unescape mode (url_escape mode s) = Some s"
proof (induction s)
  case (Cons c s)
  have "byte c div 16 < 16" "byte c mod 16 < 16" by simp_all
  then have "hex_value (upper_hex (byte c div 16)) = Some (byte c div 16)" "hex_value (upper_hex (byte c mod 16)) = Some (byte c mod 16)"
    by (simp_all only: hex_value_upper)
  with Cons percent_escaped [OF Cons.prems] show ?case by auto
qed simp

lemma cut_fst: "sep \<notin> set s \<Longrightarrow> cut sep s = (s, [])"
  by (induction s) auto

lemma cut_spec: "cut sep s = (a, b) \<Longrightarrow> sep \<notin> set a"
  by (induction s arbitrary: a b) (auto split: if_splits prod.splits)

lemma QueryUnescape_escape: "QueryUnescape (QueryEscape s) = Some s"
proof (induction s)
  case (Cons c s)
  have "byte c div 16 < 16" "byte c mod 16 < 16" by simp_all
  then have "hex_value (upper_hex (byte c div 16)) = Some (byte c div 16)" "hex_value (upper_hex (byte c mod 16)) = Some (byte c mod 16)"
    by (simp_all only: hex_value_upper)
  moreover have "\<not> query_char (CHR ''%'')" "\<not> query_char (CHR ''+'')"
    by (simp_all add: query_char_def alnum_def is_digit_def is_lower_def is_upper_def byte_def)
  ultimately show ?case using Cons by auto
qed simp

lemma QueryEscape_chars: "c \<in> set (QueryEscape s) \<Longrightarrow> query_char c \<or> c = CHR ''+'' \<or> c = CHR ''%''"
proof (induction s)
  case (Cons d s)
  have "query_char (upper_hex n)" if "n < 16" for n
    using that by (auto simp: less_Suc_eq numeral_eq_Suc upper_hex_def query_char_def alnum_def is_digit_def is_upper_def byte_def)
  with Cons show ?case by (auto split: if_splits)
qed simp

end
