(* ===== verification/Quota_Policy.thy ===== *)
theory Quota_Policy
  imports Go_Url Identity_Tokens
begin

text \<open>
  The quota compatibility policy (\<^verbatim>\<open>internal/quota/policy.go\<close>): which management requests may be resolved onto
  the upstream, and the reset-credit summary derived from a usage document.
\<close>

datatype Operation = OperationUsage | OperationResetCreditDetails | OperationResetCreditConsume

record Target =
  tgURL :: url
  tgOperation :: Operation

text \<open>\<^verbatim>\<open>strings.ToUpper\<close>: besides ASCII, the long s and the dotless i have ASCII capitals.\<close>

definition upper_byte :: "char \<Rightarrow> char" where
  "upper_byte c = (if is_lower c then char_of (byte c - 32) else c)"

fun ToUpper :: "string \<Rightarrow> string" where
  "ToUpper [] = []"
| "ToUpper (c # cs) =
     (if byte c = 197 \<and> prefix [char_of (191 :: nat)] cs then CHR ''S'' # ToUpper (drop 1 cs)
      else if byte c = 196 \<and> prefix [char_of (177 :: nat)] cs then CHR ''I'' # ToUpper (drop 1 cs)
      else upper_byte c # ToUpper cs)"

definition allowedRequests :: "(string \<times> string \<times> Operation) list" where
  "allowedRequests =
     [(''/backend-api/wham/usage'', ''GET'', OperationUsage),
      (''/backend-api/wham/rate-limit-reset-credits'', ''GET'', OperationResetCreditDetails),
      (''/backend-api/wham/rate-limit-reset-credits/consume'', ''POST'', OperationResetCreditConsume)]"

definition Resolve :: "url option \<Rightarrow> string \<Rightarrow> string \<Rightarrow> Target option" where
  "Resolve upstreamOrigin method rawURL =
     (case upstreamOrigin of
        None \<Rightarrow> None
      | Some origin \<Rightarrow>
          if Scheme origin = [] \<or> Host origin = [] then None
          else case url_Parse (TrimSpace rawURL) of
            None \<Rightarrow> None
          | Some parsed \<Rightarrow>
              if HasUser parsed \<or> Opaque parsed \<noteq> [] \<or> Port parsed \<noteq> [] \<or>
                 \<not> EqualFold (Scheme parsed) ''https'' \<or> \<not> EqualFold (Hostname parsed) ''chatgpt.com'' \<or>
                 RawQuery parsed \<noteq> [] \<or> ForceQuery parsed \<or> Fragment parsed \<noteq> [] then None
              else case map_of allowedRequests (Path parsed) of
                None \<Rightarrow> None
              | Some (allowedMethod, operation) \<Rightarrow>
                  if allowedMethod \<noteq> ToUpper (TrimSpace method) then None
                  else Some \<lparr>tgURL = origin\<lparr>Path := Path parsed, RawPath := [], RawQuery := [], ForceQuery := False, Fragment := []\<rparr>,
                         tgOperation = operation\<rparr>)"

record credit_counts =
  AvailableCount :: int
  ApplicableAvailableCount :: "int option"

definition decode_counts :: "credit_counts decoder" where
  "decode_counts cur v =
     Option.bind (struct_keys v) (\<lambda>kvs.
     Option.bind (field dec_int64 ''available_count'' kvs (AvailableCount cur)) (\<lambda>a.
     Option.bind (field (dec_ptr dec_int64 0) ''applicable_available_count'' kvs (ApplicableAvailableCount cur)) (\<lambda>b.
     Some \<lparr>AvailableCount = a, ApplicableAvailableCount = b\<rparr>)))"

definition decode_usage :: "json \<Rightarrow> credit_counts option option" where
  "decode_usage v =
     Option.bind (struct_keys v) (\<lambda>kvs.
     field (dec_ptr decode_counts \<lparr>AvailableCount = 0, ApplicableAvailableCount = None\<rparr>) ''rate_limit_reset_credits'' kvs None)"

definition summary_json :: "credit_counts \<Rightarrow> json" where
  "summary_json c =
     JObj ([(''credits'', JNull), (''available_count'', JNum (int_text (AvailableCount c)))] @
       (case ApplicableAvailableCount c of
          None \<Rightarrow> [] | Some n \<Rightarrow> [(''applicable_available_count'', JNum (int_text n))]))"

definition ResetCreditDetailsFromUsage :: "bytes \<Rightarrow> bytes option" where
  "ResetCreditDetailsFromUsage body =
     (case Option.bind (json_parse body) decode_usage of
        Some (Some c) \<Rightarrow>
          if AvailableCount c < 0 \<or> (case ApplicableAvailableCount c of None \<Rightarrow> False | Some n \<Rightarrow> n < 0) then None
          else Some (json_text (summary_json c))
      | _ \<Rightarrow> None)"

section \<open>Properties\<close>

text \<open>
  The quota path is not an open proxy.  A resolved target keeps the scheme, host and user of the configured
  upstream, has no query and no fragment, and its path is one of the three quota paths with the
  method and operation that path allows; the request itself named an https URL of chatgpt.com without
  user, port, query or fragment.
\<close>

theorem quota_targets_are_allow_listed:
  assumes "Resolve (Some origin) method rawURL = Some t"
  shows "Scheme (tgURL t) = Scheme origin \<and> Host (tgURL t) = Host origin \<and> HasUser (tgURL t) = HasUser origin \<and>
    RawQuery (tgURL t) = [] \<and> \<not> ForceQuery (tgURL t) \<and> Fragment (tgURL t) = [] \<and>
    (Path (tgURL t), ToUpper (TrimSpace method), tgOperation t) \<in> set allowedRequests \<and>
    (\<exists>p. url_Parse (TrimSpace rawURL) = Some p \<and> \<not> HasUser p \<and> Port p = [] \<and> EqualFold (Scheme p) ''https'' \<and>
       EqualFold (Hostname p) ''chatgpt.com'' \<and> RawQuery p = [] \<and> Fragment p = [] \<and> Path p = Path (tgURL t))"
  using assms by (auto simp: Resolve_def dest: map_of_SomeD split: option.splits if_splits prod.splits)

text \<open>
  The summary keeps the counts.  For every pair of non-negative \<^verbatim>\<open>int64\<close> counts, the details built from a
  usage document that reports them parse back to an object with \<^verbatim>\<open>credits\<close> null and exactly those counts.
\<close>

theorem reset_credit_summary_roundtrip:
  assumes "0 \<le> a" "a < 2 ^ 63" "\<forall>n. b = Some n \<longrightarrow> 0 \<le> n \<and> n < 2 ^ 63"
  shows "\<exists>out. ResetCreditDetailsFromUsage (json_text (JObj [(''rate_limit_reset_credits'',
        summary_json \<lparr>AvailableCount = a, ApplicableAvailableCount = b\<rparr>)])) = Some out \<and>
      json_parse out = Some (summary_json \<lparr>AvailableCount = a, ApplicableAvailableCount = b\<rparr>)"
proof -
  let ?c = "\<lparr>AvailableCount = a, ApplicableAvailableCount = b\<rparr>"
  have names: "plain_name ''rate_limit_reset_credits''" "plain_name ''credits''" "plain_name ''available_count''"
    "plain_name ''applicable_available_count''"
    by (simp_all add: plain_name_def is_upper_def byte_def)
  note valid = names [THEN plain_name_valid]
  have cl: "clean (summary_json ?c)"
    using valid by (cases b) (simp_all add: summary_json_def number_ok_int del: ValidString.simps)
  have depth: "json_depth (summary_json ?c) = 1" by (cases b) (simp_all add: summary_json_def)
  have p1: "json_parse (json_text (summary_json ?c)) = Some (summary_json ?c)"
    using cl by (rule parse_text) (simp add: depth maxNestingDepth_def)
  have p2: "json_parse (json_text (JObj [(''rate_limit_reset_credits'', summary_json ?c)])) = Some (JObj [(''rate_limit_reset_credits'', summary_json ?c)])"
    by (rule parse_text) (use cl valid in \<open>simp_all add: depth maxNestingDepth_def del: ValidString.simps\<close>)
  have ints: "ParseInt64 (int_text a) = Some a" "\<forall>n. b = Some n \<longrightarrow> ParseInt64 (int_text n) = Some n"
    using assms by (auto intro!: ParseInt64_text)
  have "decode_counts \<lparr>AvailableCount = 0, ApplicableAvailableCount = None\<rparr> (summary_json ?c) = Some ?c"
    using names ints
    by (cases b) (simp_all add: decode_counts_def summary_json_def struct_keys_def EqualFold_plain dec_int64_def dec_ptr_def)
  then have "decode_usage (JObj [(''rate_limit_reset_credits'', summary_json ?c)]) = Some (Some ?c)"
    using names by (simp add: decode_usage_def struct_keys_def EqualFold_plain dec_ptr_def) (simp add: summary_json_def)
  with p1 p2 assms show ?thesis by (auto simp: ResetCreditDetailsFromUsage_def simp del: json_text.simps split: option.splits)
qed

section \<open>Witnesses\<close>

definition demo_upstream :: url where
  "demo_upstream = zero_url\<lparr>Scheme := ''https'', Host := ''chatgpt.com''\<rparr>"

lemma demo_quota_url:
  "url_Parse ''https://chatgpt.com/backend-api/wham/usage'' = Some (demo_upstream\<lparr>Path := ''/backend-api/wham/usage''\<rparr>)"
  by code_simp

lemma demo_trim: "TrimSpace ''https://chatgpt.com/backend-api/wham/usage'' = ''https://chatgpt.com/backend-api/wham/usage''"
    "TrimSpace ''get'' = ''get''"
  by (rule TrimSpace_plain, simp add: space_byte_def byte_def)+

lemma demo_resolve:
  "Resolve (Some demo_upstream) ''get'' ''https://chatgpt.com/backend-api/wham/usage'' =
     Some \<lparr>tgURL = demo_upstream\<lparr>Path := ''/backend-api/wham/usage''\<rparr>, tgOperation = OperationUsage\<rparr>"
proof -
  let ?u = "demo_upstream\<lparr>Path := ''/backend-api/wham/usage''\<rparr>"
  have parts: "\<not> HasUser ?u" "Opaque ?u = []" "Port ?u = []" "Scheme ?u = ''https''" "Hostname ?u = ''chatgpt.com''"
    "RawQuery ?u = []" "\<not> ForceQuery ?u" "Fragment ?u = []"
    "Scheme demo_upstream \<noteq> []" "Host demo_upstream \<noteq> []"
    by code_simp+
  have "ToUpper ''get'' = ''GET''" by code_simp
  with parts show ?thesis
    by (simp only: Resolve_def demo_trim demo_quota_url option.case) (simp add: allowedRequests_def demo_upstream_def zero_url_def)
qed

theorem quota_targets_are_allow_listed_witness:
  "(''/backend-api/wham/usage'', ''GET'', OperationUsage) \<in> set allowedRequests"
proof -
  have "ToUpper ''get'' = ''GET''" by code_simp
  with quota_targets_are_allow_listed [OF demo_resolve] show ?thesis by (simp add: demo_trim)
qed

theorem reset_credit_summary_roundtrip_witness:
  "\<exists>out. ResetCreditDetailsFromUsage (json_text (JObj [(''rate_limit_reset_credits'',
        summary_json \<lparr>AvailableCount = 3, ApplicableAvailableCount = Some 2\<rparr>)])) = Some out \<and>
      json_parse out = Some (summary_json \<lparr>AvailableCount = 3, ApplicableAvailableCount = Some 2\<rparr>)"
  by (rule reset_credit_summary_roundtrip) simp_all

end
