(* ===== verification/Json_Document.thy ===== *)
theory Json_Document
  imports Go_Json Identity_Tokens Complex_Main
begin

text \<open>
  JSON documents the way the CPA manager and the plugin handle them: a Go \<^verbatim>\<open>map[string]any\<close> read with
  \<^verbatim>\<open>decodeJSONMap\<close> and written with \<^verbatim>\<open>json.MarshalIndent\<close> (keys sorted, two blanks of indent).

  The parser returns only values that print back (\<open>Decode_clean\<close>), and reading what was written gives
  the sorted map (\<open>decode_marshal\<close>).  Decoding without \<^verbatim>\<open>UseNumber\<close> turns a number into the nearest
  \<^verbatim>\<open>float64\<close>; \<open>any_of\<close> is that reading, with maps in sorted order so that \<^verbatim>\<open>reflect.DeepEqual\<close> is equality.
\<close>

section \<open>Writing\<close>

definition line_break :: "nat \<Rightarrow> string" where
  "line_break d = char_of (10 :: nat) # replicate (2 * d) (CHR '' '')"

fun indent_text :: "nat \<Rightarrow> json \<Rightarrow> string" where
  "indent_text d (JArr vs) =
     (if vs = [] then ''[]''
      else ''['' @ line_break (Suc d) @ sep_by ('','' @ line_break (Suc d)) (map (indent_text (Suc d)) vs) @ line_break d @ '']'')"
| "indent_text d (JObj kvs) =
     (if kvs = [] then ''{}''
      else ''{'' @ line_break (Suc d) @
        sep_by ('','' @ line_break (Suc d)) (map (\<lambda>(k, v). text_str k @ '': '' @ indent_text (Suc d) v) kvs) @ line_break d @ ''}'')"
| "indent_text d v = json_text v"

fun sort_keys :: "json \<Rightarrow> json" where
  "sort_keys (JArr vs) = JArr (map sort_keys vs)"
| "sort_keys (JObj kvs) = JObj (sort_key fst (map (\<lambda>(k, v). (k, sort_keys v)) kvs))"
| "sort_keys v = v"

type_synonym payload = "json gomap"

definition sorted_payload :: "payload \<Rightarrow> payload" where
  "sorted_payload m = sort_key fst (map (\<lambda>(k, v). (k, sort_keys v)) m)"

definition MarshalIndent :: "payload \<Rightarrow> bytes" where
  "MarshalIndent m = indent_text 0 (JObj (sorted_payload m))"

section \<open>Reading\<close>

definition decodeJSONMap :: "bytes \<Rightarrow> payload option" where
  "decodeJSONMap raw =
     (case Decode raw of
        StreamValue v rest \<Rightarrow>
          (case json_any v of
             JObj payload \<Rightarrow> (case Decode rest of StreamEOF \<Rightarrow> Some payload | _ \<Rightarrow> None)
           | _ \<Rightarrow> None)
      | _ \<Rightarrow> None)"

text \<open>A value of \<^verbatim>\<open>any\<close>; a missing map entry reads as \<^verbatim>\<open>nil\<close>.\<close>

definition lookup :: "payload \<Rightarrow> string \<Rightarrow> json" where
  "lookup m k = (case map_get m k of None \<Rightarrow> JNull | Some v \<Rightarrow> v)"

definition jsonStringValue :: "json \<Rightarrow> string" where
  "jsonStringValue v =
     (case v of JStr s \<Rightarrow> s | JNum n \<Rightarrow> n | JBool b \<Rightarrow> (if b then ''true'' else ''false'') | _ \<Rightarrow> [])"

definition boolValue :: "json \<Rightarrow> bool" where
  "boolValue v =
     (case v of
        JBool b \<Rightarrow> b
      | JStr s \<Rightarrow> ToLower (TrimSpace s) \<in> set [''true'', ''1'', ''yes'', ''on'']
      | JNum n \<Rightarrow> n = ''1''
      | _ \<Rightarrow> False)"

text \<open>
  The \<^verbatim>\<open>float64\<close> nearest to a decimal literal, ties to even, with subnormals; \<^verbatim>\<open>None\<close> is overflow.
\<close>

definition decimal_value :: "string \<Rightarrow> rat" where
  "decimal_value lit =
     (let neg = HasPrefix lit ''-''; u = TrimPrefix lit ''-'';
          mant = takeWhile (\<lambda>c. c \<noteq> CHR ''e'' \<and> c \<noteq> CHR ''E'') u;
          ex = drop (Suc (length mant)) u;
          whole = takeWhile (\<lambda>c. c \<noteq> CHR ''.'') mant; frac = drop (Suc (length whole)) mant;
          e = (if HasPrefix ex ''-'' then - int (digits_value 0 (drop 1 ex))
               else int (digits_value 0 (TrimPrefix ex ''+''))) - int (length frac);
          x = of_nat (digits_value 0 (whole @ frac)) * 10 powi e
      in if neg then - x else x)"

fun bit_len :: "nat \<Rightarrow> nat" where
  "bit_len n = (if n = 0 then 0 else Suc (bit_len (n div 2)))"

declare bit_len.simps [simp del]

definition floor_log2 :: "rat \<Rightarrow> int" where
  "floor_log2 x =
     (case quotient_of x of (p, q) \<Rightarrow>
      let e = int (bit_len (nat p)) - int (bit_len (nat q)) in if 2 powi e > x then e - 1 else e)"

definition round_even :: "rat \<Rightarrow> int" where
  "round_even x =
     (let n = \<lfloor>x\<rfloor>; r = x - of_int n in
      if r < 1 / 2 then n else if r > 1 / 2 then n + 1 else if even n then n else n + 1)"

definition float64 :: "string \<Rightarrow> rat option" where
  "float64 lit =
     (let x = decimal_value lit in
      if x = 0 then Some 0
      else let e = max (floor_log2 \<bar>x\<bar> - 52) (- 1074); y = of_int (round_even (x / 2 powi e)) * 2 powi e in
        if \<bar>y\<bar> \<ge> 2 ^ 1024 then None else Some y)"

datatype any = ANil | ABool bool | AFloat rat | AStr string | AList "any list" | AMap "(string \<times> any) list"

fun any_of :: "json \<Rightarrow> any option" where
  "any_of JNull = Some ANil"
| "any_of (JBool b) = Some (ABool b)"
| "any_of (JNum n) = map_option AFloat (float64 n)"
| "any_of (JStr s) = Some (AStr s)"
| "any_of (JArr vs) = map_option AList (those (map any_of vs))"
| "any_of (JObj kvs) =
     map_option (\<lambda>xs. AMap (sort_key fst (fold (\<lambda>(k, x) m. map_put k x m) (zip (map fst kvs) xs) [])))
       (those (map (\<lambda>(k, v). any_of v) kvs))"

definition equivalentJSON :: "bytes \<Rightarrow> bytes \<Rightarrow> bool" where
  "equivalentJSON left right =
     (case (Option.bind (json_parse left) any_of, Option.bind (json_parse right) any_of) of
        (Some l, Some r) \<Rightarrow> l = r
      | _ \<Rightarrow> TrimSpace left = TrimSpace right)"

text \<open>\<^verbatim>\<open>reflect.DeepEqual\<close> on values decoded with \<^verbatim>\<open>UseNumber\<close>: maps are compared without order.\<close>

definition DeepEqual :: "json \<Rightarrow> json \<Rightarrow> bool" where
  "DeepEqual v w \<longleftrightarrow> sort_keys v = sort_keys w"

section \<open>The parser returns clean values\<close>

lemma lex_exp_split: "lex_exp acc s = Some (n, rest) \<Longrightarrow> \<exists>p. n = acc @ p \<and> s = p @ rest \<and> lex_exp acc p = Some (n, [])"
proof (cases s)
  case (Cons e s1)
  assume a: "lex_exp acc s = Some (n, rest)"
  show ?thesis
  proof (cases "e = CHR ''e'' \<or> e = CHR ''E''")
    case True
    let ?sign = "takeWhile (\<lambda>c. c = CHR ''+'' \<or> c = CHR ''-'') (take 1 s1)"
    let ?s2 = "drop (length ?sign) s1"
    let ?ds = "takeWhile is_digit ?s2"
    have d: "?ds \<noteq> []" "n = acc @ e # ?sign @ ?ds" "rest = dropWhile is_digit ?s2"
      using a True Cons by (auto simp: lex_exp_def Let_def split: if_splits)
    have sg: "?sign = [] \<or> (\<exists>c s'. s1 = c # s' \<and> ?sign = [c] \<and> (c = CHR ''+'' \<or> c = CHR ''-''))"
      by (cases s1) auto
    have hd: "is_digit (hd ?ds)" using d(1) by (metis hd_in_set set_takeWhileD)
    have nd: "\<not> is_digit (CHR ''+'')" "\<not> is_digit (CHR ''-'')" by (simp_all add: is_digit_def byte_def)
    have s1: "s1 = ?sign @ ?ds @ rest" using d(3) sg by auto
    have all: "takeWhile is_digit ?ds = ?ds" "dropWhile is_digit ?ds = []"
      by (auto intro: takeWhile_eq_all_conv [THEN iffD2] dropWhile_eq_Nil_conv [THEN iffD2] dest: set_takeWhileD)
    have sign': "takeWhile (\<lambda>c. c = CHR ''+'' \<or> c = CHR ''-'') (take 1 (?sign @ ?ds)) = ?sign"
      using sg hd nd d(1) by (cases ?ds) auto
    have "lex_exp acc (e # ?sign @ ?ds) = Some (n, [])"
      using True d(1,2) all sign' by (simp add: lex_exp_def Let_def)
    with d(2) s1 Cons show ?thesis by (intro exI [of _ "e # ?sign @ ?ds"]) simp
  qed (use a Cons in \<open>auto simp: lex_exp_def\<close>)
qed (auto simp: lex_exp_def)

lemma lex_frac_split: "lex_frac acc s = Some (n, rest) \<Longrightarrow> \<exists>p. n = acc @ p \<and> s = p @ rest \<and> lex_frac acc p = Some (n, [])"
proof (cases "\<exists>s1. s = CHR ''.'' # s1")
  case True
  assume a: "lex_frac acc s = Some (n, rest)"
  from True obtain s1 where s: "s = CHR ''.'' # s1" by blast
  let ?ds = "takeWhile is_digit s1"
  have d: "?ds \<noteq> []" "lex_exp (acc @ CHR ''.'' # ?ds) (dropWhile is_digit s1) = Some (n, rest)"
    using a s by (auto simp: lex_frac_def Let_def split: if_splits)
  from lex_exp_split [OF d(2)] obtain p where p: "n = (acc @ CHR ''.'' # ?ds) @ p" "dropWhile is_digit s1 = p @ rest"
    "lex_exp (acc @ CHR ''.'' # ?ds) p = Some (n, [])" by blast
  have np: "p = [] \<or> \<not> is_digit (hd p)" using p(2) hd_dropWhile [of is_digit s1] by (cases p) auto
  have "takeWhile is_digit (?ds @ p) = ?ds" "dropWhile is_digit (?ds @ p) = p"
    using np by (cases p; force simp: takeWhile_append dropWhile_append dest: set_takeWhileD)+
  with d(1) p(3) have "lex_frac acc (CHR ''.'' # ?ds @ p) = Some (n, [])" by (simp add: lex_frac_def Let_def)
  moreover have "s = (CHR ''.'' # ?ds @ p) @ rest" using s p(2) takeWhile_dropWhile_id [of is_digit s1] by simp
  ultimately show ?thesis using p(1) by (intro exI [of _ "CHR ''.'' # ?ds @ p"]) simp
next
  case False
  assume a: "lex_frac acc s = Some (n, rest)"
  have "lex_exp acc s = Some (n, rest)" using a False by (cases s) (auto simp: lex_frac_def split: if_splits)
  from lex_exp_split [OF this] obtain p where p: "n = acc @ p" "s = p @ rest" "lex_exp acc p = Some (n, [])" by blast
  moreover have "lex_frac acc p = lex_exp acc p" using p(2) False by (cases p) (auto simp: lex_frac_def)
  ultimately show ?thesis by metis
qed

lemma lex_int_split: "lex_int acc s = Some (n, rest) \<Longrightarrow> \<exists>p. n = acc @ p \<and> s = p @ rest \<and> lex_int acc p = Some (n, [])"
proof (cases s)
  case (Cons d r)
  assume a: "lex_int acc s = Some (n, rest)"
  show ?thesis
  proof (cases "d = CHR ''0''")
    case True
    with a Cons have "lex_frac (acc @ [d]) r = Some (n, rest)" by (simp add: lex_int_def)
    from lex_frac_split [OF this] obtain p where "n = (acc @ [d]) @ p" "r = p @ rest" "lex_frac (acc @ [d]) p = Some (n, [])" by blast
    with True Cons show ?thesis by (intro exI [of _ "d # p"]) (simp add: lex_int_def)
  next
    case False
    let ?ds = "takeWhile is_digit s"
    have d: "is_digit d" "lex_frac (acc @ ?ds) (dropWhile is_digit s) = Some (n, rest)"
      using a Cons False by (auto simp: lex_int_def split: if_splits)
    from lex_frac_split [OF d(2)] obtain p where p: "n = (acc @ ?ds) @ p" "dropWhile is_digit s = p @ rest"
      "lex_frac (acc @ ?ds) p = Some (n, [])" by blast
    have np: "p = [] \<or> \<not> is_digit (hd p)" using p(2) hd_dropWhile [of is_digit s] by (cases p) auto
    have "takeWhile is_digit (?ds @ p) = ?ds" "dropWhile is_digit (?ds @ p) = p"
      using np by (cases p; force simp: takeWhile_append dropWhile_append dest: set_takeWhileD)+
    moreover have "?ds @ p = d # takeWhile is_digit r @ p" using d(1) Cons by simp
    ultimately have "lex_int acc (?ds @ p) = Some (n, [])" using False d(1) p(3) by (simp add: lex_int_def)
    moreover have "s = (?ds @ p) @ rest" using p(2) takeWhile_dropWhile_id [of is_digit s] by simp
    ultimately show ?thesis using p(1) by (intro exI [of _ "?ds @ p"]) simp
  qed
qed (simp add: lex_int_def)

lemma lex_num_ok: "lex_num s = Some (n, rest) \<Longrightarrow> number_ok n"
proof (cases "\<exists>r. s = CHR ''-'' # r")
  case True
  assume a: "lex_num s = Some (n, rest)"
  from True obtain r where "s = CHR ''-'' # r" by blast
  with a have "lex_int ''-'' r = Some (n, rest)" by (simp add: lex_num_def)
  from lex_int_split [OF this] show ?thesis by (auto simp: number_ok_def lex_num_def)
next
  case False
  assume a: "lex_num s = Some (n, rest)"
  then have "lex_int [] s = Some (n, rest)" using False by (cases s) (auto simp: lex_num_def split: if_splits)
  from lex_int_split [OF this] obtain p where p: "n = p" "s = p @ rest" "lex_int [] p = Some (n, [])" by auto
  moreover have "lex_num p = lex_int [] p" using p False by (cases p) (auto simp: lex_num_def lex_int_def)
  ultimately show ?thesis by (simp add: number_ok_def)
qed

lemma next_token_clean:
  assumes "next_token s = Some (TLit v, rest)"
  shows "clean v \<and> json_depth v = 0"
proof (cases s)
  case (Cons c r)
  have p: "punctuation c \<noteq> Some (TLit v)" by (simp add: punctuation_def)
  consider raw where "v = JStr (unquote raw)" | n where "lex_num s = Some (n, rest)" "v = JNum n" | "word_token s = Some (TLit v, rest)"
    using assms Cons p by (auto simp: next_token_def simp del: lex_str.simps split: option.splits if_splits)
  then show ?thesis
    by cases (auto simp: unquote_def lex_num_ok word_token_def simp del: ValidString.simps split: if_splits)
qed (use assms in \<open>simp add: next_token_def\<close>)

definition value_ok :: "nat \<Rightarrow> json \<Rightarrow> bool" where
  "value_ok n v \<longleftrightarrow> clean v \<and> n + json_depth v \<le> maxNestingDepth"

fun frame_ok :: "nat \<Rightarrow> frame \<Rightarrow> bool" where
  "frame_ok n (InArr vs) = (\<forall>v \<in> set vs. value_ok (Suc n) v)"
| "frame_ok n (InObj kvs) = (\<forall>k v. (k, v) \<in> set kvs \<longrightarrow> ValidString k \<and> value_ok (Suc n) v)"
| "frame_ok n (InField kvs k) = (ValidString k \<and> (\<forall>k v. (k, v) \<in> set kvs \<longrightarrow> ValidString k \<and> value_ok (Suc n) v))"

fun stack_ok :: "frame list \<Rightarrow> bool" where
  "stack_ok [] = True"
| "stack_ok (f # st) = (frame_ok (length st) f \<and> Suc (length st) \<le> maxNestingDepth \<and> stack_ok st)"

fun expect_ok :: "nat \<Rightarrow> expectation \<Rightarrow> bool" where
  "expect_ok n (Done v) = value_ok n v"
| "expect_ok n (WantColon k) = ValidString k"
| "expect_ok n _ = True"

fun config_ok :: "frame list \<times> expectation \<Rightarrow> bool" where
  "config_ok (st, e) = (stack_ok st \<and> expect_ok (length st) e)"

lemma foldr_max_bound: "(\<forall>x \<in> set xs. x \<le> (m :: nat)) \<Longrightarrow> foldr max xs 0 \<le> m"
  by (induction xs) auto

lemma value_ok_arr: "\<forall>v \<in> set vs. value_ok (Suc n) v \<Longrightarrow> Suc n \<le> maxNestingDepth \<Longrightarrow> value_ok n (JArr vs)"
proof -
  assume a: "\<forall>v \<in> set vs. value_ok (Suc n) v" "Suc n \<le> maxNestingDepth"
  then have "foldr max (map json_depth vs) 0 \<le> maxNestingDepth - Suc n"
    by (intro foldr_max_bound) (auto simp: value_ok_def)
  with a show ?thesis by (auto simp: value_ok_def list_all_iff)
qed

lemma value_ok_obj:
  "\<forall>k v. (k, v) \<in> set kvs \<longrightarrow> ValidString k \<and> value_ok (Suc n) v \<Longrightarrow> Suc n \<le> maxNestingDepth \<Longrightarrow> value_ok n (JObj kvs)"
proof -
  assume a: "\<forall>k v. (k, v) \<in> set kvs \<longrightarrow> ValidString k \<and> value_ok (Suc n) v" "Suc n \<le> maxNestingDepth"
  then have "foldr max (map (\<lambda>(k, v). json_depth v) kvs) 0 \<le> maxNestingDepth - Suc n"
    by (intro foldr_max_bound) (fastforce simp: value_ok_def)
  with a show ?thesis by (auto simp: value_ok_def list_all_iff)
qed

lemma step_ok:
  assumes "json_step t c = Some c'" "config_ok c" "\<And>v. t = TLit v \<Longrightarrow> clean v \<and> json_depth v = 0"
  shows "config_ok c'"
  using assms
proof (induction t c rule: json_step.induct)
  case (1 v st b)
  have "length st \<le> maxNestingDepth" using "1.prems"(2) by (cases st) auto
  with 1 show ?case by (auto simp: value_ok_def)
next
  case (4 vs st)
  then show ?case by (auto intro: value_ok_arr)
next
  case (6 kvs st)
  then show ?case by (auto intro: value_ok_obj)
next
  case (10 vs st v)
  then show ?case by (auto intro!: value_ok_arr)
next
  case (11 kvs k st v)
  then show ?case by (auto intro!: value_ok_obj)
qed (auto simp: push_def simp del: ValidString.simps split: if_splits)

lemma stream_run_ok: "stream_run s c = Some (v, rest) \<Longrightarrow> config_ok c \<Longrightarrow> value_ok 0 v"
proof (induction s c rule: stream_run.induct)
  case (1 s c)
  show ?case
  proof (cases "\<exists>w. c = ([], Done w)")
    case True
    with "1.prems" show ?thesis by (auto simp: stream_run.simps [of s])
  next
    case nd: False
    then have eq: "stream_run s c = (case s of [] \<Rightarrow> None | ch # r \<Rightarrow>
        if json_space ch then stream_run r c
        else case next_token s of None \<Rightarrow> None
          | Some (t, rest) \<Rightarrow> (case json_step t c of None \<Rightarrow> None | Some c' \<Rightarrow> stream_run rest c'))"
      by (subst stream_run.simps) (auto split: list.splits prod.splits expectation.splits)
    show ?thesis
    proof (cases s)
      case (Cons ch r)
      show ?thesis
      proof (cases "json_space ch")
        case True
        have "stream_run r c = Some (v, rest)" using "1.prems"(1) eq Cons True by simp
        with "1.IH" nd Cons True "1.prems"(2) show ?thesis
          by (cases c; cases "fst c"; cases "snd c") auto
      next
        case ns: False
        obtain t rest' c' where t: "next_token s = Some (t, rest')" "json_step t c = Some c'" "stream_run rest' c' = Some (v, rest)"
          using "1.prems"(1) eq Cons ns by (auto split: option.splits)
        have "config_ok c'" using step_ok [OF t(2) "1.prems"(2)] next_token_clean t(1) by blast
        with "1.IH" nd Cons ns t show ?thesis
          by (cases c; cases "fst c"; cases "snd c") auto
      qed
    qed (use "1.prems"(1) eq in simp)
  qed
qed

lemma Decode_clean: "Decode s = StreamValue v rest \<Longrightarrow> clean v \<and> json_depth v \<le> maxNestingDepth"
  using stream_run_ok [of s "([], WantValue False)" v rest]
  by (auto simp: Decode_def value_ok_def split: if_splits option.splits)

section \<open>Reading what was written\<close>

lemma lex_spaces: "list_all json_space ws \<Longrightarrow> lex (ws @ s) = lex s"
  by (induction ws) (simp_all add: lex.simps)

lemma line_break_blank: "list_all json_space (line_break d)"
  by (simp add: line_break_def json_space_def list_all_iff byte_def)

lemma lex_line_break [simp]: "lex (line_break d @ s) = lex s"
  by (rule lex_spaces [OF line_break_blank])

lemma delimited_break [simp]: "delimited (line_break d @ s)"
  by (simp add: delimited_def line_break_def is_digit_def byte_def char_of_def)

lemma lex_sep_break:
  assumes "\<And>x r. x \<in> set xs \<Longrightarrow> delimited r \<Longrightarrow> lex (f x @ r) = map_option ((@) (g x)) (lex r)"
    and "delimited rest"
  shows "lex (sep_by ('','' @ line_break d) (map f xs) @ rest) = map_option ((@) (sep_by [TComma] (map g xs))) (lex rest)"
  using assms
proof (induction xs)
  case (Cons x xs)
  show ?case
  proof (cases xs)
    case Nil
    with Cons show ?thesis by simp
  next
    case (Cons y ys)
    with Cons.IH Cons.prems have IH: "lex (sep_by ('','' @ line_break d) (map f (y # ys)) @ rest) =
        map_option ((@) (sep_by [TComma] (map g (y # ys)))) (lex rest)" by simp
    have "lex (f x @ CHR '','' # line_break d @ sep_by ('','' @ line_break d) (map f (y # ys)) @ rest) =
        map_option ((@) (g x)) (lex (CHR '','' # line_break d @ sep_by ('','' @ line_break d) (map f (y # ys)) @ rest))"
      by (rule Cons.prems) auto
    with IH Cons show ?thesis by (simp add: lex_marks option.map_comp comp_def)
  qed
qed (simp add: append_Nil [abs_def] option.map_ident)

lemma lex_indent:
  "clean v \<Longrightarrow> delimited rest \<Longrightarrow> lex (indent_text d v @ rest) = map_option ((@) (toks v)) (lex rest)"
proof (induction d v arbitrary: rest rule: indent_text.induct)
  case (1 d vs)
  show ?case
  proof (cases "vs = []")
    case False
    have "lex (sep_by ('','' @ line_break (Suc d)) (map (indent_text (Suc d)) vs) @ line_break d @ CHR '']'' # rest) =
        map_option ((@) (sep_by [TComma] (map toks vs))) (lex (line_break d @ CHR '']'' # rest))"
      using 1 False by (intro lex_sep_break) (auto simp: list_all_iff)
    with False show ?thesis by (simp add: lex_marks option.map_comp comp_def)
  qed (cases "lex rest"; simp add: lex_marks)
next
  case (2 d kvs)
  show ?case
  proof (cases "kvs = []")
    case ne: False
    have field: "lex (text_str k @ '': '' @ indent_text (Suc d) v @ r) =
        map_option ((@) (TLit (JStr k) # TColon # toks v)) (lex r)"
      if "(k, v) \<in> set kvs" "delimited r" for k v r
    proof -
      have kv: "ValidString k" "clean v" using "2.prems"(1) that(1) by (auto simp: list_all_iff)
      have "lex (indent_text (Suc d) v @ r) = map_option ((@) (toks v)) (lex r)"
        by (rule "2.IH" [OF ne that(1) refl kv(2) that(2)])
      moreover have "lex (CHR '' '' # s) = lex s" for s
        using lex_spaces [of "'' ''" s] by (simp add: json_space_def byte_def)
      ultimately show ?thesis by (cases "lex r") (simp_all add: lex_string lex_marks utf8_coerce_valid kv)
    qed
    have "lex (sep_by ('','' @ line_break (Suc d)) (map (\<lambda>(k, v). text_str k @ '': '' @ indent_text (Suc d) v) kvs) @ line_break d @ CHR ''}'' # rest) =
        map_option ((@) (sep_by [TComma] (map (\<lambda>(k, v). TLit (JStr k) # TColon # toks v) kvs))) (lex (line_break d @ CHR ''}'' # rest))"
      by (intro lex_sep_break) (auto simp: field simp del: append_Cons)
    with ne show ?thesis by (simp add: lex_marks option.map_comp comp_def)
  qed (cases "lex rest"; simp add: lex_marks)
qed (auto simp: lex_words [simplified] lex_number lex_string utf8_coerce_valid append_Cons_map)

lemma parse_indent:
  assumes "clean v" "json_depth v \<le> maxNestingDepth"
  shows "json_parse (indent_text d v) = Some v"
proof -
  have "lex [] = Some []" by (subst lex.simps) simp
  then show ?thesis
    using lex_indent [OF assms(1), of "[]"] run_toks [of "[]" v False] assms(2) by (simp add: json_parse_def)
qed

section \<open>Maps\<close>

fun uniq :: "json \<Rightarrow> bool" where
  "uniq (JArr vs) = list_all uniq vs"
| "uniq (JObj kvs) = (distinct (map fst kvs) \<and> list_all (\<lambda>(k, v). uniq v) kvs)"
| "uniq v = True"

definition payload_ok :: "payload \<Rightarrow> bool" where
  "payload_ok m \<longleftrightarrow> gomap_ok m \<and> (\<forall>k v. (k, v) \<in> set m \<longrightarrow> ValidString k \<and> value_ok (Suc 0) v \<and> uniq v)"

lemma update_new: "k \<notin> fst ` set m \<Longrightarrow> map_put k v m = m @ [(k, v)]"
  by (induction m) auto

lemma fold_put_distinct:
  "distinct (map fst (acc @ kvs)) \<Longrightarrow> fold (\<lambda>(k, v) m. map_put k v m) kvs acc = acc @ kvs"
proof (induction kvs arbitrary: acc)
  case (Cons kv kvs)
  obtain k v where kv: "kv = (k, v)" by fastforce
  have "map_put k v acc = acc @ [(k, v)]"
    using Cons.prems kv by (intro update_new) auto
  with Cons kv show ?case by simp
qed simp

lemma update_members: "(k', v') \<in> set (map_put k v m) \<Longrightarrow> (k', v') = (k, v) \<or> (k', v') \<in> set m"
  by (induction m) (auto split: if_splits)

lemma fold_put_facts:
  "gomap_ok acc \<Longrightarrow> gomap_ok (fold (\<lambda>(k, v) m. map_put k v m) kvs acc) \<and>
     (\<forall>p \<in> set (fold (\<lambda>(k, v) m. map_put k v m) kvs acc). p \<in> set acc \<or> p \<in> set kvs)"
proof (induction kvs arbitrary: acc)
  case (Cons kv kvs)
  obtain k v where kv: "kv = (k, v)" by fastforce
  have "gomap_ok (map_put k v acc)" using Cons.prems by simp
  from Cons.IH [OF this] kv show ?case by (fastforce dest: update_members)
qed simp

lemma json_any_facts:
  "uniq (json_any v) \<and> (value_ok n v \<longrightarrow> value_ok n (json_any v))"
proof (induction v arbitrary: n rule: json_any.induct)
  case (1 vs)
  have "value_ok n (JArr (map json_any vs))" if ok: "value_ok n (JArr vs)"
  proof (rule value_ok_arr)
    show "Suc n \<le> maxNestingDepth" using ok by (simp add: value_ok_def)
    have "value_ok (Suc n) v" if "v \<in> set vs" for v
      using ok that foldr_max_le [of "json_depth v" "map json_depth vs" 0] by (auto simp: value_ok_def list_all_iff)
    with 1 show "\<forall>v \<in> set (map json_any vs). value_ok (Suc n) v" by auto
  qed
  with 1 show ?case by (auto simp: list_all_iff)
next
  case (2 kvs)
  let ?m = "fold (\<lambda>(k, v) m. map_put k v m) (map (\<lambda>(k, v). (k, json_any v)) kvs) []"
  have m: "gomap_ok ?m" "\<And>p. p \<in> set ?m \<Longrightarrow> \<exists>k v. (k, v) \<in> set kvs \<and> p = (k, json_any v)"
    using fold_put_facts [of "[]" "map (\<lambda>(k, v). (k, json_any v)) kvs"] by fastforce+
  have "value_ok n (JObj ?m)" if ok: "value_ok n (JObj kvs)"
  proof (rule value_ok_obj)
    show "Suc n \<le> maxNestingDepth" using ok by (simp add: value_ok_def)
    have "ValidString k \<and> value_ok (Suc n) v" if "(k, v) \<in> set kvs" for k v
      using ok that foldr_max_le [of "json_depth v" "map (\<lambda>(k, v). json_depth v) kvs" 0]
      by (fastforce simp: value_ok_def list_all_iff)
    with 2 m(2) show "\<forall>k v. (k, v) \<in> set ?m \<longrightarrow> ValidString k \<and> value_ok (Suc n) v" by fastforce
  qed
  moreover have "uniq (JObj ?m)" using m 2 by (fastforce simp: gomap_ok_def list_all_iff)
  ultimately show ?case by simp
qed auto

lemma json_any_id: "uniq v \<Longrightarrow> json_any v = v"
proof (induction v rule: json_any.induct)
  case (1 vs)
  then show ?case by (auto simp: list_all_iff intro: map_idI)
next
  case (2 kvs)
  have "map (\<lambda>(k, v). (k, json_any v)) kvs = kvs" using 2 by (intro map_idI) (fastforce simp: list_all_iff)
  with 2 fold_put_distinct [of "[]" kvs] show ?case by simp
qed auto

lemma sort_keys_facts:
  "uniq v \<Longrightarrow> value_ok n v \<Longrightarrow> uniq (sort_keys v) \<and> value_ok n (sort_keys v)"
proof (induction v arbitrary: n rule: sort_keys.induct)
  case (1 vs)
  have "value_ok (Suc n) v" if "v \<in> set vs" for v
    using "1.prems"(2) that foldr_max_le [of "json_depth v" "map json_depth vs" 0] by (auto simp: value_ok_def list_all_iff)
  with 1 have each: "\<forall>v \<in> set (map sort_keys vs). uniq v \<and> value_ok (Suc n) v" by (auto simp: list_all_iff)
  have "value_ok n (JArr (map sort_keys vs))"
    by (rule value_ok_arr) (use each "1.prems"(2) in \<open>auto simp: value_ok_def\<close>)
  with each show ?case by (simp add: list_all_iff)
next
  case (2 kvs)
  have "ValidString k \<and> value_ok (Suc n) v \<and> uniq v" if "(k, v) \<in> set kvs" for k v
    using "2.prems" that foldr_max_le [of "json_depth v" "map (\<lambda>(k, v). json_depth v) kvs" 0]
    by (fastforce simp: value_ok_def list_all_iff)
  with 2 have each: "\<forall>(k, v) \<in> set (map (\<lambda>(k, v). (k, sort_keys v)) kvs). ValidString k \<and> value_ok (Suc n) v \<and> uniq v"
    by fastforce
  have d: "distinct (map fst (map (\<lambda>(k, v). (k, sort_keys v)) kvs))"
    using "2.prems"(1) by (simp add: comp_def case_prod_unfold)
  have "value_ok n (sort_keys (JObj kvs))"
    unfolding sort_keys.simps by (rule value_ok_obj) (use each "2.prems"(2) in \<open>fastforce simp: value_ok_def\<close>)+
  moreover have "uniq (sort_keys (JObj kvs))"
    using each d by (auto simp: list_all_iff distinct_map inj_on_def)
  ultimately show ?case by simp
qed auto

lemma payload_ok_iff: "payload_ok m \<longleftrightarrow> uniq (JObj m) \<and> value_ok 0 (JObj m)"
proof
  assume ok: "payload_ok m"
  have "value_ok 0 (JObj m)"
    by (rule value_ok_obj) (use ok in \<open>auto simp: payload_ok_def maxNestingDepth_def\<close>)
  with ok show "uniq (JObj m) \<and> value_ok 0 (JObj m)" by (fastforce simp: payload_ok_def gomap_ok_def list_all_iff)
next
  assume a: "uniq (JObj m) \<and> value_ok 0 (JObj m)"
  have "json_depth v \<le> foldr max (map (\<lambda>(k, v). json_depth v) m) 0" if "(k, v) \<in> set m" for k v
    using that by (intro foldr_max_le) force
  with a show "payload_ok m"
    by (fastforce simp: payload_ok_def gomap_ok_def value_ok_def list_all_iff)
qed

lemma decode_ok: "decodeJSONMap raw = Some m \<Longrightarrow> payload_ok m"
proof -
  assume "decodeJSONMap raw = Some m"
  then obtain v rest where v: "Decode raw = StreamValue v rest" "json_any v = JObj m"
    by (auto simp: decodeJSONMap_def split: decoded.splits json.splits)
  from Decode_clean [OF v(1)] have "value_ok 0 v" by (simp add: value_ok_def)
  with json_any_facts [of v 0] v(2) show ?thesis by (simp add: payload_ok_iff)
qed

lemma sorted_payload_ok: "payload_ok m \<Longrightarrow> payload_ok (sorted_payload m)"
  using sort_keys_facts [of "JObj m" 0] by (simp add: payload_ok_iff sorted_payload_def)

lemma decode_text:
  assumes "json_parse raw = Some (JObj m)" "payload_ok m"
  shows "decodeJSONMap raw = Some m"
proof -
  from Decode_parse [OF assms(1)] obtain rest where r: "Decode raw = StreamValue (JObj m) rest" "list_all json_space rest" by blast
  have "json_any (JObj m) = JObj m" using assms(2) by (intro json_any_id) (simp add: payload_ok_iff)
  with r show ?thesis by (simp add: decodeJSONMap_def Decode_def del: json_any.simps)
qed

lemma decode_marshal: "payload_ok m \<Longrightarrow> decodeJSONMap (MarshalIndent m) = Some (sorted_payload m)"
proof -
  assume "payload_ok m"
  then have ok: "payload_ok (sorted_payload m)" by (rule sorted_payload_ok)
  then have "json_parse (MarshalIndent m) = Some (JObj (sorted_payload m))"
    unfolding MarshalIndent_def by (intro parse_indent) (auto simp: payload_ok_iff value_ok_def)
  from decode_text [OF this ok] show ?thesis .
qed

lemma map_of_sort: "gomap_ok m \<Longrightarrow> map_of (sort_key fst m) = map_of m"
  using map_of_inject_set [of "sort_key fst m" m] by (simp add: gomap_ok_def distinct_map)

lemma sorted_payload_get:
  assumes "gomap_ok m"
  shows "map_get (sorted_payload m) k = map_option sort_keys (map_get m k)"
proof -
  have "gomap_ok (map (\<lambda>(k, v). (k, sort_keys v)) m)" using assms by (simp add: gomap_ok_def comp_def case_prod_unfold)
  from map_of_sort [OF this] show ?thesis by (simp add: sorted_payload_def map_of_map [unfolded comp_def])
qed

lemma sort_keys_idem: "sort_keys (sort_keys v) = sort_keys v"
proof (induction v rule: sort_keys.induct)
  case (2 kvs)
  let ?m = "map (\<lambda>(k, v). (k, sort_keys v)) kvs"
  have "map (\<lambda>(k, v). (k, sort_keys v)) (sort_key fst ?m) = sort_key fst ?m"
    using 2 by (intro map_idI) auto
  then show ?case by (simp add: sort_key_id_if_sorted)
qed auto

lemma sorted_payload_idem: "sorted_payload (sorted_payload m) = sorted_payload m"
  using sort_keys_idem [of "JObj m"] by (simp add: sorted_payload_def)

lemma jsonStringValue_sort [simp]: "jsonStringValue (sort_keys v) = jsonStringValue v"
  by (cases v) (simp_all add: jsonStringValue_def)

lemma boolValue_sort [simp]: "boolValue (sort_keys v) = boolValue v"
  by (cases v) (simp_all add: boolValue_def)

lemma lookup_sorted: "gomap_ok m \<Longrightarrow> lookup (sorted_payload m) k = sort_keys (lookup m k)"
  by (simp add: lookup_def sorted_payload_get split: option.splits)

lemma lookup_put [simp]: "lookup (map_put k v m) k' = (if k' = k then v else lookup m k')"
  by (simp add: lookup_def)

lemma lookup_del [simp]: "lookup (map_del k m) k' = (if k' = k then JNull else lookup m k')"
  by (simp add: lookup_def)

lemma payload_gomap: "payload_ok m \<Longrightarrow> gomap_ok m"
  by (simp add: payload_ok_def)

lemma payload_ok_Nil [simp]: "payload_ok []"
  by (simp add: payload_ok_def)

lemma payload_ok_put [inv_intros]:
  "payload_ok m \<Longrightarrow> ValidString k \<Longrightarrow> value_ok (Suc 0) v \<Longrightarrow> uniq v \<Longrightarrow> payload_ok (map_put k v m)"
  by (auto simp: payload_ok_def dest: update_members)

lemma payload_ok_del [inv_intros]: "payload_ok m \<Longrightarrow> payload_ok (map_del k m)"
  using set_filter [of "\<lambda>(k', _). k \<noteq> k'" m] by (auto simp: payload_ok_def AList.delete_eq gomap_ok_def distinct_map_filter)

lemma payload_value: "payload_ok m \<Longrightarrow> map_get m k = Some v \<Longrightarrow> ValidString k \<and> value_ok (Suc 0) v \<and> uniq v"
  by (auto simp: payload_ok_def dest: map_of_SomeD)

lemma scalar_ok [simp]: "value_ok (Suc 0) (JBool b)" "value_ok (Suc 0) JNull" "value_ok (Suc 0) (JStr s) \<longleftrightarrow> ValidString s"
  by (simp_all add: value_ok_def maxNestingDepth_def)

lemma equivalentJSON_refl [simp]: "equivalentJSON raw raw"
  by (simp add: equivalentJSON_def split: option.splits)

end
