(* ===== verification/Cpa_Files.thy ===== *)
theory Cpa_Files
  imports Json_Document Go_Net
begin

text \<open>
  The pure part of the CPA synchronisation (\<^verbatim>\<open>internal/cpa/manager.go\<close>, \<^verbatim>\<open>auth_file_json.go\<close>): credentials,
  the names of their auth files, the JSON documents in those files, and the tests by which the manager
  recognises its own files.  A Go \<^verbatim>\<open>map[string]any\<close> read with \<^verbatim>\<open>UseNumber\<close> is a \<open>payload\<close>.
  \<^verbatim>\<open>json.MarshalIndent\<close> of such a map cannot fail, so the functions that only wrap it are total here.
\<close>

section \<open>Data\<close>

definition authMode :: string where "authMode = ''agent_identity_sidecar''"
definition pluginProviderID :: string where "pluginProviderID = ''codex-agent-identity''"
definition runtimeProviderID :: string where "runtimeProviderID = ''codex''"
definition legacyProviderID :: string where "legacyProviderID = ''codex''"
definition authFilePrefix :: string where "authFilePrefix = ''codex-agent-identity-''"
definition managedAuthSuffix :: string where "managedAuthSuffix = ''-agent-identity''"
definition sidecarClientKeyField :: string where "sidecarClientKeyField = ''sidecar_client_key''"

record Credential =
  crIdentityID :: string
  crClientKey :: string
  crUpstreamToken :: string
  crKind :: string
  crAccountID :: string
  crUserID :: string
  crEmail :: string
  crPlanType :: string
  crExpiresAt :: time
  crFedRAMP :: bool

definition identity_only :: "string \<Rightarrow> Credential" where
  "identity_only i = \<lparr>crIdentityID = i, crClientKey = [], crUpstreamToken = [], crKind = [], crAccountID = [], crUserID = [],
     crEmail = [], crPlanType = [], crExpiresAt = 0, crFedRAMP = False\<rparr>"

record authFileEntry =
  aeName :: string
  aeAuthIndex :: string

record managedAuthFile =
  mfIdentityID :: string
  mfRaw :: bytes

record AuthFileSnapshot =
  asName :: string
  asIdentityID :: string
  asRaw :: bytes
  asDisabled :: bool

record IdentityState =
  stSynced :: bool
  stDisabled :: bool
  stAuthFile :: string

datatype cpa_error =
    IdentityInvalid | ClientKeyInvalid | UpstreamTokenInvalid
  | ErrUnmanagedAuthFile | EncodeAuthFile | ReadPrevious | NotManaged | EncodeState
  | NameInvalid | SnapshotNameInvalid | NotSynchronized
  | RequestInvalid | ListInvalid | ForwardInvalid
  | StatusError int | TransportFailed | ReadFailed | ContextDone
  | NotPersisted cpa_error | NotVisible | StillPresent | NoAttempt
  | RoutingUnavailable | RoutingInvalid | RoutingAmbiguous

section \<open>Credentials\<close>

definition normalizeCredential :: "Credential \<Rightarrow> Credential" where
  "normalizeCredential c =
     \<lparr>crIdentityID = TrimSpace (crIdentityID c), crClientKey = TrimSpace (crClientKey c),
      crUpstreamToken = TrimSpace (crUpstreamToken c), crKind = ToLower (TrimSpace (crKind c)),
      crAccountID = TrimSpace (crAccountID c), crUserID = TrimSpace (crUserID c), crEmail = TrimSpace (crEmail c),
      crPlanType = ToLower (TrimSpace (crPlanType c)), crExpiresAt = crExpiresAt c, crFedRAMP = crFedRAMP c\<rparr>"

definition validateIdentityID :: "string \<Rightarrow> bool" where
  "validateIdentityID identityID =
     (let i = TrimSpace identityID in
      HasPrefix i ''agent-'' \<and> length i > length ''agent-'' \<and> list_all is_lower_hex (TrimPrefix i ''agent-''))"

definition line_chars :: string where "line_chars = [char_of (13 :: nat), char_of (10 :: nat)]"

definition validateCredential :: "Credential \<Rightarrow> cpa_error option" where
  "validateCredential c =
     (if \<not> validateIdentityID (crIdentityID c) then Some IdentityInvalid
      else if length (crClientKey c) < length ''cais_'' + 32 \<or> \<not> HasPrefix (crClientKey c) ''cais_'' \<or> ContainsAny (crClientKey c) line_chars
        then Some ClientKeyInvalid
      else if crUpstreamToken c = [] \<or> ContainsAny (crUpstreamToken c) line_chars then Some UpstreamTokenInvalid
      else None)"

section \<open>File names\<close>

definition file_char :: "char \<Rightarrow> bool" where
  "file_char c \<longleftrightarrow> is_lower c \<or> is_upper c \<or> is_digit c \<or> c \<in> set ''@._+-''"

fun sanitize_loop :: "string \<Rightarrow> string list \<Rightarrow> string" where
  "sanitize_loop result [] = result"
| "sanitize_loop result (r # rs) =
     (let result' =
        (case r of
           [c] \<Rightarrow> if file_char c then result @ [c] else if result \<noteq> [] \<and> \<not> HasSuffix result ''_'' then result @ ''_'' else result
         | _ \<Rightarrow> if result \<noteq> [] \<and> \<not> HasSuffix result ''_'' then result @ ''_'' else result)
      in if length result' \<ge> 160 then result' else sanitize_loop result' rs)"

definition sanitizeFilePart :: "string \<Rightarrow> string" where
  "sanitizeFilePart value = TrimBoth (sanitize_loop [] (runes (TrimSpace value))) ''._-+''"

definition legacyAuthFileName :: "string \<Rightarrow> string option" where
  "legacyAuthFileName identityID =
     (if \<not> validateIdentityID identityID then None
      else Some (authFilePrefix @ TrimPrefix (TrimSpace identityID) ''agent-'' @ ''.json''))"

definition workspace_prefix :: "crypto \<Rightarrow> string \<Rightarrow> string" where
  "workspace_prefix C account =
     (let accountID = TrimSpace account in if accountID = [] then [] else take 8 (hexSum256 C accountID) @ ''-'')"

definition authFileName :: "crypto \<Rightarrow> Credential \<Rightarrow> string option" where
  "authFileName C c =
     (if \<not> validateIdentityID (crIdentityID c) then None
      else let email = sanitizeFilePart (crEmail c); planType = sanitizeFilePart (ToLower (crPlanType c)) in
        if email = [] then legacyAuthFileName (crIdentityID c)
        else Some (''codex-'' @ workspace_prefix C (crAccountID c) @ email @
               (if planType = [] then [] else ''-'' @ planType) @ managedAuthSuffix @ ''.json''))"

text \<open>\<^verbatim>\<open>filepath.Base\<close> on a Unix system.\<close>

definition filepath_Base :: "string \<Rightarrow> string" where
  "filepath_Base path =
     (if path = [] then ''.''
      else let p = TrimRight path ''/'' in
        if p = [] then ''/'' else rev (takeWhile (\<lambda>c. c \<noteq> CHR ''/'') (rev p)))"

definition safeAuthFileName :: "string \<Rightarrow> string option" where
  "safeAuthFileName value =
     (let name = TrimSpace value in
      if name = [] \<or> name = ''.'' \<or> name = ''..'' \<or> filepath_Base name \<noteq> name \<or>
         ContainsAny name [CHR ''/'', backslash] \<or> \<not> HasSuffix (ToLower name) ''.json''
        then None
      else Some name)"

definition isCodexAuthFileName :: "string \<Rightarrow> bool" where
  "isCodexAuthFileName value =
     (let name = ToLower (TrimSpace value) in HasPrefix name ''codex-'' \<and> HasSuffix name ''.json'')"

definition add_candidate :: "string \<Rightarrow> bool \<Rightarrow> bool gomap \<Rightarrow> bool gomap" where
  "add_candidate value retryNotFound result =
     (case safeAuthFileName value of
        None \<Rightarrow> result
      | Some name \<Rightarrow>
          (case map_get result name of
             Some _ \<Rightarrow> if retryNotFound then map_put name True result else result
           | None \<Rightarrow> result @ [(name, retryNotFound)]))"

definition candidate_names :: "crypto \<Rightarrow> Credential \<Rightarrow> (string \<times> bool) list" where
  "candidate_names C c =
     (let email = sanitizeFilePart (crEmail c); planType = sanitizeFilePart (ToLower (crPlanType c));
          workspacePrefix = workspace_prefix C (crAccountID c);
          forms = [(workspacePrefix, True, True), (workspacePrefix, False, False), ([], True, True), ([], False, False)]
      in concat (map (\<lambda>withPlan. map (\<lambda>(workspace, suffix, retry404).
           (''codex-'' @ workspace @ email @ (if withPlan \<and> planType \<noteq> [] then ''-'' @ planType else []) @
              (if suffix then managedAuthSuffix else []) @ ''.json'', retry404)) forms) [True, False]))"

definition managedAuthFileCandidates :: "crypto \<Rightarrow> Credential \<Rightarrow> bool gomap" where
  "managedAuthFileCandidates C credential =
     (let c = normalizeCredential credential;
          legacy = (case legacyAuthFileName (crIdentityID c) of None \<Rightarrow> [] | Some n \<Rightarrow> [(n, True)]) in
      if \<not> validateIdentityID (crIdentityID c) then []
      else if sanitizeFilePart (crEmail c) = [] then fold (\<lambda>(n, r). add_candidate n r) legacy []
      else fold (\<lambda>(n, r). add_candidate n r) (candidate_names C c @ legacy) [])"

section \<open>Documents\<close>

definition base_payload :: "string \<Rightarrow> Credential \<Rightarrow> bool \<Rightarrow> payload" where
  "base_payload sidecarBaseURL c disabled =
     (let trimmed = TrimSpace (crEmail c);
          email = (if trimmed = [] then crIdentityID c @ ''@agent-identity.local'' else trimmed)
      in [(''type'', JStr pluginProviderID), (''auth_mode'', JStr authMode), (''auth_kind'', JStr ''oauth''),
          (''email'', JStr email), (''access_token'', JStr (crUpstreamToken c)), (sidecarClientKeyField, JStr (crClientKey c)),
          (''base_url'', JStr sidecarBaseURL), (''websockets'', JBool True), (''disabled'', JBool disabled),
          (''runtime_only'', JBool True), (''agent_identity_id'', JStr (crIdentityID c)),
          (''note'', JStr ''Agent Identity via sidecar'')])"

definition put_when :: "bool \<Rightarrow> string \<Rightarrow> json \<Rightarrow> payload \<Rightarrow> payload" where
  "put_when b k v m = (if b then map_put k v m else m)"

definition native_pat :: "Credential \<Rightarrow> payload \<Rightarrow> payload" where
  "native_pat c m =
     (if crKind c = ''personal_access_token''
      then map_del ''runtime_only'' (map_del ''base_url''
             (map_put ''note'' (JStr ''Codex Access Token (native CPA)'') (map_put ''type'' (JStr runtimeProviderID) m)))
      else m)"

definition credential_payload :: "string \<Rightarrow> Credential \<Rightarrow> bool \<Rightarrow> payload" where
  "credential_payload sidecarBaseURL c disabled =
     put_when (crFedRAMP c) ''fedramp'' (JBool True)
     (put_when (crExpiresAt c \<noteq> 0) ''expires_at'' (JStr (format_utc (crExpiresAt c)))
     (put_when (crPlanType c \<noteq> []) ''plan_type'' (JStr (ToLower (crPlanType c)))
     (put_when (crUserID c \<noteq> []) ''chatgpt_user_id'' (JStr (crUserID c))
     (put_when (crAccountID c \<noteq> []) ''account_id'' (JStr (crAccountID c))
     (native_pat c
     (put_when (crKind c \<noteq> []) ''credential_kind'' (JStr (crKind c)) (base_payload sidecarBaseURL c disabled)))))))"

definition credentialJSONWithDisabled :: "string \<Rightarrow> Credential \<Rightarrow> bool \<Rightarrow> bytes" where
  "credentialJSONWithDisabled sidecarBaseURL c disabled = MarshalIndent (credential_payload sidecarBaseURL c disabled)"

definition credentialJSON :: "string \<Rightarrow> Credential \<Rightarrow> bytes" where
  "credentialJSON sidecarBaseURL c = credentialJSONWithDisabled sidecarBaseURL c False"

definition managedCredentialIdentity :: "bytes \<Rightarrow> string option" where
  "managedCredentialIdentity raw =
     (case decodeJSONMap raw of
        None \<Rightarrow> None
      | Some payload \<Rightarrow>
          let payloadType = ToLower (TrimSpace (jsonStringValue (lookup payload ''type''))) in
          if (payloadType = pluginProviderID \<or> payloadType = legacyProviderID) \<and>
             EqualFold (TrimSpace (jsonStringValue (lookup payload ''auth_mode''))) authMode \<and>
             validateIdentityID (jsonStringValue (lookup payload ''agent_identity_id''))
          then Some (TrimSpace (jsonStringValue (lookup payload ''agent_identity_id''))) else None)"

definition isManagedCredential :: "bytes \<Rightarrow> string \<Rightarrow> bool" where
  "isManagedCredential raw identityID \<longleftrightarrow> managedCredentialIdentity raw = Some (TrimSpace identityID)"

definition managedCredentialDisabled :: "bytes \<Rightarrow> bool \<Rightarrow> bool" where
  "managedCredentialDisabled raw exists =
     (if \<not> exists then False
      else case decodeJSONMap raw of None \<Rightarrow> False | Some payload \<Rightarrow> boolValue (lookup payload ''disabled''))"

definition managedSidecarClientKey :: "payload \<Rightarrow> string" where
  "managedSidecarClientKey payload =
     (let key = TrimSpace (jsonStringValue (lookup payload sidecarClientKeyField)) in
      if key \<noteq> [] then key else TrimSpace (jsonStringValue (lookup payload ''access_token'')))"

definition matchingStringField :: "payload \<Rightarrow> string \<Rightarrow> string \<Rightarrow> bool \<Rightarrow> nat option" where
  "matchingStringField payload key value foldCase =
     (let want = TrimSpace value; got = TrimSpace (jsonStringValue (lookup payload key)) in
      if want = [] then Some 0
      else if got = [] then Some 2
      else if foldCase then (if EqualFold got want then Some 25 else None)
      else if got = want then Some 25 else None)"

definition key_points :: "payload \<Rightarrow> Credential \<Rightarrow> nat" where
  "key_points payload c =
     (if crClientKey c = [] then 0
      else if managedSidecarClientKey payload = crClientKey c then 1000
      else if managedSidecarClientKey payload \<noteq> [] then 1 else 0)"

definition managedCredentialMatchScore :: "bytes \<Rightarrow> Credential \<Rightarrow> nat option" where
  "managedCredentialMatchScore raw credential =
     (let c = normalizeCredential credential in
      if managedCredentialIdentity raw \<noteq> Some (crIdentityID c) then None
      else case decodeJSONMap raw of
        None \<Rightarrow> None
      | Some payload \<Rightarrow>
          Option.bind (matchingStringField payload ''account_id'' (crAccountID c) False) (\<lambda>p1.
          Option.bind (matchingStringField payload ''chatgpt_user_id'' (crUserID c) False) (\<lambda>p2.
          Option.bind (matchingStringField payload ''email'' (crEmail c) True) (\<lambda>p3.
          Option.bind (matchingStringField payload ''plan_type'' (crPlanType c) True) (\<lambda>p4.
          Option.bind (matchingStringField payload ''credential_kind'' (crKind c) True) (\<lambda>p5.
          Some (1 + key_points payload c + p1 + p2 + p3 + p4 + p5)))))))"

type_synonym managed_files = "managedAuthFile gomap"

definition file_raw :: "managed_files \<Rightarrow> string \<Rightarrow> bytes" where
  "file_raw files name = (case map_get files name of None \<Rightarrow> [] | Some f \<Rightarrow> mfRaw f)"

definition matchingManagedFileNames :: "managed_files \<Rightarrow> Credential \<Rightarrow> string list" where
  "matchingManagedFileNames files credential =
     sort (map fst (filter (\<lambda>(name, file). managedCredentialMatchScore (mfRaw file) credential \<noteq> None) files))"

text \<open>
  The candidates are in the order of their names, so the stable sort by falling score is the code's order.
\<close>

definition preferredManagedFile :: "crypto \<Rightarrow> managed_files \<Rightarrow> Credential \<Rightarrow> (string \<times> managedAuthFile) option" where
  "preferredManagedFile C files credential =
     (let c = normalizeCredential credential; names = matchingManagedFileNames files c;
          score = (\<lambda>name. case managedCredentialMatchScore (file_raw files name) c of None \<Rightarrow> 0 | Some n \<Rightarrow> n);
          chosen = (case authFileName C c of
             Some canonical \<Rightarrow> if canonical \<in> set names then canonical else hd (sort_key (\<lambda>n. - int (score n)) names)
           | None \<Rightarrow> hd (sort_key (\<lambda>n. - int (score n)) names))
      in if names = [] then None else map_option (Pair chosen) (map_get files chosen))"

definition snapshotsForCredential :: "managed_files \<Rightarrow> Credential \<Rightarrow> AuthFileSnapshot list" where
  "snapshotsForCredential files c =
     List.map_filter (\<lambda>name. map_option (\<lambda>file. \<lparr>asName = name, asIdentityID = mfIdentityID file, asRaw = mfRaw file,
         asDisabled = managedCredentialDisabled (mfRaw file) True\<rparr>) (map_get files name))
       (matchingManagedFileNames files c)"

definition managedCPAFieldKeys :: "string list" where
  "managedCPAFieldKeys =
     [''priority'', ''weight'', ''websockets'', ''proxy_url'', ''proxy-url'', ''headers'', ''model_aliases'', ''model-aliases'',
      ''excluded_models'', ''excluded-models'', ''request_retry'', ''request-retry'', ''prefix'', ''disable_cooling'',
      ''disable-cooling'', ''request_scoped_errors'', ''request-scoped-errors'', ''tool_prefix_disabled'',
      ''tool-prefix-disabled'', ''fingerprint_profile'', ''fingerprint-profile'', ''note'']"

definition merge_field :: "payload \<Rightarrow> string \<Rightarrow> payload \<Rightarrow> payload" where
  "merge_field prior key nxt =
     (case map_get prior key of
        None \<Rightarrow> nxt
      | Some value \<Rightarrow>
          if key = ''note'' \<and> TrimSpace (jsonStringValue value) = [] then nxt else map_put key value nxt)"

definition mergeManagedAuthFields :: "bytes \<Rightarrow> bytes \<Rightarrow> cpa_error + bytes" where
  "mergeManagedAuthFields nextRaw priorRaw =
     (case decodeJSONMap nextRaw of
        None \<Rightarrow> Inl EncodeAuthFile
      | Some nxt \<Rightarrow>
          (case decodeJSONMap priorRaw of
             None \<Rightarrow> Inl ReadPrevious
           | Some prior \<Rightarrow> Inr (MarshalIndent (fold (merge_field prior) managedCPAFieldKeys nxt))))"

definition setManagedCredentialDisabled :: "bytes \<Rightarrow> bool \<Rightarrow> cpa_error + bytes" where
  "setManagedCredentialDisabled raw disabled =
     (if managedCredentialIdentity raw = None then Inl NotManaged
      else case decodeJSONMap raw of
        None \<Rightarrow> Inl EncodeState
      | Some payload \<Rightarrow> Inr (MarshalIndent (map_put ''disabled'' (JBool disabled) payload)))"

definition disabledCredentialJSON :: "bytes \<Rightarrow> cpa_error + bytes" where
  "disabledCredentialJSON raw = setManagedCredentialDisabled raw True"

section \<open>Comparing documents\<close>

definition ParseBool :: "string \<Rightarrow> bool option" where
  "ParseBool s =
     (if s \<in> set [''1'', ''t'', ''T'', ''TRUE'', ''true'', ''True''] then Some True
      else if s \<in> set [''0'', ''f'', ''F'', ''FALSE'', ''false'', ''False''] then Some False else None)"

definition nativeWebsocketsValue :: "json \<Rightarrow> bool option" where
  "nativeWebsocketsValue v = (case v of JBool b \<Rightarrow> Some b | JStr s \<Rightarrow> ParseBool (TrimSpace s) | _ \<Rightarrow> None)"

definition jsonValuesEquivalent :: "string \<Rightarrow> json \<Rightarrow> json \<Rightarrow> bool" where
  "jsonValuesEquivalent key l r =
     (let ls = TrimSpace (jsonStringValue l); rs = TrimSpace (jsonStringValue r) in
      if key \<in> set [''plan_type'', ''credential_kind'', ''email''] then EqualFold ls rs
      else if key = ''expires_at'' then ls = rs
      else if key = ''websockets'' then nativeWebsocketsValue l \<noteq> None \<and> nativeWebsocketsValue l = nativeWebsocketsValue r
      else if key = ''fedramp'' then boolValue l = boolValue r
      else DeepEqual l r \<or> ls = rs)"

definition sameNormalizedString :: "payload \<Rightarrow> payload \<Rightarrow> string \<Rightarrow> bool \<Rightarrow> bool" where
  "sameNormalizedString actual expected key trimSlash =
     (let norm = (\<lambda>v. let s = TrimSpace (jsonStringValue v) in if trimSlash then TrimRight s ''/'' else s) in
      case map_get expected key of
        None \<Rightarrow> True
      | Some want \<Rightarrow> (case map_get actual key of None \<Rightarrow> False | Some got \<Rightarrow> norm got = norm want))"

definition sameBoolean :: "payload \<Rightarrow> payload \<Rightarrow> string \<Rightarrow> bool" where
  "sameBoolean actual expected key =
     (case map_get expected key of
        None \<Rightarrow> True
      | Some want \<Rightarrow> (case map_get actual key of None \<Rightarrow> False | Some got \<Rightarrow> boolValue got = boolValue want))"

definition same_field :: "payload \<Rightarrow> payload \<Rightarrow> string \<Rightarrow> bool" where
  "same_field actual expected key =
     (case map_get expected key of
        None \<Rightarrow> True
      | Some want \<Rightarrow> (case map_get actual key of None \<Rightarrow> False | Some got \<Rightarrow> jsonValuesEquivalent key got want))"

definition expiry_ok :: "payload \<Rightarrow> payload \<Rightarrow> bool" where
  "expiry_ok actual expected =
     (case map_get actual ''expired'' of
        None \<Rightarrow> True
      | Some a \<Rightarrow> (case map_get expected ''expired'' of None \<Rightarrow> False | Some e \<Rightarrow> jsonValuesEquivalent ''expires_at'' a e))"

definition runtime_mode_ok :: "Credential \<Rightarrow> payload \<Rightarrow> bool" where
  "runtime_mode_ok c actual =
     (if crKind c = ''personal_access_token''
      then \<not> boolValue (lookup actual ''runtime_only'') \<and> TrimSpace (jsonStringValue (lookup actual ''base_url'')) = []
      else (case map_get actual ''runtime_only'' of None \<Rightarrow> True | Some v \<Rightarrow> boolValue v))"

definition payload_matches :: "payload \<Rightarrow> Credential \<Rightarrow> payload \<Rightarrow> bool" where
  "payload_matches actual c expected \<longleftrightarrow>
     expiry_ok actual expected \<and>
     jsonStringValue (lookup actual ''type'') = jsonStringValue (lookup expected ''type'') \<and>
     EqualFold (jsonStringValue (lookup actual ''auth_mode'')) authMode \<and>
     TrimSpace (jsonStringValue (lookup actual ''agent_identity_id'')) = crIdentityID c \<and>
     (crClientKey c = [] \<or> managedSidecarClientKey actual = crClientKey c) \<and>
     (crUpstreamToken c = [] \<or> TrimSpace (jsonStringValue (lookup actual ''access_token'')) = crUpstreamToken c) \<and>
     sameNormalizedString actual expected ''base_url'' True \<and> sameBoolean actual expected ''disabled'' \<and>
     runtime_mode_ok c actual \<and>
     list_all (same_field actual expected)
       [''email'', ''account_id'', ''chatgpt_user_id'', ''plan_type'', ''credential_kind'', ''expires_at'', ''fedramp'', ''websockets'']"

definition managedCredentialMatches :: "bytes \<Rightarrow> Credential \<Rightarrow> bytes \<Rightarrow> bool" where
  "managedCredentialMatches raw c expectedRaw =
     (managedCredentialMatchScore raw c \<noteq> None \<and>
      (case (decodeJSONMap raw, decodeJSONMap expectedRaw) of
         (Some actual, Some expected) \<Rightarrow> payload_matches actual c expected
       | _ \<Rightarrow> False))"

definition managedCredentialStateMatches :: "bytes \<Rightarrow> Credential \<Rightarrow> bool \<Rightarrow> bool" where
  "managedCredentialStateMatches raw c disabled \<longleftrightarrow>
     managedCredentialMatchScore raw c \<noteq> None \<and> managedCredentialDisabled raw True = disabled"

section \<open>Entries of the auth-file list\<close>

definition normalizeJSONFieldName :: "string \<Rightarrow> string" where
  "normalizeJSONFieldName value =
     concat (filter (\<lambda>r. r \<notin> set (''_'' # ''-'' # space_encodings)) (runes (ToLower (TrimSpace value))))"

definition lookupJSONField :: "payload \<Rightarrow> string list \<Rightarrow> json option" where
  "lookupJSONField fs aliases =
     (case List.find (\<lambda>a. map_get fs a \<noteq> None) aliases of
        Some a \<Rightarrow> map_get fs a
      | None \<Rightarrow>
          (let wanted = map normalizeJSONFieldName aliases;
               keys = sort (filter (\<lambda>k. normalizeJSONFieldName k \<in> set wanted) (map fst fs))
           in if keys = [] then None else map_get fs (hd keys)))"

definition decodeJSONString :: "json \<Rightarrow> string option" where
  "decodeJSONString raw = (case raw of JNull \<Rightarrow> Some [] | JStr s \<Rightarrow> Some s | _ \<Rightarrow> None)"

definition decodeJSONStringOrNumber :: "json \<Rightarrow> string option" where
  "decodeJSONStringOrNumber raw = (case raw of JNull \<Rightarrow> Some [] | JStr s \<Rightarrow> Some s | JNum n \<Rightarrow> Some n | _ \<Rightarrow> None)"

definition UnmarshalJSON :: "authFileEntry decoder" where
  "UnmarshalJSON cur data =
     Option.bind (struct_keys data) (\<lambda>kvs.
     let fs = fold (\<lambda>(k, v) m. map_put k v m) kvs [] in
     Option.bind (case lookupJSONField fs [''name''] of None \<Rightarrow> Some [] | Some raw \<Rightarrow> decodeJSONString raw) (\<lambda>name.
     Option.bind (case lookupJSONField fs [''auth_index'', ''authIndex'', ''AuthIndex''] of
         None \<Rightarrow> Some [] | Some raw \<Rightarrow> decodeJSONStringOrNumber raw) (\<lambda>index.
     Some \<lparr>aeName = name, aeAuthIndex = index\<rparr>)))"

definition decode_files :: "bytes \<Rightarrow> authFileEntry list option" where
  "decode_files body =
     (case Decode body of
        StreamValue v rest \<Rightarrow>
          Option.bind (struct_keys v) (\<lambda>kvs. field (dec_list UnmarshalJSON \<lparr>aeName = [], aeAuthIndex = []\<rparr>) ''files'' kvs [])
      | _ \<Rightarrow> None)"

end
