(* ===== verification/Cpa_Documents.thy ===== *)
theory Cpa_Documents
  imports Cpa_Files
begin

text \<open>
  Properties of the auth-file names and documents: names stay inside the auth directory, what the
  manager writes it recognises, merging keeps what the CPA user set, switching a file off changes
  nothing else.
\<close>

section \<open>Names\<close>

lemma sanitize_loop_chars: "list_all file_char result \<Longrightarrow> list_all file_char (sanitize_loop result rs)"
proof (induction result rs rule: sanitize_loop.induct)
  case (2 result r rs)
  have "file_char (CHR ''_'')" by (simp add: file_char_def)
  with 2 show ?case by (auto simp: Let_def split: list.splits)
qed simp

lemma sanitize_loop_length: "length result < 160 \<Longrightarrow> length (sanitize_loop result rs) \<le> 160"
proof (induction result rs rule: sanitize_loop.induct)
  case (2 result r rs)
  then show ?case by (auto simp: Let_def split: list.splits)
qed simp

lemma TrimBoth_sublist: "set (TrimBoth s cs) \<subseteq> set s" "length (TrimBoth s cs) \<le> length s"
proof -
  have "length (dropWhile P (rev (dropWhile P s))) \<le> length s" for P
    by (metis length_dropWhile_le length_rev order_trans)
  then show "length (TrimBoth s cs) \<le> length s" by (simp add: TrimBoth_def TrimRight_def)
  show "set (TrimBoth s cs) \<subseteq> set s"
    by (auto simp: TrimBoth_def TrimRight_def dest!: set_dropWhileD)
qed

lemma sanitize_chars: "list_all file_char (sanitizeFilePart v)" "length (sanitizeFilePart v) \<le> 160"
  using TrimBoth_sublist [of "sanitize_loop [] (runes (TrimSpace v))" "''._-+''"]
    sanitize_loop_chars [of "[]" "runes (TrimSpace v)"] sanitize_loop_length [of "[]" "runes (TrimSpace v)"]
  by (auto simp: sanitizeFilePart_def list_all_iff)

lemma hex_file_char: "is_lower_hex c \<Longrightarrow> file_char c"
  by (auto simp: is_lower_hex_def file_char_def is_lower_def)

lemma file_char_ascii: "file_char c \<Longrightarrow> byte c < 128 \<and> \<not> space_byte c \<and> c \<noteq> CHR ''/'' \<and> c \<noteq> backslash"
  by (auto simp: file_char_def is_lower_def is_upper_def is_digit_def space_byte_def byte_def)

lemma workspace_chars: "list_all file_char (workspace_prefix C a)" "length (workspace_prefix C a) \<le> 9"
proof -
  have "file_char (CHR ''-'')" by (simp add: file_char_def)
  then show "list_all file_char (workspace_prefix C a)"
    by (auto simp: workspace_prefix_def Let_def list_all_iff hexSum256_def dest!: in_set_takeD hex_encode_lower intro: hex_file_char)
  show "length (workspace_prefix C a) \<le> 9" by (simp add: workspace_prefix_def Let_def)
qed

lemma ToLower_ascii: "\<forall>c \<in> set s. byte c < 128 \<Longrightarrow> ToLower s = map lower_byte s"
  by (induction s rule: ToLower.induct) (auto simp: byte_def)

lemma Base_plain: "s \<noteq> [] \<Longrightarrow> CHR ''/'' \<notin> set s \<Longrightarrow> filepath_Base s = s"
proof -
  assume s: "s \<noteq> []" "CHR ''/'' \<notin> set s"
  have "hd (rev s) \<noteq> CHR ''/''" using s by (metis hd_in_set rev_is_Nil_conv set_rev)
  then have "dropWhile (\<lambda>c. c = CHR ''/'') (rev s) = rev s" by (simp add: dropWhile_eq_self_iff)
  then have "TrimRight s ''/'' = s" by (simp add: TrimRight_def)
  moreover have "takeWhile (\<lambda>c. c \<noteq> CHR ''/'') (rev s) = rev s"
    using s by (intro takeWhile_eq_all_conv [THEN iffD2]) auto
  ultimately show ?thesis using s(1) unfolding filepath_Base_def Let_def by (simp only: if_False rev_rev_ident)
qed

lemma safe_name:
  assumes "list_all file_char p"
  shows "safeAuthFileName (''codex-'' @ p @ ''.json'') = Some (''codex-'' @ p @ ''.json'')"
    and "isCodexAuthFileName (''codex-'' @ p @ ''.json'')"
proof -
  let ?n = "''codex-'' @ p @ ''.json''"
  have chars: "\<forall>c \<in> set ?n. file_char c"
    using assms by (auto simp: list_all_iff) (simp_all add: file_char_def is_lower_def byte_def)
  then have ascii: "\<forall>c \<in> set ?n. byte c < 128" and plain: "\<forall>c \<in> set ?n. \<not> space_byte c"
    and slash: "CHR ''/'' \<notin> set ?n" "backslash \<notin> set ?n"
    using file_char_ascii by blast+
  have trim: "TrimSpace ?n = ?n" by (rule TrimSpace_plain [OF plain])
  have lower: "ToLower ?n = ''codex-'' @ map lower_byte p @ ''.json''"
    using ToLower_ascii [OF ascii] by (simp add: lower_byte_def is_upper_def byte_def)
  have base: "filepath_Base ?n = ?n" by (rule Base_plain) (use slash(1) in auto)
  have suf: "HasSuffix (ToLower ?n) ''.json''"
    unfolding lower HasSuffix_def by (metis append.assoc suffixI)
  show "safeAuthFileName ?n = Some ?n"
    using slash trim base suf by (auto simp: safeAuthFileName_def Let_def ContainsAny_def)
  show "isCodexAuthFileName ?n"
    unfolding isCodexAuthFileName_def Let_def trim using suf by (simp only: lower HasPrefix_append simp_thms)
qed

lemma valid_id_suffix: "validateIdentityID i \<Longrightarrow> list_all file_char (TrimPrefix (TrimSpace i) ''agent-'')"
  by (auto simp: validateIdentityID_def Let_def list_all_iff intro: hex_file_char)

lemma legacy_shape:
  "legacyAuthFileName i = Some n \<Longrightarrow> \<exists>p. n = ''codex-'' @ p @ ''.json'' \<and> list_all file_char p"
proof -
  assume "legacyAuthFileName i = Some n"
  then have v: "validateIdentityID i" and n: "n = authFilePrefix @ TrimPrefix (TrimSpace i) ''agent-'' @ ''.json''"
    by (auto simp: legacyAuthFileName_def split: if_splits)
  have "list_all file_char ''agent-identity-''" by (simp add: file_char_def is_lower_def byte_def)
  with valid_id_suffix [OF v] n show ?thesis
    by (intro exI [of _ "''agent-identity-'' @ TrimPrefix (TrimSpace i) ''agent-''"]) (simp add: authFilePrefix_def)
qed

lemma suffix_chars: "list_all file_char managedAuthSuffix" "file_char (CHR ''-'')"
  by (simp_all add: managedAuthSuffix_def file_char_def is_lower_def byte_def)

lemma authFileName_cases:
  assumes "authFileName C c = Some n"
  shows "sanitizeFilePart (crEmail c) = [] \<and> legacyAuthFileName (crIdentityID c) = Some n \<or>
    sanitizeFilePart (crEmail c) \<noteq> [] \<and>
    n = ''codex-'' @ (workspace_prefix C (crAccountID c) @ sanitizeFilePart (crEmail c) @
      (if sanitizeFilePart (ToLower (crPlanType c)) = [] then [] else ''-'' @ sanitizeFilePart (ToLower (crPlanType c))) @
      managedAuthSuffix) @ ''.json''"
  using assms by (auto simp: authFileName_def Let_def split: if_splits)

lemma authFileName_shape:
  assumes "authFileName C c = Some n"
  shows "\<exists>p. n = ''codex-'' @ p @ ''.json'' \<and> list_all file_char p"
  using authFileName_cases [OF assms] legacy_shape [of "crIdentityID c" n]
    workspace_chars(1) [of C "crAccountID c"] sanitize_chars(1) [of "crEmail c"]
    sanitize_chars(1) [of "ToLower (crPlanType c)"] suffix_chars
  by (elim disjE) (blast, force)

text \<open>
  Auth-file names stay inside CPA's auth directory.  Every name the manager computes for a credential passes
  its own name check (no path separator, no dot directory, the suffix \<^verbatim>\<open>.json\<close>), is a Codex auth-file name,
  consists of the allowed file characters, and, unless it is derived from the identity ID alone, has at
  most 356 bytes whatever the e-mail, plan and account are.
\<close>

theorem auth_file_names_are_safe:
  assumes "authFileName C c = Some n"
  shows "safeAuthFileName n = Some n \<and> isCodexAuthFileName n \<and> list_all file_char n \<and>
    (sanitizeFilePart (crEmail c) \<noteq> [] \<longrightarrow> length n \<le> 356)"
proof -
  obtain p where p: "n = ''codex-'' @ p @ ''.json''" "list_all file_char p" using authFileName_shape [OF assms] by blast
  have "list_all file_char ''codex-''" "list_all file_char ''.json''" by (simp_all add: file_char_def is_lower_def byte_def)
  moreover have "length n \<le> 356" if "sanitizeFilePart (crEmail c) \<noteq> []"
    using authFileName_cases [OF assms] that workspace_chars(2) [of C "crAccountID c"] sanitize_chars(2) [of "crEmail c"]
      sanitize_chars(2) [of "ToLower (crPlanType c)"] by (auto simp: managedAuthSuffix_def split: if_splits)
  ultimately show ?thesis using safe_name [OF p(2)] p by (simp add: list_all_append)
qed

section \<open>Documents\<close>

lemma plain_strings:
  "TrimSpace authMode = authMode" "TrimSpace pluginProviderID = pluginProviderID" "TrimSpace runtimeProviderID = runtimeProviderID"
  "ToLower pluginProviderID = pluginProviderID" "ToLower runtimeProviderID = runtimeProviderID"
  by (rule TrimSpace_plain, simp add: authMode_def pluginProviderID_def runtimeProviderID_def space_byte_def byte_def)+
     (simp add: pluginProviderID_def runtimeProviderID_def ToLower_ascii byte_def lower_byte_def is_upper_def)+

lemma legacy_provider: "legacyProviderID = runtimeProviderID"
  by (simp add: legacyProviderID_def runtimeProviderID_def)

text \<open>What the recogniser looks at does not depend on the order of keys.\<close>

lemma identity_payload:
  "decodeJSONMap raw = Some m \<Longrightarrow> managedCredentialIdentity raw =
     (let t = ToLower (TrimSpace (jsonStringValue (lookup m ''type''))) in
      if (t = pluginProviderID \<or> t = legacyProviderID) \<and> EqualFold (TrimSpace (jsonStringValue (lookup m ''auth_mode''))) authMode \<and>
         validateIdentityID (jsonStringValue (lookup m ''agent_identity_id''))
      then Some (TrimSpace (jsonStringValue (lookup m ''agent_identity_id''))) else None)"
  by (simp add: managedCredentialIdentity_def)

definition identity_keys :: "string list" where
  "identity_keys = [''type'', ''auth_mode'', ''agent_identity_id'', ''account_id'', ''chatgpt_user_id'', ''email'', ''plan_type'',
     ''credential_kind'', ''access_token'', ''sidecar_client_key'']"

lemma score_cong:
  assumes "decodeJSONMap a = Some m" "decodeJSONMap b = Some n"
    and "\<forall>k \<in> set identity_keys. jsonStringValue (lookup m k) = jsonStringValue (lookup n k)"
  shows "managedCredentialIdentity a = managedCredentialIdentity b"
    "managedCredentialMatchScore a c = managedCredentialMatchScore b c"
proof -
  have keys: "jsonStringValue (lookup m ''type'') = jsonStringValue (lookup n ''type'')"
    "jsonStringValue (lookup m ''auth_mode'') = jsonStringValue (lookup n ''auth_mode'')"
    "jsonStringValue (lookup m ''agent_identity_id'') = jsonStringValue (lookup n ''agent_identity_id'')"
    "jsonStringValue (lookup m ''account_id'') = jsonStringValue (lookup n ''account_id'')"
    "jsonStringValue (lookup m ''chatgpt_user_id'') = jsonStringValue (lookup n ''chatgpt_user_id'')"
    "jsonStringValue (lookup m ''email'') = jsonStringValue (lookup n ''email'')"
    "jsonStringValue (lookup m ''plan_type'') = jsonStringValue (lookup n ''plan_type'')"
    "jsonStringValue (lookup m ''credential_kind'') = jsonStringValue (lookup n ''credential_kind'')"
    "jsonStringValue (lookup m ''access_token'') = jsonStringValue (lookup n ''access_token'')"
    "jsonStringValue (lookup m sidecarClientKeyField) = jsonStringValue (lookup n sidecarClientKeyField)"
    using assms(3) by (simp_all add: identity_keys_def sidecarClientKeyField_def)
  show i: "managedCredentialIdentity a = managedCredentialIdentity b"
    by (simp only: identity_payload [OF assms(1)] identity_payload [OF assms(2)] keys)
  have f: "matchingStringField m k v f = matchingStringField n k v f" if "jsonStringValue (lookup m k) = jsonStringValue (lookup n k)" for k v f
    using that by (simp add: matchingStringField_def)
  have kp: "key_points m x = key_points n x" for x
    by (simp only: key_points_def managedSidecarClientKey_def keys)
  show "managedCredentialMatchScore a c = managedCredentialMatchScore b c"
    by (simp only: managedCredentialMatchScore_def i assms(1,2) option.case Let_def kp
        f [OF keys(4)] f [OF keys(5)] f [OF keys(6)] f [OF keys(7)] f [OF keys(8)])
qed

lemma same_field_refl: "k \<noteq> ''websockets'' \<Longrightarrow> same_field m m k"
  by (simp add: same_field_def jsonValuesEquivalent_def DeepEqual_def Let_def split: option.splits)

lemma matches_self:
  assumes "decodeJSONMap raw = Some m" "managedCredentialMatchScore raw c \<noteq> None"
    and "EqualFold (jsonStringValue (lookup m ''auth_mode'')) authMode"
    and "TrimSpace (jsonStringValue (lookup m ''agent_identity_id'')) = crIdentityID c"
    and "crClientKey c = [] \<or> managedSidecarClientKey m = crClientKey c"
    and "crUpstreamToken c = [] \<or> TrimSpace (jsonStringValue (lookup m ''access_token'')) = crUpstreamToken c"
    and "runtime_mode_ok c m" and "nativeWebsocketsValue (lookup m ''websockets'') \<noteq> None"
  shows "managedCredentialMatches raw c raw"
proof -
  have "same_field m m ''websockets''"
    using assms(8) by (simp add: same_field_def jsonValuesEquivalent_def lookup_def split: option.splits)
  moreover have "expiry_ok m m" by (simp add: expiry_ok_def jsonValuesEquivalent_def split: option.splits)
  moreover have "sameNormalizedString m m ''base_url'' True" "sameBoolean m m ''disabled''"
    by (simp_all add: sameNormalizedString_def sameBoolean_def split: option.splits)
  ultimately show ?thesis
    using assms by (simp add: managedCredentialMatches_def payload_matches_def same_field_refl)
qed

lemma plain_keys_valid:
  "ValidString ''fedramp''" "ValidString ''expires_at''" "ValidString ''plan_type''" "ValidString ''chatgpt_user_id''"
  "ValidString ''account_id''" "ValidString ''credential_kind''" "ValidString ''note''" "ValidString ''type''" "ValidString ''disabled''"
  "ValidString ''auth_mode''" "ValidString ''auth_kind''" "ValidString ''email''" "ValidString ''access_token''"
  "ValidString sidecarClientKeyField" "ValidString ''base_url''" "ValidString ''websockets''" "ValidString ''runtime_only''"
  "ValidString ''agent_identity_id''" "ValidString pluginProviderID" "ValidString runtimeProviderID" "ValidString authMode"
  "ValidString ''oauth''" "ValidString ''Agent Identity via sidecar''" "ValidString ''Codex Access Token (native CPA)''"
  "ValidString ''@agent-identity.local''"
  by (rule ascii_valid, simp add: byte_def sidecarClientKeyField_def pluginProviderID_def runtimeProviderID_def authMode_def)+

definition credential_text_ok :: "Credential \<Rightarrow> bool" where
  "credential_text_ok c \<longleftrightarrow> ValidString (crIdentityID c) \<and> ValidString (crClientKey c) \<and> ValidString (crUpstreamToken c) \<and>
     ValidString (crKind c) \<and> ValidString (crAccountID c) \<and> ValidString (crUserID c) \<and> ValidString (crEmail c) \<and> ValidString (crPlanType c)"

lemma put_when_ok [inv_intros]:
  "payload_ok m \<Longrightarrow> ValidString k \<Longrightarrow> value_ok (Suc 0) v \<Longrightarrow> uniq v \<Longrightarrow> payload_ok (put_when b k v m)"
  by (simp add: put_when_def payload_ok_put)

lemma base_payload_ok:
  assumes "normalizeCredential c = c" "credential_text_ok c" "ValidString base"
  shows "payload_ok (base_payload base c d)"
proof -
  have t: "TrimSpace (crEmail c) = crEmail c" using arg_cong [OF assms(1), of crEmail] by (simp add: normalizeCredential_def)
  have "ValidString (crIdentityID c @ ''@agent-identity.local'')"
    by (rule ValidString_append) (use assms(2) plain_keys_valid(25) in \<open>simp_all add: credential_text_ok_def del: ValidString.simps\<close>)
  then have e: "ValidString (if crEmail c = [] then crIdentityID c @ ''@agent-identity.local'' else crEmail c)"
    using assms(2) by (simp add: credential_text_ok_def del: ValidString.simps)
  then show ?thesis
    using assms plain_keys_valid
    by (simp add: payload_ok_def gomap_ok_def base_payload_def Let_def t credential_text_ok_def sidecarClientKeyField_def
        del: ValidString.simps split del: if_split)
qed

lemma credential_payload_ok:
  assumes "normalizeCredential c = c" "credential_text_ok c" "ValidString base"
  shows "payload_ok (credential_payload base c d)"
proof -
  have plan: "ToLower (crPlanType c) = crPlanType c"
    using arg_cong [OF assms(1), of crPlanType] by (simp add: normalizeCredential_def) (metis ToLower_idem)
  have v: "ValidString (crKind c)" "ValidString (crAccountID c)" "ValidString (crUserID c)" "ValidString (crPlanType c)"
    using assms(2) by (simp_all add: credential_text_ok_def)
  have pat: "payload_ok (native_pat c m)" if "payload_ok m" for m
    using that plain_keys_valid by (auto simp: native_pat_def simp del: ValidString.simps intro!: inv_intros)
  show ?thesis
    unfolding credential_payload_def plan
    by (intro inv_intros pat base_payload_ok assms plain_keys_valid scalar_ok(1) v [THEN scalar_ok(3) [THEN iffD2]]
        format_utc_valid [THEN scalar_ok(3) [THEN iffD2]] uniq.simps)
       simp_all
qed

lemma get_put_when [simp]: "map_get (put_when b k v m) k' = (if b \<and> k' = k then Some v else map_get m k')"
  by (simp add: put_when_def)

lemma get_native_pat:
  "map_get (native_pat c m) k =
     (if crKind c = ''personal_access_token'' then
        (if k = ''runtime_only'' \<or> k = ''base_url'' then None
         else if k = ''note'' then Some (JStr ''Codex Access Token (native CPA)'')
         else if k = ''type'' then Some (JStr runtimeProviderID) else map_get m k)
      else map_get m k)"
  by (auto simp: native_pat_def)

lemma get_base:
  "TrimSpace (crEmail c) = crEmail c \<Longrightarrow> map_get (base_payload base c d) ''type'' = Some (JStr pluginProviderID)"
  "map_get (base_payload base c d) ''auth_mode'' = Some (JStr authMode)"
  "map_get (base_payload base c d) ''agent_identity_id'' = Some (JStr (crIdentityID c))"
  "map_get (base_payload base c d) ''access_token'' = Some (JStr (crUpstreamToken c))"
  "map_get (base_payload base c d) ''sidecar_client_key'' = Some (JStr (crClientKey c))"
  "map_get (base_payload base c d) ''websockets'' = Some (JBool True)"
  "map_get (base_payload base c d) ''disabled'' = Some (JBool d)"
  "map_get (base_payload base c d) ''runtime_only'' = Some (JBool True)"
  "map_get (base_payload base c d) ''base_url'' = Some (JStr base)"
  "TrimSpace (crEmail c) \<noteq> [] \<Longrightarrow> map_get (base_payload base c d) ''email'' = Some (JStr (TrimSpace (crEmail c)))"
  by (simp_all add: base_payload_def Let_def sidecarClientKeyField_def)

lemma credential_lookup:
  fixes base :: string and d :: bool
  assumes "normalizeCredential c = c"
  defines "pat \<equiv> crKind c = ''personal_access_token''" and "m \<equiv> credential_payload base c d"
  shows "lookup m ''type'' = JStr (if pat then runtimeProviderID else pluginProviderID)"
    "lookup m ''auth_mode'' = JStr authMode" "lookup m ''agent_identity_id'' = JStr (crIdentityID c)"
    "lookup m ''access_token'' = JStr (crUpstreamToken c)" "lookup m sidecarClientKeyField = JStr (crClientKey c)"
    "lookup m ''websockets'' = JBool True" "lookup m ''disabled'' = JBool d"
    "lookup m ''runtime_only'' = (if pat then JNull else JBool True)" "lookup m ''base_url'' = (if pat then JNull else JStr base)"
    "map_get m ''runtime_only'' = (if pat then None else Some (JBool True))"
    "crEmail c \<noteq> [] \<Longrightarrow> lookup m ''email'' = JStr (crEmail c)"
    "crAccountID c \<noteq> [] \<Longrightarrow> lookup m ''account_id'' = JStr (crAccountID c)"
    "crUserID c \<noteq> [] \<Longrightarrow> lookup m ''chatgpt_user_id'' = JStr (crUserID c)"
    "crPlanType c \<noteq> [] \<Longrightarrow> lookup m ''plan_type'' = JStr (ToLower (crPlanType c))"
    "crKind c \<noteq> [] \<Longrightarrow> lookup m ''credential_kind'' = JStr (crKind c)"
proof -
  have e: "TrimSpace (crEmail c) = crEmail c" using arg_cong [OF assms(1), of crEmail] by (simp add: normalizeCredential_def)
  note defs = lookup_def m_def pat_def credential_payload_def get_native_pat get_base e sidecarClientKeyField_def
  show "lookup m ''type'' = JStr (if pat then runtimeProviderID else pluginProviderID)" by (simp add: defs)
  show "lookup m ''auth_mode'' = JStr authMode" by (simp add: defs)
  show "lookup m ''agent_identity_id'' = JStr (crIdentityID c)" by (simp add: defs)
  show "lookup m ''access_token'' = JStr (crUpstreamToken c)" by (simp add: defs)
  show "lookup m sidecarClientKeyField = JStr (crClientKey c)" by (simp add: defs)
  show "lookup m ''websockets'' = JBool True" by (simp add: defs)
  show "lookup m ''disabled'' = JBool d" by (simp add: defs)
  show "lookup m ''runtime_only'' = (if pat then JNull else JBool True)" by (simp add: defs)
  show "lookup m ''base_url'' = (if pat then JNull else JStr base)" by (simp add: defs)
  show "map_get m ''runtime_only'' = (if pat then None else Some (JBool True))" by (simp add: defs)
  show "crEmail c \<noteq> [] \<Longrightarrow> lookup m ''email'' = JStr (crEmail c)" by (simp add: defs)
  show "crAccountID c \<noteq> [] \<Longrightarrow> lookup m ''account_id'' = JStr (crAccountID c)" by (simp add: defs)
  show "crUserID c \<noteq> [] \<Longrightarrow> lookup m ''chatgpt_user_id'' = JStr (crUserID c)" by (simp add: defs)
  show "crPlanType c \<noteq> [] \<Longrightarrow> lookup m ''plan_type'' = JStr (ToLower (crPlanType c))" by (simp add: defs)
  show "crKind c \<noteq> [] \<Longrightarrow> lookup m ''credential_kind'' = JStr (crKind c)" by (simp add: defs)
qed

lemma matching_field_ok:
  assumes "TrimSpace want \<noteq> [] \<Longrightarrow> EqualFold (TrimSpace (jsonStringValue (lookup m k))) (TrimSpace want)"
    and "\<not> fc \<Longrightarrow> TrimSpace want \<noteq> [] \<Longrightarrow> TrimSpace (jsonStringValue (lookup m k)) = TrimSpace want"
  shows "\<exists>n. matchingStringField m k want fc = Some n"
  using assms by (auto simp: matchingStringField_def Let_def)

lemma own_document:
  assumes norm: "normalizeCredential c = c" and valid: "validateCredential c = None"
    and strs: "credential_text_ok c" "ValidString base"
  shows "managedCredentialIdentity (credentialJSONWithDisabled base c d) = Some (crIdentityID c) \<and>
    managedCredentialDisabled (credentialJSONWithDisabled base c d) True = d \<and>
    managedCredentialMatches (credentialJSONWithDisabled base c d) c (credentialJSONWithDisabled base c d)"
proof -
  define raw where "raw = credentialJSONWithDisabled base c d"
  let ?m = "credential_payload base c d"
  have ok: "payload_ok ?m" by (rule credential_payload_ok [OF norm strs])
  have dec: "decodeJSONMap raw = Some (sorted_payload ?m)"
    using decode_marshal [OF ok] by (simp add: raw_def credentialJSONWithDisabled_def)
  note look = lookup_sorted [OF payload_gomap [OF ok]]
  note get = sorted_payload_get [OF payload_gomap [OF ok]]
  note cl = credential_lookup [OF norm, of base d]
  have trims: "TrimSpace (crIdentityID c) = crIdentityID c" "TrimSpace (crClientKey c) = crClientKey c"
      "TrimSpace (crUpstreamToken c) = crUpstreamToken c"
    using arg_cong [OF norm, of crIdentityID] arg_cong [OF norm, of crClientKey] arg_cong [OF norm, of crUpstreamToken]
    by (simp_all add: normalizeCredential_def)
  have lower: "ToLower (crPlanType c) = crPlanType c"
    using arg_cong [OF norm, of crPlanType] by (simp add: normalizeCredential_def) (metis ToLower_idem)
  have v: "validateIdentityID (crIdentityID c)" "crClientKey c \<noteq> []" "crUpstreamToken c \<noteq> []"
    using valid by (auto simp: validateCredential_def split: if_splits)
  have js: "jsonStringValue (JStr s) = s" for s by (simp add: jsonStringValue_def)
  have id: "managedCredentialIdentity raw = Some (crIdentityID c)"
    unfolding identity_payload [OF dec] look cl(1-3) sort_keys.simps js Let_def
    using v(1) by (simp add: plain_strings trims legacy_provider)
  have nonempty: "TrimSpace s \<noteq> [] \<Longrightarrow> s \<noteq> []" for s by auto
  have "managedCredentialMatchScore raw c \<noteq> None"
  proof -
    have "\<exists>n. matchingStringField (sorted_payload ?m) ''account_id'' (crAccountID c) False = Some n"
      by (rule matching_field_ok; drule nonempty; simp add: look cl js)
    moreover have "\<exists>n. matchingStringField (sorted_payload ?m) ''chatgpt_user_id'' (crUserID c) False = Some n"
      by (rule matching_field_ok; drule nonempty; simp add: look cl js)
    moreover have "\<exists>n. matchingStringField (sorted_payload ?m) ''email'' (crEmail c) True = Some n"
      by (rule matching_field_ok; (drule nonempty)?; simp add: look cl js)
    moreover have "\<exists>n. matchingStringField (sorted_payload ?m) ''plan_type'' (crPlanType c) True = Some n"
      by (rule matching_field_ok; (drule nonempty)?; simp add: look cl js lower)
    moreover have "\<exists>n. matchingStringField (sorted_payload ?m) ''credential_kind'' (crKind c) True = Some n"
      by (rule matching_field_ok; (drule nonempty)?; simp add: look cl js)
    ultimately show ?thesis
      unfolding managedCredentialMatchScore_def norm Let_def dec id by (elim exE) simp
  qed
  moreover have "runtime_mode_ok c (sorted_payload ?m)"
    by (simp add: runtime_mode_ok_def look get cl boolValue_def jsonStringValue_def)
  moreover have "managedSidecarClientKey (sorted_payload ?m) = crClientKey c"
    using v(2) by (simp add: managedSidecarClientKey_def look cl js trims)
  moreover have "managedCredentialDisabled raw True = d"
    by (simp add: managedCredentialDisabled_def dec look cl boolValue_def)
  ultimately show ?thesis
    using id by (simp add: matches_self [OF dec] look cl js trims nativeWebsocketsValue_def flip: raw_def)
qed

lemmas own_document_id = own_document [THEN conjunct1]

text \<open>
  The manager recognises what it writes.  The document written for a normalised, valid credential
  reads back as managed by exactly that identity, with the disabled flag it was written with, and it
  passes the verification that an upsert performs after its upload.
\<close>

theorem own_document_is_recognised:
  assumes norm: "normalizeCredential c = c" and valid: "validateCredential c = None"
    and strs: "credential_text_ok c" "ValidString base"
  shows "managedCredentialIdentity (credentialJSONWithDisabled base c d) = Some (crIdentityID c) \<and>
    managedCredentialDisabled (credentialJSONWithDisabled base c d) True = d \<and>
    managedCredentialMatches (credentialJSONWithDisabled base c d) c (credentialJSONWithDisabled base c d)"
  by (rule own_document [OF assms])

lemma merge_fields:
  assumes "decodeJSONMap nextRaw = Some nxt" "decodeJSONMap priorRaw = Some prior"
  shows "\<exists>out m. mergeManagedAuthFields nextRaw priorRaw = Inr out \<and> decodeJSONMap out = Some m \<and>
    (\<forall>k. map_get m k = map_option sort_keys
       (if k \<in> set managedCPAFieldKeys \<and> map_get prior k \<noteq> None \<and>
           \<not> (k = ''note'' \<and> TrimSpace (jsonStringValue (lookup prior k)) = [])
        then map_get prior k else map_get nxt k))"
proof -
  have one: "payload_ok (merge_field prior key n)" if "payload_ok n" for key n
    using that payload_value [OF decode_ok [OF assms(2)], of key]
    by (auto simp: merge_field_def simp del: ValidString.simps split: option.splits intro!: inv_intros)
  have many: "payload_ok (fold (merge_field prior) ks n)" if "payload_ok n" for ks n
    using that by (induction ks arbitrary: n) (auto intro: one)
  have get: "map_get (fold (merge_field prior) ks n) k =
      (if k \<in> set ks \<and> map_get prior k \<noteq> None \<and> \<not> (k = ''note'' \<and> TrimSpace (jsonStringValue (lookup prior k)) = [])
       then map_get prior k else map_get n k)" if "distinct ks" for ks n k
    using that by (induction ks arbitrary: n) (auto simp: merge_field_def lookup_def split: option.splits)
  let ?r = "fold (merge_field prior) managedCPAFieldKeys nxt"
  have ok: "payload_ok ?r" by (rule many [OF decode_ok [OF assms(1)]])
  have "distinct managedCPAFieldKeys" by (simp add: managedCPAFieldKeys_def)
  with get have "map_get ?r k = (if k \<in> set managedCPAFieldKeys \<and> map_get prior k \<noteq> None \<and>
      \<not> (k = ''note'' \<and> TrimSpace (jsonStringValue (lookup prior k)) = []) then map_get prior k else map_get nxt k)" for k
    by blast
  with decode_marshal [OF ok] sorted_payload_get [OF payload_gomap [OF ok]] show ?thesis
    by (intro exI [of _ "MarshalIndent ?r"] exI [of _ "sorted_payload ?r"]) (simp add: mergeManagedAuthFields_def assms)
qed

text \<open>
  C19: synchronisation keeps what the CPA user set.  Merging reads back as the new document, except that every
  user-owned key the previous file had (a blank note aside) keeps its previous value, so for instance
  \<^verbatim>\<open>websockets=false\<close> survives; key order is the only difference (\<^term>\<open>sort_keys\<close>).
\<close>

theorem merge_keeps_user_fields:
  assumes "decodeJSONMap nextRaw = Some nxt" "decodeJSONMap priorRaw = Some prior"
  shows "\<exists>out m. mergeManagedAuthFields nextRaw priorRaw = Inr out \<and> decodeJSONMap out = Some m \<and>
    (\<forall>k. map_get m k = map_option sort_keys
       (if k \<in> set managedCPAFieldKeys \<and> map_get prior k \<noteq> None \<and>
           \<not> (k = ''note'' \<and> TrimSpace (jsonStringValue (lookup prior k)) = [])
        then map_get prior k else map_get nxt k))"
  by (rule merge_fields [OF assms])

text \<open>
  Switching a file off or on changes only the flag.  For every managed file, the rewritten document reads back
  with the requested flag, the same identity, the same match score for every credential, and every
  other key unchanged up to the order of nested keys.
\<close>

theorem disabling_changes_only_the_flag:
  assumes "decodeJSONMap raw = Some m" "managedCredentialIdentity raw \<noteq> None"
  shows "\<exists>out m'. setManagedCredentialDisabled raw d = Inr out \<and> decodeJSONMap out = Some m' \<and>
    managedCredentialDisabled out True = d \<and> managedCredentialIdentity out = managedCredentialIdentity raw \<and>
    (\<forall>c. managedCredentialMatchScore out c = managedCredentialMatchScore raw c) \<and>
    (\<forall>k. k \<noteq> ''disabled'' \<longrightarrow> map_get m' k = map_option sort_keys (map_get m k))"
proof -
  let ?m = "map_put ''disabled'' (JBool d) m"
  have ok: "payload_ok ?m"
    using decode_ok [OF assms(1)] plain_keys_valid by (intro inv_intros) (simp_all del: ValidString.simps)
  note dec = decode_marshal [OF ok] and look = lookup_sorted [OF payload_gomap [OF ok]]
  have "\<forall>k \<in> set identity_keys. jsonStringValue (lookup (sorted_payload ?m) k) = jsonStringValue (lookup m k)"
    by (simp add: look identity_keys_def)
  note cong = score_cong [OF dec assms(1) this]
  show ?thesis
    by (intro exI [of _ "MarshalIndent ?m"] exI [of _ "sorted_payload ?m"])
       (use assms in \<open>simp add: setManagedCredentialDisabled_def dec cong managedCredentialDisabled_def look boolValue_def
          sorted_payload_get [OF payload_gomap [OF ok]]\<close>)
qed

text \<open>
  A previous file whose \<^verbatim>\<open>websockets\<close> is not a boolean (a number, \<^verbatim>\<open>null\<close>, a text such as \<^verbatim>\<open>yes\<close>) makes its
  identity unsynchronisable: the merged document keeps that value, and no file content whatsoever passes the
  verification against it, not even the uploaded document itself.
\<close>

theorem foreign_websockets_never_verify:
  assumes "decodeJSONMap nextRaw = Some nxt" "decodeJSONMap priorRaw = Some prior"
    and "map_get prior ''websockets'' = Some v" "nativeWebsocketsValue v = None"
  shows "\<exists>body. mergeManagedAuthFields nextRaw priorRaw = Inr body \<and> (\<forall>raw c. \<not> managedCredentialMatches raw c body)"
proof -
  obtain body m where b: "mergeManagedAuthFields nextRaw priorRaw = Inr body" "decodeJSONMap body = Some m"
      "map_get m ''websockets'' = Some (sort_keys v)"
    using merge_fields [OF assms(1,2)] assms(3) by (fastforce simp: managedCPAFieldKeys_def)
  have "nativeWebsocketsValue (sort_keys v) = None" using assms(4) by (cases v) (simp_all add: nativeWebsocketsValue_def)
  then have "\<not> same_field actual m ''websockets''" for actual
    using b(3) by (auto simp: same_field_def jsonValuesEquivalent_def split: option.splits)
  with b show ?thesis by (auto simp: managedCredentialMatches_def payload_matches_def split: option.splits)
qed

section \<open>Witnesses\<close>

definition demo_credential :: Credential where
  "demo_credential = (identity_only ''agent-0a'')\<lparr>crClientKey := ''cais_'' @ replicate 32 (CHR ''0''), crUpstreamToken := ''at-1'',
     crEmail := ''a@b.c''\<rparr>"

lemma demo_credential_ok:
  "normalizeCredential demo_credential = demo_credential" "validateCredential demo_credential = None" "credential_text_ok demo_credential"
proof -
  have t: "TrimSpace ''agent-0a'' = ''agent-0a''" "TrimSpace (''cais_'' @ replicate 32 (CHR ''0'')) = ''cais_'' @ replicate 32 (CHR ''0'')"
    "TrimSpace ''at-1'' = ''at-1''" "TrimSpace ''a@b.c'' = ''a@b.c''"
    by (rule TrimSpace_plain, simp add: space_byte_def byte_def)+
  have v: "ValidString ''agent-0a''" "ValidString (''cais_'' @ replicate 32 (CHR ''0''))" "ValidString ''at-1''" "ValidString ''a@b.c''"
    by (rule ascii_valid, simp add: byte_def)+
  show "normalizeCredential demo_credential = demo_credential"
    using t by (simp add: normalizeCredential_def demo_credential_def identity_only_def del: append.simps)
  show "credential_text_ok demo_credential"
    using v by (simp add: credential_text_ok_def demo_credential_def identity_only_def del: append.simps ValidString.simps) simp
  have "validateIdentityID ''agent-0a''"
    by (simp add: validateIdentityID_def t HasPrefix_def TrimPrefix_def is_lower_hex_def is_digit_def byte_def)
  then show "validateCredential demo_credential = None"
    by (simp add: validateCredential_def demo_credential_def identity_only_def HasPrefix_def ContainsAny_def line_chars_def char_of_def)
qed

theorem own_document_is_recognised_witness:
  "managedCredentialIdentity (credentialJSONWithDisabled ''http://s/backend-api/codex'' demo_credential True) = Some ''agent-0a'' \<and>
   managedCredentialDisabled (credentialJSONWithDisabled ''http://s/backend-api/codex'' demo_credential True) True"
proof -
  have "ValidString ''http://s/backend-api/codex''" by (rule ascii_valid) (simp add: byte_def)
  from own_document_is_recognised [OF demo_credential_ok this, of True] show ?thesis
    by (simp add: demo_credential_def identity_only_def)
qed

theorem auth_file_names_are_safe_witness:
  "authFileName demo_crypto demo_credential = Some ''codex-a@b.c-agent-identity.json'' \<and>
   safeAuthFileName ''codex-a@b.c-agent-identity.json'' = Some ''codex-a@b.c-agent-identity.json''"
proof -
  have "TrimSpace ''a@b.c'' = ''a@b.c''" by (rule TrimSpace_plain, simp add: space_byte_def byte_def)
  moreover have "runes ''a@b.c'' = [''a'', ''@'', ''b'', ''.'', ''c'']" by (simp add: byte_def)
  moreover have "sanitize_loop [] [''a'', ''@'', ''b'', ''.'', ''c''] = ''a@b.c''" by code_simp
  ultimately have "sanitizeFilePart ''a@b.c'' = ''a@b.c''" by (simp add: sanitizeFilePart_def TrimBoth_def TrimRight_def)
  moreover have "sanitizeFilePart [] = []" by (simp add: sanitizeFilePart_def TrimBoth_def TrimRight_def)
  moreover have "validateIdentityID (crIdentityID demo_credential)"
    using demo_credential_ok(2) by (simp add: validateCredential_def split: if_splits)
  ultimately have n: "authFileName demo_crypto demo_credential = Some ''codex-a@b.c-agent-identity.json''"
    by (simp add: authFileName_def demo_credential_def identity_only_def workspace_prefix_def managedAuthSuffix_def)
  from auth_file_names_are_safe [OF n] n show ?thesis by simp
qed

lemma demo_documents:
  "decodeJSONMap (MarshalIndent [(''websockets'', JBool True)]) = Some [(''websockets'', JBool True)]"
  "decodeJSONMap (MarshalIndent [(''websockets'', JStr ''yes'')]) = Some [(''websockets'', JStr ''yes'')]"
proof -
  have y: "ValidString ''yes''" by (rule ascii_valid) (simp add: byte_def)
  have ok: "payload_ok [(''websockets'', JBool True)]" "payload_ok [(''websockets'', JStr ''yes'')]"
    using plain_keys_valid(16) y by (simp_all add: payload_ok_def gomap_ok_def del: ValidString.simps)
  show "decodeJSONMap (MarshalIndent [(''websockets'', JBool True)]) = Some [(''websockets'', JBool True)]"
    "decodeJSONMap (MarshalIndent [(''websockets'', JStr ''yes'')]) = Some [(''websockets'', JStr ''yes'')]"
    using ok [THEN decode_marshal] by (simp_all add: sorted_payload_def)
qed

theorem merge_keeps_user_fields_witness:
  "\<exists>out m. mergeManagedAuthFields (MarshalIndent [(''websockets'', JBool True)]) (MarshalIndent [(''websockets'', JStr ''yes'')]) = Inr out \<and>
     decodeJSONMap out = Some m \<and> map_get m ''websockets'' = Some (JStr ''yes'')"
  using merge_keeps_user_fields [OF demo_documents] by (fastforce simp: managedCPAFieldKeys_def)

theorem foreign_websockets_never_verify_witness:
  "\<exists>body. mergeManagedAuthFields (MarshalIndent [(''websockets'', JBool True)]) (MarshalIndent [(''websockets'', JStr ''yes'')]) = Inr body \<and>
     (\<forall>raw c. \<not> managedCredentialMatches raw c body)"
proof (rule foreign_websockets_never_verify [OF demo_documents])
  have "TrimSpace ''yes'' = ''yes''" by (rule TrimSpace_plain, simp add: space_byte_def byte_def)
  then show "nativeWebsocketsValue (JStr ''yes'') = None" by (simp add: nativeWebsocketsValue_def ParseBool_def)
qed simp

theorem disabling_changes_only_the_flag_witness:
  "\<exists>out. setManagedCredentialDisabled (credentialJSON ''http://s/backend-api/codex'' demo_credential) True = Inr out \<and>
     managedCredentialDisabled out True"
proof -
  have s: "ValidString ''http://s/backend-api/codex''" by (rule ascii_valid) (simp add: byte_def)
  let ?raw = "credentialJSON ''http://s/backend-api/codex'' demo_credential"
  have "decodeJSONMap ?raw = Some (sorted_payload (credential_payload ''http://s/backend-api/codex'' demo_credential False))"
    using decode_marshal [OF credential_payload_ok [OF demo_credential_ok(1,3) s, of False]]
    by (simp add: credentialJSON_def credentialJSONWithDisabled_def)
  moreover have "managedCredentialIdentity ?raw \<noteq> None"
    using own_document_id [OF demo_credential_ok s, of False] by (simp add: credentialJSON_def)
  ultimately show ?thesis using disabling_changes_only_the_flag [of ?raw _ True] by blast
qed

end
