(* ===== verification/Cpa_Api.thy ===== *)
theory Cpa_Api
  imports Cpa_Documents Go_Url
begin

text \<open>
  The requests of the CPA manager (\<^verbatim>\<open>internal/cpa/manager.go\<close>): the four calls of the management API with
  their retries, and the two loops that poll until an update is visible.

  CPA itself is not under the repository: \<open>'w api\<close> maps a request, the time and the state of the outside world
  to an outcome, the time the exchange took and a new state.  Time is in nanoseconds on a clock that only
  runs forward.  A context is the instant at which it is done (its deadline or its cancellation), \<^verbatim>\<open>None\<close> if never.
  Sleeping takes exactly the requested time unless the context ends first.
\<close>

section \<open>Exchanges, time and contexts\<close>

record management_request =
  mqMethod :: string
  mqURL :: url
  mqHeader :: "(string \<times> string) list"
  mqBody :: bytes

text \<open>
  \<^verbatim>\<open>ExBad\<close> is a failing \<^verbatim>\<open>http.NewRequestWithContext\<close>.  Every other error of \<^verbatim>\<open>client.Do\<close> is a \<^verbatim>\<open>*url.Error\<close> and so
  a \<^verbatim>\<open>net.Error\<close>; the flag says whether it is the context's error.  An answer carries the error that reading
  its body ends with, should the body not be readable.
\<close>

datatype exchange = ExBad | ExFailed bool | ExAnswer response cpa_error

type_synonym ctx = "nat option"
type_synonym 'w api = "ctx \<Rightarrow> management_request \<Rightarrow> nat \<Rightarrow> 'w \<Rightarrow> exchange \<times> nat \<times> 'w"

record 'w env =
  clk :: nat
  wld :: 'w

type_synonym ('a, 'w) act = "'w env \<Rightarrow> (cpa_error + 'a) \<times> 'w env"

definition client_Do :: "'w api \<Rightarrow> ctx \<Rightarrow> management_request \<Rightarrow> 'w env \<Rightarrow> exchange \<times> 'w env" where
  "client_Do api ctx rq e = (case api ctx rq (clk e) (wld e) of (x, dt, w) \<Rightarrow> (x, \<lparr>clk = clk e + dt, wld = w\<rparr>))"

definition ctx_done :: "ctx \<Rightarrow> 'w env \<Rightarrow> bool" where
  "ctx_done ctx e = (case ctx of None \<Rightarrow> False | Some t \<Rightarrow> t \<le> clk e)"

definition WithTimeout :: "ctx \<Rightarrow> nat \<Rightarrow> 'w env \<Rightarrow> nat" where
  "WithTimeout ctx d e = (case ctx of None \<Rightarrow> clk e + d | Some t \<Rightarrow> min t (clk e + d))"

definition millisecond :: nat where "millisecond = 10 ^ 6"
definition managementRetryAttempts :: nat where "managementRetryAttempts = 4"
definition managementRetryInitial :: nat where "managementRetryInitial = 75 * millisecond"
definition managementRetryMaximum :: nat where "managementRetryMaximum = 500 * millisecond"
definition managementVerifyWindow :: nat where "managementVerifyWindow = 5000 * millisecond"

definition waitManagementRetry :: "ctx \<Rightarrow> nat \<Rightarrow> 'w env \<Rightarrow> bool \<times> 'w env" where
  "waitManagementRetry ctx delay e =
     (case ctx of
        None \<Rightarrow> (True, e\<lparr>clk := clk e + delay\<rparr>)
      | Some t \<Rightarrow> if clk e + delay < t then (True, e\<lparr>clk := clk e + delay\<rparr>) else (False, e\<lparr>clk := max (clk e) t\<rparr>))"

fun delay_loop :: "nat \<Rightarrow> nat \<Rightarrow> nat" where
  "delay_loop 0 delay = min delay managementRetryMaximum"
| "delay_loop (Suc n) delay =
     (if delay < managementRetryMaximum
      then (if delay > managementRetryMaximum div 2 then managementRetryMaximum else delay_loop n (delay * 2))
      else min delay managementRetryMaximum)"

definition managementRetryDelay :: "nat \<Rightarrow> nat" where
  "managementRetryDelay attempt = delay_loop attempt managementRetryInitial"

fun retryableManagementError :: "cpa_error \<Rightarrow> bool \<Rightarrow> bool" where
  "retryableManagementError (StatusError status) retryNotFound =
     (if status = 404 then retryNotFound else status \<in> {408, 425, 429} \<or> status \<ge> 500)"
| "retryableManagementError TransportFailed retryNotFound = True"
| "retryableManagementError (NotPersisted err) retryNotFound = retryableManagementError err retryNotFound"
| "retryableManagementError _ retryNotFound = False"

section \<open>The manager and its requests\<close>

record CpaManager =
  cmBaseURL :: url
  cmManagementKey :: string
  cmSidecarBaseURL :: string

datatype manager_error = SettingsRequired | ManagementURLInvalid | ManagementScheme | SidecarInvalid | SidecarAbsolute | SidecarPath

definition normalizeSidecarBaseURL :: "string \<Rightarrow> manager_error + string" where
  "normalizeSidecarBaseURL value =
     (case url_Parse (TrimRight (TrimSpace value) ''/'') of
        None \<Rightarrow> Inl SidecarInvalid
      | Some p \<Rightarrow>
          let scheme = ToLower (TrimSpace (Scheme p)) in
          if HasUser p \<or> RawQuery p \<noteq> [] \<or> Fragment p \<noteq> [] \<or> ForceQuery p \<or> Opaque p \<noteq> [] then Inl SidecarInvalid
          else if scheme \<noteq> ''http'' \<and> scheme \<noteq> ''https'' \<or> Host p = [] \<or> Hostname p = [] then Inl SidecarAbsolute
          else if EscapedPath p \<noteq> ''/backend-api/codex'' then Inl SidecarPath
          else Inr (url_String (p\<lparr>Scheme := scheme\<rparr>)))"

definition NewCpaManager :: "string \<Rightarrow> string \<Rightarrow> string \<Rightarrow> manager_error + CpaManager" where
  "NewCpaManager rawBaseURL managementKey sidecarBaseURL =
     (let base = TrimRight (TrimSpace rawBaseURL) ''/''; key = TrimSpace managementKey;
          sidecar = TrimRight (TrimSpace sidecarBaseURL) ''/'' in
      if base = [] \<or> key = [] \<or> sidecar = [] then Inl SettingsRequired
      else case url_Parse base of
        None \<Rightarrow> Inl ManagementURLInvalid
      | Some parsed \<Rightarrow>
          if Scheme parsed = [] \<or> Host parsed = [] then Inl ManagementURLInvalid
          else if Scheme parsed \<noteq> ''http'' \<and> Scheme parsed \<noteq> ''https'' then Inl ManagementScheme
          else case normalizeSidecarBaseURL sidecar of
            Inl err \<Rightarrow> Inl err
          | Inr url \<Rightarrow> Inr \<lparr>cmBaseURL = parsed, cmManagementKey = key, cmSidecarBaseURL = url\<rparr>)"

definition newRequest :: "CpaManager \<Rightarrow> string \<Rightarrow> string \<Rightarrow> bytes \<Rightarrow> string \<Rightarrow> management_request" where
  "newRequest m method endpoint body name =
     (let base = cmBaseURL m; query = Query base;
          query' = (if name \<noteq> [] then map_put ''name'' [name] query else query)
      in \<lparr>mqMethod = method,
          mqURL = base\<lparr>Path := TrimRight (Path base) ''/'' @ endpoint, RawQuery := Encode query'\<rparr>,
          mqHeader = [(''Authorization'', ''Bearer '' @ cmManagementKey m), (''Accept'', ''application/json'')],
          mqBody = body\<rparr>)"

definition json_content :: "management_request \<Rightarrow> management_request" where
  "json_content rq = rq\<lparr>mqHeader := mqHeader rq @ [(''Content-Type'', ''application/json'')]\<rparr>"

datatype ProbeState = ProbeStateReady | ProbeStateNotConfigured | ProbeStateUnauthorized | ProbeStateUnreachable | ProbeStateError

record ProbeResult =
  prConfigured :: bool
  prReachable :: bool
  prState :: ProbeState

definition mebi :: nat where "mebi = 1048576"

definition Probe :: "CpaManager option \<Rightarrow> 'w api \<Rightarrow> ctx \<Rightarrow> 'w env \<Rightarrow> ProbeResult \<times> 'w env" where
  "Probe manager api ctx e =
     (case manager of
        None \<Rightarrow> (\<lparr>prConfigured = False, prReachable = False, prState = ProbeStateNotConfigured\<rparr>, e)
      | Some m \<Rightarrow>
          (case client_Do api ctx (newRequest m ''GET'' ''/auth-files'' [] []) e of
             (ExBad, e') \<Rightarrow> (\<lparr>prConfigured = True, prReachable = False, prState = ProbeStateError\<rparr>, e')
           | (ExFailed _, e') \<Rightarrow> (\<lparr>prConfigured = True, prReachable = False, prState = ProbeStateUnreachable\<rparr>, e')
           | (ExAnswer r _, e') \<Rightarrow>
               (\<lparr>prConfigured = True, prReachable = True,
                 prState = (if rsStatus r = 401 \<or> rsStatus r = 403 then ProbeStateUnauthorized
                   else if rsStatus r = 200 then
                     (if Option.bind (LimitReader (4 * mebi) r) decode_files = None then ProbeStateError else ProbeStateReady)
                   else ProbeStateError)\<rparr>, e')))"

section \<open>Retries\<close>

datatype 'a attempt = Finish "cpa_error + 'a" | Again cpa_error

fun retry_loop :: "(nat \<Rightarrow> 'w env \<Rightarrow> 'a attempt \<times> 'w env) \<Rightarrow> ctx \<Rightarrow> bool \<Rightarrow> nat \<Rightarrow> nat \<Rightarrow> ('a, 'w) act" where
  "retry_loop once ctx retryNotFound attempt 0 e = (Inl NoAttempt, e)"
| "retry_loop once ctx retryNotFound attempt (Suc left) e =
     (case once attempt e of
        (Finish r, e') \<Rightarrow> (r, e')
      | (Again err, e') \<Rightarrow>
          if left = 0 \<or> \<not> retryableManagementError err retryNotFound then (Inl err, e')
          else case waitManagementRetry ctx (managementRetryDelay attempt) e' of
            (False, e'') \<Rightarrow> (Inl ContextDone, e'')
          | (True, e'') \<Rightarrow> retry_loop once ctx retryNotFound (Suc attempt) left e'')"

definition do_error :: "bool \<Rightarrow> cpa_error" where
  "do_error isContext = (if isContext then ContextDone else TransportFailed)"

definition list_once :: "CpaManager \<Rightarrow> 'w api \<Rightarrow> ctx \<Rightarrow> nat \<Rightarrow> 'w env \<Rightarrow> authFileEntry list attempt \<times> 'w env" where
  "list_once m api ctx attempt e =
     (case client_Do api ctx (newRequest m ''GET'' ''/auth-files'' [] []) e of
        (ExBad, e') \<Rightarrow> (Finish (Inl RequestInvalid), e')
      | (ExFailed c, e') \<Rightarrow> (Again (do_error c), e')
      | (ExAnswer r _, e') \<Rightarrow>
          if rsStatus r \<noteq> 200 then (Again (StatusError (rsStatus r)), e')
          else case Option.bind (LimitReader (4 * mebi) r) decode_files of
            None \<Rightarrow> (Finish (Inl ListInvalid), e')
          | Some items \<Rightarrow> (Finish (Inr (sort_key aeName items)), e'))"

definition listAuthFileEntries :: "CpaManager \<Rightarrow> 'w api \<Rightarrow> ctx \<Rightarrow> (authFileEntry list, 'w) act" where
  "listAuthFileEntries m api ctx = retry_loop (list_once m api ctx) ctx False 0 managementRetryAttempts"

definition download_once :: "CpaManager \<Rightarrow> 'w api \<Rightarrow> ctx \<Rightarrow> string \<Rightarrow> bool \<Rightarrow> nat \<Rightarrow> 'w env \<Rightarrow> bytes option attempt \<times> 'w env" where
  "download_once m api ctx name retryNotFound attempt e =
     (case client_Do api ctx (newRequest m ''GET'' ''/auth-files/download'' [] name) e of
        (ExBad, e') \<Rightarrow> (Finish (Inl RequestInvalid), e')
      | (ExFailed c, e') \<Rightarrow> (Again (do_error c), e')
      | (ExAnswer r readError, e') \<Rightarrow>
          if rsStatus r = 404 then
            (if \<not> retryNotFound \<or> attempt + 1 \<ge> managementRetryAttempts then (Finish (Inr None), e')
             else (Again (StatusError 404), e'))
          else if rsStatus r \<noteq> 200 then (Again (StatusError (rsStatus r)), e')
          else case LimitReader (4 * mebi) r of
            None \<Rightarrow> (Again readError, e')
          | Some raw \<Rightarrow> (Finish (Inr (Some raw)), e'))"

definition downloadAuthFileWithOptions :: "CpaManager \<Rightarrow> 'w api \<Rightarrow> ctx \<Rightarrow> string \<Rightarrow> bool \<Rightarrow> (bytes option, 'w) act" where
  "downloadAuthFileWithOptions m api ctx name retryNotFound e =
     (if safeAuthFileName name = None then (Inl NameInvalid, e)
      else retry_loop (download_once m api ctx name retryNotFound) ctx retryNotFound 0 managementRetryAttempts e)"

definition downloadAuthFile :: "CpaManager \<Rightarrow> 'w api \<Rightarrow> ctx \<Rightarrow> string \<Rightarrow> (bytes option, 'w) act" where
  "downloadAuthFile m api ctx name = downloadAuthFileWithOptions m api ctx name True"

definition upload_once :: "CpaManager \<Rightarrow> 'w api \<Rightarrow> ctx \<Rightarrow> string \<Rightarrow> bytes \<Rightarrow> nat \<Rightarrow> 'w env \<Rightarrow> unit attempt \<times> 'w env" where
  "upload_once m api ctx name raw attempt e =
     (case client_Do api ctx (json_content (newRequest m ''POST'' ''/auth-files'' raw name)) e of
        (ExBad, e') \<Rightarrow> (Finish (Inl RequestInvalid), e')
      | (ExFailed c, e') \<Rightarrow> (Again (do_error c), e')
      | (ExAnswer r _, e') \<Rightarrow>
          if success_status (rsStatus r) then (Finish (Inr ()), e') else (Again (StatusError (rsStatus r)), e'))"

definition uploadAuthFile :: "CpaManager \<Rightarrow> 'w api \<Rightarrow> ctx \<Rightarrow> string \<Rightarrow> bytes \<Rightarrow> (unit, 'w) act" where
  "uploadAuthFile m api ctx name raw e =
     (if safeAuthFileName name = None then (Inl NameInvalid, e)
      else retry_loop (upload_once m api ctx name raw) ctx False 0 managementRetryAttempts e)"

definition delete_once :: "CpaManager \<Rightarrow> 'w api \<Rightarrow> ctx \<Rightarrow> string \<Rightarrow> nat \<Rightarrow> 'w env \<Rightarrow> unit attempt \<times> 'w env" where
  "delete_once m api ctx name attempt e =
     (case client_Do api ctx (newRequest m ''DELETE'' ''/auth-files'' [] name) e of
        (ExBad, e') \<Rightarrow> (Finish (Inl RequestInvalid), e')
      | (ExFailed c, e') \<Rightarrow> (Again (do_error c), e')
      | (ExAnswer r _, e') \<Rightarrow>
          if rsStatus r = 404 \<or> success_status (rsStatus r) then (Finish (Inr ()), e') else (Again (StatusError (rsStatus r)), e'))"

definition deleteAuthFile :: "CpaManager \<Rightarrow> 'w api \<Rightarrow> ctx \<Rightarrow> string \<Rightarrow> (unit, 'w) act" where
  "deleteAuthFile m api ctx name e =
     (if safeAuthFileName name = None then (Inl NameInvalid, e)
      else retry_loop (delete_once m api ctx name) ctx False 0 managementRetryAttempts e)"

definition ForwardAPICall :: "CpaManager \<Rightarrow> 'w api \<Rightarrow> ctx \<Rightarrow> bytes \<Rightarrow> (int \<times> (string \<times> string) list \<times> bytes, 'w) act" where
  "ForwardAPICall m api ctx raw e =
     (case client_Do api ctx (json_content (newRequest m ''POST'' ''/api-call'' raw [])) e of
        (ExBad, e') \<Rightarrow> (Inl RequestInvalid, e')
      | (ExFailed c, e') \<Rightarrow> (Inl (do_error c), e')
      | (ExAnswer r _, e') \<Rightarrow>
          (case LimitReader (16 * mebi) r of
             None \<Rightarrow> (Inl ForwardInvalid, e')
           | Some body \<Rightarrow> (Inr (rsStatus r, rsHeader r, body), e')))"

section \<open>Time only runs forward\<close>

lemma client_Do_clk: "client_Do api ctx rq e = (x, e') \<Longrightarrow> clk e \<le> clk e'"
  by (auto simp: client_Do_def split: prod.splits)

lemma wait_clk: "waitManagementRetry ctx d e = (b, e') \<Longrightarrow> clk e \<le> clk e' \<and> wld e' = wld e"
  by (auto simp: waitManagementRetry_def split: option.splits if_splits)

lemma retry_loop_clk:
  assumes "\<And>a e x e'. once a e = (x, e') \<Longrightarrow> clk e \<le> clk e'"
  shows "retry_loop once ctx rnf a n e = (r, e') \<Longrightarrow> clk e \<le> clk e'"
proof (induction n arbitrary: a e)
  case (Suc n)
  obtain x e1 where x: "once a e = (x, e1)" by fastforce
  from assms [OF x] have c1: "clk e \<le> clk e1" .
  obtain b e2 where b: "waitManagementRetry ctx (managementRetryDelay a) e1 = (b, e2)" by fastforce
  from wait_clk [OF b] have c2: "clk e1 \<le> clk e2" by simp
  from Suc x b c1 c2 show ?case
    by (cases x; cases b) (auto split: if_splits dest: Suc.IH)
qed simp

lemma download_once_clk: "download_once m api ctx n rnf a e = (x, e') \<Longrightarrow> clk e \<le> clk e'"
  by (auto simp: download_once_def dest: client_Do_clk split: prod.splits exchange.splits if_splits option.splits)

lemma download_clk: "downloadAuthFileWithOptions m api ctx n rnf e = (r, e') \<Longrightarrow> clk e \<le> clk e'"
  by (auto simp: downloadAuthFileWithOptions_def split: if_splits dest: retry_loop_clk [rotated] download_once_clk)

section \<open>Polling\<close>

fun verify_interval :: "nat \<Rightarrow> nat" where
  "verify_interval 0 = managementRetryInitial"
| "verify_interval (Suc k) =
     (let i = verify_interval k in if i < managementRetryMaximum then min (i * 2) managementRetryMaximum else i)"

lemma verify_interval_pos: "0 < verify_interval k"
  by (induction k) (auto simp: Let_def managementRetryInitial_def managementRetryMaximum_def millisecond_def)

text \<open>
  The loop shared by \<^verbatim>\<open>waitForAuthFile\<close> and \<^verbatim>\<open>waitForAuthFileAbsent\<close>: \<open>accept\<close> is the test on the downloaded
  file, \<open>pending\<close> the error remembered when it fails, \<open>k\<close> the number of sleeps so far.
\<close>

definition poll_expired :: "ctx \<Rightarrow> cpa_error \<Rightarrow> 'w env \<Rightarrow> cpa_error" where
  "poll_expired ctx lastErr e = (if ctx_done ctx e then ContextDone else NotPersisted lastErr)"

function poll_loop :: "CpaManager \<Rightarrow> 'w api \<Rightarrow> ctx \<Rightarrow> nat \<Rightarrow> string \<Rightarrow> (bytes option \<Rightarrow> 'a option) \<Rightarrow> cpa_error \<Rightarrow> nat \<Rightarrow> ('a, 'w) act" where
  "poll_loop m api ctx deadline name accept pending k e =
     (case downloadAuthFileWithOptions m api (Some deadline) name True e of (r, e1) \<Rightarrow>
      (case (case r of
               Inr file \<Rightarrow> (case accept file of Some x \<Rightarrow> Inr x | None \<Rightarrow> Inl (True, pending))
             | Inl err \<Rightarrow> Inl (retryableManagementError err True, err)) of
         Inr x \<Rightarrow> (Inr x, e1)
       | Inl (retry, lastErr) \<Rightarrow>
           if \<not> retry then (Inl lastErr, e1)
           else if deadline \<le> clk e1 then (Inl (poll_expired ctx lastErr e1), e1)
           else (case waitManagementRetry (Some deadline) (verify_interval k) e1 of
               (False, e2) \<Rightarrow> (Inl (poll_expired ctx lastErr e2), e2)
             | (True, e2) \<Rightarrow> poll_loop m api ctx deadline name accept pending (Suc k) e2)))"
  by pat_completeness auto
termination
proof (relation "measure (\<lambda>(m, api, ctx, deadline, name, accept, pending, k, e). deadline - clk e)", goal_cases)
  case (2 m api ctx deadline name accept pending k e r e1 a retry lastErr b e2)
  from 2(1) have "clk e \<le> clk e1" by (intro download_clk) (rule sym)
  moreover have "clk e2 = clk e1 + verify_interval k \<and> clk e2 < deadline"
    using 2(6) [symmetric] 2(7) by (auto simp: waitManagementRetry_def split: if_splits)
  ultimately show ?case using verify_interval_pos [of k] by (simp, linarith)
qed simp

declare poll_loop.simps [simp del]

definition waitForAuthFile :: "CpaManager \<Rightarrow> 'w api \<Rightarrow> ctx \<Rightarrow> string \<Rightarrow> (bytes \<Rightarrow> bool) \<Rightarrow> (bytes, 'w) act" where
  "waitForAuthFile m api ctx name predicate e =
     (if safeAuthFileName name = None then (Inl NameInvalid, e)
      else poll_loop m api ctx (WithTimeout ctx managementVerifyWindow e) name
        (\<lambda>file. case file of Some raw \<Rightarrow> if predicate raw then Some raw else None | None \<Rightarrow> None) NotVisible 0 e)"

definition waitForAuthFileAbsent :: "CpaManager \<Rightarrow> 'w api \<Rightarrow> ctx \<Rightarrow> string \<Rightarrow> (unit, 'w) act" where
  "waitForAuthFileAbsent m api ctx name e =
     (if safeAuthFileName name = None then (Inl NameInvalid, e)
      else poll_loop m api ctx (WithTimeout ctx managementVerifyWindow e) name
        (\<lambda>file. if file = None then Some () else None) StillPresent 0 e)"

end
