(* ===== verification/Cpa_Sync.thy ===== *)
theory Cpa_Sync
  imports Cpa_Api
begin

text \<open>
  The transactions of the CPA manager (\<^verbatim>\<open>internal/cpa/manager.go\<close>, \<^verbatim>\<open>egress.go\<close>): discovery of the managed files,
  upsert, removal, restore, switching off, status, and the rollbacks.  The manager's mutex makes them run one
  after the other, so a transaction is a function of the environment.  A rollback's own error is
  discarded by the code, here as there, but its requests are made.
\<close>

section \<open>Discovery\<close>

definition listed_candidate :: "authFileEntry \<Rightarrow> bool gomap \<Rightarrow> bool gomap" where
  "listed_candidate item retries =
     (case safeAuthFileName (aeName item) of
        None \<Rightarrow> retries
      | Some name \<Rightarrow> if isCodexAuthFileName name then map_put name True retries else retries)"

definition own_candidate :: "string \<times> bool \<Rightarrow> bool gomap \<Rightarrow> bool gomap" where
  "own_candidate cand retries =
     (let existing = map_get retries (fst cand) in
      if existing = None \<or> snd cand then map_put (fst cand) (existing = Some True \<or> snd cand) retries else retries)"

definition wanted_credentials :: "Credential list \<Rightarrow> Credential list" where
  "wanted_credentials credentials = filter (\<lambda>c. validateIdentityID (crIdentityID c)) (map normalizeCredential credentials)"

definition candidate_retries :: "crypto \<Rightarrow> authFileEntry list \<Rightarrow> Credential list \<Rightarrow> bool gomap" where
  "candidate_retries C items credentials =
     fold (\<lambda>c. fold own_candidate (managedAuthFileCandidates C c)) (wanted_credentials credentials) (fold listed_candidate items [])"

fun collect_files :: "CpaManager \<Rightarrow> 'w api \<Rightarrow> ctx \<Rightarrow> string list \<Rightarrow> (string \<times> bool) list \<Rightarrow> managed_files \<Rightarrow> (managed_files, 'w) act" where
  "collect_files m api ctx wantedIDs [] files e = (Inr files, e)"
| "collect_files m api ctx wantedIDs ((name, retryNotFound) # rest) files e =
     (case downloadAuthFileWithOptions m api ctx name retryNotFound e of
        (Inl err, e') \<Rightarrow> (Inl err, e')
      | (Inr None, e') \<Rightarrow> collect_files m api ctx wantedIDs rest files e'
      | (Inr (Some raw), e') \<Rightarrow>
          (case managedCredentialIdentity raw of
             None \<Rightarrow> collect_files m api ctx wantedIDs rest files e'
           | Some identityID \<Rightarrow>
               if wantedIDs \<noteq> [] \<and> identityID \<notin> set wantedIDs then collect_files m api ctx wantedIDs rest files e'
               else collect_files m api ctx wantedIDs rest (map_put name \<lparr>mfIdentityID = identityID, mfRaw = raw\<rparr> files) e'))"

definition managedAuthFilesForCredentials ::
  "crypto \<Rightarrow> CpaManager \<Rightarrow> 'w api \<Rightarrow> ctx \<Rightarrow> Credential list \<Rightarrow> (managed_files, 'w) act" where
  "managedAuthFilesForCredentials C m api ctx credentials e =
     (case listAuthFileEntries m api ctx e of
        (Inl err, e') \<Rightarrow> (Inl err, e')
      | (Inr items, e') \<Rightarrow>
          collect_files m api ctx (map crIdentityID (wanted_credentials credentials))
            (sort_key fst (candidate_retries C items credentials)) [] e')"

definition managedAuthFiles :: "crypto \<Rightarrow> CpaManager \<Rightarrow> 'w api \<Rightarrow> ctx \<Rightarrow> (managed_files, 'w) act" where
  "managedAuthFiles C m api ctx = managedAuthFilesForCredentials C m api ctx []"

definition verifyIdentity :: "crypto \<Rightarrow> CpaManager \<Rightarrow> 'w api \<Rightarrow> ctx \<Rightarrow> string \<Rightarrow> bool \<Rightarrow> (unit, 'w) act" where
  "verifyIdentity C m api ctx identityID want e =
     (case managedAuthFiles C m api ctx e of
        (Inl err, e') \<Rightarrow> (Inl err, e')
      | (Inr files, e') \<Rightarrow>
          if list_ex (\<lambda>(name, file). mfIdentityID file = TrimSpace identityID) files \<noteq> want then (Inl (NotPersisted NotVisible), e')
          else (Inr (), e'))"

section \<open>Restoring\<close>

text \<open>Upload, then poll until the file has equivalent content.\<close>

definition put_back :: "CpaManager \<Rightarrow> 'w api \<Rightarrow> ctx \<Rightarrow> string \<Rightarrow> bytes \<Rightarrow> (unit, 'w) act" where
  "put_back m api ctx name raw e =
     (case uploadAuthFile m api ctx name raw e of
        (Inl err, e') \<Rightarrow> (Inl err, e')
      | (Inr _, e') \<Rightarrow>
          (case waitForAuthFile m api ctx name (\<lambda>now. equivalentJSON now raw) e' of
             (Inl err, e'') \<Rightarrow> (Inl err, e'')
           | (Inr _, e'') \<Rightarrow> (Inr (), e'')))"

fun restoreManagedFilesWithContext :: "CpaManager \<Rightarrow> 'w api \<Rightarrow> ctx \<Rightarrow> (string \<times> bytes) list \<Rightarrow> (unit, 'w) act" where
  "restoreManagedFilesWithContext m api ctx [] e = (Inr (), e)"
| "restoreManagedFilesWithContext m api ctx ((name, raw) # rest) e =
     (if safeAuthFileName name = None then (Inl NameInvalid, e)
      else case put_back m api ctx name raw e of
        (Inl err, e') \<Rightarrow> (Inl err, e')
      | (Inr _, e') \<Rightarrow> restoreManagedFilesWithContext m api ctx rest e')"

definition rollback_window :: nat where "rollback_window = managementVerifyWindow + 2000 * millisecond"

text \<open>The code sorts the names of the map it is given.\<close>

definition restoreManagedFiles :: "CpaManager \<Rightarrow> 'w api \<Rightarrow> bytes gomap \<Rightarrow> (unit, 'w) act" where
  "restoreManagedFiles m api files e =
     (if files = [] then (Inr (), e)
      else restoreManagedFilesWithContext m api (Some (clk e + rollback_window)) (sort_key fst files) e)"

definition first_error :: "cpa_error + unit \<Rightarrow> cpa_error + unit \<Rightarrow> cpa_error + unit" where
  "first_error a b = (case a of Inl err \<Rightarrow> Inl err | Inr _ \<Rightarrow> b)"

definition rollbackManagedFiles :: "CpaManager \<Rightarrow> 'w api \<Rightarrow> string \<Rightarrow> bytes option \<Rightarrow> bytes gomap \<Rightarrow> (unit, 'w) act" where
  "rollbackManagedFiles m api name previous deleted e =
     (let ctx = Some (clk e + rollback_window);
          (r, e1) =
            (if name = [] then (Inr (), e)
             else case previous of
               Some raw \<Rightarrow> put_back m api ctx name raw e
             | None \<Rightarrow>
                 (case deleteAuthFile m api ctx name e of (r1, e1) \<Rightarrow>
                  (case waitForAuthFileAbsent m api ctx name e1 of (r2, e2) \<Rightarrow> (first_error r1 r2, e2))));
          (r', e2) = restoreManagedFilesWithContext m api ctx (sort_key fst deleted) e1
      in (first_error r r', e2))"

section \<open>Upsert\<close>

fun migrate :: "CpaManager \<Rightarrow> 'w api \<Rightarrow> ctx \<Rightarrow> string \<Rightarrow> bytes option \<Rightarrow> managed_files \<Rightarrow> string list \<Rightarrow> bytes gomap \<Rightarrow> (bytes gomap, 'w) act" where
  "migrate m api ctx name previous before [] deleted e = (Inr deleted, e)"
| "migrate m api ctx name previous before (oldName # rest) deleted e =
     (if oldName = name then migrate m api ctx name previous before rest deleted e
      else let deleted' = map_put oldName (file_raw before oldName) deleted in
        case deleteAuthFile m api ctx oldName e of
          (Inl err, e1) \<Rightarrow> (Inl err, snd (rollbackManagedFiles m api name previous deleted' e1))
        | (Inr _, e1) \<Rightarrow>
            (case waitForAuthFileAbsent m api ctx oldName e1 of
               (Inl err, e2) \<Rightarrow> (Inl err, snd (rollbackManagedFiles m api name previous deleted' e2))
             | (Inr _, e2) \<Rightarrow> migrate m api ctx name previous before rest deleted' e2))"

definition upsert_body :: "crypto \<Rightarrow> CpaManager \<Rightarrow> Credential \<Rightarrow> managed_files \<Rightarrow> bytes option \<Rightarrow> cpa_error + bytes" where
  "upsert_body C m c before previous =
     (let prior = (case previous of
            Some raw \<Rightarrow> Some raw
          | None \<Rightarrow> map_option (\<lambda>(_, old). mfRaw old) (preferredManagedFile C before c));
          disabled = (case prior of None \<Rightarrow> False | Some raw \<Rightarrow> managedCredentialDisabled raw True);
          body = credentialJSONWithDisabled (cmSidecarBaseURL m) c disabled
      in case prior of None \<Rightarrow> Inr body | Some raw \<Rightarrow> mergeManagedAuthFields body raw)"

definition upsert_commit ::
  "CpaManager \<Rightarrow> 'w api \<Rightarrow> ctx \<Rightarrow> Credential \<Rightarrow> string \<Rightarrow> managed_files \<Rightarrow> bytes option \<Rightarrow> bytes \<Rightarrow> (unit, 'w) act" where
  "upsert_commit m api ctx c name before previous body e =
     (let verified = (\<lambda>raw. managedCredentialMatches raw c body);
          unchanged = (case previous of None \<Rightarrow> False | Some raw \<Rightarrow> equivalentJSON raw body) in
      case (if unchanged then (Inr (), e) else uploadAuthFile m api ctx name body e) of
        (Inl err, e1) \<Rightarrow> (Inl err, snd (rollbackManagedFiles m api name previous [] e1))
      | (Inr _, e1) \<Rightarrow>
          (case waitForAuthFile m api ctx name verified e1 of
             (Inl err, e2) \<Rightarrow> (Inl err, snd (rollbackManagedFiles m api name previous [] e2))
           | (Inr _, e2) \<Rightarrow>
               (case migrate m api ctx name previous before (matchingManagedFileNames before c) [] e2 of
                  (Inl err, e3) \<Rightarrow> (Inl err, e3)
                | (Inr deleted, e3) \<Rightarrow>
                    (case waitForAuthFile m api ctx name verified e3 of
                       (Inl err, e4) \<Rightarrow> (Inl err, snd (rollbackManagedFiles m api name previous deleted e4))
                     | (Inr _, e4) \<Rightarrow> (Inr (), e4)))))"

definition upsert_prepared :: "crypto \<Rightarrow> CpaManager \<Rightarrow> 'w api \<Rightarrow> ctx \<Rightarrow> Credential \<Rightarrow> string \<Rightarrow> (unit, 'w) act" where
  "upsert_prepared C m api ctx c name e =
     (case managedAuthFilesForCredentials C m api ctx [c] e of
        (Inl err, e1) \<Rightarrow> (Inl err, e1)
      | (Inr before, e1) \<Rightarrow>
          (case downloadAuthFile m api ctx name e1 of
             (Inl err, e2) \<Rightarrow> (Inl err, e2)
           | (Inr found, e2) \<Rightarrow>
               if (case found of None \<Rightarrow> False | Some raw \<Rightarrow> \<not> isManagedCredential raw (crIdentityID c)) then (Inl ErrUnmanagedAuthFile, e2)
               else let previous =
                   (case found of
                      Some raw \<Rightarrow> Some raw
                    | None \<Rightarrow>
                        (case map_get before name of
                           Some old \<Rightarrow> if mfIdentityID old = crIdentityID c then Some (mfRaw old) else None
                         | None \<Rightarrow> None))
                 in (case upsert_body C m c before previous of
                       Inl err \<Rightarrow> (Inl err, e2)
                     | Inr body \<Rightarrow> upsert_commit m api ctx c name before previous body e2)))"

definition UpsertIdentity :: "crypto \<Rightarrow> CpaManager \<Rightarrow> 'w api \<Rightarrow> ctx \<Rightarrow> Credential \<Rightarrow> (unit, 'w) act" where
  "UpsertIdentity C m api ctx credential e =
     (let c = normalizeCredential credential in
      case validateCredential c of
        Some err \<Rightarrow> (Inl err, e)
      | None \<Rightarrow>
          (case authFileName C c of
             None \<Rightarrow> (Inl IdentityInvalid, e)
           | Some name \<Rightarrow> upsert_prepared C m api ctx c name e))"

section \<open>Snapshots and removal\<close>

definition SnapshotCredential :: "crypto \<Rightarrow> CpaManager \<Rightarrow> 'w api \<Rightarrow> ctx \<Rightarrow> Credential \<Rightarrow> (AuthFileSnapshot list, 'w) act" where
  "SnapshotCredential C m api ctx credential e =
     (let c = normalizeCredential credential in
      if \<not> validateIdentityID (crIdentityID c) then (Inl IdentityInvalid, e)
      else case managedAuthFilesForCredentials C m api ctx [c] e of
        (Inl err, e') \<Rightarrow> (Inl err, e')
      | (Inr files, e') \<Rightarrow> (Inr (snapshotsForCredential files c), e'))"

definition SnapshotIdentity :: "crypto \<Rightarrow> CpaManager \<Rightarrow> 'w api \<Rightarrow> ctx \<Rightarrow> string \<Rightarrow> (AuthFileSnapshot list, 'w) act" where
  "SnapshotIdentity C m api ctx identityID = SnapshotCredential C m api ctx (identity_only (TrimSpace identityID))"

fun remove_files :: "CpaManager \<Rightarrow> 'w api \<Rightarrow> ctx \<Rightarrow> managed_files \<Rightarrow> string list \<Rightarrow> bytes gomap \<Rightarrow> (unit, 'w) act" where
  "remove_files m api ctx files [] deleted e = (Inr (), e)"
| "remove_files m api ctx files (name # rest) deleted e =
     (let deleted' = map_put name (file_raw files name) deleted in
      case deleteAuthFile m api ctx name e of
        (Inl err, e1) \<Rightarrow> (Inl err, snd (restoreManagedFiles m api deleted' e1))
      | (Inr _, e1) \<Rightarrow>
          (case waitForAuthFileAbsent m api ctx name e1 of
             (Inl err, e2) \<Rightarrow> (Inl err, snd (restoreManagedFiles m api deleted' e2))
           | (Inr _, e2) \<Rightarrow> remove_files m api ctx files rest deleted' e2))"

definition RemoveCredentialWithSnapshot ::
  "crypto \<Rightarrow> CpaManager \<Rightarrow> 'w api \<Rightarrow> ctx \<Rightarrow> Credential \<Rightarrow> (AuthFileSnapshot list, 'w) act" where
  "RemoveCredentialWithSnapshot C m api ctx credential e =
     (let c = normalizeCredential credential in
      if \<not> validateIdentityID (crIdentityID c) then (Inl IdentityInvalid, e)
      else case managedAuthFilesForCredentials C m api ctx [c] e of
        (Inl err, e1) \<Rightarrow> (Inl err, e1)
      | (Inr files, e1) \<Rightarrow>
          (case remove_files m api ctx files (matchingManagedFileNames files c) [] e1 of
             (Inl err, e2) \<Rightarrow> (Inl err, e2)
           | (Inr _, e2) \<Rightarrow> (Inr (snapshotsForCredential files c), e2)))"

definition RemoveIdentityWithSnapshot :: "crypto \<Rightarrow> CpaManager \<Rightarrow> 'w api \<Rightarrow> ctx \<Rightarrow> string \<Rightarrow> (AuthFileSnapshot list, 'w) act" where
  "RemoveIdentityWithSnapshot C m api ctx identityID = RemoveCredentialWithSnapshot C m api ctx (identity_only (TrimSpace identityID))"

definition RemoveIdentity :: "crypto \<Rightarrow> CpaManager \<Rightarrow> 'w api \<Rightarrow> ctx \<Rightarrow> string \<Rightarrow> (unit, 'w) act" where
  "RemoveIdentity C m api ctx identityID e =
     (case RemoveIdentityWithSnapshot C m api ctx identityID e of
        (Inl err, e') \<Rightarrow> (Inl err, e') | (Inr _, e') \<Rightarrow> (Inr (), e'))"

fun restore_snapshots :: "CpaManager \<Rightarrow> 'w api \<Rightarrow> ctx \<Rightarrow> AuthFileSnapshot list \<Rightarrow> (unit, 'w) act" where
  "restore_snapshots m api ctx [] e = (Inr (), e)"
| "restore_snapshots m api ctx (s # rest) e =
     (let name = filepath_Base (TrimSpace (asName s)) in
      if name = [] \<or> name \<noteq> asName s \<or> Contains name ''..'' then (Inl SnapshotNameInvalid, e)
      else case put_back m api ctx name (asRaw s) e of
        (Inl err, e') \<Rightarrow> (Inl err, e')
      | (Inr _, e') \<Rightarrow> restore_snapshots m api ctx rest e')"

definition RestoreAuthFiles :: "CpaManager \<Rightarrow> 'w api \<Rightarrow> ctx \<Rightarrow> AuthFileSnapshot list \<Rightarrow> (unit, 'w) act" where
  "RestoreAuthFiles m api ctx snapshots = restore_snapshots m api ctx (sort_key asName snapshots)"

section \<open>Switching off and status\<close>

fun disable_files ::
  "CpaManager \<Rightarrow> 'w api \<Rightarrow> ctx \<Rightarrow> Credential \<Rightarrow> bool \<Rightarrow> managed_files \<Rightarrow> string list \<Rightarrow> bytes gomap \<Rightarrow> (unit, 'w) act" where
  "disable_files m api ctx c disabled files [] updated e = (Inr (), e)"
| "disable_files m api ctx c disabled files (name # rest) updated e =
     (let oldRaw = file_raw files name; updated' = map_put name oldRaw updated in
      case setManagedCredentialDisabled oldRaw disabled of
        Inl err \<Rightarrow> (Inl err, snd (restoreManagedFiles m api updated' e))
      | Inr nextRaw \<Rightarrow>
          (case (if equivalentJSON oldRaw nextRaw then (Inr (), e) else uploadAuthFile m api ctx name nextRaw e) of
             (Inl err, e1) \<Rightarrow> (Inl err, snd (restoreManagedFiles m api updated' e1))
           | (Inr _, e1) \<Rightarrow>
               (case waitForAuthFile m api ctx name (\<lambda>raw. managedCredentialStateMatches raw c disabled) e1 of
                  (Inl err, e2) \<Rightarrow> (Inl err, snd (restoreManagedFiles m api updated' e2))
                | (Inr _, e2) \<Rightarrow> disable_files m api ctx c disabled files rest updated' e2)))"

definition SetIdentityDisabledForCredential ::
  "crypto \<Rightarrow> CpaManager \<Rightarrow> 'w api \<Rightarrow> ctx \<Rightarrow> Credential \<Rightarrow> bool \<Rightarrow> (unit, 'w) act" where
  "SetIdentityDisabledForCredential C m api ctx credential disabled e =
     (let c = normalizeCredential credential in
      if \<not> validateIdentityID (crIdentityID c) then (Inl IdentityInvalid, e)
      else case managedAuthFilesForCredentials C m api ctx [c] e of
        (Inl err, e1) \<Rightarrow> (Inl err, e1)
      | (Inr files, e1) \<Rightarrow>
          (let names = matchingManagedFileNames files c in
           if names = [] then (Inl NotSynchronized, e1) else disable_files m api ctx c disabled files names [] e1))"

definition SetIdentityDisabled :: "crypto \<Rightarrow> CpaManager \<Rightarrow> 'w api \<Rightarrow> ctx \<Rightarrow> string \<Rightarrow> bool \<Rightarrow> (unit, 'w) act" where
  "SetIdentityDisabled C m api ctx identityID disabled =
     SetIdentityDisabledForCredential C m api ctx (identity_only (TrimSpace identityID)) disabled"

definition no_state :: IdentityState where
  "no_state = \<lparr>stSynced = False, stDisabled = False, stAuthFile = []\<rparr>"

definition identity_state :: "crypto \<Rightarrow> managed_files \<Rightarrow> Credential \<Rightarrow> IdentityState gomap \<Rightarrow> IdentityState gomap" where
  "identity_state C files c result =
     (case preferredManagedFile C files c of
        None \<Rightarrow> result
      | Some (name, file) \<Rightarrow>
          map_put (crIdentityID c)
            \<lparr>stSynced = True, stDisabled = managedCredentialDisabled (mfRaw file) True, stAuthFile = filepath_Base name\<rparr> result)"

definition IdentityStatesForCredentials ::
  "crypto \<Rightarrow> CpaManager \<Rightarrow> 'w api \<Rightarrow> ctx \<Rightarrow> Credential list \<Rightarrow> (IdentityState gomap, 'w) act" where
  "IdentityStatesForCredentials C m api ctx credentials e =
     (let present = filter (\<lambda>c. crIdentityID c \<noteq> []) (map normalizeCredential credentials);
          result = fold (\<lambda>c. map_put (crIdentityID c) no_state) present [];
          normalized = filter (\<lambda>c. validateIdentityID (crIdentityID c)) present in
      case managedAuthFilesForCredentials C m api ctx normalized e of
        (Inl err, e') \<Rightarrow> (Inl err, e')
      | (Inr files, e') \<Rightarrow> (Inr (fold (identity_state C files) normalized result), e'))"

definition IdentityStates :: "crypto \<Rightarrow> CpaManager \<Rightarrow> 'w api \<Rightarrow> ctx \<Rightarrow> string list \<Rightarrow> (IdentityState gomap, 'w) act" where
  "IdentityStates C m api ctx ids = IdentityStatesForCredentials C m api ctx (map (\<lambda>i. identity_only (TrimSpace i)) ids)"

definition IdentityStatus :: "crypto \<Rightarrow> CpaManager \<Rightarrow> 'w api \<Rightarrow> ctx \<Rightarrow> string list \<Rightarrow> (bool gomap, 'w) act" where
  "IdentityStatus C m api ctx ids e =
     (case IdentityStates C m api ctx ids e of
        (Inl err, e') \<Rightarrow> (Inl err, e')
      | (Inr states, e') \<Rightarrow>
          (Inr (fold (\<lambda>i. map_put (TrimSpace i) (case map_get states (TrimSpace i) of None \<Rightarrow> False | Some s \<Rightarrow> stSynced s)) ids []), e'))"

definition IdentityIDForAuthIndex :: "CpaManager \<Rightarrow> 'w api \<Rightarrow> ctx \<Rightarrow> string \<Rightarrow> (string option, 'w) act" where
  "IdentityIDForAuthIndex m api ctx authIndex e =
     (if TrimSpace authIndex = [] then (Inr None, e)
      else case listAuthFileEntries m api ctx e of
        (Inl err, e1) \<Rightarrow> (Inl err, e1)
      | (Inr items, e1) \<Rightarrow>
          (case List.find (\<lambda>item. TrimSpace (aeAuthIndex item) = TrimSpace authIndex) items of
             None \<Rightarrow> (Inr None, e1)
           | Some item \<Rightarrow>
               (case downloadAuthFile m api ctx (filepath_Base (TrimSpace (aeName item))) e1 of
                  (Inl err, e2) \<Rightarrow> (Inl err, e2)
                | (Inr None, e2) \<Rightarrow> (Inr None, e2)
                | (Inr (Some raw), e2) \<Rightarrow> (Inr (managedCredentialIdentity raw), e2))))"

section \<open>The proxy of an identity\<close>

definition proxy_fields :: "bytes \<Rightarrow> (string \<times> string) option" where
  "proxy_fields raw =
     Option.bind (json_parse raw) (\<lambda>v.
     Option.bind (struct_keys v) (\<lambda>kvs.
     Option.bind (field dec_str ''proxy_url'' kvs []) (\<lambda>p.
     Option.bind (field dec_str ''proxy-url'' kvs []) (\<lambda>l. Some (p, l)))))"

definition proxy_of :: "string \<times> string \<Rightarrow> string" where
  "proxy_of f = (if TrimSpace (fst f) = [] then TrimSpace (snd f) else TrimSpace (fst f))"

fun agreed_proxy :: "string option \<Rightarrow> AuthFileSnapshot list \<Rightarrow> cpa_error + string" where
  "agreed_proxy acc [] = Inr (case acc of None \<Rightarrow> [] | Some p \<Rightarrow> p)"
| "agreed_proxy acc (file # files) =
     (case proxy_fields (asRaw file) of
        None \<Rightarrow> Inl RoutingInvalid
      | Some f \<Rightarrow> if acc \<noteq> None \<and> acc \<noteq> Some (proxy_of f) then Inl RoutingAmbiguous else agreed_proxy (Some (proxy_of f)) files)"

definition ProxyForIdentity :: "crypto \<Rightarrow> CpaManager \<Rightarrow> 'w api \<Rightarrow> ctx \<Rightarrow> string \<Rightarrow> (string, 'w) act" where
  "ProxyForIdentity C m api ctx identityID e =
     (case SnapshotIdentity C m api ctx identityID e of
        (Inl _, e') \<Rightarrow> (Inl RoutingUnavailable, e')
      | (Inr [], e') \<Rightarrow> (Inl RoutingUnavailable, e')
      | (Inr (f # fs), e') \<Rightarrow> (agreed_proxy None (f # fs), e'))"

end
