(* ===== verification/Trim_Lower.thy ===== *)
theory Trim_Lower
  imports Prelude
begin

text \<open>
  Lower-casing trimmed text leaves it trimmed: lower-casing neither makes nor moves the bytes of a white-space rune.
\<close>

lemma lower_byte_space: "space_byte (lower_byte c) \<Longrightarrow> lower_byte c = c"
  by (auto simp: lower_byte_def space_byte_def is_upper_def split: if_splits)

lemma ToLower_step: "\<exists>x n. ToLower (c # cs) = x # ToLower (drop n cs) \<and> (space_byte x \<longrightarrow> x = c \<and> n = 0)"
proof -
  have "\<not> space_byte (CHR ''i'')" "\<not> space_byte (CHR ''k'')" by (simp_all add: space_byte_def)
  with lower_byte_space show ?thesis unfolding ToLower.simps by (metis drop0)
qed

lemma ToLower_space: "\<forall>c \<in> set (ToLower s). space_byte c \<Longrightarrow> ToLower s = s"
proof (induction s rule: length_induct)
  case (1 s)
  show ?case
  proof (cases s)
    case (Cons c cs)
    obtain x n where x: "ToLower (c # cs) = x # ToLower (drop n cs)" "space_byte x \<longrightarrow> x = c \<and> n = 0"
      using ToLower_step by blast
    with "1.prems" Cons have "space_byte x" "\<forall>c \<in> set (ToLower (drop n cs)). space_byte c" by (simp_all del: ToLower.simps)
    with x have "x = c" "n = 0" "\<forall>c \<in> set (ToLower cs). space_byte c" by simp_all
    with "1.IH" Cons have "ToLower cs = cs" by (simp del: ToLower.simps)
    with x \<open>x = c\<close> \<open>n = 0\<close> Cons show ?thesis by (simp del: ToLower.simps)
  qed simp
qed

lemma ToLower_prefix: "prefix e (ToLower s) \<Longrightarrow> \<forall>c \<in> set e. space_byte c \<Longrightarrow> prefix e s"
proof (induction e arbitrary: s)
  case (Cons d e)
  then obtain c cs where s: "s = c # cs" by (cases s) auto
  obtain x n where "ToLower (c # cs) = x # ToLower (drop n cs)" "space_byte x \<longrightarrow> x = c \<and> n = 0"
    using ToLower_step by blast
  with Cons s show ?case by (auto simp del: ToLower.simps)
qed simp

lemma ToLower_suffix: "suffix e (ToLower s) \<Longrightarrow> \<forall>c \<in> set e. space_byte c \<Longrightarrow> suffix e s"
proof (induction s rule: length_induct)
  case (1 s)
  show ?case
  proof (cases "e = ToLower s")
    case True
    with 1 have "ToLower s = s" by (intro ToLower_space) simp
    with True show ?thesis by simp
  next
    case False
    with "1.prems"(1) obtain c cs where s: "s = c # cs" by (cases s) auto
    obtain x n where x: "ToLower (c # cs) = x # ToLower (drop n cs)" using ToLower_step by blast
    with False "1.prems"(1) s have "suffix e (ToLower (drop n cs))" by (simp add: suffix_Cons del: ToLower.simps)
    moreover have "length (drop n cs) < length s" using s by simp
    ultimately have "suffix e (drop n cs)" using 1 by blast
    then show ?thesis using s suffix_drop [of n cs] by (metis suffix_ConsI suffix_order.trans)
  qed
qed

lemma TrimSpace_fixed:
  assumes "TrimSpace s = s"
  shows "leading space_encodings s = None" "leading (map rev space_encodings) (rev s) = None"
proof -
  let ?t = "trim_front space_encodings s"
  have "rev s = trim_front (map rev space_encodings) (rev ?t)" using assms by (simp add: TrimSpace_def Let_def) (metis rev_rev_ident)
  then show "leading (map rev space_encodings) (rev s) = None" by (simp add: leading_trim_front)
  have "length s \<le> length ?t"
    using assms trim_front_suffix [of "map rev space_encodings" "rev ?t"]
    by (metis TrimSpace_def length_rev suffix_length_le)
  with trim_front_suffix [of space_encodings s] have "?t = s" by (metis suffix_length_le le_antisym suffix_def append_Nil length_append add_cancel_left_left length_0_conv)
  with leading_trim_front [of space_encodings s] show "leading space_encodings s = None" by simp
qed

lemma TrimSpace_fixedI:
  "leading space_encodings s = None \<Longrightarrow> leading (map rev space_encodings) (rev s) = None \<Longrightarrow> TrimSpace s = s"
  by (simp add: TrimSpace_def trim_front_fix)

lemma TrimSpace_ToLower: "TrimSpace s = s \<Longrightarrow> TrimSpace (ToLower s) = ToLower s"
proof (rule TrimSpace_fixedI)
  assume t: "TrimSpace s = s"
  show "leading space_encodings (ToLower s) = None"
    using TrimSpace_fixed(1) [OF t] ToLower_prefix space_encoding_bytes by (fastforce simp: leading_None)
  have "\<not> suffix e (ToLower s)" if "e \<in> set space_encodings" for e
    using TrimSpace_fixed(2) [OF t] that ToLower_suffix [of e s] space_encoding_bytes
    by (fastforce simp: leading_None suffix_to_prefix)
  then show "leading (map rev space_encodings) (rev (ToLower s)) = None"
    by (auto simp: leading_None suffix_to_prefix)
qed

end
