(* ===== verification/Cpa_Properties.thy ===== *)
theory Cpa_Properties
  imports Cpa_Sync Trim_Lower
begin

text \<open>
  Properties of the CPA synchronisation, for every management server whose requests act on the file they
  name (\<open>file_server\<close>): downloads and lists change nothing and tell the truth, an upload or a deletion changes no
  other file.  Requests may fail, be lost, be applied although they failed, or be acknowledged without
  effect; how the server stores an upload is left open.
\<close>

section \<open>The server\<close>

type_synonym 'w files = "'w \<Rightarrow> string \<Rightarrow> bytes option"

definition reads_are_true :: "CpaManager \<Rightarrow> 'w api \<Rightarrow> 'w files \<Rightarrow> bool" where
  "reads_are_true m api files \<longleftrightarrow>
     (\<forall>ctx t w n x dt w'. api ctx (newRequest m ''GET'' ''/auth-files/download'' [] n) t w = (x, dt, w') \<longrightarrow>
        files w' = files w \<and>
        (\<forall>r f. x = ExAnswer r f \<longrightarrow>
           (rsStatus r = 200 \<longrightarrow> rsReadable r \<longrightarrow> files w n = Some (rsBody r)) \<and> (rsStatus r = 404 \<longrightarrow> files w n = None))) \<and>
     (\<forall>ctx t w x dt w'. api ctx (newRequest m ''GET'' ''/auth-files'' [] []) t w = (x, dt, w') \<longrightarrow> files w' = files w)"

definition writes_are_local :: "CpaManager \<Rightarrow> 'w api \<Rightarrow> 'w files \<Rightarrow> bool" where
  "writes_are_local m api files \<longleftrightarrow>
     (\<forall>ctx t w n body x dt w'.
        (api ctx (json_content (newRequest m ''POST'' ''/auth-files'' body n)) t w = (x, dt, w') \<or>
         api ctx (newRequest m ''DELETE'' ''/auth-files'' [] n) t w = (x, dt, w')) \<longrightarrow>
        (\<forall>n'. n' \<noteq> n \<longrightarrow> files w' n' = files w n'))"

definition file_server :: "CpaManager \<Rightarrow> 'w api \<Rightarrow> 'w files \<Rightarrow> bool" where
  "file_server m api files \<longleftrightarrow> reads_are_true m api files \<and> writes_are_local m api files"

text \<open>What a download shows of a file: at most 4 MiB.\<close>

definition seen :: "(string \<Rightarrow> bytes option) \<Rightarrow> string \<Rightarrow> bytes option" where
  "seen fs n = map_option (take (4 * mebi)) (fs n)"

definition agree :: "string set \<Rightarrow> (string \<Rightarrow> bytes option) \<Rightarrow> (string \<Rightarrow> bytes option) \<Rightarrow> bool" where
  "agree S f g \<longleftrightarrow> (\<forall>n. n \<notin> S \<longrightarrow> g n = f n)"

lemma agree_refl [simp]: "agree S f f"
  by (simp add: agree_def)

lemma agree_trans: "agree S f g \<Longrightarrow> agree T g h \<Longrightarrow> S \<union> T \<subseteq> U \<Longrightarrow> agree U f h"
  unfolding agree_def by (metis UnCI subsetD)

lemma agree_insert: "agree {n} f g \<Longrightarrow> agree S g h \<Longrightarrow> agree (insert n S) f h"
  by (rule agree_trans) auto

lemma agree_mono: "agree S f g \<Longrightarrow> S \<subseteq> T \<Longrightarrow> agree T f g"
  by (auto simp: agree_def)

lemma agree_seen: "agree S f g \<Longrightarrow> n \<notin> S \<Longrightarrow> seen g n = seen f n"
  by (simp add: agree_def seen_def)

lemma agree_empty: "agree {} f g \<longleftrightarrow> g = f"
  by (auto simp: agree_def)

section \<open>Requests\<close>

text \<open>One rule for the four retry loops: a relation that every attempt respects holds of the loop.\<close>

lemma retry_loop_rule:
  assumes step: "\<And>a e x e'. once a e = (x, e') \<Longrightarrow> agree S (files (wld e)) (files (wld e'))"
    and fin: "\<And>a e v e'. once a e = (Finish (Inr v), e') \<Longrightarrow> Q v (files (wld e'))"
  shows "retry_loop once ctx rnf a n e = (r, e') \<Longrightarrow>
    agree S (files (wld e)) (files (wld e')) \<and> (\<forall>v. r = Inr v \<longrightarrow> Q v (files (wld e')))"
proof (induction n arbitrary: a e)
  case (Suc n)
  obtain x e1 where x: "once a e = (x, e1)" by fastforce
  note s = step [OF x]
  show ?case
  proof (cases x)
    case (Finish r')
    with Suc.prems x s fin show ?thesis by auto
  next
    case (Again err)
    obtain b e2 where b: "waitManagementRetry ctx (managementRetryDelay a) e1 = (b, e2)" by fastforce
    have w: "wld e2 = wld e1" using wait_clk [OF b] by simp
    show ?thesis
    proof (cases "n = 0 \<or> \<not> retryableManagementError err rnf \<or> \<not> b")
      case True
      with Suc.prems x b Again s w show ?thesis by (auto split: if_splits)
    next
      case False
      with Suc.prems x b Again have "retry_loop once ctx rnf (Suc a) n e2 = (r, e')" by auto
      from Suc.IH [OF this] s w show ?thesis by (auto intro: agree_trans)
    qed
  qed
qed auto

lemma client_Do_world: "client_Do api ctx rq e = (x, e') \<Longrightarrow> \<exists>dt. api ctx rq (clk e) (wld e) = (x, dt, wld e')"
  by (auto simp: client_Do_def split: prod.splits)

lemma download_do:
  assumes "file_server m api files" "client_Do api ctx (newRequest m ''GET'' ''/auth-files/download'' [] n) e = (x, e')"
  shows "files (wld e') = files (wld e) \<and> (\<forall>r f. x = ExAnswer r f \<longrightarrow>
     (rsStatus r = 200 \<longrightarrow> rsReadable r \<longrightarrow> files (wld e') n = Some (rsBody r)) \<and> (rsStatus r = 404 \<longrightarrow> files (wld e') n = None))"
proof -
  obtain dt where "api ctx (newRequest m ''GET'' ''/auth-files/download'' [] n) (clk e) (wld e) = (x, dt, wld e')"
    using client_Do_world [OF assms(2)] by blast
  with assms(1) show ?thesis unfolding file_server_def reads_are_true_def by metis
qed

lemma download_fact:
  assumes srv: "file_server m api files" and d: "downloadAuthFileWithOptions m api ctx n rnf e = (r, e')"
  shows "files (wld e') = files (wld e) \<and> (\<forall>v. r = Inr v \<longrightarrow> seen (files (wld e)) n = v)"
proof (cases "safeAuthFileName n = None")
  case False
  have d': "retry_loop (download_once m api ctx n rnf) ctx rnf 0 managementRetryAttempts e = (r, e')"
    using d False by (simp add: downloadAuthFileWithOptions_def)
  have "agree {} (files (wld e)) (files (wld e')) \<and> (\<forall>v. r = Inr v \<longrightarrow> seen (files (wld e')) n = v)"
  proof (rule retry_loop_rule [OF _ _ d'])
    fix a and e0 :: "'a env" and x e1
    assume o: "download_once m api ctx n rnf a e0 = (x, e1)"
    obtain y e2 where y: "client_Do api ctx (newRequest m ''GET'' ''/auth-files/download'' [] n) e0 = (y, e2)" by fastforce
    have "e1 = e2" using o y by (cases y) (auto simp: download_once_def split: if_splits option.splits)
    with download_do [OF srv y] show "agree {} (files (wld e0)) (files (wld e1))" by simp
  next
    fix a and e0 :: "'a env" and v e1
    assume o: "download_once m api ctx n rnf a e0 = (Finish (Inr v), e1)"
    obtain y e2 where y: "client_Do api ctx (newRequest m ''GET'' ''/auth-files/download'' [] n) e0 = (y, e2)" by fastforce
    obtain q f where q: "y = ExAnswer q f" using o y by (cases y) (auto simp: download_once_def)
    have "e1 = e2" "rsStatus q = 404 \<and> v = None \<or> rsStatus q = 200 \<and> rsReadable q \<and> v = Some (take (4 * mebi) (rsBody q))"
      using o y q by (auto simp: download_once_def LimitReader_def split: if_splits option.splits)
    with download_do [OF srv y] q show "seen (files (wld e1)) n = v" by (auto simp: seen_def)
  qed
  then show ?thesis by (auto simp: agree_empty)
qed (use d in \<open>auto simp: downloadAuthFileWithOptions_def\<close>)

lemma list_fact:
  assumes srv: "file_server m api files" and l: "listAuthFileEntries m api ctx e = (r, e')"
  shows "files (wld e') = files (wld e)"
proof -
  have "agree {} (files (wld e)) (files (wld e')) \<and> (\<forall>v. r = Inr v \<longrightarrow> True)"
  proof (rule retry_loop_rule [OF _ _ l [unfolded listAuthFileEntries_def]])
    fix a and e0 :: "'a env" and x e1
    assume o: "list_once m api ctx a e0 = (x, e1)"
    obtain y e2 where y: "client_Do api ctx (newRequest m ''GET'' ''/auth-files'' [] []) e0 = (y, e2)" by fastforce
    have "e1 = e2" using o y by (cases y) (auto simp: list_once_def split: if_splits option.splits)
    moreover have "files (wld e2) = files (wld e0)"
      using client_Do_world [OF y] srv unfolding file_server_def reads_are_true_def by metis
    ultimately show "agree {} (files (wld e0)) (files (wld e1))" by simp
  qed simp
  then show ?thesis by (simp add: agree_empty)
qed

lemma upload_fact:
  assumes srv: "file_server m api files" and u: "uploadAuthFile m api ctx n raw e = (r, e')"
  shows "agree {n} (files (wld e)) (files (wld e'))"
proof (cases "safeAuthFileName n = None")
  case False
  have u': "retry_loop (upload_once m api ctx n raw) ctx False 0 managementRetryAttempts e = (r, e')"
    using u False by (simp add: uploadAuthFile_def)
  have "agree {n} (files (wld e)) (files (wld e')) \<and> (\<forall>v. r = Inr v \<longrightarrow> True)"
  proof (rule retry_loop_rule [OF _ _ u'])
    fix a and e0 :: "'a env" and x e1
    assume o: "upload_once m api ctx n raw a e0 = (x, e1)"
    obtain y e2 where y: "client_Do api ctx (json_content (newRequest m ''POST'' ''/auth-files'' raw n)) e0 = (y, e2)" by fastforce
    have "e1 = e2" using o y by (cases y) (auto simp: upload_once_def split: if_splits)
    moreover have "\<forall>n'. n' \<noteq> n \<longrightarrow> files (wld e2) n' = files (wld e0) n'"
      using client_Do_world [OF y] srv unfolding file_server_def writes_are_local_def by metis
    ultimately show "agree {n} (files (wld e0)) (files (wld e1))" by (simp add: agree_def)
  qed simp
  then show ?thesis by simp
qed (use u in \<open>auto simp: uploadAuthFile_def\<close>)

lemma delete_fact:
  assumes srv: "file_server m api files" and u: "deleteAuthFile m api ctx n e = (r, e')"
  shows "agree {n} (files (wld e)) (files (wld e'))"
proof (cases "safeAuthFileName n = None")
  case False
  have u': "retry_loop (delete_once m api ctx n) ctx False 0 managementRetryAttempts e = (r, e')"
    using u False by (simp add: deleteAuthFile_def)
  have "agree {n} (files (wld e)) (files (wld e')) \<and> (\<forall>v. r = Inr v \<longrightarrow> True)"
  proof (rule retry_loop_rule [OF _ _ u'])
    fix a and e0 :: "'a env" and x e1
    assume o: "delete_once m api ctx n a e0 = (x, e1)"
    obtain y e2 where y: "client_Do api ctx (newRequest m ''DELETE'' ''/auth-files'' [] n) e0 = (y, e2)" by fastforce
    have "e1 = e2" using o y by (cases y) (auto simp: delete_once_def split: if_splits)
    moreover have "\<forall>n'. n' \<noteq> n \<longrightarrow> files (wld e2) n' = files (wld e0) n'"
      using client_Do_world [OF y] srv unfolding file_server_def writes_are_local_def by metis
    ultimately show "agree {n} (files (wld e0)) (files (wld e1))" by (simp add: agree_def)
  qed simp
  then show ?thesis by simp
qed (use u in \<open>auto simp: deleteAuthFile_def\<close>)

lemma poll_fact:
  assumes srv: "file_server m api files"
  shows "poll_loop m api ctx dl n accept pending k e = (r, e') \<Longrightarrow>
    files (wld e') = files (wld e) \<and> (\<forall>x. r = Inr x \<longrightarrow> accept (seen (files (wld e)) n) = Some x)"
proof (induction "dl - clk e" arbitrary: k e rule: less_induct)
  case less
  obtain d e1 where d: "downloadAuthFileWithOptions m api (Some dl) n True e = (d, e1)" by fastforce
  note f = download_fact [OF srv d] and c = download_clk [OF d]
  obtain b e2 where b: "waitManagementRetry (Some dl) (verify_interval k) e1 = (b, e2)" by fastforce
  have w: "wld e2 = wld e1" using wait_clk [OF b] by simp
  have dec: "dl - clk e2 < dl - clk e" if "b" "\<not> dl \<le> clk e1"
    using that b c verify_interval_pos [of k] by (auto simp: waitManagementRetry_def split: if_splits)
  consider x v where "r = Inr x" "e' = e1" "d = Inr v" "accept v = Some x"
    | "e' = e1 \<or> e' = e2" "\<exists>err. r = Inl err"
    | "b" "\<not> dl \<le> clk e1" "poll_loop m api ctx dl n accept pending (Suc k) e2 = (r, e')"
    using less.prems d b by (subst (asm) poll_loop.simps) (auto split: sum.splits option.splits if_splits bool.splits)
  then show ?case
  proof cases
    case 1
    with f show ?thesis by auto
  next
    case 2
    with f w show ?thesis by auto
  next
    case 3
    from less.hyps [OF dec [OF 3(1,2)] 3(3)] w f show ?thesis by simp
  qed
qed

lemma wait_fact:
  assumes srv: "file_server m api files" and w: "waitForAuthFile m api ctx n pred e = (r, e')"
  shows "files (wld e') = files (wld e) \<and> (\<forall>raw. r = Inr raw \<longrightarrow> seen (files (wld e)) n = Some raw \<and> pred raw)"
  using w poll_fact [OF srv, of ctx "WithTimeout ctx managementVerifyWindow e" n _ NotVisible 0 e r e']
  by (fastforce simp: waitForAuthFile_def split: if_splits option.splits)

lemma absent_fact:
  assumes srv: "file_server m api files" and w: "waitForAuthFileAbsent m api ctx n e = (r, e')"
  shows "files (wld e') = files (wld e) \<and> (r = Inr () \<longrightarrow> files (wld e) n = None)"
  using w poll_fact [OF srv, of ctx "WithTimeout ctx managementVerifyWindow e" n _ StillPresent 0 e r e']
  by (fastforce simp: waitForAuthFileAbsent_def seen_def split: if_splits option.splits)

section \<open>Transactions\<close>

lemma put_back_fact:
  assumes srv: "file_server m api files" and p: "put_back m api ctx n raw e = (r, e')"
  shows "agree {n} (files (wld e)) (files (wld e')) \<and>
    (r = Inr () \<longrightarrow> (\<exists>b. seen (files (wld e')) n = Some b \<and> equivalentJSON b raw))"
proof -
  obtain u e1 where u: "uploadAuthFile m api ctx n raw e = (u, e1)" by fastforce
  obtain w e2 where w: "waitForAuthFile m api ctx n (\<lambda>now. equivalentJSON now raw) e1 = (w, e2)" by fastforce
  note fu = upload_fact [OF srv u] and fw = wait_fact [OF srv w]
  show ?thesis
  proof (cases u)
    case (Inl err)
    with p u have "r = Inl err" "e' = e1" by (simp_all add: put_back_def)
    with fu show ?thesis by simp
  next
    case (Inr x)
    then have "(case w of Inl err \<Rightarrow> (Inl err, e2) | Inr _ \<Rightarrow> (Inr (), e2)) = (r, e')"
      using p u w by (simp add: put_back_def)
    then have "e' = e2" "r = Inr () \<Longrightarrow> \<exists>b. w = Inr b" by (cases w; simp)+
    with fu fw show ?thesis by auto
  qed
qed

lemma restore_list_fact:
  assumes srv: "file_server m api files"
  shows "restoreManagedFilesWithContext m api ctx fs e = (r, e') \<Longrightarrow> agree (fst ` set fs) (files (wld e)) (files (wld e'))"
proof (induction fs arbitrary: e)
  case (Cons f fs)
  obtain n raw where f: "f = (n, raw)" by fastforce
  obtain q e1 where q: "put_back m api ctx n raw e = (q, e1)" by fastforce
  have a1: "agree (fst ` set (f # fs)) (files (wld e)) (files (wld e1))"
    using put_back_fact [OF srv q] f by (auto intro: agree_mono)
  from Cons.prems f q consider "e' = e" | "e' = e1" | "restoreManagedFilesWithContext m api ctx fs e1 = (r, e')"
    by (cases q) (simp_all split: if_splits)
  then show ?case
  proof cases
    case 3
    from agree_trans [OF a1 Cons.IH [OF this]] show ?thesis by auto
  qed (use a1 in simp_all)
qed simp

lemma restore_fact:
  "file_server m api files \<Longrightarrow> agree (fst ` set fs) (files (wld e)) (files (wld (snd (restoreManagedFiles m api fs e))))"
  using restore_list_fact [of m api files "Some (clk e + rollback_window)" "sort_key fst fs" e]
  by (cases "restoreManagedFilesWithContext m api (Some (clk e + rollback_window)) (sort_key fst fs) e")
     (auto simp: restoreManagedFiles_def)

lemma rollback_fact:
  assumes srv: "file_server m api files"
  shows "agree (insert n (fst ` set deleted)) (files (wld e)) (files (wld (snd (rollbackManagedFiles m api n previous deleted e))))"
proof -
  let ?ctx = "Some (clk e + rollback_window)"
  let ?first = "if n = [] then (Inr (), e) else case previous of Some raw \<Rightarrow> put_back m api ?ctx n raw e
    | None \<Rightarrow> (case deleteAuthFile m api ?ctx n e of (r1, e1) \<Rightarrow>
        (case waitForAuthFileAbsent m api ?ctx n e1 of (r2, e2) \<Rightarrow> (first_error r1 r2, e2)))"
  obtain r e1 where f: "?first = (r, e1)" by fastforce
  obtain r2 e2 where g: "restoreManagedFilesWithContext m api ?ctx (sort_key fst deleted) e1 = (r2, e2)" by fastforce
  have "agree {n} (files (wld e)) (files (wld e1))"
  proof (cases "n = []")
    case False
    show ?thesis
    proof (cases previous)
      case None
      obtain q1 d1 where q1: "deleteAuthFile m api ?ctx n e = (q1, d1)" by fastforce
      obtain q2 d2 where q2: "waitForAuthFileAbsent m api ?ctx n d1 = (q2, d2)" by fastforce
      from f False None q1 q2 have "e1 = d2" by simp
      with delete_fact [OF srv q1] absent_fact [OF srv q2] show ?thesis by simp
    next
      case (Some raw)
      with f False have "put_back m api ?ctx n raw e = (r, e1)" by simp
      from put_back_fact [OF srv this] show ?thesis by simp
    qed
  qed (use f in simp)
  moreover have "agree (fst ` set deleted) (files (wld e1)) (files (wld e2))"
    using restore_list_fact [OF srv g] by simp
  moreover have "snd (rollbackManagedFiles m api n previous deleted e) = e2"
    using f g by (simp add: rollbackManagedFiles_def Let_def)
  ultimately show ?thesis by (auto intro: agree_trans)
qed

definition holds_files :: "(string \<Rightarrow> bytes option) \<Rightarrow> managed_files \<Rightarrow> bool" where
  "holds_files fs found \<longleftrightarrow> gomap_ok found \<and>
     (\<forall>n f. map_get found n = Some f \<longrightarrow> seen fs n = Some (mfRaw f) \<and> managedCredentialIdentity (mfRaw f) = Some (mfIdentityID f))"

definition complete_files :: "(string \<Rightarrow> bytes option) \<Rightarrow> string list \<Rightarrow> string set \<Rightarrow> managed_files \<Rightarrow> bool" where
  "complete_files fs ids ns found \<longleftrightarrow>
     (\<forall>n raw i. n \<in> ns \<and> seen fs n = Some raw \<and> managedCredentialIdentity raw = Some i \<and> (ids = [] \<or> i \<in> set ids) \<longrightarrow>
        map_get found n = Some \<lparr>mfIdentityID = i, mfRaw = raw\<rparr>)"

lemma complete_mono: "complete_files fs ids T found \<Longrightarrow> S \<subseteq> T \<Longrightarrow> complete_files fs ids S found"
  unfolding complete_files_def by blast

lemma holds_put:
  "holds_files fs acc \<Longrightarrow> seen fs n = Some raw \<Longrightarrow> managedCredentialIdentity raw = Some i \<Longrightarrow>
     holds_files fs (map_put n \<lparr>mfIdentityID = i, mfRaw = raw\<rparr> acc)"
  by (simp add: holds_files_def)

lemma collect_fact:
  assumes srv: "file_server m api files"
  shows "collect_files m api ctx ids cands acc e = (r, e') \<Longrightarrow> holds_files (files (wld e)) acc \<Longrightarrow>
    complete_files (files (wld e)) ids ns acc \<Longrightarrow> files (wld e') = files (wld e) \<and>
    (\<forall>found. r = Inr found \<longrightarrow> holds_files (files (wld e)) found \<and>
       complete_files (files (wld e)) ids (ns \<union> fst ` set cands) found)"
proof (induction cands arbitrary: acc ns e)
  case (Cons cand rest)
  obtain n rnf where c: "cand = (n, rnf)" by fastforce
  obtain d e1 where d: "downloadAuthFileWithOptions m api ctx n rnf e = (d, e1)" by fastforce
  note f = download_fact [OF srv d]
  let ?fs = "files (wld e)"
  have go: ?case if "collect_files m api ctx ids rest acc' e1 = (r, e')" "holds_files ?fs acc'" "complete_files ?fs ids (insert n ns) acc'" for acc'
    using Cons.IH [OF that(1), of "insert n ns"] that(2,3) f c by simp
  show ?case
  proof (cases d)
    case (Inl err)
    with Cons.prems(1) c d f show ?thesis by auto
  next
    case (Inr v)
    with f have v: "seen ?fs n = v" by simp
    show ?thesis
    proof (cases "\<exists>raw i. v = Some raw \<and> managedCredentialIdentity raw = Some i \<and> (ids = [] \<or> i \<in> set ids)")
      case True
      then obtain raw i where r: "v = Some raw" "managedCredentialIdentity raw = Some i" "ids = [] \<or> i \<in> set ids" by blast
      show ?thesis
      proof (rule go)
        show "collect_files m api ctx ids rest (map_put n \<lparr>mfIdentityID = i, mfRaw = raw\<rparr> acc) e1 = (r, e')"
          using Cons.prems(1) c d Inr r by auto
        show "holds_files ?fs (map_put n \<lparr>mfIdentityID = i, mfRaw = raw\<rparr> acc)"
          using Cons.prems(2) v r by (intro holds_put) simp_all
        show "complete_files ?fs ids (insert n ns) (map_put n \<lparr>mfIdentityID = i, mfRaw = raw\<rparr> acc)"
          using Cons.prems(3) v r by (auto simp: complete_files_def)
      qed
    next
      case False
      show ?thesis
      proof (rule go)
        show "collect_files m api ctx ids rest acc e1 = (r, e')"
          using Cons.prems(1) c d Inr False by (auto split: option.splits if_splits)
        show "complete_files ?fs ids (insert n ns) acc"
          using Cons.prems(3) v False by (auto simp: complete_files_def)
      qed (rule Cons.prems(2))
    qed
  qed
qed auto

lemma put_keys: "fst ` set (map_put k v m) = insert k (fst ` set m)"
  by (simp add: dom_map_of_conv_image_fst [symmetric] update_conv' dom_def) auto

lemma own_candidates_keys: "fst ` set (fold own_candidate cs m) = fst ` set cs \<union> fst ` set m"
proof (induction cs arbitrary: m)
  case (Cons c cs)
  have "fst ` set (own_candidate c m) = insert (fst c) (fst ` set m)"
    by (auto simp: own_candidate_def Let_def put_keys dom_map_of_conv_image_fst [symmetric])
  with Cons show ?case by auto
qed simp

text \<open>What discovery finds is what the server has, and it misses no deterministic name.\<close>

lemma discover_fact:
  assumes srv: "file_server m api files" and c: "normalizeCredential c = c" "validateIdentityID (crIdentityID c)"
    and d: "managedAuthFilesForCredentials C m api ctx [c] e = (r, e')"
  shows "files (wld e') = files (wld e) \<and>
    (\<forall>found. r = Inr found \<longrightarrow> holds_files (files (wld e)) found \<and>
       complete_files (files (wld e)) [crIdentityID c] (fst ` set (managedAuthFileCandidates C c)) found)"
proof -
  obtain l e1 where l: "listAuthFileEntries m api ctx e = (l, e1)" by fastforce
  note lf = list_fact [OF srv l]
  show ?thesis
  proof (cases l)
    case (Inl err)
    with d l lf show ?thesis by (auto simp: managedAuthFilesForCredentials_def)
  next
    case (Inr items)
    let ?cands = "sort_key fst (candidate_retries C items [c])"
    have w: "wanted_credentials [c] = [c]" using c by (simp add: wanted_credentials_def)
    have "collect_files m api ctx [crIdentityID c] ?cands [] e1 = (r, e')"
      using d l Inr w by (simp add: managedAuthFilesForCredentials_def)
    from collect_fact [OF srv this, of "{}"] lf
    have "files (wld e') = files (wld e) \<and> (\<forall>found. r = Inr found \<longrightarrow> holds_files (files (wld e)) found \<and>
        complete_files (files (wld e)) [crIdentityID c] (fst ` set ?cands) found)"
      by (simp add: holds_files_def complete_files_def)
    moreover have "fst ` set (managedAuthFileCandidates C c) \<subseteq> fst ` set ?cands"
      by (auto simp: candidate_retries_def w own_candidates_keys)
    ultimately show ?thesis using complete_mono by blast
  qed
qed

lemma migrate_fact:
  assumes srv: "file_server m api files"
  shows "migrate m api ctx name previous before ns deleted e = (r, e') \<Longrightarrow>
    agree (insert name (set ns \<union> fst ` set deleted)) (files (wld e)) (files (wld e')) \<and>
    (\<forall>del. r = Inr del \<longrightarrow> agree (set ns - {name}) (files (wld e)) (files (wld e')) \<and>
       (\<forall>n \<in> set ns - {name}. files (wld e') n = None) \<and> fst ` set del \<subseteq> set ns \<union> fst ` set deleted)"
proof (induction ns arbitrary: deleted e)
  case (Cons n ns)
  show ?case
  proof (cases "n = name")
    case True
    with Cons.prems have "migrate m api ctx name previous before ns deleted e = (r, e')" by simp
    from Cons.IH [OF this] True show ?thesis by (auto intro: agree_mono)
  next
    case False
    let ?del = "map_put n (file_raw before n) deleted"
    obtain x e1 where x: "deleteAuthFile m api ctx n e = (x, e1)" by fastforce
    obtain y e2 where y: "waitForAuthFileAbsent m api ctx n e1 = (y, e2)" by fastforce
    note fx = delete_fact [OF srv x] and fy = absent_fact [OF srv y]
    let ?U = "insert name (set (n # ns) \<union> fst ` set deleted)"
    have keys: "fst ` set ?del = insert n (fst ` set deleted)" by (rule put_keys)
    have undone: "agree ?U (files (wld e)) (files (wld (snd (rollbackManagedFiles m api name previous ?del e0))))"
      if "files (wld e0) = files (wld e1)" for e0
      using agree_trans [OF fx, of "insert name (fst ` set ?del)" _ ?U] rollback_fact [OF srv, of name ?del e0 previous] that keys by auto
    consider "\<exists>err. r = Inl err" "e' = snd (rollbackManagedFiles m api name previous ?del e1) \<or> e' = snd (rollbackManagedFiles m api name previous ?del e2)"
      | "y = Inr ()" "migrate m api ctx name previous before ns ?del e2 = (r, e')"
      using Cons.prems False x y by (cases x; cases y) (simp_all add: Let_def, metis+)
    then show ?thesis
    proof cases
      case 1
      with undone [of e1] undone [of e2] fy show ?thesis by auto
    next
      case 2
      note IH = Cons.IH [OF 2(2)]
      have gone: "files (wld e2) n = None" using fy 2(1) by simp
      have e2: "agree {n} (files (wld e)) (files (wld e2))" using fx fy by simp
      have "agree ?U (files (wld e)) (files (wld e'))"
        using agree_trans [OF e2 IH [THEN conjunct1], of ?U] keys by auto
      moreover have "agree (set (n # ns) - {name}) (files (wld e)) (files (wld e'))" if "r = Inr del" for del
      proof (rule agree_trans [OF e2])
        show "agree (set ns - {name}) (files (wld e2)) (files (wld e'))" using IH that by blast
        show "{n} \<union> (set ns - {name}) \<subseteq> set (n # ns) - {name}" using False by auto
      qed
      moreover have "files (wld e') k = None" if "r = Inr del" "k \<in> set (n # ns) - {name}" for del k
      proof (cases "k \<in> set ns - {name}")
        case True
        with IH that(1) show ?thesis by blast
      next
        case no: False
        with that(2) have "k = n" by auto
        with no IH that(1) gone show ?thesis by (auto simp: agree_def)
      qed
      moreover have "fst ` set del \<subseteq> set (n # ns) \<union> fst ` set deleted" if "r = Inr del" for del
        using IH keys that by auto
      ultimately show ?thesis by blast
    qed
  qed
qed auto

lemma matching_names:
  assumes "holds_files fs found" "n \<in> set (matchingManagedFileNames found c)"
  shows "\<exists>f. map_get found n = Some f \<and> seen fs n = Some (mfRaw f) \<and> managedCredentialMatchScore (mfRaw f) c \<noteq> None \<and>
    managedCredentialIdentity (mfRaw f) = Some (crIdentityID (normalizeCredential c))"
proof -
  obtain f where f: "(n, f) \<in> set found" "managedCredentialMatchScore (mfRaw f) c \<noteq> None"
    using assms(2) by (auto simp: matchingManagedFileNames_def)
  have g: "map_get found n = Some f" using f(1) assms(1) by (simp add: holds_files_def gomap_get_iff)
  moreover have "managedCredentialIdentity (mfRaw f) = Some (crIdentityID (normalizeCredential c))"
    using f(2) by (auto simp: managedCredentialMatchScore_def Let_def split: if_splits)
  ultimately show ?thesis using f(2) assms(1) by (auto simp: holds_files_def)
qed

lemma matching_names_complete:
  assumes "holds_files fs found" "complete_files fs [crIdentityID c] ns found" "normalizeCredential c = c"
    and "n \<in> ns" "seen fs n = Some raw" "managedCredentialMatchScore raw c \<noteq> None"
  shows "n \<in> set (matchingManagedFileNames found c) \<and> map_get found n = Some \<lparr>mfIdentityID = crIdentityID c, mfRaw = raw\<rparr>"
proof -
  have "managedCredentialIdentity raw = Some (crIdentityID c)"
    using assms(3,6) by (auto simp: managedCredentialMatchScore_def Let_def split: if_splits)
  with assms(2,4,5) have g: "map_get found n = Some \<lparr>mfIdentityID = crIdentityID c, mfRaw = raw\<rparr>"
    unfolding complete_files_def by simp
  then have "(n, \<lparr>mfIdentityID = crIdentityID c, mfRaw = raw\<rparr>) \<in> set found" by (rule map_of_SomeD)
  with assms(6) have "n \<in> set (matchingManagedFileNames found c)" by (force simp: matchingManagedFileNames_def)
  with g show ?thesis by simp
qed

lemma normalize_idem: "normalizeCredential (normalizeCredential c) = normalizeCredential c"
  by (simp add: normalizeCredential_def TrimSpace_ToLower)

lemma upsert_commit_fact:
  assumes srv: "file_server m api files" and u: "upsert_commit m api ctx c name before previous body e = (r, e')"
  defines "names \<equiv> set (matchingManagedFileNames before c)"
  shows "agree (insert name names) (files (wld e)) (files (wld e')) \<and>
    (r = Inr () \<longrightarrow> (\<exists>raw. seen (files (wld e')) name = Some raw \<and> managedCredentialMatches raw c body) \<and>
       (\<forall>n \<in> names - {name}. files (wld e') n = None))"
proof -
  let ?ok = "\<lambda>raw. managedCredentialMatches raw c body"
  obtain u1 e1 where u1: "(if (case previous of None \<Rightarrow> False | Some raw \<Rightarrow> equivalentJSON raw body) then (Inr (), e)
      else uploadAuthFile m api ctx name body e) = (u1, e1)" by fastforce
  obtain u2 e2 where u2: "waitForAuthFile m api ctx name ?ok e1 = (u2, e2)" by fastforce
  obtain u3 e3 where u3: "migrate m api ctx name previous before (matchingManagedFileNames before c) [] e2 = (u3, e3)" by fastforce
  obtain u4 e4 where u4: "waitForAuthFile m api ctx name ?ok e3 = (u4, e4)" by fastforce
  have f1: "agree {name} (files (wld e)) (files (wld e1))"
    using u1 upload_fact [OF srv] by (auto split: if_splits)
  note f2 = wait_fact [OF srv u2] and f3 = migrate_fact [OF srv u3] and f4 = wait_fact [OF srv u4]
  have g2: "agree (insert name names) (files (wld e)) (files (wld e2))" using f1 f2 by (auto intro: agree_mono)
  have g3: "agree (insert name names) (files (wld e)) (files (wld e3))"
    by (rule agree_trans [OF g2 f3 [THEN conjunct1]]) (auto simp: names_def)
  have undone: "agree (insert name names) (files (wld e)) (files (wld (snd (rollbackManagedFiles m api name previous del x))))"
    if "agree (insert name names) (files (wld e)) (files (wld x))" "fst ` set del \<subseteq> names" for x del
    by (rule agree_trans [OF that(1) rollback_fact [OF srv]]) (use that(2) in auto)
  consider
      err where "r = Inl err" "e' = snd (rollbackManagedFiles m api name previous [] e1)"
    | err where "r = Inl err" "e' = snd (rollbackManagedFiles m api name previous [] e2)"
    | err where "r = Inl err" "e' = e3"
    | err del where "r = Inl err" "u3 = Inr del" "e' = snd (rollbackManagedFiles m api name previous del e4)"
    | raw del where "u3 = Inr del" "u4 = Inr raw" "r = Inr ()" "e' = e4"
    using u unfolding upsert_commit_def Let_def u1
    by (cases u1; cases u2; cases u3; cases u4) (auto simp: u2 u3 u4)
  then show ?thesis
  proof cases
    case 1
    with undone [of e1 "[]"] agree_mono [OF f1, of "insert name names"] show ?thesis by simp
  next
    case 2
    with undone [of e2 "[]"] g2 show ?thesis by simp
  next
    case 3
    with g3 show ?thesis by simp
  next
    case 4
    have "fst ` set del \<subseteq> names" using f3 4(2) by (auto simp: names_def)
    with undone [of e4 del] g3 f4 4 show ?thesis by simp
  next
    case 5
    with g3 f3 f4 show ?thesis by (auto simp: names_def)
  qed
qed

definition foreign_kept :: "string \<Rightarrow> (string \<Rightarrow> bytes option) \<Rightarrow> (string \<Rightarrow> bytes option) \<Rightarrow> bool" where
  "foreign_kept i fs fs' \<longleftrightarrow> (\<forall>n raw. seen fs n = Some raw \<and> \<not> isManagedCredential raw i \<longrightarrow> fs' n = fs n)"

text \<open>
  The canonical file holds a document that verifies against one the manager would write, and no other file
  under a deterministic name of the credential is left.
\<close>

definition installed :: "crypto \<Rightarrow> CpaManager \<Rightarrow> Credential \<Rightarrow> (string \<Rightarrow> bytes option) \<Rightarrow> (string \<Rightarrow> bytes option) \<Rightarrow> bool" where
  "installed C m c fs fs' \<longleftrightarrow>
     (\<exists>name before previous body raw. authFileName C c = Some name \<and> upsert_body C m c before previous = Inr body \<and>
        seen fs' name = Some raw \<and> managedCredentialMatches raw c body \<and>
        (\<forall>n old. n \<in> fst ` set (managedAuthFileCandidates C c) \<and> n \<noteq> name \<and> seen fs n = Some old \<and>
           managedCredentialMatchScore old c \<noteq> None \<longrightarrow> fs' n = None))"

lemma foreign_kept_refl [simp]: "foreign_kept i fs fs"
  by (simp add: foreign_kept_def)

lemma foreign_keptI:
  assumes "agree S fs fs'" "\<And>n raw. n \<in> S \<Longrightarrow> seen fs n = Some raw \<Longrightarrow> isManagedCredential raw i"
  shows "foreign_kept i fs fs'"
  using assms unfolding foreign_kept_def agree_def by blast

lemma matching_names_mine:
  assumes "holds_files fs found" "normalizeCredential c = c" "n \<in> set (matchingManagedFileNames found c)" "seen fs n = Some raw"
  shows "isManagedCredential raw (crIdentityID c)"
proof -
  have "TrimSpace (crIdentityID c) = crIdentityID c"
    using arg_cong [OF assms(2), of crIdentityID] by (simp add: normalizeCredential_def)
  with matching_names [OF assms(1,3)] assms(2,4) show ?thesis by (auto simp: isManagedCredential_def)
qed

lemma upsert_install_fact:
  assumes srv: "file_server m api files" and u: "upsert_commit m api ctx c name before previous body e = (r, e')"
    and nc: "normalizeCredential c = c" and name: "authFileName C c = Some name" and body: "upsert_body C m c before previous = Inr body"
    and holds: "holds_files (files (wld e)) before"
    and comp: "complete_files (files (wld e)) [crIdentityID c] (fst ` set (managedAuthFileCandidates C c)) before"
    and own: "\<And>raw. seen (files (wld e)) name = Some raw \<Longrightarrow> isManagedCredential raw (crIdentityID c)"
  shows "foreign_kept (crIdentityID c) (files (wld e)) (files (wld e')) \<and> (r = Inr () \<longrightarrow> installed C m c (files (wld e)) (files (wld e')))"
proof
  note fc = upsert_commit_fact [OF srv u]
  show "foreign_kept (crIdentityID c) (files (wld e)) (files (wld e'))"
    by (rule foreign_keptI [OF fc [THEN conjunct1]]) (use own matching_names_mine [OF holds nc] in auto)
  show "r = Inr () \<longrightarrow> installed C m c (files (wld e)) (files (wld e'))"
  proof
    assume "r = Inr ()"
    with fc obtain raw where raw: "seen (files (wld e')) name = Some raw" "managedCredentialMatches raw c body"
      and gone: "\<forall>n \<in> set (matchingManagedFileNames before c) - {name}. files (wld e') n = None" by blast
    have "files (wld e') n = None" if "n \<in> fst ` set (managedAuthFileCandidates C c)" "n \<noteq> name"
        "seen (files (wld e)) n = Some old" "managedCredentialMatchScore old c \<noteq> None" for n old
    proof -
      have "n \<in> set (matchingManagedFileNames before c) - {name}"
        using matching_names_complete [OF holds comp nc that(1,3,4)] that(2) by simp
      with gone show ?thesis by (rule bspec)
    qed
    then show "installed C m c (files (wld e)) (files (wld e'))"
      unfolding installed_def
      by (intro exI [of _ name] exI [of _ before] exI [of _ previous] exI [of _ body] exI [of _ raw])
         (use name body raw in simp)
  qed
qed

lemma upsert_prepared_fact:
  assumes srv: "file_server m api files" and p: "upsert_prepared C m api ctx c name e = (r, e')"
    and nc: "normalizeCredential c = c" and vi: "validateIdentityID (crIdentityID c)" and name: "authFileName C c = Some name"
  shows "foreign_kept (crIdentityID c) (files (wld e)) (files (wld e')) \<and> (r = Inr () \<longrightarrow> installed C m c (files (wld e)) (files (wld e')))"
proof -
  obtain d e1 where d: "managedAuthFilesForCredentials C m api ctx [c] e = (d, e1)" by fastforce
  obtain g e2 where g: "downloadAuthFile m api ctx name e1 = (g, e2)" by fastforce
  note fd = discover_fact [OF srv nc vi d] and fg = download_fact [OF srv g [unfolded downloadAuthFile_def]]
  have same: "files (wld e1) = files (wld e)" "files (wld e2) = files (wld e)" using fd fg by simp_all
  show ?thesis
  proof (cases "\<exists>before found. d = Inr before \<and> g = Inr found \<and> (\<forall>raw. found = Some raw \<longrightarrow> isManagedCredential raw (crIdentityID c))")
    case False
    then have "(e' = e1 \<or> e' = e2) \<and> (\<exists>err. r = Inl err)"
      using p d g by (cases d; cases g) (auto simp: upsert_prepared_def split: option.splits)
    with same show ?thesis by auto
  next
    case True
    then obtain before found where b: "d = Inr before" "g = Inr found" "\<forall>raw. found = Some raw \<longrightarrow> isManagedCredential raw (crIdentityID c)"
      by blast
    then have nf: "\<not> (case found of None \<Rightarrow> False | Some raw \<Rightarrow> \<not> isManagedCredential raw (crIdentityID c))"
      by (auto split: option.splits)
    define previous where "previous = (case found of Some raw \<Rightarrow> Some raw | None \<Rightarrow> (case map_get before name of
        Some old \<Rightarrow> if mfIdentityID old = crIdentityID c then Some (mfRaw old) else None | None \<Rightarrow> None))"
    have p': "(case upsert_body C m c before previous of Inl err \<Rightarrow> (Inl err, e2)
        | Inr body \<Rightarrow> upsert_commit m api ctx c name before previous body e2) = (r, e')"
      using p d g b(1,2) nf unfolding upsert_prepared_def previous_def by (simp add: Let_def)
    have facts: "holds_files (files (wld e2)) before"
      "complete_files (files (wld e2)) [crIdentityID c] (fst ` set (managedAuthFileCandidates C c)) before"
      "seen (files (wld e2)) name = found"
      using fd fg b(1,2) same by simp_all
    show ?thesis
    proof (cases "upsert_body C m c before previous")
      case (Inl err)
      with p' same show ?thesis by auto
    next
      case (Inr body)
      with p' have "upsert_commit m api ctx c name before previous body e2 = (r, e')" by simp
      from upsert_install_fact [OF srv this nc name Inr facts(1,2)] facts(3) b(3) same show ?thesis by simp
    qed
  qed
qed

lemma upsert_fact:
  assumes srv: "file_server m api files" and u: "UpsertIdentity C m api ctx credential e = (r, e')"
  shows "foreign_kept (crIdentityID (normalizeCredential credential)) (files (wld e)) (files (wld e')) \<and>
    (r = Inr () \<longrightarrow> installed C m (normalizeCredential credential) (files (wld e)) (files (wld e')))"
proof (cases "\<exists>name. validateCredential (normalizeCredential credential) = None \<and> authFileName C (normalizeCredential credential) = Some name")
  case False
  then have "e' = e" "\<exists>err. r = Inl err" using u by (auto simp: UpsertIdentity_def Let_def split: option.splits)
  then show ?thesis by auto
next
  case True
  then obtain name where name: "authFileName C (normalizeCredential credential) = Some name"
    and val: "validateCredential (normalizeCredential credential) = None" by blast
  then have "validateIdentityID (crIdentityID (normalizeCredential credential))"
    by (auto simp: validateCredential_def split: if_splits)
  moreover have "upsert_prepared C m api ctx (normalizeCredential credential) name e = (r, e')"
    using u val name by (simp add: UpsertIdentity_def Let_def)
  ultimately show ?thesis using upsert_prepared_fact [OF srv _ normalize_idem _ name] by blast
qed

lemma remove_files_fact:
  assumes srv: "file_server m api files"
  shows "remove_files m api ctx found ns deleted e = (r, e') \<Longrightarrow>
    agree (set ns \<union> fst ` set deleted) (files (wld e)) (files (wld e')) \<and>
    (r = Inr () \<longrightarrow> agree (set ns) (files (wld e)) (files (wld e')) \<and> (\<forall>n \<in> set ns. files (wld e') n = None))"
proof (induction ns arbitrary: deleted e)
  case (Cons n ns)
  let ?del = "map_put n (file_raw found n) deleted" and ?U = "set (n # ns) \<union> fst ` set deleted"
  obtain x e1 where x: "deleteAuthFile m api ctx n e = (x, e1)" by fastforce
  obtain y e2 where y: "waitForAuthFileAbsent m api ctx n e1 = (y, e2)" by fastforce
  note fx = delete_fact [OF srv x] and fy = absent_fact [OF srv y]
  have keys: "fst ` set ?del = insert n (fst ` set deleted)" by (rule put_keys)
  have e2: "agree {n} (files (wld e)) (files (wld e2))" using fx fy by simp
  have undone: "agree ?U (files (wld e)) (files (wld (snd (restoreManagedFiles m api ?del e0))))"
    if "files (wld e0) = files (wld e1)" for e0
    using agree_trans [OF fx, of "fst ` set ?del" _ ?U] restore_fact [OF srv, of ?del e0] that keys by auto
  consider err where "r = Inl err" "e' = snd (restoreManagedFiles m api ?del e1) \<or> e' = snd (restoreManagedFiles m api ?del e2)"
    | "y = Inr ()" "remove_files m api ctx found ns ?del e2 = (r, e')"
    using Cons.prems x y by (cases x; cases y) (auto simp: Let_def)
  then show ?case
  proof cases
    case 1
    with undone [of e1] undone [of e2] fy show ?thesis by auto
  next
    case 2
    note IH = Cons.IH [OF 2(2)]
    have "agree ?U (files (wld e)) (files (wld e'))" using agree_trans [OF e2 IH [THEN conjunct1], of ?U] keys by auto
    moreover have "agree (set (n # ns)) (files (wld e)) (files (wld e'))" if "r = Inr ()"
      using agree_insert [OF e2, of "set ns"] IH that by simp
    moreover have "files (wld e') k = None" if "r = Inr ()" "k \<in> set (n # ns)" for k
      using IH fy 2(1) that by (cases "k \<in> set ns") (auto simp: agree_def)
    ultimately show ?thesis by blast
  qed
qed simp

lemma disable_files_fact:
  assumes srv: "file_server m api files"
  shows "disable_files m api ctx c dis found ns updated e = (r, e') \<Longrightarrow> distinct ns \<Longrightarrow>
    agree (set ns \<union> fst ` set updated) (files (wld e)) (files (wld e')) \<and>
    (r = Inr () \<longrightarrow> agree (set ns) (files (wld e)) (files (wld e')) \<and>
       (\<forall>n \<in> set ns. \<exists>raw. seen (files (wld e')) n = Some raw \<and> managedCredentialStateMatches raw c dis))"
proof (induction ns arbitrary: updated e)
  case (Cons n ns)
  let ?upd = "map_put n (file_raw found n) updated" and ?U = "set (n # ns) \<union> fst ` set updated"
  have keys: "fst ` set ?upd = insert n (fst ` set updated)" by (rule put_keys)
  have undone: "agree ?U (files (wld e)) (files (wld (snd (restoreManagedFiles m api ?upd e0))))"
    if "agree {n} (files (wld e)) (files (wld e0))" for e0
    using agree_trans [OF that restore_fact [OF srv, of ?upd e0], of ?U] keys by auto
  show ?case
  proof (cases "setManagedCredentialDisabled (file_raw found n) dis")
    case (Inl err)
    with Cons.prems undone [of e] show ?thesis by auto
  next
    case (Inr nxt)
    obtain x e1 where x: "(if equivalentJSON (file_raw found n) nxt then (Inr (), e) else uploadAuthFile m api ctx n nxt e) = (x, e1)" by fastforce
    obtain y e2 where y: "waitForAuthFile m api ctx n (\<lambda>raw. managedCredentialStateMatches raw c dis) e1 = (y, e2)" by fastforce
    have fx: "agree {n} (files (wld e)) (files (wld e1))" using x upload_fact [OF srv] by (auto split: if_splits)
    note fy = wait_fact [OF srv y]
    have e2: "agree {n} (files (wld e)) (files (wld e2))" using fx fy by simp
    consider err where "r = Inl err" "e' = snd (restoreManagedFiles m api ?upd e1) \<or> e' = snd (restoreManagedFiles m api ?upd e2)"
      | raw where "y = Inr raw" "disable_files m api ctx c dis found ns ?upd e2 = (r, e')"
      using Cons.prems(1) Inr x y by (cases x; cases y) (auto simp: Let_def)
    then show ?thesis
    proof cases
      case 1
      with undone [OF fx] undone [OF e2] show ?thesis by auto
    next
      case 2
      note IH = Cons.IH [OF 2(2)]
      have "agree ?U (files (wld e)) (files (wld e'))"
        using agree_trans [OF e2, of "set ns \<union> fst ` set ?upd" _ ?U] IH Cons.prems(2) keys by auto
      moreover have "agree (set (n # ns)) (files (wld e)) (files (wld e'))" if "r = Inr ()"
        using agree_insert [OF e2, of "set ns"] IH that Cons.prems(2) by simp
      moreover have "\<exists>raw. seen (files (wld e')) k = Some raw \<and> managedCredentialStateMatches raw c dis"
        if "r = Inr ()" "k \<in> set (n # ns)" for k
      proof (cases "k \<in> set ns")
        case True
        then show ?thesis using IH that(1) Cons.prems(2) by auto
      next
        case False
        then have "seen (files (wld e')) k = seen (files (wld e2)) k" using IH that(1) Cons.prems(2) by (auto intro: agree_seen)
        with False that(2) fy 2(1) show ?thesis by auto
      qed
      ultimately show ?thesis by blast
    qed
  qed
qed simp

lemma restore_snapshots_fact:
  assumes srv: "file_server m api files"
  shows "restore_snapshots m api ctx ss e = (r, e') \<Longrightarrow> distinct (map asName ss) \<Longrightarrow>
    agree (asName ` set ss) (files (wld e)) (files (wld e')) \<and>
    (r = Inr () \<longrightarrow> (\<forall>s \<in> set ss. \<exists>b. seen (files (wld e')) (asName s) = Some b \<and> equivalentJSON b (asRaw s)))"
proof (induction ss arbitrary: e)
  case (Cons s ss)
  let ?n = "asName s"
  obtain x e1 where x: "put_back m api ctx ?n (asRaw s) e = (x, e1)" by fastforce
  note fx = put_back_fact [OF srv x]
  consider err where "r = Inl err" "e' = e \<or> e' = e1" | "x = Inr ()" "restore_snapshots m api ctx ss e1 = (r, e')"
    using Cons.prems(1) x by (cases x) (auto simp: Let_def split: if_splits)
  then show ?case
  proof cases
    case 1
    with fx show ?thesis by (auto intro: agree_mono)
  next
    case 2
    have IH: "agree (asName ` set ss) (files (wld e1)) (files (wld e')) \<and>
        (r = Inr () \<longrightarrow> (\<forall>s \<in> set ss. \<exists>b. seen (files (wld e')) (asName s) = Some b \<and> equivalentJSON b (asRaw s)))"
      using Cons.IH [OF 2(2)] Cons.prems(2) by simp
    have "seen (files (wld e')) ?n = seen (files (wld e1)) ?n"
      using IH Cons.prems(2) by (intro agree_seen) auto
    with fx 2(1) IH show ?thesis
      using agree_trans [OF fx [THEN conjunct1] IH [THEN conjunct1], of "asName ` set (s # ss)"] by auto
  qed
qed simp

end
