(* ===== verification/Cpa_Guarantees.thy ===== *)
theory Cpa_Guarantees
  imports Cpa_Properties
begin

text \<open>
  What the CPA synchronisation guarantees: files of others survive, an acknowledged upsert or removal has
  happened, a removal can be undone, verification always ends, and an upsert to a healthy server succeeds.
\<close>

section \<open>Safety\<close>

lemma isManaged_normalize: "isManagedCredential raw (crIdentityID (normalizeCredential c)) = isManagedCredential raw (crIdentityID c)"
  by (simp add: isManagedCredential_def normalizeCredential_def)

lemma matching_distinct: "gomap_ok found \<Longrightarrow> distinct (matchingManagedFileNames found c)"
  by (simp add: matchingManagedFileNames_def gomap_ok_def distinct_map_filter)

lemma remove_fact:
  assumes srv: "file_server m api files" and u: "RemoveCredentialWithSnapshot C m api ctx credential e = (r, e')"
  defines "c \<equiv> normalizeCredential credential"
  shows "foreign_kept (crIdentityID c) (files (wld e)) (files (wld e')) \<and>
    (\<forall>snaps. r = Inr snaps \<longrightarrow> (\<exists>found. holds_files (files (wld e)) found \<and>
       complete_files (files (wld e)) [crIdentityID c] (fst ` set (managedAuthFileCandidates C c)) found \<and>
       snaps = snapshotsForCredential found c \<and> agree (set (matchingManagedFileNames found c)) (files (wld e)) (files (wld e')) \<and>
       (\<forall>n \<in> set (matchingManagedFileNames found c). files (wld e') n = None)))"
proof (cases "validateIdentityID (crIdentityID c)")
  case False
  then show ?thesis using u by (auto simp: RemoveCredentialWithSnapshot_def Let_def c_def)
next
  case True
  have nc: "normalizeCredential c = c" by (simp add: c_def normalize_idem)
  obtain d e1 where d: "managedAuthFilesForCredentials C m api ctx [c] e = (d, e1)" by fastforce
  note fd = discover_fact [OF srv nc True d]
  show ?thesis
  proof (cases d)
    case (Inl err)
    with u True d fd show ?thesis by (auto simp: RemoveCredentialWithSnapshot_def Let_def c_def)
  next
    case (Inr found)
    obtain x e2 where x: "remove_files m api ctx found (matchingManagedFileNames found c) [] e1 = (x, e2)" by fastforce
    have eq: "e' = e2" "\<And>snaps. r = Inr snaps \<Longrightarrow> x = Inr () \<and> snaps = snapshotsForCredential found c"
      using u True d x Inr by (cases x; auto simp: RemoveCredentialWithSnapshot_def Let_def simp flip: c_def)+
    have holds: "holds_files (files (wld e)) found" using fd Inr by simp
    have same: "files (wld e1) = files (wld e)" using fd by simp
    note fx = remove_files_fact [OF srv x, unfolded same, simplified]
    have "foreign_kept (crIdentityID c) (files (wld e)) (files (wld e'))"
      unfolding eq(1) by (rule foreign_keptI [OF fx [THEN conjunct1]]) (use matching_names_mine [OF holds nc] in auto)
    then show ?thesis using fd Inr eq fx by blast
  qed
qed

lemma disable_fact:
  assumes srv: "file_server m api files" and u: "SetIdentityDisabledForCredential C m api ctx credential dis e = (r, e')"
  defines "c \<equiv> normalizeCredential credential"
  shows "foreign_kept (crIdentityID c) (files (wld e)) (files (wld e'))"
proof (cases "validateIdentityID (crIdentityID c)")
  case False
  then show ?thesis using u by (auto simp: SetIdentityDisabledForCredential_def Let_def c_def)
next
  case True
  have nc: "normalizeCredential c = c" by (simp add: c_def normalize_idem)
  obtain d e1 where d: "managedAuthFilesForCredentials C m api ctx [c] e = (d, e1)" by fastforce
  note fd = discover_fact [OF srv nc True d]
  have same: "files (wld e1) = files (wld e)" using fd by simp
  show ?thesis
  proof (cases "\<exists>found. d = Inr found \<and> matchingManagedFileNames found c \<noteq> []")
    case False
    with u True d have "e' = e1" by (cases d) (auto simp: SetIdentityDisabledForCredential_def Let_def simp flip: c_def)
    with same show ?thesis by simp
  next
    case True
    then obtain found where f: "d = Inr found" "matchingManagedFileNames found c \<noteq> []" by blast
    have holds: "holds_files (files (wld e)) found" using fd f by simp
    have "disable_files m api ctx c dis found (matchingManagedFileNames found c) [] e1 = (r, e')"
      using u \<open>validateIdentityID (crIdentityID c)\<close> d f by (simp add: SetIdentityDisabledForCredential_def Let_def flip: c_def)
    from disable_files_fact [OF srv this] matching_distinct holds
    have "agree (set (matchingManagedFileNames found c)) (files (wld e)) (files (wld e'))" by (simp add: same holds_files_def)
    then show ?thesis by (rule foreign_keptI) (use matching_names_mine [OF holds nc] in auto)
  qed
qed



lemma snapshots_of:
  assumes "holds_files fs found"
  shows "asName ` set (snapshotsForCredential found c) = set (matchingManagedFileNames found c)"
    "s \<in> set (snapshotsForCredential found c) \<Longrightarrow> seen fs (asName s) = Some (asRaw s)"
    "map asName (snapshotsForCredential found c) = matchingManagedFileNames found c"
proof -
  have get: "\<exists>f. map_get found n = Some f" if "n \<in> set (matchingManagedFileNames found c)" for n
    using matching_names [OF assms that] by blast
  show names: "map asName (snapshotsForCredential found c) = matchingManagedFileNames found c"
  proof -
    have "map asName (List.map_filter (\<lambda>name. map_option (\<lambda>file. \<lparr>asName = name, asIdentityID = mfIdentityID file, asRaw = mfRaw file,
         asDisabled = managedCredentialDisabled (mfRaw file) True\<rparr>) (map_get found name)) ns) = ns"
      if "\<forall>n \<in> set ns. \<exists>f. map_get found n = Some f" for ns
      using that by (induction ns) (auto simp: List.map_filter_simps)
    with get show ?thesis by (simp add: snapshotsForCredential_def)
  qed
  then show "asName ` set (snapshotsForCredential found c) = set (matchingManagedFileNames found c)" by (metis set_map)
  assume "s \<in> set (snapshotsForCredential found c)"
  then show "seen fs (asName s) = Some (asRaw s)"
    using assms by (auto simp: snapshotsForCredential_def List.map_filter_def holds_files_def)
qed

text \<open>
  An acknowledged removal has happened and is recorded.  Every file of the credential under one of its deterministic names,
  shown in the list or not, is gone, its bytes are among the returned snapshots, and every snapshot is a file
  that was there and is gone.
\<close>

theorem removal_is_complete:
  assumes "file_server m api files" "RemoveCredentialWithSnapshot C m api ctx credential e = (Inr snaps, e')"
  shows "(\<forall>n raw. n \<in> fst ` set (managedAuthFileCandidates C (normalizeCredential credential)) \<and> seen (files (wld e)) n = Some raw \<and>
      managedCredentialMatchScore raw (normalizeCredential credential) \<noteq> None \<longrightarrow>
      files (wld e') n = None \<and> (\<exists>s \<in> set snaps. asName s = n \<and> asRaw s = raw)) \<and>
    (\<forall>s \<in> set snaps. seen (files (wld e)) (asName s) = Some (asRaw s) \<and> files (wld e') (asName s) = None)"
proof -
  let ?c = "normalizeCredential credential"
  obtain found where f: "holds_files (files (wld e)) found"
      "complete_files (files (wld e)) [crIdentityID ?c] (fst ` set (managedAuthFileCandidates C ?c)) found"
      "snaps = snapshotsForCredential found ?c" "\<forall>n \<in> set (matchingManagedFileNames found ?c). files (wld e') n = None"
    using remove_fact [OF assms] by blast
  note s = snapshots_of [OF f(1), where c = ?c]
  have one: "files (wld e') n = None \<and> (\<exists>s \<in> set snaps. asName s = n \<and> asRaw s = raw)"
    if "n \<in> fst ` set (managedAuthFileCandidates C ?c)" "seen (files (wld e)) n = Some raw" "managedCredentialMatchScore raw ?c \<noteq> None" for n raw
  proof -
    have n: "n \<in> set (matchingManagedFileNames found ?c)"
      using matching_names_complete [OF f(1,2) normalize_idem that] by simp
    then obtain x where "x \<in> set snaps" "asName x = n" using s(1) f(3) by (metis image_iff)
    with s(2) [of x] f(3) that(2) have "asRaw x = raw" by simp
    with \<open>x \<in> set snaps\<close> \<open>asName x = n\<close> n f(4) show ?thesis by (intro conjI bexI [of _ x]) simp_all
  qed
  show ?thesis
  proof (rule conjI; intro allI impI ballI)
    fix n raw
    assume "n \<in> fst ` set (managedAuthFileCandidates C ?c) \<and> seen (files (wld e)) n = Some raw \<and> managedCredentialMatchScore raw ?c \<noteq> None"
    then show "files (wld e') n = None \<and> (\<exists>s \<in> set snaps. asName s = n \<and> asRaw s = raw)" using one by simp
  next
    fix x
    assume x: "x \<in> set snaps"
    then have "asName x \<in> set (matchingManagedFileNames found ?c)" using s(1) f(3) by blast
    with s(2) [of x] x f(3,4) show "seen (files (wld e)) (asName x) = Some (asRaw x) \<and> files (wld e') (asName x) = None" by simp
  qed
qed


section \<open>Verification ends\<close>

definition counted_api :: "'w api \<Rightarrow> ('w \<times> nat) api" where
  "counted_api api ctx rq t w = (case api ctx rq t (fst w) of (x, dt, w') \<Rightarrow> (x, dt, (w', Suc (snd w))))"

abbreviation exchanges :: "('w \<times> nat) env \<Rightarrow> nat" where
  "exchanges e \<equiv> snd (wld e)"

lemma retry_loop_count:
  assumes "\<And>a e x e'. once a e = (x, e') \<Longrightarrow> exchanges e' \<le> Suc (exchanges e)"
  shows "retry_loop once ctx rnf a n e = (r, e') \<Longrightarrow> exchanges e' \<le> exchanges e + n"
proof (induction n arbitrary: a e)
  case (Suc n)
  obtain x e1 where x: "once a e = (x, e1)" by fastforce
  obtain b e2 where b: "waitManagementRetry ctx (managementRetryDelay a) e1 = (b, e2)" by fastforce
  have w: "wld e2 = wld e1" using wait_clk [OF b] by simp
  from assms [OF x] have c: "exchanges e1 \<le> Suc (exchanges e)" .
  from Suc.prems x b consider "e' = e1 \<or> e' = e2" | "retry_loop once ctx rnf (Suc a) n e2 = (r, e')"
    by (cases x; cases b) (auto split: if_splits)
  then show ?case
  proof cases
    case 2
    from Suc.IH [OF this] w c show ?thesis by simp
  qed (use c w in auto)
qed simp

lemma download_count:
  assumes "downloadAuthFileWithOptions m (counted_api api) ctx n rnf e = (r, e')"
  shows "exchanges e' \<le> exchanges e + 4"
proof (cases "safeAuthFileName n = None")
  case False
  have "exchanges e1 \<le> Suc (exchanges e0)" if o: "download_once m (counted_api api) ctx n rnf a e0 = (x, e1)" for a e0 x e1
  proof -
    obtain y e2 where y: "client_Do (counted_api api) ctx (newRequest m ''GET'' ''/auth-files/download'' [] n) e0 = (y, e2)" by fastforce
    have "e1 = e2" using o y by (cases y) (auto simp: download_once_def split: if_splits option.splits)
    with y show ?thesis by (auto simp: client_Do_def counted_api_def split: prod.splits)
  qed
  from retry_loop_count [OF this] assms False show ?thesis
    by (fastforce simp: downloadAuthFileWithOptions_def managementRetryAttempts_def)
qed (use assms in \<open>auto simp: downloadAuthFileWithOptions_def\<close>)

fun slept :: "nat \<Rightarrow> nat" where
  "slept 0 = 0"
| "slept (Suc k) = slept k + verify_interval k"

lemma interval_late: "verify_interval (3 + j) = 500 * millisecond"
  by (induction j) (simp_all add: numeral_3_eq_3 Let_def managementRetryInitial_def managementRetryMaximum_def millisecond_def)

lemma slept_late: "slept (3 + j) = 525 * millisecond + j * (500 * millisecond)"
proof (induction j)
  case 0
  show ?case by (simp add: numeral_3_eq_3 Let_def managementRetryInitial_def managementRetryMaximum_def millisecond_def)
next
  case (Suc j)
  have "slept (3 + Suc j) = slept (3 + j) + verify_interval (3 + j)" by (simp only: add_Suc_right slept.simps)
  with Suc interval_late [of j] show ?case by simp
qed

lemma slept_bound: "slept k < managementVerifyWindow \<Longrightarrow> k \<le> 11"
proof (rule ccontr)
  assume a: "slept k < managementVerifyWindow" "\<not> k \<le> 11"
  define j where "j = k - 3"
  then have j: "k = 3 + j" "9 \<le> j" using a(2) by simp_all
  have "9 * (500 * millisecond) \<le> j * (500 * millisecond)" using j(2) by (rule mult_right_mono) simp
  moreover have "0 < millisecond" by (simp add: millisecond_def)
  ultimately show False using a(1) by (simp add: j(1) slept_late managementVerifyWindow_def)
qed

lemma poll_count:
  "poll_loop m (counted_api api) ctx dl n accept pending k e = (r, e') \<Longrightarrow> start + slept k \<le> clk e \<Longrightarrow>
     dl \<le> start + managementVerifyWindow \<Longrightarrow> k \<le> 11 \<Longrightarrow> exchanges e' \<le> exchanges e + 4 * (12 - k)"
proof (induction "dl - clk e" arbitrary: k e rule: less_induct)
  case less
  obtain d e1 where d: "downloadAuthFileWithOptions m (counted_api api) (Some dl) n True e = (d, e1)" by fastforce
  obtain b e2 where b: "waitManagementRetry (Some dl) (verify_interval k) e1 = (b, e2)" by fastforce
  note c = download_count [OF d] and t = download_clk [OF d]
  have w: "wld e2 = wld e1" using wait_clk [OF b] by simp
  consider "e' = e1 \<or> e' = e2"
    | "b" "\<not> dl \<le> clk e1" "poll_loop m (counted_api api) ctx dl n accept pending (Suc k) e2 = (r, e')"
    using less.prems(1) d b by (subst (asm) poll_loop.simps) (auto split: sum.splits option.splits if_splits bool.splits)
  then show ?case
  proof cases
    case 1
    with c w less.prems(4) show ?thesis by auto
  next
    case 2
    have e2: "clk e2 = clk e1 + verify_interval k" "clk e2 < dl"
      using b 2(1) by (auto simp: waitManagementRetry_def split: if_splits)
    then have s: "start + slept (Suc k) \<le> clk e2" using t less.prems(2) by simp
    then have "slept (Suc k) < managementVerifyWindow" using e2(2) less.prems(3) by linarith
    then have k: "Suc k \<le> 11" by (rule slept_bound)
    have "dl - clk e2 < dl - clk e" using e2 t verify_interval_pos [of k] by linarith
    from less.hyps [OF this 2(3) s less.prems(3) k] c w k show ?thesis by simp
  qed
qed

text \<open>
  C18: verification ends.  Polling for an update or a deletion to become visible makes at most 48 requests (12 polls of at
  most 4 attempts, because the sleeps grow from 75 to 500 ms within a window of 5 s), whatever CPA
  answers and however long the caller's context lives.
\<close>

theorem verification_is_bounded:
  assumes "waitForAuthFile m (counted_api api) ctx name predicate e = (r, e')"
    and "waitForAuthFileAbsent m (counted_api api) ctx name e = (r2, e2)"
  shows "exchanges e' \<le> exchanges e + 48 \<and> exchanges e2 \<le> exchanges e + 48"
proof -
  have dl: "WithTimeout ctx managementVerifyWindow e \<le> clk e + managementVerifyWindow"
    by (simp add: WithTimeout_def split: option.splits)
  have q: "exchanges x \<le> exchanges e + 48"
    if "poll_loop m (counted_api api) ctx (WithTimeout ctx managementVerifyWindow e) name accept pending 0 e = (q, x)"
    for accept :: "bytes option \<Rightarrow> unit option" and pending q x
    using poll_count [OF that _ dl] by simp
  show ?thesis
    using assms poll_count [of m api ctx _ name _ _ 0 e r e' "clk e", OF _ _ dl] q
    by (auto simp: waitForAuthFile_def waitForAuthFileAbsent_def split: if_splits)
qed

section \<open>Success on a healthy server\<close>

text \<open>A server that answers every request, at whatever speed, and does what it is asked.\<close>

definition healthy_server :: "CpaManager \<Rightarrow> 'w api \<Rightarrow> 'w files \<Rightarrow> bool" where
  "healthy_server m api files \<longleftrightarrow> file_server m api files \<and>
     (\<forall>ctx t w n. \<exists>r f dt w'. api ctx (newRequest m ''GET'' ''/auth-files/download'' [] n) t w = (ExAnswer r f, dt, w') \<and>
        (case files w n of None \<Rightarrow> rsStatus r = 404 | Some body \<Rightarrow> rsStatus r = 200 \<and> rsReadable r \<and> rsBody r = body)) \<and>
     (\<forall>ctx t w. \<exists>r f dt w'. api ctx (newRequest m ''GET'' ''/auth-files'' [] []) t w = (ExAnswer r f, dt, w') \<and>
        rsStatus r = 200 \<and> Option.bind (LimitReader (4 * mebi) r) decode_files \<noteq> None) \<and>
     (\<forall>ctx t w n body. \<exists>r f dt w'. api ctx (json_content (newRequest m ''POST'' ''/auth-files'' body n)) t w = (ExAnswer r f, dt, w') \<and>
        success_status (rsStatus r) \<and> files w' n = Some body)"

lemma healthy_file_server: "healthy_server m api files \<Longrightarrow> file_server m api files"
  by (simp add: healthy_server_def)

lemma healthy_download_do:
  assumes "healthy_server m api files"
  shows "\<exists>r f e'. client_Do api ctx (newRequest m ''GET'' ''/auth-files/download'' [] n) e = (ExAnswer r f, e') \<and>
    files (wld e') = files (wld e) \<and>
    (case files (wld e) n of None \<Rightarrow> rsStatus r = 404 | Some body \<Rightarrow> rsStatus r = 200 \<and> rsReadable r \<and> rsBody r = body)"
proof -
  obtain r f dt w' where a: "api ctx (newRequest m ''GET'' ''/auth-files/download'' [] n) (clk e) (wld e) = (ExAnswer r f, dt, w')"
      "case files (wld e) n of None \<Rightarrow> rsStatus r = 404 | Some body \<Rightarrow> rsStatus r = 200 \<and> rsReadable r \<and> rsBody r = body"
    using assms unfolding healthy_server_def by metis
  then have d: "client_Do api ctx (newRequest m ''GET'' ''/auth-files/download'' [] n) e = (ExAnswer r f, \<lparr>clk = clk e + dt, wld = w'\<rparr>)"
    by (simp add: client_Do_def)
  from download_do [OF healthy_file_server [OF assms] d] d a(2) show ?thesis by blast
qed

lemma healthy_absent:
  assumes srv: "healthy_server m api files"
  shows "files (wld e) n = None \<Longrightarrow> a + k = 4 \<Longrightarrow> 0 < k \<Longrightarrow>
    \<exists>e'. retry_loop (download_once m api None n rnf) None rnf a k e = (Inr None, e') \<and> files (wld e') = files (wld e)"
proof (induction k arbitrary: a e)
  case (Suc k)
  obtain r f e1 where d: "client_Do api None (newRequest m ''GET'' ''/auth-files/download'' [] n) e = (ExAnswer r f, e1)"
      "files (wld e1) = files (wld e)" "rsStatus r = 404"
    using healthy_download_do [OF srv, of None n e] Suc.prems(1) by auto
  show ?case
  proof (cases "\<not> rnf \<or> k = 0")
    case True
    with d Suc.prems(2) show ?thesis by (auto simp: download_once_def managementRetryAttempts_def)
  next
    case False
    let ?e2 = "e1\<lparr>clk := clk e1 + managementRetryDelay a\<rparr>"
    have "\<exists>e'. retry_loop (download_once m api None n rnf) None rnf (Suc a) k ?e2 = (Inr None, e') \<and> files (wld e') = files (wld ?e2)"
      by (rule Suc.IH) (use Suc.prems d(2) False in simp_all)
    moreover have "download_once m api None n rnf a e = (Again (StatusError 404), e1)"
      using False d Suc.prems(2) by (simp add: download_once_def managementRetryAttempts_def)
    ultimately show ?thesis using False d(2) by (simp add: waitManagementRetry_def)
  qed
qed simp

lemma healthy_download_absent:
  assumes "healthy_server m api files" "files (wld e) n = None" "safeAuthFileName n \<noteq> None"
  shows "\<exists>e'. downloadAuthFileWithOptions m api None n rnf e = (Inr None, e') \<and> files (wld e') = files (wld e)"
  using healthy_absent [OF assms(1,2), of 0 4 rnf] assms(3)
  by (simp add: downloadAuthFileWithOptions_def managementRetryAttempts_def)

lemma healthy_download_present:
  assumes "healthy_server m api files" "files (wld e) n = Some body" "safeAuthFileName n \<noteq> None"
  shows "\<exists>e'. downloadAuthFileWithOptions m api ctx n rnf e = (Inr (Some (take (4 * mebi) body)), e') \<and> files (wld e') = files (wld e)"
proof -
  obtain r f e1 where d: "client_Do api ctx (newRequest m ''GET'' ''/auth-files/download'' [] n) e = (ExAnswer r f, e1)"
      "files (wld e1) = files (wld e)" "rsStatus r = 200" "rsReadable r" "rsBody r = body"
    using healthy_download_do [OF assms(1), of ctx n e] assms(2) by auto
  then have "download_once m api ctx n rnf 0 e = (Finish (Inr (Some (take (4 * mebi) body))), e1)"
    by (simp add: download_once_def LimitReader_def)
  with d(2) assms(3) show ?thesis
    by (simp add: downloadAuthFileWithOptions_def managementRetryAttempts_def numeral_eq_Suc)
qed

lemma healthy_list:
  assumes "healthy_server m api files"
  shows "\<exists>items e'. listAuthFileEntries m api ctx e = (Inr items, e') \<and> files (wld e') = files (wld e)"
proof -
  obtain r f dt w' where a: "api ctx (newRequest m ''GET'' ''/auth-files'' [] []) (clk e) (wld e) = (ExAnswer r f, dt, w')"
      "rsStatus r = 200" "Option.bind (LimitReader (4 * mebi) r) decode_files \<noteq> None"
    using assms unfolding healthy_server_def by metis
  then obtain items where "list_once m api ctx 0 e = (Finish (Inr items), \<lparr>clk = clk e + dt, wld = w'\<rparr>)"
    by (auto simp: list_once_def client_Do_def)
  then have l: "listAuthFileEntries m api ctx e = (Inr items, \<lparr>clk = clk e + dt, wld = w'\<rparr>)"
    by (simp add: listAuthFileEntries_def managementRetryAttempts_def numeral_eq_Suc)
  from list_fact [OF healthy_file_server [OF assms] l] l show ?thesis by blast
qed

lemma healthy_upload:
  assumes "healthy_server m api files" "safeAuthFileName n \<noteq> None"
  shows "\<exists>e'. uploadAuthFile m api ctx n body e = (Inr (), e') \<and> files (wld e') n = Some body"
proof -
  obtain r f dt w' where a: "api ctx (json_content (newRequest m ''POST'' ''/auth-files'' body n)) (clk e) (wld e) = (ExAnswer r f, dt, w')"
      "success_status (rsStatus r)" "files w' n = Some body"
    using assms(1) unfolding healthy_server_def by metis
  then have "upload_once m api ctx n body 0 e = (Finish (Inr ()), \<lparr>clk = clk e + dt, wld = w'\<rparr>)"
    by (simp add: upload_once_def client_Do_def)
  then have "uploadAuthFile m api ctx n body e = (Inr (), \<lparr>clk = clk e + dt, wld = w'\<rparr>)"
    using assms(2) by (simp add: uploadAuthFile_def managementRetryAttempts_def numeral_eq_Suc)
  with a(3) show ?thesis by simp
qed

lemma healthy_wait:
  assumes "healthy_server m api files" "safeAuthFileName n \<noteq> None" "files (wld e) n = Some body" "pred (take (4 * mebi) body)"
  shows "\<exists>e'. waitForAuthFile m api ctx n pred e = (Inr (take (4 * mebi) body), e') \<and> files (wld e') = files (wld e)"
proof -
  obtain e' where "downloadAuthFileWithOptions m api (Some (WithTimeout ctx managementVerifyWindow e)) n True e =
      (Inr (Some (take (4 * mebi) body)), e')" "files (wld e') = files (wld e)"
    using healthy_download_present [OF assms(1,3,2)] by blast
  with assms(2,4) show ?thesis by (simp add: waitForAuthFile_def poll_loop.simps [of m api ctx])
qed

definition safe_keys :: "'v gomap \<Rightarrow> bool" where
  "safe_keys m \<longleftrightarrow> (\<forall>k \<in> fst ` set m. safeAuthFileName k \<noteq> None)"

lemma safe_idem: "safeAuthFileName v = Some n \<Longrightarrow> safeAuthFileName n \<noteq> None"
  by (auto simp: safeAuthFileName_def Let_def split: if_splits)

lemma safe_keys_put: "safe_keys m \<Longrightarrow> safeAuthFileName v = Some n \<Longrightarrow> safe_keys (map_put n x m)"
  using safe_idem by (simp add: safe_keys_def put_keys)

lemma safe_keys_fold: "(\<And>x m. safe_keys m \<Longrightarrow> safe_keys (f x m)) \<Longrightarrow> safe_keys m \<Longrightarrow> safe_keys (fold f xs m)"
  by (induction xs arbitrary: m) auto

lemma safe_keys_add: "safe_keys m \<Longrightarrow> safe_keys (add_candidate v b m)"
  using safe_keys_put [of m v] safe_idem [of v]
  by (auto simp: add_candidate_def safe_keys_def split: option.splits)

lemma safe_keys_own: "safe_keys (managedAuthFileCandidates C c)"
proof -
  have "safe_keys (fold (\<lambda>(n, r). add_candidate n r) xs [])" for xs
    by (rule safe_keys_fold) (auto simp: safe_keys_add safe_keys_def [of "[]"] split: prod.splits)
  then show ?thesis by (simp add: managedAuthFileCandidates_def Let_def safe_keys_def [of "[]"] del: fold_append)
qed

lemma safe_keys_listed: "safe_keys m \<Longrightarrow> safe_keys (listed_candidate item m)"
  by (auto simp: listed_candidate_def safe_keys_put split: option.splits)

lemma safe_keys_retries:
  assumes "wanted_credentials cs = [c]"
  shows "safe_keys (candidate_retries C items cs)"
proof -
  have "safe_keys (fold listed_candidate items [])" by (rule safe_keys_fold) (simp_all add: safe_keys_listed safe_keys_def [of "[]"])
  with safe_keys_own [of C c] show ?thesis by (simp add: candidate_retries_def assms safe_keys_def own_candidates_keys image_Un) blast
qed

lemma collect_none:
  assumes srv: "healthy_server m api files"
  shows "safe_keys cands \<Longrightarrow> \<forall>n. files (wld e) n = None \<Longrightarrow>
    \<exists>e'. collect_files m api None ids cands acc e = (Inr acc, e') \<and> files (wld e') = files (wld e)"
proof (induction cands arbitrary: e)
  case (Cons cand cands)
  obtain n rnf where c: "cand = (n, rnf)" by fastforce
  obtain e1 where d: "downloadAuthFileWithOptions m api None n rnf e = (Inr None, e1)" "files (wld e1) = files (wld e)"
    using healthy_download_absent [OF srv, of e n rnf] Cons.prems c by (auto simp: safe_keys_def)
  have "\<exists>e'. collect_files m api None ids cands acc e1 = (Inr acc, e') \<and> files (wld e') = files (wld e1)"
    by (rule Cons.IH) (use Cons.prems d(2) in \<open>simp_all add: safe_keys_def\<close>)
  with c d show ?case by simp
qed simp

lemma discover_none:
  assumes srv: "healthy_server m api files" and c: "normalizeCredential c = c" "validateIdentityID (crIdentityID c)"
    and none: "\<forall>n. files (wld e) n = None"
  shows "\<exists>e'. managedAuthFilesForCredentials C m api None [c] e = (Inr [], e') \<and> files (wld e') = files (wld e)"
proof -
  obtain items e1 where l: "listAuthFileEntries m api None e = (Inr items, e1)" "files (wld e1) = files (wld e)"
    using healthy_list [OF srv] by blast
  have w: "wanted_credentials [c] = [c]" using c by (simp add: wanted_credentials_def)
  have "safe_keys (sort_key fst (candidate_retries C items [c]))"
    using safe_keys_retries [OF w] by (simp add: safe_keys_def)
  from collect_none [OF srv this, of e1] none l(2)
  obtain e2 where "collect_files m api None [crIdentityID c] (sort_key fst (candidate_retries C items [c])) [] e1 = (Inr [], e2)"
    "files (wld e2) = files (wld e)" by fastforce
  with l w show ?thesis by (simp add: managedAuthFilesForCredentials_def)
qed

lemma fresh_upsert:
  assumes srv: "healthy_server m api files" and none: "\<forall>n. files (wld e) n = None"
    and c: "normalizeCredential c = c" "validateCredential c = None" "credential_text_ok c" "ValidString (cmSidecarBaseURL m)"
    and size: "length (credentialJSON (cmSidecarBaseURL m) c) \<le> 4 * mebi"
  shows "\<exists>e' name. UpsertIdentity C m api None c e = (Inr (), e') \<and> authFileName C c = Some name \<and>
    files (wld e') name = Some (credentialJSON (cmSidecarBaseURL m) c)"
proof -
  let ?body = "credentialJSON (cmSidecarBaseURL m) c"
  have vi: "validateIdentityID (crIdentityID c)" using c(2) by (auto simp: validateCredential_def split: if_splits)
  obtain name where name: "authFileName C c = Some name"
    using vi by (cases "sanitizeFilePart (crEmail c) = []") (auto simp: authFileName_def legacyAuthFileName_def Let_def)
  have safe: "safeAuthFileName name \<noteq> None" using authFileName_shape [OF name] safe_name(1) by fastforce
  obtain e1 where e1: "managedAuthFilesForCredentials C m api None [c] e = (Inr [], e1)" "files (wld e1) = files (wld e)"
    using discover_none [OF srv c(1) vi none] by blast
  obtain e2 where e2: "downloadAuthFile m api None name e1 = (Inr None, e2)"
    using healthy_download_absent [OF srv _ safe, of e1] none e1(2) by (auto simp: downloadAuthFile_def)
  obtain e3 where e3: "uploadAuthFile m api None name ?body e2 = (Inr (), e3)" "files (wld e3) name = Some ?body"
    using healthy_upload [OF srv safe] by blast
  have whole: "take (4 * mebi) ?body = ?body" using size by simp
  have ok: "managedCredentialMatches ?body c ?body"
    using own_document [OF c] by (simp add: credentialJSON_def)
  obtain e4 where e4: "waitForAuthFile m api None name (\<lambda>raw. managedCredentialMatches raw c ?body) e3 = (Inr ?body, e4)" "files (wld e4) name = Some ?body"
    using healthy_wait [OF srv safe e3(2), of "\<lambda>raw. managedCredentialMatches raw c ?body" None] e3(2) ok whole by auto
  obtain e5 where e5: "waitForAuthFile m api None name (\<lambda>raw. managedCredentialMatches raw c ?body) e4 = (Inr ?body, e5)" "files (wld e5) name = Some ?body"
    using healthy_wait [OF srv safe e4(2), of "\<lambda>raw. managedCredentialMatches raw c ?body" None] e4(2) ok whole by auto
  have "matchingManagedFileNames [] c = []" by (simp add: matchingManagedFileNames_def)
  then have "upsert_commit m api None c name [] None ?body e2 = (Inr (), e5)"
    using e3 e4 e5 by (simp add: upsert_commit_def Let_def)
  moreover have "upsert_body C m c [] None = Inr ?body"
    by (simp add: upsert_body_def preferredManagedFile_def matchingManagedFileNames_def credentialJSON_def Let_def)
  ultimately have "upsert_prepared C m api None c name e = (Inr (), e5)"
    using e1 e2 by (simp add: upsert_prepared_def)
  then show ?thesis using name c e5(2) by (auto simp: UpsertIdentity_def)
qed

text \<open>
  The first upsert of a valid credential to a healthy, empty CPA succeeds, and the file it leaves is the credential's document.
\<close>

theorem fresh_upsert_succeeds:
  assumes "healthy_server m api files" "\<forall>n. files (wld e) n = None"
    and "normalizeCredential c = c" "validateCredential c = None" "credential_text_ok c" "ValidString (cmSidecarBaseURL m)"
    and "length (credentialJSON (cmSidecarBaseURL m) c) \<le> 4 * mebi"
  shows "\<exists>e' name. UpsertIdentity C m api None c e = (Inr (), e') \<and> authFileName C c = Some name \<and>
    files (wld e') name = Some (credentialJSON (cmSidecarBaseURL m) c)"
  by (rule fresh_upsert [OF assms])

end
