(* ===== verification/Cpa_Witnesses.thy ===== *)
theory Cpa_Witnesses
  imports Cpa_Guarantees Identity_Sessions "HOL-Library.Multiset"
begin

text \<open>
  A concrete management server, a map from names to contents behind the real requests, on which the
  properties of the CPA synchronisation are applied.
\<close>

section \<open>The server\<close>

definition request_name :: "management_request \<Rightarrow> string" where
  "request_name rq = (case map_get (Query (mqURL rq)) ''name'' of Some (v # _) \<Rightarrow> v | _ \<Rightarrow> [])"

definition status_answer :: "int \<Rightarrow> bytes \<Rightarrow> exchange" where
  "status_answer code body = ExAnswer \<lparr>rsStatus = code, rsHeader = [], rsBody = body, rsReadable = True\<rparr> ReadFailed"

definition demo_cpa :: "(string \<Rightarrow> bytes option) api" where
  "demo_cpa ctx rq t w =
     (let n = request_name rq in
      if mqMethod rq = ''POST'' then (status_answer 200 [], 1, w(n := Some (mqBody rq)))
      else if mqMethod rq = ''DELETE'' then (status_answer 200 [], 1, w(n := None))
      else if HasSuffix (Path (mqURL rq)) ''/download''
        then (case w n of None \<Rightarrow> status_answer 404 [] | Some b \<Rightarrow> status_answer 200 b, 1, w)
      else (status_answer 200 (json_text (JObj [(''files'', JArr [])])), 1, w))"

definition demo_cpa_manager :: CpaManager where
  "demo_cpa_manager = \<lparr>cmBaseURL = zero_url\<lparr>Scheme := ''http'', Host := ''cpa'', Path := ''/v0/management''\<rparr>,
     cmManagementKey = ''k'', cmSidecarBaseURL = ''http://s/backend-api/codex''\<rparr>"

lemma cut_at: "sep \<notin> set a \<Longrightarrow> cut sep (a @ sep # b) = (a, b)"
  by (induction a) auto

lemma demo_request_name: "request_name (newRequest demo_cpa_manager method endpoint body n) = n"
proof -
  have q0: "Query (cmBaseURL demo_cpa_manager) = []"
    by (simp add: Query_def demo_cpa_manager_def zero_url_def add_value_def)
  have chars: "CHR ''&'' \<notin> set (QueryEscape s)" "CHR '';'' \<notin> set (QueryEscape s)" for s
    using QueryEscape_chars [of "CHR ''&''" s] QueryEscape_chars [of "CHR '';''" s]
    by (auto simp: query_char_def alnum_def is_digit_def is_lower_def is_upper_def byte_def)
  have name: "QueryEscape ''name'' = ''name''" by code_simp
  have un: "QueryUnescape ''name'' = Some ''name''" by code_simp
  let ?raw = "''name'' @ ''='' @ QueryEscape n"
  have "SplitAt (CHR ''&'') ?raw = [?raw]" by (rule SplitAt_single) (use chars in auto)
  moreover have "add_value ?raw [] = [(''name'', [n])]"
  proof -
    have "cut (CHR ''='') ?raw = (''name'', QueryEscape n)" using cut_at [of "CHR ''=''" "''name''" "QueryEscape n"] by simp
    with chars un show ?thesis by (auto simp: add_value_def QueryUnescape_escape)
  qed
  ultimately have "Query (u\<lparr>RawQuery := ?raw\<rparr>) = [(''name'', [n])]" for u by (simp add: Query_def del: append.simps)
  moreover have "Query (u\<lparr>RawQuery := []\<rparr>) = []" for u by (simp add: Query_def add_value_def)
  moreover have "Encode [(''name'', [n])] = ?raw" by (simp add: Encode_def name del: QueryEscape.simps)
  ultimately show ?thesis
    by (cases "n = []") (simp_all add: request_name_def newRequest_def Let_def q0 Encode_def [of "[]"] del: append.simps)
qed

lemma demo_request_parts:
  "mqMethod (newRequest m method endpoint body n) = method" "mqBody (newRequest m method endpoint body n) = body"
  "request_name (json_content rq) = request_name rq" "mqMethod (json_content rq) = mqMethod rq" "mqBody (json_content rq) = mqBody rq"
  "HasSuffix (Path (mqURL (newRequest m method (p @ ''/download'') body n))) ''/download''"
  "\<not> HasSuffix (Path (mqURL (newRequest m method ''/auth-files'' body n))) ''/download''"
proof -
  show "HasSuffix (Path (mqURL (newRequest m method (p @ ''/download'') body n))) ''/download''"
    using HasSuffix_append [of "TrimRight (Path (cmBaseURL m)) ''/'' @ p" "''/download''"] by (simp add: newRequest_def Let_def)
  have "\<not> suffix ''/download'' (x @ ''/auth-files'')" for x
    by (auto simp: suffix_def)
  then show "\<not> HasSuffix (Path (mqURL (newRequest m method ''/auth-files'' body n))) ''/download''"
    by (simp add: newRequest_def Let_def HasSuffix_def)
qed (simp_all add: newRequest_def json_content_def request_name_def Let_def)

lemma demo_answers:
  "demo_cpa ctx (newRequest demo_cpa_manager ''GET'' ''/auth-files/download'' [] n) t w =
     (case w n of None \<Rightarrow> status_answer 404 [] | Some b \<Rightarrow> status_answer 200 b, 1, w)"
  "demo_cpa ctx (newRequest demo_cpa_manager ''GET'' ''/auth-files'' [] []) t w =
     (status_answer 200 (json_text (JObj [(''files'', JArr [])])), 1, w)"
  "demo_cpa ctx (json_content (newRequest demo_cpa_manager ''POST'' ''/auth-files'' body n)) t w = (status_answer 200 [], 1, w(n := Some body))"
  "demo_cpa ctx (newRequest demo_cpa_manager ''DELETE'' ''/auth-files'' [] n) t w = (status_answer 200 [], 1, w(n := None))"
  using demo_request_parts(6) [of demo_cpa_manager "''GET''" "''/auth-files''" "[]" n] demo_request_parts(7) [of demo_cpa_manager "''GET''" "[]" "[]"]
  by (simp_all add: demo_cpa_def demo_request_name demo_request_parts Let_def del: json_text.simps)

lemma demo_listing: "decode_files (json_text (JObj [(''files'', JArr [])])) = Some []"
proof -
  have v: "ValidString ''files''" by (rule ascii_valid) (simp add: byte_def)
  have "json_parse (json_text (JObj [(''files'', JArr [])])) = Some (JObj [(''files'', JArr [])])"
    by (rule parse_text) (use v in \<open>simp_all add: maxNestingDepth_def del: ValidString.simps\<close>)
  from Decode_parse [OF this] show ?thesis
    by (auto simp: decode_files_def struct_keys_def dec_list_def EqualFold_def simp del: json_text.simps)
qed

lemma demo_healthy: "healthy_server demo_cpa_manager demo_cpa (\<lambda>w. w)"
proof -
  have short: "length (json_text (JObj [(''files'', JArr [])])) \<le> 4 * mebi"
    using length_text_str [of "''files''"] by (simp add: mebi_def)
  have "file_server demo_cpa_manager demo_cpa (\<lambda>w. w)"
    by (auto simp: file_server_def reads_are_true_def writes_are_local_def demo_answers status_answer_def split: option.splits)
  moreover have "Option.bind (LimitReader (4 * mebi) \<lparr>rsStatus = 200, rsHeader = [], rsBody = json_text (JObj [(''files'', JArr [])]), rsReadable = True\<rparr>) decode_files = Some []"
    using short demo_listing by (simp add: LimitReader_def del: json_text.simps)
  ultimately show ?thesis
    by (auto simp: healthy_server_def demo_answers status_answer_def success_status_def split: option.splits simp del: json_text.simps)
qed

section \<open>Sizes\<close>

fun field_size :: "string \<times> json \<Rightarrow> nat" where
  "field_size (k, JStr v) = 6 * length k + 6 * length v + 12"
| "field_size (k, v) = 6 * length k + 13"

fun flat_value :: "json \<Rightarrow> bool" where
  "flat_value (JStr _) = True"
| "flat_value (JBool _) = True"
| "flat_value _ = False"

lemma length_sep_by: "length (sep_by s xs) \<le> sum_list (map (\<lambda>x. length x + length s) xs)"
  by (induction s xs rule: sep_by.induct) auto

lemma flat_field_size:
  assumes "flat_value v"
  shows "length (text_str k @ '': '' @ indent_text 1 (sort_keys v)) + 4 \<le> field_size (k, v)"
proof (cases v)
  case (JStr s)
  then show ?thesis using length_text_str [of k] length_text_str [of s] by simp
next
  case (JBool b)
  then show ?thesis using length_text_str [of k] by (cases b) simp_all
qed (use assms in simp_all)

lemma flat_document_size:
  assumes "\<forall>(k, v) \<in> set m. flat_value v"
  shows "length (MarshalIndent m) \<le> sum_list (map field_size m) + 10"
proof -
  let ?f = "\<lambda>(k, v). text_str k @ '': '' @ indent_text 1 v" and ?g = "\<lambda>(k, v). (k, sort_keys v)"
  have "mset (map (\<lambda>x. length (?f x) + 4) (sorted_payload m)) = mset (map (\<lambda>x. length (?f (?g x)) + 4) m)"
    by (simp add: sorted_payload_def image_mset.compositionality comp_def)
  then have "sum_list (map (\<lambda>x. length (?f x) + 4) (sorted_payload m)) = sum_list (map (\<lambda>x. length (?f (?g x)) + 4) m)"
    by (metis sum_mset_sum_list)
  also have "\<dots> \<le> sum_list (map field_size m)"
    by (rule sum_list_mono) (use assms flat_field_size in \<open>auto split: prod.splits\<close>)
  finally show ?thesis
    using length_sep_by [of "'','' @ line_break 1" "map ?f (sorted_payload m)"]
    by (simp add: MarshalIndent_def line_break_def comp_def case_prod_beta)
qed

lemma demo_document_size: "length (credentialJSON ''http://s/backend-api/codex'' demo_credential) \<le> 4 * mebi"
proof -
  have t: "TrimSpace ''a@b.c'' = ''a@b.c''" by (rule TrimSpace_plain, simp add: space_byte_def byte_def)
  let ?m = "credential_payload ''http://s/backend-api/codex'' demo_credential False"
  have m: "?m = base_payload ''http://s/backend-api/codex'' demo_credential False"
    by (simp add: credential_payload_def put_when_def native_pat_def demo_credential_def identity_only_def)
  have "length (MarshalIndent ?m) \<le> sum_list (map field_size ?m) + 10"
    by (rule flat_document_size) (simp add: m base_payload_def Let_def)
  also have "\<dots> \<le> 4 * mebi"
    unfolding m by (simp add: base_payload_def Let_def t demo_credential_def identity_only_def mebi_def sidecarClientKeyField_def pluginProviderID_def authMode_def)
  finally show ?thesis by (simp add: credentialJSON_def credentialJSONWithDisabled_def)
qed

section \<open>Removal and restoration on the server\<close>

lemma healthy_collect:
  assumes srv: "healthy_server m api files"
  shows "safe_keys cands \<Longrightarrow> safe_keys acc \<Longrightarrow>
    \<exists>found e'. collect_files m api None ids cands acc e = (Inr found, e') \<and> safe_keys found"
proof (induction cands arbitrary: e acc)
  case (Cons cand cands)
  obtain n rnf where c: "cand = (n, rnf)" by fastforce
  have n: "safeAuthFileName n \<noteq> None" and rest: "safe_keys cands" using Cons.prems c by (auto simp: safe_keys_def)
  have ih: "\<exists>found e'. collect_files m api None ids cands a x = (Inr found, e') \<and> safe_keys found" if "safe_keys a" for a x
    by (rule Cons.IH [OF rest that])
  have put: "safe_keys (map_put n f acc)" for f using Cons.prems(2) n by (simp add: safe_keys_def put_keys)
  show ?case
  proof (cases "files (wld e) n")
    case None
    from healthy_download_absent [OF srv None n, of rnf] ih [OF Cons.prems(2)] show ?thesis by (auto simp: c)
  next
    case (Some b)
    obtain e1 where d: "downloadAuthFileWithOptions m api None n rnf e = (Inr (Some (take (4 * mebi) b)), e1)"
      using healthy_download_present [OF srv Some n] by blast
    show ?thesis using ih [OF Cons.prems(2)] ih [OF put] by (auto simp: c d split: option.splits)
  qed
qed simp

lemma healthy_discover:
  assumes srv: "healthy_server m api files" and c: "normalizeCredential c = c" "validateIdentityID (crIdentityID c)"
  shows "\<exists>found e'. managedAuthFilesForCredentials C m api None [c] e = (Inr found, e') \<and> safe_keys found"
proof -
  obtain items e1 where l: "listAuthFileEntries m api None e = (Inr items, e1)" using healthy_list [OF srv] by blast
  have w: "wanted_credentials [c] = [c]" using c by (simp add: wanted_credentials_def)
  have "safe_keys (sort_key fst (candidate_retries C items [c]))" using safe_keys_retries [OF w] by (simp add: safe_keys_def)
  from healthy_collect [OF srv this, of "[]"] l w show ?thesis by (simp add: managedAuthFilesForCredentials_def safe_keys_def [of "[]"])
qed

lemma demo_delete: "safeAuthFileName n \<noteq> None \<Longrightarrow> \<exists>e'. deleteAuthFile demo_cpa_manager demo_cpa ctx n e = (Inr (), e') \<and> wld e' n = None"
  by (simp add: deleteAuthFile_def managementRetryAttempts_def numeral_eq_Suc delete_once_def client_Do_def demo_answers status_answer_def success_status_def)

lemma numeral_4: "(4 :: nat) = Suc (Suc (Suc (Suc 0)))"
  by simp

lemma demo_wait_absent:
  assumes "safeAuthFileName n \<noteq> None" "wld e n = None"
  shows "\<exists>e'. waitForAuthFileAbsent demo_cpa_manager demo_cpa None n e = (Inr (), e')"
proof -
  define dl where "dl = clk e + managementVerifyWindow"
  have late: "clk e + 600000000 < dl" by (simp add: dl_def managementVerifyWindow_def millisecond_def)
  have delays: "managementRetryDelay 0 = 75000000" "managementRetryDelay (Suc 0) = 150000000" "managementRetryDelay (Suc (Suc 0)) = 300000000"
    by (simp_all add: managementRetryDelay_def managementRetryInitial_def managementRetryMaximum_def millisecond_def)
  have once: "download_once demo_cpa_manager demo_cpa (Some dl) n True a x =
      (if a < 3 then Again (StatusError 404) else Finish (Inr None), x\<lparr>clk := clk x + 1\<rparr>)" if "wld x n = None" for a x
    using that by (cases x) (simp add: download_once_def client_Do_def demo_answers status_answer_def managementRetryAttempts_def)
  have "\<exists>e'. downloadAuthFileWithOptions demo_cpa_manager demo_cpa (Some dl) n True e = (Inr None, e')"
    using assms delays late
    by (simp add: downloadAuthFileWithOptions_def managementRetryAttempts_def once waitManagementRetry_def numeral_4)
  then show ?thesis using assms(1)
    by (auto simp: waitForAuthFileAbsent_def WithTimeout_def poll_loop.simps [of demo_cpa_manager demo_cpa None] simp flip: dl_def)
qed

lemma demo_remove_files:
  "\<forall>n \<in> set ns. safeAuthFileName n \<noteq> None \<Longrightarrow> \<exists>e'. remove_files demo_cpa_manager demo_cpa None found ns deleted e = (Inr (), e')"
proof (induction ns arbitrary: deleted e)
  case (Cons n ns)
  obtain e1 where "deleteAuthFile demo_cpa_manager demo_cpa None n e = (Inr (), e1)" "wld e1 n = None"
    using demo_delete Cons.prems by (metis list.set_intros(1))
  moreover then obtain e2 where "waitForAuthFileAbsent demo_cpa_manager demo_cpa None n e1 = (Inr (), e2)"
    using demo_wait_absent Cons.prems by (metis list.set_intros(1))
  ultimately show ?case using Cons by simp
qed simp

text \<open>The server of the example: it holds the document of the demo credential, and a file of somebody else.\<close>

definition demo_name :: string where "demo_name = ''codex-a@b.c-agent-identity.json''"
definition demo_document :: bytes where "demo_document = credentialJSON ''http://s/backend-api/codex'' demo_credential"
definition demo_files :: "string \<Rightarrow> bytes option" where "demo_files = [demo_name \<mapsto> demo_document, ''x.json'' \<mapsto> ''x'']"
definition demo_state :: "(string \<Rightarrow> bytes option) env" where "demo_state = \<lparr>clk = 0, wld = demo_files\<rparr>"

lemma demo_valid_base: "ValidString ''http://s/backend-api/codex''"
  by (rule ascii_valid) (simp add: byte_def)

lemma demo_parts: "sanitizeFilePart ''a@b.c'' = ''a@b.c''" "sanitizeFilePart [] = []" "validateIdentityID (crIdentityID demo_credential)"
proof -
  have "TrimSpace ''a@b.c'' = ''a@b.c''" by (rule TrimSpace_plain, simp add: space_byte_def byte_def)
  moreover have "runes ''a@b.c'' = [''a'', ''@'', ''b'', ''.'', ''c'']" by (simp add: byte_def)
  moreover have "sanitize_loop [] [''a'', ''@'', ''b'', ''.'', ''c''] = ''a@b.c''" by code_simp
  ultimately show "sanitizeFilePart ''a@b.c'' = ''a@b.c''" by (simp add: sanitizeFilePart_def TrimBoth_def TrimRight_def)
  show "sanitizeFilePart [] = []" by (simp add: sanitizeFilePart_def TrimBoth_def TrimRight_def)
  show "validateIdentityID (crIdentityID demo_credential)"
    using demo_credential_ok(2) by (simp add: validateCredential_def split: if_splits)
qed

lemma demo_file_name: "authFileName demo_crypto demo_credential = Some demo_name"
  using demo_parts by (simp add: authFileName_def demo_credential_def identity_only_def workspace_prefix_def managedAuthSuffix_def demo_name_def)

lemma candidate_added:
  assumes "safeAuthFileName n = Some n" "n \<in> fst ` set xs"
  shows "n \<in> fst ` set (fold (\<lambda>(n, r). add_candidate n r) xs acc)"
proof -
  have grow: "k \<in> fst ` set a \<Longrightarrow> k \<in> fst ` set (add_candidate v r a)" for k a v r
    by (auto simp: add_candidate_def put_keys split: option.splits)
  have keep: "n \<in> fst ` set a \<Longrightarrow> n \<in> fst ` set (fold (\<lambda>(n, r). add_candidate n r) ys a)" for ys a
    by (induction ys arbitrary: a) (auto simp: grow split: prod.splits)
  have new: "n \<in> fst ` set (add_candidate n r a)" for r a
    using assms(1) by (auto simp: add_candidate_def put_keys split: option.splits dest: map_of_SomeD simp: rev_image_eqI)
  show ?thesis using assms(2)
  proof (induction xs arbitrary: acc)
    case (Cons x xs)
    then show ?case using keep [OF new] by (cases x) auto
  qed simp
qed

lemma demo_safe: "safeAuthFileName demo_name = Some demo_name"
  using authFileName_shape [OF demo_file_name] safe_name(1) by metis

lemma demo_is_candidate: "demo_name \<in> fst ` set (managedAuthFileCandidates demo_crypto (normalizeCredential demo_credential))"
proof -
  have "sanitizeFilePart (crEmail demo_credential) \<noteq> []" using demo_parts by (simp add: demo_credential_def)
  moreover have "demo_name \<in> fst ` set (candidate_names demo_crypto demo_credential)"
    using demo_parts by (simp add: candidate_names_def demo_credential_def identity_only_def workspace_prefix_def managedAuthSuffix_def demo_name_def)
  ultimately show ?thesis using candidate_added [OF demo_safe] demo_parts(3)
    by (simp add: managedAuthFileCandidates_def demo_credential_ok(1) Let_def image_Un del: fold_append)
qed

lemma demo_seen: "seen demo_files n = (if n = demo_name then Some demo_document else if n = ''x.json'' then Some ''x'' else None)"
  using demo_document_size by (simp add: seen_def demo_files_def demo_document_def demo_name_def mebi_def)

lemma demo_matches: "managedCredentialMatchScore demo_document demo_credential \<noteq> None"
  using own_document [OF demo_credential_ok demo_valid_base, of False]
  by (auto simp: demo_document_def credentialJSON_def managedCredentialMatches_def split: if_splits)

lemma demo_removal: "\<exists>snaps e'. RemoveCredentialWithSnapshot demo_crypto demo_cpa_manager demo_cpa None demo_credential e = (Inr snaps, e')"
proof -
  obtain found e1 where d: "managedAuthFilesForCredentials demo_crypto demo_cpa_manager demo_cpa None [demo_credential] e = (Inr found, e1)" "safe_keys found"
    using healthy_discover [OF demo_healthy demo_credential_ok(1) demo_parts(3)] by blast
  have "\<forall>n \<in> set (matchingManagedFileNames found demo_credential). safeAuthFileName n \<noteq> None"
    using d(2) by (auto simp: safe_keys_def matchingManagedFileNames_def)
  from demo_remove_files [OF this, of found "[]" e1] show ?thesis
    using demo_parts(3) d(1) by (auto simp: RemoveCredentialWithSnapshot_def demo_credential_ok(1) Let_def)
qed

lemma demo_restore:
  assumes "\<forall>s \<in> set ss. asName s = demo_name \<and> length (asRaw s) \<le> 4 * mebi"
  shows "\<exists>e'. restore_snapshots demo_cpa_manager demo_cpa None ss e = (Inr (), e')"
  using assms
proof (induction ss arbitrary: e)
  case (Cons s ss)
  have "\<not> Contains demo_name ''..''" by code_simp
  then have ok: "filepath_Base (TrimSpace demo_name) = demo_name" "demo_name \<noteq> []" "\<not> Contains demo_name ''..''"
    using demo_safe by (auto simp: safeAuthFileName_def Let_def split: if_splits)
  obtain e1 where "uploadAuthFile demo_cpa_manager demo_cpa None demo_name (asRaw s) e = (Inr (), e1)" "wld e1 demo_name = Some (asRaw s)"
    using healthy_upload [OF demo_healthy, of demo_name None "asRaw s" e] demo_safe by auto
  moreover then obtain e2 where
    "waitForAuthFile demo_cpa_manager demo_cpa None demo_name (\<lambda>now. equivalentJSON now (asRaw s)) e1 = (Inr (asRaw s), e2)"
    using healthy_wait [OF demo_healthy, of demo_name e1 "asRaw s" "\<lambda>now. equivalentJSON now (asRaw s)" None] demo_safe Cons.prems by auto
  ultimately have "put_back demo_cpa_manager demo_cpa None demo_name (asRaw s) e = (Inr (), e2)" by (simp add: put_back_def)
  with Cons ok show ?case by (simp add: Let_def)
qed simp

section \<open>The properties on the server\<close>


lemma demo_upsert:
  "\<exists>e'. UpsertIdentity demo_crypto demo_cpa_manager demo_cpa None demo_credential \<lparr>clk = 0, wld = (\<lambda>n. None)\<rparr> = (Inr (), e') \<and>
     wld e' demo_name = Some demo_document"
  using fresh_upsert [OF demo_healthy, of "\<lparr>clk = 0, wld = (\<lambda>n. None)\<rparr>" demo_credential demo_crypto, OF _ demo_credential_ok] demo_valid_base demo_document_size
  by (auto simp add: demo_file_name demo_document_def demo_cpa_manager_def simp del: ValidString.simps)


lemma removal_is_complete_witness:
  "\<exists>snaps e'. RemoveCredentialWithSnapshot demo_crypto demo_cpa_manager demo_cpa None demo_credential demo_state = (Inr snaps, e') \<and>
     wld e' demo_name = None \<and> (\<exists>s \<in> set snaps. asName s = demo_name \<and> asRaw s = demo_document)"
proof -
  obtain snaps e' where r: "RemoveCredentialWithSnapshot demo_crypto demo_cpa_manager demo_cpa None demo_credential demo_state = (Inr snaps, e')"
    using demo_removal by blast
  have "seen (wld demo_state) demo_name = Some demo_document" by (simp add: demo_state_def demo_seen)
  with removal_is_complete [OF healthy_file_server [OF demo_healthy] r] demo_is_candidate demo_matches
  have "wld e' demo_name = None \<and> (\<exists>s \<in> set snaps. asName s = demo_name \<and> asRaw s = demo_document)"
    by (simp add: demo_credential_ok(1)) 
  with r show ?thesis by blast
qed


lemma verification_is_bounded_witness:
  "exchanges (snd (waitForAuthFileAbsent demo_cpa_manager (counted_api demo_cpa) None demo_name \<lparr>clk = 0, wld = (demo_files, 0)\<rparr>)) \<le> 48"
  using verification_is_bounded [OF prod.collapse [symmetric] prod.collapse [symmetric], of demo_cpa_manager demo_cpa None demo_name
    "\<lambda>_. True" "\<lparr>clk = 0, wld = (demo_files, 0)\<rparr>"] by simp

lemma fresh_upsert_succeeds_witness:
  "\<exists>e'. UpsertIdentity demo_crypto demo_cpa_manager demo_cpa None demo_credential \<lparr>clk = 0, wld = (\<lambda>n. None)\<rparr> = (Inr (), e') \<and>
     wld e' demo_name = Some demo_document"
  using fresh_upsert_succeeds [OF demo_healthy, of "\<lparr>clk = 0, wld = (\<lambda>n. None)\<rparr>" demo_credential demo_crypto, OF _ demo_credential_ok] demo_valid_base demo_document_size
  by (auto simp add: demo_file_name demo_document_def demo_cpa_manager_def simp del: ValidString.simps)

end
