(* ===== verification/Server_State.thy ===== *)
theory Server_State
  imports Identity_Manager Cpa_Sync
begin

text \<open>
  The state behind the HTTP server (\<^verbatim>\<open>internal/server\<close>) and the calls its handlers make: the identity
  store on its disk, the credential manager and the services it talks to, and the CPA server.  A handler
  passes one \<open>world\<close> through its calls.  Clock readings, randomness and operating system faults are
  oracles (\<open>svNow\<close>, \<open>svRandom\<close>, \<open>svOS\<close>, \<open>svDone\<close>, \<open>svBackupEnv\<close>) read at the tick of the call, so they may differ from call
  to call.  The outbound clients (\<open>svClient\<close> of the credential manager, \<open>svBase\<close> of the proxy) are indexed by the
  proxy that the request's context carries; \<open>svDocText\<close> gives the bytes of a document of the store.
\<close>

text \<open>
  The directory of delete backups, by path components.  \<open>beKeeps\<close> is what the disk keeps of a write and \<open>bePartial\<close> what a
  failed write may leave, so that a disk may corrupt data silently; \<open>bfReal\<close> says that the root is not a symbolic link.
\<close>

datatype backup_op =
    BMkdirAll | BLstat | BChmod "string list" | BMkdir "string list" | BCreate "string list" | BWrite "string list"
  | BRemove "string list" | BRead "string list" | BRemoveAll "string list"

record backup_env =
  beFails :: "backup_op \<Rightarrow> bool"
  beKeeps :: "string list \<Rightarrow> bytes \<Rightarrow> bytes"
  bePartial :: "string list \<Rightarrow> bytes"

record backup_files =
  bfReal :: bool
  bfDirs :: "string list \<Rightarrow> bool"
  bfFiles :: "string list \<Rightarrow> bytes option"

record ('u, 'w) Server =
  svCrypto :: crypto
  svSuite :: suite
  svClient :: "string \<Rightarrow> 'u transport"
  svChannels :: "(CpaManager \<times> 'w api) option"
  svOS :: "nat \<Rightarrow> os_env"
  svRandom :: "nat \<Rightarrow> entropy"
  svNow :: "nat \<Rightarrow> time"
  svDone :: "nat \<Rightarrow> bool"
  svBackupEnv :: "nat \<Rightarrow> backup_env"
  svDocText :: "json_doc \<Rightarrow> bytes"
  svBase :: "string \<Rightarrow> 'u transport"

record ('u, 'w) world =
  wStore :: "Store \<times> disk"
  wManager :: "Manager \<times> 'u"
  wCpa :: "'w env"
  wBackup :: backup_files
  wTick :: nat

abbreviation stored :: "('u, 'w) world \<Rightarrow> Store" where
  "stored w \<equiv> fst (wStore w)"

definition tick :: "nat \<Rightarrow> ('u, 'w) world \<Rightarrow> ('u, 'w) world" where
  "tick n w = w\<lparr>wTick := wTick w + n\<rparr>"

section \<open>Calls on the store\<close>

definition store_import ::
  "('u, 'w) Server \<Rightarrow> string \<Rightarrow> CredentialMetadata \<Rightarrow> ('u, 'w) world \<Rightarrow> (store_error + PublicIdentity \<times> string) \<times> ('u, 'w) world" where
  "store_import sv token md w =
     (let t = wTick w in
      case ImportWithMetadata (svCrypto sv) (svOS sv t) (svRandom sv t) token md (svNow sv t) (wStore w) of
        (r, sd) \<Rightarrow> (r, tick 1 (w\<lparr>wStore := sd\<rparr>)))"

definition store_restore :: "('u, 'w) Server \<Rightarrow> Identity \<Rightarrow> ('u, 'w) world \<Rightarrow> (store_error + unit) \<times> ('u, 'w) world" where
  "store_restore sv i w =
     (let t = wTick w in
      case Restore (svCrypto sv) (svOS sv t) (nonceRandom (svRandom sv t)) i (wStore w) of
        (r, sd) \<Rightarrow> (r, tick 1 (w\<lparr>wStore := sd\<rparr>)))"

definition store_delete :: "('u, 'w) Server \<Rightarrow> string \<Rightarrow> ('u, 'w) world \<Rightarrow> (store_error + unit) \<times> ('u, 'w) world" where
  "store_delete sv i w =
     (case Delete (svOS sv (wTick w)) i (wStore w) of (r, sd) \<Rightarrow> (r, tick 1 (w\<lparr>wStore := sd\<rparr>)))"

definition store_update ::
  "('u, 'w) Server \<Rightarrow> string \<Rightarrow> CredentialMetadata \<Rightarrow> ('u, 'w) world \<Rightarrow> (store_error + unit) \<times> ('u, 'w) world" where
  "store_update sv i md w =
     (let t = wTick w in
      case UpdateMetadata (svCrypto sv) (svOS sv t) (nonceRandom (svRandom sv t)) i md (wStore w) of
        (r, sd) \<Rightarrow> (r, tick 1 (w\<lparr>wStore := sd\<rparr>)))"

section \<open>Calls on the credential manager\<close>

definition inspect ::
  "('u, 'w) Server \<Rightarrow> string \<Rightarrow> string \<Rightarrow> string \<Rightarrow> ('u, 'w) world \<Rightarrow> (id_error + CredentialInfo) \<times> ('u, 'w) world" where
  "inspect sv proxy token accountID w =
     (let t = wTick w in
      case InspectForAccount (svCrypto sv) (svSuite sv) (svClient sv proxy) (svNow sv t) (svNow sv (t + 1)) token accountID (wManager w) of
        (r, mw) \<Rightarrow> (r, tick 2 (w\<lparr>wManager := mw\<rparr>)))"

definition authorize ::
  "('u, 'w) Server \<Rightarrow> string \<Rightarrow> string \<Rightarrow> string \<Rightarrow> string \<Rightarrow> string \<Rightarrow> ('u, 'w) world \<Rightarrow>
   (id_error + Authorization) \<times> ('u, 'w) world" where
  "authorize sv proxy identityID token sessionID accountID w =
     (let t = wTick w in
      case AuthorizeForAccount (svCrypto sv) (svSuite sv) (svClient sv proxy) (\<lambda>k. svDone sv (t + k)) (\<lambda>k. svNow sv (t + k))
             identityID token sessionID accountID (wManager w) of
        (r, mw) \<Rightarrow> (r, tick 5 (w\<lparr>wManager := mw\<rparr>)))"

definition invalidate :: "('u, 'w) Server \<Rightarrow> string \<Rightarrow> string \<Rightarrow> string \<Rightarrow> ('u, 'w) world \<Rightarrow> ('u, 'w) world" where
  "invalidate sv identityID tokenHash sessionID w =
     w\<lparr>wManager := (case wManager w of (m, u) \<Rightarrow> (InvalidateTask (svCrypto sv) identityID tokenHash sessionID m, u))\<rparr>"

section \<open>Calls on CPA\<close>

definition on_cpa :: "('a, 'w) act \<Rightarrow> ('u, 'w) world \<Rightarrow> (cpa_error + 'a) \<times> ('u, 'w) world" where
  "on_cpa f w = (case f (wCpa w) of (r, e) \<Rightarrow> (r, w\<lparr>wCpa := e\<rparr>))"

section \<open>What the calls leave alone\<close>

named_theorems frame_simps

lemma tick_fields [simp, frame_simps]:
  "wStore (tick n w) = wStore w" "wManager (tick n w) = wManager w" "wCpa (tick n w) = wCpa w" "wBackup (tick n w) = wBackup w" "wTick (tick n w) = wTick w + n"
  by (simp_all add: tick_def)

lemma on_cpa_frame: "on_cpa f w = (r, w') \<Longrightarrow> wStore w' = wStore w \<and> wManager w' = wManager w \<and> wBackup w' = wBackup w \<and> f (wCpa w) = (r, wCpa w')"
  by (auto simp: on_cpa_def split: prod.splits)

lemma inspect_frame: "inspect sv p t a w = (r, w') \<Longrightarrow> wStore w' = wStore w \<and> wCpa w' = wCpa w \<and> wBackup w' = wBackup w"
  by (auto simp: inspect_def Let_def split: prod.splits)

lemma authorize_frame: "authorize sv p i t s a w = (r, w') \<Longrightarrow> wStore w' = wStore w \<and> wCpa w' = wCpa w \<and> wBackup w' = wBackup w"
  by (auto simp: authorize_def Let_def split: prod.splits)

lemma store_frames:
  "store_import sv t md w = (ri, w') \<Longrightarrow> wManager w' = wManager w \<and> wCpa w' = wCpa w \<and> wBackup w' = wBackup w"
  "store_restore sv i w = (rr, w') \<Longrightarrow> wManager w' = wManager w \<and> wCpa w' = wCpa w \<and> wBackup w' = wBackup w"
  "store_delete sv k w = (rd, w') \<Longrightarrow> wManager w' = wManager w \<and> wCpa w' = wCpa w \<and> wBackup w' = wBackup w"
  "store_update sv k md w = (ru, w') \<Longrightarrow> wManager w' = wManager w \<and> wCpa w' = wCpa w \<and> wBackup w' = wBackup w"
  by (auto simp: store_import_def store_restore_def store_delete_def store_update_def Let_def split: prod.splits)

end
