(* ===== verification/Management_Import.thy ===== *)
theory Management_Import
  imports Server_State
begin

text \<open>
  The import of one credential (\<^verbatim>\<open>internal/server/management_import.go\<close>): inspection, storing, and
  synchronisation with CPA, with the rollback of the store when CPA refuses.
\<close>

section \<open>Data\<close>

record credentialImportResult =
  irPublicIdentity :: PublicIdentity
  irCredential :: "CredentialInfo option"
  irClientKey :: string
  irDuplicate :: bool

record managementImportError =
  meStatusCode :: int
  meCode :: string
  meMessage :: string

fun kind_text :: "CredentialKind \<Rightarrow> string" where
  "kind_text CredentialKindAgentIdentity = ''agent_identity''"
| "kind_text CredentialKindPersonalAccessToken = ''personal_access_token''"

definition cpaCredential :: "string \<Rightarrow> string \<Rightarrow> string \<Rightarrow> CredentialInfo option \<Rightarrow> Credential" where
  "cpaCredential identityID clientKey upstreamToken credential =
     (case credential of
        None \<Rightarrow> (identity_only identityID)\<lparr>crClientKey := clientKey, crUpstreamToken := upstreamToken\<rparr>
      | Some c \<Rightarrow>
          \<lparr>crIdentityID = identityID, crClientKey = clientKey, crUpstreamToken = upstreamToken, crKind = kind_text (ciKind c),
           crAccountID = ciAccountID c, crUserID = ciUserID c, crEmail = ciEmail c, crPlanType = ciPlanType c,
           crExpiresAt = ciExpiresAt c, crFedRAMP = ciFedRAMP c\<rparr>)"

definition cpaCredentialFromStored :: "Identity \<Rightarrow> Credential" where
  "cpaCredentialFromStored i =
     \<lparr>crIdentityID = idID i, crClientKey = idClientKey i, crUpstreamToken = idToken i, crKind = idKind i,
      crAccountID = idAccountID i, crUserID = [], crEmail = idEmail i, crPlanType = idPlanType i,
      crExpiresAt = idExpiresAt i, crFedRAMP = idFedRAMP i\<rparr>"

definition cpaCredentialFromPublic :: "PublicIdentity \<Rightarrow> Credential" where
  "cpaCredentialFromPublic p =
     \<lparr>crIdentityID = pubID p, crClientKey = [], crUpstreamToken = [], crKind = pubKind p, crAccountID = pubAccountID p,
      crUserID = [], crEmail = pubEmail p, crPlanType = pubPlanType p,
      crExpiresAt = (case pubExpiresAt p of None \<Rightarrow> 0 | Some t \<Rightarrow> t), crFedRAMP = pubFedRAMP p\<rparr>"

definition storeMetadata :: "CredentialInfo option \<Rightarrow> bool \<Rightarrow> CredentialMetadata" where
  "storeMetadata credential accountScoped =
     (case credential of
        None \<Rightarrow> emptyMetadata
      | Some c \<Rightarrow>
          \<lparr>mdKind = kind_text (ciKind c), mdEmail = ciEmail c, mdPlanType = ciPlanType c, mdAccountID = ciAccountID c,
           mdAccountScoped = accountScoped, mdExpiresAt = ciExpiresAt c, mdFedRAMP = ciFedRAMP c\<rparr>)"

definition publicIdentityFromStored :: "Identity \<Rightarrow> PublicIdentity" where
  "publicIdentityFromStored i =
     \<lparr>pubID = idID i, pubCreatedAt = idCreatedAt i, pubKind = idKind i, pubEmail = idEmail i, pubPlanType = idPlanType i,
      pubAccountID = idAccountID i, pubAccountScoped = idAccountScoped i, pubExpiresAt = timePointer (idExpiresAt i),
      pubFedRAMP = idFedRAMP i\<rparr>"

definition maskedEmail :: "string \<Rightarrow> string" where
  "maskedEmail value =
     (case SplitAt (CHR ''@'') (TrimSpace value) of
        [left, domain] \<Rightarrow>
          if left = [] \<or> domain = [] then []
          else let local = runes left in
            if length local \<le> 2 then concat (take 1 local) @ ''***@'' @ domain
            else concat (take 1 local) @ ''***'' @ concat (drop (length local - 1) local) @ ''@'' @ domain
      | _ \<Rightarrow> [])"

section \<open>Errors\<close>

definition cpaSynchronizationImportError :: "cpa_error \<Rightarrow> managementImportError" where
  "cpaSynchronizationImportError err =
     (if err = ErrUnmanagedAuthFile
      then \<lparr>meStatusCode = 409, meCode = ''cpa_auth_file_conflict'', meMessage = ''CPA native OAuth already uses this auth-file name; upgrade Codex Agent Identity and re-import the credential''\<rparr>
      else \<lparr>meStatusCode = 502, meCode = ''sync_failed'', meMessage = ''failed to synchronize CPA Codex credential''\<rparr>)"

definition store_failed :: managementImportError where
  "store_failed = \<lparr>meStatusCode = 500, meCode = ''store_failed'', meMessage = ''failed to store identity''\<rparr>"

definition inspection_error :: "id_error \<Rightarrow> managementImportError" where
  "inspection_error err =
     (if CredentialServiceUnavailable err
      then \<lparr>meStatusCode = 502, meCode = ''upstream_unavailable'', meMessage = ''credential validation service is unavailable''\<rparr>
      else \<lparr>meStatusCode = 400, meCode = ''invalid'', meMessage = ''invalid codex access token''\<rparr>)"

section \<open>Import\<close>

text \<open>The credential that is stored: an account chosen by the caller replaces the inspected one.\<close>

definition scoped_credential :: "string \<Rightarrow> CredentialInfo option \<Rightarrow> CredentialInfo option" where
  "scoped_credential accountID credential =
     (if accountID \<noteq> [] then map_option (\<lambda>c. c\<lparr>ciAccountID := accountID\<rparr>) credential else credential)"

definition undo_import ::
  "('u, 'w) Server \<Rightarrow> Identity option \<Rightarrow> string \<Rightarrow> ('u, 'w) world \<Rightarrow> ('u, 'w) world" where
  "undo_import sv previous newID w =
     (case previous of
        Some p \<Rightarrow> snd (store_restore sv p w)
      | None \<Rightarrow> snd (store_delete sv newID w))"

definition commitInspectedTokenLocked ::
  "('u, 'w) Server \<Rightarrow> ctx \<Rightarrow> string \<Rightarrow> string \<Rightarrow> CredentialInfo option \<Rightarrow> bool \<Rightarrow> ('u, 'w) world \<Rightarrow>
   (managementImportError + credentialImportResult) \<times> ('u, 'w) world" where
  "commitInspectedTokenLocked sv ctx token account inspected skipExisting w =
     (let accountID = TrimSpace account; accountScoped = accountID \<noteq> []; credential = scoped_credential accountID inspected;
          previous = LookupByTokenAndAccount (svCrypto sv) (stored w) token accountID in
      if skipExisting \<and> previous \<noteq> None
      then (Inr \<lparr>irPublicIdentity = publicIdentityFromStored (the previous), irCredential = credential, irClientKey = [],
                 irDuplicate = True\<rparr>, w)
      else case store_import sv token (storeMetadata credential accountScoped) w of
        (Inl _, w1) \<Rightarrow> (Inl store_failed, w1)
      | (Inr (public, clientKey), w1) \<Rightarrow>
          (let result = \<lparr>irPublicIdentity = public, irCredential = credential, irClientKey = clientKey, irDuplicate = False\<rparr> in
           case svChannels sv of
             None \<Rightarrow> (Inr result, w1)
           | Some (m, api) \<Rightarrow>
               (case on_cpa (UpsertIdentity (svCrypto sv) m api ctx (cpaCredential (pubID public) clientKey token credential)) w1 of
                  (Inl err, w2) \<Rightarrow> (Inl (cpaSynchronizationImportError err), undo_import sv previous (pubID public) w2)
                | (Inr _, w2) \<Rightarrow> (Inr result, w2))))"

definition importTokenLocked ::
  "('u, 'w) Server \<Rightarrow> ctx \<Rightarrow> string \<Rightarrow> string \<Rightarrow> bool \<Rightarrow> ('u, 'w) world \<Rightarrow>
   (managementImportError + credentialImportResult) \<times> ('u, 'w) world" where
  "importTokenLocked sv ctx token account skipExisting w =
     (let accountID = TrimSpace account in
      case inspect sv [] token accountID w of
        (Inl err, w') \<Rightarrow> (Inl (inspection_error err), w')
      | (Inr credential, w') \<Rightarrow> commitInspectedTokenLocked sv ctx token accountID (Some credential) skipExisting w')"

end
