(* ===== verification/Batch_Import.thy ===== *)
theory Batch_Import
  imports Management_Import Batch_Parse
begin

text \<open>
  The batch import (\<^verbatim>\<open>internal/server/batch_import.go\<close>): duplicates are sorted out, the rest is inspected by
  the worker goroutines, then the batch is previewed, refused, or committed item by item, with rollback in
  atomic mode.  Each worker writes only the slot of its item, so the workers are modelled by the order in
  which they take the pending items: \<open>schedule\<close> permutes the pending indices.
\<close>

section \<open>Data\<close>

record batchImportItemResult =
  biIndex :: nat
  biLabel :: string
  biIdentityID :: string
  biStatus :: string
  biCode :: string
  biMessage :: string
  biCredentialKind :: string
  biEmail :: string
  biPlanType :: string
  biAccountID :: string
  biExpiresAt :: "time option"
  biFedRAMP :: bool
  biChannelSynced :: bool
  biDuplicateOf :: nat

record batchImportSummary =
  suTotal :: nat
  suReady :: nat
  suImported :: nat
  suDuplicate :: nat
  suInvalid :: nat
  suUpstreamUnavailable :: nat
  suFailed :: nat
  suRolledBack :: nat
  suRollbackFailed :: nat
  suAborted :: nat

record batchImportResponse =
  brStatus :: string
  brPreview :: bool
  brAtomic :: bool
  brTransaction :: string
  brSummary :: batchImportSummary
  brItems :: "batchImportItemResult list"

definition populateBatchCredentialMetadata :: "CredentialInfo \<Rightarrow> batchImportItemResult \<Rightarrow> batchImportItemResult" where
  "populateBatchCredentialMetadata c item =
     item\<lparr>biCredentialKind := kind_text (ciKind c), biEmail := maskedEmail (ciEmail c), biPlanType := ciPlanType c,
       biAccountID := ciAccountID c, biFedRAMP := ciFedRAMP c,
       biExpiresAt := (if ciExpiresAt c \<noteq> 0 then Some (ciExpiresAt c) else biExpiresAt item)\<rparr>"

definition populateBatchStoredMetadata :: "Identity \<Rightarrow> batchImportItemResult \<Rightarrow> batchImportItemResult" where
  "populateBatchStoredMetadata i item =
     item\<lparr>biCredentialKind := idKind i, biEmail := maskedEmail (idEmail i), biPlanType := idPlanType i,
       biAccountID := idAccountID i, biFedRAMP := idFedRAMP i,
       biExpiresAt := (if idExpiresAt i \<noteq> 0 then Some (idExpiresAt i) else biExpiresAt item)\<rparr>"

definition mark :: "string \<Rightarrow> string \<Rightarrow> string \<Rightarrow> batchImportItemResult \<Rightarrow> batchImportItemResult" where
  "mark status code message item = item\<lparr>biStatus := status, biCode := code, biMessage := message\<rparr>"

fun count_item :: "string \<Rightarrow> batchImportSummary \<Rightarrow> batchImportSummary" where
  "count_item status s =
     (if status = ''ready'' then s\<lparr>suReady := suReady s + 1\<rparr>
      else if status = ''imported'' then s\<lparr>suImported := suImported s + 1\<rparr>
      else if status = ''duplicate'' then s\<lparr>suDuplicate := suDuplicate s + 1\<rparr>
      else if status = ''invalid'' then s\<lparr>suInvalid := suInvalid s + 1\<rparr>
      else if status = ''upstream_unavailable'' then s\<lparr>suUpstreamUnavailable := suUpstreamUnavailable s + 1\<rparr>
      else if status = ''failed'' then s\<lparr>suFailed := suFailed s + 1\<rparr>
      else if status = ''rolled_back'' then s\<lparr>suRolledBack := suRolledBack s + 1\<rparr>
      else if status = ''rollback_failed'' then s\<lparr>suRollbackFailed := suRollbackFailed s + 1\<rparr>
      else if status = ''aborted'' then s\<lparr>suAborted := suAborted s + 1\<rparr>
      else s)"

definition summarizeBatchItems :: "batchImportItemResult list \<Rightarrow> batchImportSummary" where
  "summarizeBatchItems items =
     fold (\<lambda>item. count_item (biStatus item)) items
       \<lparr>suTotal = length items, suReady = 0, suImported = 0, suDuplicate = 0, suInvalid = 0, suUpstreamUnavailable = 0,
        suFailed = 0, suRolledBack = 0, suRollbackFailed = 0, suAborted = 0\<rparr>"

definition batchHasBlockingValidation :: "batchImportItemResult list \<Rightarrow> bool" where
  "batchHasBlockingValidation items = list_ex (\<lambda>i. biStatus i = ''invalid'' \<or> biStatus i = ''upstream_unavailable'') items"

section \<open>Duplicates\<close>

definition new_item :: "importCandidate \<Rightarrow> string \<Rightarrow> batchImportItemResult" where
  "new_item c identityID =
     \<lparr>biIndex = icIndex c, biLabel = icLabel c, biIdentityID = identityID, biStatus = ''pending'', biCode = [], biMessage = [],
      biCredentialKind = [], biEmail = [], biPlanType = [], biAccountID = [], biExpiresAt = None, biFedRAMP = False,
      biChannelSynced = False, biDuplicateOf = 0\<rparr>"

fun classify :: "crypto \<Rightarrow> Store \<Rightarrow> nat gomap \<Rightarrow> importCandidate list \<Rightarrow> batchImportItemResult list" where
  "classify C s seen [] = []"
| "classify C s seen (c # cs) =
     (let identityID = IdentityIDForAccount C (icToken c) (icAccountID c); item = new_item c identityID in
      case map_get seen identityID of
        Some first \<Rightarrow>
          (mark ''duplicate'' ''duplicate_input'' ''duplicate credential in this batch'' item)\<lparr>biDuplicateOf := first\<rparr> #
            classify C s seen cs
      | None \<Rightarrow>
          (case LookupByTokenAndAccount C s (icToken c) (icAccountID c) of
             None \<Rightarrow> item
           | Some existing \<Rightarrow>
               populateBatchStoredMetadata existing
                 (mark ''duplicate'' ''already_imported'' ''credential is already imported'' (item\<lparr>biIdentityID := idID existing\<rparr>))) #
            classify C s (map_put identityID (icIndex c) seen) cs)"

section \<open>Validation\<close>

type_synonym items = "batchImportItemResult list"
type_synonym inspections = "CredentialInfo option list"

definition validate_item ::
  "('u, 'w) Server \<Rightarrow> importCandidate list \<Rightarrow> nat \<Rightarrow> items \<times> inspections \<times> ('u, 'w) world \<Rightarrow> items \<times> inspections \<times> ('u, 'w) world" where
  "validate_item sv candidates i st =
     (case st of (items, inspections, w) \<Rightarrow>
      case inspect sv [] (icToken (candidates ! i)) (icAccountID (candidates ! i)) w of
        (Inl err, w') \<Rightarrow>
          (items[i := (if CredentialServiceUnavailable err
                       then mark ''upstream_unavailable'' ''upstream_unavailable'' ''credential validation service is unavailable'' (items ! i)
                       else mark ''invalid'' ''invalid'' ''invalid codex access token'' (items ! i))], inspections, w')
      | (Inr credential, w') \<Rightarrow>
          (items[i := populateBatchCredentialMetadata credential ((items ! i)\<lparr>biStatus := ''ready''\<rparr>)],
           inspections[i := Some credential], w'))"

definition pending :: "items \<Rightarrow> nat list" where
  "pending items = filter (\<lambda>i. biStatus (items ! i) = ''pending'') [0..<length items]"

definition validate_batch ::
  "('u, 'w) Server \<Rightarrow> (nat list \<Rightarrow> nat list) \<Rightarrow> importCandidate list \<Rightarrow> items \<Rightarrow> ('u, 'w) world \<Rightarrow> items \<times> inspections \<times> ('u, 'w) world" where
  "validate_batch sv schedule candidates items w =
     fold (validate_item sv candidates) (schedule (pending items)) (items, replicate (length candidates) None, w)"

section \<open>Commit and rollback\<close>

fun rollbackBatchImports ::
  "('u, 'w) Server \<Rightarrow> ctx \<Rightarrow> nat list \<Rightarrow> items \<times> ('u, 'w) world \<Rightarrow> bool \<times> items \<times> ('u, 'w) world" where
  "rollbackBatchImports sv ctx [] (items, w) = (True, items, w)"
| "rollbackBatchImports sv ctx (i # is) (items, w) =
     (let identityID = biIdentityID (items ! i) in
      case (case svChannels sv of
              None \<Rightarrow> (Inr (), w)
            | Some (m, api) \<Rightarrow> on_cpa (RemoveIdentity (svCrypto sv) m api ctx identityID) w) of
        (Inl _, w1) \<Rightarrow>
          (case rollbackBatchImports sv ctx is
                  (items[i := mark ''rollback_failed'' ''rollback_sync_failed'' ''automatic rollback could not remove the CPA credential'' (items ! i)], w1) of
             (_, st) \<Rightarrow> (False, st))
      | (Inr _, w1) \<Rightarrow>
          (case store_delete sv identityID w1 of
             (Inl _, w2) \<Rightarrow>
               (case rollbackBatchImports sv ctx is
                       (items[i := mark ''rollback_failed'' ''rollback_store_failed'' ''automatic rollback could not remove the stored credential'' (items ! i)], w2) of
                  (_, st) \<Rightarrow> (False, st))
           | (Inr _, w2) \<Rightarrow>
               rollbackBatchImports sv ctx is
                 (items[i := (mark ''rolled_back'' ''rolled_back'' ''credential was rolled back because the atomic transaction failed'' (items ! i))\<lparr>biChannelSynced := False\<rparr>], w2)))"

definition abort_ready :: "string \<Rightarrow> string \<Rightarrow> nat list \<Rightarrow> items \<Rightarrow> items" where
  "abort_ready code message is items =
     fold (\<lambda>i items. if biStatus (items ! i) = ''ready'' then items[i := mark ''aborted'' code message (items ! i)] else items) is items"

fun commit_batch ::
  "('u, 'w) Server \<Rightarrow> ctx \<Rightarrow> bool \<Rightarrow> importCandidate list \<Rightarrow> inspections \<Rightarrow> nat list \<Rightarrow> nat list \<Rightarrow> items \<Rightarrow> ('u, 'w) world \<Rightarrow>
   string \<times> items \<times> ('u, 'w) world" where
  "commit_batch sv ctx atomic candidates inspections [] imported items w = (''committed'', items, w)"
| "commit_batch sv ctx atomic candidates inspections (i # is) imported items w =
     (if biStatus (items ! i) \<noteq> ''ready'' then commit_batch sv ctx atomic candidates inspections is imported items w
      else case commitInspectedTokenLocked sv ctx (icToken (candidates ! i)) (icAccountID (candidates ! i)) (inspections ! i) True w of
        (Inl err, w1) \<Rightarrow>
          (let items1 = items[i := mark ''failed'' (meCode err) (meMessage err) (items ! i)] in
           if atomic then
             (case rollbackBatchImports sv ctx (rev imported) (items1, w1) of
                (rollbackOK, items2, w2) \<Rightarrow>
                  (if rollbackOK then ''rolled_back'' else ''rollback_failed'',
                   abort_ready ''atomic_import_failed'' ''not imported because the atomic transaction failed'' is items2, w2))
           else commit_batch sv ctx atomic candidates inspections is imported items1 w1)
      | (Inr result, w1) \<Rightarrow>
          if irDuplicate result
          then commit_batch sv ctx atomic candidates inspections is imported
                 (items[i := mark ''duplicate'' ''already_imported'' ''credential is already imported'' (items ! i)]) w1
          else commit_batch sv ctx atomic candidates inspections is (imported @ [i])
                 (items[i := (mark ''imported'' ''imported'' ''credential imported and synchronized'' (items ! i))
                    \<lparr>biChannelSynced := svChannels sv \<noteq> None\<rparr>]) w1)"

definition respond :: "string \<Rightarrow> bool \<Rightarrow> bool \<Rightarrow> string \<Rightarrow> items \<Rightarrow> batchImportResponse" where
  "respond status preview atomic transaction items =
     \<lparr>brStatus = status, brPreview = preview, brAtomic = atomic, brTransaction = transaction,
      brSummary = summarizeBatchItems items, brItems = items\<rparr>"

definition processBatchImport ::
  "('u, 'w) Server \<Rightarrow> ctx \<Rightarrow> (nat list \<Rightarrow> nat list) \<Rightarrow> importCandidate list \<Rightarrow> bool \<Rightarrow> bool \<Rightarrow> ('u, 'w) world \<Rightarrow>
   batchImportResponse \<times> ('u, 'w) world" where
  "processBatchImport sv ctx schedule candidates preview atomic w =
     (case validate_batch sv schedule candidates (classify (svCrypto sv) (stored w) [] candidates) w of
        (items, inspections, w1) \<Rightarrow>
          if preview then (respond ''ok'' preview atomic ''preview'' items, w1)
          else if atomic \<and> batchHasBlockingValidation items
          then (respond ''validation_failed'' preview atomic ''aborted''
                  (abort_ready ''atomic_validation_failed'' ''not imported because another item failed validation'' [0..<length items] items), w1)
          else case commit_batch sv ctx atomic candidates inspections [0..<length items] [] items w1 of
            (transaction, items', w2) \<Rightarrow>
              (let su = summarizeBatchItems items' in
               (respond (if suFailed su > 0 \<or> suRollbackFailed su > 0 then ''partial_failure'' else ''ok'')
                  preview atomic transaction items', w2)))"

end
