(* ===== verification/Import_Properties.thy ===== *)
theory Import_Properties
  imports Management_Import Store_Properties
begin

text \<open>
  Properties of the import of one credential: when CPA refuses, the store shows the same identities and
  client keys as before; what CPA is told is what was stored; a failing rollback of a legacy identity.
\<close>

section \<open>Undoing a publication\<close>

definition same_identities :: "Store \<Rightarrow> Store \<Rightarrow> bool" where
  "same_identities s t \<longleftrightarrow> (\<forall>k. map_get (byID t) k = map_get (byID s) k) \<and> (\<forall>h. map_get (byKeyHash t) h = map_get (byKeyHash s) h)"

lemma same_refl [simp]: "same_identities s s"
  by (simp add: same_identities_def)

lemma same_trans: "same_identities s t \<Longrightarrow> same_identities t u \<Longrightarrow> same_identities s u"
  by (simp add: same_identities_def)

lemma same_lookup: "same_identities s t \<Longrightarrow> Lookup C t k = Lookup C s k \<and> GetByID t i = GetByID s i"
  by (simp add: same_identities_def Lookup_def GetByID_def)

lemma same_by_token: "same_identities s t \<Longrightarrow> LookupByTokenAndAccount C t token a = LookupByTokenAndAccount C s token a"
proof -
  assume "same_identities s t"
  then have "GetByID t = GetByID s" by (simp add: same_identities_def GetByID_def fun_eq_iff)
  then show ?thesis unfolding LookupByTokenAndAccount_def by metis
qed

definition drop_identity :: "string \<Rightarrow> Identity \<Rightarrow> Store \<Rightarrow> Store" where
  "drop_identity k j s = s\<lparr>byID := map_del k (byID s), byKeyHash := map_del (idClientKeyHash j) (byKeyHash s), fileByID := map_del k (fileByID s)\<rparr>"

lemma drop_publish:
  assumes "map_get (byID s) (idID i) = None" "map_get (byKeyHash s) (idClientKeyHash i) = None"
  shows "same_identities s (drop_identity (idID i) i (publish i p s))"
  using assms by (simp add: same_identities_def drop_identity_def publish_keys)

lemma publish_publish:
  assumes "store_ok C s" "map_get (byID s) (idID i) = Some q" "map_get (byKeyHash s) (idClientKeyHash i) = None"
  shows "same_identities s (publish q p' (publish i p s))"
proof -
  have "idID q = idID i" "map_get (byKeyHash s) (idClientKeyHash q) = Some q" using store_okD(1,3) [OF assms(1)] assms(2) by auto
  then show ?thesis using assms by (simp add: same_identities_def publish_keys)
qed

section \<open>One import\<close>

lemma store_import_cases:
  assumes "store_import sv token md w = (r, w1)"
  defines "C \<equiv> svCrypto sv" and "t \<equiv> wTick w"
  shows "(\<exists>e. r = Inl e) \<and> stored w1 = stored w \<or>
    (\<exists>key. let i = newIdentity C (stCipher (stored w)) (TrimSpace token) key md (svNow sv t) in
       randomClientKey (keyRandom (svRandom sv t)) = Some key \<and> r = Inr (publicIdentity i, key) \<and> validIdentity C i \<and>
       stored w1 = publish i (stDir (stored w), identityFileName (idID i)) (stored w))"
proof -
  obtain s d where sd: "wStore w = (s, d)" by fastforce
  obtain x s1 d1 where imp: "ImportWithMetadata C (svOS sv t) (svRandom sv t) token md (svNow sv t) (s, d) = (x, s1, d1)"
    by (metis prod_cases3)
  have w1: "r = x" "stored w1 = s1"
    using assms(1) imp sd by (auto simp: store_import_def Let_def C_def t_def)
  show ?thesis
  proof (cases x)
    case (Inl e)
    from Import_cases [OF imp] consider "s1 = s"
      | key r0 where "commitIdentity C (svOS sv t) (nonceRandom (svRandom sv t)) (newIdentity C (stCipher s) (TrimSpace token) key md (svNow sv t)) (s, d) = (r0, s1, d1)"
        "x = map_sum id (\<lambda>_. (publicIdentity (newIdentity C (stCipher s) (TrimSpace token) key md (svNow sv t)), key)) r0" by blast
    then have "s1 = s"
    proof cases
      case 2
      then show ?thesis using commit_cases [OF 2(1)] Inl by (cases r0) auto
    qed simp
    with w1 Inl sd show ?thesis by simp
  next
    case (Inr y)
    obtain pub key where y: "y = (pub, key)" by fastforce
    note ok = Import_success [OF imp [unfolded Inr y]]
    from commit_cases [OF ok [THEN conjunct2, THEN conjunct2]] encode_valid
    show ?thesis using ok w1 Inr y sd unfolding Let_def by fastforce
  qed
qed

lemma undo_delete:
  assumes "store_delete sv k w = (r, w')" "map_get (byID (stored w)) (TrimSpace k) = Some i"
  shows "stored w' = drop_identity (TrimSpace k) i (stored w)"
  using assms by (cases "wStore w") (auto simp: store_delete_def drop_identity_def Delete_def Let_def split: prod.splits if_splits)

definition can_restore :: "('u, 'w) Server \<Rightarrow> nat \<Rightarrow> Store \<Rightarrow> Identity \<Rightarrow> bool" where
  "can_restore sv t s p \<longleftrightarrow> (stCipher s \<noteq> None \<longleftrightarrow> idVersion p = identityVersionEncrypted) \<and> steady (svOS sv t) \<and> ReadFull nonceSize (nonceRandom (svRandom sv t)) \<noteq> None \<and>
     time_marshals (idCreatedAt p) \<and> time_marshals (idExpiresAt p)"

lemma undo_restore:
  assumes "store_restore sv p w = (r, w')" "can_restore sv (wTick w) (stored w) p" "validIdentity (svCrypto sv) p"
  shows "r = Inr () \<and> stored w' = publish p (stDir (stored w), identityFileName (idID p)) (stored w)"
proof -
  obtain s d where sd: "wStore w = (s, d)" by fastforce
  let ?os = "svOS sv (wTick w)" and ?n = "nonceRandom (svRandom sv (wTick w))"
  have p: "(if stCipher s \<noteq> None then p\<lparr>idVersion := identityVersionEncrypted\<rparr> else p) = p"
    using assms(2) sd by (auto simp: can_restore_def)
  obtain doc where doc: "encodeIdentity (svCrypto sv) (stCipher s) ?n p = Inr doc"
    using encode_succeeds [OF assms(3), of "stCipher s" ?n] assms(2) sd by (auto simp: can_restore_def)
  obtain d' where "writeOwnerOnlyAtomic ?os (identityFileName (idID p)) doc d = (Inr (), d')"
    using write_steady assms(2) unfolding can_restore_def by metis
  with doc have "Restore (svCrypto sv) ?os ?n p (s, d) = (Inr (), publish p (stDir s, identityFileName (idID p)) s, d')"
    unfolding Restore_def prod.case p using assms(3) by (simp add: commitIdentity_def)
  with assms(1) sd show ?thesis by (auto simp: store_restore_def Let_def)
qed

text \<open>The identity that an import of an inspected token stores.\<close>

lemma new_id:
  assumes "accountID = TrimSpace account"
  shows "idID (newIdentity C c (TrimSpace token) key (storeMetadata (scoped_credential accountID (Some cred)) (accountID \<noteq> [])) now) =
    (if accountID = [] then IdentityID C token else IdentityIDForAccount C token accountID)"
  using assms by (simp add: storeMetadata_def scoped_credential_def)

lemma previous_is_new:
  assumes ok: "crypto_ok C" and tok: "TrimSpace token \<noteq> []" and a: "accountID = TrimSpace account"
    and direct: "\<forall>p. LookupByTokenAndAccount C s token accountID = Some p \<longrightarrow> accountID = [] \<or> idAccountScoped p"
  shows "map_get (byID s) (if accountID = [] then IdentityID C token else IdentityIDForAccount C token accountID) =
    LookupByTokenAndAccount C s token accountID"
proof -
  have trim: "TrimSpace accountID = accountID" by (simp add: a)
  have get: "GetByID s (IdentityID C t) = map_get (byID s) (IdentityID C t)"
    "GetByID s (IdentityIDForAccount C t x) = map_get (byID s) (IdentityIDForAccount C t x)" for t x
    by (simp_all add: GetByID_def ok)
  note look = LookupByTokenAndAccount_def [of C s token accountID, unfolded Let_def trim get identity_id_trim_args]
  show ?thesis
  proof (cases "accountID = []")
    case True
    show ?thesis unfolding look using tok True by (cases "map_get (byID s) (IdentityID C token)") (simp_all add: get)
  next
    case False
    show ?thesis
    proof (cases "map_get (byID s) (IdentityIDForAccount C token accountID)")
      case (Some q)
      show ?thesis unfolding look using tok False Some by (simp add: get)
    next
      case None
      have "\<not> idAccountScoped p" if "LookupByTokenAndAccount C s token accountID = Some p" for p
        using that tok False None unfolding look by (simp add: get split: option.splits if_splits)
      then have "LookupByTokenAndAccount C s token accountID = None" using direct False by (metis option.exhaust)
      with None False show ?thesis by simp
    qed
  qed
qed

lemma commit_cases_server:
  assumes "commitInspectedTokenLocked sv ctx token account inspected skip w = (r, w')"
  defines "a \<equiv> TrimSpace account" and "C \<equiv> svCrypto sv"
  defines "previous \<equiv> LookupByTokenAndAccount C (stored w) token a" and "cred \<equiv> scoped_credential a inspected"
  shows "skip \<and> previous \<noteq> None \<and> w' = w \<and> (\<exists>res. r = Inr res \<and> irDuplicate res) \<or>
    \<not> (skip \<and> previous \<noteq> None) \<and> (\<exists>x w1. store_import sv token (storeMetadata cred (a \<noteq> [])) w = (x, w1) \<and>
      ((\<exists>e. x = Inl e) \<and> r = Inl store_failed \<and> w' = w1 \<or>
       (\<exists>public key. x = Inr (public, key) \<and>
         ((\<exists>res. r = Inr res \<and> res = \<lparr>irPublicIdentity = public, irCredential = cred, irClientKey = key, irDuplicate = False\<rparr>) \<and>
            (svChannels sv = None \<and> w' = w1 \<or>
             (\<exists>m api. svChannels sv = Some (m, api) \<and> on_cpa (UpsertIdentity C m api ctx (cpaCredential (pubID public) key token cred)) w1 = (Inr (), w'))) \<or>
          (\<exists>m api err w2. svChannels sv = Some (m, api) \<and> r = Inl (cpaSynchronizationImportError err) \<and>
             on_cpa (UpsertIdentity C m api ctx (cpaCredential (pubID public) key token cred)) w1 = (Inl err, w2) \<and>
             w' = undo_import sv previous (pubID public) w2)))))"
proof -
  note u = assms(1) [unfolded commitInspectedTokenLocked_def Let_def, folded a_def C_def, folded cred_def previous_def]
  obtain x w1 where x: "store_import sv token (storeMetadata cred (a \<noteq> [])) w = (x, w1)" by fastforce
  consider (dup) "skip \<and> previous \<noteq> None" | (failed) e where "\<not> (skip \<and> previous \<noteq> None)" "x = Inl e"
    | (stored) public key where "\<not> (skip \<and> previous \<noteq> None)" "x = Inr (public, key)"
    by (metis surj_pair obj_sumE)
  then show ?thesis
  proof cases
    case dup
    then have "r = Inr \<lparr>irPublicIdentity = publicIdentityFromStored (the previous), irCredential = cred, irClientKey = [], irDuplicate = True\<rparr>"
      "w' = w" using u by simp_all
    then show ?thesis using dup by simp
  next
    case failed
    show ?thesis using u unfolding if_not_P [OF failed(1)] x failed(2) using failed by simp
  next
    case stored
    note v = u [unfolded if_not_P [OF stored(1)] x stored(2) prod.case sum.case]
    show ?thesis
    proof (cases "svChannels sv")
      case None
      then show ?thesis using v x stored by simp
    next
      case (Some ch)
      obtain m api where ch: "ch = (m, api)" by fastforce
      obtain y w2 where y: "on_cpa (UpsertIdentity C m api ctx (cpaCredential (pubID public) key token cred)) w1 = (y, w2)" by fastforce
      show ?thesis using v x stored Some ch y by (cases y) simp_all
    qed
  qed
qed

lemma refused_import:
  assumes ok: "crypto_ok (svCrypto sv)" "store_ok (svCrypto sv) (stored w)" and tok: "TrimSpace token \<noteq> []"
    and fresh: "fresh_key (svCrypto sv) (stored w) (keyRandom (svRandom sv (wTick w)))"
    and c: "commitInspectedTokenLocked sv ctx token account (Some cred) skip w = (Inl err, w')"
    and previous: "\<forall>p. LookupByTokenAndAccount (svCrypto sv) (stored w) token (TrimSpace account) = Some p \<longrightarrow>
      (TrimSpace account = [] \<or> idAccountScoped p) \<and> can_restore sv (wTick w + 1) (stored w) p"
  shows "same_identities (stored w) (stored w')"
proof -
  let ?a = "TrimSpace account" and ?C = "svCrypto sv" and ?s = "stored w"
  let ?md = "storeMetadata (scoped_credential ?a (Some cred)) (?a \<noteq> [])"
  let ?id = "if ?a = [] then IdentityID ?C token else IdentityIDForAccount ?C token ?a"
  have look: "map_get (byID ?s) ?id = LookupByTokenAndAccount ?C ?s token ?a"
    by (rule previous_is_new [OF ok(1) tok refl]) (use previous in blast)
  from commit_cases_server [OF c] obtain x w1 where x: "store_import sv token ?md w = (x, w1)"
    and out: "(\<exists>e. x = Inl e) \<and> w' = w1 \<or> (\<exists>public key m api e w2. x = Inr (public, key) \<and>
       on_cpa (UpsertIdentity ?C m api ctx (cpaCredential (pubID public) key token (scoped_credential ?a (Some cred)))) w1 = (Inl e, w2) \<and>
       w' = undo_import sv (LookupByTokenAndAccount ?C ?s token ?a) (pubID public) w2)"
    by blast
  from store_import_cases [OF x] show ?thesis
  proof (elim disjE exE, goal_cases)
    case 1
    then show ?thesis using out by auto
  next
    case (2 key)
    define i where "i = newIdentity ?C (stCipher ?s) (TrimSpace token) key ?md (svNow sv (wTick w))"
    from 2 have k: "randomClientKey (keyRandom (svRandom sv (wTick w))) = Some key" "x = Inr (publicIdentity i, key)"
      "stored w1 = publish i (stDir ?s, identityFileName (idID i)) ?s" "validIdentity ?C i" unfolding Let_def i_def by blast+
    obtain m api e w2 where w2: "on_cpa (UpsertIdentity ?C m api ctx (cpaCredential (idID i) key token (scoped_credential ?a (Some cred)))) w1 = (Inl e, w2)"
        "w' = undo_import sv (LookupByTokenAndAccount ?C ?s token ?a) (idID i) w2"
      using out k(2) by (auto simp: publicIdentity_def)
    have st: "stored w2 = publish i (stDir ?s, identityFileName (idID i)) ?s" "wTick w2 = wTick w + 1"
      using w2(1) k(3) x by (auto simp: on_cpa_def store_import_def Let_def split: prod.splits)
    have i: "idID i = ?id" unfolding i_def by (rule new_id) simp
    have free: "map_get (byKeyHash ?s) (idClientKeyHash i) = None" using fresh k(1) by (simp add: fresh_key_def i_def)
    show ?thesis
    proof (cases "LookupByTokenAndAccount ?C ?s token ?a")
      case None
      obtain r3 w3 where d: "store_delete sv (idID i) w2 = (r3, w3)" by fastforce
      have "TrimSpace (idID i) = idID i" using valid_id_trim [OF ok(1) k(4)] .
      then have "stored w3 = drop_identity (idID i) i (stored w2)" using undo_delete [OF d, of i] st by simp
      then show ?thesis using drop_publish [of ?s i] look i None free w2(2) d st by (simp add: undo_import_def)
    next
      case (Some p)
      obtain r3 w3 where d: "store_restore sv p w2 = (r3, w3)" by fastforce
      have p: "map_get (byID ?s) (idID i) = Some p" using look i Some by simp
      then have "validIdentity ?C p" using store_okD(2) [OF ok(2)] by blast
      moreover have "can_restore sv (wTick w2) (stored w2) p" using previous Some st by (simp add: can_restore_def)
      ultimately have "stored w3 = publish p (stDir (stored w2), identityFileName (idID p)) (stored w2)" using undo_restore [OF d] by blast
      then show ?thesis using publish_publish [OF ok(2) p free] w2(2) d st Some by (simp add: undo_import_def)
    qed
  qed
qed

section \<open>The store invariant\<close>

lemma store_import_ok:
  assumes "store_ok (svCrypto sv) (stored w)" "fresh_key (svCrypto sv) (stored w) (keyRandom (svRandom sv (wTick w)))" "store_import sv token md w = (r, w')"
  shows "store_ok (svCrypto sv) (stored w')"
  using Import_ok [of "svCrypto sv" "stored w" "svRandom sv (wTick w)" "svOS sv (wTick w)" token md "svNow sv (wTick w)" "snd (wStore w)"] assms
  by (auto simp: store_import_def Let_def split: prod.splits)

lemma store_delete_ok:
  assumes "store_ok (svCrypto sv) (stored w)" "store_delete sv k w = (r, w')"
  shows "store_ok (svCrypto sv) (stored w')"
  using Delete_ok [of "svCrypto sv" "stored w" "svOS sv (wTick w)" k "snd (wStore w)"] assms
  by (auto simp: store_delete_def split: prod.splits)

lemma store_restore_ok:
  assumes "store_ok (svCrypto sv) (stored w)" "key_unused (stored w) p" "store_restore sv p w = (r, w')"
  shows "store_ok (svCrypto sv) (stored w')"
  using Restore_ok [of "svCrypto sv" "stored w" p "svOS sv (wTick w)" "nonceRandom (svRandom sv (wTick w))" "snd (wStore w)"] assms
  by (auto simp: store_restore_def Let_def split: prod.splits)

lemma publish_key_unused:
  assumes "store_ok C s" "map_get (byID s) (idID p) = Some p" "map_get (byKeyHash s) (idClientKeyHash i) = None"
  shows "key_unused (publish i path s) p"
proof -
  have "map_get (byKeyHash s) (idClientKeyHash p) = Some p" using store_okD(3) [OF assms(1,2)] .
  then show ?thesis using assms(3) by (auto simp: key_unused_def publish_keys split: option.splits if_splits)
qed

lemma lookup_by_token_stored:
  assumes "store_ok C s" "LookupByTokenAndAccount C s token a = Some p"
  shows "map_get (byID s) (idID p) = Some p"
proof -
  have "\<exists>k. GetByID s k = Some p"
    using assms(2) by (auto simp: LookupByTokenAndAccount_def Let_def split: option.splits if_splits)
  then show ?thesis using store_okD(1) [OF assms(1)] by (auto simp: GetByID_def)
qed

lemma import_keeps_store_ok:
  assumes ok: "store_ok (svCrypto sv) (stored w)" and fresh: "fresh_key (svCrypto sv) (stored w) (keyRandom (svRandom sv (wTick w)))"
    and c: "commitInspectedTokenLocked sv ctx token account inspected skip w = (r, w')"
  shows "store_ok (svCrypto sv) (stored w')"
proof -
  let ?a = "TrimSpace account" and ?C = "svCrypto sv"
  let ?md = "storeMetadata (scoped_credential ?a inspected) (?a \<noteq> [])"
  obtain x w1 where x: "store_import sv token ?md w = (x, w1)" by fastforce
  note ok1 = store_import_ok [OF ok fresh x]
  from commit_cases_server [OF c] x consider "w' = w" | "w' = w1"
    | f u where "on_cpa f w1 = (u :: cpa_error + unit, w')"
    | public key f u w2 where "x = Inr (public, key)" "on_cpa f w1 = (u :: cpa_error + unit, w2)"
        "w' = undo_import sv (LookupByTokenAndAccount ?C (stored w) token ?a) (pubID public) w2"
    by (elim disjE conjE exE) auto
  then show ?thesis
  proof cases
    case 4
    have w2: "stored w2 = stored w1" using on_cpa_frame [OF 4(2)] by simp
    show ?thesis
    proof (cases "LookupByTokenAndAccount ?C (stored w) token ?a")
      case None
      then show ?thesis using 4(3) ok1 w2 store_delete_ok [OF _ surjective_pairing, of sv w2 "pubID public"] by (simp add: undo_import_def)
    next
      case (Some p)
      from store_import_cases [OF x] 4(1) fresh obtain i path where i: "stored w1 = publish i path (stored w)"
          "map_get (byKeyHash (stored w)) (idClientKeyHash i) = None"
        by (auto simp: Let_def fresh_key_def)
      have "key_unused (stored w2) p" unfolding w2 i(1)
        by (rule publish_key_unused [OF ok lookup_by_token_stored [OF ok Some] i(2)])
      then show ?thesis using 4(3) ok1 w2 store_restore_ok [OF _ _ surjective_pairing, of sv w2 p] Some by (simp add: undo_import_def)
    qed
  qed (use ok ok1 in \<open>auto dest: on_cpa_frame\<close>)
qed

section \<open>Properties\<close>

text \<open>
  C20: a refused import changes nothing that a caller can see.  When CPA rejects the credential after it was stored, the
  rollback leaves the store with the same identities and the same client keys as before the request: a new identity
  is deleted, and an identity that was imported before gets its old client key back (here on a disk that works during the
  rollback).  Nothing is claimed for an account import that found an identity without an account.
\<close>

theorem refused_import_is_undone:
  assumes ok: "crypto_ok (svCrypto sv)" "store_ok (svCrypto sv) (stored w)" and tok: "TrimSpace token \<noteq> []"
    and fresh: "fresh_key (svCrypto sv) (stored w) (keyRandom (svRandom sv (wTick w)))"
    and c: "commitInspectedTokenLocked sv ctx token account (Some cred) skip w = (Inl err, w')"
    and previous: "\<forall>p. LookupByTokenAndAccount (svCrypto sv) (stored w) token (TrimSpace account) = Some p \<longrightarrow>
      (TrimSpace account = [] \<or> idAccountScoped p) \<and> can_restore sv (wTick w + 1) (stored w) p"
  shows "same_identities (stored w) (stored w')"
  by (rule refused_import [OF assms])

text \<open>
  A refused account import of a legacy identity is not undone.  When the lookup found an identity that was imported without
  account, the rollback restores that identity, which was never touched, and leaves the new account-scoped identity and
  its client key in the store, although the import was answered with an error.
\<close>

theorem legacy_rollback_leaves_identity:
  assumes ok: "crypto_ok (svCrypto sv)" "store_ok (svCrypto sv) (stored w)" and tok: "TrimSpace token \<noteq> []" "TrimSpace account \<noteq> []"
    and fresh: "fresh_key (svCrypto sv) (stored w) (keyRandom (svRandom sv (wTick w)))"
    and c: "commitInspectedTokenLocked sv ctx token account (Some cred) False w = (Inl err, w')" "err \<noteq> store_failed"
    and legacy: "LookupByTokenAndAccount (svCrypto sv) (stored w) token (TrimSpace account) = Some p"
      "idID p \<noteq> IdentityIDForAccount (svCrypto sv) token (TrimSpace account)"
  shows "\<exists>i. map_get (byID (stored w')) (IdentityIDForAccount (svCrypto sv) token (TrimSpace account)) = Some i \<and>
    map_get (byKeyHash (stored w')) (idClientKeyHash i) = Some i"
proof -
  let ?a = "TrimSpace account" and ?C = "svCrypto sv" and ?s = "stored w"
  let ?md = "storeMetadata (scoped_credential ?a (Some cred)) (?a \<noteq> [])"
  from commit_cases_server [OF c(1)] c(2) obtain x w1 public key m api e w2 where x: "store_import sv token ?md w = (x, w1)" "x = Inr (public, key)"
    and w2: "on_cpa (UpsertIdentity ?C m api ctx (cpaCredential (pubID public) key token (scoped_credential ?a (Some cred)))) w1 = (Inl e, w2)"
      "w' = snd (store_restore sv p w2)"
    using legacy(1) by (auto simp: undo_import_def)
  define i where "i = newIdentity ?C (stCipher ?s) (TrimSpace token) key ?md (svNow sv (wTick w))"
  have k: "randomClientKey (keyRandom (svRandom sv (wTick w))) = Some key" "\<exists>q. stored w1 = publish i q ?s"
    using store_import_cases [OF x(1)] x(2) unfolding Let_def i_def by auto
  have i: "idID i = IdentityIDForAccount ?C token ?a"
    using new_id [of ?a account, OF refl, of ?C "stCipher ?s" token key cred "svNow sv (wTick w)"] tok(2) by (simp add: i_def)
  have p: "map_get (byID ?s) (idID p) = Some p" "map_get (byKeyHash ?s) (idClientKeyHash p) = Some p"
    using lookup_by_token_stored [OF ok(2) legacy(1)] store_okD(3) [OF ok(2)] by blast+
  have free: "map_get (byKeyHash ?s) (idClientKeyHash i) = None" using fresh k(1) by (simp add: fresh_key_def i_def)
  have st: "stored w2 = stored w1" using on_cpa_frame [OF w2(1)] by simp
  obtain r w3 where rs: "store_restore sv p w2 = (r, w3)" by fastforce
  have "stored w3 = stored w2 \<or> (\<exists>v q. stored w3 = publish (p\<lparr>idVersion := v\<rparr>) q (stored w2))"
  proof -
    obtain s d where sd: "wStore w2 = (s, d)" by fastforce
    define j where "j = (if stCipher s \<noteq> None then p\<lparr>idVersion := identityVersionEncrypted\<rparr> else p)"
    have j: "\<exists>v. j = p\<lparr>idVersion := v\<rparr>" by (rule exI [of _ "idVersion j"]) (simp add: j_def)
    obtain y s' d' where y: "commitIdentity ?C (svOS sv (wTick w2)) (nonceRandom (svRandom sv (wTick w2))) j (s, d) = (y, s', d')" by (metis prod_cases3)
    have "stored w3 = s \<or> stored w3 = s'"
      using rs sd y by (auto simp: store_restore_def Restore_def Let_def j_def split: if_splits)
    with commit_cases [OF y] j sd show ?thesis by (metis fst_conv)
  qed
  then show ?thesis
  proof (elim disjE exE)
    assume "stored w3 = stored w2"
    then show ?thesis using k(2) st i rs w2(2) by (auto simp: publish_keys)
  next
    fix v q assume w3: "stored w3 = publish (p\<lparr>idVersion := v\<rparr>) q (stored w2)"
    have "idClientKeyHash i \<noteq> idClientKeyHash p" using free p(2) by auto
    then show ?thesis using k(2) st i rs w2(2) w3 legacy(2) p(1) by (auto simp: publish_keys)
  qed
qed

end
