(* ===== verification/Batch_Properties.thy ===== *)
theory Batch_Properties
  imports Batch_Import Import_Properties "HOL-Library.Multiset"
begin

text \<open>
  Properties of the batch import: a batch that is previewed, aborted or rolled back leaves the store as it
  was, Whatever the order in which the workers validate; an imported item is in the store; the summary
  accounts for every item.
\<close>

section \<open>Stores that extend a store\<close>

fun extends :: "Store \<Rightarrow> Identity list \<Rightarrow> Store \<Rightarrow> bool" where
  "extends s0 [] s = same_identities s0 s"
| "extends s0 (i # is) s =
     (\<exists>s1 p. extends s0 is s1 \<and> map_get (byID s1) (idID i) = None \<and> map_get (byKeyHash s1) (idClientKeyHash i) = None \<and>
        same_identities (publish i p s1) s)"

lemma extends_same: "extends s0 is s \<Longrightarrow> same_identities s t \<Longrightarrow> extends s0 is t"
  by (cases "is") (auto intro: same_trans)

lemma extends_new:
  "extends s0 is s \<Longrightarrow> map_get (byID s) (idID i) = None \<Longrightarrow> map_get (byKeyHash s) (idClientKeyHash i) = None \<Longrightarrow>
   extends s0 (i # is) (publish i p s)"
  using same_refl by (simp only: extends.simps) blast

lemma extends_top: "extends s0 (i # is) s \<Longrightarrow> map_get (byID s) (idID i) = Some i"
  by (auto simp: same_identities_def)

lemma extends_drop:
  assumes "extends s0 (i # is) s"
  shows "extends s0 is (drop_identity (idID i) i s)"
proof -
  obtain s1 p where s1: "extends s0 is s1" "map_get (byID s1) (idID i) = None" "map_get (byKeyHash s1) (idClientKeyHash i) = None"
      "same_identities (publish i p s1) s" using assms by auto
  have "same_identities (drop_identity (idID i) i (publish i p s1)) (drop_identity (idID i) i s)"
    using s1(4) by (simp add: same_identities_def drop_identity_def)
  with drop_publish [OF s1(2,3)] s1(1) show ?thesis by (blast intro: extends_same same_trans)
qed

lemma extends_has: "extends s0 is s \<Longrightarrow> distinct (map idID is) \<Longrightarrow> i \<in> set is \<Longrightarrow> map_get (byID s) (idID i) = Some i"
proof (induction "is" arbitrary: s)
  case (Cons j js)
  then obtain s1 p where s1: "extends s0 js s1" "same_identities (publish j p s1) s" by auto
  then show ?case using Cons by (cases "i = j") (auto simp: same_identities_def image_iff)
qed simp

section \<open>Fresh keys\<close>

text \<open>The client keys drawn from now on and before the tick \<open>h\<close> are not in the store and differ from each other.\<close>

definition fresh_keys :: "('u, 'w) Server \<Rightarrow> nat \<Rightarrow> ('u, 'w) world \<Rightarrow> bool" where
  "fresh_keys sv h w \<longleftrightarrow>
     (\<forall>t. wTick w \<le> t \<and> t < h \<longrightarrow> fresh_key (svCrypto sv) (stored w) (keyRandom (svRandom sv t))) \<and>
     (\<forall>t u k l. wTick w \<le> t \<and> t < u \<and> u < h \<and> randomClientKey (keyRandom (svRandom sv t)) = Some k \<and>
        randomClientKey (keyRandom (svRandom sv u)) = Some l \<longrightarrow> hexSum256 (svCrypto sv) k \<noteq> hexSum256 (svCrypto sv) l)"

lemma fresh_keysD: "fresh_keys sv h w \<Longrightarrow> wTick w < h \<Longrightarrow> fresh_key (svCrypto sv) (stored w) (keyRandom (svRandom sv (wTick w)))"
  by (simp add: fresh_keys_def)

lemma fresh_keys_shrink:
  assumes "fresh_keys sv h w" "wTick w \<le> wTick w'" "\<And>h. map_get (byKeyHash (stored w)) h = None \<Longrightarrow> map_get (byKeyHash (stored w')) h = None"
  shows "fresh_keys sv h w'"
  using assms unfolding fresh_keys_def fresh_key_def by (meson order_trans)

lemma fresh_keys_same: "fresh_keys sv h w \<Longrightarrow> wTick w \<le> wTick w' \<Longrightarrow> same_identities (stored w) (stored w') \<Longrightarrow> fresh_keys sv h w'"
  by (rule fresh_keys_shrink) (auto simp: same_identities_def)

lemma fresh_keys_publish:
  assumes "fresh_keys sv h w" "stored w' = publish i p (stored w)" "wTick w < wTick w'"
    and "randomClientKey (keyRandom (svRandom sv (wTick w))) = Some key" "idClientKeyHash i = hexSum256 (svCrypto sv) key"
  shows "fresh_keys sv h w'"
proof -
  have "map_get (byKeyHash (stored w')) (hexSum256 (svCrypto sv) k) = None"
    if "wTick w' \<le> t \<and> t < h" "randomClientKey (keyRandom (svRandom sv t)) = Some k" for t k
  proof -
    have t: "wTick w < t" "wTick w \<le> t \<and> t < h" using assms(3) that(1) by simp_all
    have "hexSum256 (svCrypto sv) key \<noteq> hexSum256 (svCrypto sv) k"
      using assms(1) [unfolded fresh_keys_def, THEN conjunct2, rule_format, of "wTick w" t key k] t assms(4) that(2) by simp
    moreover have "map_get (byKeyHash (stored w)) (hexSum256 (svCrypto sv) k) = None"
      using assms(1) [unfolded fresh_keys_def, THEN conjunct1, rule_format, OF t(2)] that(2) by (simp add: fresh_key_def)
    ultimately show ?thesis by (simp add: assms(2,5) publish_keys split: option.splits)
  qed
  moreover have "wTick w \<le> t" if "wTick w' \<le> t" for t using that assms(3) by simp
  ultimately show ?thesis
    using assms(1) [unfolded fresh_keys_def, THEN conjunct2] unfolding fresh_keys_def fresh_key_def by blast
qed

section \<open>Ticks\<close>

lemma store_ticks:
  "store_import sv t md w = (ri, w') \<Longrightarrow> wTick w' = wTick w + 1"
  "store_restore sv i w = (rr, w') \<Longrightarrow> wTick w' = wTick w + 1"
  "store_delete sv k w = (rd, w') \<Longrightarrow> wTick w' = wTick w + 1"
  "on_cpa f w = (rc, w') \<Longrightarrow> wTick w' = wTick w"
  by (auto simp: store_import_def store_restore_def store_delete_def on_cpa_def Let_def split: prod.splits)

lemma undo_tick: "wTick (undo_import sv p k w) = wTick w + 1"
  by (auto simp: undo_import_def store_restore_def store_delete_def Let_def split: prod.splits option.splits)

lemma import_tick: "commitInspectedTokenLocked sv ctx token account inspected skip w = (r, w') \<Longrightarrow> wTick w \<le> wTick w'"
  using commit_cases_server [of sv ctx token account inspected skip w r w'] by (auto dest!: store_ticks(1,4) simp: undo_tick)

lemma rollback_tick: "rollbackBatchImports sv ctx is (items, w) = (okk, items', w') \<Longrightarrow> wTick w \<le> wTick w'"
proof (induction "is" arbitrary: items w okk)
  case (Cons i js)
  obtain x w1 where x: "(case svChannels sv of None \<Rightarrow> (Inr (), w)
      | Some (m, api) \<Rightarrow> on_cpa (RemoveIdentity (svCrypto sv) m api ctx (biIdentityID (items ! i))) w) = (x, w1)" by fastforce
  have w1: "wTick w1 = wTick w" using x by (auto split: option.splits dest: store_ticks(4))
  obtain y w2 where y: "store_delete sv (biIdentityID (items ! i)) w1 = (y, w2)" by fastforce
  show ?case
    using Cons.prems w1 store_ticks(3) [OF y] unfolding rollbackBatchImports.simps Let_def x
    by (auto simp: y split: sum.splits prod.splits dest!: Cons.IH)
qed simp

lemma commit_tick: "commit_batch sv ctx atomic cs ins is imported items w = (t, items', w') \<Longrightarrow> wTick w \<le> wTick w'"
proof (induction "is" arbitrary: atomic imported items w)
  case (Cons i js)
  obtain r w1 where c: "commitInspectedTokenLocked sv ctx (icToken (cs ! i)) (icAccountID (cs ! i)) (ins ! i) True w = (r, w1)" by fastforce
  from Cons.prems import_tick [OF c] show ?case
    by (auto simp: c Let_def split: if_splits sum.splits prod.splits dest!: Cons.IH rollback_tick)
qed simp

section \<open>One item\<close>

text \<open>The identity of a candidate, and what a commit that skips existing identities does to the store.\<close>

definition adds :: "crypto \<Rightarrow> string \<Rightarrow> string \<Rightarrow> Store \<Rightarrow> Identity \<Rightarrow> Store \<Rightarrow> bool" where
  "adds C token account s i s' \<longleftrightarrow> idID i = IdentityIDForAccount C token account \<and> idToken i = TrimSpace token \<and>
     map_get (byID s) (idID i) = None \<and> map_get (byKeyHash s) (idClientKeyHash i) = None \<and> (\<exists>p. s' = publish i p s)"

lemma candidate_id:
  "(if TrimSpace account = [] then IdentityID C token else IdentityIDForAccount C token (TrimSpace account)) = IdentityIDForAccount C token account"
  using identity_id_trim_args(3) [of C token account] by (cases "TrimSpace account = []") simp_all

lemma skip_previous:
  assumes "crypto_ok C" "TrimSpace token \<noteq> []" "LookupByTokenAndAccount C s token (TrimSpace account) = None"
  shows "map_get (byID s) (IdentityIDForAccount C token account) = None"
  using previous_is_new [OF assms(1,2) refl, of s account, unfolded candidate_id] assms(3) by simp

lemma commit_item:
  assumes ok: "crypto_ok (svCrypto sv)" "store_ok (svCrypto sv) (stored w)" "fresh_keys sv h w" and tok: "TrimSpace token \<noteq> []"
    and c: "commitInspectedTokenLocked sv ctx token account (Some cred) True w = (r, w')" and h: "wTick w' \<le> h"
  shows "store_ok (svCrypto sv) (stored w') \<and> fresh_keys sv h w' \<and>
    (case r of Inl _ \<Rightarrow> same_identities (stored w) (stored w')
     | Inr res \<Rightarrow> if irDuplicate res then w' = w else \<exists>i. adds (svCrypto sv) token account (stored w) i (stored w'))"
proof -
  let ?a = "TrimSpace account" and ?C = "svCrypto sv" and ?s = "stored w"
  let ?md = "storeMetadata (scoped_credential ?a (Some cred)) (?a \<noteq> [])"
  consider (dup) res where "r = Inr res" "irDuplicate res" "w' = w"
    | (new) "LookupByTokenAndAccount ?C ?s token ?a = None" using commit_cases_server [OF c] by fastforce
  then show ?thesis
  proof cases
    case dup
    then show ?thesis using ok by simp
  next
    case new
    obtain x w1 where x: "store_import sv token ?md w = (x, w1)" by fastforce
    note free = skip_previous [OF ok(1) tok new]
    have late: "wTick w < wTick w'"
      using commit_cases_server [OF c] x new store_ticks(1) [OF x] by (auto dest: store_ticks(4) simp: undo_tick)
    have now: "wTick w < h" using late h by simp
    note keep = import_keeps_store_ok [OF ok(2) fresh_keysD [OF ok(3) now] c]
    show ?thesis
    proof (cases r)
      case (Inl err)
      have "same_identities ?s (stored w')"
        by (rule refused_import [OF ok(1,2) tok fresh_keysD [OF ok(3) now] c [unfolded Inl]]) (use new in simp)
      then show ?thesis using keep Inl fresh_keys_same [OF ok(3)] late by simp
    next
      case (Inr res)
      with commit_cases_server [OF c] new x have res: "\<not> irDuplicate res" "stored w' = stored w1" "\<exists>y. x = Inr y"
        by (auto dest: on_cpa_frame)
      obtain key where k: "randomClientKey (keyRandom (svRandom sv (wTick w))) = Some key"
          "stored w1 = publish (newIdentity ?C (stCipher ?s) (TrimSpace token) key ?md (svNow sv (wTick w)))
             (stDir ?s, identityFileName (idID (newIdentity ?C (stCipher ?s) (TrimSpace token) key ?md (svNow sv (wTick w))))) ?s"
        using store_import_cases [OF x] res(3) unfolding Let_def by auto
      define i where "i = newIdentity ?C (stCipher ?s) (TrimSpace token) key ?md (svNow sv (wTick w))"
      have "idID i = IdentityIDForAccount ?C token account"
        using new_id [of ?a account, OF refl, of ?C "stCipher ?s" token key cred "svNow sv (wTick w)", unfolded candidate_id]
        by (simp only: i_def)
      moreover have "map_get (byKeyHash ?s) (idClientKeyHash i) = None"
        using fresh_keysD [OF ok(3) now] k(1) by (simp add: fresh_key_def i_def)
      ultimately have "adds ?C token account ?s i (stored w')"
        using free k(2) res(2) by (auto simp: adds_def i_def)
      moreover have "stored w' = publish i (stDir ?s, identityFileName (idID i)) ?s" unfolding res(2) k(2) i_def by (rule refl)
      then have "fresh_keys sv h w'" by (rule fresh_keys_publish [OF ok(3) _ late k(1)]) (simp add: i_def)
      ultimately show ?thesis using keep Inr res(1) by auto
    qed
  qed
qed

section \<open>Rollback\<close>

lemma mark_fields [simp]:
  "biIdentityID (mark a b c x) = biIdentityID x" "biStatus (mark a b c x) = a" "biIndex (mark a b c x) = biIndex x"
  by (simp_all add: mark_def)

lemma same_ids: "i < length items \<Longrightarrow> biIdentityID y = biIdentityID (items ! i) \<Longrightarrow> map biIdentityID (items[i := y]) = map biIdentityID items"
  by (rule nth_equalityI) (auto simp: nth_list_update)

lemma ids_at:
  assumes "map biIdentityID a = map biIdentityID b"
  shows "j < length b \<Longrightarrow> biIdentityID (a ! j) = biIdentityID (b ! j)" "length a = length b"
  using assms by (metis length_map nth_map, metis length_map)

lemma rollback_restores:
  assumes ok: "crypto_ok (svCrypto sv)"
  shows "rollbackBatchImports sv ctx is (items, w) = (True, items', w') \<Longrightarrow> extends s0 news (stored w) \<Longrightarrow>
    map (\<lambda>j. biIdentityID (items ! j)) is = map idID news \<Longrightarrow> \<forall>j \<in> set is. j < length items \<Longrightarrow>
    (\<forall>n \<in> set news. TrimSpace (idID n) = idID n) \<Longrightarrow> same_identities s0 (stored w')"
proof (induction "is" arbitrary: items w news)
  case (Cons i js)
  from Cons.prems(3) obtain n ns where news: "news = n # ns" "biIdentityID (items ! i) = idID n"
    "map (\<lambda>j. biIdentityID (items ! j)) js = map idID ns" by (cases news) auto
  let ?done = "items[i := (mark ''rolled_back'' ''rolled_back'' ''credential was rolled back because the atomic transaction failed'' (items ! i))\<lparr>biChannelSynced := False\<rparr>]"
  obtain x w1 where x: "(case svChannels sv of None \<Rightarrow> (Inr (), w)
      | Some (m, api) \<Rightarrow> on_cpa (RemoveIdentity (svCrypto sv) m api ctx (biIdentityID (items ! i))) w) = (x, w1)" by fastforce
  have w1: "stored w1 = stored w" using x by (auto split: option.splits dest: on_cpa_frame)
  obtain y w2 where y: "store_delete sv (biIdentityID (items ! i)) w1 = (y, w2)" by fastforce
  have "\<exists>u. x = Inr u" "\<exists>v. y = Inr v"
    using Cons.prems(1) unfolding rollbackBatchImports.simps Let_def x by (auto simp: y split: sum.splits prod.splits)
  then have roll: "rollbackBatchImports sv ctx js (?done, w2) = (True, items', w')"
    using Cons.prems(1) unfolding rollbackBatchImports.simps Let_def x by (auto simp: y)
  have "map_get (byID (stored w1)) (idID n) = Some n" using extends_top Cons.prems(2) news w1 by auto
  then have "stored w2 = drop_identity (idID n) n (stored w)"
    using undo_delete [OF y, of n] news Cons.prems(5) w1 by simp
  then have ext: "extends s0 ns (stored w2)" using extends_drop Cons.prems(2) news by simp
  have ids: "map biIdentityID ?done = map biIdentityID items" by (rule same_ids) (use Cons.prems(4) in simp_all)
  show ?case
  proof (rule Cons.IH [OF roll ext])
    show "map (\<lambda>j. biIdentityID (?done ! j)) js = map idID ns"
      using news(3) ids_at(1) [OF ids] Cons.prems(4) by (auto intro: map_cong simp: comp_def cong: map_cong simp del: list_update_beyond)
  qed (use Cons.prems(4,5) news in auto)
qed simp

section \<open>The commit loop\<close>

text \<open>What the loop relies on: the ready items carry the identity of their candidate and its inspection.\<close>

definition items_ready :: "crypto \<Rightarrow> importCandidate list \<Rightarrow> inspections \<Rightarrow> items \<Rightarrow> bool" where
  "items_ready C cs ins items \<longleftrightarrow> length items = length cs \<and> length ins = length cs \<and>
     (\<forall>j < length cs. TrimSpace (icToken (cs ! j)) \<noteq> [] \<and>
        (biStatus (items ! j) = ''ready'' \<longrightarrow>
           biIdentityID (items ! j) = IdentityIDForAccount C (icToken (cs ! j)) (icAccountID (cs ! j)) \<and> ins ! j \<noteq> None))"

lemma items_ready_update:
  assumes "items_ready C cs ins items" "biStatus y \<noteq> ''ready''"
  shows "items_ready C cs ins (items[i := y])"
  using assms by (cases "i < length items") (auto simp: items_ready_def nth_list_update)

text \<open>The turn of a ready item: it fails and the batch is rolled back, it is recorded without a change of the store, or it is imported.\<close>

lemma commit_turn:
  assumes ok: "crypto_ok (svCrypto sv)" and b: "commit_batch sv ctx atomic cs ins (i # js) imported items w = (t, items', w')"
    and inv: "store_ok (svCrypto sv) (stored w)" "fresh_keys sv (wTick w') w" "items_ready (svCrypto sv) cs ins items"
    and i: "i < length cs" "biStatus (items ! i) = ''ready''"
  obtains (rollback) w1 y okk items2 where "atomic" "biIdentityID y = biIdentityID (items ! i)" "same_identities (stored w) (stored w1)"
      "rollbackBatchImports sv ctx (rev imported) (items[i := y], w1) = (okk, items2, w')" "t = (if okk then ''rolled_back'' else ''rollback_failed'')"
    | (recorded) w1 y where "biStatus y = ''duplicate'' \<or> biStatus y = ''failed'' \<and> \<not> atomic" "biIdentityID y = biIdentityID (items ! i)"
      "same_identities (stored w) (stored w1)" "store_ok (svCrypto sv) (stored w1)" "fresh_keys sv (wTick w') w1" "items_ready (svCrypto sv) cs ins (items[i := y])"
      "commit_batch sv ctx atomic cs ins js imported (items[i := y]) w1 = (t, items', w')"
    | (added) w1 y n where "biStatus y = ''imported''" "biIdentityID y = biIdentityID (items ! i)" "biIdentityID (items ! i) = idID n"
      "adds (svCrypto sv) (icToken (cs ! i)) (icAccountID (cs ! i)) (stored w) n (stored w1)" "store_ok (svCrypto sv) (stored w1)" "fresh_keys sv (wTick w') w1"
      "items_ready (svCrypto sv) cs ins (items[i := y])" "commit_batch sv ctx atomic cs ins js (imported @ [i]) (items[i := y]) w1 = (t, items', w')"
proof -
  have r: "i < length items" "TrimSpace (icToken (cs ! i)) \<noteq> []" "biIdentityID (items ! i) = IdentityIDForAccount (svCrypto sv) (icToken (cs ! i)) (icAccountID (cs ! i))"
    using inv(3) i by (auto simp: items_ready_def)
  obtain cred where cred: "ins ! i = Some cred" using inv(3) i r(1) by (auto simp: items_ready_def)
  obtain x w1 where c: "commitInspectedTokenLocked sv ctx (icToken (cs ! i)) (icAccountID (cs ! i)) (ins ! i) True w = (x, w1)" by fastforce
  have h: "wTick w1 \<le> wTick w'"
    using b c i(2) by (auto simp: Let_def split: if_splits sum.splits prod.splits dest!: commit_tick rollback_tick)
  note f = commit_item [OF ok inv(1,2) r(2) c [unfolded cred] h]
  show thesis
  proof (cases x)
    case (Inl err)
    let ?y = "mark ''failed'' (meCode err) (meMessage err) (items ! i)"
    obtain okk items2 w2 where roll: "rollbackBatchImports sv ctx (rev imported) (items[i := ?y], w1) = (okk, items2, w2)" by (metis prod_cases3)
    show thesis
    proof (cases atomic)
      case True
      then show thesis using rollback [of ?y w1 okk items2] f b c Inl i(2) roll by simp
    next
      case False
      then show thesis using recorded [of ?y w1] f b c Inl i(2) items_ready_update [OF inv(3)] by simp
    qed
  next
    case (Inr res)
    show thesis
    proof (cases "irDuplicate res")
      case True
      then show thesis
        using recorded [of "mark ''duplicate'' ''already_imported'' ''credential is already imported'' (items ! i)" w1] f b c Inr i(2) inv items_ready_update [OF inv(3)]
        by (simp add: same_identities_def)
    next
      case False
      then obtain n where n: "adds (svCrypto sv) (icToken (cs ! i)) (icAccountID (cs ! i)) (stored w) n (stored w1)" using f Inr by auto
      then have "biIdentityID (items ! i) = idID n" using r(3) by (simp add: adds_def)
      with False n show thesis
        using added [of "(mark ''imported'' ''imported'' ''credential imported and synchronized'' (items ! i))\<lparr>biChannelSynced := svChannels sv \<noteq> None\<rparr>" n w1]
          f b c Inr i(2) items_ready_update [OF inv(3)] by simp
    qed
  qed
qed

lemma commit_rolled_back:
  assumes ok: "crypto_ok (svCrypto sv)"
  shows "commit_batch sv ctx atomic cs ins is imported items w = (''rolled_back'', items', w') \<Longrightarrow>
    store_ok (svCrypto sv) (stored w) \<Longrightarrow> fresh_keys sv (wTick w') w \<Longrightarrow> items_ready (svCrypto sv) cs ins items \<Longrightarrow>
    extends s0 news (stored w) \<Longrightarrow> map (\<lambda>j. biIdentityID (items ! j)) (rev imported) = map idID news \<Longrightarrow>
    \<forall>j \<in> set is \<union> set imported. j < length cs \<Longrightarrow> \<forall>n \<in> set news. TrimSpace (idID n) = idID n \<Longrightarrow>
    same_identities s0 (stored w')"
proof (induction "is" arbitrary: imported items w news)
  case (Cons i js)
  note prems = Cons.prems
  have i: "i < length cs" "i < length items" using prems(4,7) by (auto simp: items_ready_def)
  have stay: "map (\<lambda>j. biIdentityID (items[i := y] ! j)) (rev imported) = map idID news" if "biIdentityID y = biIdentityID (items ! i)" for y
    unfolding prems(6) [symmetric] using that i by (intro map_cong) (auto simp: nth_list_update)
  show ?case
  proof (cases "biStatus (items ! i) = ''ready''")
    case False
    then show ?thesis using Cons.IH [of imported items w news] prems by simp
  next
    case True
    show ?thesis
    proof (rule commit_turn [OF ok prems(1-4) i(1) True], goal_cases)
      case (1 w1 y okk items2)
      then have "extends s0 news (stored w1)" using extends_same prems(5) by fastforce
      with 1 show ?case
        using rollback_restores [OF ok, of ctx "rev imported" "items[i := y]" w1 items2 w' s0 news] stay prems(4,7,8)
        by (auto simp: items_ready_def split: if_splits)
    next
      case (2 w1 y)
      then have "extends s0 news (stored w1)" using extends_same prems(5) by fastforce
      with 2 show ?case using Cons.IH [OF 2(7,4,5,6), of news] stay prems(7,8) by simp
    next
      case (3 w1 y n)
      have "extends s0 (n # news) (stored w1)" using 3(4) extends_new [OF prems(5)] by (auto simp: adds_def simp del: extends.simps)
      moreover have "map (\<lambda>j. biIdentityID (items[i := y] ! j)) (rev (imported @ [i])) = map idID (n # news)" using stay 3(2,3) i by simp
      moreover have "TrimSpace (idID n) = idID n" using 3(4) ok by (simp add: adds_def)
      ultimately show ?case using Cons.IH [OF 3(8,5,6,7), of "n # news"] prems(7,8) by simp
    qed
  qed
qed simp

text \<open>In a committed batch the imported items are in the store, and in atomic mode every ready item got its turn.\<close>

definition imported_stored :: "importCandidate list \<Rightarrow> items \<Rightarrow> Store \<Rightarrow> bool" where
  "imported_stored cs items s \<longleftrightarrow>
     (\<forall>j < length items. biStatus (items ! j) = ''imported'' \<longrightarrow>
        (\<exists>i. map_get (byID s) (biIdentityID (items ! j)) = Some i \<and> idToken i = TrimSpace (icToken (cs ! j))))"

lemma imported_same: "imported_stored cs items s \<Longrightarrow> same_identities s t \<Longrightarrow> imported_stored cs items t"
  by (simp add: imported_stored_def same_identities_def)

lemma imported_other:
  assumes "imported_stored cs items s" "biStatus y \<noteq> ''imported''"
  shows "imported_stored cs (items[i := y]) s"
  using assms unfolding imported_stored_def by (metis length_list_update nth_list_update_eq nth_list_update_neq)

lemma imported_adds:
  assumes "imported_stored cs items s" "adds C (icToken (cs ! i)) (icAccountID (cs ! i)) s n s'" "biIdentityID y = idID n"
  shows "imported_stored cs (items[i := y]) s'"
  unfolding imported_stored_def
proof (intro allI impI)
  fix j assume j: "j < length (items[i := y])" "biStatus (items[i := y] ! j) = ''imported''"
  show "\<exists>k. map_get (byID s') (biIdentityID (items[i := y] ! j)) = Some k \<and> idToken k = TrimSpace (icToken (cs ! j))"
  proof (cases "j = i")
    case True
    then show ?thesis using assms(2,3) j by (auto simp: adds_def)
  next
    case False
    then obtain k where "map_get (byID s) (biIdentityID (items ! j)) = Some k" "idToken k = TrimSpace (icToken (cs ! j))"
      using assms(1) j by (auto simp: imported_stored_def)
    then show ?thesis using assms(2) False by (auto simp: adds_def)
  qed
qed

lemma commit_committed:
  assumes ok: "crypto_ok (svCrypto sv)"
  shows "commit_batch sv ctx atomic cs ins is imported items w = (''committed'', items', w') \<Longrightarrow>
    store_ok (svCrypto sv) (stored w) \<Longrightarrow> fresh_keys sv (wTick w') w \<Longrightarrow> items_ready (svCrypto sv) cs ins items \<Longrightarrow>
    \<forall>j \<in> set is. j < length cs \<Longrightarrow> distinct is \<Longrightarrow> imported_stored cs items (stored w) \<Longrightarrow>
    imported_stored cs items' (stored w') \<and> length items' = length items \<and>
    (\<forall>j. j \<notin> set is \<or> biStatus (items ! j) \<noteq> ''ready'' \<longrightarrow> items' ! j = items ! j) \<and>
    (atomic \<longrightarrow> (\<forall>j \<in> set is. biStatus (items ! j) = ''ready'' \<longrightarrow> biStatus (items' ! j) \<in> {''imported'', ''duplicate''}))"
proof (induction "is" arbitrary: imported items w)
  case (Cons i js)
  note prems = Cons.prems
  have i: "i < length cs" "i < length items" "i \<notin> set js" using prems(4,5,6) by (auto simp: items_ready_def)
  show ?case
  proof (cases "biStatus (items ! i) = ''ready''")
    case False
    then show ?thesis using Cons.IH [of imported items w] prems by auto
  next
    case True
    have step: ?thesis if loop: "commit_batch sv ctx atomic cs ins js imp (items[i := y]) w1 = (''committed'', items', w')"
      "store_ok (svCrypto sv) (stored w1)" "fresh_keys sv (wTick w') w1" "items_ready (svCrypto sv) cs ins (items[i := y])"
      and y: "biStatus y \<noteq> ''ready''" "atomic \<longrightarrow> biStatus y \<in> {''imported'', ''duplicate''}" and im: "imported_stored cs (items[i := y]) (stored w1)" for imp y w1
    proof -
      have rec: "imported_stored cs items' (stored w') \<and> length items' = length (items[i := y]) \<and>
          (\<forall>j. j \<notin> set js \<or> biStatus (items[i := y] ! j) \<noteq> ''ready'' \<longrightarrow> items' ! j = items[i := y] ! j) \<and>
          (atomic \<longrightarrow> (\<forall>j \<in> set js. biStatus (items[i := y] ! j) = ''ready'' \<longrightarrow> biStatus (items' ! j) \<in> {''imported'', ''duplicate''}))"
        by (rule Cons.IH [OF loop]) (use prems im in auto)
      have other: "items[i := y] ! j = items ! j" if "j \<noteq> i" for j using that by simp
      have "items' ! i = y" using rec i by simp
      with rec other y True i show ?thesis by (auto, metis+)
    qed
    show ?thesis
    proof (rule commit_turn [OF ok prems(1-4) i(1) True], goal_cases)
      case (2 w1 y)
      have "imported_stored cs (items[i := y]) (stored w1)" by (rule imported_other [OF imported_same [OF prems(7) 2(3)]]) (use 2(1) in auto)
      with 2 show ?case by (intro step [OF 2(7,4,5,6)]) auto
    next
      case (3 w1 y n)
      then show ?case by (intro step [OF 3(8,5,6,7)] imported_adds [OF prems(7) 3(4)]) auto
    qed (auto split: if_splits)
  qed
qed simp

lemma commit_transaction:
  "commit_batch sv ctx atomic cs ins is imported items w = (t, items', w') \<Longrightarrow> t \<in> {''committed'', ''rolled_back'', ''rollback_failed''}"
proof (induction "is" arbitrary: imported items w)
  case (Cons i js)
  then show ?case by (simp add: Let_def split: if_splits sum.splits prod.splits)
qed simp

section \<open>Classification and validation\<close>

definition item_open :: "crypto \<Rightarrow> importCandidate \<Rightarrow> batchImportItemResult \<Rightarrow> bool" where
  "item_open C c x \<longleftrightarrow> biStatus x = ''duplicate'' \<or>
     biStatus x \<in> {''pending'', ''ready'', ''invalid'', ''upstream_unavailable''} \<and>
     biIdentityID x = IdentityIDForAccount C (icToken c) (icAccountID c)"

lemma classify_fresh: "list_all2 (\<lambda>c x. item_open C c x \<and> biStatus x \<in> {''pending'', ''duplicate''}) cs (classify C s seen cs)"
  by (induction C s seen cs rule: classify.induct)
    (auto simp: Let_def item_open_def new_item_def populateBatchStoredMetadata_def mark_def split: option.splits)

definition validating :: "('u, 'w) Server \<Rightarrow> importCandidate list \<Rightarrow> ('u, 'w) world \<Rightarrow> items \<times> inspections \<times> ('u, 'w) world \<Rightarrow> bool" where
  "validating sv cs w st \<longleftrightarrow> (case st of (items, ins, w') \<Rightarrow>
     length items = length cs \<and> length ins = length cs \<and> wStore w' = wStore w \<and> wCpa w' = wCpa w \<and> wTick w \<le> wTick w' \<and>
     (\<forall>j < length cs. item_open (svCrypto sv) (cs ! j) (items ! j) \<and> (biStatus (items ! j) = ''ready'' \<longrightarrow> ins ! j \<noteq> None)))"

lemma inspect_tick: "inspect sv p t a w = (r, w') \<Longrightarrow> wTick w' = wTick w + 2"
  by (auto simp: inspect_def Let_def split: prod.splits)

lemma validate_item_ok:
  assumes v: "validating sv cs w (items, ins, w1)" and i: "i < length cs" "biStatus (items ! i) = ''pending''"
    and st: "validate_item sv cs i (items, ins, w1) = (items', ins', w2)"
  shows "validating sv cs w (items', ins', w2) \<and> biStatus (items' ! i) \<noteq> ''pending'' \<and> (\<forall>j. j \<noteq> i \<longrightarrow> items' ! j = items ! j)"
proof -
  obtain r w' where r: "inspect sv [] (icToken (cs ! i)) (icAccountID (cs ! i)) w1 = (r, w')" by fastforce
  have l: "length items = length cs" "length ins = length cs" and o: "item_open (svCrypto sv) (cs ! i) (items ! i)"
    using v i by (auto simp: validating_def)
  have frame: "wStore w' = wStore w" "wCpa w' = wCpa w" "wTick w \<le> wTick w'"
    using inspect_frame [OF r] inspect_tick [OF r] v by (auto simp: validating_def)
  show ?thesis
  proof (cases r)
    case (Inl err)
    define y where "y = (if CredentialServiceUnavailable err
      then mark ''upstream_unavailable'' ''upstream_unavailable'' ''credential validation service is unavailable'' (items ! i)
      else mark ''invalid'' ''invalid'' ''invalid codex access token'' (items ! i))"
    have eq: "items' = items[i := y]" "ins' = ins" "w2 = w'" using st r Inl by (auto simp: validate_item_def y_def)
    have y: "item_open (svCrypto sv) (cs ! i) y" "biStatus y \<notin> {''ready'', ''pending''}" using o i(2) by (auto simp: y_def item_open_def)
    show ?thesis using v frame y l i(1) unfolding eq validating_def by (auto simp: nth_list_update)
  next
    case (Inr c)
    define y where "y = populateBatchCredentialMetadata c ((items ! i)\<lparr>biStatus := ''ready''\<rparr>)"
    have eq: "items' = items[i := y]" "ins' = ins[i := Some c]" "w2 = w'" using st r Inr by (auto simp: validate_item_def y_def)
    have y: "item_open (svCrypto sv) (cs ! i) y" "biStatus y = ''ready''"
      using o i(2) by (auto simp: y_def item_open_def populateBatchCredentialMetadata_def)
    show ?thesis using v frame y l i(1) unfolding eq validating_def by (auto simp: nth_list_update)
  qed
qed

lemma validate_fold_ok:
  "validating sv cs w (items, ins, w1) \<Longrightarrow> \<forall>i \<in> set is. i < length cs \<and> biStatus (items ! i) = ''pending'' \<Longrightarrow> distinct is \<Longrightarrow>
   fold (validate_item sv cs) is (items, ins, w1) = (items', ins', w2) \<Longrightarrow>
   validating sv cs w (items', ins', w2) \<and> (\<forall>i \<in> set is. biStatus (items' ! i) \<noteq> ''pending'') \<and> (\<forall>j. j \<notin> set is \<longrightarrow> items' ! j = items ! j)"
proof (induction "is" arbitrary: items ins w1)
  case (Cons i js)
  obtain items1 ins1 w3 where one: "validate_item sv cs i (items, ins, w1) = (items1, ins1, w3)" by (metis prod_cases3)
  note a = validate_item_ok [OF Cons.prems(1) _ _ one]
  have pend: "\<forall>k \<in> set js. k < length cs \<and> biStatus (items1 ! k) = ''pending''" using Cons.prems(2,3) a by auto
  have rec: "fold (validate_item sv cs) js (items1, ins1, w3) = (items', ins', w2)" using Cons.prems(4) one by simp
  have "validating sv cs w (items1, ins1, w3)" using a Cons.prems(2) by simp
  from Cons.IH [OF this pend _ rec] Cons.prems(2,3) a show ?case by auto
qed simp

lemma validate_batch_ok:
  assumes sched: "\<forall>xs. mset (schedule xs) = mset xs"
    and v: "validate_batch sv schedule cs (classify (svCrypto sv) (stored w) [] cs) w = (items, ins, w1)"
  shows "validating sv cs w (items, ins, w1) \<and> (\<forall>j < length cs. biStatus (items ! j) \<in> {''ready'', ''duplicate'', ''invalid'', ''upstream_unavailable''})"
proof -
  let ?start = "classify (svCrypto sv) (stored w) [] cs"
  note cl = classify_fresh [of "svCrypto sv" cs "stored w" "[]"]
  have len: "length ?start = length cs" using list_all2_lengthD [OF cl] by simp
  have each: "item_open (svCrypto sv) (cs ! j) (?start ! j)" "biStatus (?start ! j) \<in> {''pending'', ''duplicate''}" if "j < length cs" for j
    using list_all2_nthD [OF cl that] by auto
  have unready: "biStatus (?start ! j) \<noteq> ''ready''" if "j < length cs" for j using each(2) [OF that] by auto
  have start: "validating sv cs w (?start, replicate (length cs) None, w)"
    using len each(1) unready by (simp add: validating_def)
  have perm: "set (schedule (pending ?start)) = set (pending ?start)" "distinct (schedule (pending ?start))"
    using mset_eq_setD [OF sched [rule_format]] mset_eq_imp_distinct_iff [OF sched [rule_format], of "pending ?start"]
    by (blast, simp add: pending_def)
  have "\<forall>i \<in> set (schedule (pending ?start)). i < length cs \<and> biStatus (?start ! i) = ''pending''"
    unfolding perm by (auto simp: pending_def len)
  from validate_fold_ok [OF start this perm(2) v [unfolded validate_batch_def]]
  have r: "validating sv cs w (items, ins, w1)" "\<forall>i \<in> set (pending ?start). biStatus (items ! i) \<noteq> ''pending''"
    "\<forall>j. j \<notin> set (pending ?start) \<longrightarrow> items ! j = ?start ! j" unfolding perm by blast+
  have "biStatus (items ! j) \<noteq> ''pending''" if j: "j < length cs" for j
    using r(2,3) j len by (cases "j \<in> set (pending ?start)") (auto simp: pending_def)
  moreover have "item_open (svCrypto sv) (cs ! j) (items ! j)" if "j < length cs" for j using r(1) that by (auto simp: validating_def)
  ultimately show ?thesis using r(1) by (fastforce simp: item_open_def)
qed

lemma validating_ready:
  assumes "validating sv cs w (items, ins, w1)" "\<forall>c \<in> set cs. TrimSpace (icToken c) \<noteq> []"
  shows "items_ready (svCrypto sv) cs ins items"
  using assms by (fastforce simp: validating_def items_ready_def item_open_def)

section \<open>Properties of a batch\<close>

text \<open>
  C21: an atomic batch is all or nothing.  Whatever the order in which the workers validate the items: a batch that is previewed,
  aborted or rolled back leaves the store with the same identities and client keys, a preview or an aborted batch does not
  touch the store or CPA at all, and when an atomic batch is committed every item was imported or is a duplicate.
\<close>

theorem batch_is_all_or_nothing:
  assumes ok: "crypto_ok (svCrypto sv)" "store_ok (svCrypto sv) (stored w)" "fresh_keys sv (wTick w') w"
    and cs: "\<forall>c \<in> set cs. TrimSpace (icToken c) \<noteq> []" and sched: "\<forall>xs. mset (schedule xs) = mset xs"
    and p: "processBatchImport sv ctx schedule cs preview atomic w = (resp, w')"
  shows "(brTransaction resp \<in> {''preview'', ''aborted'', ''rolled_back''} \<longrightarrow> same_identities (stored w) (stored w')) \<and>
    (brTransaction resp \<in> {''preview'', ''aborted''} \<longrightarrow> wStore w' = wStore w \<and> wCpa w' = wCpa w) \<and>
    (atomic \<and> brTransaction resp = ''committed'' \<longrightarrow> (\<forall>x \<in> set (brItems resp). biStatus x \<in> {''imported'', ''duplicate''}))"
proof -
  let ?start = "classify (svCrypto sv) (stored w) [] cs"
  obtain items ins w1 where v: "validate_batch sv schedule cs ?start w = (items, ins, w1)" by (metis prod_cases3)
  note vb = validate_batch_ok [OF sched v]
  have same: "wStore w1 = wStore w" "wCpa w1 = wCpa w" "wTick w \<le> wTick w1" "length items = length cs" using vb by (auto simp: validating_def)
  have ready: "items_ready (svCrypto sv) cs ins items" using validating_ready [OF _ cs] vb by blast
  have fresh: "fresh_keys sv (wTick w') w1" using fresh_keys_same [OF ok(3) same(3)] same(1) by simp
  consider "preview" | "\<not> preview" "atomic \<and> batchHasBlockingValidation items"
    | (commit) "\<not> preview" "\<not> (atomic \<and> batchHasBlockingValidation items)" by blast
  then show ?thesis
  proof cases
    case commit
    obtain t items2 w2 where c: "commit_batch sv ctx atomic cs ins [0..<length items] [] items w1 = (t, items2, w2)" by (metis prod_cases3)
    have out: "w' = w2" "brTransaction resp = t" "brItems resp = items2" using p v c commit by (auto simp: processBatchImport_def respond_def Let_def)
    have valid: "\<forall>j \<in> set [0..<length items]. j < length cs" using same(4) by simp
    have "same_identities (stored w) (stored w')" if "t = ''rolled_back''"
      using commit_rolled_back [OF ok(1) c [unfolded that], of "stored w" "[]"] ok(2) fresh ready same out(1) by simp
    moreover have "\<forall>x \<in> set items2. biStatus x \<in> {''imported'', ''duplicate''}" if t: "atomic" "t = ''committed''"
    proof
      fix x assume "x \<in> set items2"
      then obtain j where j: "j < length items2" "x = items2 ! j" by (auto simp: in_set_conv_nth)
      have "imported_stored cs items (stored w1)" unfolding imported_stored_def using vb same(4) by fastforce
      note k = commit_committed [OF ok(1) c [unfolded t(2), folded out(1)] _ fresh ready valid _ this]
      have jl: "j < length cs" using k j ok(2) same by simp
      have "biStatus (items ! j) \<notin> {''invalid'', ''upstream_unavailable''}"
        using commit(2) t(1) jl same(4) by (auto simp: batchHasBlockingValidation_def list_ex_iff)
      then have "biStatus (items ! j) \<in> {''ready'', ''duplicate''}" using vb jl by blast
      then show "biStatus x \<in> {''imported'', ''duplicate''}" using k j jl ok(2) same t(1) by (cases "biStatus (items ! j) = ''ready''") auto
    qed
    moreover have "t \<in> {''committed'', ''rolled_back'', ''rollback_failed''}"
      by (rule commit_transaction [OF c])
    ultimately show ?thesis using out by auto
  qed (use p v same in \<open>auto simp: processBatchImport_def respond_def\<close>)
qed

text \<open>
  What a batch reports as imported is in the store.  After a committed batch, every item with status \<^verbatim>\<open>imported\<close> names an identity of
  the store that holds the item's token, atomic or not.
\<close>

theorem imported_items_are_stored:
  assumes ok: "crypto_ok (svCrypto sv)" "store_ok (svCrypto sv) (stored w)" "fresh_keys sv (wTick w') w"
    and cs: "\<forall>c \<in> set cs. TrimSpace (icToken c) \<noteq> []" and sched: "\<forall>xs. mset (schedule xs) = mset xs"
    and p: "processBatchImport sv ctx schedule cs False atomic w = (resp, w')" and t: "brTransaction resp = ''committed''"
    and j: "j < length (brItems resp)" "biStatus (brItems resp ! j) = ''imported''"
  shows "\<exists>i. map_get (byID (stored w')) (biIdentityID (brItems resp ! j)) = Some i \<and> idToken i = TrimSpace (icToken (cs ! j))"
proof -
  let ?start = "classify (svCrypto sv) (stored w) [] cs"
  obtain items ins w1 where v: "validate_batch sv schedule cs ?start w = (items, ins, w1)" by (metis prod_cases3)
  note vb = validate_batch_ok [OF sched v]
  have same: "wStore w1 = wStore w" "wTick w \<le> wTick w1" "length items = length cs" using vb by (auto simp: validating_def)
  have nb: "\<not> (atomic \<and> batchHasBlockingValidation items)" using p v t by (auto simp: processBatchImport_def respond_def)
  obtain tr items2 w2 where c: "commit_batch sv ctx atomic cs ins [0..<length items] [] items w1 = (tr, items2, w2)" by (metis prod_cases3)
  have out: "w' = w2" "tr = ''committed''" "brItems resp = items2" using p v c t nb by (auto simp: processBatchImport_def respond_def Let_def)
  have "imported_stored cs items (stored w1)" unfolding imported_stored_def using vb same(3) by fastforce
  with commit_committed [OF ok(1) c [unfolded out(2), folded out(1)] _ fresh_keys_same [OF ok(3) same(2)] validating_ready [OF vb [THEN conjunct1] cs]] ok(2) same
  have "imported_stored cs items2 (stored w2)" by (simp add: out(1))
  with j out show ?thesis by (simp add: imported_stored_def)
qed

text \<open>The counters of a summary.\<close>

definition counted :: "batchImportSummary \<Rightarrow> nat" where
  "counted s = suReady s + suImported s + suDuplicate s + suInvalid s + suUpstreamUnavailable s + suFailed s + suRolledBack s +
     suRollbackFailed s + suAborted s"

abbreviation statuses :: "string set" where
  "statuses \<equiv> {''ready'', ''imported'', ''duplicate'', ''invalid'', ''upstream_unavailable'', ''failed'', ''rolled_back'', ''rollback_failed'', ''aborted''}"

lemma counted_fold:
  "counted (fold (\<lambda>item. count_item (biStatus item)) items s) = counted s + length (filter (\<lambda>x. biStatus x \<in> statuses) items)"
proof (induction items arbitrary: s)
  case (Cons x xs)
  have "counted (count_item (biStatus x) s) = counted s + (if biStatus x \<in> statuses then 1 else 0)"
    by (simp add: counted_def)
  with Cons show ?case by simp
qed simp

lemma summary_total: "suTotal (fold (\<lambda>item. count_item (biStatus item)) items s) = suTotal s"
  by (induction items arbitrary: s) simp_all

definition all_counted :: "items \<Rightarrow> bool" where
  "all_counted items \<longleftrightarrow> (\<forall>x \<in> set items. biStatus x \<in> statuses)"

lemma statuses_update: "all_counted items \<Longrightarrow> biStatus y \<in> statuses \<Longrightarrow> all_counted (items[i := y])"
  unfolding all_counted_def using set_update_subset_insert [of items i y] by blast

lemma statuses_abort: "all_counted items \<Longrightarrow> all_counted (abort_ready c m is items)"
  unfolding abort_ready_def
proof (induction "is" arbitrary: items)
  case (Cons i js)
  have "all_counted (if biStatus (items ! i) = ''ready'' then items[i := mark ''aborted'' c m (items ! i)] else items)"
    using Cons.prems statuses_update [OF Cons.prems, of "mark ''aborted'' c m (items ! i)" i] by simp
  from Cons.IH [OF this] show ?case by simp
qed simp

lemma statuses_rollback:
  "rollbackBatchImports sv ctx is (items, w) = (b, items', w') \<Longrightarrow> all_counted items \<Longrightarrow> all_counted items'"
proof (induction "is" arbitrary: items w b)
  case (Cons i js)
  from Cons.prems(1) obtain y w1 b1 where y: "rollbackBatchImports sv ctx js (items[i := y], w1) = (b1, items', w')" "biStatus y \<in> {''rolled_back'', ''rollback_failed''}"
    unfolding rollbackBatchImports.simps Let_def
    by (auto split: prod.splits sum.splits option.splits)
  show ?case by (rule Cons.IH [OF y(1)]) (rule statuses_update [OF Cons.prems(2)], use y(2) in auto)
qed simp

lemma statuses_commit:
  "commit_batch sv ctx atomic cs ins is imported items w = (t, items', w') \<Longrightarrow> all_counted items \<Longrightarrow>
   all_counted items'"
proof (induction "is" arbitrary: imported items w)
  case (Cons i js)
  obtain r w1 where c: "commitInspectedTokenLocked sv ctx (icToken (cs ! i)) (icAccountID (cs ! i)) (ins ! i) True w = (r, w1)" by fastforce
  have go: ?case if "commit_batch sv ctx atomic cs ins js imp (items[i := y]) w2 = (t, items', w')" "biStatus y \<in> statuses" for imp y w2
    by (rule Cons.IH [OF that(1)]) (rule statuses_update [OF Cons.prems(2) that(2)])
  show ?case
  proof (cases "biStatus (items ! i) = ''ready''")
    case False
    then show ?thesis using Cons by simp
  next
    case True
    show ?thesis
    proof (cases r)
      case (Inl err)
      let ?y = "mark ''failed'' (meCode err) (meMessage err) (items ! i)"
      obtain b items2 w2 where roll: "rollbackBatchImports sv ctx (rev imported) (items[i := ?y], w1) = (b, items2, w2)" by (metis prod_cases3)
      have "all_counted items2"
        by (rule statuses_rollback [OF roll]) (rule statuses_update [OF Cons.prems(2)], simp)
      then show ?thesis using Cons.prems(1) True c Inl roll statuses_abort go [of imported ?y w1] by (cases atomic) auto
    next
      case (Inr res)
      let ?d = "mark ''duplicate'' ''already_imported'' ''credential is already imported'' (items ! i)"
      let ?y = "(mark ''imported'' ''imported'' ''credential imported and synchronized'' (items ! i))\<lparr>biChannelSynced := svChannels sv \<noteq> None\<rparr>"
      show ?thesis using Cons.prems(1) True c Inr go [of imported ?d w1] go [of "imported @ [i]" ?y w1] by (cases "irDuplicate res") simp_all
    qed
  qed
qed simp

lemma summary_counts:
  assumes "all_counted xs"
  shows "suTotal (summarizeBatchItems xs) = length xs \<and> counted (summarizeBatchItems xs) = length xs"
proof -
  have "filter (\<lambda>x. biStatus x \<in> statuses) xs = xs" using assms unfolding all_counted_def by (rule filter_True)
  then show ?thesis unfolding summarizeBatchItems_def counted_fold summary_total by (simp add: counted_def)
qed

text \<open>
  The summary accounts for every item.  For every batch, mode and order of validation, the total is the number of
  candidates, and it is the sum of the nine counters: no item is left pending, lost or counted twice.
\<close>

theorem batch_summary_adds_up:
  assumes sched: "\<forall>xs. mset (schedule xs) = mset xs" and p: "processBatchImport sv ctx schedule cs preview atomic w = (resp, w')"
  shows "suTotal (brSummary resp) = length (brItems resp) \<and> counted (brSummary resp) = length (brItems resp)"
proof -
  let ?start = "classify (svCrypto sv) (stored w) [] cs"
  obtain items ins w1 where v: "validate_batch sv schedule cs ?start w = (items, ins, w1)" by (metis prod_cases3)
  note vb = validate_batch_ok [OF sched v]
  have "biStatus (items ! j) \<in> statuses" if "j < length items" for j using vb that by (auto simp: validating_def)
  then have st: "all_counted items" unfolding all_counted_def by (metis in_set_conv_nth)
  obtain t items2 w2 where c: "commit_batch sv ctx atomic cs ins [0..<length items] [] items w1 = (t, items2, w2)" by (metis prod_cases3)
  have "\<exists>xs. all_counted xs \<and> brItems resp = xs \<and> brSummary resp = summarizeBatchItems xs"
    using p v c st statuses_commit [OF c st] statuses_abort [OF st] by (auto simp: processBatchImport_def respond_def Let_def split: if_splits)
  then obtain xs where xs: "all_counted xs" "brItems resp = xs" "brSummary resp = summarizeBatchItems xs" by blast
  then show ?thesis using summary_counts by simp
qed

end
