(* ===== verification/Delete_Backup.thy ===== *)
theory Delete_Backup
  imports Management_Import
begin

text \<open>
  The backup that is written before an identity is deleted (\<^verbatim>\<open>internal/server/delete_backup.go\<close>): a directory of
  its own with the store's file, CPA's auth files and metadata, verified by hash after writing and removed
  again on every error.
\<close>

section \<open>Data\<close>

definition deleteBackupVersion :: int where "deleteBackupVersion = 1"

record identityDeleteBackup =
  dbID :: string
  dbDirectory :: "string list"
  dbCPASnapshots :: "AuthFileSnapshot list"
  dbStoreFile :: string
  dbStoreFileBytes :: bytes

record deleteBackupAuthMetadata =
  bmName :: string
  bmIdentityID :: string
  bmDisabled :: bool
  bmSHA256 :: string

record deleteBackupMetadata =
  bmVersion :: int
  bmBackupID :: string
  bmCreatedAt :: time
  bmOwner :: string
  bmEmail :: string
  bmCredentialKind :: string
  bmPlanType :: string
  bmStoreFile :: string
  bmStoreSHA256 :: string
  bmAuthFiles :: "deleteBackupAuthMetadata list"

datatype backup_error =
    IdentityMissing | StoreSnapshotFailed | CpaSnapshotFailed | RootFailed | DirectoryFailed | SecureFailed
  | StoreDirectoryFailed | StoreWriteFailed | CpaDirectoryFailed | BackupNameInvalid | CpaWriteFailed
  | MetadataEncodeFailed | MetadataWriteFailed | StoreVerifyFailed | CpaVerifyFailed

section \<open>Times\<close>

text \<open>The layouts \<^verbatim>\<open>20060102T150405.000000000Z\<close> and, for JSON, RFC 3339 with the fraction cut after its last digit.\<close>

definition backup_stamp :: "time \<Rightarrow> string" where
  "backup_stamp t =
     (let s = nat (t div second); (y, m, d) = civil (s div 86400); r = s mod 86400 in
      pad 4 y @ pad 2 m @ pad 2 d @ ''T'' @ pad 2 (r div 3600) @ pad 2 (r div 60 mod 60) @ pad 2 (r mod 60) @ ''.'' @
      pad 9 (nat (t mod second)) @ ''Z'')"

definition json_time :: "time \<Rightarrow> string" where
  "json_time t =
     (let whole = format_utc t; fraction = TrimRight (pad 9 (nat (t mod second))) ''0'' in
      if fraction = [] then whole else butlast whole @ ''.'' @ fraction @ ''Z'')"

section \<open>Files\<close>

abbreviation present :: "string list \<Rightarrow> backup_files \<Rightarrow> bool" where
  "present p fs \<equiv> bfDirs fs p \<or> bfFiles fs p \<noteq> None"

definition make_dir :: "backup_env \<Rightarrow> string list \<Rightarrow> backup_files \<Rightarrow> bool \<times> backup_files" where
  "make_dir env p fs =
     (if beFails env (BMkdir p) \<or> present p fs \<or> \<not> bfDirs fs (butlast p) then (False, fs)
      else (True, fs\<lparr>bfDirs := (bfDirs fs)(p := True)\<rparr>))"

definition remove_all :: "backup_env \<Rightarrow> string list \<Rightarrow> backup_files \<Rightarrow> backup_files" where
  "remove_all env p fs =
     (if beFails env (BRemoveAll p) then fs
      else fs\<lparr>bfDirs := (\<lambda>q. bfDirs fs q \<and> \<not> prefix p q), bfFiles := (\<lambda>q. if prefix p q then None else bfFiles fs q)\<rparr>)"

definition writeOwnerOnlyBackupFile :: "backup_env \<Rightarrow> string list \<Rightarrow> bytes \<Rightarrow> backup_files \<Rightarrow> bool \<times> backup_files" where
  "writeOwnerOnlyBackupFile env p data fs =
     (if beFails env (BCreate p) \<or> present p fs \<or> \<not> bfDirs fs (butlast p) then (False, fs)
      else if beFails env (BWrite p) then
        (False, if beFails env (BRemove p) then fs\<lparr>bfFiles := (bfFiles fs)(p \<mapsto> bePartial env p)\<rparr> else fs)
      else (True, fs\<lparr>bfFiles := (bfFiles fs)(p \<mapsto> beKeeps env p data)\<rparr>))"

definition sha256Hex :: "crypto \<Rightarrow> bytes \<Rightarrow> string" where
  "sha256Hex C data = hex_encode (Sum256 C data)"

definition verifyBackupFile :: "crypto \<Rightarrow> backup_env \<Rightarrow> string list \<Rightarrow> string \<Rightarrow> backup_files \<Rightarrow> bool" where
  "verifyBackupFile C env p expectedSHA fs =
     (if beFails env (BRead p) then False
      else case bfFiles fs p of None \<Rightarrow> False | Some data \<Rightarrow> sha256Hex C data = expectedSHA)"

definition ensureOwnerOnlyDirectory :: "backup_env \<Rightarrow> string \<Rightarrow> backup_files \<Rightarrow> bool \<times> backup_files" where
  "ensureOwnerOnlyDirectory env directory fs =
     (let directory = TrimSpace directory in
      if directory = [] \<or> beFails env BMkdirAll then (False, fs)
      else let fs' = fs\<lparr>bfDirs := (bfDirs fs)([directory] := True)\<rparr> in
        if beFails env BLstat \<or> \<not> bfReal fs \<or> beFails env (BChmod [directory]) then (False, fs') else (True, fs'))"

section \<open>Metadata\<close>

definition auth_json :: "deleteBackupAuthMetadata \<Rightarrow> json" where
  "auth_json a = JObj [(''name'', JStr (bmName a)), (''identity_id'', JStr (bmIdentityID a)), (''disabled'', JBool (bmDisabled a)),
     (''sha256'', JStr (bmSHA256 a))]"

definition unless_empty :: "string \<Rightarrow> string \<Rightarrow> (string \<times> json) list" where
  "unless_empty key v = (if v = [] then [] else [(key, JStr v)])"

definition metadata_json :: "deleteBackupMetadata \<Rightarrow> json" where
  "metadata_json m =
     JObj ([(''version'', JNum (int_text (bmVersion m))), (''backup_id'', JStr (bmBackupID m)), (''created_at'', JStr (json_time (bmCreatedAt m))),
        (''identity_id'', JStr (bmOwner m))] @
       unless_empty ''email'' (bmEmail m) @ unless_empty ''credential_kind'' (bmCredentialKind m) @ unless_empty ''plan_type'' (bmPlanType m) @
       [(''store_file'', JStr (bmStoreFile m)), (''store_sha256'', JStr (bmStoreSHA256 m))] @
       (if bmAuthFiles m = [] then [] else [(''auth_files'', JArr (map auth_json (bmAuthFiles m)))]))"

definition encode_metadata :: "deleteBackupMetadata \<Rightarrow> bytes option" where
  "encode_metadata m = (if time_marshals (bmCreatedAt m) then Some (indent_text 0 (metadata_json m)) else None)"

section \<open>The backup\<close>

fun backup_auth_files ::
  "crypto \<Rightarrow> backup_env \<Rightarrow> string list \<Rightarrow> AuthFileSnapshot list \<Rightarrow> backup_files \<Rightarrow> (backup_error + deleteBackupAuthMetadata list) \<times> backup_files" where
  "backup_auth_files C env dir [] fs = (Inr [], fs)"
| "backup_auth_files C env dir (s # ss) fs =
     (let name = filepath_Base (TrimSpace (asName s)) in
      if name = [] \<or> name \<noteq> asName s \<or> Contains name ''..'' then (Inl BackupNameInvalid, fs)
      else case writeOwnerOnlyBackupFile env (dir @ [name]) (asRaw s) fs of
        (False, fs1) \<Rightarrow> (Inl CpaWriteFailed, fs1)
      | (True, fs1) \<Rightarrow>
          (case backup_auth_files C env dir ss fs1 of
             (Inl e, fs2) \<Rightarrow> (Inl e, fs2)
           | (Inr rest, fs2) \<Rightarrow>
               (Inr (\<lparr>bmName = name, bmIdentityID = asIdentityID s, bmDisabled = asDisabled s, bmSHA256 = sha256Hex C (asRaw s)\<rparr> # rest), fs2)))"

definition cpa_part ::
  "crypto \<Rightarrow> backup_env \<Rightarrow> string list \<Rightarrow> AuthFileSnapshot list \<Rightarrow> backup_files \<Rightarrow> (backup_error + deleteBackupAuthMetadata list) \<times> backup_files" where
  "cpa_part C env dir snaps fs =
     (if snaps = [] then (Inr [], fs)
      else case make_dir env (dir @ [''cpa'']) fs of
        (False, fs1) \<Rightarrow> (Inl CpaDirectoryFailed, fs1)
      | (True, fs1) \<Rightarrow> backup_auth_files C env (dir @ [''cpa'']) snaps fs1)"

text \<open>Everything after the backup's directory exists; an error here is answered by removing the directory.\<close>

definition fill_backup ::
  "crypto \<Rightarrow> backup_env \<Rightarrow> string list \<Rightarrow> deleteBackupMetadata \<Rightarrow> string \<Rightarrow> bytes \<Rightarrow> AuthFileSnapshot list \<Rightarrow> backup_files \<Rightarrow>
   (backup_error + unit) \<times> backup_files" where
  "fill_backup C env dir meta storeFile storeRaw snaps fs =
     (case make_dir env (dir @ [''store'']) fs of
        (False, fs1) \<Rightarrow> (Inl StoreDirectoryFailed, fs1)
      | (True, fs1) \<Rightarrow>
     (case writeOwnerOnlyBackupFile env (dir @ [''store'', storeFile]) storeRaw fs1 of
        (False, fs2) \<Rightarrow> (Inl StoreWriteFailed, fs2)
      | (True, fs2) \<Rightarrow>
     (case cpa_part C env dir snaps fs2 of
        (Inl e, fs3) \<Rightarrow> (Inl e, fs3)
      | (Inr auths, fs3) \<Rightarrow>
     (case encode_metadata (meta\<lparr>bmAuthFiles := auths\<rparr>) of
        None \<Rightarrow> (Inl MetadataEncodeFailed, fs3)
      | Some raw \<Rightarrow>
     (case writeOwnerOnlyBackupFile env (dir @ [''metadata.json'']) raw fs3 of
        (False, fs4) \<Rightarrow> (Inl MetadataWriteFailed, fs4)
      | (True, fs4) \<Rightarrow>
          if \<not> verifyBackupFile C env (dir @ [''store'', storeFile]) (bmStoreSHA256 meta) fs4 then (Inl StoreVerifyFailed, fs4)
          else if \<not> list_all (\<lambda>a. verifyBackupFile C env (dir @ [''cpa'', bmName a]) (bmSHA256 a) fs4) auths then (Inl CpaVerifyFailed, fs4)
          else (Inr (), fs4))))))"

definition backup_metadata :: "crypto \<Rightarrow> string \<Rightarrow> time \<Rightarrow> Identity \<Rightarrow> string \<Rightarrow> bytes \<Rightarrow> deleteBackupMetadata" where
  "backup_metadata C backupID createdAt i storeFile storeRaw =
     \<lparr>bmVersion = deleteBackupVersion, bmBackupID = backupID, bmCreatedAt = createdAt, bmOwner = idID i, bmEmail = maskedEmail (idEmail i),
      bmCredentialKind = idKind i, bmPlanType = idPlanType i, bmStoreFile = ''store/'' @ storeFile, bmStoreSHA256 = sha256Hex C storeRaw,
      bmAuthFiles = []\<rparr>"

definition write_backup ::
  "crypto \<Rightarrow> backup_env \<Rightarrow> string \<Rightarrow> deleteBackupMetadata \<Rightarrow> string \<Rightarrow> bytes \<Rightarrow> AuthFileSnapshot list \<Rightarrow> backup_files \<Rightarrow>
   (backup_error + unit) \<times> backup_files" where
  "write_backup C env rootDir meta storeFile storeRaw snaps fs =
     (let dir = [TrimSpace rootDir, bmBackupID meta] in
      case ensureOwnerOnlyDirectory env rootDir fs of
        (False, fs1) \<Rightarrow> (Inl RootFailed, fs1)
      | (True, fs1) \<Rightarrow>
     (case make_dir env dir fs1 of
        (False, fs2) \<Rightarrow> (Inl DirectoryFailed, fs2)
      | (True, fs2) \<Rightarrow>
          if beFails env (BChmod dir) then (Inl SecureFailed, remove_all env dir fs2)
          else case fill_backup C env dir meta storeFile storeRaw snaps fs2 of
            (Inl e, fs3) \<Rightarrow> (Inl e, remove_all env dir fs3)
          | (Inr _, fs3) \<Rightarrow> (Inr (), fs3)))"

definition createIdentityDeleteBackup ::
  "('u, 'w) Server \<Rightarrow> string \<Rightarrow> ctx \<Rightarrow> Identity \<Rightarrow> ('u, 'w) world \<Rightarrow> (backup_error + identityDeleteBackup \<times> string) \<times> ('u, 'w) world" where
  "createIdentityDeleteBackup sv backupDir ctx i w0 =
     (let t = wTick w0; w = tick 1 w0 in
      if TrimSpace (idID i) = [] then (Inl IdentityMissing, w)
      else case SnapshotFile (svOS sv t) (idID i) (wStore w) of
        Inl _ \<Rightarrow> (Inl StoreSnapshotFailed, w)
      | Inr (storeFile, doc) \<Rightarrow>
     (case (case svChannels sv of
              None \<Rightarrow> (Inr [], w)
            | Some (m, api) \<Rightarrow> on_cpa (SnapshotCredential (svCrypto sv) m api ctx (cpaCredentialFromStored i)) w) of
        (Inl _, w1) \<Rightarrow> (Inl CpaSnapshotFailed, w1)
      | (Inr snaps, w1) \<Rightarrow>
          (let createdAt = svNow sv t; backupID = backup_stamp createdAt @ ''-'' @ TrimPrefix (idID i) ''agent-'';
               storeRaw = svDocText sv doc; meta = backup_metadata (svCrypto sv) backupID createdAt i storeFile storeRaw in
           case write_backup (svCrypto sv) (svBackupEnv sv t) backupDir meta storeFile storeRaw snaps (wBackup w1) of
             (Inl e, fs) \<Rightarrow> (Inl e, w1\<lparr>wBackup := fs\<rparr>)
           | (Inr _, fs) \<Rightarrow>
               (Inr (\<lparr>dbID = idID i, dbDirectory = [TrimSpace backupDir, backupID], dbCPASnapshots = snaps, dbStoreFile = storeFile,
                      dbStoreFileBytes = storeRaw\<rparr>, backupID), w1\<lparr>wBackup := fs\<rparr>))))"

end
