(* ===== verification/Server_Http.thy ===== *)
theory Server_Http
  imports Batch_Import Delete_Backup
begin

text \<open>
  The management side of the HTTP server (\<^verbatim>\<open>internal/server/server.go\<close>, \<^verbatim>\<open>batch_import.go\<close>, \<^verbatim>\<open>embed.go\<close>, \<^verbatim>\<open>egress.go\<close>): reading requests,
  the management key, and the handlers for imports, lists, deletion, switching and refresh of identities.  A
  handler answers \<open>Inl (status, message)\<close> for a JSON error and \<open>Inr\<close> with the payload of a 200.  The
  handlers that change state run under one mutex, so they are functions of the whole world.
\<close>

section \<open>Requests and configuration\<close>

record http_request =
  hrMethod :: string
  hrURL :: url
  hrHeader :: "(string \<times> string) list"
  hrBody :: "bytes option"
  hrReadable :: bool
  hrCtx :: ctx
  hrProxy :: string

record Config =
  cfUpstreamOrigin :: "url option"
  cfPublicCPABaseURL :: string
  cfManagementKey :: string
  cfMaxReplayBodyBytes :: int
  cfEnforceIdentityProxy :: bool
  cfBackupDir :: string
  cfEmbedAllowedOrigins :: "string list"

datatype config_error = UpstreamRequired | UpstreamScheme | ManagementKeyRequired | BackupRootFailed

type_synonym 'a reply = "(int \<times> string) + 'a"

definition body_of :: "http_request \<Rightarrow> bytes" where
  "body_of rq = (case hrBody rq of None \<Rightarrow> [] | Some b \<Rightarrow> b)"

text \<open>\<^verbatim>\<open>io.ReadAll\<close> of a body under \<^verbatim>\<open>http.MaxBytesReader\<close>, and under \<^verbatim>\<open>io.LimitReader\<close>.\<close>

definition read_max :: "nat \<Rightarrow> http_request \<Rightarrow> bytes option" where
  "read_max n rq = (if hrReadable rq \<and> length (body_of rq) \<le> n then Some (body_of rq) else None)"

definition read_limit :: "nat \<Rightarrow> http_request \<Rightarrow> bytes option" where
  "read_limit n rq = (if hrReadable rq then Some (take n (body_of rq)) else None)"

definition query_get :: "http_request \<Rightarrow> string \<Rightarrow> string" where
  "query_get rq name = (case map_get (Query (hrURL rq)) name of Some (v # _) \<Rightarrow> v | _ \<Rightarrow> [])"

definition maxImportBodyBytes :: nat where "maxImportBodyBytes = mebi"
definition maxAPICallBodyBytes :: nat where "maxAPICallBodyBytes = mebi"
definition maxBatchImportBodyBytes :: nat where "maxBatchImportBodyBytes = 4 * mebi"
definition defaultReplayBodyMax :: int where "defaultReplayBodyMax = 16 * 2 ^ 20"

fun embed_origins :: "string list \<Rightarrow> string list \<Rightarrow> string list" where
  "embed_origins seen [] = seen"
| "embed_origins seen (v # vs) =
     (let value = TrimSpace v in
      if value = [] then embed_origins seen vs
      else case url_Parse value of
        None \<Rightarrow> embed_origins seen vs
      | Some parsed \<Rightarrow>
          if Scheme parsed \<noteq> ''http'' \<and> Scheme parsed \<noteq> ''https'' \<or> Host parsed = [] \<or> HasUser parsed \<or> RawQuery parsed \<noteq> [] \<or>
             Fragment parsed \<noteq> [] \<or> Path parsed \<noteq> [] \<and> Path parsed \<noteq> ''/'' then embed_origins seen vs
          else let origin = Scheme parsed @ ''://'' @ Host parsed in
            embed_origins (if origin \<in> set seen then seen else seen @ [origin]) vs)"

definition normalizeEmbedOrigins :: "string list \<Rightarrow> string list" where
  "normalizeEmbedOrigins values = embed_origins [] values"

text \<open>\<^verbatim>\<open>New\<close>: the checks on the configuration and its defaults.  \<open>storeDir\<close> is the directory of the store.\<close>

definition NewServer :: "backup_env \<Rightarrow> string \<Rightarrow> Config \<Rightarrow> backup_files \<Rightarrow> (config_error + Config) \<times> backup_files" where
  "NewServer env storeDir cfg fs =
     (case cfUpstreamOrigin cfg of
        None \<Rightarrow> (Inl UpstreamRequired, fs)
      | Some origin \<Rightarrow>
          if Scheme origin = [] \<or> Host origin = [] then (Inl UpstreamRequired, fs)
          else if Scheme origin \<noteq> ''https'' \<and> Scheme origin \<noteq> ''http'' then (Inl UpstreamScheme, fs)
          else if TrimSpace (cfManagementKey cfg) = [] then (Inl ManagementKeyRequired, fs)
          else let backupDir = (let d = TrimSpace (cfBackupDir cfg) in if d = [] then TrimRight storeDir ''/'' @ ''/backups/identity-delete'' else d) in
            case ensureOwnerOnlyDirectory env backupDir fs of
              (False, fs') \<Rightarrow> (Inl BackupRootFailed, fs')
            | (True, fs') \<Rightarrow>
                (Inr (cfg\<lparr>cfMaxReplayBodyBytes := (if cfMaxReplayBodyBytes cfg \<le> 0 then defaultReplayBodyMax else cfMaxReplayBodyBytes cfg),
                          cfEmbedAllowedOrigins := normalizeEmbedOrigins (cfEmbedAllowedOrigins cfg), cfBackupDir := backupDir\<rparr>), fs'))"

section \<open>Authentication\<close>

definition bearerToken :: "string \<Rightarrow> string" where
  "bearerToken value =
     (let v = TrimSpace value in
      if CHR '' '' \<notin> set v then []
      else case cut (CHR '' '') v of (scheme, rest) \<Rightarrow> if EqualFold scheme ''Bearer'' then TrimSpace rest else [])"

definition provided_key :: "http_request \<Rightarrow> string" where
  "provided_key rq =
     (let bearer = bearerToken (header_get (hrHeader rq) ''Authorization'') in
      if bearer = [] then TrimSpace (header_get (hrHeader rq) ''X-Management-Key'') else bearer)"

definition authorizeManagement :: "Config \<Rightarrow> http_request \<Rightarrow> bool" where
  "authorizeManagement cfg rq =
     (let provided = provided_key rq; want = TrimSpace (cfManagementKey cfg) in
      if provided = [] \<or> length provided \<noteq> length want then False else provided = want)"

section \<open>Bodies\<close>

text \<open>
  The struct of the import request has two fields whose names differ only in case: a key goes to the
  field with exactly its name, otherwise to the first field whose name matches without case.
\<close>

definition route :: "string list \<Rightarrow> string \<Rightarrow> string option" where
  "route names k = (if k \<in> set names then Some k else List.find (EqualFold k) names)"

fun routed :: "string list \<Rightarrow> string \<Rightarrow> (string \<times> json) list \<Rightarrow> string \<Rightarrow> string option" where
  "routed names name [] cur = Some cur"
| "routed names name ((k, v) # kvs) cur =
     (if route names k = Some name
      then (case dec_str cur v of None \<Rightarrow> None | Some x \<Rightarrow> routed names name kvs x)
      else routed names name kvs cur)"

definition token_fields :: "string list" where
  "token_fields = [''codex_access_token'', ''CODEX_ACCESS_TOKEN'', ''agent_identity'', ''access_token'', ''token'']"

definition account_fields :: "string list" where
  "account_fields = [''account_id'', ''chatgpt_account_id'', ''team_id'', ''workspace_id'']"

definition decode_import :: "json \<Rightarrow> (string list \<times> string list) option" where
  "decode_import v =
     Option.bind (struct_keys v) (\<lambda>kvs. let names = token_fields @ account_fields; get = (\<lambda>n. routed names n kvs []) in
     Option.bind (those (map get token_fields)) (\<lambda>tokens.
     Option.bind (those (map get account_fields)) (\<lambda>accounts. Some (tokens, accounts))))"

definition first_trimmed :: "string list \<Rightarrow> string" where
  "first_trimmed values = (case List.find (\<lambda>v. v \<noteq> []) (map TrimSpace values) of None \<Rightarrow> [] | Some v \<Rightarrow> v)"

definition validateImportAccountID :: "string \<Rightarrow> string option" where
  "validateImportAccountID value =
     (if \<not> ValidString value then Some ''account_id is not valid UTF-8''
      else if rune_count value > maxBatchAccountIDRunes then Some ''account_id is too long'' else None)"

definition parseImportRequest :: "bytes \<Rightarrow> string + string \<times> string" where
  "parseImportRequest raw =
     (case TrimSpace raw of
        [] \<Rightarrow> Inl ''codex_access_token is required''
      | c # cs \<Rightarrow>
          (let body = c # cs in
           if c \<noteq> CHR ''{'' \<and> c \<noteq> CHR ''\"'' then
             (let token = TrimSpace body in if token = [] then Inl ''codex_access_token is required'' else Inr (token, []))
           else if c = CHR ''\"'' then
             (case Option.bind (json_parse body) (dec_str []) of
                None \<Rightarrow> Inl ''invalid request body''
              | Some token \<Rightarrow> if TrimSpace token = [] then Inl ''invalid request body'' else Inr (TrimSpace token, []))
           else case Option.bind (json_parse body) decode_import of
             None \<Rightarrow> Inl ''invalid request body''
           | Some (tokens, accounts) \<Rightarrow>
               (let token = first_trimmed tokens; accountID = first_trimmed accounts in
                if token = [] then Inl ''codex_access_token is required''
                else case validateImportAccountID accountID of
                  Some err \<Rightarrow> Inl err
                | None \<Rightarrow> Inr (token, accountID))))"

definition parseImportToken :: "bytes \<Rightarrow> string + string" where
  "parseImportToken body = (case parseImportRequest body of Inl e \<Rightarrow> Inl e | Inr (token, _) \<Rightarrow> Inr token)"

definition queryBool :: "http_request \<Rightarrow> string \<Rightarrow> bool \<Rightarrow> bool" where
  "queryBool rq name fallback =
     (let value = TrimSpace (query_get rq name) in
      if value = [] then fallback else case ParseBool value of None \<Rightarrow> fallback | Some b \<Rightarrow> b)"

definition identityRequestPath :: "string \<Rightarrow> string \<times> string" where
  "identityRequestPath requestPath =
     (let relative = (let r = TrimPrefix requestPath ''/admin/v1/identities/'' in
            if r = requestPath then TrimPrefix requestPath ''/agent-identity/api/identities/'' else r) in
      case SplitAt (CHR ''/'') (TrimBoth relative ''/'') of
        [a] \<Rightarrow> (a, [])
      | [a, b] \<Rightarrow> if a = [] then ([], []) else (a, b)
      | _ \<Rightarrow> ([], []))"

section \<open>Imports\<close>

record import_reply =
  rpIdentity :: PublicIdentity
  rpCredentialKind :: "CredentialKind option"
  rpClientAPIKey :: string
  rpBaseURL :: string
  rpManaged :: bool
  rpSynced :: bool

definition handleImport :: "Config \<Rightarrow> ('u, 'w) Server \<Rightarrow> http_request \<Rightarrow> ('u, 'w) world \<Rightarrow> import_reply reply \<times> ('u, 'w) world" where
  "handleImport cfg sv rq w =
     (if hrMethod rq \<noteq> ''POST'' then (Inl (405, ''method not allowed''), w)
      else if \<not> authorizeManagement cfg rq then (Inl (401, ''unauthorized''), w)
      else case read_max maxImportBodyBytes rq of
        None \<Rightarrow> (Inl (400, ''invalid request body''), w)
      | Some body \<Rightarrow>
          (case parseImportRequest body of
             Inl err \<Rightarrow> (Inl (400, err), w)
           | Inr (token, accountID) \<Rightarrow>
               (case importTokenLocked sv (hrCtx rq) token accountID False w of
                  (Inl err, w') \<Rightarrow> (Inl (meStatusCode err, meMessage err), w')
                | (Inr result, w') \<Rightarrow>
                    (Inr \<lparr>rpIdentity = irPublicIdentity result, rpCredentialKind = map_option ciKind (irCredential result),
                          rpClientAPIKey = irClientKey result,
                          rpBaseURL = TrimRight (TrimSpace (cfPublicCPABaseURL cfg)) ''/'', rpManaged = svChannels sv \<noteq> None,
                          rpSynced = svChannels sv \<noteq> None\<rparr>, w'))))"

fun batch_message :: "batch_error \<Rightarrow> string" where
  "batch_message BatchEmpty = ''batch import body is empty''"
| "batch_message BatchTooMany = ''batch import supports at most '' @ FormatInt maxBatchImportItems @ '' items''"
| "batch_message BatchJson = ''invalid JSON import body''"
| "batch_message BatchMultiple = ''import body contains multiple JSON values''"
| "batch_message BatchJsonl = ''invalid JSONL import item''"
| "batch_message BatchNone = ''batch import did not contain any credentials''"
| "batch_message LabelNotString = ''label field must be a string''"
| "batch_message AccountNotString = ''account_id field must be a string''"
| "batch_message TokenNotString = ''token field must be a string''"
| "batch_message TokenOmitted = ''JSON import item omitted a token field''"
| "batch_message Unsupported = ''unsupported JSON import item''"
| "batch_message (ItemEmpty n) = ''batch import item '' @ FormatInt n @ '' is empty''"
| "batch_message (ItemNotUtf8 n) = ''batch import item '' @ FormatInt n @ '' is not valid UTF-8''"
| "batch_message (AccountNotUtf8 n) = ''batch import item '' @ FormatInt n @ '' account_id is not valid UTF-8''"
| "batch_message (AccountTooLong n) = ''batch import item '' @ FormatInt n @ '' account_id is too long''"

definition handleBatchImport ::
  "Config \<Rightarrow> ('u, 'w) Server \<Rightarrow> (nat list \<Rightarrow> nat list) \<Rightarrow> http_request \<Rightarrow> ('u, 'w) world \<Rightarrow> batchImportResponse reply \<times> ('u, 'w) world" where
  "handleBatchImport cfg sv schedule rq w =
     (if hrMethod rq \<noteq> ''POST'' then (Inl (405, ''method not allowed''), w)
      else if \<not> authorizeManagement cfg rq then (Inl (401, ''unauthorized''), w)
      else case read_max maxBatchImportBodyBytes rq of
        None \<Rightarrow> (Inl (400, ''invalid or oversized batch import body''), w)
      | Some body \<Rightarrow>
          (case parseBatchCandidates body of
             Inl err \<Rightarrow> (Inl (400, batch_message err), w)
           | Inr candidates \<Rightarrow>
               (case processBatchImport sv (hrCtx rq) schedule candidates (queryBool rq ''preview'' False) (queryBool rq ''atomic'' True) w of
                  (response, w') \<Rightarrow> (Inr response, w'))))"

end
