(* ===== verification/Server_Handlers.thy ===== *)
theory Server_Handlers
  imports Server_Http Quota_Policy
begin

text \<open>
  The handlers on stored identities (\<^verbatim>\<open>handleIdentities\<close>, \<^verbatim>\<open>handleIdentity\<close>), the diagnostics, the health check and the
  user interface's headers.  A reply is a status with the fields of its JSON object.
\<close>

type_synonym json_reply = "int \<times> (string \<times> json) list"

definition fail :: "int \<Rightarrow> string \<Rightarrow> json_reply" where
  "fail status message = (status, [(''error'', JStr message)])"

definition withIdentityProxy ::
  "Config \<Rightarrow> ('u, 'w) Server \<Rightarrow> ctx \<Rightarrow> string \<Rightarrow> string \<Rightarrow> ('u, 'w) world \<Rightarrow> string option \<times> ('u, 'w) world" where
  "withIdentityProxy cfg sv ctx i override w =
     (let proxy = TrimSpace override in
      if proxy = [] \<and> cfEnforceIdentityProxy cfg then
        (case svChannels sv of
           None \<Rightarrow> (None, w)
         | Some (m, api) \<Rightarrow>
             (case on_cpa (ProxyForIdentity (svCrypto sv) m api ctx i) w of
                (Inl _, w') \<Rightarrow> (None, w')
              | (Inr p, w') \<Rightarrow> (Some p, w')))
      else (Some proxy, w))"

section \<open>Health and diagnostics\<close>

definition handleHealth :: "http_request \<Rightarrow> json_reply" where
  "handleHealth rq = (if hrMethod rq \<noteq> ''GET'' then fail 405 ''method not allowed'' else (200, [(''status'', JStr ''ok'')]))"

record diagnosticsResponse =
  dgStatus :: string
  dgAuthManagement :: bool
  dgCPASyncCapability :: bool
  dgQuotaBridge :: bool
  dgCPASync :: ProbeState

definition probe_window :: nat where "probe_window = 3000 * millisecond"

definition handleDiagnostics :: "Config \<Rightarrow> ('u, 'w) Server \<Rightarrow> http_request \<Rightarrow> ('u, 'w) world \<Rightarrow> diagnosticsResponse reply \<times> ('u, 'w) world" where
  "handleDiagnostics cfg sv rq w =
     (if hrMethod rq \<noteq> ''GET'' then (Inl (405, ''method not allowed''), w)
      else if \<not> authorizeManagement cfg rq then (Inl (401, ''unauthorized''), w)
      else let (state, w') = (case svChannels sv of
             None \<Rightarrow> (ProbeStateNotConfigured, w)
           | Some (m, api) \<Rightarrow>
               (case Probe (Some m) api (Some (WithTimeout (hrCtx rq) probe_window (wCpa w))) (wCpa w) of
                  (r, e) \<Rightarrow> (prState r, w\<lparr>wCpa := e\<rparr>))) in
        (Inr \<lparr>dgStatus = (if state \<noteq> ProbeStateReady then ''degraded'' else ''ok''), dgAuthManagement = True,
              dgCPASyncCapability = svChannels sv \<noteq> None, dgQuotaBridge = svChannels sv \<noteq> None, dgCPASync = state\<rparr>, w'))"

section \<open>User interface\<close>

datatype ui_reply = UiError int | UiRedirect string | UiFile string "(string \<times> string) list" bool

definition ui_assets :: "string list" where
  "ui_assets = [''index.html'', ''app.js'', ''style.css'', ''theme.js'']"

fun join_space :: "string list \<Rightarrow> string" where
  "join_space [] = []"
| "join_space [x] = x"
| "join_space (x # xs) = x @ '' '' @ join_space xs"

definition quote :: "string \<Rightarrow> string" where
  "quote s = char_of (39 :: nat) # s @ [char_of (39 :: nat)]"

definition frame_ancestors :: "Config \<Rightarrow> bool \<Rightarrow> string" where
  "frame_ancestors cfg embedded =
     (if embedded
      then quote ''self'' @ (if cfEmbedAllowedOrigins cfg \<noteq> [] then '' '' @ join_space (cfEmbedAllowedOrigins cfg) else [])
      else quote ''none'')"

definition content_security_policy :: "string \<Rightarrow> string" where
  "content_security_policy frameAncestors =
     ''default-src '' @ quote ''self'' @ ''; script-src '' @ quote ''self'' @ ''; style-src '' @ quote ''self'' @ ''; connect-src '' @ quote ''self'' @
     ''; img-src '' @ quote ''self'' @ '' data:; form-action '' @ quote ''none'' @ ''; frame-ancestors '' @ frameAncestors @ ''; base-uri '' @ quote ''none''"

definition handleUI :: "Config \<Rightarrow> http_request \<Rightarrow> ui_reply" where
  "handleUI cfg rq =
     (if hrMethod rq \<noteq> ''GET'' \<and> hrMethod rq \<noteq> ''HEAD'' then UiError 405
      else if Path (hrURL rq) = ''/agent-identity'' then UiRedirect ''/agent-identity/''
      else let asset = (let a = TrimPrefix (Path (hrURL rq)) ''/agent-identity/'' in if a = [] then ''index.html'' else a) in
        if Contains asset ''/'' \<or> asset \<notin> set ui_assets then UiError 404
        else let embedded = EqualFold (TrimSpace (query_get rq ''embed'')) ''cpamc'' in
          UiFile asset
            ([(''Content-Security-Policy'', content_security_policy (frame_ancestors cfg embedded)),
              (''Permissions-Policy'', ''camera=(), microphone=(), geolocation=(), payment=(), usb=()''),
              (''Referrer-Policy'', ''no-referrer''), (''X-Content-Type-Options'', ''nosniff'')] @
             (if embedded then [] else [(''X-Frame-Options'', ''DENY'')]))
            (hrMethod rq \<noteq> ''HEAD''))"

section \<open>The list of identities\<close>

record listedIdentity =
  liID :: string
  liCreatedAt :: time
  liCredentialKind :: string
  liEmail :: string
  liPlanType :: string
  liAccountID :: string
  liAccountScoped :: bool
  liExpiresAt :: "time option"
  liExpired :: bool
  liFedRAMP :: bool
  liChannelManaged :: bool
  liChannelSynced :: bool
  liChannelDisabled :: bool
  liChannelAuthFile :: string

record list_summary =
  lsTotal :: nat
  lsActive :: nat
  lsDisabled :: nat
  lsAgentIdentity :: nat
  lsPersonalAccessToken :: nat
  lsUnsynced :: nat

record list_reply =
  lrIdentities :: "listedIdentity list"
  lrSummary :: list_summary
  lrChannelManagement :: bool
  lrSyncError :: string

definition channel_state :: "IdentityState gomap \<Rightarrow> PublicIdentity \<Rightarrow> IdentityState" where
  "channel_state states item = (case map_get states (pubID item) of None \<Rightarrow> no_state | Some s \<Rightarrow> s)"

definition list_item :: "bool \<Rightarrow> time \<Rightarrow> IdentityState gomap \<Rightarrow> PublicIdentity \<Rightarrow> listedIdentity" where
  "list_item managed now states item =
     (let state = channel_state states item in
      \<lparr>liID = pubID item, liCreatedAt = pubCreatedAt item, liCredentialKind = TrimSpace (pubKind item), liEmail = maskedEmail (pubEmail item),
       liPlanType = pubPlanType item, liAccountID = pubAccountID item, liAccountScoped = pubAccountScoped item,
       liExpiresAt = pubExpiresAt item,
       liExpired = (case pubExpiresAt item of None \<Rightarrow> False | Some t \<Rightarrow> t \<noteq> 0 \<and> now > t),
       liFedRAMP = pubFedRAMP item, liChannelManaged = managed, liChannelSynced = stSynced state,
       liChannelDisabled = stDisabled state, liChannelAuthFile = stAuthFile state\<rparr>)"

definition count_identity :: "bool \<Rightarrow> IdentityState gomap \<Rightarrow> PublicIdentity \<Rightarrow> list_summary \<Rightarrow> list_summary" where
  "count_identity managed states item s =
     (let state = channel_state states item; kind = TrimSpace (pubKind item);
          s1 = (if kind = ''agent_identity'' then s\<lparr>lsAgentIdentity := lsAgentIdentity s + 1\<rparr>
                else if kind = ''personal_access_token'' then s\<lparr>lsPersonalAccessToken := lsPersonalAccessToken s + 1\<rparr> else s);
          s2 = (if stDisabled state then s1\<lparr>lsDisabled := lsDisabled s1 + 1\<rparr>
                else if stSynced state \<or> \<not> managed then s1\<lparr>lsActive := lsActive s1 + 1\<rparr> else s1)
      in if managed \<and> \<not> stSynced state then s2\<lparr>lsUnsynced := lsUnsynced s2 + 1\<rparr> else s2)"

definition handleIdentities :: "Config \<Rightarrow> ('u, 'w) Server \<Rightarrow> http_request \<Rightarrow> ('u, 'w) world \<Rightarrow> list_reply reply \<times> ('u, 'w) world" where
  "handleIdentities cfg sv rq w =
     (if hrMethod rq \<noteq> ''GET'' then (Inl (405, ''method not allowed''), w)
      else if \<not> authorizeManagement cfg rq then (Inl (401, ''unauthorized''), w)
      else let identities = sort_key pubID (ListPublic (stored w)); managed = svChannels sv \<noteq> None;
               (states, syncError, w') = (case svChannels sv of
                  None \<Rightarrow> ([], [], w)
                | Some (m, api) \<Rightarrow>
                    (case on_cpa (IdentityStatesForCredentials (svCrypto sv) m api (hrCtx rq) (map cpaCredentialFromPublic identities)) w of
                       (Inl _, w1) \<Rightarrow> ([], ''CPA Codex credential status unavailable'', w1)
                     | (Inr states, w1) \<Rightarrow> (states, [], w1))) in
        (Inr \<lparr>lrIdentities = map (list_item managed (svNow sv (wTick w)) states) identities,
              lrSummary = fold (count_identity managed states) identities
                \<lparr>lsTotal = length identities, lsActive = 0, lsDisabled = 0, lsAgentIdentity = 0, lsPersonalAccessToken = 0, lsUnsynced = 0\<rparr>,
              lrChannelManagement = managed, lrSyncError = syncError\<rparr>, tick 1 w'))"

section \<open>One identity\<close>

definition rollback_timeout :: nat where "rollback_timeout = 15000 * millisecond"

definition deletion_rollback :: "('u, 'w) Server \<Rightarrow> AuthFileSnapshot list \<Rightarrow> ('u, 'w) world \<Rightarrow> string \<times> ('u, 'w) world" where
  "deletion_rollback sv removed w =
     (case svChannels sv of
        None \<Rightarrow> (''not_needed'', w)
      | Some (m, api) \<Rightarrow>
          if removed = [] then (''not_needed'', w)
          else case on_cpa (RestoreAuthFiles m api (Some (clk (wCpa w) + rollback_timeout)) removed) w of
            (Inl _, w') \<Rightarrow> (''failed'', w')
          | (Inr _, w') \<Rightarrow> (''attempted'', w'))"

definition deleteIdentity ::
  "Config \<Rightarrow> ('u, 'w) Server \<Rightarrow> ctx \<Rightarrow> string \<Rightarrow> Identity \<Rightarrow> ('u, 'w) world \<Rightarrow> json_reply \<times> ('u, 'w) world" where
  "deleteIdentity cfg sv ctx i previous w =
     (case createIdentityDeleteBackup sv (cfBackupDir cfg) ctx previous w of
        (Inl _, w1) \<Rightarrow> (fail 502 ''failed to create delete backup'', w1)
      | (Inr (_, backupID), w1) \<Rightarrow>
     (case (case svChannels sv of
              None \<Rightarrow> (Inr [], w1)
            | Some (m, api) \<Rightarrow> on_cpa (RemoveCredentialWithSnapshot (svCrypto sv) m api ctx (cpaCredentialFromStored previous)) w1) of
        (Inl _, w2) \<Rightarrow> ((502, [(''error'', JStr ''failed to remove CPA Codex credential''), (''backup_id'', JStr backupID)]), w2)
      | (Inr removed, w2) \<Rightarrow>
     (case store_delete sv i w2 of
        (Inr _, w3) \<Rightarrow> ((200, [(''status'', JStr ''ok''), (''backup_id'', JStr backupID), (''backup_created'', JBool True)]), w3)
      | (Inl err, w3) \<Rightarrow>
          (case deletion_rollback sv removed w3 of
             (rollback, w4) \<Rightarrow>
               (if err = NotExist
                then ((404, [(''error'', JStr ''identity not found''), (''backup_id'', JStr backupID), (''rollback'', JStr rollback)]), w4)
                else ((500, [(''error'', JStr ''failed to delete identity''), (''backup_id'', JStr backupID), (''rollback'', JStr rollback)]), w4))))))"

definition action_account :: "Identity \<Rightarrow> string" where
  "action_account previous = (if IsPersonalAccessToken (idToken previous) \<and> idAccountScoped previous then idAccountID previous else [])"

definition refreshIdentity ::
  "Config \<Rightarrow> ('u, 'w) Server \<Rightarrow> CpaManager \<times> 'w api \<Rightarrow> ctx \<Rightarrow> string \<Rightarrow> Identity \<Rightarrow> ('u, 'w) world \<Rightarrow> json_reply option \<times> ('u, 'w) world" where
  "refreshIdentity cfg sv ch ctx i previous w =
     (case withIdentityProxy cfg sv ctx (idID previous) [] w of
        (None, w1) \<Rightarrow> (Some (fail 502 ''credential proxy resolution failed''), w1)
      | (Some proxy, w1) \<Rightarrow>
     (case inspect sv proxy (idToken previous) (action_account previous) w1 of
        (Inl err, w2) \<Rightarrow>
          (Some (if CredentialServiceUnavailable err then fail 502 ''credential validation service is unavailable''
                 else fail 400 ''stored codex credential is no longer valid''), w2)
      | (Inr credential, w2) \<Rightarrow>
          if TrimSpace (idClientKey previous) = [] then (Some (fail 409 ''legacy credential must be re-imported''), w2)
          else (case store_update sv i (storeMetadata (Some credential) (idAccountScoped previous)) w2 of
             (Inl _, w3) \<Rightarrow> (Some (fail 500 ''failed to update credential metadata''), w3)
           | (Inr _, w3) \<Rightarrow>
               (case on_cpa (UpsertIdentity (svCrypto sv) (fst ch) (snd ch) ctx (cpaCredential i (idClientKey previous) (idToken previous) (Some credential))) w3 of
                  (Inl err, w4) \<Rightarrow> (let e = cpaSynchronizationImportError err in (Some (fail (meStatusCode e) (meMessage e)), w4))
                | (Inr _, w4) \<Rightarrow> (None, w4)))))"

definition decode_action :: "http_request \<Rightarrow> string option" where
  "decode_action rq =
     Option.bind (read_limit 4096 rq) (\<lambda>b. Option.bind (first_json b) (\<lambda>v. Option.bind (struct_keys v) (\<lambda>kvs. field dec_str ''action'' kvs [])))"

definition identityAction ::
  "Config \<Rightarrow> ('u, 'w) Server \<Rightarrow> http_request \<Rightarrow> string \<Rightarrow> Identity \<Rightarrow> ('u, 'w) world \<Rightarrow> json_reply \<times> ('u, 'w) world" where
  "identityAction cfg sv rq i previous w =
     (case decode_action rq of
        None \<Rightarrow> (fail 400 ''invalid action request'', w)
      | Some a \<Rightarrow>
          (let action = ToLower (TrimSpace a); ok = (200, [(''status'', JStr ''ok''), (''action'', JStr action), (''identity_id'', JStr i)]) in
           case svChannels sv of
             None \<Rightarrow> (fail 503 ''CPA channel management unavailable'', w)
           | Some (m, api) \<Rightarrow>
               if action = ''enable'' \<or> action = ''disable'' then
                 (case on_cpa (SetIdentityDisabledForCredential (svCrypto sv) m api (hrCtx rq) (cpaCredentialFromStored previous) (action = ''disable'')) w of
                    (Inl _, w') \<Rightarrow> (fail 502 ''failed to update CPA Codex credential state'', w')
                  | (Inr _, w') \<Rightarrow> (ok, w'))
               else if action = ''refresh'' then
                 (case refreshIdentity cfg sv (m, api) (hrCtx rq) i previous w of
                    (Some err, w') \<Rightarrow> (err, w')
                  | (None, w') \<Rightarrow> (ok, w'))
               else (fail 400 ''unsupported identity action'', w)))"

definition handleIdentity :: "Config \<Rightarrow> ('u, 'w) Server \<Rightarrow> http_request \<Rightarrow> ('u, 'w) world \<Rightarrow> json_reply \<times> ('u, 'w) world" where
  "handleIdentity cfg sv rq w =
     (if \<not> authorizeManagement cfg rq then (fail 401 ''unauthorized'', w)
      else case identityRequestPath (Path (hrURL rq)) of (i, actionPath) \<Rightarrow>
        if i = [] then (fail 400 ''identity id is required'', w)
        else case GetByID (stored w) i of
          None \<Rightarrow> (fail 404 ''identity not found'', w)
        | Some previous \<Rightarrow>
            if hrMethod rq = ''DELETE'' \<and> actionPath = [] then deleteIdentity cfg sv (hrCtx rq) i previous w
            else if hrMethod rq \<noteq> ''POST'' \<or> actionPath \<noteq> ''actions'' then (fail 405 ''method not allowed'', w)
            else identityAction cfg sv rq i previous w)"

end
