(* ===== verification/Delete_Properties.thy ===== *)
theory Delete_Properties
  imports Server_Handlers Import_Properties Cpa_Guarantees
begin

text \<open>
  Properties of the deletion of an identity: what is deleted is in a verified backup, a failed backup deletes
  nothing and leaves no trace, and no other backup is touched.
\<close>

section \<open>Writing below a directory\<close>

definition only_below :: "string list \<Rightarrow> backup_files \<Rightarrow> backup_files \<Rightarrow> bool" where
  "only_below dir fs fs' \<longleftrightarrow> (\<forall>q. \<not> prefix dir q \<longrightarrow> bfFiles fs' q = bfFiles fs q)"

lemma below_refl [simp]: "only_below dir fs fs"
  by (simp add: only_below_def)

lemma below_trans: "only_below dir fs fs1 \<Longrightarrow> only_below dir fs1 fs2 \<Longrightarrow> only_below dir fs fs2"
  by (simp add: only_below_def)

lemma make_dir_below: "make_dir env p fs = (b, fs') \<Longrightarrow> bfFiles fs' = bfFiles fs"
  by (auto simp: make_dir_def split: if_splits)

lemma write_below: "writeOwnerOnlyBackupFile env p data fs = (b, fs') \<Longrightarrow> prefix dir p \<Longrightarrow> only_below dir fs fs'"
  by (auto simp: writeOwnerOnlyBackupFile_def only_below_def split: if_splits)

lemma backup_auth_below:
  "backup_auth_files C env dir ss fs = (r, fs') \<Longrightarrow> prefix anchor dir \<Longrightarrow> only_below anchor fs fs'"
proof (induction ss arbitrary: fs r fs')
  case (Cons s ss)
  let ?p = "dir @ [filepath_Base (TrimSpace (asName s))]"
  obtain b fs1 where w: "writeOwnerOnlyBackupFile env ?p (asRaw s) fs = (b, fs1)" by fastforce
  obtain y fs2 where y: "backup_auth_files C env dir ss fs1 = (y, fs2)" by fastforce
  have "only_below anchor fs fs1" using write_below [OF w] Cons.prems(2) by simp
  moreover have "only_below anchor fs1 fs2" by (rule Cons.IH [OF y Cons.prems(2)])
  ultimately show ?case using Cons.prems(1) w y by (cases b; cases y) (auto simp: Let_def intro: below_trans split: if_splits)
qed simp

lemma cpa_part_below: "cpa_part C env dir snaps fs = (r, fs') \<Longrightarrow> only_below dir fs fs'"
  by (auto simp: cpa_part_def only_below_def split: if_splits prod.splits bool.splits
      dest!: make_dir_below backup_auth_below [of C env "dir @ [''cpa'']" _ _ _ _ dir])

lemma fill_below:
  assumes "fill_backup C env dir meta sf raw snaps fs = (r, fs')"
  shows "only_below dir fs fs'"
proof -
  obtain b1 fs1 where 1: "make_dir env (dir @ [''store'']) fs = (b1, fs1)" by fastforce
  obtain b2 fs2 where 2: "writeOwnerOnlyBackupFile env (dir @ [''store'', sf]) raw fs1 = (b2, fs2)" by fastforce
  obtain x fs3 where 3: "cpa_part C env dir snaps fs2 = (x, fs3)" by fastforce
  have a: "only_below dir fs fs1" using make_dir_below [OF 1] by (simp add: only_below_def)
  have b: "only_below dir fs fs2" using below_trans [OF a write_below [OF 2]] by simp
  have c: "only_below dir fs fs3" using below_trans [OF b cpa_part_below [OF 3]] .
  have d: "only_below dir fs fs4" if "writeOwnerOnlyBackupFile env (dir @ [''metadata.json'']) mraw fs3 = (b4, fs4)" for mraw b4 fs4
    using below_trans [OF c write_below [OF that]] by simp
  show ?thesis
  proof (cases x)
    case (Inl e)
    then show ?thesis using assms 1 2 3 a b c by (cases b1; cases b2) (simp_all add: fill_backup_def)
  next
    case (Inr auths)
    then show ?thesis using assms 1 2 3 a b c d
      by (cases b1; cases b2) (auto simp: fill_backup_def split: option.splits prod.splits bool.splits if_splits)
  qed
qed

section \<open>What a completed backup holds\<close>

lemma backup_auth_names:
  "backup_auth_files C env dir ss fs = (Inr auths, fs') \<Longrightarrow>
   map (\<lambda>a. (bmName a, bmSHA256 a)) auths = map (\<lambda>s. (asName s, sha256Hex C (asRaw s))) ss"
proof (induction ss arbitrary: fs auths)
  case (Cons s ss)
  then show ?case by (auto simp: Let_def split: if_splits prod.splits sum.splits bool.splits)
qed simp

lemma backup_auth_dotted: "backup_auth_files C env dir ss fs = (Inr auths, fs') \<Longrightarrow> s \<in> set ss \<Longrightarrow> \<not> Contains (asName s) ''..''"
proof (induction ss arbitrary: fs auths)
  case (Cons x ss)
  then show ?case by (auto simp: Let_def split: if_splits prod.splits sum.splits bool.splits)
qed simp

definition backed_up :: "crypto \<Rightarrow> backup_files \<Rightarrow> string list \<Rightarrow> bytes \<Rightarrow> bool" where
  "backed_up C fs p raw \<longleftrightarrow> (\<exists>data. bfFiles fs p = Some data \<and> sha256Hex C data = sha256Hex C raw)"

lemma fill_success:
  assumes "fill_backup C env dir meta sf raw snaps fs = (Inr (), fs')" "bmStoreSHA256 meta = sha256Hex C raw"
  shows "backed_up C fs' (dir @ [''store'', sf]) raw \<and> (\<forall>s \<in> set snaps. backed_up C fs' (dir @ [''cpa'', asName s]) (asRaw s) \<and> \<not> Contains (asName s) ''..'')"
proof -
  from assms(1) obtain fs2 auths fs3 where c: "cpa_part C env dir snaps fs2 = (Inr auths, fs3)"
    and v: "verifyBackupFile C env (dir @ [''store'', sf]) (bmStoreSHA256 meta) fs'"
      "list_all (\<lambda>a. verifyBackupFile C env (dir @ [''cpa'', bmName a]) (bmSHA256 a) fs') auths"
    by (auto simp: fill_backup_def split: prod.splits bool.splits sum.splits option.splits if_splits)
  have names: "map (\<lambda>a. (bmName a, bmSHA256 a)) auths = map (\<lambda>s. (asName s, sha256Hex C (asRaw s))) snaps"
    and dots: "\<forall>s \<in> set snaps. \<not> Contains (asName s) ''..''"
    using c by (auto simp: cpa_part_def dest: backup_auth_names backup_auth_dotted split: if_splits prod.splits bool.splits)
  have "backed_up C fs' (dir @ [''cpa'', asName s]) (asRaw s)" if "s \<in> set snaps" for s
  proof -
    have "(asName s, sha256Hex C (asRaw s)) \<in> set (map (\<lambda>a. (bmName a, bmSHA256 a)) auths)" unfolding names using that by auto
    then obtain a where "a \<in> set auths" "bmName a = asName s" "bmSHA256 a = sha256Hex C (asRaw s)" by auto
    then show ?thesis using v(2) by (fastforce simp: list_all_iff verifyBackupFile_def backed_up_def split: if_splits option.splits)
  qed
  moreover have "backed_up C fs' (dir @ [''store'', sf]) raw"
    using v(1) assms(2) by (auto simp: verifyBackupFile_def backed_up_def split: if_splits option.splits)
  ultimately show ?thesis using dots by blast
qed

lemma write_success:
  assumes "write_backup C env rootDir meta sf raw snaps fs = (Inr (), fs')" "bmStoreSHA256 meta = sha256Hex C raw"
  shows "backed_up C fs' [TrimSpace rootDir, bmBackupID meta, ''store'', sf] raw \<and>
    (\<forall>s \<in> set snaps. backed_up C fs' [TrimSpace rootDir, bmBackupID meta, ''cpa'', asName s] (asRaw s) \<and> \<not> Contains (asName s) ''..'')"
proof -
  from assms(1) obtain fs2 where "fill_backup C env [TrimSpace rootDir, bmBackupID meta] meta sf raw snaps fs2 = (Inr (), fs')"
    by (auto simp: write_backup_def Let_def split: prod.splits bool.splits sum.splits if_splits)
  from fill_success [OF this assms(2)] show ?thesis by simp
qed

text \<open>Files lie below existing directories.\<close>

definition tree_ok :: "backup_files \<Rightarrow> bool" where
  "tree_ok fs \<longleftrightarrow> (\<forall>p q. q \<noteq> [] \<and> bfFiles fs (p @ q) \<noteq> None \<longrightarrow> bfDirs fs p)"

lemma write_failure:
  assumes "write_backup C env rootDir meta sf raw snaps fs = (Inl e, fs')" "tree_ok fs"
    and "\<not> beFails env (BRemoveAll [TrimSpace rootDir, bmBackupID meta])"
  shows "bfFiles fs' = bfFiles fs"
proof -
  let ?dir = "[TrimSpace rootDir, bmBackupID meta]"
  obtain b fs1 where 1: "ensureOwnerOnlyDirectory env rootDir fs = (b, fs1)" by fastforce
  have f1: "bfFiles fs1 = bfFiles fs" "bfDirs fs1 ?dir = bfDirs fs ?dir"
    using 1 by (auto simp: ensureOwnerOnlyDirectory_def Let_def split: if_splits)
  obtain b2 fs2 where 2: "make_dir env ?dir fs1 = (b2, fs2)" by fastforce
  have f2: "bfFiles fs2 = bfFiles fs" using make_dir_below [OF 2] f1 by simp
  have void: "bfFiles fs q = None" if b: "b2" and q: "prefix ?dir q" for q
  proof -
    have "\<not> present ?dir fs" using 2 b f1 by (auto simp: make_dir_def split: if_splits)
    moreover obtain zs where "q = ?dir @ zs" using q by (auto simp: prefix_def)
    ultimately show ?thesis using assms(2) [unfolded tree_ok_def, rule_format, of zs ?dir] by (cases "zs = []"; cases "bfFiles fs (?dir @ zs)") auto
  qed
  have clean: "bfFiles (remove_all env ?dir fs3) = bfFiles fs" if "b2" "only_below ?dir fs2 fs3" for fs3
  proof
    fix q
    show "bfFiles (remove_all env ?dir fs3) q = bfFiles fs q"
    proof (cases "prefix ?dir q")
      case True
      have "b2" by (rule that)
      with True have "bfFiles fs q = None" using void by blast
      then show ?thesis using True assms(3) by (simp add: remove_all_def)
    next
      case False
      then show ?thesis using that(2) f2 by (simp add: remove_all_def only_below_def)
    qed
  qed
  obtain r fs3 where 3: "fill_backup C env ?dir meta sf raw snaps fs2 = (r, fs3)" by fastforce
  show ?thesis
    using assms(1) 1 2 3 f1 f2 clean [of fs3] clean [of fs2] fill_below [OF 3]
    by (cases b; cases b2; cases r) (auto simp: write_backup_def Let_def split: if_splits)
qed

section \<open>The backup of an identity\<close>

lemma snapshot_fact:
  assumes srv: "file_server m api files" and u: "SnapshotCredential C m api ctx credential e = (r, e')"
  defines "c \<equiv> normalizeCredential credential"
  shows "files (wld e') = files (wld e) \<and>
    (\<forall>snaps n raw. r = Inr snaps \<and> n \<in> fst ` set (managedAuthFileCandidates C c) \<and> seen (files (wld e)) n = Some raw \<and>
       managedCredentialMatchScore raw c \<noteq> None \<longrightarrow> (\<exists>s \<in> set snaps. asName s = n \<and> asRaw s = raw))"
proof (cases "validateIdentityID (crIdentityID c)")
  case False
  then show ?thesis using u by (auto simp: SnapshotCredential_def Let_def c_def)
next
  case True
  have nc: "normalizeCredential c = c" by (simp add: c_def normalize_idem)
  obtain d e1 where d: "managedAuthFilesForCredentials C m api ctx [c] e = (d, e1)" by fastforce
  note fd = discover_fact [OF srv nc True d]
  show ?thesis
  proof (cases d)
    case (Inl err)
    then show ?thesis using u True d fd by (auto simp: SnapshotCredential_def Let_def c_def)
  next
    case (Inr found)
    have out: "e' = e1" "r = Inr (snapshotsForCredential found c)"
      using u True d Inr by (auto simp: SnapshotCredential_def Let_def simp flip: c_def)
    have h: "holds_files (files (wld e)) found"
      "complete_files (files (wld e)) [crIdentityID c] (fst ` set (managedAuthFileCandidates C c)) found" using fd Inr by simp_all
    have "\<exists>s \<in> set (snapshotsForCredential found c). asName s = n \<and> asRaw s = raw"
      if "n \<in> fst ` set (managedAuthFileCandidates C c)" "seen (files (wld e)) n = Some raw" "managedCredentialMatchScore raw c \<noteq> None" for n raw
    proof -
      have "n \<in> asName ` set (snapshotsForCredential found c)"
        using matching_names_complete [OF h nc that] snapshots_of(1) [OF h(1)] by simp
      then obtain s where "s \<in> set (snapshotsForCredential found c)" "asName s = n" by auto
      moreover then have "asRaw s = raw" using snapshots_of(2) [OF h(1)] that(2) by fastforce
      ultimately show ?thesis by blast
    qed
    then show ?thesis using fd out by auto
  qed
qed

lemma backup_created:
  assumes "createIdentityDeleteBackup sv dir ctx i w = (Inr (b, backupID), w')"
  shows "\<exists>sf doc snaps. SnapshotFile (svOS sv (wTick w)) (idID i) (wStore w) = Inr (sf, doc) \<and> wStore w' = wStore w \<and>
    backed_up (svCrypto sv) (wBackup w') [TrimSpace dir, backupID, ''store'', sf] (svDocText sv doc) \<and>
    (\<forall>s \<in> set snaps. backed_up (svCrypto sv) (wBackup w') [TrimSpace dir, backupID, ''cpa'', asName s] (asRaw s) \<and> \<not> Contains (asName s) ''..'') \<and>
    (case svChannels sv of None \<Rightarrow> wCpa w' = wCpa w
     | Some (m, api) \<Rightarrow> SnapshotCredential (svCrypto sv) m api ctx (cpaCredentialFromStored i) (wCpa w) = (Inr snaps, wCpa w'))"
proof -
  let ?w = "tick 1 w"
  have ne: "TrimSpace (idID i) \<noteq> []" using assms by (auto simp: createIdentityDeleteBackup_def Let_def)
  obtain sf doc where sf: "SnapshotFile (svOS sv (wTick w)) (idID i) (wStore w) = Inr (sf, doc)"
    using assms ne by (auto simp: createIdentityDeleteBackup_def Let_def split: sum.splits)
  obtain x w1 where x: "(case svChannels sv of None \<Rightarrow> (Inr [], ?w)
      | Some (m, api) \<Rightarrow> on_cpa (SnapshotCredential (svCrypto sv) m api ctx (cpaCredentialFromStored i)) ?w) = (x, w1)" by fastforce
  note u = assms [unfolded createIdentityDeleteBackup_def Let_def if_not_P [OF ne] tick_fields sf sum.case prod.case x]
  obtain snaps where snaps: "x = Inr snaps" using u by (cases x) auto
  let ?id = "backup_stamp (svNow sv (wTick w)) @ ''-'' @ TrimPrefix (idID i) ''agent-''"
  let ?meta = "backup_metadata (svCrypto sv) ?id (svNow sv (wTick w)) i sf (svDocText sv doc)"
  obtain y fs where y: "write_backup (svCrypto sv) (svBackupEnv sv (wTick w)) dir ?meta sf (svDocText sv doc) snaps (wBackup w1) = (y, fs)" by fastforce
  have out: "y = Inr ()" "backupID = ?id" "w' = w1\<lparr>wBackup := fs\<rparr>" using u y snaps by (cases y; auto)+
  have "backed_up (svCrypto sv) fs [TrimSpace dir, ?id, ''store'', sf] (svDocText sv doc)"
    "\<forall>s \<in> set snaps. backed_up (svCrypto sv) fs [TrimSpace dir, ?id, ''cpa'', asName s] (asRaw s) \<and> \<not> Contains (asName s) ''..''"
    using write_success [OF y [unfolded out(1)]] by (simp_all add: backup_metadata_def)
  moreover have "wStore w1 = wStore w" "case svChannels sv of None \<Rightarrow> wCpa w1 = wCpa w
     | Some (m, api) \<Rightarrow> SnapshotCredential (svCrypto sv) m api ctx (cpaCredentialFromStored i) (wCpa w) = (Inr snaps, wCpa w1)"
    using x snaps by (auto split: option.splits dest: on_cpa_frame)
  ultimately show ?thesis using sf out by (auto split: option.splits)
qed

lemma backup_failed:
  assumes "createIdentityDeleteBackup sv dir ctx i w = (Inl e, w')"
  shows "wStore w' = wStore w \<and> (wCpa w' = wCpa w \<or>
    (\<exists>m api. svChannels sv = Some (m, api) \<and> wCpa w' = snd (SnapshotCredential (svCrypto sv) m api ctx (cpaCredentialFromStored i) (wCpa w))))"
proof -
  let ?w = "tick 1 w"
  obtain x w1 where x: "(case svChannels sv of None \<Rightarrow> (Inr [], ?w)
      | Some (m, api) \<Rightarrow> on_cpa (SnapshotCredential (svCrypto sv) m api ctx (cpaCredentialFromStored i)) ?w) = (x, w1)" by fastforce
  have w1: "wStore w1 = wStore w" "wCpa w1 = wCpa w \<or> (\<exists>m api. svChannels sv = Some (m, api) \<and>
      wCpa w1 = snd (SnapshotCredential (svCrypto sv) m api ctx (cpaCredentialFromStored i) (wCpa w)))"
    using x by (auto split: option.splits dest!: on_cpa_frame)
  have "wStore w' = wStore w \<and> (wCpa w' = wCpa w \<or> wCpa w' = wCpa w1)"
    using assms w1(1) unfolding createIdentityDeleteBackup_def Let_def x
    by (auto split: if_splits sum.splits prod.splits)
  with w1(2) show ?thesis by auto
qed

text \<open>After the backup was made, a deletion does not touch the backup directory again, whether it succeeds or is rolled back.\<close>

lemma deletion_keeps_backup:
  assumes x: "createIdentityDeleteBackup sv (cfBackupDir cfg) ctx previous w = (Inr (b, backupID), w1)"
    and d: "deleteIdentity cfg sv ctx i previous w = (reply, w')"
  shows "wBackup w' = wBackup w1"
proof -
  obtain r w2 where r: "(case svChannels sv of None \<Rightarrow> (Inr [], w1)
      | Some (m, api) \<Rightarrow> on_cpa (RemoveCredentialWithSnapshot (svCrypto sv) m api ctx (cpaCredentialFromStored previous)) w1) = (r, w2)" by fastforce
  have b2: "wBackup w2 = wBackup w1" using r by (auto split: option.splits dest: on_cpa_frame)
  have roll: "wBackup (snd (deletion_rollback sv rem v)) = wBackup v" for rem v
    by (auto simp: deletion_rollback_def split: option.splits prod.splits sum.splits dest: on_cpa_frame)
  show ?thesis
  proof (cases r)
    case (Inl e)
    then show ?thesis using d x r b2 by (simp add: deleteIdentity_def)
  next
    case (Inr removed)
    obtain z w3 where z: "store_delete sv i w2 = (z, w3)" by fastforce
    have "wBackup w3 = wBackup w2" using store_frames(3) [OF z] by simp
    moreover have "w' = w3 \<or> w' = snd (deletion_rollback sv removed w3)"
      using d x r Inr z by (cases z) (auto simp: deleteIdentity_def split: prod.splits if_splits)
    ultimately show ?thesis using roll b2 by auto
  qed
qed


text \<open>
  A failed backup leaves no trace.  When writing the backup fails at any point, the files of the backup directory are the ones that were there
  before (provided the final removal of the directory works), and no other backup is ever touched.
\<close>

theorem failed_backup_leaves_nothing:
  assumes "tree_ok fs" "write_backup C env rootDir meta sf raw snaps fs = (r, fs')"
    and "\<not> beFails env (BRemoveAll [TrimSpace rootDir, bmBackupID meta])"
  shows "(\<forall>e. r = Inl e \<longrightarrow> bfFiles fs' = bfFiles fs) \<and>
    (\<forall>q. \<not> prefix [TrimSpace rootDir, bmBackupID meta] q \<longrightarrow> bfFiles fs' q = bfFiles fs q)"
proof (cases r)
  case (Inl e)
  then show ?thesis using write_failure [OF assms(2) [unfolded Inl] assms(1,3)] by auto
next
  case (Inr u)
  let ?dir = "[TrimSpace rootDir, bmBackupID meta]"
  from assms(2) Inr obtain fs1 fs2 where f: "ensureOwnerOnlyDirectory env rootDir fs = (True, fs1)" "make_dir env ?dir fs1 = (True, fs2)"
      "fill_backup C env ?dir meta sf raw snaps fs2 = (Inr (), fs')"
    by (auto simp: write_backup_def Let_def split: prod.splits bool.splits sum.splits if_splits)
  have "bfFiles fs2 = bfFiles fs" using make_dir_below [OF f(2)] f(1) by (auto simp: ensureOwnerOnlyDirectory_def Let_def split: if_splits)
  with fill_below [OF f(3)] Inr show ?thesis by (simp add: only_below_def)
qed

text \<open>
  An auth file with two dots blocks deletion.  The names of auth files come from e-mail addresses and may contain \<^verbatim>\<open>..\<close>; CPA
  synchronisation accepts them, but the backup refuses them, so the identity can never be deleted: every attempt is
  answered with 502 and leaves the store as it is.
\<close>

theorem dotted_auth_file_blocks_deletion:
  assumes "svChannels sv = Some (m, api)"
    and "SnapshotCredential (svCrypto sv) m api ctx (cpaCredentialFromStored previous) (wCpa w) = (Inr snaps, e')"
    and "s \<in> set snaps" "Contains (asName s) ''..''"
  shows "fst (fst (deleteIdentity cfg sv ctx i previous w)) = 502 \<and> wStore (snd (deleteIdentity cfg sv ctx i previous w)) = wStore w"
proof -
  obtain x w1 where x: "createIdentityDeleteBackup sv (cfBackupDir cfg) ctx previous w = (x, w1)" by fastforce
  show ?thesis
  proof (cases x)
    case (Inl e)
    then show ?thesis using backup_failed [OF x [unfolded Inl]] x by (simp add: deleteIdentity_def fail_def)
  next
    case (Inr y)
    then show ?thesis using backup_created [of sv _ ctx previous w "fst y" "snd y" w1] x assms by fastforce
  qed
qed

end
