(* ===== verification/Api_Call.thy ===== *)
theory Api_Call
  imports Server_Http Quota_Policy
begin

text \<open>
  The management request that CPA's keeper sends for a quota query (\<^verbatim>\<open>internal/server/api_call_json.go\<close>), and what the
  server uses of \<^verbatim>\<open>http.Header\<close>.  A header is the list of its fields; a name stands for its canonical form.
\<close>

section \<open>Headers\<close>

text \<open>\<^verbatim>\<open>textproto.CanonicalMIMEHeaderKey\<close>: a name with a byte that no header field may have is left alone.\<close>

definition header_byte :: "char \<Rightarrow> bool" where
  "header_byte c \<longleftrightarrow> alnum c \<or> c \<in> set ''!#$%&*+-.^_|~'' \<or> byte c = 39 \<or> byte c = 96"

fun canon_loop :: "bool \<Rightarrow> string \<Rightarrow> string" where
  "canon_loop up [] = []"
| "canon_loop up (c # cs) = (if up then upper_byte c else lower_byte c) # canon_loop (c = CHR ''-'') cs"

definition CanonicalHeaderKey :: "string \<Rightarrow> string" where
  "CanonicalHeaderKey s = (if list_all header_byte s then canon_loop True s else s)"

type_synonym header = "(string \<times> string) list"

definition header_values :: "header \<Rightarrow> string \<Rightarrow> string list" where
  "header_values hs name = map snd (filter (\<lambda>(k, _). CanonicalHeaderKey k = CanonicalHeaderKey name) hs)"

definition header_del :: "string \<Rightarrow> header \<Rightarrow> header" where
  "header_del name hs = filter (\<lambda>(k, _). CanonicalHeaderKey k \<noteq> CanonicalHeaderKey name) hs"

definition header_set :: "string \<Rightarrow> string \<Rightarrow> header \<Rightarrow> header" where
  "header_set name value hs = header_del name hs @ [(CanonicalHeaderKey name, value)]"

section \<open>The request\<close>

record cpaAPICallRequest =
  acProxyURL :: string
  acAuthIndexSnake :: "string option"
  acAuthIndexCamel :: "string option"
  acAuthIndexPascal :: "string option"
  acMethod :: string
  acURL :: string
  acHeader :: "string gomap"
  acData :: string

definition normalizeAPICallJSONFieldName :: "string \<Rightarrow> string" where
  "normalizeAPICallJSONFieldName value =
     concat (filter (\<lambda>r. \<not> (r = ''_'' \<or> r = ''-'' \<or> r \<in> set space_encodings)) (runes (ToLower (TrimSpace value))))"

definition lookupAPICallJSONField :: "json gomap \<Rightarrow> string \<Rightarrow> json option" where
  "lookupAPICallJSONField object alias =
     (case map_get object alias of
        Some raw \<Rightarrow> Some raw
      | None \<Rightarrow>
          (case sort (filter (\<lambda>k. normalizeAPICallJSONFieldName k = normalizeAPICallJSONFieldName alias) (map fst object)) of
             [] \<Rightarrow> None
           | k # _ \<Rightarrow> map_get object k))"

definition decodeAPICallString :: "json \<Rightarrow> string option" where
  "decodeAPICallString raw = (case raw of JNull \<Rightarrow> Some [] | JStr s \<Rightarrow> Some s | _ \<Rightarrow> None)"

definition decodeAPICallStringOrNumber :: "json \<Rightarrow> string option option" where
  "decodeAPICallStringOrNumber raw =
     (case raw of JNull \<Rightarrow> Some None | JStr s \<Rightarrow> Some (Some s) | JNum t \<Rightarrow> Some (Some t) | _ \<Rightarrow> None)"

fun decode_call_header :: "(string \<times> json) list \<Rightarrow> string gomap \<Rightarrow> string gomap option" where
  "decode_call_header [] m = Some m"
| "decode_call_header ((k, v) # kvs) m =
     (case dec_str [] v of None \<Rightarrow> None | Some s \<Rightarrow> decode_call_header kvs (map_put k s m))"

definition header_field :: "json option \<Rightarrow> string gomap option" where
  "header_field raw =
     (case raw of None \<Rightarrow> Some [] | Some JNull \<Rightarrow> Some [] | Some (JObj kvs) \<Rightarrow> decode_call_header kvs [] | Some _ \<Rightarrow> None)"

definition string_field :: "json option \<Rightarrow> string option" where
  "string_field raw = (case raw of None \<Rightarrow> Some [] | Some v \<Rightarrow> decodeAPICallString v)"

definition index_field :: "json option \<Rightarrow> string option option" where
  "index_field raw = (case raw of None \<Rightarrow> Some None | Some v \<Rightarrow> decodeAPICallStringOrNumber v)"

text \<open>\<^verbatim>\<open>UnmarshalJSON\<close>: of a key that occurs twice, the map keeps the last value.\<close>

definition UnmarshalAPICall :: "json \<Rightarrow> cpaAPICallRequest option" where
  "UnmarshalAPICall v =
     Option.bind (struct_keys v) (\<lambda>kvs.
     let object = fold (\<lambda>(k, x). map_put k x) kvs []; get = lookupAPICallJSONField object in
     Option.bind (index_field (get ''auth_index'')) (\<lambda>snake.
     Option.bind (index_field (get ''authIndex'')) (\<lambda>camel.
     Option.bind (index_field (get ''AuthIndex'')) (\<lambda>pascal.
     Option.bind (string_field (get ''method'')) (\<lambda>method.
     Option.bind (string_field (get ''url'')) (\<lambda>url.
     Option.bind (string_field (get ''proxy_url'')) (\<lambda>proxy.
     Option.bind (header_field (get ''header'')) (\<lambda>header.
     Option.bind (string_field (get ''data'')) (\<lambda>payload.
       Some \<lparr>acProxyURL = proxy, acAuthIndexSnake = snake, acAuthIndexCamel = camel, acAuthIndexPascal = pascal,
             acMethod = method, acURL = url, acHeader = header, acData = payload\<rparr>)))))))))"

definition containsSidecarCredentialHeader :: "string gomap \<Rightarrow> bool" where
  "containsSidecarCredentialHeader headers =
     list_ex (\<lambda>(name, value). EqualFold (TrimSpace name) ''authorization'' \<and> HasPrefix (bearerToken value) ''cais_'') headers"

definition firstNonEmpty :: "string option list \<Rightarrow> string" where
  "firstNonEmpty values = first_trimmed (List.map_filter (\<lambda>v. v) values)"

definition blockedForwardHeader :: "string \<Rightarrow> bool" where
  "blockedForwardHeader name \<longleftrightarrow>
     ToLower (TrimSpace name) \<in> set [''authorization'', ''chatgpt-account-id'', ''x-openai-fedramp'', ''host'', ''content-length'', ''connection'',
       ''proxy-authorization'', ''proxy-authenticate'', ''te'', ''trailer'', ''transfer-encoding'', ''upgrade'']"

section \<open>Lemmas on headers\<close>

lemma values_del: "header_values (header_del n hs) m = (if CanonicalHeaderKey n = CanonicalHeaderKey m then [] else header_values hs m)"
  by (induction hs) (auto simp: header_values_def header_del_def)

lemma values_append: "header_values (hs @ gs) m = header_values hs m @ header_values gs m"
  by (simp add: header_values_def)

lemma lower_byte_value: "byte (lower_byte c) = (if is_upper c then byte c + 32 else byte c)"
  by (auto simp: lower_byte_def is_upper_def byte_def)

lemma upper_byte_value: "byte (upper_byte c) = (if is_lower c then byte c - 32 else byte c)"
  by (auto simp: upper_byte_def is_lower_def byte_def)

lemma byte_eq: "byte c = byte d \<longleftrightarrow> c = d"
  by (simp add: byte_def)

lemma case_folds:
  "lower_byte (lower_byte c) = lower_byte c" "upper_byte (upper_byte c) = upper_byte c" "lower_byte (upper_byte c) = lower_byte c"
  "lower_byte c = CHR ''-'' \<longleftrightarrow> c = CHR ''-''" "upper_byte c = CHR ''-'' \<longleftrightarrow> c = CHR ''-''"
proof -
  have dash: "c = CHR ''-'' \<longleftrightarrow> byte c = 45" for c using byte_eq [of c "CHR ''-''"] by (simp add: byte_def)
  show "lower_byte c = CHR ''-'' \<longleftrightarrow> c = CHR ''-''" "upper_byte c = CHR ''-'' \<longleftrightarrow> c = CHR ''-''"
    by (auto simp: dash lower_byte_value upper_byte_value is_upper_def is_lower_def)
qed (auto simp: byte_eq [symmetric] lower_byte_value upper_byte_value is_upper_def is_lower_def)

lemma header_byte_folds: "header_byte (lower_byte c) = header_byte c" "header_byte (upper_byte c) = header_byte c"
proof -
  have "lower_byte c = c" if "\<not> is_upper c" using that by (simp add: lower_byte_def)
  moreover have "is_lower (lower_byte c)" if "is_upper c" using that by (auto simp: lower_byte_value is_upper_def is_lower_def)
  moreover have "upper_byte c = c" if "\<not> is_lower c" using that by (simp add: upper_byte_def)
  moreover have "is_upper (upper_byte c)" if "is_lower c" using that by (auto simp: upper_byte_value is_upper_def is_lower_def)
  ultimately show "header_byte (lower_byte c) = header_byte c" "header_byte (upper_byte c) = header_byte c"
    by (metis alnum_def header_byte_def)+
qed

lemma canon_bytes: "list_all header_byte (canon_loop up s) = list_all header_byte s"
  by (induction s arbitrary: up) (auto simp: header_byte_folds)

lemma canon_loop_idem: "canon_loop up (canon_loop up s) = canon_loop up s"
  by (induction s arbitrary: up) (auto simp: case_folds)

lemma canon_lower: "map lower_byte (canon_loop up s) = map lower_byte s"
  by (induction s arbitrary: up) (auto simp: case_folds)

lemma canonical_idem [simp]: "CanonicalHeaderKey (CanonicalHeaderKey s) = CanonicalHeaderKey s"
  by (simp add: CanonicalHeaderKey_def canon_bytes canon_loop_idem)

lemma values_set: "header_values (header_set n v hs) m = (if CanonicalHeaderKey n = CanonicalHeaderKey m then [v] else header_values hs m)"
  by (auto simp: header_set_def values_append values_del) (auto simp: header_values_def)

lemma header_byte_plain: "header_byte c \<Longrightarrow> 33 \<le> byte c \<and> byte c < 127"
  by (auto simp: header_byte_def alnum_def is_digit_def is_lower_def is_upper_def) (auto simp: byte_def)

lemma same_header:
  assumes "CanonicalHeaderKey n = CanonicalHeaderKey m" "list_all header_byte m"
  shows "ToLower (TrimSpace n) = map lower_byte m"
proof -
  have n: "list_all header_byte n" using assms canon_bytes by (metis CanonicalHeaderKey_def)
  have "map lower_byte n = map lower_byte m" using assms n canon_lower by (metis CanonicalHeaderKey_def)
  moreover have "\<forall>c \<in> set n. \<not> space_byte c \<and> byte c < 128" using n header_byte_plain by (fastforce simp: list_all_iff space_byte_def)
  then have "TrimSpace n = n" "ToLower n = map lower_byte n" by (auto intro: TrimSpace_plain ToLower_ascii)
  ultimately show ?thesis by simp
qed

end
