(* ===== verification/Server_Proxy.thy ===== *)
theory Server_Proxy
  imports Server_Handlers Api_Call
begin

text \<open>
  The data path of the server (\<^verbatim>\<open>internal/server/server.go\<close>): the quota bridge for CPA's management calls, the reverse proxy for Codex
  requests, and the transport that renews an agent's authorization after a 401.  The upstream is the parameter \<open>svBase\<close> of the server.  What the
  handlers use of \<^verbatim>\<open>net/http\<close> and \<^verbatim>\<open>httputil.ReverseProxy\<close> is modelled; which request \<^verbatim>\<open>http.Client\<close> sends after a redirect is a parameter (\<open>redirect\<close>), as
  is the order in which Go iterates over a map (\<open>order\<close>).
\<close>

definition proxyPathPrefix :: string where "proxyPathPrefix = ''/backend-api/codex''"

section \<open>The transport\<close>

record requestIdentityState =
  rsIdentityID :: string
  rsToken :: string
  rsTokenHash :: string
  rsSessionID :: string
  rsAccountID :: string
  rsKind :: CredentialKind

text \<open>A request on its way to the upstream; \<open>upBody\<close> is \<open>None\<close> without a body, \<open>upReplay\<close> says that \<^verbatim>\<open>GetBody\<close> is set.\<close>

record upstream_request =
  upMethod :: string
  upURL :: url
  upHeader :: header
  upBody :: "bytes option"
  upReplay :: bool
  upProxy :: string
  upState :: "requestIdentityState option"

definition wire :: "upstream_request \<Rightarrow> request" where
  "wire rq = \<lparr>rqMethod = upMethod rq, rqURL = url_String (upURL rq), rqHeader = upHeader rq,
     rqBody = (case upBody rq of None \<Rightarrow> [] | Some b \<Rightarrow> b)\<rparr>"

definition base_call :: "('u, 'w) Server \<Rightarrow> upstream_request \<Rightarrow> ('u, 'w) world \<Rightarrow> http_outcome \<times> ('u, 'w) world" where
  "base_call sv rq w =
     (case wManager w of (m, u) \<Rightarrow>
      case svBase sv (upProxy rq) (wire rq) u of (out, u') \<Rightarrow> (out, w\<lparr>wManager := (m, u')\<rparr>))"

definition set_account :: "Authorization \<Rightarrow> header \<Rightarrow> header" where
  "set_account au hs =
     (let hs = header_set ''Authorization'' (auHeader au) hs in
      if auAccountID au \<noteq> [] then header_set ''ChatGPT-Account-ID'' (auAccountID au) hs else header_del ''ChatGPT-Account-ID'' hs)"

definition set_credentials :: "Authorization \<Rightarrow> header \<Rightarrow> header" where
  "set_credentials au hs =
     (let hs = set_account au hs in
      if auFedRAMP au then header_set ''X-OpenAI-Fedramp'' ''true'' hs else header_del ''X-OpenAI-Fedramp'' hs)"

definition retry_request ::
  "('u, 'w) Server \<Rightarrow> upstream_request \<Rightarrow> requestIdentityState \<Rightarrow> http_outcome \<Rightarrow> ('u, 'w) world \<Rightarrow> http_outcome \<times> ('u, 'w) world" where
  "retry_request sv rq st out w0 =
     (let w = invalidate sv (rsIdentityID st) (rsTokenHash st) (rsSessionID st) w0 in
      if upBody rq \<noteq> None \<and> \<not> upReplay rq then (out, w)
      else case authorize sv (upProxy rq) (rsIdentityID st) (rsToken st) (rsSessionID st) (rsAccountID st) w of
        (Inl _, w') \<Rightarrow> (out, w')
      | (Inr au, w') \<Rightarrow> base_call sv (rq\<lparr>upHeader := set_credentials au (upHeader rq)\<rparr>) w')"

definition RoundTrip :: "('u, 'w) Server \<Rightarrow> upstream_request \<Rightarrow> ('u, 'w) world \<Rightarrow> http_outcome \<times> ('u, 'w) world" where
  "RoundTrip sv rq w =
     (case base_call sv rq w of
        (Response r, w') \<Rightarrow>
          if rsStatus r \<noteq> 401 then (Response r, w')
          else (case upState rq of
                  None \<Rightarrow> (Response r, w')
                | Some st \<Rightarrow>
                    if rsKind st = CredentialKindPersonalAccessToken then (Response r, w')
                    else retry_request sv rq st (Response r) w')
      | (out, w') \<Rightarrow> (out, w'))"

text \<open>\<^verbatim>\<open>http.Client.Do\<close>: after ten requests a further redirect is an error.\<close>

type_synonym redirects = "upstream_request \<Rightarrow> response \<Rightarrow> upstream_request option"

fun client_requests :: "('u, 'w) Server \<Rightarrow> redirects \<Rightarrow> nat \<Rightarrow> upstream_request \<Rightarrow> ('u, 'w) world \<Rightarrow> http_outcome \<times> ('u, 'w) world" where
  "client_requests sv redirect 0 rq w = (NetError False, w)"
| "client_requests sv redirect (Suc n) rq w =
     (case RoundTrip sv rq w of
        (Response r, w') \<Rightarrow>
          (case redirect rq r of None \<Rightarrow> (Response r, w') | Some rq' \<Rightarrow> client_requests sv redirect n rq' w')
      | (out, w') \<Rightarrow> (out, w'))"

definition upstream_Do :: "('u, 'w) Server \<Rightarrow> redirects \<Rightarrow> upstream_request \<Rightarrow> ('u, 'w) world \<Rightarrow> http_outcome \<times> ('u, 'w) world" where
  "upstream_Do sv redirect rq w = client_requests sv redirect 10 rq w"

section \<open>The quota bridge\<close>

definition selectedAccountID :: "Identity \<Rightarrow> string" where
  "selectedAccountID i = (if \<not> idAccountScoped i \<or> \<not> IsPersonalAccessToken (idToken i) then [] else TrimSpace (idAccountID i))"

definition upstream_state :: "Identity \<Rightarrow> Authorization \<Rightarrow> string \<Rightarrow> requestIdentityState" where
  "upstream_state i au sessionID =
     \<lparr>rsIdentityID = idID i, rsToken = idToken i, rsTokenHash = auTokenHash au, rsSessionID = sessionID,
      rsAccountID = selectedAccountID i, rsKind = auKind au\<rparr>"

datatype api_reply =
    ApiError int string
  | ApiForwarded int string bytes
  | ApiResult int header bytes

definition forwardCPAAPICall ::
  "CpaManager \<Rightarrow> 'w api \<Rightarrow> ctx \<Rightarrow> bytes \<Rightarrow> ('u, 'w) world \<Rightarrow> api_reply \<times> ('u, 'w) world" where
  "forwardCPAAPICall m api ctx raw w =
     (case on_cpa (ForwardAPICall m api ctx raw) w of
        (Inl _, w') \<Rightarrow> (ApiError 502 ''CPA api-call unavailable'', w')
      | (Inr (status, headers, body), w') \<Rightarrow> (ApiForwarded status (header_get headers ''Content-Type'') body, w'))"

definition call_headers :: "(string \<times> string) list \<Rightarrow> Authorization \<Rightarrow> header" where
  "call_headers given au =
     (let hs = fold (\<lambda>(n, v) hs. if blockedForwardHeader n then hs else header_set n v hs) given [];
          hs = set_account au hs in
      if auFedRAMP au then header_set ''X-OpenAI-Fedramp'' ''true'' hs else hs)"

definition personalAccessTokenResetCreditsFallback ::
  "('u, 'w) Server \<Rightarrow> redirects \<Rightarrow> upstream_request \<Rightarrow> ('u, 'w) world \<Rightarrow> (bytes \<times> header) option \<times> ('u, 'w) world" where
  "personalAccessTokenResetCreditsFallback sv redirect original w =
     (let usageURL = (upURL original)\<lparr>Path := ''/backend-api/wham/usage'', RawPath := [], RawQuery := [], Fragment := []\<rparr> in
      case url_Parse (url_String usageURL) of
        None \<Rightarrow> (None, w)
      | Some u \<Rightarrow>
     (case upstream_Do sv redirect
             (original\<lparr>upMethod := ''GET'', upURL := u, upHeader := header_del ''Content-Type'' (header_del ''Content-Length'' (upHeader original)),
                       upBody := None, upReplay := False\<rparr>) w of
        (Response r, w') \<Rightarrow>
          (case LimitReader (16 * mebi) r of
             None \<Rightarrow> (None, w')
           | Some body \<Rightarrow>
               if rsStatus r \<noteq> 200 then (None, w')
               else (map_option (\<lambda>b. (b, header_del ''Transfer-Encoding'' (header_del ''Content-Encoding'' (header_del ''Content-Length''
                       (header_set ''Content-Type'' ''application/json'' (rsHeader r)))))) (ResetCreditDetailsFromUsage body), w'))
      | (_, w') \<Rightarrow> (None, w')))"

definition quota_exchange ::
  "('u, 'w) Server \<Rightarrow> redirects \<Rightarrow> Target \<Rightarrow> Authorization \<Rightarrow> upstream_request \<Rightarrow> ('u, 'w) world \<Rightarrow> api_reply \<times> ('u, 'w) world" where
  "quota_exchange sv redirect target au rq w =
     (case upstream_Do sv redirect rq w of
        (Response r, w1) \<Rightarrow>
          (case LimitReader (16 * mebi) r of
             None \<Rightarrow> (ApiError 502 ''failed to read response'', w1)
           | Some body \<Rightarrow>
               if auKind au = CredentialKindPersonalAccessToken \<and> tgOperation target = OperationResetCreditDetails \<and> rsStatus r \<in> {401, 403} then
                 (case personalAccessTokenResetCreditsFallback sv redirect rq w1 of
                    (None, w2) \<Rightarrow> (ApiResult (rsStatus r) (rsHeader r) body, w2)
                  | (Some (b, hs), w2) \<Rightarrow> (ApiResult 200 hs b, w2))
               else (ApiResult (rsStatus r) (rsHeader r) body, w1))
      | (_, w1) \<Rightarrow> (ApiError 502 ''request failed'', w1))"

definition quota_request :: "(string \<times> string) list \<Rightarrow> string \<Rightarrow> url \<Rightarrow> string \<Rightarrow> Identity \<Rightarrow> Authorization \<Rightarrow> string \<Rightarrow> upstream_request" where
  "quota_request given method u payload i au proxy =
     \<lparr>upMethod = method, upURL = u, upHeader = call_headers given au, upBody = (if payload = [] then None else Some payload),
      upReplay = (payload \<noteq> []), upProxy = proxy, upState = Some (upstream_state i au ''quota'')\<rparr>"

definition quota_call ::
  "Config \<Rightarrow> ('u, 'w) Server \<Rightarrow> redirects \<Rightarrow> ((string \<times> string) list \<Rightarrow> (string \<times> string) list) \<Rightarrow> ctx \<Rightarrow> cpaAPICallRequest \<Rightarrow> string \<Rightarrow>
   Target \<Rightarrow> Identity \<Rightarrow> ('u, 'w) world \<Rightarrow> api_reply \<times> ('u, 'w) world" where
  "quota_call cfg sv redirect order ctx call method target i w =
     (case withIdentityProxy cfg sv ctx (idID i) (acProxyURL call) w of
        (None, w1) \<Rightarrow> (ApiError 502 ''credential proxy resolution failed'', w1)
      | (Some proxy, w1) \<Rightarrow>
     (case authorize sv proxy (idID i) (idToken i) ''quota'' (selectedAccountID i) w1 of
        (Inl _, w2) \<Rightarrow> (ApiError 502 ''codex credential authorization unavailable'', w2)
      | (Inr au, w2) \<Rightarrow>
     (case url_Parse (url_String (tgURL target)) of
        None \<Rightarrow> (ApiError 400 ''failed to build request'', w2)
      | Some u \<Rightarrow> quota_exchange sv redirect target au (quota_request (order (acHeader call)) method u (acData call) i au proxy) w2)))"

text \<open>An intercepted call: the identity behind the auth index, or the fallbacks when there is none.\<close>

definition intercepted_call ::
  "Config \<Rightarrow> ('u, 'w) Server \<Rightarrow> redirects \<Rightarrow> ((string \<times> string) list \<Rightarrow> (string \<times> string) list) \<Rightarrow> CpaManager \<Rightarrow> 'w api \<Rightarrow> ctx \<Rightarrow> bytes \<Rightarrow>
   cpaAPICallRequest \<Rightarrow> string \<Rightarrow> Target \<Rightarrow> ('u, 'w) world \<Rightarrow> api_reply \<times> ('u, 'w) world" where
  "intercepted_call cfg sv redirect order m api ctx raw call method target w =
     (let authIndex = firstNonEmpty [acAuthIndexSnake call, acAuthIndexCamel call, acAuthIndexPascal call];
          sidecarCredential = containsSidecarCredentialHeader (acHeader call) in
      case on_cpa (IdentityIDForAuthIndex m api ctx authIndex) w of
        (Inl _, w1) \<Rightarrow> (ApiError 502 ''CPA credential lookup failed'', w1)
      | (Inr found, w1) \<Rightarrow>
     (case Option.bind found (GetByID (stored w1)) of
        Some i \<Rightarrow> quota_call cfg sv redirect order ctx call method target i w1
      | None \<Rightarrow>
          if sidecarCredential then (ApiError 502 ''sidecar credential lookup failed'', w1)
          else forwardCPAAPICall m api ctx raw w1))"

definition handleCPAAPICall ::
  "Config \<Rightarrow> ('u, 'w) Server \<Rightarrow> redirects \<Rightarrow> ((string \<times> string) list \<Rightarrow> (string \<times> string) list) \<Rightarrow> http_request \<Rightarrow> ('u, 'w) world \<Rightarrow>
   api_reply \<times> ('u, 'w) world" where
  "handleCPAAPICall cfg sv redirect order rq w =
     (if hrMethod rq \<noteq> ''POST'' then (ApiError 405 ''method not allowed'', w)
      else if \<not> authorizeManagement cfg rq then (ApiError 401 ''unauthorized'', w)
      else case svChannels sv of
        None \<Rightarrow> (ApiError 503 ''CPA channel management unavailable'', w)
      | Some (m, api) \<Rightarrow>
     (case read_limit (maxAPICallBodyBytes + 1) rq of
        None \<Rightarrow> (ApiError 400 ''invalid body'', w)
      | Some raw \<Rightarrow>
          if length raw > maxAPICallBodyBytes then (ApiError 413 ''body too large'', w)
          else case Option.bind (json_parse raw) UnmarshalAPICall of
            None \<Rightarrow> (ApiError 400 ''invalid body'', w)
          | Some call \<Rightarrow>
     (let method = ToUpper (TrimSpace (acMethod call)) in
      case Resolve (cfUpstreamOrigin cfg) method (acURL call) of
        None \<Rightarrow> forwardCPAAPICall m api (hrCtx rq) raw w
      | Some target \<Rightarrow> intercepted_call cfg sv redirect order m api (hrCtx rq) raw call method target w)))"

section \<open>The reverse proxy\<close>

definition logicalSessionID :: "header \<Rightarrow> string" where
  "logicalSessionID hs =
     (let v = first_trimmed (map (header_get hs) [''Session_id'', ''Session-Id'', ''Conversation_id'', ''Conversation-Id'']) in
      if v = [] then ''default'' else v)"

text \<open>
  The body of a request after \<^verbatim>\<open>prepareReplayableBody\<close>: \<open>None\<close> when reading failed, otherwise the body and whether it can be sent again.  An empty
  body has length zero afterwards, and the reverse proxy sends none.
\<close>

definition prepareReplayableBody :: "http_request \<Rightarrow> int \<Rightarrow> (bytes option \<times> bool) option" where
  "prepareReplayableBody rq limit =
     (case hrBody rq of
        None \<Rightarrow> Some (None, False)
      | Some b \<Rightarrow>
          if \<not> hrReadable rq then None
          else if int (length b) > limit then Some (Some b, False)
          else Some (if b = [] then None else Some b, True))"

text \<open>\<^verbatim>\<open>httputil.ReverseProxy\<close>: hop-by-hop headers, also the ones that the client lists in \<^verbatim>\<open>Connection\<close>.\<close>

definition hopHeaders :: "string list" where
  "hopHeaders = [''Connection'', ''Proxy-Connection'', ''Keep-Alive'', ''Proxy-Authenticate'', ''Proxy-Authorization'', ''Te'', ''Trailer'',
     ''Transfer-Encoding'', ''Upgrade'']"

definition listed_tokens :: "string \<Rightarrow> string list" where
  "listed_tokens value = filter (\<lambda>t. t \<noteq> []) (map (\<lambda>t. TrimBoth t [CHR '' '', CHR 0x09, CHR 0x0A, CHR 0x0D]) (SplitAt (CHR '','') value))"

definition removeHopByHopHeaders :: "header \<Rightarrow> header" where
  "removeHopByHopHeaders hs = fold header_del hopHeaders (fold header_del (concat (map listed_tokens (header_values hs ''Connection''))) hs)"

definition values_contain_token :: "string list \<Rightarrow> string \<Rightarrow> bool" where
  "values_contain_token values token = list_ex (\<lambda>v. list_ex (\<lambda>t. map lower_byte (TrimBoth t [CHR '' '', CHR 0x09]) = map lower_byte token) (SplitAt (CHR '','') v)) values"

definition upgradeType :: "header \<Rightarrow> string" where
  "upgradeType hs = (if values_contain_token (header_values hs ''Connection'') ''Upgrade'' then header_get hs ''Upgrade'' else [])"

definition printable :: "string \<Rightarrow> bool" where
  "printable s = list_all (\<lambda>c. 32 \<le> byte c \<and> byte c \<le> 126) s"

fun query_clean :: "string \<Rightarrow> bool" where
  "query_clean [] = True"
| "query_clean (c # cs) =
     (if c = CHR '';'' then False
      else if c = CHR ''%'' then
        (case cs of a # b # rest \<Rightarrow> hex_value a \<noteq> None \<and> hex_value b \<noteq> None \<and> query_clean rest | _ \<Rightarrow> False)
      else query_clean cs)"

definition cleanQueryParams :: "url \<Rightarrow> string" where
  "cleanQueryParams u = (if query_clean (RawQuery u) then RawQuery u else Encode (Query u))"

definition joinURLPath :: "url \<Rightarrow> url \<Rightarrow> string \<times> string" where
  "joinURLPath a b =
     (if RawPath a = [] \<and> RawPath b = [] then
        (let aslash = HasSuffix (Path a) ''/''; bslash = HasPrefix (Path b) ''/'' in
         (if aslash \<and> bslash then Path a @ drop 1 (Path b)
          else if \<not> aslash \<and> \<not> bslash then Path a @ ''/'' @ Path b else Path a @ Path b, []))
      else let apath = EscapedPath a; bpath = EscapedPath b; aslash = HasSuffix apath ''/''; bslash = HasPrefix bpath ''/'' in
        if aslash \<and> bslash then (Path a @ drop 1 (Path b), apath @ drop 1 bpath)
        else if \<not> aslash \<and> \<not> bslash then (Path a @ ''/'' @ Path b, apath @ ''/'' @ bpath)
        else (Path a @ Path b, apath @ bpath))"

definition SetURL :: "url \<Rightarrow> url \<Rightarrow> url" where
  "SetURL target u =
     (case joinURLPath target u of (p, rp) \<Rightarrow>
      u\<lparr>Scheme := Scheme target, Host := Host target, Path := p, RawPath := rp,
        RawQuery := (if RawQuery target = [] \<or> RawQuery u = [] then RawQuery target @ RawQuery u else RawQuery target @ ''&'' @ RawQuery u)\<rparr>)"

definition forwarded_names :: "string list" where
  "forwarded_names = [''Forwarded'', ''X-Forwarded-For'', ''X-Forwarded-Host'', ''X-Forwarded-Proto'']"

definition proxy_headers :: "header \<Rightarrow> header" where
  "proxy_headers hs =
     (let up = upgradeType hs;
          h1 = removeHopByHopHeaders hs;
          h2 = (if values_contain_token (header_values hs ''Te'') ''trailers'' then header_set ''Te'' ''trailers'' h1 else h1);
          h3 = (if up \<noteq> [] then header_set ''Upgrade'' up (header_set ''Connection'' ''Upgrade'' h2) else h2);
          h4 = fold header_del [''X-Agent-Identity-Sidecar-Key'', ''X-Agent-Identity-ID''] (fold header_del forwarded_names h3) in
      if header_values h4 ''User-Agent'' = [] then header_set ''User-Agent'' [] h4 else h4)"

datatype proxy_reply = ProxyError int string | Proxied response | DirectImage upstream_request

definition serve_proxy :: "('u, 'w) Server \<Rightarrow> url \<Rightarrow> upstream_request \<Rightarrow> ('u, 'w) world \<Rightarrow> proxy_reply \<times> ('u, 'w) world" where
  "serve_proxy sv origin rq w =
     (if \<not> printable (upgradeType (upHeader rq)) then (ProxyError 502 ''upstream unavailable'', w)
      else let u = upURL rq in
        case RoundTrip sv (rq\<lparr>upURL := SetURL origin (u\<lparr>RawQuery := cleanQueryParams u\<rparr>), upHeader := proxy_headers (upHeader rq)\<rparr>) w of
          (Response r, w') \<Rightarrow> (Proxied (r\<lparr>rsHeader := removeHopByHopHeaders (rsHeader r)\<rparr>), w')
        | (_, w') \<Rightarrow> (ProxyError 502 ''upstream unavailable'', w'))"

definition isCodexDirectImagePath :: "string \<Rightarrow> bool" where
  "isCodexDirectImagePath requestPath \<longleftrightarrow>
     TrimSpace requestPath = ''/backend-api/codex/images/generations'' \<or> TrimSpace requestPath = ''/backend-api/codex/images/edits''"

definition handleProxy ::
  "Config \<Rightarrow> ('u, 'w) Server \<Rightarrow> url \<Rightarrow> http_request \<Rightarrow> ('u, 'w) world \<Rightarrow> proxy_reply \<times> ('u, 'w) world" where
  "handleProxy cfg sv origin rq w =
     (if Path (hrURL rq) \<noteq> proxyPathPrefix \<and> \<not> HasPrefix (Path (hrURL rq)) (proxyPathPrefix @ ''/'') then (ProxyError 404 ''not found'', w)
      else case Lookup (svCrypto sv) (stored w) (bearerToken (header_get (hrHeader rq) ''Authorization'')) of
        None \<Rightarrow> (ProxyError 401 ''invalid sidecar client key'', w)
      | Some i \<Rightarrow>
     (case prepareReplayableBody rq (cfMaxReplayBodyBytes cfg) of
        None \<Rightarrow> (ProxyError 400 ''failed to read request body'', w)
      | Some (body, replay) \<Rightarrow>
     (let sessionID = logicalSessionID (hrHeader rq) in
      case withIdentityProxy cfg sv (hrCtx rq) (idID i) [] w of
        (None, w1) \<Rightarrow> (ProxyError 502 ''credential proxy resolution failed'', w1)
      | (Some proxy, w1) \<Rightarrow>
     (case authorize sv proxy (idID i) (idToken i) sessionID (selectedAccountID i) w1 of
        (Inl _, w2) \<Rightarrow> (ProxyError 502 ''codex credential authorization unavailable'', w2)
      | (Inr au, w2) \<Rightarrow>
          (let out = \<lparr>upMethod = hrMethod rq, upURL = hrURL rq, upHeader = set_credentials au (hrHeader rq), upBody = body, upReplay = replay,
                      upProxy = proxy, upState = Some (upstream_state i au sessionID)\<rparr> in
           if isCodexDirectImagePath (Path (hrURL rq)) then (DirectImage out, w2) else serve_proxy sv origin out w2)))))"

end
