(* ===== verification/Proxy_Properties.thy ===== *)
theory Proxy_Properties
  imports Server_Proxy
begin

text \<open>
  What reaches the upstream.  The locale \<open>upstream_watch\<close> states when a predicate on the outside world survives the data path: the
  credential service keeps it, and the upstream keeps it for every request of a class.  Its lemmas are proved once and interpreted on servers that record the
  requests they send, so the properties speak about every request that leaves the sidecar.
\<close>

section \<open>Credential headers\<close>

lemmas canon_simps = CanonicalHeaderKey_def header_byte_def alnum_def is_digit_def is_lower_def is_upper_def byte_def upper_byte_def lower_byte_def char_of_def bit_0

lemma credential_names [simp]:
  "CanonicalHeaderKey ''Authorization'' = ''Authorization''" "CanonicalHeaderKey ''ChatGPT-Account-ID'' = ''Chatgpt-Account-Id''"
  "CanonicalHeaderKey ''X-OpenAI-Fedramp'' = ''X-Openai-Fedramp''"
  by (simp_all add: canon_simps)

text \<open>The header of a request carries no credential but the given authorization's, or that and all of it.\<close>

definition credential_names_of :: "Authorization \<Rightarrow> (string \<times> string list) list" where
  "credential_names_of au =
     [(''Authorization'', [auHeader au]), (''ChatGPT-Account-ID'', if auAccountID au = [] then [] else [auAccountID au]),
      (''X-OpenAI-Fedramp'', if auFedRAMP au then [''true''] else [])]"

definition carries :: "header \<Rightarrow> Authorization \<Rightarrow> bool" where
  "carries hs au \<longleftrightarrow> (\<forall>(n, vs) \<in> set (credential_names_of au). header_values hs n = vs)"

definition covered :: "header \<Rightarrow> Authorization \<Rightarrow> bool" where
  "covered hs au \<longleftrightarrow> (\<forall>(n, vs) \<in> set (credential_names_of au). set (header_values hs n) \<subseteq> set vs)"

lemma carries_covered: "carries hs au \<Longrightarrow> covered hs au"
  by (auto simp: carries_def covered_def)

lemma set_credentials_carries: "carries (set_credentials au hs) au"
  by (simp add: carries_def credential_names_of_def set_credentials_def set_account_def Let_def values_set values_del)

lemma covered_del: "covered hs au \<Longrightarrow> covered (header_del n hs) au"
  by (fastforce simp: covered_def values_del split: if_splits)

lemma covered_dels: "covered hs au \<Longrightarrow> covered (fold header_del ns hs) au"
  by (induction ns arbitrary: hs) (simp_all add: covered_del)

lemma covered_set: "covered hs au \<Longrightarrow> CanonicalHeaderKey n \<notin> {''Authorization'', ''Chatgpt-Account-Id'', ''X-Openai-Fedramp''} \<Longrightarrow> covered (header_set n v hs) au"
  by (auto simp: covered_def values_set credential_names_of_def)

lemma proxy_names:
  "CanonicalHeaderKey ''Te'' = ''Te''" "CanonicalHeaderKey ''Upgrade'' = ''Upgrade''" "CanonicalHeaderKey ''Connection'' = ''Connection''"
  "CanonicalHeaderKey ''User-Agent'' = ''User-Agent''"
  by (simp_all add: canon_simps)

lemma proxy_headers_covered: "covered hs au \<Longrightarrow> covered (proxy_headers hs) au"
  unfolding proxy_headers_def Let_def removeHopByHopHeaders_def
  by (auto intro!: covered_set covered_del covered_dels simp: proxy_names)

lemma blocked_name:
  assumes "CanonicalHeaderKey n \<in> {''Authorization'', ''Chatgpt-Account-Id'', ''X-Openai-Fedramp''}"
  shows "blockedForwardHeader n"
proof -
  have "list_all header_byte ''Authorization''" "list_all header_byte ''ChatGPT-Account-ID''" "list_all header_byte ''X-OpenAI-Fedramp''"
    by (simp_all add: canon_simps)
  moreover have "map lower_byte ''Authorization'' = ''authorization''" "map lower_byte ''ChatGPT-Account-ID'' = ''chatgpt-account-id''"
    "map lower_byte ''X-OpenAI-Fedramp'' = ''x-openai-fedramp''" by (simp_all add: canon_simps)
  ultimately have "ToLower (TrimSpace n) \<in> {''authorization'', ''chatgpt-account-id'', ''x-openai-fedramp''}"
    using assms same_header [of n "''Authorization''"] same_header [of n "''ChatGPT-Account-ID''"] same_header [of n "''X-OpenAI-Fedramp''"] by auto
  then show ?thesis by (auto simp: blockedForwardHeader_def)
qed

lemma call_headers_carries: "carries (call_headers given au) au"
proof -
  let ?f = "\<lambda>(n, v) hs. if blockedForwardHeader n then hs else header_set n v hs"
  have "header_values (fold ?f given hs) ''X-OpenAI-Fedramp'' = header_values hs ''X-OpenAI-Fedramp''" for hs
  proof (induction given arbitrary: hs)
    case (Cons x xs)
    then show ?case using blocked_name by (cases x) (auto simp: values_set)
  qed simp
  then show ?thesis
    by (auto simp: carries_def credential_names_of_def call_headers_def set_account_def Let_def values_set values_del header_values_def [of "[]"])
qed

section \<open>Watching the upstream\<close>

text \<open>A request and its possible retry are good.\<close>

definition request_good :: "('u, 'w) Server \<Rightarrow> (request \<Rightarrow> bool) \<Rightarrow> upstream_request \<Rightarrow> bool" where
  "request_good sv good rq \<longleftrightarrow> good (wire rq) \<and>
     (\<forall>st w au w'. upState rq = Some st \<and> authorize sv (upProxy rq) (rsIdentityID st) (rsToken st) (rsSessionID st) (rsAccountID st) w = (Inr au, w') \<longrightarrow>
        good (wire (rq\<lparr>upHeader := set_credentials au (upHeader rq)\<rparr>)))"

locale upstream_watch =
  fixes sv :: "('u, 'w) Server" and good :: "request \<Rightarrow> bool" and kept :: "'u \<Rightarrow> bool"
  assumes client_keeps: "kept u \<Longrightarrow> svClient sv p rq u = (out, u') \<Longrightarrow> kept u'"
    and base_keeps: "kept u \<Longrightarrow> good rq \<Longrightarrow> svBase sv p rq u = (out, u') \<Longrightarrow> kept u'"
begin

lemma fetch_keeps: "kept u \<Longrightarrow> fetchJWKS (svClient sv p) url u = (r, u') \<Longrightarrow> kept u'"
  by (auto simp: fetchJWKS_def split: prod.splits http_outcome.splits option.splits if_splits dest: client_keeps)

lemma jwks_keeps: "kept (snd cw) \<Longrightarrow> GetJWKS (svClient sv p) force now later cw = (r, cw') \<Longrightarrow> kept (snd cw')"
  by (auto simp: GetJWKS_def Let_def split: prod.splits option.splits if_splits dest: fetch_keeps)

lemma material_keeps:
  assumes "kept (snd mw)" "material C S (svClient sv p) now later token mw = (r, mw')"
  shows "kept (snd mw')"
proof -
  have parse: "kept (snd cw')" if "kept (snd cw)" "ParseWithCache C S (svClient sv p) t now later cw = (r, cw')" for t cw r cw'
  proof -
    obtain x c1 where x: "GetJWKS (svClient sv p) False now later cw = (x, c1)" by (metis surj_pair)
    obtain y c2 where y: "GetJWKS (svClient sv p) True now later c1 = (y, c2)" by (metis surj_pair)
    have "cw' = c1 \<or> cw' = c2" using that(2) by (auto simp: ParseWithCache_def x y split: sum.splits id_error.splits)
    then show ?thesis using jwks_keeps [OF that(1) x] jwks_keeps [OF _ y] by blast
  qed
  have "kept (snd mw')" if "kept (snd mw)" "parseAndCache C S (svClient sv p) now later t h mw = (r, mw')" for t h mw r mw'
    using that parse by (fastforce simp: parseAndCache_def split: prod.splits sum.splits)
  note cached = this
  obtain m u where mw: "mw = (m, u)" by fastforce
  let ?t = "TrimSpace token"
  obtain x m1 where x: "parseAndCache C S (svClient sv p) now later ?t (hexSum256 C ?t)
      (m\<lparr>materials := map_del (hexSum256 C ?t) (materials m)\<rparr>, u) = (x, m1)" by (metis surj_pair)
  have "mw' = mw \<or> mw' = m1"
    using assms(2) x by (auto simp: material_def Let_def mw split: option.splits if_splits)
  then show ?thesis using assms(1) cached [OF _ x] mw by auto
qed

lemma register_keeps: "kept u \<Longrightarrow> RegisterTask S (svClient sv p) base mat now u = (r, u') \<Longrightarrow> kept u'"
  by (auto simp: RegisterTask_def split: prod.splits http_outcome.splits option.splits if_splits dest: client_keeps)

lemma loop_keeps: "kept u \<Longrightarrow> registerLoop S (svClient sv p) stop clock base mat left attempt u = (r, u') \<Longrightarrow> kept u'"
proof (induction left arbitrary: attempt u)
  case 0
  then show ?case by (subst (asm) registerLoop.simps) (auto simp: Let_def split: prod.splits if_splits dest: register_keeps)
next
  case (Suc n)
  from Suc.prems Suc.IH show ?case
    by (subst (asm) registerLoop.simps) (auto simp: Let_def split: prod.splits if_splits dest: register_keeps)
qed

lemma authorize_keeps:
  assumes "kept (snd (wManager w))" "authorize sv p i t s a w = (r, w')"
  shows "kept (snd (wManager w'))"
proof -
  have task: "kept (snd mw')" if "kept (snd mw)" "task S (svClient sv p) stop clock k mat mw = (r, mw')" for S stop clock k mat mw r mw'
    using that by (auto simp: task_def registerTask_def Let_def split: prod.splits if_splits dest: loop_keeps)
  have pat: "kept (snd mw')" if "kept (snd mw)" "personalAccessTokenForAccount C (svClient sv p) t a mw = (r, mw')" for C t a mw r mw'
    using that by (auto simp: personalAccessTokenForAccount_def Let_def split: prod.splits option.splits if_splits sum.splits dest: client_keeps)
  have "kept (snd mw')" if "kept (snd mw)" "AuthorizeForAccount C S (svClient sv p) stop clock i t s a mw = (r, mw')" for C S stop clock mw r mw'
  proof (cases "IsPersonalAccessToken t")
    case True
    obtain x m1 where x: "personalAccessTokenForAccount C (svClient sv p) t (TrimSpace a) mw = (x, m1)" by (metis surj_pair)
    then show ?thesis using that(2) True pat [OF that(1) x] by (auto simp: AuthorizeForAccount_def split: sum.splits)
  next
    case False
    obtain x m1 where x: "material C S (svClient sv p) (clock 0) (clock 0) t mw = (x, m1)" by (metis surj_pair)
    note k = material_keeps [OF that(1) x]
    obtain y m2 where y: "task S (svClient sv p) stop clock (taskKey C i (mtTokenHash (projr x)) s) (projr x) m1 = (y, m2)" by (metis surj_pair)
    have "mw' = m1 \<or> mw' = m2" using that(2) False x y by (cases x) (auto simp: AuthorizeForAccount_def split: sum.splits)
    then show ?thesis using k task [OF k y] by blast
  qed
  note au = this
  obtain x mw' where x: "AuthorizeForAccount (svCrypto sv) (svSuite sv) (svClient sv p) (\<lambda>k. svDone sv (wTick w + k)) (\<lambda>k. svNow sv (wTick w + k))
      i t s a (wManager w) = (x, mw')" by (metis surj_pair)
  then show ?thesis using assms(2) au [OF assms(1) x] by (auto simp: authorize_def Let_def)
qed

lemma base_call_keeps: "kept (snd (wManager w)) \<Longrightarrow> good (wire rq) \<Longrightarrow> base_call sv rq w = (out, w') \<Longrightarrow> kept (snd (wManager w'))"
  by (auto simp: base_call_def split: prod.splits dest: base_keeps)

lemma round_trip_keeps:
  assumes "kept (snd (wManager w))" "request_good sv good rq" "RoundTrip sv rq w = (out, w')"
  shows "kept (snd (wManager w'))"
proof -
  have inv: "kept (snd (wManager (invalidate sv i h s w)))" if "kept (snd (wManager w))" for i h s w
    using that by (auto simp: invalidate_def split: prod.splits)
  have "kept (snd (wManager w'))" if "kept (snd (wManager w))" "upState rq = Some st" "retry_request sv rq st o1 w = (out, w')" for st o1 w
  proof (cases "upBody rq \<noteq> None \<and> \<not> upReplay rq")
    case True
    then show ?thesis using that(3) inv [OF that(1)] by (auto simp: retry_request_def Let_def)
  next
    case False
    obtain x w2 where x: "authorize sv (upProxy rq) (rsIdentityID st) (rsToken st) (rsSessionID st) (rsAccountID st)
        (invalidate sv (rsIdentityID st) (rsTokenHash st) (rsSessionID st) w) = (x, w2)" by fastforce
    have k: "kept (snd (wManager w2))" by (rule authorize_keeps [OF inv [OF that(1)] x])
    have "good (wire (rq\<lparr>upHeader := set_credentials au (upHeader rq)\<rparr>))" if "x = Inr au" for au
      using assms(2) that \<open>upState rq = Some st\<close> x unfolding request_good_def by blast
    then show ?thesis using that(3) x False k
      by (auto simp: retry_request_def Let_def split: sum.splits dest: base_call_keeps)
  qed
  moreover obtain y w1 where y: "base_call sv rq w = (y, w1)" by fastforce
  moreover have "kept (snd (wManager w1))" by (rule base_call_keeps [OF assms(1) _ y]) (use assms(2) in \<open>simp add: request_good_def\<close>)
  ultimately show ?thesis
    using assms(3) by (auto simp: RoundTrip_def split: http_outcome.splits option.splits if_splits)
qed

lemma client_keeps_good:
  assumes good: "\<And>rq. Q rq \<Longrightarrow> request_good sv good rq" and followed: "\<And>rq r rq'. Q rq \<Longrightarrow> redirect rq r = Some rq' \<Longrightarrow> Q rq'"
  shows "kept (snd (wManager w)) \<Longrightarrow> Q rq \<Longrightarrow> client_requests sv redirect n rq w = (out, w') \<Longrightarrow> kept (snd (wManager w'))"
proof (induction n arbitrary: rq w)
  case (Suc n)
  obtain x w1 where x: "RoundTrip sv rq w = (x, w1)" by fastforce
  have "kept (snd (wManager w1))" by (rule round_trip_keeps [OF Suc.prems(1) good [OF Suc.prems(2)] x])
  then show ?case using Suc x followed [OF Suc.prems(2)] by (auto split: http_outcome.splits option.splits)
qed simp

end

section \<open>Servers that record what they send\<close>

definition recorded :: "('u, 'w) Server \<Rightarrow> ('u \<times> request list, 'w) Server" where
  "recorded sv =
     \<lparr>svCrypto = svCrypto sv, svSuite = svSuite sv,
      svClient = (\<lambda>p rq (u, sent). case svClient sv p rq u of (out, u') \<Rightarrow> (out, u', sent)),
      svChannels = svChannels sv, svOS = svOS sv, svRandom = svRandom sv, svNow = svNow sv, svDone = svDone sv, svBackupEnv = svBackupEnv sv,
      svDocText = svDocText sv, svBase = (\<lambda>p rq (u, sent). case svBase sv p rq u of (out, u') \<Rightarrow> (out, u', sent @ [rq]))\<rparr>"

abbreviation sent_of :: "('u \<times> request list, 'w) world \<Rightarrow> request list" where
  "sent_of w \<equiv> snd (snd (wManager w))"

interpretation logged: upstream_watch "recorded sv" good "\<lambda>(u, sent). \<forall>r \<in> set sent. good r" for sv good
  by unfold_locales (auto simp: recorded_def split: prod.splits)

interpretation kept_log: upstream_watch "recorded sv" "\<lambda>_. False" "\<lambda>(u, sent). sent = log" for sv log
  by unfold_locales (auto simp: recorded_def split: prod.splits)

text \<open>An authorization that the credential manager issued for an identity.\<close>

definition authorized_for :: "('u, 'w) Server \<Rightarrow> Identity \<Rightarrow> Authorization \<Rightarrow> bool" where
  "authorized_for sv i au \<longleftrightarrow> (\<exists>p s w w'. authorize sv p (idID i) (idToken i) s (selectedAccountID i) w = (Inr au, w'))"

definition sent_for :: "('u, 'w) Server \<Rightarrow> Identity \<Rightarrow> request \<Rightarrow> bool" where
  "sent_for sv i r \<longleftrightarrow> (\<exists>au. authorized_for sv i au \<and> covered (rqHeader r) au)"

lemma sent_for_retry:
  assumes "authorize sv p (idID i) (idToken i) s (selectedAccountID i) w = (Inr au, w')"
  shows "sent_for sv i (wire (rq\<lparr>upHeader := set_credentials au hs\<rparr>))"
  unfolding sent_for_def authorized_for_def
  using assms set_credentials_carries [THEN carries_covered, of au hs] by (intro exI [of _ au]) (auto simp: wire_def)

text \<open>The requests that a handler sends for an identity, and what \<^verbatim>\<open>http.Client\<close> keeps of them on a redirect: it drops credentials or keeps them.\<close>

definition request_for :: "('u, 'w) Server \<Rightarrow> Identity \<Rightarrow> upstream_request \<Rightarrow> bool" where
  "request_for sv i rq \<longleftrightarrow> (\<exists>au au' s. authorized_for sv i au \<and> covered (upHeader rq) au \<and> upState rq = Some (upstream_state i au' s))"

lemma request_good_for: "request_for sv i rq \<Longrightarrow> request_good sv (sent_for sv i) rq"
  using sent_for_retry by (fastforce simp: request_for_def request_good_def upstream_state_def sent_for_def wire_def)

definition credential_keys :: "string list" where
  "credential_keys = [''Authorization'', ''ChatGPT-Account-ID'', ''X-OpenAI-Fedramp'']"

definition redirect_keeps :: "redirects \<Rightarrow> bool" where
  "redirect_keeps redirect \<longleftrightarrow> (\<forall>rq r rq'. redirect rq r = Some rq' \<longrightarrow> upState rq' = upState rq \<and>
     (\<forall>n \<in> set credential_keys. set (header_values (upHeader rq') n) \<subseteq> set (header_values (upHeader rq) n)))"

lemma covered_keys: "covered hs au \<longleftrightarrow> (\<forall>n \<in> set credential_keys. set (header_values hs n) \<subseteq> set (the (map_of (credential_names_of au) n)))"
  by (simp add: covered_def credential_names_of_def credential_keys_def)

lemma redirect_for:
  assumes "redirect_keeps redirect" "request_for sv i rq" "redirect rq r = Some rq'"
  shows "request_for sv i rq'"
proof -
  obtain au au' s where rq: "authorized_for sv i au" "covered (upHeader rq) au" "upState rq = Some (upstream_state i au' s)"
    using assms(2) by (auto simp: request_for_def)
  have k: "upState rq' = upState rq" "\<And>n. n \<in> set credential_keys \<Longrightarrow> set (header_values (upHeader rq') n) \<subseteq> set (header_values (upHeader rq) n)"
    using assms(1,3) by (auto simp: redirect_keeps_def)
  have "covered (upHeader rq') au" unfolding covered_keys
  proof
    fix n assume n: "n \<in> set credential_keys"
    show "set (header_values (upHeader rq') n) \<subseteq> set (the (map_of (credential_names_of au) n))"
      by (rule subset_trans [OF k(2) [OF n]]) (use rq(2) n in \<open>simp add: covered_keys\<close>)
  qed
  with rq(1,3) k(1) show ?thesis unfolding request_for_def by (intro exI [of _ au] exI [of _ au'] exI [of _ s]) simp
qed

lemma upstream_Do_sent:
  assumes "redirect_keeps redirect" "request_for (recorded sv) i rq" "upstream_Do (recorded sv) redirect rq w = (out, w')"
    and "\<forall>r \<in> set (sent_of w). sent_for (recorded sv) i r"
  shows "\<forall>r \<in> set (sent_of w'). sent_for (recorded sv) i r"
  using logged.client_keeps_good [where Q = "request_for (recorded sv) i", OF request_good_for redirect_for [OF assms(1)] _ assms(2) assms(3) [unfolded upstream_Do_def]]
    assms(4) by (simp add: case_prod_beta)

section \<open>Frames\<close>

lemma proxy_frame: "withIdentityProxy cfg sv ctx i override w = (r, w') \<Longrightarrow> wManager w' = wManager w \<and> wStore w' = wStore w"
  by (auto simp: withIdentityProxy_def Let_def split: if_splits option.splits prod.splits sum.splits dest: on_cpa_frame)

lemma forward_frame: "forwardCPAAPICall m api ctx raw w = (r, w') \<Longrightarrow> wManager w' = wManager w"
  by (auto simp: forwardCPAAPICall_def split: prod.splits sum.splits dest: on_cpa_frame)

lemma authorize_same:
  assumes "authorize (recorded sv) p i t s a w = (r, w')"
  shows "sent_of w' = sent_of w"
  using kept_log.authorize_keeps [of "sent_of w" w sv p i t s a r w'] assms by (simp add: case_prod_beta)

lemma quota_exchange_sent:
  assumes red: "redirect_keeps redirect" and rq: "request_for (recorded sv) i rq" and q: "quota_exchange (recorded sv) redirect target au rq w = (reply, w')"
    and start: "\<forall>r \<in> set (sent_of w). sent_for (recorded sv) i r"
  shows "\<forall>r \<in> set (sent_of w'). sent_for (recorded sv) i r"
proof -
  obtain x w1 where x: "upstream_Do (recorded sv) redirect rq w = (x, w1)" by fastforce
  note k1 = upstream_Do_sent [OF red rq x start]
  obtain y w2 where y: "personalAccessTokenResetCreditsFallback (recorded sv) redirect rq w1 = (y, w2)" by fastforce
  have "\<forall>r \<in> set (sent_of w2). sent_for (recorded sv) i r"
  proof (cases "url_Parse (url_String ((upURL rq)\<lparr>Path := ''/backend-api/wham/usage'', RawPath := [], RawQuery := [], Fragment := []\<rparr>))")
    case None
    then show ?thesis using y k1 by (simp add: personalAccessTokenResetCreditsFallback_def)
  next
    case (Some u)
    let ?rq = "rq\<lparr>upMethod := ''GET'', upURL := u, upHeader := header_del ''Content-Type'' (header_del ''Content-Length'' (upHeader rq)),
                       upBody := None, upReplay := False\<rparr>"
    obtain z w3 where z: "upstream_Do (recorded sv) redirect ?rq w1 = (z, w3)" by fastforce
    have "request_for (recorded sv) i ?rq" using rq covered_del by (fastforce simp: request_for_def)
    from upstream_Do_sent [OF red this z k1] show ?thesis
      using y z Some by (auto simp: personalAccessTokenResetCreditsFallback_def split: http_outcome.splits option.splits if_splits)
  qed
  moreover have "w' = w1 \<or> w' = w2"
    using q x y by (auto simp: quota_exchange_def split: http_outcome.splits option.splits if_splits)
  ultimately show ?thesis using k1 by auto
qed

lemma quota_call_sent:
  assumes red: "redirect_keeps redirect" and q: "quota_call cfg (recorded sv) redirect order ctx call verb target i w = (reply, w')"
    and start: "\<forall>r \<in> set (sent_of w). sent_for (recorded sv) i r"
  shows "\<forall>r \<in> set (sent_of w'). sent_for (recorded sv) i r"
proof -
  obtain p w1 where p: "withIdentityProxy cfg (recorded sv) ctx (idID i) (acProxyURL call) w = (p, w1)" by fastforce
  obtain x w2 where x: "authorize (recorded sv) (the p) (idID i) (idToken i) ''quota'' (selectedAccountID i) w1 = (x, w2)" by fastforce
  have k: "\<forall>r \<in> set (sent_of w1). sent_for (recorded sv) i r" "\<forall>r \<in> set (sent_of w2). sent_for (recorded sv) i r"
    using start proxy_frame [OF p] authorize_same [OF x] by auto
  consider "w' = w1" | "w' = w2" | au u where "x = Inr au" "quota_exchange (recorded sv) redirect target au (quota_request (order (acHeader call)) verb u (acData call) i au (the p)) w2 = (reply, w')"
    using q p x by (cases p; cases x) (auto simp: quota_call_def split: option.splits)
  then show ?thesis
  proof cases
    case 3
    have "request_for (recorded sv) i (quota_request (order (acHeader call)) verb u (acData call) i au (the p))"
      unfolding request_for_def authorized_for_def using x 3(1) call_headers_carries [THEN carries_covered]
      by (intro exI [of _ au] exI [of _ "''quota''"]) (auto simp: quota_request_def)
    from quota_exchange_sent [OF red this 3(2) k(2)] show ?thesis .
  qed (use k in simp_all)
qed

lemma intercepted_cases:
  assumes "intercepted_call cfg sv redirect order m api ctx raw call verb target w = (reply, w')"
  shows "wManager w' = wManager w \<and> (containsSidecarCredentialHeader (acHeader call) \<longrightarrow> (\<exists>e. reply = ApiError 502 e)) \<or>
    (\<exists>i k w1. wManager w1 = wManager w \<and> GetByID (stored w) k = Some i \<and> quota_call cfg sv redirect order ctx call verb target i w1 = (reply, w'))"
proof -
  obtain x w1 where x: "on_cpa (IdentityIDForAuthIndex m api ctx (firstNonEmpty [acAuthIndexSnake call, acAuthIndexCamel call, acAuthIndexPascal call])) w = (x, w1)"
    by fastforce
  note u = assms [unfolded intercepted_call_def Let_def x]
  have fr: "wManager w1 = wManager w" "stored w1 = stored w" using on_cpa_frame [OF x] by auto
  show ?thesis
  proof (cases x)
    case (Inl e)
    then show ?thesis using u fr by auto
  next
    case (Inr found)
    show ?thesis
    proof (cases "Option.bind found (GetByID (stored w1))")
      case None
      then show ?thesis using u Inr fr by (auto split: if_splits dest: forward_frame)
    next
      case (Some i)
      then obtain k where "GetByID (stored w) k = Some i" using fr by (auto simp: bind_eq_Some_conv)
      moreover have "quota_call cfg sv redirect order ctx call verb target i w1 = (reply, w')" using u Inr Some by simp
      ultimately show ?thesis using fr(1) by blast
    qed
  qed
qed

lemma api_call_cases:
  assumes "handleCPAAPICall cfg sv redirect order rq w = (reply, w')"
  shows "wManager w' = wManager w \<or> (\<exists>call verb target i k w1. wManager w1 = wManager w \<and> GetByID (stored w) k = Some i \<and>
    quota_call cfg sv redirect order (hrCtx rq) call verb target i w1 = (reply, w'))"
proof -
  consider "w' = w" | m api raw where "forwardCPAAPICall m api (hrCtx rq) raw w = (reply, w')"
    | m api raw call verb target where "intercepted_call cfg sv redirect order m api (hrCtx rq) raw call verb target w = (reply, w')"
    using assms unfolding handleCPAAPICall_def Let_def
    by (auto split: if_splits option.splits prod.splits)
  then show ?thesis
  proof cases
    case 3
    from intercepted_cases [OF this] show ?thesis by blast
  qed (auto dest: forward_frame)
qed

lemma round_trip_sent:
  assumes "RoundTrip (recorded sv) rq w = (out, w')"
  shows "sent_of w' = sent_of w @ [wire rq] \<or>
    (\<exists>st w1 au w2. upState rq = Some st \<and> rsKind st \<noteq> CredentialKindPersonalAccessToken \<and> (upBody rq = None \<or> upReplay rq) \<and>
       authorize (recorded sv) (upProxy rq) (rsIdentityID st) (rsToken st) (rsSessionID st) (rsAccountID st) w1 = (Inr au, w2) \<and>
       sent_of w' = sent_of w @ [wire rq, (wire rq)\<lparr>rqHeader := set_credentials au (upHeader rq)\<rparr>])"
proof -
  have base: "sent_of w' = sent_of w @ [wire rq]" if "base_call (recorded sv) rq w = (out, w')" for rq w out w'
    using that by (auto simp: base_call_def recorded_def split: prod.splits)
  obtain y w1 where y: "base_call (recorded sv) rq w = (y, w1)" by fastforce
  consider "w' = w1" | st where "upState rq = Some st" "rsKind st \<noteq> CredentialKindPersonalAccessToken" "retry_request (recorded sv) rq st y w1 = (out, w')"
    using assms y by (auto simp: RoundTrip_def split: http_outcome.splits option.splits if_splits)
  then show ?thesis
  proof cases
    case 1
    then show ?thesis using base [OF y] by simp
  next
    case (2 st)
    let ?w = "invalidate (recorded sv) (rsIdentityID st) (rsTokenHash st) (rsSessionID st) w1"
    have inv: "sent_of ?w = sent_of w @ [wire rq]" using base [OF y] by (auto simp: invalidate_def split: prod.splits)
    obtain x w2 where x: "authorize (recorded sv) (upProxy rq) (rsIdentityID st) (rsToken st) (rsSessionID st) (rsAccountID st) ?w = (x, w2)" by fastforce
    have same: "sent_of w2 = sent_of ?w" by (rule authorize_same [OF x])
    show ?thesis
    proof (cases "(upBody rq \<noteq> None \<and> \<not> upReplay rq) \<or> (\<exists>e. x = Inl e)")
      case True
      then show ?thesis using 2(3) x inv same by (auto simp: retry_request_def Let_def split: if_splits)
    next
      case False
      then obtain au where au: "x = Inr au" by (cases x) auto
      with False 2(3) x have "base_call (recorded sv) (rq\<lparr>upHeader := set_credentials au (upHeader rq)\<rparr>) w2 = (out, w')"
        by (auto simp: retry_request_def Let_def)
      from base [OF this] show ?thesis using 2(1,2) x au False inv same by (auto simp: wire_def)
    qed
  qed
qed

section \<open>The reverse proxy\<close>

definition hidden_names :: "string list" where
  "hidden_names = [''X-Agent-Identity-Sidecar-Key'', ''X-Agent-Identity-ID'', ''Forwarded'', ''X-Forwarded-For'', ''X-Forwarded-Host'', ''X-Forwarded-Proto'']"

lemma hidden_canonical:
  "CanonicalHeaderKey ''X-Agent-Identity-Sidecar-Key'' = ''X-Agent-Identity-Sidecar-Key''" "CanonicalHeaderKey ''X-Agent-Identity-ID'' = ''X-Agent-Identity-Id''"
  "CanonicalHeaderKey ''Forwarded'' = ''Forwarded''" "CanonicalHeaderKey ''X-Forwarded-For'' = ''X-Forwarded-For''"
  "CanonicalHeaderKey ''X-Forwarded-Host'' = ''X-Forwarded-Host''" "CanonicalHeaderKey ''X-Forwarded-Proto'' = ''X-Forwarded-Proto''"
  by (simp_all add: canon_simps)

lemma dels_gone: "m \<in> set ns \<Longrightarrow> header_values (fold header_del ns hs) m = []"
proof (induction ns arbitrary: hs)
  case (Cons n ns)
  have stay: "header_values (fold header_del xs hs) m = []" if "header_values hs m = []" for xs hs
    using that by (induction xs arbitrary: hs) (simp_all add: values_del)
  show ?case using Cons stay [of "header_del m hs" ns] by (auto simp: values_del)
qed simp

lemma proxy_hides: "n \<in> set hidden_names \<Longrightarrow> header_values (proxy_headers hs) n = []"
proof -
  assume n: "n \<in> set hidden_names"
  have "set hidden_names = set [''X-Agent-Identity-Sidecar-Key'', ''X-Agent-Identity-ID''] \<union> set forwarded_names"
    by (auto simp: hidden_names_def forwarded_names_def)
  then have gone: "header_values (fold header_del [''X-Agent-Identity-Sidecar-Key'', ''X-Agent-Identity-ID''] (fold header_del forwarded_names h)) n = []" for h
    using n dels_gone [of n forwarded_names h] dels_gone [of n "[''X-Agent-Identity-Sidecar-Key'', ''X-Agent-Identity-ID'']"] by (auto simp: values_del)
  have "CanonicalHeaderKey ''User-Agent'' \<noteq> CanonicalHeaderKey n" using n by (auto simp: hidden_names_def proxy_names hidden_canonical)
  then show ?thesis using gone unfolding proxy_headers_def Let_def by (simp add: values_set)
qed

lemma listed_account: "listed_tokens ''ChatGPT-Account-ID'' = [''ChatGPT-Account-ID'']"
  by (simp add: listed_tokens_def TrimBoth_def TrimRight_def)

lemma listed_is_gone:
  assumes "header_values hs ''Connection'' = [''ChatGPT-Account-ID'']"
  shows "header_values (proxy_headers hs) ''ChatGPT-Account-ID'' = []"
proof -
  have gone: "header_values (fold header_del ns (header_del ''ChatGPT-Account-ID'' h)) ''ChatGPT-Account-ID'' = []" for ns h
    using dels_gone [of "''ChatGPT-Account-ID''" "''ChatGPT-Account-ID'' # ns" h] by simp
  have stay: "header_values (fold header_del ns h) ''ChatGPT-Account-ID'' = []" if "header_values h ''ChatGPT-Account-ID'' = []" for ns h
    using that by (induction ns arbitrary: h) (simp_all add: values_del)
  have "header_values (removeHopByHopHeaders hs) ''ChatGPT-Account-ID'' = []"
    using gone [of hopHeaders hs] by (simp add: removeHopByHopHeaders_def assms listed_account)
  then show ?thesis unfolding proxy_headers_def Let_def
    by (auto intro!: stay simp: values_set values_del proxy_names simp del: fold_simps)
qed

lemma credentials_hide: "n \<in> set hidden_names \<Longrightarrow> header_values (set_credentials au hs) n = header_values hs n"
  by (auto simp: hidden_names_def set_credentials_def set_account_def Let_def values_set values_del hidden_canonical)

lemma handle_proxy_cases:
  assumes "handleProxy cfg (recorded sv) origin rq w = (reply, w')"
  shows "sent_of w' = sent_of w \<or> (\<exists>i body replay proxy au w1 w2.
    Lookup (svCrypto sv) (stored w) (bearerToken (header_get (hrHeader rq) ''Authorization'')) = Some i \<and>
    authorize (recorded sv) proxy (idID i) (idToken i) (logicalSessionID (hrHeader rq)) (selectedAccountID i) w1 = (Inr au, w2) \<and> sent_of w2 = sent_of w \<and>
    serve_proxy (recorded sv) origin \<lparr>upMethod = hrMethod rq, upURL = hrURL rq, upHeader = set_credentials au (hrHeader rq), upBody = body, upReplay = replay,
      upProxy = proxy, upState = Some (upstream_state i au (logicalSessionID (hrHeader rq)))\<rparr> w2 = (reply, w'))"
proof -
  have C: "svCrypto (recorded sv) = svCrypto sv" by (simp add: recorded_def)
  let ?L = "Lookup (svCrypto sv) (stored w) (bearerToken (header_get (hrHeader rq) ''Authorization''))" and ?s = "logicalSessionID (hrHeader rq)"
  let ?i = "the ?L"
  obtain p w1 where p: "withIdentityProxy cfg (recorded sv) (hrCtx rq) (idID ?i) [] w = (p, w1)" by fastforce
  obtain x w2 where x: "authorize (recorded sv) (the p) (idID ?i) (idToken ?i) ?s (selectedAccountID ?i) w1 = (x, w2)" by fastforce
  let ?out = "\<lambda>au body replay. \<lparr>upMethod = hrMethod rq, upURL = hrURL rq, upHeader = set_credentials au (hrHeader rq), upBody = body, upReplay = replay,
      upProxy = the p, upState = Some (upstream_state ?i au ?s)\<rparr>"
  have fr: "sent_of w1 = sent_of w" "sent_of w2 = sent_of w" using proxy_frame [OF p] authorize_same [OF x] by simp_all
  have "w' = w \<or> w' = w1 \<or> w' = w2 \<or> ?L \<noteq> None \<and> (\<exists>au body replay. x = Inr au \<and> serve_proxy (recorded sv) origin (?out au body replay) w2 = (reply, w'))"
    using assms p x unfolding handleProxy_def Let_def C
    by (cases ?L; cases p; cases x) (auto split: if_splits option.splits)
  then show ?thesis
  proof (elim disjE conjE exE)
    fix au body replay assume "?L \<noteq> None" "x = Inr au" "serve_proxy (recorded sv) origin (?out au body replay) w2 = (reply, w')"
    then show ?thesis using x fr(2)
      by (intro disjI2 exI [of _ ?i] exI [of _ body] exI [of _ replay] exI [of _ "the p"] exI [of _ au] exI [of _ w1] exI [of _ w2]) simp
  qed (use fr in simp_all)
qed

section \<open>Properties\<close>


text \<open>
  C25: a sidecar key is never handed to CPA's native OAuth.  When a management call for a quota endpoint carries an \<^verbatim>\<open>Authorization\<close> header with a \<^verbatim>\<open>cais_\<close> key
  and the sidecar finds no identity for it, the call fails closed: the answer is an error or an answer of the upstream, never CPA's answer to the forwarded call.
\<close>

theorem sidecar_key_fails_closed:
  assumes "Option.bind (json_parse (body_of rq)) UnmarshalAPICall = Some call" "containsSidecarCredentialHeader (acHeader call)"
    and "Resolve (cfUpstreamOrigin cfg) (ToUpper (TrimSpace (acMethod call))) (acURL call) \<noteq> None"
    and "handleCPAAPICall cfg sv redirect order rq w = (reply, w')"
  shows "\<nexists>status contentType body. reply = ApiForwarded status contentType body"
proof -
  have quota: "\<nexists>a b c. fst (quota_call cfg sv redirect order ctx call verb target i w1) = ApiForwarded a b c" for ctx verb target i w1
    by (auto simp: quota_call_def quota_exchange_def split: prod.splits option.splits sum.splits http_outcome.splits if_splits)
  have body: "raw = body_of rq" if "read_limit (maxAPICallBodyBytes + 1) rq = Some raw" "length raw \<le> maxAPICallBodyBytes" for raw
    using that by (auto simp: read_limit_def min_def split: if_splits)
  consider e n where "reply = ApiError n e"
    | m api raw verb target where "intercepted_call cfg sv redirect order m api (hrCtx rq) raw call verb target w = (reply, w')"
    using assms body unfolding handleCPAAPICall_def Let_def
    by (auto split: if_splits option.splits prod.splits simp del: bind_eq_Some_conv bind_eq_None_conv)
  then show ?thesis
  proof cases
    case 2
    from intercepted_cases [OF this] assms(2) show ?thesis using quota by (metis api_reply.distinct(1) fst_conv)
  qed simp
qed



text \<open>
  C28: a client can shed the account of its key.  The reverse proxy removes the headers that the client lists in \<^verbatim>\<open>Connection\<close>, after \<^verbatim>\<open>handleProxy\<close> set them: with
  \<^verbatim>\<open>Connection: ChatGPT-Account-ID\<close> the first request to the upstream has no account header, whichever account the key was scoped to.
\<close>

theorem connection_header_sheds_account:
  assumes "handleProxy cfg (recorded sv) origin rq w = (reply, w')" "sent_of w = []" "header_values (hrHeader rq) ''Connection'' = [''ChatGPT-Account-ID'']"
    and "sent_of w' \<noteq> []"
  shows "header_values (rqHeader (hd (sent_of w'))) ''ChatGPT-Account-ID'' = []"
  using handle_proxy_cases [OF assms(1)]
proof (elim disjE exE conjE)
  fix i body replay proxy au w1 w2
  let ?s = "logicalSessionID (hrHeader rq)" and ?hs = "set_credentials au (hrHeader rq)"
  let ?rq = "\<lparr>upMethod = hrMethod rq, upURL = SetURL origin ((hrURL rq)\<lparr>RawQuery := cleanQueryParams (hrURL rq)\<rparr>), upHeader = proxy_headers ?hs, upBody = body,
     upReplay = replay, upProxy = proxy, upState = Some (upstream_state i au ?s)\<rparr>"
  assume w2: "sent_of w2 = sent_of w" and sp: "serve_proxy (recorded sv) origin \<lparr>upMethod = hrMethod rq, upURL = hrURL rq, upHeader = ?hs, upBody = body, upReplay = replay,
      upProxy = proxy, upState = Some (upstream_state i au ?s)\<rparr> w2 = (reply, w')"
  obtain out w3 where rt: "RoundTrip (recorded sv) ?rq w2 = (out, w3)" by fastforce
  have "w' = w2 \<or> w' = w3" using sp rt by (auto simp: serve_proxy_def Let_def split: if_splits http_outcome.splits)
  then have hd: "hd (sent_of w') = wire ?rq" using round_trip_sent [OF rt] w2 assms(2,4) by auto
  have conn: "header_values ?hs ''Connection'' = [''ChatGPT-Account-ID'']"
    using assms(3) by (simp add: set_credentials_def set_account_def Let_def values_set values_del proxy_names)
  have "header_values (proxy_headers ?hs) ''ChatGPT-Account-ID'' = []" by (rule listed_is_gone [OF conn])
  then show ?thesis by (simp add: hd wire_def)
qed (use assms in simp)

text \<open>
  C27: the management API needs the management key.  Without a key that equals the configured one, every management handler answers 401 or 405 and leaves the store, the credential
  manager, CPA and the backups as they are.
\<close>

theorem management_needs_key:
  assumes "provided_key rq \<noteq> TrimSpace (cfManagementKey cfg) \<or> provided_key rq = []"
  shows "(\<exists>m. handleImport cfg sv rq w \<in> {(Inl (401, m), w), (Inl (405, m), w)}) \<and>
    (\<exists>m. handleBatchImport cfg sv schedule rq w \<in> {(Inl (401, m), w), (Inl (405, m), w)}) \<and>
    (\<exists>m. handleDiagnostics cfg sv rq w \<in> {(Inl (401, m), w), (Inl (405, m), w)}) \<and>
    (\<exists>m. handleIdentities cfg sv rq w \<in> {(Inl (401, m), w), (Inl (405, m), w)}) \<and>
    handleIdentity cfg sv rq w = (fail 401 ''unauthorized'', w) \<and>
    (\<exists>m. handleCPAAPICall cfg sv redirect order rq w \<in> {(ApiError 401 m, w), (ApiError 405 m, w)})"
proof -
  have no: "\<not> authorizeManagement cfg rq" using assms by (auto simp: authorizeManagement_def Let_def)
  show ?thesis
    by (simp add: no handleImport_def handleBatchImport_def handleDiagnostics_def handleIdentities_def handleIdentity_def handleCPAAPICall_def)
qed

end
