(* ===== verification/Server_Witnesses.thy ===== *)
theory Server_Witnesses
  imports Cpa_Witnesses Batch_Properties Delete_Properties
begin

text \<open>
  Concrete servers on which the properties of imports, batches and deletions are applied: a disk and a credential
  service that work, and CPA servers that answer, refuse every request, or are not configured.
\<close>

section \<open>The servers\<close>

definition closed_cpa :: "(string \<Rightarrow> bytes option) api" where
  "closed_cpa ctx rq t w = (status_answer 401 [], 1, w)"

definition quiet_backup :: backup_env where
  "quiet_backup = \<lparr>beFails = (\<lambda>_. False), beKeeps = (\<lambda>p b. b), bePartial = (\<lambda>_. [])\<rparr>"

definition demo_random_at :: "nat \<Rightarrow> entropy" where
  "demo_random_at t = demo_entropy\<lparr>keyRandom := Some (replicate 32 (char_of (65 + t)))\<rparr>"

definition demo_server ::
  "(CpaManager \<times> (string \<Rightarrow> bytes option) api) option \<Rightarrow> (unit, string \<Rightarrow> bytes option) Server" where
  "demo_server channels =
     \<lparr>svCrypto = demo_crypto, svSuite = demo_suite, svClient = (\<lambda>_. demo_service), svChannels = channels, svOS = (\<lambda>_. calm),
      svRandom = demo_random_at, svNow = (\<lambda>_. 5), svDone = (\<lambda>_. False), svBackupEnv = (\<lambda>_. quiet_backup),
      svDocText = (\<lambda>_. ''doc''), svBase = (\<lambda>_. demo_service)\<rparr>"

definition demo_world :: "Store \<times> disk \<Rightarrow> (string \<Rightarrow> bytes option) env \<Rightarrow> (unit, string \<Rightarrow> bytes option) world" where
  "demo_world sd e =
     \<lparr>wStore = sd, wManager = (demo_manager, ()), wCpa = e,
      wBackup = \<lparr>bfReal = True, bfDirs = (\<lambda>_. False), bfFiles = (\<lambda>_. None)\<rparr>, wTick = 0\<rparr>"

definition first_world :: "(unit, string \<Rightarrow> bytes option) world" where
  "first_world = demo_world (emptyStore ''data'' demo_cipher, demo_disk) demo_state"

definition demo_info :: CredentialInfo where
  "demo_info = \<lparr>ciKind = CredentialKindPersonalAccessToken, ciAccountID = ''acc'', ciUserID = ''user'', ciEmail = [], ciPlanType = [],
     ciExpiresAt = 0, ciFedRAMP = False, ciTokenHash = hexSum256 demo_crypto ''at-1''\<rparr>"

lemma demo_server_fields [simp]:
  "svCrypto (demo_server ch) = demo_crypto" "svChannels (demo_server ch) = ch" "svOS (demo_server ch) = (\<lambda>_. calm)"
  "svRandom (demo_server ch) = demo_random_at" "svNow (demo_server ch) = (\<lambda>_. 5)" "svBackupEnv (demo_server ch) = (\<lambda>_. quiet_backup)"
  "svClient (demo_server ch) = (\<lambda>_. demo_service)" "svSuite (demo_server ch) = demo_suite" "svDocText (demo_server ch) = (\<lambda>_. ''doc'')"
  by (simp_all add: demo_server_def)

lemma demo_world_fields [simp]:
  "wStore (demo_world sd e) = sd" "wCpa (demo_world sd e) = e" "wTick (demo_world sd e) = 0" "wManager (demo_world sd e) = (demo_manager, ())"
  by (simp_all add: demo_world_def)

lemma demo_key_at: "randomClientKey (keyRandom (demo_random_at t)) = Some (clientKeyPrefix @ hex_encode (replicate 32 (char_of (65 + t))))"
  by (simp add: demo_random_at_def randomClientKey_def ReadFull_def)

lemma demo_keys_differ: "(t :: nat) < u \<Longrightarrow> u < 4 \<Longrightarrow> hexSum256 demo_crypto (clientKeyPrefix @ hex_encode (replicate 32 (char_of (65 + t)))) \<noteq>
    hexSum256 demo_crypto (clientKeyPrefix @ hex_encode (replicate 32 (char_of (65 + u))))"
proof -
  assume "t < u" "u < 4"
  then consider "t = 0" "u = 1" | "t = 0" "u = 2" | "t = 1" "u = 2" | "t = 0" "u = 3" | "t = 1" "u = 3" | "t = 2" "u = 3" by linarith
  then show ?thesis by cases (simp, code_simp)+
qed

lemma demo_fresh_keys: "wStore w = (emptyStore ''data'' demo_cipher, d) \<Longrightarrow> h \<le> 4 \<Longrightarrow> fresh_keys (demo_server ch) h w"
  using demo_keys_differ by (auto simp: fresh_keys_def demo_key_at)

section \<open>Refused imports\<close>

lemma closed_list: "\<exists>e'. listAuthFileEntries m closed_cpa ctx e = (Inl (StatusError 401), e')"
  by (simp add: listAuthFileEntries_def managementRetryAttempts_def numeral_4 list_once_def client_Do_def closed_cpa_def status_answer_def)

lemma closed_upsert: "\<exists>err e'. UpsertIdentity C m closed_cpa ctx c e = (Inl err, e')"
  using closed_list [of m ctx e]
  by (auto simp: UpsertIdentity_def upsert_prepared_def managedAuthFilesForCredentials_def Let_def split: option.splits)

lemma closed_import:
  assumes "\<not> (skip \<and> LookupByTokenAndAccount demo_crypto (stored w) token (TrimSpace account) \<noteq> None)"
  shows "\<exists>err w'. commitInspectedTokenLocked (demo_server (Some (m, closed_cpa))) ctx token account cred skip w = (Inl err, w')"
proof -
  let ?sv = "demo_server (Some (m, closed_cpa))"
  obtain r w' where c: "commitInspectedTokenLocked ?sv ctx token account cred skip w = (r, w')" by fastforce
  have "on_cpa (UpsertIdentity demo_crypto m closed_cpa ctx k) w1 \<noteq> (Inr (), w')" for k w1
    using closed_upsert [of demo_crypto m ctx k "wCpa w1"] by (auto simp: on_cpa_def)
  with commit_cases_server [OF c] assms have "\<exists>err. r = Inl err" by auto
  with c show ?thesis by blast
qed

lemma no_lookup: "LookupByTokenAndAccount C (emptyStore dir c) token account = None"
  by (simp add: LookupByTokenAndAccount_def GetByID_def emptyStore_def Let_def)

theorem refused_import_is_undone_witness:
  "\<exists>err w'. commitInspectedTokenLocked (demo_server (Some (demo_cpa_manager, closed_cpa))) None ''at-1'' [] (Some demo_info) False first_world = (Inl err, w') \<and>
     same_identities (emptyStore ''data'' demo_cipher) (stored w')"
proof -
  let ?sv = "demo_server (Some (demo_cpa_manager, closed_cpa))"
  obtain err w' where c: "commitInspectedTokenLocked ?sv None ''at-1'' [] (Some demo_info) False first_world = (Inl err, w')"
    using closed_import [of False] by blast
  have "same_identities (stored first_world) (stored w')"
    by (rule refused_import_is_undone [OF _ _ _ _ c]) (simp_all add: first_world_def demo_token no_lookup)
  with c show ?thesis by (auto simp: first_world_def)
qed

section \<open>A batch\<close>

definition demo_batch :: "importCandidate list" where
  "demo_batch = [\<lparr>icIndex = 1, icLabel = [], icToken = ''at-1'', icAccountID = ''acc''\<rparr>]"

lemma demo_inspect:
  "\<exists>m. inspect (demo_server ch) [] ''at-1'' ''acc'' first_world = (Inr demo_info, tick 2 (first_world\<lparr>wManager := (m, ())\<rparr>))"
proof -
  have "whoami_result ''acc'' h (Response demo_whoami) = Inr (demo_info\<lparr>ciTokenHash := h\<rparr>)" for h
    by (simp add: whoami_result_def demo_whoami_first demo_trims demo_info_def) (simp add: success_status_def demo_whoami_def)
  then show ?thesis
    by (simp add: inspect_def InspectForAccount_def personalAccessTokenForAccount_def demo_pat demo_trims Let_def first_world_def demo_manager_def
        NewManagerWithPersonalAccessTokenAPI_def demo_info_def) blast
qed

lemma demo_validated:
  "\<exists>m item. validate_batch (demo_server ch) (\<lambda>xs. xs) demo_batch (classify demo_crypto (stored first_world) [] demo_batch) first_world =
     ([item\<lparr>biStatus := ''ready''\<rparr>], [Some demo_info], tick 2 (first_world\<lparr>wManager := (m, ())\<rparr>))"
proof -
  let ?id = "IdentityIDForAccount demo_crypto ''at-1'' ''acc''"
  have c: "classify demo_crypto (stored first_world) [] demo_batch = [new_item (hd demo_batch) ?id]"
    by (simp add: demo_batch_def first_world_def no_lookup)
  have p: "pending [new_item (hd demo_batch) ?id] = [0]" by (simp add: pending_def new_item_def)
  obtain m where "inspect (demo_server ch) [] ''at-1'' ''acc'' first_world = (Inr demo_info, tick 2 (first_world\<lparr>wManager := (m, ())\<rparr>))"
    using demo_inspect by blast
  then have "validate_batch (demo_server ch) (\<lambda>xs. xs) demo_batch (classify demo_crypto (stored first_world) [] demo_batch) first_world =
     ([populateBatchCredentialMetadata demo_info ((new_item (hd demo_batch) ?id)\<lparr>biStatus := ''ready''\<rparr>)], [Some demo_info],
      tick 2 (first_world\<lparr>wManager := (m, ())\<rparr>))"
    unfolding validate_batch_def c p by (simp add: validate_item_def) (simp add: demo_batch_def)
  moreover have "populateBatchCredentialMetadata demo_info (x\<lparr>biStatus := ''ready''\<rparr>) = (populateBatchCredentialMetadata demo_info x)\<lparr>biStatus := ''ready''\<rparr>" for x
    by (simp add: populateBatchCredentialMetadata_def)
  ultimately show ?thesis by metis
qed

lemma demo_batch_ok:
  "\<forall>c \<in> set demo_batch. TrimSpace (icToken c) \<noteq> []" "stored first_world = emptyStore ''data'' demo_cipher"
  by (simp_all add: demo_batch_def demo_token first_world_def)

theorem batch_is_all_or_nothing_witness:
  "\<exists>resp w'. processBatchImport (demo_server (Some (demo_cpa_manager, closed_cpa))) None (\<lambda>xs. xs) demo_batch False True first_world = (resp, w') \<and>
     brTransaction resp = ''rolled_back'' \<and> same_identities (emptyStore ''data'' demo_cipher) (stored w')"
proof -
  let ?sv = "demo_server (Some (demo_cpa_manager, closed_cpa))"
  obtain m item where v: "validate_batch ?sv (\<lambda>xs. xs) demo_batch (classify demo_crypto (stored first_world) [] demo_batch) first_world =
     ([item\<lparr>biStatus := ''ready''\<rparr>], [Some demo_info], tick 2 (first_world\<lparr>wManager := (m, ())\<rparr>))" using demo_validated by blast
  let ?w = "tick 2 (first_world\<lparr>wManager := (m, ())\<rparr>)"
  have none: "\<not> (True \<and> LookupByTokenAndAccount demo_crypto (stored ?w) ''at-1'' (TrimSpace ''acc'') \<noteq> None)"
    by (simp add: first_world_def no_lookup)
  obtain err w' where c: "commitInspectedTokenLocked ?sv None ''at-1'' ''acc'' (Some demo_info) True ?w = (Inl err, w')"
    using closed_import [OF none] by blast
  have t: "wTick w' = 4 \<or> wTick w' = 3"
    using commit_cases_server [OF c] by (auto simp: first_world_def undo_tick dest!: store_ticks(1,4))
  obtain resp where p: "processBatchImport ?sv None (\<lambda>xs. xs) demo_batch False True first_world = (resp, w')" "brTransaction resp = ''rolled_back''"
    using v c by (simp add: processBatchImport_def batchHasBlockingValidation_def Let_def respond_def demo_batch_def)
  have "fresh_keys ?sv (wTick w') first_world" using t by (auto intro!: demo_fresh_keys simp: first_world_def)
  from batch_is_all_or_nothing [OF _ _ this demo_batch_ok(1) _ p(1)] p show ?thesis by (auto simp: demo_batch_ok)
qed

lemma demo_store_import:
  assumes "mdAccountScoped md \<longrightarrow> TrimSpace (mdAccountID md) \<noteq> []" "mdExpiresAt md = 0"
  shows "\<exists>pub key sd. store_import (demo_server ch) ''at-1'' md w = (Inr (pub, key), tick 1 (w\<lparr>wStore := sd\<rparr>))"
proof -
  have "\<exists>pub key s' d'. ImportWithMetadata demo_crypto calm (demo_random_at t) ''at-1'' md 5 (s, d) = (Inr (pub, key), s', d')" for s d t
    by (rule steady_import) (use assms in \<open>simp_all add: demo_token demo_random_at_def demo_entropy_def time_marshals_def day_def\<close>)
  then obtain pub key sd where "ImportWithMetadata demo_crypto calm (demo_random_at (wTick w)) ''at-1'' md 5 (wStore w) = (Inr (pub, key), sd)" by (metis surj_pair)
  then have "store_import (demo_server ch) ''at-1'' md w = (Inr (pub, key), tick 1 (w\<lparr>wStore := sd\<rparr>))" by (simp add: store_import_def)
  then show ?thesis by blast
qed

lemma demo_commit:
  "\<exists>res w'. commitInspectedTokenLocked (demo_server None) None ''at-1'' ''acc'' (Some demo_info) True (tick 2 (first_world\<lparr>wManager := mm\<rparr>)) = (Inr res, w') \<and>
     \<not> irDuplicate res \<and> wTick w' = 3"
proof -
  let ?w = "tick 2 (first_world\<lparr>wManager := mm\<rparr>)" and ?md = "storeMetadata (scoped_credential ''acc'' (Some demo_info)) True"
  have "mdAccountScoped ?md \<longrightarrow> TrimSpace (mdAccountID ?md) \<noteq> []" "mdExpiresAt ?md = 0"
    by (simp_all add: storeMetadata_def scoped_credential_def demo_trims demo_info_def)
  from demo_store_import [OF this] obtain pub key sd where "store_import (demo_server None) ''at-1'' ?md ?w = (Inr (pub, key), tick 1 (?w\<lparr>wStore := sd\<rparr>))" by blast
  then show ?thesis by (simp add: commitInspectedTokenLocked_def demo_trims first_world_def no_lookup)
qed

lemma demo_committed:
  "\<exists>resp w'. processBatchImport (demo_server None) None (\<lambda>xs. xs) demo_batch False True first_world = (resp, w') \<and>
     brTransaction resp = ''committed'' \<and> length (brItems resp) = 1 \<and> biStatus (brItems resp ! 0) = ''imported'' \<and> wTick w' = 3"
proof -
  obtain m item where v: "validate_batch (demo_server None) (\<lambda>xs. xs) demo_batch (classify demo_crypto (stored first_world) [] demo_batch) first_world =
     ([item\<lparr>biStatus := ''ready''\<rparr>], [Some demo_info], tick 2 (first_world\<lparr>wManager := (m, ())\<rparr>))" using demo_validated by blast
  obtain res w' where "commitInspectedTokenLocked (demo_server None) None ''at-1'' ''acc'' (Some demo_info) True (tick 2 (first_world\<lparr>wManager := (m, ())\<rparr>)) = (Inr res, w')"
      "\<not> irDuplicate res" "wTick w' = 3" using demo_commit by blast
  then show ?thesis
    using v by (simp add: processBatchImport_def batchHasBlockingValidation_def Let_def respond_def demo_batch_def)
qed

theorem imported_items_are_stored_witness:
  "\<exists>resp w' i. processBatchImport (demo_server None) None (\<lambda>xs. xs) demo_batch False True first_world = (resp, w') \<and>
     map_get (byID (stored w')) (biIdentityID (brItems resp ! 0)) = Some i \<and> idToken i = ''at-1''"
proof -
  obtain resp w' where p: "processBatchImport (demo_server None) None (\<lambda>xs. xs) demo_batch False True first_world = (resp, w')"
     "brTransaction resp = ''committed''" "length (brItems resp) = 1" "biStatus (brItems resp ! 0) = ''imported''" "wTick w' = 3" using demo_committed by blast
  have "fresh_keys (demo_server None) (wTick w') first_world" using p(5) by (auto intro!: demo_fresh_keys simp: first_world_def)
  from imported_items_are_stored [OF _ _ this demo_batch_ok(1) _ p(1,2), of 0] p show ?thesis
    by (auto simp: demo_batch_ok(2)) (simp add: demo_batch_def demo_token)
qed

theorem batch_summary_adds_up_witness:
  "\<exists>resp w'. processBatchImport (demo_server None) None (\<lambda>xs. xs) demo_batch False True first_world = (resp, w') \<and>
     suTotal (brSummary resp) = 1 \<and> counted (brSummary resp) = 1"
proof -
  obtain resp w' where p: "processBatchImport (demo_server None) None (\<lambda>xs. xs) demo_batch False True first_world = (resp, w')" "length (brItems resp) = 1"
    using demo_committed by blast
  from batch_summary_adds_up [OF _ p(1)] p show ?thesis by simp
qed

section \<open>A legacy identity\<close>

definition legacy_metadata :: CredentialMetadata where
  "legacy_metadata = emptyMetadata\<lparr>mdAccountID := ''acc''\<rparr>"

lemma demo_ids:
  "IdentityIDForAccount demo_crypto ''at-1'' ''acc'' \<noteq> IdentityID demo_crypto ''at-1''"
  by (simp add: IdentityIDForAccount_def IdentityID_def demo_token demo_trims demo_crypto_def hex_digit_def byte_def)

lemma legacy_world:
  "\<exists>(w :: (unit, string \<Rightarrow> bytes option) world) p. wTick w = 1 \<and> store_ok demo_crypto (stored w) \<and> fresh_key demo_crypto (stored w) (keyRandom (demo_random_at 1)) \<and>
     LookupByTokenAndAccount demo_crypto (stored w) ''at-1'' ''acc'' = Some p \<and> idID p \<noteq> IdentityIDForAccount demo_crypto ''at-1'' ''acc''"
proof -
  obtain pub key sd where i: "store_import (demo_server None) ''at-1'' legacy_metadata first_world = (Inr (pub, key), tick 1 (first_world\<lparr>wStore := sd\<rparr>))"
    using demo_store_import [of legacy_metadata None first_world] unfolding legacy_metadata_def emptyMetadata_def by (simp only: CredentialMetadata.simps) blast
  let ?w = "tick 1 (first_world\<lparr>wStore := sd\<rparr>)"
  define p where "p = newIdentity demo_crypto demo_cipher ''at-1'' key legacy_metadata 5"
  have p: "fst sd = publish p (''data'', identityFileName (idID p)) (emptyStore ''data'' demo_cipher)" "randomClientKey (keyRandom (demo_random_at 0)) = Some key"
    using store_import_cases [OF i] by (simp_all add: p_def first_world_def demo_token emptyStore_def Let_def)
  have ok: "store_ok demo_crypto (stored ?w)"
    using store_import_ok [OF _ _ i] by (simp add: first_world_def)
  have id: "idID p = IdentityID demo_crypto ''at-1''" by (simp add: p_def legacy_metadata_def emptyMetadata_def newIdentity_def Let_def)
  have acc: "\<not> idAccountScoped p" "idAccountID p = ''acc''" "byID (emptyStore ''data'' demo_cipher) = []"
    by (simp_all add: p_def legacy_metadata_def emptyMetadata_def newIdentity_def Let_def demo_trims emptyStore_def)
  have fresh: "fresh_key demo_crypto (stored ?w) (keyRandom (demo_random_at 1))"
    using demo_keys_differ [of 0 1] p(2) demo_key_at [of 0]
    by (auto simp: fresh_key_def p(1) demo_key_at publish_keys emptyStore_def p_def newIdentity_def Let_def split: option.splits)
  have "LookupByTokenAndAccount demo_crypto (stored ?w) ''at-1'' ''acc'' = Some p"
    using demo_ids id acc by (simp add: LookupByTokenAndAccount_def GetByID_def p(1) publish_keys Let_def demo_token demo_trims)
  then show ?thesis using ok fresh id demo_ids by (intro exI [of _ ?w] exI [of _ p]) (simp add: first_world_def)
qed

theorem legacy_rollback_leaves_identity_witness:
  "\<exists>w err w' i. commitInspectedTokenLocked (demo_server (Some (demo_cpa_manager, closed_cpa))) None ''at-1'' ''acc'' (Some demo_info) False w = (Inl err, w') \<and>
     map_get (byID (stored w)) (IdentityIDForAccount demo_crypto ''at-1'' ''acc'') = None \<and>
     map_get (byID (stored w')) (IdentityIDForAccount demo_crypto ''at-1'' ''acc'') = Some i"
proof -
  let ?sv = "demo_server (Some (demo_cpa_manager, closed_cpa))" and ?id = "IdentityIDForAccount demo_crypto ''at-1'' ''acc''"
  obtain w :: "(unit, string \<Rightarrow> bytes option) world" and p where w: "wTick w = 1" "store_ok demo_crypto (stored w)" "fresh_key demo_crypto (stored w) (keyRandom (demo_random_at 1))"
      "LookupByTokenAndAccount demo_crypto (stored w) ''at-1'' ''acc'' = Some p" "idID p \<noteq> ?id" using legacy_world by blast
  obtain err w' where c: "commitInspectedTokenLocked ?sv None ''at-1'' ''acc'' (Some demo_info) False w = (Inl err, w')"
    using closed_import [of False] by blast
  let ?md = "storeMetadata (scoped_credential ''acc'' (Some demo_info)) True"
  have md: "mdAccountScoped ?md \<longrightarrow> TrimSpace (mdAccountID ?md) \<noteq> []" "mdExpiresAt ?md = 0"
    by (simp_all add: storeMetadata_def scoped_credential_def demo_trims demo_info_def)
  have "err \<noteq> store_failed"
    using commit_cases_server [OF c] demo_store_import [OF md, of "Some (demo_cpa_manager, closed_cpa)" w]
    by (auto simp: demo_trims cpaSynchronizationImportError_def store_failed_def split: if_splits)
  from legacy_rollback_leaves_identity [OF _ _ _ _ _ c this] w
  have "\<exists>i. map_get (byID (stored w')) ?id = Some i" by (simp add: demo_token demo_trims) blast
  moreover have "map_get (byID (stored w)) ?id = None"
  proof (rule ccontr)
    assume "map_get (byID (stored w)) ?id \<noteq> None"
    then obtain q where q: "map_get (byID (stored w)) ?id = Some q" by blast
    have "TrimSpace ?id = ?id" by simp
    with q have "LookupByTokenAndAccount demo_crypto (stored w) ''at-1'' ''acc'' = Some q"
      by (simp add: LookupByTokenAndAccount_def GetByID_def demo_token demo_trims Let_def)
    moreover have "idID q = ?id" using store_okD(1) [OF w(2) q] by simp
    ultimately show False using w(4,5) by simp
  qed
  ultimately show ?thesis using c by blast
qed

section \<open>Deletion\<close>

definition demo_config :: Config where
  "demo_config = \<lparr>cfUpstreamOrigin = Some (zero_url\<lparr>Scheme := ''https'', Host := ''chatgpt.com''\<rparr>), cfPublicCPABaseURL = [], cfManagementKey = ''m'',
     cfMaxReplayBodyBytes = 16, cfEnforceIdentityProxy = False, cfBackupDir = ''b'', cfEmbedAllowedOrigins = []\<rparr>"

text \<open>The identity of the store examples, on the disk that its import left, and no CPA.\<close>

lemma demo_stored: "map_get (byID (fst (snd demo_import))) (idID demo_identity) = Some demo_identity"
proof -
  obtain d' where d': "demo_import = (Inr (publicIdentity demo_identity, demo_key),
     publish demo_identity (''data'', identityFileName (idID demo_identity)) (emptyStore ''data'' demo_cipher), d')" using demo_imports by blast
  show ?thesis by (simp add: d')
qed

lemma demo_snapshot: "\<exists>doc. SnapshotFile calm (idID demo_identity) (snd demo_import) = Inr (identityFileName (idID demo_identity), doc)"
proof -
  let ?s = "fst (snd demo_import)" and ?d = "snd (snd demo_import)"
  have con: "consistent demo_crypto ?s ?d" using demo_consistent by simp
  have trim: "TrimSpace (idID demo_identity) = idID demo_identity" by (rule valid_id_trim [OF demo_crypto_ok demo_identity_valid])
  note i = demo_stored
  obtain p where p: "map_get (fileByID ?s) (idID demo_identity) = Some p" using store_okD(6) [OF consistentD(1) [OF con], of "idID demo_identity"] i by auto
  have "snd p = identityFileName (idID demo_identity)" using consistentD(4) [OF con p] by simp
  moreover obtain node where "map_get (entries ?d) (identityFileName (idID demo_identity)) = Some node" "nodeRegular node"
      "identity_entry (identityFileName (idID demo_identity)) node"
    using consistentD(5) [OF con i] by (auto simp: holds_def)
  ultimately show ?thesis
    using i p trim by (cases "snd demo_import") (auto simp: SnapshotFile_def calm_def Let_def identity_entry_def)
qed

definition delete_world :: "(unit, string \<Rightarrow> bytes option) world" where
  "delete_world = demo_world (snd demo_import) demo_state"

lemma demo_dirs: "TrimSpace ''b'' = ''b''"
  by (rule TrimSpace_plain) (simp add: space_byte_def byte_def)

lemma demo_backup: "\<exists>b w1. createIdentityDeleteBackup (demo_server None) ''b'' None demo_identity delete_world = (Inr b, w1) \<and> wStore w1 = snd demo_import"
proof -
  obtain doc where doc: "SnapshotFile calm (idID demo_identity) (snd demo_import) = Inr (identityFileName (idID demo_identity), doc)" using demo_snapshot by blast
  have "TrimSpace (idID demo_identity) \<noteq> []" using valid_id_trim [OF demo_crypto_ok demo_identity_valid]
    by (simp add: demo_identity_def newIdentity_def Let_def IdentityID_def emptyMetadata_def)
  moreover have "\<exists>fs'. write_backup demo_crypto quiet_backup ''b'' (backup_metadata demo_crypto bid 5 demo_identity sf ''doc'') sf ''doc'' [] (wBackup delete_world) = (Inr (), fs')" for bid sf
    by (simp add: write_backup_def ensureOwnerOnlyDirectory_def make_dir_def fill_backup_def writeOwnerOnlyBackupFile_def cpa_part_def verifyBackupFile_def encode_metadata_def
        backup_metadata_def quiet_backup_def delete_world_def demo_world_def demo_dirs time_marshals_def day_def Let_def)
  then obtain fs' where fs': "write_backup demo_crypto quiet_backup ''b'' (backup_metadata demo_crypto (backup_stamp 5 @ ''-'' @ TrimPrefix (idID demo_identity) ''agent-'') 5 demo_identity
      (identityFileName (idID demo_identity)) ''doc'') (identityFileName (idID demo_identity)) ''doc'' [] (wBackup delete_world) = (Inr (), fs')" by blast
  ultimately show ?thesis using doc
    by (simp add: createIdentityDeleteBackup_def Let_def) (simp add: delete_world_def Let_def)
qed


definition broken_backup :: backup_env where
  "broken_backup = quiet_backup\<lparr>beFails := (\<lambda>op. \<exists>p. op = BWrite p)\<rparr>"

theorem failed_backup_leaves_nothing_witness:
  "\<exists>e fs'. write_backup demo_crypto broken_backup ''b'' (backup_metadata demo_crypto ''x'' 5 demo_identity ''f'' ''doc'') ''f'' ''doc'' [] (wBackup delete_world) = (Inl e, fs') \<and>
     bfFiles fs' = bfFiles (wBackup delete_world)"
proof -
  let ?meta = "backup_metadata demo_crypto ''x'' 5 demo_identity ''f'' ''doc''"
  obtain e fs' where f: "write_backup demo_crypto broken_backup ''b'' ?meta ''f'' ''doc'' [] (wBackup delete_world) = (Inl e, fs')"
    by (simp add: write_backup_def ensureOwnerOnlyDirectory_def make_dir_def fill_backup_def writeOwnerOnlyBackupFile_def
        backup_metadata_def broken_backup_def quiet_backup_def delete_world_def demo_world_def demo_dirs Let_def)
  have "tree_ok (wBackup delete_world)" by (simp add: tree_ok_def delete_world_def demo_world_def)
  from failed_backup_leaves_nothing [OF this f] f show ?thesis by (auto simp: broken_backup_def quiet_backup_def)
qed

section \<open>An e-mail address with two dots\<close>

definition dotted_identity :: Identity where
  "dotted_identity = demo_identity\<lparr>idID := ''agent-0a'', idClientKey := ''cais_'' @ replicate 32 (CHR ''0''), idEmail := ''a..b@c''\<rparr>"

definition dotted_credential :: Credential where
  "dotted_credential = cpaCredentialFromStored dotted_identity"

definition dotted_name :: string where "dotted_name = ''codex-a..b@c-agent-identity.json''"
definition dotted_document :: bytes where "dotted_document = credentialJSON ''http://s/backend-api/codex'' dotted_credential"
definition dotted_state :: "(string \<Rightarrow> bytes option) env" where "dotted_state = \<lparr>clk = 0, wld = [dotted_name \<mapsto> dotted_document]\<rparr>"

lemma dotted_fields:
  "dotted_credential = demo_credential\<lparr>crEmail := ''a..b@c''\<rparr>"
  by (simp add: dotted_credential_def cpaCredentialFromStored_def dotted_identity_def demo_credential_def identity_only_def demo_identity_def newIdentity_def Let_def
      emptyMetadata_def demo_token)

lemma dotted_trim: "TrimSpace ''a..b@c'' = ''a..b@c''"
  by (rule TrimSpace_plain) (simp add: space_byte_def byte_def)

lemma dotted_ok: "normalizeCredential dotted_credential = dotted_credential" "validateCredential dotted_credential = None" "credential_text_ok dotted_credential"
proof -
  have e: "validateCredential (c\<lparr>crEmail := x\<rparr>) = validateCredential c" for c x by (simp add: validateCredential_def)
  have v: "ValidString ''a..b@c''" by (rule ascii_valid) (simp add: byte_def)
  have t: "TrimSpace ''agent-0a'' = ''agent-0a''" "TrimSpace (''cais_'' @ replicate 32 (CHR ''0'')) = ''cais_'' @ replicate 32 (CHR ''0'')" "TrimSpace ''at-1'' = ''at-1''"
    by (rule TrimSpace_plain, simp add: space_byte_def byte_def)+
  show "normalizeCredential dotted_credential = dotted_credential"
    using t dotted_trim unfolding dotted_fields by (simp add: normalizeCredential_def demo_credential_def identity_only_def del: append.simps)
  show "validateCredential dotted_credential = None"
    using demo_credential_ok(2) unfolding dotted_fields e .
  show "credential_text_ok dotted_credential"
    using demo_credential_ok(3) v unfolding dotted_fields by (simp add: credential_text_ok_def del: ValidString.simps)
qed

lemma dotted_parts: "sanitizeFilePart ''a..b@c'' = ''a..b@c''"
proof -
  have "runes ''a..b@c'' = [''a'', ''.'', ''.'', ''b'', ''@'', ''c'']" by (simp add: byte_def)
  moreover have "sanitize_loop [] [''a'', ''.'', ''.'', ''b'', ''@'', ''c''] = ''a..b@c''" by code_simp
  ultimately show ?thesis by (simp add: sanitizeFilePart_def TrimBoth_def TrimRight_def dotted_trim)
qed

lemma dotted_file_name: "authFileName demo_crypto dotted_credential = Some dotted_name"
  using demo_parts(2,3) dotted_parts
  by (simp add: authFileName_def dotted_fields) (simp add: demo_credential_def identity_only_def workspace_prefix_def managedAuthSuffix_def dotted_name_def)

lemma dotted_is_candidate: "dotted_name \<in> fst ` set (managedAuthFileCandidates demo_crypto dotted_credential)"
proof -
  have safe: "safeAuthFileName dotted_name = Some dotted_name" using authFileName_shape [OF dotted_file_name] safe_name(1) by metis
  have "sanitizeFilePart (crEmail dotted_credential) \<noteq> []" using dotted_parts by (simp add: dotted_fields)
  moreover have "dotted_name \<in> fst ` set (candidate_names demo_crypto dotted_credential)"
    using demo_parts(2) dotted_parts by (simp add: candidate_names_def dotted_fields)
      (simp add: demo_credential_def identity_only_def workspace_prefix_def managedAuthSuffix_def dotted_name_def)
  moreover have "validateIdentityID (crIdentityID dotted_credential)" using demo_parts(3) by (simp add: dotted_fields)
  ultimately show ?thesis using candidate_added [OF safe]
    by (simp add: managedAuthFileCandidates_def dotted_ok(1) Let_def image_Un del: fold_append)
qed

lemma dotted_size: "length dotted_document \<le> 4 * mebi"
proof -
  let ?m = "credential_payload ''http://s/backend-api/codex'' dotted_credential False"
  have m: "?m = base_payload ''http://s/backend-api/codex'' dotted_credential False"
    by (simp add: credential_payload_def put_when_def native_pat_def dotted_fields) (simp add: demo_credential_def identity_only_def)
  have "length (MarshalIndent ?m) \<le> sum_list (map field_size ?m) + 10"
    by (rule flat_document_size) (simp add: m base_payload_def Let_def)
  also have "\<dots> \<le> 4 * mebi"
    unfolding m by (simp add: base_payload_def Let_def dotted_trim dotted_fields demo_credential_def identity_only_def mebi_def sidecarClientKeyField_def pluginProviderID_def authMode_def)
  finally show ?thesis by (simp add: dotted_document_def credentialJSON_def credentialJSONWithDisabled_def)
qed

lemma dotted_snapshot:
  "\<exists>snaps e'. SnapshotCredential demo_crypto demo_cpa_manager demo_cpa None dotted_credential dotted_state = (Inr snaps, e') \<and> (\<exists>s \<in> set snaps. asName s = dotted_name)"
proof -
  have v: "validateIdentityID (crIdentityID dotted_credential)" using demo_parts(3) by (simp add: dotted_fields)
  obtain found e' where "managedAuthFilesForCredentials demo_crypto demo_cpa_manager demo_cpa None [dotted_credential] dotted_state = (Inr found, e')"
    using healthy_discover [OF demo_healthy dotted_ok(1) v] by blast
  then obtain snaps where s: "SnapshotCredential demo_crypto demo_cpa_manager demo_cpa None dotted_credential dotted_state = (Inr snaps, e')"
    using v by (simp add: SnapshotCredential_def dotted_ok(1))
  have "seen (wld dotted_state) dotted_name = Some dotted_document" using dotted_size by (simp add: seen_def dotted_state_def)
  moreover have "managedCredentialMatchScore dotted_document dotted_credential \<noteq> None"
    using own_document [OF dotted_ok demo_valid_base, of False] by (auto simp: dotted_document_def credentialJSON_def managedCredentialMatches_def split: if_splits)
  ultimately have "\<exists>x \<in> set snaps. asName x = dotted_name"
    using snapshot_fact [OF healthy_file_server [OF demo_healthy] s] dotted_is_candidate by (fastforce simp: dotted_ok(1))
  with s show ?thesis by blast
qed

theorem dotted_auth_file_blocks_deletion_witness:
  "authFileName demo_crypto dotted_credential = Some dotted_name \<and>
   fst (fst (deleteIdentity demo_config (demo_server (Some (demo_cpa_manager, demo_cpa))) None (idID dotted_identity) dotted_identity
     (demo_world (snd demo_import) dotted_state))) = 502"
proof -
  obtain snaps e' s where s: "SnapshotCredential demo_crypto demo_cpa_manager demo_cpa None dotted_credential dotted_state = (Inr snaps, e')"
      "s \<in> set snaps" "asName s = dotted_name" using dotted_snapshot by blast
  have "Contains dotted_name ''..''" by code_simp
  with dotted_auth_file_blocks_deletion [where sv = "demo_server (Some (demo_cpa_manager, demo_cpa))" and m = demo_cpa_manager and api = demo_cpa and ctx = None
      and previous = dotted_identity and w = "demo_world (snd demo_import) dotted_state" and snaps = snaps and e' = e' and s = s and cfg = demo_config and i = "idID dotted_identity"] s
  show ?thesis by (simp add: dotted_file_name flip: dotted_credential_def)
qed

end
