(* ===== verification/Proxy_Witnesses.thy ===== *)
theory Proxy_Witnesses
  imports Server_Witnesses Proxy_Properties
begin

text \<open>
  The properties of the data path on a concrete server: an identity scoped to an account, a client that presents its key, and an upstream that answers.
\<close>

section \<open>A recorded server with one identity\<close>

definition recorded_world :: "Store \<times> disk \<Rightarrow> (unit \<times> request list, string \<Rightarrow> bytes option) world" where
  "recorded_world sd =
     \<lparr>wStore = sd, wManager = (demo_manager, (), []), wCpa = demo_state,
      wBackup = \<lparr>bfReal = True, bfDirs = (\<lambda>_. False), bfFiles = (\<lambda>_. None)\<rparr>, wTick = 0\<rparr>"

definition scoped_metadata :: CredentialMetadata where
  "scoped_metadata = emptyMetadata\<lparr>mdAccountID := ''acc'', mdAccountScoped := True\<rparr>"

definition first_key :: string where
  "first_key = clientKeyPrefix @ hex_encode (replicate 32 (char_of (65 :: nat)))"

definition scoped_identity :: Identity where
  "scoped_identity = newIdentity demo_crypto demo_cipher ''at-1'' first_key scoped_metadata 5"

lemma scoped_fields:
  "idToken scoped_identity = ''at-1''" "idAccountScoped scoped_identity" "idAccountID scoped_identity = ''acc''" "idClientKeyHash scoped_identity = hexSum256 demo_crypto first_key"
  by (simp_all add: scoped_identity_def newIdentity_def scoped_metadata_def emptyMetadata_def Let_def demo_trims)

definition scoped_store :: Store where
  "scoped_store = publish scoped_identity (''data'', identityFileName (idID scoped_identity)) (emptyStore ''data'' demo_cipher)"

definition client_request :: http_request where
  "client_request = \<lparr>hrMethod = ''GET'', hrURL = zero_url\<lparr>Path := ''/backend-api/codex''\<rparr>,
     hrHeader = [(''Authorization'', ''Bearer '' @ first_key), (''Connection'', ''ChatGPT-Account-ID'')], hrBody = None, hrReadable = True, hrCtx = None, hrProxy = []\<rparr>"

definition demo_origin :: url where
  "demo_origin = zero_url\<lparr>Scheme := ''https'', Host := ''chatgpt.com''\<rparr>"

lemma first_key_plain: "\<forall>c \<in> set first_key. \<not> space_byte c" "first_key \<noteq> []"
proof -
  have "\<forall>c \<in> set (hex_encode bs). \<not> space_byte c" for bs
    using hex_encode_lower lower_hex_not_space by blast
  then show "\<forall>c \<in> set first_key. \<not> space_byte c"
    by (auto simp: first_key_def clientKeyPrefix_def space_byte_def byte_def)
  show "first_key \<noteq> []" by (simp add: first_key_def clientKeyPrefix_def)
qed

lemma bearer_key:
  assumes "\<forall>c \<in> set k. \<not> space_byte c" "k \<noteq> []"
  shows "bearerToken (''Bearer '' @ k) = k"
proof -
  have t: "TrimSpace (''Bearer '' @ k) = ''Bearer '' @ k"
    by (rule TrimSpace_id) (use assms in \<open>auto simp: space_byte_def byte_def last_in_set\<close>)
  have "cut (CHR '' '') (''Bearer'' @ CHR '' '' # k) = (''Bearer'', k)" by (rule cut_at) simp
  moreover have "EqualFold ''Bearer'' ''Bearer''" by (simp add: EqualFold_def)
  moreover have "TrimSpace k = k" using assms(1) by (rule TrimSpace_plain)
  ultimately show ?thesis unfolding bearerToken_def Let_def t by simp
qed

lemma scoped_lookup: "Lookup demo_crypto scoped_store first_key = Some scoped_identity"
proof -
  have "TrimSpace first_key = first_key" using first_key_plain(1) by (rule TrimSpace_plain)
  moreover have "HasPrefix first_key clientKeyPrefix" by (simp add: first_key_def)
  ultimately show ?thesis using first_key_plain(2) by (simp add: Lookup_def scoped_store_def publish_keys scoped_fields Let_def)
qed

lemma scoped_authorized:
  "\<exists>au m. authorize (recorded (demo_server ch)) p (idID scoped_identity) ''at-1'' s ''acc'' (recorded_world sd) =
     (Inr au, tick 5 ((recorded_world sd)\<lparr>wManager := (m, (), [])\<rparr>))"
proof -
  have "whoami_result ''acc'' h (Response demo_whoami) = Inr (demo_info\<lparr>ciTokenHash := h\<rparr>)" for h
    by (simp add: whoami_result_def demo_whoami_first demo_trims demo_info_def) (simp add: success_status_def demo_whoami_def)
  then show ?thesis
    by (simp add: authorize_def AuthorizeForAccount_def personalAccessTokenForAccount_def demo_pat demo_trims Let_def recorded_world_def demo_manager_def recorded_def
        NewManagerWithPersonalAccessTokenAPI_def) blast
qed

lemma scoped_account: "selectedAccountID scoped_identity = ''acc''"
  using demo_pat(2) by (simp add: selectedAccountID_def scoped_fields demo_trims)

lemma upgrade_none: "upgradeType (set_credentials au (hrHeader client_request)) = []"
proof -
  have "header_values (set_credentials au (hrHeader client_request)) ''Connection'' = header_values (hrHeader client_request) ''Connection''"
    by (simp add: set_credentials_def set_account_def Let_def values_set values_del proxy_names)
  also have "\<dots> = [''ChatGPT-Account-ID'']" by (simp add: client_request_def header_values_def proxy_names)
  finally show ?thesis
    by (simp add: upgradeType_def values_contain_token_def TrimBoth_def TrimRight_def lower_byte_def is_upper_def byte_def char_of_def bit_0)
qed

lemma demo_proxied:
  "\<exists>reply w'. handleProxy demo_config (recorded (demo_server None)) demo_origin client_request (recorded_world (scoped_store, demo_disk)) = (reply, w') \<and> sent_of w' \<noteq> []"
proof -
  let ?sv = "recorded (demo_server None)" and ?w = "recorded_world (scoped_store, demo_disk)" and ?s = "logicalSessionID (hrHeader client_request)"
  have C: "svCrypto ?sv = demo_crypto" by (simp add: recorded_def)
  have st: "stored ?w = scoped_store" by (simp add: recorded_world_def)
  have k: "bearerToken (header_get (hrHeader client_request) ''Authorization'') = first_key"
    using bearer_key [OF first_key_plain] by (simp add: client_request_def EqualFold_def)
  have path: "Path (hrURL client_request) = proxyPathPrefix" "\<not> isCodexDirectImagePath proxyPathPrefix"
    by (simp_all add: client_request_def proxyPathPrefix_def isCodexDirectImagePath_def TrimSpace_plain space_byte_def byte_def)
  have body: "prepareReplayableBody client_request n = Some (None, False)" for n by (simp add: prepareReplayableBody_def client_request_def)
  have prox: "withIdentityProxy demo_config ?sv ctx i [] w = (Some [], w)" for ctx i w by (simp add: withIdentityProxy_def demo_config_def)
  obtain au m where au: "authorize ?sv [] (idID scoped_identity) ''at-1'' ?s ''acc'' ?w = (Inr au, tick 5 (?w\<lparr>wManager := (m, (), [])\<rparr>))"
    using scoped_authorized by blast
  let ?w2 = "tick 5 (?w\<lparr>wManager := (m, (), [])\<rparr>)"
  let ?rq = "\<lparr>upMethod = hrMethod client_request, upURL = hrURL client_request, upHeader = set_credentials au (hrHeader client_request), upBody = None, upReplay = False,
      upProxy = [], upState = Some (upstream_state scoped_identity au ?s)\<rparr>"
  have h: "handleProxy demo_config ?sv demo_origin client_request ?w = serve_proxy ?sv demo_origin ?rq ?w2"
    using au by (simp add: handleProxy_def C st k path scoped_lookup body prox scoped_fields scoped_account Let_def)
  have bc: "\<exists>w'. base_call ?sv rq ?w2 = (Response demo_whoami, w') \<and> sent_of w' = [wire rq]" for rq
    by (simp add: base_call_def recorded_def demo_server_def)
  have ok: "rsStatus demo_whoami \<noteq> 401" by (simp add: demo_whoami_def)
  have rt: "\<exists>w'. RoundTrip ?sv rq ?w2 = (Response demo_whoami, w') \<and> sent_of w' = [wire rq]" for rq
    using bc [of rq] ok by (auto simp: RoundTrip_def)
  have "\<exists>reply w'. serve_proxy ?sv demo_origin ?rq ?w2 = (reply, w') \<and> sent_of w' \<noteq> []"
    using rt [of "?rq\<lparr>upURL := SetURL demo_origin ((upURL ?rq)\<lparr>RawQuery := cleanQueryParams (upURL ?rq)\<rparr>), upHeader := proxy_headers (upHeader ?rq)\<rparr>"]
    by (auto simp: serve_proxy_def upgrade_none printable_def Let_def)
  then show ?thesis unfolding h .
qed

section \<open>The properties\<close>


theorem connection_header_sheds_account_witness:
  "\<exists>reply w'. handleProxy demo_config (recorded (demo_server None)) demo_origin client_request (recorded_world (scoped_store, demo_disk)) = (reply, w') \<and>
     selectedAccountID scoped_identity = ''acc'' \<and> sent_of w' \<noteq> [] \<and> header_values (rqHeader (hd (sent_of w'))) ''ChatGPT-Account-ID'' = []"
proof -
  obtain reply w' where h: "handleProxy demo_config (recorded (demo_server None)) demo_origin client_request (recorded_world (scoped_store, demo_disk)) = (reply, w')" "sent_of w' \<noteq> []"
    using demo_proxied by blast
  have "header_values (hrHeader client_request) ''Connection'' = [''ChatGPT-Account-ID'']" by (simp add: client_request_def header_values_def proxy_names)
  from connection_header_sheds_account [OF h(1) _ this h(2)] h scoped_account show ?thesis by (auto simp: recorded_world_def)
qed


definition keyless_request :: http_request where
  "keyless_request = client_request\<lparr>hrHeader := []\<rparr>"

theorem management_needs_key_witness:
  "\<exists>m. handleImport demo_config (demo_server None) keyless_request first_world \<in> {(Inl (401, m), first_world), (Inl (405, m), first_world)}"
proof -
  have "provided_key keyless_request = []" by (simp add: provided_key_def keyless_request_def bearerToken_def)
  then show ?thesis using management_needs_key [of keyless_request demo_config "demo_server None" first_world] by blast
qed

definition quota_json :: json where
  "quota_json = JObj [(''auth_index'', JStr ''7''), (''authIndex'', JNull), (''AuthIndex'', JNull), (''method'', JStr ''GET''),
     (''url'', JStr ''https://chatgpt.com/backend-api/wham/usage''), (''proxy_url'', JNull), (''header'', JObj [(''Authorization'', JStr ''Bearer cais_1'')]), (''data'', JNull)]"

definition quota_message :: http_request where
  "quota_message = client_request\<lparr>hrMethod := ''POST'', hrHeader := [(''Authorization'', ''Bearer m'')], hrBody := Some (json_text quota_json)\<rparr>"

lemma quota_message_call:
  "Option.bind (json_parse (body_of quota_message)) UnmarshalAPICall =
     Some \<lparr>acProxyURL = [], acAuthIndexSnake = Some ''7'', acAuthIndexCamel = None, acAuthIndexPascal = None, acMethod = ''GET'',
           acURL = ''https://chatgpt.com/backend-api/wham/usage'', acHeader = [(''Authorization'', ''Bearer cais_1'')], acData = []\<rparr>"
proof -
  have cl: "clean quota_json"
    by (simp add: quota_json_def del: ValidString.simps) (auto intro!: ascii_valid simp: byte_def simp del: ValidString.simps)
  have "json_parse (json_text quota_json) = Some quota_json"
    by (rule parse_text [OF cl]) (simp add: quota_json_def maxNestingDepth_def)
  then have "json_parse (body_of quota_message) = Some quota_json" by (simp add: body_of_def quota_message_def)
  then show ?thesis
    by (simp add: quota_json_def UnmarshalAPICall_def struct_keys_def lookupAPICallJSONField_def index_field_def string_field_def header_field_def decodeAPICallString_def
        decodeAPICallStringOrNumber_def dec_str_def Let_def)
qed

theorem sidecar_key_fails_closed_witness:
  "\<nexists>status contentType body. fst (handleCPAAPICall demo_config (recorded (demo_server (Some (demo_cpa_manager, demo_cpa)))) (\<lambda>_ _. None) (\<lambda>xs. xs) quota_message
     (recorded_world (scoped_store, demo_disk))) = ApiForwarded status contentType body"
proof -
  have k: "\<forall>c \<in> set ''cais_1''. \<not> space_byte c" by (simp add: space_byte_def byte_def)
  have "containsSidecarCredentialHeader [(''Authorization'', ''Bearer cais_1'')]"
    using bearer_key [OF k] by (simp add: containsSidecarCredentialHeader_def HasPrefix_def TrimSpace_plain space_byte_def byte_def EqualFold_def lower_byte_def is_upper_def char_of_def bit_0)
  moreover have "Resolve (cfUpstreamOrigin demo_config) (ToUpper (TrimSpace ''GET'')) ''https://chatgpt.com/backend-api/wham/usage'' \<noteq> None"
  proof -
    have upper: "TrimSpace ''GET'' = ''GET''" "ToUpper ''GET'' = ''GET''" "ToUpper ''get'' = ''GET''" "cfUpstreamOrigin demo_config = Some demo_upstream"
      by (simp_all add: TrimSpace_plain space_byte_def byte_def upper_byte_def is_lower_def char_of_def bit_0 demo_config_def demo_upstream_def)
    have "Resolve (Some demo_upstream) ''GET'' u = Resolve (Some demo_upstream) ''get'' u" for u
      unfolding Resolve_def upper demo_trim ..
    then show ?thesis unfolding upper using demo_resolve by simp
  qed
  ultimately show ?thesis
    using sidecar_key_fails_closed [OF quota_message_call _ _ prod.collapse [symmetric], of demo_config "recorded (demo_server (Some (demo_cpa_manager, demo_cpa)))"
      "\<lambda>_ _. None" "\<lambda>xs. xs" "recorded_world (scoped_store, demo_disk)"] by simp
qed


end
