(* ===== verification/Go_Text.thy ===== *)
theory Go_Text
  imports Go_Json Go_Url
begin

text \<open>
  Numbers and addresses in texts: \<^verbatim>\<open>strconv.ParseInt\<close> with base 10, \<^verbatim>\<open>net.ParseIP\<close>, \<^verbatim>\<open>IP.String\<close> and \<^verbatim>\<open>IP.IsLoopback\<close>.
  An address is its eight 16-bit groups; an IPv4 address is the mapped one, as in \<^verbatim>\<open>package net\<close>.
\<close>

section \<open>Integers\<close>

text \<open>The number with its sign, before the range check.\<close>

definition parse_digits :: "string \<Rightarrow> int option" where
  "parse_digits s =
     (let neg = HasPrefix s ''-''; ds = (if neg \<or> HasPrefix s ''+'' then tl s else s) in
      if ds = [] \<or> \<not> list_all is_digit ds then None
      else Some (if neg then - int (digits_value 0 ds) else int (digits_value 0 ds)))"

definition ParseInt :: "string \<Rightarrow> int option" where
  "ParseInt s = (case parse_digits s of None \<Rightarrow> None | Some n \<Rightarrow> if - (2 ^ 63) \<le> n \<and> n < 2 ^ 63 then Some n else None)"

section \<open>Addresses\<close>

type_synonym ip = "nat list"

definition ipv4_field :: "string \<Rightarrow> nat option" where
  "ipv4_field s =
     (if s = [] \<or> \<not> list_all is_digit s \<or> length s > 1 \<and> hd s = CHR ''0'' \<or> digits_value 0 s > 255 then None
      else Some (digits_value 0 s))"

definition parseIPv4 :: "string \<Rightarrow> nat list option" where
  "parseIPv4 s = (case map ipv4_field (SplitAt (CHR ''.'') s) of [Some a, Some b, Some c, Some d] \<Rightarrow> Some [a * 256 + b, c * 256 + d] | _ \<Rightarrow> None)"

fun hex_number :: "nat \<Rightarrow> string \<Rightarrow> nat" where
  "hex_number n [] = n"
| "hex_number n (c # s) = hex_number (16 * n + (case hex_value c of None \<Rightarrow> 0 | Some d \<Rightarrow> d)) s"

lemma drop_shorter: "drop n s = c # r \<Longrightarrow> length r < length s"
  by (metis length_drop length_Cons diff_le_self Suc_le_lessD)

text \<open>The groups read so far and the place of the ellipsis \<^verbatim>\<open>::\<close>.\<close>

function ipv6_groups :: "string \<Rightarrow> nat list \<Rightarrow> nat option \<Rightarrow> (nat list \<times> nat option) option" where
  "ipv6_groups s gs ellipsis =
     (if length gs \<ge> 8 then (if s = [] then Some (gs, ellipsis) else None)
      else let ds = takeWhile (\<lambda>c. hex_value c \<noteq> None) s; gs' = gs @ [hex_number 0 ds] in
        if ds = [] \<or> length ds > 4 then None
        else case drop (length ds) s of
          [] \<Rightarrow> Some (gs', ellipsis)
        | c # r \<Rightarrow>
            if c = CHR ''.'' then
              (if ellipsis = None \<and> length gs \<noteq> 6 \<or> length gs > 6 then None
               else map_option (\<lambda>v4. (gs @ v4, ellipsis)) (parseIPv4 s))
            else if c \<noteq> CHR '':'' \<or> r = [] then None
            else if hd r = CHR '':'' then
              (if ellipsis \<noteq> None then None
               else if tl r = [] then Some (gs', Some (length gs'))
               else ipv6_groups (tl r) gs' (Some (length gs')))
            else ipv6_groups r gs' ellipsis)"
  by pat_completeness auto
termination
  by (relation "measure (\<lambda>(s, gs, e). length s)") (auto dest!: drop_shorter)

declare ipv6_groups.simps [simp del]

definition parseIPv6 :: "string \<Rightarrow> ip option" where
  "parseIPv6 s =
     (let start = HasPrefix s ''::''; rest = (if start then drop 2 s else s) in
      if start \<and> rest = [] then Some (replicate 8 0)
      else case ipv6_groups rest [] (if start then Some 0 else None) of
        None \<Rightarrow> None
      | Some (gs, ellipsis) \<Rightarrow>
          if length gs < 8 then map_option (\<lambda>e. take e gs @ replicate (8 - length gs) 0 @ drop e gs) ellipsis
          else if ellipsis \<noteq> None then None else Some gs)"

text \<open>An address with a zone is refused.\<close>

definition ParseIP :: "string \<Rightarrow> ip option" where
  "ParseIP s =
     (if CHR ''%'' \<in> set s then None
      else case List.find (\<lambda>c. c = CHR ''.'' \<or> c = CHR '':'') s of
        None \<Rightarrow> None
      | Some c \<Rightarrow> if c = CHR ''.'' then map_option (\<lambda>v4. [0, 0, 0, 0, 0, 65535] @ v4) (parseIPv4 s) else parseIPv6 s)"

definition To4 :: "ip \<Rightarrow> nat list option" where
  "To4 a = (if take 6 a = [0, 0, 0, 0, 0, 65535] then Some [a ! 6 div 256, a ! 6 mod 256, a ! 7 div 256, a ! 7 mod 256] else None)"

definition IsLoopback :: "ip \<Rightarrow> bool" where
  "IsLoopback a = (case To4 a of Some v4 \<Rightarrow> hd v4 = 127 | None \<Rightarrow> a = [0, 0, 0, 0, 0, 0, 0, 1])"

fun hex_digits :: "nat \<Rightarrow> string" where
  "hex_digits n = (if n < 16 then [hex_digit n] else hex_digits (n div 16) @ [hex_digit (n mod 16)])"

declare hex_digits.simps [simp del]

definition zeros_at :: "nat list \<Rightarrow> nat \<Rightarrow> nat" where
  "zeros_at a i = length (takeWhile (\<lambda>g. g = 0) (drop i a))"

text \<open>The first of the longest runs of at least two zero groups is written as \<^verbatim>\<open>::\<close>.\<close>

definition zero_run :: "nat list \<Rightarrow> (nat \<times> nat) option" where
  "zero_run a =
     fold (\<lambda>i best. let n = zeros_at a i in
       if n \<ge> 2 \<and> n > (case best of None \<Rightarrow> 0 | Some (_, m) \<Rightarrow> m) then Some (i, n) else best) [0 ..< 8] None"

definition ip_String :: "ip \<Rightarrow> string" where
  "ip_String a =
     (case To4 a of
        Some v4 \<Rightarrow> sep_by ''.'' (map FormatInt v4)
      | None \<Rightarrow>
          (case zero_run a of
             None \<Rightarrow> sep_by '':'' (map hex_digits a)
           | Some (i, n) \<Rightarrow> sep_by '':'' (map hex_digits (take i a)) @ ''::'' @ sep_by '':'' (map hex_digits (drop (i + n) a))))"

end
