(* ===== verification/Direct_Images.thy ===== *)
theory Direct_Images
  imports Server_Proxy Go_Text
begin

text \<open>
  The bridge for CPA's image route (\<^verbatim>\<open>internal/server/direct_images.go\<close>): a request to \<^verbatim>\<open>/images/generations\<close> or \<^verbatim>\<open>/images/edits\<close> becomes a
  request to \<^verbatim>\<open>/responses\<close> that uses the image tool, and the event stream of the answer becomes an image reply, whole or as a stream of
  its own.  Values of \<^verbatim>\<open>any\<close> are JSON values as elsewhere; the \<^verbatim>\<open>int64\<close> values that the form decoder stores are the numbers they are
  marshalled to.  What \<^verbatim>\<open>mime\<close>, \<^verbatim>\<open>mime/multipart\<close> and \<^verbatim>\<open>http.DetectContentType\<close> make of a request is a parameter (\<open>mime_library\<close>).
\<close>

definition codexDirectImagesGenerationsPath :: string where
  "codexDirectImagesGenerationsPath = proxyPathPrefix @ ''/images/generations''"

definition codexDirectImagesEditsPath :: string where
  "codexDirectImagesEditsPath = proxyPathPrefix @ ''/images/edits''"

definition codexResponsesPath :: string where
  "codexResponsesPath = proxyPathPrefix @ ''/responses''"

definition codexImagesMainModel :: string where "codexImagesMainModel = ''gpt-5.4-mini''"
definition codexDefaultImageModel :: string where "codexDefaultImageModel = ''gpt-image-2''"
definition maxCodexImageResponseBytes :: nat where "maxCodexImageResponseBytes = 96 * mebi"

record codexDirectImageRequest =
  diBody :: bytes
  diResponseFormat :: string
  diStream :: bool
  diStreamPrefix :: string

record codexImageResult =
  crB64JSON :: string
  crRevisedPrompt :: string
  crOutputFormat :: string
  crSize :: string
  crBackground :: string
  crQuality :: string

text \<open>A usage of \<^verbatim>\<open>nil\<close> is \<open>JNull\<close>, which is also what a JSON null decodes to.\<close>

record codexImageAccumulator =
  acCreated :: int
  acUsage :: json
  acResults :: "codexImageResult list"
  acSeen :: "string list"

text \<open>A form as \<^verbatim>\<open>multipart.Reader.ReadForm\<close> returns it, its values in the order in which Go iterates over them.\<close>

record form_file =
  ffHeader :: header
  ffContent :: "string + bytes"

record multipart_form =
  mfValue :: "(string \<times> string list) list"
  mfFile :: "form_file option list gomap"

record mime_library =
  mlParseMediaType :: "string \<Rightarrow> string \<times> string gomap"
  mlReadForm :: "bytes \<Rightarrow> string \<Rightarrow> string + multipart_form"
  mlDetectContentType :: "bytes \<Rightarrow> string"
  mlReadError :: string

section \<open>Scalar values\<close>

definition string_of :: "json \<Rightarrow> string" where
  "string_of v = (case v of JStr s \<Rightarrow> s | _ \<Rightarrow> [])"

definition parseCodexImageBool :: "string \<Rightarrow> bool" where
  "parseCodexImageBool value \<longleftrightarrow> ToLower (TrimSpace value) \<in> set [''1'', ''true'', ''yes'', ''on'']"

definition stringValue :: "json \<Rightarrow> string" where
  "stringValue v = (case v of JStr s \<Rightarrow> s | JNum n \<Rightarrow> n | _ \<Rightarrow> [])"

definition imageBoolValue :: "json \<Rightarrow> bool" where
  "imageBoolValue v = (case v of JBool b \<Rightarrow> b | JStr s \<Rightarrow> parseCodexImageBool s | JNum n \<Rightarrow> n = ''1'' | _ \<Rightarrow> False)"

text \<open>\<^verbatim>\<open>json.Number.Int64\<close> with its error ignored: zero for a number that is no integer, the nearest bound out of range.\<close>

definition int64Value :: "json \<Rightarrow> int" where
  "int64Value v =
     (case v of
        JNum n \<Rightarrow> (case parse_digits n of None \<Rightarrow> 0 | Some i \<Rightarrow> max (- (2 ^ 63)) (min (2 ^ 63 - 1) i))
      | _ \<Rightarrow> 0)"

definition normalizeCodexImageResponseFormat :: "string \<Rightarrow> string" where
  "normalizeCodexImageResponseFormat value = (if EqualFold (TrimSpace value) ''url'' then ''url'' else ''b64_json'')"

definition codexImageMIMEType :: "string \<Rightarrow> string" where
  "codexImageMIMEType outputFormat =
     (let f = ToLower (TrimSpace outputFormat) in
      if f \<in> set [''jpg'', ''jpeg''] then ''image/jpeg'' else if f = ''webp'' then ''image/webp'' else ''image/png'')"

section \<open>The request\<close>

definition readReplayableRequestBody :: "http_request \<Rightarrow> int \<Rightarrow> bytes option" where
  "readReplayableRequestBody rq limit =
     (case hrBody rq of
        None \<Rightarrow> None
      | Some b \<Rightarrow>
          let limit = (if limit \<le> 0 then defaultReplayBodyMax else limit) in
          if \<not> hrReadable rq \<or> int (length b) > limit then None else Some b)"

definition codexImageTargetURL :: "url \<Rightarrow> url" where
  "codexImageTargetURL origin =
     origin\<lparr>Path := TrimRight (Path origin) ''/'' @ codexResponsesPath, RawPath := [], RawQuery := [], Fragment := []\<rparr>"

definition setCodexImageMaskValue :: "string \<Rightarrow> json \<Rightarrow> payload \<Rightarrow> payload" where
  "setCodexImageMaskValue key value payload =
     (let mask = (case lookup payload ''mask'' of JObj m \<Rightarrow> m | _ \<Rightarrow> []) in
      map_put ''mask'' (JObj (map_put key value mask)) payload)"

definition codexMultipartImageDataURL :: "mime_library \<Rightarrow> form_file option \<Rightarrow> string + string" where
  "codexMultipartImageDataURL lib fileHeader =
     (case fileHeader of
        None \<Rightarrow> Inl ''image file is missing''
      | Some f \<Rightarrow>
          (case ffContent f of
             Inl err \<Rightarrow> Inl err
           | Inr data \<Rightarrow>
               if int (length data) > defaultReplayBodyMax then Inl ''image file is too large''
               else let ct = TrimSpace (header_get (ffHeader f) ''Content-Type'');
                        contentType = (if ct = [] \<or> EqualFold ct ''application/octet-stream'' then mlDetectContentType lib data else ct) in
                 Inr (''data:'' @ contentType @ '';base64,'' @ StdEncode data)))"

fun data_urls :: "mime_library \<Rightarrow> form_file option list \<Rightarrow> string + string list" where
  "data_urls lib [] = Inr []"
| "data_urls lib (f # fs) =
     (case codexMultipartImageDataURL lib f of
        Inl err \<Rightarrow> Inl err
      | Inr u \<Rightarrow> (case data_urls lib fs of Inl err \<Rightarrow> Inl err | Inr us \<Rightarrow> Inr (u # us)))"

definition form_value :: "string \<times> string list \<Rightarrow> payload \<Rightarrow> payload" where
  "form_value kv payload =
     (let key = TrimSpace (fst kv) in
      if key = [] \<or> snd kv = [] then payload
      else let value = TrimSpace (last (snd kv)) in
        if key = ''stream'' then map_put key (JBool (parseCodexImageBool value)) payload
        else if key \<in> set [''output_compression'', ''partial_images'', ''n''] then
          map_put key (case ParseInt value of Some n \<Rightarrow> JNum (int_text n) | None \<Rightarrow> JStr value) payload
        else if key = ''mask[file_id]'' then setCodexImageMaskValue ''file_id'' (JStr value) payload
        else if key = ''mask[image_url]'' then setCodexImageMaskValue ''image_url'' (JStr value) payload
        else map_put key (JStr value) payload)"

definition form_files :: "multipart_form \<Rightarrow> string \<Rightarrow> form_file option list" where
  "form_files form name = (case map_get (mfFile form) name of None \<Rightarrow> [] | Some fs \<Rightarrow> fs)"

definition decodeCodexImageMultipart :: "mime_library \<Rightarrow> bytes \<Rightarrow> string \<Rightarrow> string + payload" where
  "decodeCodexImageMultipart lib raw boundary =
     (case mlReadForm lib raw boundary of
        Inl err \<Rightarrow> Inl (''parse multipart image edit: '' @ err)
      | Inr form \<Rightarrow>
          (case data_urls lib (concat (map (form_files form) [''image'', ''image[]''])) of
             Inl err \<Rightarrow> Inl err
           | Inr urls \<Rightarrow>
               (let payload = fold form_value (mfValue form) [];
                    payload = (if urls = [] then payload
                               else map_put ''images'' (JArr (map (\<lambda>u. JObj [(''image_url'', JStr u)]) urls)) payload) in
                case form_files form ''mask'' of
                  Some m # _ \<Rightarrow>
                    (case codexMultipartImageDataURL lib (Some m) of
                       Inl err \<Rightarrow> Inl err
                     | Inr u \<Rightarrow> Inr (setCodexImageMaskValue ''image_url'' (JStr u) payload))
                | _ \<Rightarrow> Inr payload)))"

definition decodeCodexDirectImagePayload :: "mime_library \<Rightarrow> string \<Rightarrow> bytes \<Rightarrow> string \<Rightarrow> string + payload" where
  "decodeCodexDirectImagePayload lib requestPath raw contentType =
     (case mlParseMediaType lib (TrimSpace contentType) of (mediaType, parameters) \<Rightarrow>
      if requestPath = codexDirectImagesEditsPath \<and> HasPrefix (ToLower mediaType) ''multipart/'' then
        (let boundary = TrimSpace (case map_get parameters ''boundary'' of None \<Rightarrow> [] | Some b \<Rightarrow> b) in
         if boundary = [] then Inl ''multipart boundary is required'' else decodeCodexImageMultipart lib raw boundary)
      else case Decode raw of
        StreamValue v rest \<Rightarrow>
          (case json_any v of
             JObj payload \<Rightarrow> (case Decode rest of StreamEOF \<Rightarrow> Inr payload | _ \<Rightarrow> Inl ''image request has trailing data'')
           | _ \<Rightarrow> Inl ''image request must be valid JSON'')
      | _ \<Rightarrow> Inl ''image request must be valid JSON'')"

text \<open>Copy the given keys of one map into another, where they exist.\<close>

definition pick :: "string list \<Rightarrow> payload \<Rightarrow> payload \<Rightarrow> payload" where
  "pick keys src dst = fold (\<lambda>k m. case map_get src k of None \<Rightarrow> m | Some v \<Rightarrow> map_put k v m) keys dst"

fun image_input :: "json \<Rightarrow> json list" where
  "image_input (JStr s) = (if TrimSpace s = [] then [] else [JObj [(''type'', JStr ''input_image''), (''image_url'', JStr s)]])"
| "image_input (JObj img) =
     (let part = pick [''image_url'', ''file_id''] img [(''type'', JStr ''input_image'')] in
      if length part > 1 then [JObj part] else [])"
| "image_input _ = []"

definition collectCodexImageInputs :: "payload \<Rightarrow> json list" where
  "collectCodexImageInputs payload =
     (let images = (case lookup payload ''images'' of JArr vs \<Rightarrow> vs | _ \<Rightarrow> []);
          single = (case map_get payload ''image'' of None \<Rightarrow> [] | Some (JArr vs) \<Rightarrow> vs | Some v \<Rightarrow> [v]) in
      concat (map image_input (images @ single)))"

definition tool_fields :: "string list" where
  "tool_fields = [''size'', ''quality'', ''background'', ''output_format'', ''input_fidelity'', ''moderation'', ''output_compression'',
     ''partial_images'']"

definition image_tool :: "payload \<Rightarrow> string \<Rightarrow> string \<Rightarrow> payload" where
  "image_tool payload action model =
     (let tool = pick tool_fields payload [(''type'', JStr ''image_generation''), (''action'', JStr action), (''model'', JStr model)] in
      case lookup payload ''mask'' of
        JObj maskObj \<Rightarrow>
          (let inputMask = pick [''image_url'', ''file_id''] maskObj [] in
           if inputMask = [] then tool else map_put ''input_image_mask'' (JObj inputMask) tool)
      | _ \<Rightarrow> tool)"

definition responses_payload :: "json list \<Rightarrow> payload \<Rightarrow> payload" where
  "responses_payload content tool =
     [(''instructions'', JStr []), (''stream'', JBool True),
      (''reasoning'', JObj [(''effort'', JStr ''medium''), (''summary'', JStr ''auto'')]),
      (''parallel_tool_calls'', JBool True), (''include'', JArr [JStr ''reasoning.encrypted_content'']),
      (''model'', JStr codexImagesMainModel), (''store'', JBool False),
      (''tool_choice'', JObj [(''type'', JStr ''image_generation'')]),
      (''input'', JArr [JObj [(''type'', JStr ''message''), (''role'', JStr ''user''), (''content'', JArr content)]]),
      (''tools'', JArr [JObj tool])]"

definition Marshal :: "payload \<Rightarrow> bytes" where
  "Marshal m = json_text (JObj (sorted_payload m))"

definition image_model :: "payload \<Rightarrow> string" where
  "image_model payload = (let m = TrimSpace (string_of (lookup payload ''model'')) in if m = [] then codexDefaultImageModel else m)"

definition buildCodexImageResponsesRequest :: "mime_library \<Rightarrow> string \<Rightarrow> bytes \<Rightarrow> string \<Rightarrow> string + codexDirectImageRequest" where
  "buildCodexImageResponsesRequest lib requestPath raw contentType =
     (case decodeCodexDirectImagePayload lib requestPath raw contentType of
        Inl err \<Rightarrow> Inl err
      | Inr payload \<Rightarrow>
          (let prompt = TrimSpace (string_of (lookup payload ''prompt''));
               edit = (requestPath = codexDirectImagesEditsPath);
               inputs = (if edit then collectCodexImageInputs payload else []) in
           if prompt = [] then Inl ''image prompt is required''
           else if edit \<and> inputs = [] then Inl ''image edit requires an input image''
           else Inr
             \<lparr>diBody = Marshal (responses_payload (JObj [(''type'', JStr ''input_text''), (''text'', JStr prompt)] # inputs)
                         (image_tool payload (if edit then ''edit'' else ''generate'') (image_model payload))),
              diResponseFormat = normalizeCodexImageResponseFormat (stringValue (lookup payload ''response_format'')),
              diStream = imageBoolValue (lookup payload ''stream''),
              diStreamPrefix = (if edit then ''image_edit'' else ''image_generation'')\<rparr>))"

section \<open>Images from events\<close>

definition newCodexImageAccumulator :: "time \<Rightarrow> codexImageAccumulator" where
  "newCodexImageAccumulator now = \<lparr>acCreated = Unix now, acUsage = JNull, acResults = [], acSeen = []\<rparr>"

definition trimmed :: "payload \<Rightarrow> string \<Rightarrow> string" where
  "trimmed item key = TrimSpace (stringValue (lookup item key))"

definition image_result :: "payload \<Rightarrow> codexImageResult" where
  "image_result item =
     \<lparr>crB64JSON = string_of (lookup item ''result''), crRevisedPrompt = trimmed item ''revised_prompt'',
      crOutputFormat = trimmed item ''output_format'', crSize = trimmed item ''size'', crBackground = trimmed item ''background'',
      crQuality = trimmed item ''quality''\<rparr>"

definition appendItem :: "payload \<Rightarrow> codexImageAccumulator \<Rightarrow> codexImageAccumulator" where
  "appendItem item a =
     (if string_of (lookup item ''type'') \<noteq> ''image_generation_call'' then a
      else let result = string_of (lookup item ''result'') in
        if TrimSpace result = [] then a
        else if result \<in> set (acSeen a) then a
        else a\<lparr>acSeen := acSeen a @ [result], acResults := acResults a @ [image_result item]\<rparr>)"

fun append_object :: "json \<Rightarrow> codexImageAccumulator \<Rightarrow> codexImageAccumulator" where
  "append_object (JObj item) a = appendItem item a"
| "append_object _ a = a"

definition consume_usage :: "payload \<Rightarrow> codexImageAccumulator \<Rightarrow> codexImageAccumulator" where
  "consume_usage response a =
     (let a1 = (case lookup response ''tool_usage'' of
                  JObj toolUsage \<Rightarrow> (case map_get toolUsage ''image_gen'' of Some imageUsage \<Rightarrow> a\<lparr>acUsage := imageUsage\<rparr> | None \<Rightarrow> a)
                | _ \<Rightarrow> a) in
      if acUsage a1 = JNull then (case map_get response ''usage'' of Some usage \<Rightarrow> a1\<lparr>acUsage := usage\<rparr> | None \<Rightarrow> a1) else a1)"

definition consume :: "payload \<Rightarrow> codexImageAccumulator \<Rightarrow> codexImageAccumulator" where
  "consume event a =
     (let a1 = append_object (lookup event ''item'') a in
      case lookup event ''response'' of
        JObj response \<Rightarrow>
          (let created = int64Value (lookup response ''created_at'');
               a2 = consume_usage response (if created > 0 then a1\<lparr>acCreated := created\<rparr> else a1) in
           case lookup response ''output'' of JArr output \<Rightarrow> fold append_object output a2 | _ \<Rightarrow> a2)
      | _ \<Rightarrow> a1)"

section \<open>Event streams\<close>

definition newline :: char where "newline = CHR 0x0A"
definition carriage_return :: char where "carriage_return = CHR 0x0D"

text \<open>\<^verbatim>\<open>bufio.ScanLines\<close>: the lines of the input; a last line without an end counts unless it is empty.\<close>

definition scan_lines :: "bytes \<Rightarrow> string list" where
  "scan_lines body = (let ls = SplitAt newline body in if last ls = [] then butlast ls else ls)"

definition dropCR :: "string \<Rightarrow> string" where
  "dropCR l = (if l \<noteq> [] \<and> last l = carriage_return then butlast l else l)"

text \<open>The error of a callback or of the reader is its text.\<close>

type_synonym 's consumer = "payload \<Rightarrow> 's \<Rightarrow> string option \<times> 's"

definition sse_flush :: "'s consumer \<Rightarrow> string list \<Rightarrow> 's \<Rightarrow> string option \<times> 's" where
  "sse_flush f dataLines st =
     (if dataLines = [] then (None, st)
      else let data = sep_by [newline] dataLines in
        if data = ''[DONE]'' then (None, st)
        else case map_option json_any (first_json data) of
          Some (JObj event) \<Rightarrow> f event st
        | _ \<Rightarrow> (None, st))"

fun sse_lines :: "'s consumer \<Rightarrow> string list \<Rightarrow> string list \<Rightarrow> 's \<Rightarrow> string option \<times> 's" where
  "sse_lines f dataLines [] st = sse_flush f dataLines st"
| "sse_lines f dataLines (l # ls) st =
     (let line = dropCR (dropCR l) in
      if line = [] then
        (case sse_flush f dataLines st of
           (Some err, st') \<Rightarrow> (Some err, st')
         | (None, st') \<Rightarrow> sse_lines f [] ls st')
      else if HasPrefix line ''data:'' then sse_lines f (dataLines @ [TrimSpace (TrimPrefix line ''data:'')]) ls st
      else sse_lines f dataLines ls st)"

text \<open>
  The scanner's buffer holds 96 MiB: it stops at the first line that fills it.  \<open>broken\<close> is the error with which reading the body ends, after the
  bytes that did arrive.
\<close>

definition scanCodexResponsesSSE :: "string option \<Rightarrow> bytes \<Rightarrow> 's consumer \<Rightarrow> 's \<Rightarrow> string option \<times> 's" where
  "scanCodexResponsesSSE broken body f st =
     (let lines = scan_lines body; fitting = takeWhile (\<lambda>l. length l < maxCodexImageResponseBytes) lines in
      case sse_lines f [] fitting st of
        (Some err, st') \<Rightarrow> (Some err, st')
      | (None, st') \<Rightarrow> (if fitting \<noteq> lines then Some ''bufio.Scanner: token too long'' else broken, st'))"

section \<open>The reply\<close>

definition setCodexImageResult :: "codexImageResult \<Rightarrow> string \<Rightarrow> payload \<Rightarrow> payload" where
  "setCodexImageResult result responseFormat target =
     (if normalizeCodexImageResponseFormat responseFormat = ''url''
      then map_put ''url'' (JStr (''data:'' @ codexImageMIMEType (crOutputFormat result) @ '';base64,'' @ crB64JSON result)) target
      else map_put ''b64_json'' (JStr (crB64JSON result)) target)"

definition put_text :: "string \<Rightarrow> string \<Rightarrow> payload \<Rightarrow> payload" where
  "put_text key value m = (if value = [] then m else map_put key (JStr value) m)"

definition image_data :: "string \<Rightarrow> codexImageResult \<Rightarrow> payload" where
  "image_data responseFormat result = setCodexImageResult result responseFormat (put_text ''revised_prompt'' (crRevisedPrompt result) [])"

definition images_payload :: "codexImageAccumulator \<Rightarrow> string \<Rightarrow> payload" where
  "images_payload a responseFormat =
     (let base = [(''created'', JNum (int_text (acCreated a))), (''data'', JArr (map (JObj \<circ> image_data responseFormat) (acResults a)))];
          m = (if acUsage a = JNull then base else map_put ''usage'' (acUsage a) base) in
      case acResults a of
        [] \<Rightarrow> m
      | first # _ \<Rightarrow>
          put_text ''size'' (crSize first) (put_text ''quality'' (crQuality first)
            (put_text ''output_format'' (crOutputFormat first) (put_text ''background'' (crBackground first) m))))"

definition buildCodexImagesAPIResponse :: "codexImageAccumulator \<Rightarrow> string \<Rightarrow> bytes" where
  "buildCodexImagesAPIResponse a responseFormat = Marshal (images_payload a responseFormat)"

definition reply_event :: "(codexImageAccumulator \<times> bool) consumer" where
  "reply_event event st =
     (None, consume event (fst st), snd st \<or> stringValue (lookup event ''type'') = ''response.completed'')"

definition codexImageResponseFromResponsesStream :: "time \<Rightarrow> bytes \<Rightarrow> string \<Rightarrow> string + bytes" where
  "codexImageResponseFromResponsesStream now raw responseFormat =
     (case scanCodexResponsesSSE None raw reply_event (newCodexImageAccumulator now, False) of
        (Some err, _) \<Rightarrow> Inl err
      | (None, a, completed) \<Rightarrow>
          if \<not> completed \<or> acResults a = [] then Inl ''no image output'' else Inr (buildCodexImagesAPIResponse a responseFormat))"

definition writeCodexImageSSEFrame :: "string \<Rightarrow> payload \<Rightarrow> bytes" where
  "writeCodexImageSSEFrame eventName payload =
     ''event: '' @ eventName @ [newline] @ ''data: '' @ Marshal payload @ [newline, newline]"

definition partial_frame :: "string \<Rightarrow> string \<Rightarrow> payload \<Rightarrow> bytes" where
  "partial_frame responseFormat streamPrefix event =
     (let name = streamPrefix @ ''.partial_image'';
          result = \<lparr>crB64JSON = trimmed event ''partial_image_b64'', crRevisedPrompt = [], crOutputFormat = trimmed event ''output_format'',
                    crSize = [], crBackground = [], crQuality = []\<rparr> in
      if crB64JSON result = [] then []
      else writeCodexImageSSEFrame name (setCodexImageResult result responseFormat
             [(''type'', JStr name), (''partial_image_index'', JNum (int_text (int64Value (lookup event ''partial_image_index''))))]))"

definition completed_payload :: "string \<Rightarrow> string \<Rightarrow> json \<Rightarrow> codexImageResult \<Rightarrow> payload" where
  "completed_payload responseFormat streamPrefix usage result =
     (let m = [(''type'', JStr (streamPrefix @ ''.completed''))] in
      setCodexImageResult result responseFormat (if usage = JNull then m else map_put ''usage'' usage m))"

record stream_state =
  ssImages :: codexImageAccumulator
  ssCompleted :: bool
  ssWritten :: bytes

definition stream_event :: "string \<Rightarrow> string \<Rightarrow> stream_state consumer" where
  "stream_event responseFormat streamPrefix event st =
     (let a = consume event (ssImages st); st1 = st\<lparr>ssImages := a\<rparr>; kind = stringValue (lookup event ''type'') in
      if kind = ''response.image_generation_call.partial_image'' then
        (None, st1\<lparr>ssWritten := ssWritten st1 @ partial_frame responseFormat streamPrefix event\<rparr>)
      else if kind = ''response.completed'' then
        (if acResults a = [] then (Some ''no image output'', st1)
         else (None, st1\<lparr>ssCompleted := True, ssWritten := ssWritten st1 @
                concat (map (\<lambda>r. writeCodexImageSSEFrame (streamPrefix @ ''.completed'') (completed_payload responseFormat streamPrefix (acUsage a) r))
                  (acResults a))\<rparr>))
      else (None, st1))"

definition streamCodexImageResponse :: "time \<Rightarrow> string option \<Rightarrow> bytes \<Rightarrow> string \<Rightarrow> string \<Rightarrow> string option \<times> bytes" where
  "streamCodexImageResponse now broken body responseFormat streamPrefix =
     (case scanCodexResponsesSSE broken body (stream_event responseFormat streamPrefix)
             \<lparr>ssImages = newCodexImageAccumulator now, ssCompleted = False, ssWritten = []\<rparr> of
        (Some err, st) \<Rightarrow> (Some err, ssWritten st)
      | (None, st) \<Rightarrow> (if ssCompleted st then None else Some ''image stream ended before completion'', ssWritten st))"

definition writeCodexImageStreamError :: "string \<Rightarrow> bytes" where
  "writeCodexImageStreamError err =
     (let message = (if Contains (ToLower err) ''ended before completion'' then ''image stream ended before completion''
                     else ''upstream did not return image output'') in
      writeCodexImageSSEFrame ''error'' [(''type'', JStr ''error''), (''error'', JObj [(''message'', JStr message)])])"

definition copyCodexImageResponseHeaders :: "header \<Rightarrow> header" where
  "copyCodexImageResponseHeaders src =
     filter (\<lambda>(k, _). ToLower k \<notin> set [''content-length'', ''content-encoding'', ''transfer-encoding'', ''connection'', ''keep-alive'']) src"

section \<open>The handler\<close>

datatype image_reply = ImageError int string | ImageReply int header bytes

definition image_upstream_headers :: "header \<Rightarrow> header" where
  "image_upstream_headers hs =
     fold header_del [''Content-Length'', ''X-Agent-Identity-Sidecar-Key'', ''X-Forwarded-For'', ''X-Forwarded-Host'', ''X-Forwarded-Proto'',
       ''X-Agent-Identity-ID''] (header_set ''Accept'' ''text/event-stream'' (header_set ''Content-Type'' ''application/json'' hs))"

definition stream_reply :: "time \<Rightarrow> string \<Rightarrow> codexDirectImageRequest \<Rightarrow> response \<Rightarrow> image_reply" where
  "stream_reply now readError prepared r =
     (case streamCodexImageResponse now (if rsReadable r then None else Some readError) (rsBody r) (diResponseFormat prepared) (diStreamPrefix prepared) of
        (err, written) \<Rightarrow>
          ImageReply 200
            (header_del ''Content-Length'' (header_set ''Cache-Control'' ''no-cache'' (header_set ''Content-Type'' ''text/event-stream''
              (copyCodexImageResponseHeaders (rsHeader r)))))
            (case err of None \<Rightarrow> written | Some e \<Rightarrow> written @ writeCodexImageStreamError e))"

definition whole_reply :: "time \<Rightarrow> codexDirectImageRequest \<Rightarrow> response \<Rightarrow> image_reply" where
  "whole_reply now prepared r =
     (case LimitReader (maxCodexImageResponseBytes + 1) r of
        None \<Rightarrow> ImageError 502 ''failed to read image response''
      | Some body \<Rightarrow>
          if length body > maxCodexImageResponseBytes then ImageError 502 ''failed to read image response''
          else case codexImageResponseFromResponsesStream now body (diResponseFormat prepared) of
            Inl _ \<Rightarrow> ImageError 502 ''upstream did not return image output''
          | Inr images \<Rightarrow>
              ImageReply 200 (header_del ''Content-Length'' (header_set ''Content-Type'' ''application/json''
                (copyCodexImageResponseHeaders (rsHeader r)))) images)"

definition failure_reply :: "response \<Rightarrow> image_reply" where
  "failure_reply r =
     (case LimitReader (maxCodexImageResponseBytes + 1) r of
        None \<Rightarrow> ImageError 502 ''failed to read image response''
      | Some body \<Rightarrow>
          if length body > maxCodexImageResponseBytes then ImageError 502 ''failed to read image response''
          else ImageReply (rsStatus r) (copyCodexImageResponseHeaders (rsHeader r)) body)"

definition image_reply_of :: "time \<Rightarrow> string \<Rightarrow> codexDirectImageRequest \<Rightarrow> response \<Rightarrow> image_reply" where
  "image_reply_of now readError prepared r =
     (if \<not> success_status (rsStatus r) then failure_reply r
      else if diStream prepared then stream_reply now readError prepared r
      else whole_reply now prepared r)"

text \<open>
  The handler gets the client's request, whose body it reads, and the request that the proxy prepared: the same method, URL and context, with the
  identity's credentials in the header.
\<close>

definition handleCodexDirectImage ::
  "Config \<Rightarrow> ('u, 'w) Server \<Rightarrow> redirects \<Rightarrow> mime_library \<Rightarrow> url \<Rightarrow> http_request \<Rightarrow> upstream_request \<Rightarrow> ('u, 'w) world \<Rightarrow> image_reply \<times> ('u, 'w) world" where
  "handleCodexDirectImage cfg sv redirect lib origin rq out w =
     (if upMethod out \<noteq> ''POST'' then (ImageError 405 ''method not allowed'', w)
      else case readReplayableRequestBody rq (cfMaxReplayBodyBytes cfg) of
        None \<Rightarrow> (ImageError 400 ''failed to read image request'', w)
      | Some body \<Rightarrow>
     (case buildCodexImageResponsesRequest lib (Path (upURL out)) body (header_get (upHeader out) ''Content-Type'') of
        Inl err \<Rightarrow> (ImageError 400 err, w)
      | Inr prepared \<Rightarrow>
     (case url_Parse (url_String (codexImageTargetURL origin)) of
        None \<Rightarrow> (ImageError 502 ''failed to build image request'', w)
      | Some target \<Rightarrow>
     (case upstream_Do sv redirect
             (out\<lparr>upMethod := ''POST'', upURL := target, upHeader := image_upstream_headers (upHeader out), upBody := Some (diBody prepared),
                  upReplay := True\<rparr>) w of
        (Response r, w') \<Rightarrow> (image_reply_of (svNow sv (wTick w')) (mlReadError lib) prepared r, tick 1 w')
      | (_, w') \<Rightarrow> (ImageError 502 ''image upstream unavailable'', w')))))"

text \<open>The data path as a whole: the proxy, and the image handler behind it.\<close>

definition serve_codex ::
  "Config \<Rightarrow> ('u, 'w) Server \<Rightarrow> redirects \<Rightarrow> mime_library \<Rightarrow> url \<Rightarrow> http_request \<Rightarrow> ('u, 'w) world \<Rightarrow> (proxy_reply + image_reply) \<times> ('u, 'w) world" where
  "serve_codex cfg sv redirect lib origin rq w =
     (case handleProxy cfg sv origin rq w of
        (DirectImage out, w') \<Rightarrow> (case handleCodexDirectImage cfg sv redirect lib origin rq out w' of (reply, w'') \<Rightarrow> (Inr reply, w''))
      | (reply, w') \<Rightarrow> (Inl reply, w'))"

end
