(* ===== verification/Image_Properties.thy ===== *)
theory Image_Properties
  imports Direct_Images Proxy_Properties
begin

text \<open>
  The image bridge: which images a reply holds, that the streamed and the whole reply hold the same, that a written event stream is read back, and
  that the requests to the upstream carry the identity's credentials.
\<close>

section \<open>Events of a stream\<close>

text \<open>The events that a scan delivers, collected; a consumer that never fails is folded over them.\<close>

definition collect :: "payload list consumer" where
  "collect event st = (None, st @ [event])"

definition flushed :: "string list \<Rightarrow> payload list" where
  "flushed dataLines = snd (sse_flush collect dataLines [])"

fun line_events :: "string list \<Rightarrow> string list \<Rightarrow> payload list" where
  "line_events dataLines [] = flushed dataLines"
| "line_events dataLines (l # ls) =
     (let line = dropCR (dropCR l) in
      if line = [] then flushed dataLines @ line_events [] ls
      else if HasPrefix line ''data:'' then line_events (dataLines @ [TrimSpace (TrimPrefix line ''data:'')]) ls
      else line_events dataLines ls)"

definition events_of :: "bytes \<Rightarrow> payload list" where
  "events_of body = line_events [] (scan_lines body)"

definition fits :: "bytes \<Rightarrow> bool" where
  "fits body \<longleftrightarrow> (\<forall>l \<in> set (scan_lines body). length l < maxCodexImageResponseBytes)"

text \<open>A consumer over a list of events: it stops at the first error.\<close>

fun run_events :: "'s consumer \<Rightarrow> payload list \<Rightarrow> 's \<Rightarrow> string option \<times> 's" where
  "run_events f [] st = (None, st)"
| "run_events f (e # es) st = (case f e st of (Some err, st') \<Rightarrow> (Some err, st') | (None, st') \<Rightarrow> run_events f es st')"

lemma run_events_append:
  "run_events f (es @ es') st =
     (case run_events f es st of (Some err, st') \<Rightarrow> (Some err, st') | (None, st') \<Rightarrow> run_events f es' st')"
  by (induction es arbitrary: st) (auto split: option.splits prod.splits)

lemma flush_events: "sse_flush f dataLines st = run_events f (flushed dataLines) st"
  by (auto simp: flushed_def sse_flush_def Let_def collect_def split: option.splits json.splits prod.splits)

lemma sse_lines_events: "sse_lines f dataLines ls st = run_events f (line_events dataLines ls) st"
proof (induction ls arbitrary: dataLines st)
  case Nil
  show ?case by (simp add: flush_events)
next
  case (Cons l ls)
  show ?case by (simp add: Let_def Cons.IH run_events_append flush_events split: option.splits prod.splits)
qed

lemma scan_events:
  assumes "fits body"
  shows "scanCodexResponsesSSE broken body f st =
    (case run_events f (events_of body) st of (Some err, st') \<Rightarrow> (Some err, st') | (None, st') \<Rightarrow> (broken, st'))"
proof -
  have "takeWhile (\<lambda>l. length l < maxCodexImageResponseBytes) (scan_lines body) = scan_lines body"
    using assms by (simp add: fits_def takeWhile_eq_all_conv)
  then show ?thesis by (simp only: scanCodexResponsesSSE_def Let_def sse_lines_events events_of_def) (simp split: option.splits prod.splits)
qed

section \<open>The images of a reply\<close>

text \<open>Specification: every non-blank result of an image call, in the order of the events, once each.\<close>

fun images_of :: "json \<Rightarrow> codexImageResult list" where
  "images_of (JObj item) =
     (if string_of (lookup item ''type'') = ''image_generation_call'' \<and> TrimSpace (string_of (lookup item ''result'')) \<noteq> [] then [image_result item] else [])"
| "images_of _ = []"

definition event_images :: "payload \<Rightarrow> codexImageResult list" where
  "event_images event =
     images_of (lookup event ''item'') @
     (case lookup event ''response'' of
        JObj response \<Rightarrow> (case lookup response ''output'' of JArr output \<Rightarrow> concat (map images_of output) | _ \<Rightarrow> [])
      | _ \<Rightarrow> [])"

fun first_of_each :: "codexImageResult list \<Rightarrow> codexImageResult list" where
  "first_of_each [] = []"
| "first_of_each (r # rs) = r # filter (\<lambda>q. crB64JSON q \<noteq> crB64JSON r) (first_of_each rs)"

lemma first_of_each_snoc:
  "first_of_each (rs @ [r]) = (if crB64JSON r \<in> crB64JSON ` set rs then first_of_each rs else first_of_each rs @ [r])"
  by (induction rs) auto

lemma first_of_each_keys: "crB64JSON ` set (first_of_each rs) = crB64JSON ` set rs"
proof (induction rs)
  case (Cons r rs)
  have "crB64JSON ` set (first_of_each (r # rs)) = insert (crB64JSON r) (crB64JSON ` set (first_of_each rs))" by auto
  with Cons show ?case by simp
qed simp

lemma first_of_each_distinct: "distinct (map crB64JSON (first_of_each rs))"
  by (induction rs) (auto simp: distinct_map inj_on_def)

definition accumulates :: "codexImageAccumulator \<Rightarrow> codexImageResult list \<Rightarrow> bool" where
  "accumulates a rs \<longleftrightarrow> acResults a = first_of_each rs \<and> set (acSeen a) = crB64JSON ` set rs"

lemma append_accumulates: "accumulates a rs \<Longrightarrow> accumulates (append_object v a) (rs @ images_of v)"
  by (cases v) (auto simp: accumulates_def appendItem_def Let_def first_of_each_snoc image_result_def)

lemma output_accumulates: "accumulates a rs \<Longrightarrow> accumulates (fold append_object vs a) (rs @ concat (map images_of vs))"
proof (induction vs arbitrary: a rs)
  case (Cons v vs)
  from Cons.IH [OF append_accumulates [OF Cons.prems]] show ?case by simp
qed simp

lemma usage_accumulates [simp]:
  "accumulates (consume_usage response a) rs = accumulates a rs" "accumulates (a\<lparr>acCreated := c\<rparr>) rs = accumulates a rs"
  by (auto simp: accumulates_def consume_usage_def Let_def split: json.splits option.splits)

lemma consume_accumulates:
  assumes "accumulates a rs"
  shows "accumulates (consume event a) (rs @ event_images event)"
proof -
  note step = append_accumulates [OF assms, of "lookup event ''item''"]
  show ?thesis
    using step output_accumulates [of _ "rs @ images_of (lookup event ''item'')"]
    by (auto simp: consume_def event_images_def Let_def split: json.splits)
qed

definition all_images :: "payload list \<Rightarrow> codexImageResult list" where
  "all_images events = concat (map event_images events)"

lemma events_accumulate: "accumulates a rs \<Longrightarrow> accumulates (fold consume events a) (rs @ all_images events)"
proof (induction events arbitrary: a rs)
  case (Cons e es)
  from Cons.IH [OF consume_accumulates [OF Cons.prems]] show ?case by (simp add: all_images_def)
qed (simp add: all_images_def)

lemma accumulated: "acResults (fold consume events (newCodexImageAccumulator now)) = first_of_each (all_images events)"
  using events_accumulate [of "newCodexImageAccumulator now" "[]" events]
  by (simp add: accumulates_def newCodexImageAccumulator_def)

abbreviation completed_event :: "payload \<Rightarrow> bool" where
  "completed_event e \<equiv> stringValue (lookup e ''type'') = ''response.completed''"

lemma reply_events:
  "run_events reply_event es (a, c) = (None, fold consume es a, c \<or> list_ex completed_event es)"
  by (induction es arbitrary: a c) (auto simp: reply_event_def)

lemma reply_of_events:
  assumes "fits raw"
  shows "codexImageResponseFromResponsesStream now raw fmt =
    (if list_ex completed_event (events_of raw) \<and> all_images (events_of raw) \<noteq> []
     then Inr (buildCodexImagesAPIResponse (fold consume (events_of raw) (newCodexImageAccumulator now)) fmt) else Inl ''no image output'')"
proof -
  have "first_of_each rs = [] \<longleftrightarrow> rs = []" for rs by (cases rs) auto
  then show ?thesis
    by (auto simp: codexImageResponseFromResponsesStream_def scan_events [OF assms] reply_events accumulated)
qed

section \<open>The streamed reply\<close>

definition partial_out :: "string \<Rightarrow> string \<Rightarrow> payload \<Rightarrow> bytes" where
  "partial_out fmt name e =
     (if stringValue (lookup e ''type'') = ''response.image_generation_call.partial_image'' then partial_frame fmt name e else [])"

definition completed_out :: "string \<Rightarrow> string \<Rightarrow> codexImageAccumulator \<Rightarrow> bytes" where
  "completed_out fmt name a =
     concat (map (\<lambda>r. writeCodexImageSSEFrame (name @ ''.completed'') (completed_payload fmt name (acUsage a) r)) (acResults a))"

lemma stream_partials:
  "\<not> list_ex completed_event es \<Longrightarrow> run_events (stream_event fmt name) es st =
     (None, st\<lparr>ssImages := fold consume es (ssImages st), ssWritten := ssWritten st @ concat (map (partial_out fmt name) es)\<rparr>)"
  by (induction es arbitrary: st) (simp_all add: stream_event_def partial_out_def Let_def)

lemma stream_of_events:
  assumes "fits body" "events_of body = es @ [e]" "\<not> list_ex completed_event es" "completed_event e" "all_images (events_of body) \<noteq> []"
  shows "streamCodexImageResponse now None body fmt name =
    (None, concat (map (partial_out fmt name) es) @ completed_out fmt name (fold consume (events_of body) (newCodexImageAccumulator now)))"
proof -
  let ?a = "fold consume (es @ [e]) (newCodexImageAccumulator now)"
  have "acResults ?a \<noteq> []" using assms(2,5) accumulated [of "es @ [e]" now] by (cases "all_images (es @ [e])") auto
  then show ?thesis
    by (simp add: streamCodexImageResponse_def scan_events [OF assms(1)] assms(2) run_events_append stream_partials [OF assms(3)] stream_event_def
        assms(4) completed_out_def Let_def)
qed

section \<open>Reading back what was written\<close>

definition visible :: "string \<Rightarrow> bool" where
  "visible s \<longleftrightarrow> (\<forall>c \<in> set s. 32 \<le> byte c)"

lemma visible_append [simp]: "visible (s @ t) \<longleftrightarrow> visible s \<and> visible t" "visible (c # s) \<longleftrightarrow> 32 \<le> byte c \<and> visible s" "visible []"
  by (auto simp: visible_def)

lemma visible_digits [simp]: "visible (takeWhile is_digit s)"
  by (auto simp: visible_def is_digit_def dest!: set_takeWhileD)

lemma lex_exp_visible: "lex_exp acc s = Some (n, rest) \<Longrightarrow> visible acc \<Longrightarrow> visible n"
  by (auto simp: lex_exp_def Let_def visible_def is_digit_def byte_def dest!: set_takeWhileD split: list.splits if_splits)

lemma lex_frac_visible: "lex_frac acc s = Some (n, rest) \<Longrightarrow> visible acc \<Longrightarrow> visible n"
  by (auto simp: lex_frac_def Let_def byte_def split: list.splits if_splits elim!: lex_exp_visible)

lemma lex_int_visible: "lex_int acc s = Some (n, rest) \<Longrightarrow> visible acc \<Longrightarrow> visible n"
  by (auto simp: lex_int_def byte_def is_digit_def [symmetric] simp del: takeWhile.simps split: list.splits if_splits elim!: lex_frac_visible)

lemma number_visible: "number_ok n \<Longrightarrow> visible n"
  unfolding number_ok_def lex_num_def
  by (cases n) (auto split: if_splits dest: lex_int_visible simp: byte_def [of "CHR ''-''"])

lemma hex_digit_visible: "n < 16 \<Longrightarrow> 32 \<le> byte (hex_digit n)"
  using hex_digit_lower [of n] by (auto simp: is_lower_hex_def is_digit_def)

lemma escape_u_visible: "visible (escape_u n)"
  by (simp add: escape_u_def hex_text_def hex_digit_visible byte_def [of "CHR 0x5C"] byte_def [of "CHR ''u''"])

lemma escape_visible: "visible (escape s)"
proof -
  have "visible (escape_byte c)" for c
    by (auto simp: escape_byte_def escape_u_visible byte_def [of "CHR 0x5C"] byte_def [of "CHR 0x22"] byte_def [of "CHR ''b''"] byte_def [of "CHR ''f''"]
        byte_def [of "CHR ''n''"] byte_def [of "CHR ''r''"] byte_def [of "CHR ''t''"])
  then have "visible (concat (map escape_byte r))" for r by (induction r) auto
  then have "visible (escape_rune r)" for r by (simp add: escape_rune_def escape_u_visible)
  then show ?thesis
    by (induction s rule: escape.induct) (auto simp: escape_u_visible simp del: rune_len.simps split: option.splits)
qed

lemma sep_visible: "visible d \<Longrightarrow> \<forall>x \<in> set xs. visible x \<Longrightarrow> visible (sep_by d xs)"
  by (induction d xs rule: sep_by.induct) auto

lemma json_text_visible: "clean v \<Longrightarrow> visible (json_text v)"
proof (induction v rule: json_text.induct)
  case (5 vs)
  then show ?case by (auto simp: list_all_iff byte_def intro!: sep_visible)
next
  case (6 kvs)
  have "visible (text_str k)" for k by (simp add: text_str_def escape_visible byte_def)
  with 6 show ?case by (fastforce simp: list_all_iff byte_def intro!: sep_visible)
qed (auto simp: number_visible text_str_def escape_visible byte_def)

lemma scan_lines_step: "newline \<notin> set l \<Longrightarrow> scan_lines (l @ newline # rest) = l # scan_lines rest"
proof -
  assume "newline \<notin> set l"
  then have "SplitAt newline (l @ newline # rest) = l # SplitAt newline rest" by (induction l) auto
  then show ?thesis by (simp add: scan_lines_def Let_def)
qed

lemma scan_lines_Nil: "scan_lines [] = []"
  by (simp add: scan_lines_def)

lemma visible_no_newline: "visible s \<Longrightarrow> newline \<notin> set s"
  by (force simp: visible_def newline_def byte_def)

lemma Marshal_shape: "\<exists>mid. Marshal p = CHR ''{'' # mid @ ''}''"
  by (simp add: Marshal_def)

lemma Marshal_visible: "payload_ok p \<Longrightarrow> visible (Marshal p)"
  using sorted_payload_ok [of p] unfolding Marshal_def payload_ok_iff value_ok_def by (blast intro: json_text_visible)

lemma Marshal_decodes:
  assumes "payload_ok p"
  shows "decodeJSONMap (Marshal p) = Some (sorted_payload p)"
proof -
  have ok: "payload_ok (sorted_payload p)" using assms by (rule sorted_payload_ok)
  then have "json_parse (Marshal p) = Some (JObj (sorted_payload p))"
    unfolding Marshal_def by (intro parse_text) (auto simp: payload_ok_iff value_ok_def)
  from decode_text [OF this ok] show ?thesis .
qed

lemma TrimSpace_blank: "TrimSpace s = s \<Longrightarrow> s \<noteq> [] \<Longrightarrow> \<not> space_byte (hd s) \<Longrightarrow> TrimSpace (CHR '' '' # s) = s"
proof -
  assume s: "TrimSpace s = s" "s \<noteq> []" "\<not> space_byte (hd s)"
  have "leading space_encodings (CHR '' '' # s) = Some '' ''"
    by (simp add: leading_def space_encodings_def char_of_def bit_0)
  then have "trim_front space_encodings (CHR '' '' # s) = trim_front space_encodings s" by (subst trim_front.simps) simp
  then show ?thesis using s(1) by (simp add: TrimSpace_def)
qed

lemma flushed_Marshal: "payload_ok p \<Longrightarrow> flushed [Marshal p] = [sorted_payload p]"
proof -
  assume p: "payload_ok p"
  have "Marshal p \<noteq> ''[DONE]''" using Marshal_shape [of p] by auto
  moreover have "map_option json_any (first_json (Marshal p)) = Some (JObj (sorted_payload p))"
    using Marshal_decodes [OF p] by (auto simp: decodeJSONMap_def first_json_def split: decoded.splits json.splits)
  ultimately show ?thesis by (auto simp: flushed_def sse_flush_def collect_def)
qed

lemma frame_lines:
  assumes "payload_ok p" "newline \<notin> set name"
  shows "scan_lines (writeCodexImageSSEFrame name p @ rest) = (''event: '' @ name) # (''data: '' @ Marshal p) # [] # scan_lines rest"
proof -
  have n: "newline \<notin> set (''event: '' @ name)" "newline \<notin> set (''data: '' @ Marshal p)"
    using assms(2) visible_no_newline [OF Marshal_visible [OF assms(1)]] by (auto simp: newline_def)
  have "writeCodexImageSSEFrame name p @ rest = (''event: '' @ name) @ newline # (''data: '' @ Marshal p) @ newline # [] @ newline # rest"
    by (simp add: writeCodexImageSSEFrame_def)
  then show ?thesis using scan_lines_step [OF n(1)] scan_lines_step [OF n(2)] scan_lines_step [of "[]" rest] by (simp only:) simp
qed

lemma frame_events:
  assumes "payload_ok p"
  shows "line_events [] ((''event: '' @ name) # (''data: '' @ Marshal p) # [] # ls) = sorted_payload p # line_events [] ls"
proof -
  obtain mid where m: "Marshal p = CHR ''{'' # mid @ ''}''" using Marshal_shape by blast
  have e: "\<exists>r. dropCR (dropCR (''event: '' @ name)) = CHR ''e'' # r"
    by (auto simp: dropCR_def carriage_return_def)
  have d: "dropCR (dropCR (''data: '' @ Marshal p)) = ''data: '' @ Marshal p"
    by (simp add: dropCR_def m carriage_return_def)
  have "TrimSpace (Marshal p) = Marshal p" by (rule TrimSpace_id) (auto simp: m space_byte_def byte_def)
  then have t: "TrimSpace (CHR '' '' # Marshal p) = Marshal p"
    by (rule TrimSpace_blank) (auto simp: m space_byte_def byte_def)
  have "TrimPrefix (''data: '' @ Marshal p) ''data:'' = CHR '' '' # Marshal p"
    using TrimPrefix_append [of "''data:''" "CHR '' '' # Marshal p"] by simp
  moreover have "HasPrefix (''data: '' @ Marshal p) ''data:''"
    using HasPrefix_append [of "''data:''" "CHR '' '' # Marshal p"] by simp
  moreover from e obtain r where "dropCR (dropCR (''event: '' @ name)) = CHR ''e'' # r" by blast
  ultimately show ?thesis
    using d t by (simp add: Let_def flushed_Marshal [OF assms] HasPrefix_def dropCR_def [of "[]"] del: append_Cons)
qed

lemma frames_read_back:
  "\<forall>(name, p) \<in> set frames. payload_ok p \<and> newline \<notin> set name \<Longrightarrow>
     events_of (concat (map (\<lambda>(name, p). writeCodexImageSSEFrame name p) frames)) = map (sorted_payload \<circ> snd) frames"
proof (induction frames)
  case Nil
  show ?case by (simp add: events_of_def scan_lines_Nil flushed_def sse_flush_def)
next
  case (Cons f frames)
  obtain name p where f: "f = (name, p)" by fastforce
  with Cons.prems have p: "payload_ok p" "newline \<notin> set name" by auto
  let ?rest = "concat (map (\<lambda>(name, p). writeCodexImageSSEFrame name p) frames)"
  have "events_of (writeCodexImageSSEFrame name p @ ?rest) = sorted_payload p # events_of ?rest"
    by (simp only: events_of_def frame_lines [OF p] frame_events [OF p(1)])
  with f Cons show ?case by simp
qed

section \<open>The request to the upstream\<close>

interpretation grows: upstream_watch "recorded sv" "\<lambda>_. True" "\<lambda>(u, sent). prefix log sent" for sv log
  by unfold_locales (auto simp: recorded_def split: prod.splits)

lemma upstream_Do_first:
  assumes "upstream_Do (recorded sv) redirect rq w = (out, w')" "sent_of w = []"
  shows "sent_of w' \<noteq> [] \<and> hd (sent_of w') = wire rq"
proof -
  obtain x w1 where x: "RoundTrip (recorded sv) rq w = (x, w1)" by fastforce
  have one: "prefix [wire rq] (sent_of w1)" using round_trip_sent [OF x] assms(2) by auto
  have more: "prefix [wire rq] (sent_of w')" if "client_requests (recorded sv) redirect n rq' w1 = (out, w')" for n rq'
    using grows.client_keeps_good [where Q = "\<lambda>_. True" and log = "[wire rq]", OF _ _ _ _ that] one by (simp add: request_good_def case_prod_beta)
  have "client_requests (recorded sv) redirect (Suc 9) rq w = (out, w')" using assms(1) by (simp add: upstream_Do_def)
  then have "w' = w1 \<or> (\<exists>n rq'. client_requests (recorded sv) redirect n rq' w1 = (out, w'))"
    unfolding client_requests.simps x by (auto split: http_outcome.splits option.splits)
  then have "prefix [wire rq] (sent_of w')" using one more by auto
  then show ?thesis by (auto simp: prefix_def)
qed

lemma image_names:
  "CanonicalHeaderKey ''Accept'' = ''Accept''" "CanonicalHeaderKey ''Content-Type'' = ''Content-Type''"
  by (simp_all add: canon_simps)

lemma image_headers_covered: "covered hs au \<Longrightarrow> covered (image_upstream_headers hs) au"
  unfolding image_upstream_headers_def by (intro covered_dels covered_set) (simp_all add: image_names)

definition image_hidden :: "string list" where
  "image_hidden = [''Content-Length'', ''X-Agent-Identity-Sidecar-Key'', ''X-Forwarded-For'', ''X-Forwarded-Host'', ''X-Forwarded-Proto'', ''X-Agent-Identity-ID'']"

lemma image_headers_hidden: "n \<in> set image_hidden \<Longrightarrow> header_values (image_upstream_headers hs) n = []"
  unfolding image_upstream_headers_def image_hidden_def by (rule dels_gone)

lemma handle_proxy_image:
  assumes "handleProxy cfg (recorded sv) origin rq w = (DirectImage out, w')"
  shows "\<exists>i body replay proxy au w1.
    Lookup (svCrypto sv) (stored w) (bearerToken (header_get (hrHeader rq) ''Authorization'')) = Some i \<and>
    authorize (recorded sv) proxy (idID i) (idToken i) (logicalSessionID (hrHeader rq)) (selectedAccountID i) w1 = (Inr au, w') \<and> sent_of w' = sent_of w \<and>
    out = \<lparr>upMethod = hrMethod rq, upURL = hrURL rq, upHeader = set_credentials au (hrHeader rq), upBody = body, upReplay = replay,
      upProxy = proxy, upState = Some (upstream_state i au (logicalSessionID (hrHeader rq)))\<rparr>"
proof -
  have C: "svCrypto (recorded sv) = svCrypto sv" by (simp add: recorded_def)
  have no: "serve_proxy (recorded sv) origin r v \<noteq> (DirectImage out, w')" for r v
    by (auto simp: serve_proxy_def Let_def split: prod.splits http_outcome.splits)
  let ?L = "Lookup (svCrypto sv) (stored w) (bearerToken (header_get (hrHeader rq) ''Authorization''))" and ?s = "logicalSessionID (hrHeader rq)"
  let ?i = "the ?L"
  obtain p w1 where p: "withIdentityProxy cfg (recorded sv) (hrCtx rq) (idID ?i) [] w = (p, w1)" by fastforce
  obtain x w2 where x: "authorize (recorded sv) (the p) (idID ?i) (idToken ?i) ?s (selectedAccountID ?i) w1 = (x, w2)" by fastforce
  have fr: "sent_of w2 = sent_of w" using proxy_frame [OF p] authorize_same [OF x] by simp
  have "?L \<noteq> None \<and> w' = w2 \<and> (\<exists>au body replay. x = Inr au \<and> out = \<lparr>upMethod = hrMethod rq, upURL = hrURL rq, upHeader = set_credentials au (hrHeader rq),
      upBody = body, upReplay = replay, upProxy = the p, upState = Some (upstream_state ?i au ?s)\<rparr>)"
    using assms p x no unfolding handleProxy_def Let_def C
    by (cases ?L; cases p; cases x) (auto split: if_splits option.splits)
  then obtain au body replay where "?L = Some ?i" "w' = w2" "x = Inr au" "out = \<lparr>upMethod = hrMethod rq, upURL = hrURL rq,
      upHeader = set_credentials au (hrHeader rq), upBody = body, upReplay = replay, upProxy = the p, upState = Some (upstream_state ?i au ?s)\<rparr>" by auto
  with fr x show ?thesis
    by (intro exI [of _ ?i] exI [of _ body] exI [of _ replay] exI [of _ "the p"] exI [of _ au] exI [of _ w1]) simp
qed

lemma image_exchange:
  assumes "handleCodexDirectImage cfg sv redirect lib origin rq out w = (reply, w')"
  shows "wManager w' = wManager w \<or> (\<exists>body prepared target res w1. hrBody rq = Some body \<and>
    buildCodexImageResponsesRequest lib (Path (upURL out)) body (header_get (upHeader out) ''Content-Type'') = Inr prepared \<and>
    url_Parse (url_String (codexImageTargetURL origin)) = Some target \<and> wManager w' = wManager w1 \<and>
    upstream_Do sv redirect (out\<lparr>upMethod := ''POST'', upURL := target, upHeader := image_upstream_headers (upHeader out), upBody := Some (diBody prepared),
      upReplay := True\<rparr>) w = (res, w1))"
proof (cases "readReplayableRequestBody rq (cfMaxReplayBodyBytes cfg)")
  case None
  then show ?thesis using assms by (auto simp: handleCodexDirectImage_def split: if_splits)
next
  case (Some body)
  then have "hrBody rq = Some body" by (auto simp: readReplayableRequestBody_def Let_def split: option.splits if_splits)
  then show ?thesis using assms Some
    by (fastforce simp: handleCodexDirectImage_def split: if_splits sum.splits option.splits prod.splits http_outcome.splits)
qed

section \<open>Properties\<close>

text \<open>
  An image request speaks for the owner of the client key.  Every request that the data path sends for a request to CPA's image route, redirects and the retry
  included, has no credential headers but those of an authorization for the identity whose client key was presented.  The first one is a POST of the translated
  request to the \<^verbatim>\<open>responses\<close> endpoint of the configured origin, without the sidecar's own headers.
\<close>

theorem image_requests_carry_identity:
  assumes "redirect_keeps redirect" "serve_codex cfg (recorded sv) redirect lib origin rq w = (Inr reply, w')" "sent_of w = []"
  shows "sent_of w' = [] \<or>
    (\<exists>i. Lookup (svCrypto sv) (stored w) (bearerToken (header_get (hrHeader rq) ''Authorization'')) = Some i \<and>
       (\<forall>r \<in> set (sent_of w'). sent_for (recorded sv) i r)) \<and>
    (\<exists>body prepared target au. hrBody rq = Some body \<and>
       buildCodexImageResponsesRequest lib (Path (hrURL rq)) body (header_get (set_credentials au (hrHeader rq)) ''Content-Type'') = Inr prepared \<and>
       url_Parse (url_String (codexImageTargetURL origin)) = Some target \<and>
       rqMethod (hd (sent_of w')) = ''POST'' \<and> rqURL (hd (sent_of w')) = url_String target \<and> rqBody (hd (sent_of w')) = diBody prepared) \<and>
    (\<forall>n \<in> set image_hidden. header_values (rqHeader (hd (sent_of w'))) n = [])"
proof -
  obtain out w1 where p: "handleProxy cfg (recorded sv) origin rq w = (DirectImage out, w1)"
    and h: "handleCodexDirectImage cfg (recorded sv) redirect lib origin rq out w1 = (reply, w')"
    using assms(2) by (auto simp: serve_codex_def split: prod.splits proxy_reply.splits)
  obtain i body replay proxy au w0 where i: "Lookup (svCrypto sv) (stored w) (bearerToken (header_get (hrHeader rq) ''Authorization'')) = Some i"
    and au: "authorize (recorded sv) proxy (idID i) (idToken i) (logicalSessionID (hrHeader rq)) (selectedAccountID i) w0 = (Inr au, w1)"
    and none: "sent_of w1 = []"
    and out: "out = \<lparr>upMethod = hrMethod rq, upURL = hrURL rq, upHeader = set_credentials au (hrHeader rq), upBody = body, upReplay = replay,
      upProxy = proxy, upState = Some (upstream_state i au (logicalSessionID (hrHeader rq)))\<rparr>"
    using handle_proxy_image [OF p] assms(3) by auto
  from image_exchange [OF h] show ?thesis
  proof (elim disjE exE conjE)
    fix b target res w2 and prepared :: codexDirectImageRequest
    let ?rq = "out\<lparr>upMethod := ''POST'', upURL := target, upHeader := image_upstream_headers (upHeader out), upBody := Some (diBody prepared), upReplay := True\<rparr>"
    assume b: "hrBody rq = Some b" "buildCodexImageResponsesRequest lib (Path (upURL out)) b (header_get (upHeader out) ''Content-Type'') = Inr prepared"
      "url_Parse (url_String (codexImageTargetURL origin)) = Some target" and w2: "wManager w' = wManager w2"
      and d: "upstream_Do (recorded sv) redirect ?rq w1 = (res, w2)"
    have "request_for (recorded sv) i ?rq" unfolding request_for_def authorized_for_def
      using au image_headers_covered [OF set_credentials_carries [THEN carries_covered], of au "hrHeader rq"]
      by (intro exI [of _ au] exI [of _ au] exI [of _ "logicalSessionID (hrHeader rq)"]) (auto simp: out)
    from upstream_Do_sent [OF assms(1) this d] have all: "\<forall>r \<in> set (sent_of w'). sent_for (recorded sv) i r" by (simp add: none w2)
    have first: "hd (sent_of w') = wire ?rq" using upstream_Do_first [OF d none] by (simp add: w2)
    have hide: "\<forall>n \<in> set image_hidden. header_values (rqHeader (hd (sent_of w'))) n = []" by (simp add: first wire_def image_headers_hidden)
    have "rqMethod (hd (sent_of w')) = ''POST'' \<and> rqURL (hd (sent_of w')) = url_String target \<and> rqBody (hd (sent_of w')) = diBody prepared"
      by (simp add: first wire_def)
    moreover have "upURL out = hrURL rq" "upHeader out = set_credentials au (hrHeader rq)" by (simp_all add: out)
    ultimately show ?thesis using i all hide b by metis
  qed (use none in simp)
qed

text \<open>
  C29: the streamed and the whole reply hold the same images.  For an event stream whose only completion event is its last: when the whole reply succeeds, it holds every
  non-blank result of an image call once, in the order of the events, and the streamed reply succeeds too: it is the frames of the partial images followed by one
  completion frame for each of the same images.
\<close>

theorem streamed_images_agree:
  assumes "fits raw" "events_of raw = es @ [e]" "\<not> list_ex completed_event es"
    and "codexImageResponseFromResponsesStream now raw fmt = Inr reply"
  shows "\<exists>a. reply = buildCodexImagesAPIResponse a fmt \<and> acResults a = first_of_each (all_images (events_of raw)) \<and>
    distinct (map crB64JSON (acResults a)) \<and> crB64JSON ` set (acResults a) = crB64JSON ` set (all_images (events_of raw)) \<and>
    streamCodexImageResponse now None raw fmt name = (None, concat (map (partial_out fmt name) es) @ completed_out fmt name a)"
proof -
  let ?a = "fold consume (events_of raw) (newCodexImageAccumulator now)"
  have r: "list_ex completed_event (events_of raw)" "all_images (events_of raw) \<noteq> []" "reply = buildCodexImagesAPIResponse ?a fmt"
    using assms(4) by (auto simp: reply_of_events [OF assms(1)] split: if_splits)
  have e: "completed_event e" using r(1) assms(2,3) by auto
  show ?thesis
    using stream_of_events [OF assms(1-3) e r(2)] r(3) accumulated [of "events_of raw" now] first_of_each_distinct first_of_each_keys
    by (intro exI [of _ ?a]) simp
qed

text \<open>
  An event stream that was written is read back.  Scanning the frames that \<^verbatim>\<open>writeCodexImageSSEFrame\<close> wrote, whatever their event names and payloads, delivers the payloads in
  order, each as a map with the same entries: no payload is split over lines, trimmed or dropped.
\<close>

theorem image_frames_roundtrip:
  assumes "\<forall>(name, p) \<in> set frames. payload_ok p \<and> newline \<notin> set name"
    and "fits (concat (map (\<lambda>(name, p). writeCodexImageSSEFrame name p) frames))"
  shows "scanCodexResponsesSSE None (concat (map (\<lambda>(name, p). writeCodexImageSSEFrame name p) frames)) collect [] = (None, map (sorted_payload \<circ> snd) frames)"
proof -
  have "run_events collect es st = (None, st @ es)" for es st by (induction es arbitrary: st) (simp_all add: collect_def)
  then show ?thesis by (simp add: scan_events [OF assms(2)] frames_read_back [OF assms(1)])
qed

end
