(* ===== verification/Image_Witnesses.thy ===== *)
theory Image_Witnesses
  imports Proxy_Witnesses Image_Properties
begin

text \<open>The properties of the image bridge on a concrete stream and on a client that asks for an image.\<close>

section \<open>A stream with one image\<close>

definition image_item :: payload where
  "image_item = [(''result'', JStr ''QUJD''), (''type'', JStr ''image_generation_call'')]"

definition finished_event :: payload where
  "finished_event = [(''item'', JObj image_item), (''type'', JStr ''response.completed'')]"

definition image_stream :: bytes where
  "image_stream = writeCodexImageSSEFrame ''done'' finished_event"

lemma finished_ok: "payload_ok finished_event" "sorted_payload finished_event = finished_event"
proof -
  have v: "ValidString ''item''" "ValidString ''type''" "ValidString ''result''" "ValidString ''QUJD''" "ValidString ''image_generation_call''" "ValidString ''response.completed''"
    by (rule ascii_valid, simp add: byte_def)+
  show "payload_ok finished_event"
    using v by (auto simp: payload_ok_iff finished_event_def image_item_def value_ok_def maxNestingDepth_def simp del: ValidString.simps)
  show "sorted_payload finished_event = finished_event" by (simp add: sorted_payload_def finished_event_def image_item_def)
qed

lemma image_stream_lines: "scan_lines image_stream = [''event: done'', ''data: '' @ Marshal finished_event, []]"
  using frame_lines [OF finished_ok(1), of "''done''" "[]"] by (simp add: image_stream_def scan_lines_Nil newline_def)

lemma Marshal_finished: "length (Marshal finished_event) < 1000"
  by (simp add: Marshal_def finished_ok) (code_simp)

lemma image_stream_fits: "fits image_stream"
  using Marshal_finished by (auto simp: fits_def image_stream_lines maxCodexImageResponseBytes_def mebi_def)

lemma image_stream_events: "events_of image_stream = [] @ [finished_event]"
  using frames_read_back [of "[(''done'', finished_event)]"] finished_ok by (simp add: image_stream_def newline_def)

lemma image_url: "url_Parse (url_String (codexImageTargetURL demo_origin)) \<noteq> None"
  by code_simp

theorem image_frames_roundtrip_witness:
  "scanCodexResponsesSSE None image_stream collect [] = (None, [finished_event])"
  using image_frames_roundtrip [of "[(''done'', finished_event)]"] image_stream_fits finished_ok by (simp add: image_stream_def newline_def)

theorem streamed_images_agree_witness:
  "\<exists>a reply. codexImageResponseFromResponsesStream 0 image_stream ''url'' = Inr reply \<and> reply = buildCodexImagesAPIResponse a ''url'' \<and>
     map crB64JSON (acResults a) = [''QUJD''] \<and>
     streamCodexImageResponse 0 None image_stream ''url'' ''image_edit'' = (None, completed_out ''url'' ''image_edit'' a)"
proof -
  have t: "TrimSpace ''QUJD'' = ''QUJD''" by (rule TrimSpace_plain) (simp add: space_byte_def byte_def)
  have images: "all_images (events_of image_stream) = [image_result image_item]"
    by (simp add: image_stream_events all_images_def event_images_def finished_event_def lookup_def image_item_def string_of_def t)
  have "list_ex completed_event (events_of image_stream)"
    by (simp add: image_stream_events finished_event_def lookup_def stringValue_def)
  then obtain reply where r: "codexImageResponseFromResponsesStream 0 image_stream ''url'' = Inr reply"
    using images by (simp add: reply_of_events [OF image_stream_fits])
  have "crB64JSON (image_result image_item) = ''QUJD''" by (simp add: image_result_def image_item_def lookup_def string_of_def)
  then have one: "map crB64JSON (first_of_each (all_images (events_of image_stream))) = [''QUJD'']" by (simp add: images)
  have "\<not> list_ex completed_event []" by simp
  from streamed_images_agree [OF image_stream_fits image_stream_events this r, of "''image_edit''"]
  obtain a where a: "reply = buildCodexImagesAPIResponse a ''url''" "acResults a = first_of_each (all_images (events_of image_stream))"
    "streamCodexImageResponse 0 None image_stream ''url'' ''image_edit'' = (None, concat (map (partial_out ''url'' ''image_edit'') []) @ completed_out ''url'' ''image_edit'' a)"
    by blast
  show ?thesis
  proof (intro exI conjI)
    show "map crB64JSON (acResults a) = [''QUJD'']" using a(2) one by (simp only:)
    show "streamCodexImageResponse 0 None image_stream ''url'' ''image_edit'' = (None, completed_out ''url'' ''image_edit'' a)"
      using a(3) by (simp only: list.map concat.simps append.simps)
  qed (rule r a(1))+
qed

section \<open>A client that asks for an image\<close>

definition image_client :: http_request where
  "image_client = client_request\<lparr>hrMethod := ''POST'', hrURL := zero_url\<lparr>Path := ''/backend-api/codex/images/generations''\<rparr>,
     hrBody := Some (Marshal [(''prompt'', JStr ''cat'')])\<rparr>"

definition plain_mime :: mime_library where
  "plain_mime = \<lparr>mlParseMediaType = (\<lambda>_. ([], [])), mlReadForm = (\<lambda>_ _. Inl ''no multipart''), mlDetectContentType = (\<lambda>_. ''image/png''),
     mlReadError = ''unexpected EOF''\<rparr>"

lemma image_client_prepared:
  "\<exists>prepared. buildCodexImageResponsesRequest plain_mime (Path (hrURL image_client)) (Marshal [(''prompt'', JStr ''cat'')]) ct = Inr prepared"
proof -
  have v: "ValidString ''prompt''" "ValidString ''cat''" by (rule ascii_valid, simp add: byte_def)+
  then have "payload_ok [(''prompt'', JStr ''cat'')]" by (auto simp: payload_ok_iff value_ok_def maxNestingDepth_def simp del: ValidString.simps)
  from Marshal_decodes [OF this] have d: "decodeJSONMap (Marshal [(''prompt'', JStr ''cat'')]) = Some [(''prompt'', JStr ''cat'')]" by (simp add: sorted_payload_def)
  have "decodeCodexDirectImagePayload plain_mime (Path (hrURL image_client)) (Marshal [(''prompt'', JStr ''cat'')]) ct = Inr [(''prompt'', JStr ''cat'')]"
    using d by (auto simp: decodeCodexDirectImagePayload_def decodeJSONMap_def plain_mime_def HasPrefix_def split: decoded.splits json.splits)
  moreover have "TrimSpace ''cat'' = ''cat''" by (rule TrimSpace_plain) (simp add: space_byte_def byte_def)
  moreover have "Path (hrURL image_client) \<noteq> codexDirectImagesEditsPath"
    by (simp add: image_client_def codexDirectImagesEditsPath_def proxyPathPrefix_def)
  ultimately show ?thesis by (simp add: buildCodexImageResponsesRequest_def lookup_def string_of_def Let_def)
qed

lemma image_proxied:
  "\<exists>reply w'. serve_codex demo_config (recorded (demo_server None)) (\<lambda>_ _. None) plain_mime demo_origin image_client (recorded_world (scoped_store, demo_disk)) = (Inr reply, w') \<and>
     sent_of w' \<noteq> []"
proof -
  let ?sv = "recorded (demo_server None)" and ?w = "recorded_world (scoped_store, demo_disk)" and ?s = "logicalSessionID (hrHeader image_client)"
    and ?b = "Marshal [(''prompt'', JStr ''cat'')]"
  have C: "svCrypto ?sv = demo_crypto" by (simp add: recorded_def)
  have st: "stored ?w = scoped_store" by (simp add: recorded_world_def)
  have k: "bearerToken (header_get (hrHeader image_client) ''Authorization'') = first_key"
    using bearer_key [OF first_key_plain] by (simp add: image_client_def client_request_def EqualFold_def)
  have path: "HasPrefix (Path (hrURL image_client)) (proxyPathPrefix @ ''/'')" "isCodexDirectImagePath (Path (hrURL image_client))"
    by (simp_all add: image_client_def proxyPathPrefix_def isCodexDirectImagePath_def TrimSpace_plain space_byte_def byte_def HasPrefix_def)
  have small: "length ?b \<le> 16" by (simp add: Marshal_def sorted_payload_def) (code_simp)
  have "prepareReplayableBody image_client (cfMaxReplayBodyBytes demo_config) \<noteq> None"
    by (auto simp: prepareReplayableBody_def image_client_def client_request_def)
  then obtain body replay where body: "prepareReplayableBody image_client (cfMaxReplayBodyBytes demo_config) = Some (body, replay)" by auto
  have prox: "withIdentityProxy demo_config ?sv ctx i [] w = (Some [], w)" for ctx i w by (simp add: withIdentityProxy_def demo_config_def)
  obtain au m where au: "authorize ?sv [] (idID scoped_identity) ''at-1'' ?s ''acc'' ?w = (Inr au, tick 5 (?w\<lparr>wManager := (m, (), [])\<rparr>))"
    using scoped_authorized by blast
  let ?w2 = "tick 5 (?w\<lparr>wManager := (m, (), [])\<rparr>)"
  let ?out = "\<lparr>upMethod = hrMethod image_client, upURL = hrURL image_client, upHeader = set_credentials au (hrHeader image_client), upBody = body, upReplay = replay,
      upProxy = [], upState = Some (upstream_state scoped_identity au ?s)\<rparr>"
  have h: "handleProxy demo_config ?sv demo_origin image_client ?w = (DirectImage ?out, ?w2)"
    using au by (simp add: handleProxy_def C st k path scoped_lookup body prox scoped_fields scoped_account Let_def)
  have read: "readReplayableRequestBody image_client (cfMaxReplayBodyBytes demo_config) = Some ?b"
    using small by (simp add: readReplayableRequestBody_def image_client_def client_request_def demo_config_def defaultReplayBodyMax_def)
  obtain prepared where pr: "buildCodexImageResponsesRequest plain_mime (Path (hrURL image_client)) ?b (header_get (set_credentials au (hrHeader image_client)) ''Content-Type'') = Inr prepared"
    using image_client_prepared by blast
  obtain target where target: "url_Parse (url_String (codexImageTargetURL demo_origin)) = Some target" using image_url by blast
  let ?rq = "?out\<lparr>upMethod := ''POST'', upURL := target, upHeader := image_upstream_headers (upHeader ?out), upBody := Some (diBody prepared), upReplay := True\<rparr>"
  obtain res w3 where d: "upstream_Do ?sv (\<lambda>_ _. None) ?rq ?w2 = (res, w3)" by fastforce
  have "sent_of ?w2 = []" by simp
  note sent = upstream_Do_first [OF d this]
  have "hrMethod image_client = ''POST''" by (simp add: image_client_def)
  then have "\<exists>reply w'. handleCodexDirectImage demo_config ?sv (\<lambda>_ _. None) plain_mime demo_origin image_client ?out ?w2 = (reply, w') \<and> wManager w' = wManager w3"
    using read pr target d by (simp add: handleCodexDirectImage_def split: http_outcome.splits)
  then show ?thesis using h sent by (auto simp: serve_codex_def)
qed

theorem image_requests_carry_identity_witness:
  "\<exists>reply w' r. serve_codex demo_config (recorded (demo_server None)) (\<lambda>_ _. None) plain_mime demo_origin image_client (recorded_world (scoped_store, demo_disk)) = (Inr reply, w') \<and>
     sent_of w' \<noteq> [] \<and> rqMethod (hd (sent_of w')) = ''POST'' \<and> sent_for (recorded (demo_server None)) scoped_identity (hd (sent_of w'))"
proof -
  obtain reply w' where h: "serve_codex demo_config (recorded (demo_server None)) (\<lambda>_ _. None) plain_mime demo_origin image_client (recorded_world (scoped_store, demo_disk)) = (Inr reply, w')"
    "sent_of w' \<noteq> []" using image_proxied by blast
  have k: "bearerToken (header_get (hrHeader image_client) ''Authorization'') = first_key"
    using bearer_key [OF first_key_plain] by (simp add: image_client_def client_request_def EqualFold_def)
  have L: "Lookup (svCrypto (demo_server None)) (stored (recorded_world (scoped_store, demo_disk))) first_key = Some scoped_identity"
    using scoped_lookup by (simp add: recorded_world_def)
  have none: "sent_of (recorded_world (scoped_store, demo_disk)) = []" by (simp add: recorded_world_def)
  have "redirect_keeps (\<lambda>_ _. None)" by (simp add: redirect_keeps_def)
  note ok = image_requests_carry_identity [OF this h(1) none, unfolded k L]
  have "rqMethod (hd (sent_of w')) = ''POST''" "sent_for (recorded (demo_server None)) scoped_identity (hd (sent_of w'))"
    using ok h(2) by auto
  with h show ?thesis by blast
qed

end
