(* ===== verification/Outbound_Route.thy ===== *)
theory Outbound_Route
  imports Server_Http Go_Text
begin

text \<open>
  How the sidecar chooses its outbound proxy (\<^verbatim>\<open>cmd/sidecar/proxy.go\<close>, and of \<^verbatim>\<open>cmd/sidecar/main.go\<close> the reading of the
  environment and \<^verbatim>\<open>outboundTransport\<close>).  An \<open>egress_route\<close> is the \<^verbatim>\<open>Proxy\<close> setting of an \<^verbatim>\<open>http.Transport\<close>; a transport decides on a
  route for a request or refuses it.  The process environment and its files are a parameter (\<open>sys_env\<close>), as are CPA's
  management endpoint (a \<open>transport\<close> of \<^verbatim>\<open>Go_Net\<close>) and the readings of the clock during a call (\<open>clock\<close>).  Each operation runs under the
  mutexes of the source and of the transport, so it is one step; requests and the watcher interleave between operations.
\<close>

section \<open>The environment\<close>

record sys_env =
  seGetenv :: "string \<Rightarrow> string"
  seReadFile :: "string \<Rightarrow> bytes option"

datatype proxy_error =
    ProxyHTTP int | ProxyUnreachable | ProxyResponseInvalid | ProxyValueInvalid | SecretUnreadable | SecretEmpty | RouteInvalid

definition readSecret :: "sys_env \<Rightarrow> string \<Rightarrow> string \<Rightarrow> string + string" where
  "readSecret env valueEnvironment fileEnvironment =
     (let path = TrimSpace (seGetenv env fileEnvironment) in
      if path \<noteq> [] then
        (case seReadFile env path of
           None \<Rightarrow> Inl ''failed to read management key file''
         | Some data \<Rightarrow> (let secret = TrimSpace data in if secret \<noteq> [] then Inr secret else Inl ''management key file is empty''))
      else let secret = TrimSpace (seGetenv env valueEnvironment) in
        if secret \<noteq> [] then Inr secret else Inl ''management key is required'')"

text \<open>The second component of the result says whether the secret is configured.\<close>

definition readOptionalSecret :: "sys_env \<Rightarrow> string \<Rightarrow> string \<Rightarrow> proxy_error + string \<times> bool" where
  "readOptionalSecret env valueEnvironment fileEnvironment =
     (let path = TrimSpace (seGetenv env fileEnvironment) in
      if path \<noteq> [] then
        (case seReadFile env path of
           None \<Rightarrow> Inl SecretUnreadable
         | Some data \<Rightarrow> (let secret = TrimSpace data in if secret \<noteq> [] then Inr (secret, True) else Inl SecretEmpty))
      else let secret = TrimSpace (seGetenv env valueEnvironment) in
        if secret \<noteq> [] then Inr (secret, True) else Inr ([], False))"

definition envOrDefault :: "sys_env \<Rightarrow> string \<Rightarrow> string \<Rightarrow> string" where
  "envOrDefault env name fallback = (let value = TrimSpace (seGetenv env name) in if value \<noteq> [] then value else fallback)"

definition int64Env :: "sys_env \<Rightarrow> string \<Rightarrow> int \<Rightarrow> string + int" where
  "int64Env env name fallback =
     (let raw = TrimSpace (seGetenv env name) in
      if raw = [] then Inr fallback
      else case ParseInt raw of
        None \<Rightarrow> Inl (name @ '' must be a positive integer'')
      | Some value \<Rightarrow> if value \<le> 0 then Inl (name @ '' must be a positive integer'') else Inr value)"

definition boolEnv :: "sys_env \<Rightarrow> string \<Rightarrow> bool \<Rightarrow> string + bool" where
  "boolEnv env name fallback =
     (let raw = TrimSpace (seGetenv env name) in
      if raw = [] then Inr fallback
      else case ParseBool raw of None \<Rightarrow> Inl (name @ '' must be a boolean'') | Some value \<Rightarrow> Inr value)"

section \<open>Routes\<close>

datatype egress_route = FromEnvironment | Direct | Via url

definition outboundTransport :: "string \<Rightarrow> egress_route option" where
  "outboundTransport rawProxyURL =
     (let raw = TrimSpace rawProxyURL in
      if raw = [] then Some FromEnvironment
      else if EqualFold raw ''direct'' \<or> EqualFold raw ''none'' then Some Direct
      else case url_Parse raw of
        None \<Rightarrow> None
      | Some u \<Rightarrow>
          if Scheme u = [] \<or> Host u = [] then None
          else if Scheme u \<in> set [''http'', ''https'', ''socks5'', ''socks5h''] then Some (Via u) else None)"

definition proxyMode :: "string \<Rightarrow> string" where
  "proxyMode raw =
     (if ToLower (TrimSpace raw) \<in> set [[], ''direct'', ''none''] then ''direct''
      else case url_Parse raw of
        None \<Rightarrow> ''invalid''
      | Some u \<Rightarrow> if Scheme u \<noteq> [] then Scheme u else ''invalid'')"

definition managementConfigURL :: "string \<Rightarrow> string + string" where
  "managementConfigURL raw =
     (case url_Parse (TrimSpace raw) of
        None \<Rightarrow> Inl ''CPA management URL is invalid''
      | Some u \<Rightarrow>
          if Scheme u = [] \<or> Host u = [] \<or> HasUser u \<or> RawQuery u \<noteq> [] \<or> Fragment u \<noteq> [] then Inl ''CPA management URL is invalid''
          else if Scheme u \<noteq> ''http'' \<and> Scheme u \<noteq> ''https'' then Inl ''CPA management URL must use HTTP or HTTPS''
          else Inr (url_String (u\<lparr>Path := TrimRight (Path u) ''/'' @ ''/config''\<rparr>)))"

section \<open>The source of the configuration\<close>

definition millisecond :: int where "millisecond = 10 ^ 6"
definition minute :: int where "minute = 60 * second"
definition defaultProxyConfigPollInterval :: int where "defaultProxyConfigPollInterval = second"
definition minProxyConfigPollInterval :: int where "minProxyConfigPollInterval = 100 * millisecond"
definition maxProxyConfigPollInterval :: int where "maxProxyConfigPollInterval = 5 * minute"
definition maxCPAConfigResponseBytes :: nat where "maxCPAConfigResponseBytes = mebi"

text \<open>\<^verbatim>\<open>time.ParseDuration\<close> is the parameter \<open>duration\<close>.\<close>

definition proxyPollInterval :: "(string \<Rightarrow> int option) \<Rightarrow> sys_env \<Rightarrow> string + int" where
  "proxyPollInterval duration env =
     (let raw = TrimSpace (seGetenv env ''CPA_PROXY_CONFIG_POLL_INTERVAL'') in
      if raw = [] then Inr defaultProxyConfigPollInterval
      else case duration raw of
        None \<Rightarrow> Inl ''CPA_PROXY_CONFIG_POLL_INTERVAL is outside the supported range''
      | Some value \<Rightarrow>
          if value < minProxyConfigPollInterval \<or> value > maxProxyConfigPollInterval
          then Inl ''CPA_PROXY_CONFIG_POLL_INTERVAL is outside the supported range'' else Inr value)"

record proxyConfigSource =
  psValueEnvironment :: string
  psFileEnvironment :: string
  psFallback :: string
  psConfigURL :: string
  psManagementKey :: string
  psPollInterval :: int
  psNextCheck :: time
  psFailureDelay :: int
  psEffective :: string
  psLastError :: "proxy_error option"

definition newProxyConfigSource :: "string \<Rightarrow> string \<Rightarrow> string \<Rightarrow> string \<Rightarrow> string \<Rightarrow> bool \<Rightarrow> int \<Rightarrow> string + proxyConfigSource" where
  "newProxyConfigSource initial valueEnvironment fileEnvironment cpaConfigURL cpaManagementKey hasClient pollInterval =
     (let pollInterval = (if pollInterval \<le> 0 then defaultProxyConfigPollInterval else pollInterval);
          source = \<lparr>psValueEnvironment = TrimSpace valueEnvironment, psFileEnvironment = TrimSpace fileEnvironment, psFallback = TrimSpace initial,
            psConfigURL = TrimRight (TrimSpace cpaConfigURL) ''/'', psManagementKey = TrimSpace cpaManagementKey, psPollInterval = pollInterval,
            psNextCheck = 0, psFailureDelay = 0, psEffective = TrimSpace initial, psLastError = None\<rparr> in
      if pollInterval < minProxyConfigPollInterval \<or> pollInterval > maxProxyConfigPollInterval
      then Inl ''CPA_PROXY_CONFIG_POLL_INTERVAL is outside the supported range''
      else if cpaConfigURL = [] then Inr source
      else case url_Parse cpaConfigURL of
        None \<Rightarrow> Inl ''CPA proxy config URL is invalid''
      | Some u \<Rightarrow>
          if Scheme u = [] \<or> Host u = [] \<or> HasUser u \<or> RawQuery u \<noteq> [] \<or> Fragment u \<noteq> [] then Inl ''CPA proxy config URL is invalid''
          else if Scheme u \<noteq> ''http'' \<and> Scheme u \<noteq> ''https'' then Inl ''CPA proxy config URL must use HTTP or HTTPS''
          else if \<not> hasClient \<or> TrimSpace cpaManagementKey = [] then Inl ''CPA proxy config client and key are required''
          else Inr source)"

definition markSuccess :: "time \<Rightarrow> proxyConfigSource \<Rightarrow> proxyConfigSource" where
  "markSuccess now s = s\<lparr>psFailureDelay := 0, psLastError := None, psNextCheck := now + psPollInterval s\<rparr>"

definition failure_base :: "proxy_error \<Rightarrow> proxyConfigSource \<Rightarrow> int" where
  "failure_base err s =
     (if err \<in> set [ProxyHTTP 401, ProxyHTTP 403] \<and> psPollInterval s < minute then minute else psPollInterval s)"

definition rescheduleFailure :: "proxy_error \<Rightarrow> time \<Rightarrow> proxyConfigSource \<Rightarrow> proxyConfigSource" where
  "rescheduleFailure err now s =
     (let base = failure_base err s;
          delay = (if psFailureDelay s > 0 then (if psFailureDelay s * 2 < base then base else psFailureDelay s * 2) else base);
          delay = (if delay > maxProxyConfigPollInterval then maxProxyConfigPollInterval else delay) in
      s\<lparr>psLastError := Some err, psFailureDelay := delay, psNextCheck := now + delay\<rparr>)"

definition updateEffective :: "string \<Rightarrow> proxyConfigSource \<Rightarrow> proxyConfigSource" where
  "updateEffective raw s = s\<lparr>psEffective := TrimSpace raw\<rparr>"

definition config_request :: "proxyConfigSource \<Rightarrow> request" where
  "config_request s =
     \<lparr>rqMethod = ''GET'', rqURL = psConfigURL s,
      rqHeader = [(''Authorization'', ''Bearer '' @ psManagementKey s), (''Accept'', ''application/json'')], rqBody = []\<rparr>"

text \<open>The answer is decoded into a map of raw values: of two equal keys the last wins, a missing or null value is empty.\<close>

definition config_proxy :: "bytes \<Rightarrow> proxy_error + string" where
  "config_proxy body =
     (case map_option json_any (first_json body) of
        Some (JObj payload) \<Rightarrow>
          (case lookup payload ''proxy-url'' of
             JStr s \<Rightarrow> Inr (TrimSpace s)
           | JNull \<Rightarrow> Inr []
           | _ \<Rightarrow> Inl ProxyValueInvalid)
      | Some JNull \<Rightarrow> Inr []
      | _ \<Rightarrow> Inl ProxyResponseInvalid)"

definition fetchCPAProxy :: "'u transport \<Rightarrow> proxyConfigSource \<Rightarrow> 'u \<Rightarrow> (proxy_error + string) \<times> 'u" where
  "fetchCPAProxy cl s u =
     (case cl (config_request s) u of
        (Response r, u') \<Rightarrow>
          (if rsStatus r \<noteq> 200 then Inl (ProxyHTTP (rsStatus r))
           else case LimitReader maxCPAConfigResponseBytes r of None \<Rightarrow> Inl ProxyResponseInvalid | Some body \<Rightarrow> config_proxy body, u')
      | (_, u') \<Rightarrow> (Inl ProxyUnreachable, u'))"

definition fallback_proxy :: "sys_env \<Rightarrow> proxyConfigSource \<Rightarrow> proxy_error + string" where
  "fallback_proxy env s =
     (case readOptionalSecret env (psValueEnvironment s) (psFileEnvironment s) of
        Inl err \<Rightarrow> Inl err
      | Inr (raw, configured) \<Rightarrow> Inr (if configured then raw else psFallback s))"

text \<open>The proxy that the configuration names now: CPA's, or the process's own when CPA has none or is not configured.\<close>

definition resolve_proxy :: "'u transport \<Rightarrow> sys_env \<Rightarrow> proxyConfigSource \<Rightarrow> 'u \<Rightarrow> (proxy_error + string) \<times> 'u" where
  "resolve_proxy cl env s u =
     (if psConfigURL s = [] then (fallback_proxy env s, u)
      else case fetchCPAProxy cl s u of
        (Inl err, u') \<Rightarrow> (Inl err, u')
      | (Inr raw, u') \<Rightarrow> (if raw = [] then fallback_proxy env s else Inr raw, u'))"

text \<open>\<open>current\<close> reads the clock before and after it takes the refresh lock, and again when it records the outcome.\<close>

definition current :: "'u transport \<Rightarrow> sys_env \<Rightarrow> (nat \<Rightarrow> time) \<Rightarrow> proxyConfigSource \<Rightarrow> 'u \<Rightarrow> (string \<times> proxy_error option) \<times> proxyConfigSource \<times> 'u" where
  "current cl env clock s u =
     (if clock 0 < psNextCheck s \<or> clock 1 < psNextCheck s then ((psEffective s, psLastError s), s, u)
      else let s1 = s\<lparr>psNextCheck := clock 1 + psPollInterval s\<rparr> in
        case resolve_proxy cl env s1 u of
          (Inl err, u') \<Rightarrow> ((psEffective s, Some err), rescheduleFailure err (clock 2) s1, u')
        | (Inr raw, u') \<Rightarrow> ((TrimSpace raw, None), updateEffective raw (markSuccess (clock 2) s1), u'))"

section \<open>The transport\<close>

record hotReloadTransport =
  htSource :: proxyConfigSource
  htCurrent :: egress_route
  htReady :: bool
  htActiveRaw :: string
  htRoutes :: "egress_route gomap"

definition newHotReloadTransport :: "string \<Rightarrow> proxyConfigSource \<Rightarrow> hotReloadTransport option" where
  "newHotReloadTransport initial source =
     map_option (\<lambda>r. \<lparr>htSource = source, htCurrent = r, htReady = (psConfigURL source = []), htActiveRaw = TrimSpace initial, htRoutes = []\<rparr>)
       (outboundTransport initial)"

definition refresh :: "'u transport \<Rightarrow> sys_env \<Rightarrow> (nat \<Rightarrow> time) \<Rightarrow> hotReloadTransport \<Rightarrow> 'u \<Rightarrow> proxy_error option \<times> hotReloadTransport \<times> 'u" where
  "refresh cl env clock t u =
     (case current cl env clock (htSource t) u of
        ((raw, Some err), s, u') \<Rightarrow> (Some err, t\<lparr>htSource := s, htReady := False\<rparr>, u')
      | ((raw, None), s, u') \<Rightarrow>
          if raw = htActiveRaw t then (None, t\<lparr>htSource := s, htReady := True\<rparr>, u')
          else case outboundTransport raw of
            None \<Rightarrow> (Some RouteInvalid, t\<lparr>htSource := s, htReady := False\<rparr>, u')
          | Some next \<Rightarrow> (None, t\<lparr>htSource := s, htCurrent := next, htReady := True, htActiveRaw := raw\<rparr>, u'))"

definition maxRoutes :: nat where "maxRoutes = 64"

text \<open>The route of a credential with a proxy of its own (\<^verbatim>\<open>egress.Proxy\<close>); transports are kept by proxy, at most 64.\<close>

definition credential_route :: "string \<Rightarrow> hotReloadTransport \<Rightarrow> egress_route option \<times> hotReloadTransport" where
  "credential_route raw t =
     (case map_get (htRoutes t) raw of
        Some r \<Rightarrow> (Some r, t)
      | None \<Rightarrow>
          (case outboundTransport raw of
             None \<Rightarrow> (None, t)
           | Some r \<Rightarrow> (Some r, t\<lparr>htRoutes := map_put raw r (if length (htRoutes t) \<ge> maxRoutes then [] else htRoutes t)\<rparr>)))"

text \<open>A request on the default route asks the source again, unless the last attempt failed.\<close>

definition force_check :: "hotReloadTransport \<Rightarrow> hotReloadTransport" where
  "force_check t =
     (if psLastError (htSource t) = None then t\<lparr>htSource := (htSource t)\<lparr>psNextCheck := 0\<rparr>\<rparr> else t)"

definition default_route :: "hotReloadTransport \<Rightarrow> egress_route option" where
  "default_route t = (if htReady t then Some (htCurrent t) else None)"

definition route_request ::
  "'u transport \<Rightarrow> sys_env \<Rightarrow> (nat \<Rightarrow> time) \<Rightarrow> string \<Rightarrow> hotReloadTransport \<Rightarrow> 'u \<Rightarrow> egress_route option \<times> hotReloadTransport \<times> 'u" where
  "route_request cl env clock proxy t u =
     (if proxy \<noteq> [] then (case credential_route proxy t of (r, t') \<Rightarrow> (r, t', u))
      else case refresh cl env clock (force_check t) u of
        (Some _, t', u') \<Rightarrow> (None, t', u')
      | (None, t', u') \<Rightarrow> (default_route t', t', u'))"

section \<open>Interleavings of requests and the watcher\<close>

text \<open>
  A request is a check, a refresh and the reading of the route, the watcher a refresh: the transport's states are those that
  any sequence of these steps reaches, with any answers of CPA, any environment and any clock.
\<close>

inductive route_step :: "'u itself \<Rightarrow> hotReloadTransport \<Rightarrow> hotReloadTransport \<Rightarrow> bool" for U :: "'u itself" where
  step_credential: "credential_route raw t = (r, t') \<Longrightarrow> route_step U t t'"
| step_check: "route_step U t (force_check t)"
| step_refresh: "refresh (cl :: 'u transport) env clock t u = (e, t', u') \<Longrightarrow> route_step U t t'"

inductive route_init :: "hotReloadTransport \<Rightarrow> bool" where
  init: "newProxyConfigSource initial v f url key c poll = Inr source \<Longrightarrow> newHotReloadTransport initial source = Some t \<Longrightarrow> route_init t"

inductive_cases route_stepE: "route_step U t t'"
inductive_cases route_initE: "route_init t"

text \<open>
  The invariant: when the transport is ready, its route is the one of the last proxy that the configuration named, and the last attempt to ask did not
  fail.  Delays and the table of routes stay within their bounds.
\<close>

definition routes_ok :: "egress_route gomap \<Rightarrow> bool" where
  "routes_ok m \<longleftrightarrow> (\<forall>(raw, r) \<in> set m. outboundTransport raw = Some r) \<and> gomap_ok m \<and> length m \<le> maxRoutes"

definition route_inv :: "hotReloadTransport \<Rightarrow> bool" where
  "route_inv t \<longleftrightarrow>
     (htReady t \<longrightarrow> psLastError (htSource t) = None \<and> htActiveRaw t = psEffective (htSource t)) \<and>
     outboundTransport (htActiveRaw t) = Some (htCurrent t) \<and>
     routes_ok (htRoutes t) \<and>
     minProxyConfigPollInterval \<le> psPollInterval (htSource t) \<and> psPollInterval (htSource t) \<le> maxProxyConfigPollInterval \<and>
     0 \<le> psFailureDelay (htSource t) \<and> psFailureDelay (htSource t) \<le> maxProxyConfigPollInterval"

lemma outbound_trim: "outboundTransport (TrimSpace raw) = outboundTransport raw"
  by (simp add: outboundTransport_def)

lemma interval_pos: "0 < minProxyConfigPollInterval" "minProxyConfigPollInterval \<le> maxProxyConfigPollInterval" "minute \<le> maxProxyConfigPollInterval" "0 < minute"
  by (simp_all add: minProxyConfigPollInterval_def maxProxyConfigPollInterval_def minute_def millisecond_def second_def)

lemma current_source:
  assumes "current cl env clock s u = ((raw, e), s', u')"
  shows "psPollInterval s' = psPollInterval s \<and> psEffective s' = raw \<and> (e = None \<longrightarrow> psLastError s' = None) \<and>
    (0 \<le> psFailureDelay s \<and> psFailureDelay s \<le> maxProxyConfigPollInterval \<and> 0 < psPollInterval s \<longrightarrow>
     0 \<le> psFailureDelay s' \<and> psFailureDelay s' \<le> maxProxyConfigPollInterval)"
  using assms interval_pos
  by (auto simp: current_def Let_def rescheduleFailure_def markSuccess_def updateEffective_def failure_base_def split: if_splits prod.splits sum.splits)

lemma length_put: "length (map_put k v m) \<le> Suc (length m)"
  by (induction m) auto

lemma routes_ok_put:
  assumes "routes_ok m" "outboundTransport raw = Some r"
  shows "routes_ok (map_put raw r (if length m \<ge> maxRoutes then [] else m))"
proof -
  have "length (map_put raw r m') \<le> maxRoutes" if "length m' < maxRoutes" for m' using that length_put [of raw r m'] by simp
  moreover have "outboundTransport k = Some v" if "(k, v) \<in> set (map_put raw r m')" "set m' \<subseteq> set m" for k v m'
    using update_members [OF that(1)] that(2) assms by (auto simp: routes_ok_def)
  moreover have "gomap_ok (map_put raw r m')" if "gomap_ok m'" for m' :: "egress_route gomap" using that by simp
  moreover have "gomap_ok m" using assms(1) by (simp add: routes_ok_def)
  ultimately show ?thesis using assms(2) unfolding routes_ok_def by (auto simp del: gomap_ok_put) (auto simp: maxRoutes_def gomap_ok_def)
qed

interpretation routes: invariant_system route_init "route_step U" route_inv for U
proof unfold_locales
  fix t assume "route_init t"
  then show "route_inv t"
    by (elim route_initE) (auto simp: newProxyConfigSource_def newHotReloadTransport_def route_inv_def routes_ok_def Let_def outbound_trim gomap_ok_def defaultProxyConfigPollInterval_def
        minProxyConfigPollInterval_def maxProxyConfigPollInterval_def millisecond_def minute_def second_def split: if_splits option.splits)
next
  fix t t' assume inv: "route_inv t" and "route_step U t t'"
  from this(2) show "route_inv t'"
  proof (cases rule: route_step.cases)
    case (step_credential raw r)
    then show ?thesis using inv routes_ok_put [of "htRoutes t" raw]
      by (auto simp: credential_route_def route_inv_def split: option.splits)
  next
    case step_check
    then show ?thesis using inv by (auto simp: force_check_def route_inv_def)
  next
    case (step_refresh cl env clock u e u')
    obtain raw e0 s u1 where c: "current cl env clock (htSource t) u = ((raw, e0), s, u1)" by (metis surj_pair)
    show ?thesis using inv step_refresh current_source [OF c] interval_pos
      by (auto simp: refresh_def c route_inv_def split: option.splits if_splits)
  qed
qed

section \<open>What a request gets\<close>

lemma current_asks:
  assumes "current cl env clock s u = ((raw, None), s', u')" "\<not> (clock 0 < psNextCheck s \<or> clock 1 < psNextCheck s)"
  shows "\<exists>r. resolve_proxy cl env (s\<lparr>psNextCheck := n\<rparr>) u = (Inr r, u') \<and> raw = TrimSpace r"
proof -
  have "fallback_proxy env (s\<lparr>psNextCheck := m\<rparr>) = fallback_proxy env s" "fetchCPAProxy cl (s\<lparr>psNextCheck := m\<rparr>) = fetchCPAProxy cl s" for m
    by (simp_all add: fallback_proxy_def fun_eq_iff fetchCPAProxy_def config_request_def split: sum.splits)
  then have same: "resolve_proxy cl env (s\<lparr>psNextCheck := m\<rparr>) u = resolve_proxy cl env (s\<lparr>psNextCheck := n\<rparr>) u" for m
    by (simp add: resolve_proxy_def split: prod.splits sum.splits)
  show ?thesis using assms same [of "clock 1 + psPollInterval s"]
    by (auto simp: current_def Let_def split: prod.splits sum.splits)
qed

lemma refresh_route:
  assumes "route_inv t" "refresh cl env clock t u = (None, t', u')"
  shows "\<exists>raw s. current cl env clock (htSource t) u = ((raw, None), s, u') \<and> htReady t' \<and> outboundTransport raw = Some (htCurrent t')"
proof -
  obtain raw e s u1 where c: "current cl env clock (htSource t) u = ((raw, e), s, u1)" by (metis surj_pair)
  show ?thesis using assms by (auto simp: refresh_def c route_inv_def split: option.splits if_splits)
qed

text \<open>The delay after a number of failures in a row, each at its own time.\<close>

fun failures :: "(proxy_error \<times> time) list \<Rightarrow> proxyConfigSource \<Rightarrow> proxyConfigSource" where
  "failures [] s = s"
| "failures ((err, now) # es) s = failures es (rescheduleFailure err now s)"

lemma failures_snoc: "failures (es @ [(err, now)]) s = rescheduleFailure err now (failures es s)"
  by (induction es s rule: failures.induct) auto

lemma failures_fields: "psPollInterval (failures es s) = psPollInterval s \<and> psConfigURL (failures es s) = psConfigURL s"
  by (induction es s rule: failures.induct) (simp_all add: rescheduleFailure_def Let_def)

lemma failures_delay:
  assumes "0 < b" "psFailureDelay s = 0" "\<forall>(err, now) \<in> set es. failure_base err s = b" "es \<noteq> []"
  shows "psFailureDelay (failures es s) = min maxProxyConfigPollInterval (b * 2 ^ (length es - 1))"
  using assms(3,4)
proof (induction es rule: rev_induct)
  case (snoc e es)
  obtain err now where e: "e = (err, now)" by fastforce
  have base: "failure_base err (failures es s) = b" using snoc.prems(1) e failures_fields [of es s] by (auto simp: failure_base_def)
  show ?case
  proof (cases "es = []")
    case True
    then show ?thesis using e base assms(2) by (simp add: failures_snoc [of "[]", simplified] rescheduleFailure_def Let_def)
  next
    case False
    define x where "x = b * 2 ^ (length es - 1)"
    have d: "psFailureDelay (failures es s) = min maxProxyConfigPollInterval x" using snoc False by (auto simp: x_def)
    have x: "b \<le> x" "b * 2 ^ length es = 2 * x" using assms(1) False by (cases es; simp add: x_def)+
    show ?thesis
      using x assms(1) interval_pos unfolding e failures_snoc rescheduleFailure_def Let_def base d
      by (auto simp: min_def)
  qed
qed simp

section \<open>Properties\<close>




end
