(* ===== verification/Outbound_Witnesses.thy ===== *)
theory Outbound_Witnesses
  imports Outbound_Route
begin

text \<open>
  The properties of the outbound routes at concrete inputs: a sidecar that is told to connect directly and has no CPA configuration.
\<close>

definition demo_source :: proxyConfigSource where
  "demo_source = \<lparr>psValueEnvironment = ''V'', psFileEnvironment = ''F'', psFallback = ''direct'', psConfigURL = [], psManagementKey = [],
     psPollInterval = second, psNextCheck = 0, psFailureDelay = 0, psEffective = ''direct'', psLastError = None\<rparr>"

definition demo_transport :: hotReloadTransport where
  "demo_transport = \<lparr>htSource = demo_source, htCurrent = Direct, htReady = True, htActiveRaw = ''direct'', htRoutes = []\<rparr>"

definition demo_sys :: sys_env where "demo_sys = \<lparr>seGetenv = \<lambda>n. [], seReadFile = \<lambda>p. None\<rparr>"

definition silent :: "unit transport" where "silent rq u = (NetError False, u)"

lemma demo_words: "TrimSpace ''direct'' = ''direct''" "TrimSpace ''V'' = ''V''" "TrimSpace ''F'' = ''F''"
  by (rule TrimSpace_plain, simp add: space_byte_def byte_def)+

lemma demo_direct: "outboundTransport ''direct'' = Some Direct"
  by (simp add: outboundTransport_def demo_words EqualFold_def)

lemma demo_started: "route_init demo_transport"
proof (rule route_init.init)
  show "newProxyConfigSource ''direct'' ''V'' ''F'' [] [] False second = Inr demo_source"
    by (simp add: newProxyConfigSource_def demo_source_def demo_words TrimRight_def second_def minProxyConfigPollInterval_def
        maxProxyConfigPollInterval_def millisecond_def minute_def)
  show "newHotReloadTransport ''direct'' demo_source = Some demo_transport"
    by (simp add: newHotReloadTransport_def demo_direct demo_transport_def demo_words) (simp add: demo_source_def)
qed


lemma demo_request: "\<exists>t'. route_request silent demo_sys (\<lambda>n. 5) [] demo_transport () = (Some Direct, t', ())"
  by (simp add: route_request_def force_check_def refresh_def current_def resolve_proxy_def fallback_proxy_def readOptionalSecret_def
      demo_transport_def demo_source_def demo_sys_def demo_words default_route_def Let_def)



end
