(* ===== verification/Plugin_Credential.thy ===== *)
theory Plugin_Credential
  imports Cpa_Documents Go_Text
begin

text \<open>
  The CPA plugin's reading of auth files (\<^verbatim>\<open>plugin/codex-agent-identity/internal/credential/credential.go\<close>): which files are the
  sidecar's, and the routing material that CPA gets for them.  The plugin is the reader of the files that the CPA manager of
  \<^verbatim>\<open>Cpa_Files\<close> writes; the last section joins the two.  \<open>getenv\<close> is \<^verbatim>\<open>os.Getenv\<close>, \<open>rfc3339\<close> is \<^verbatim>\<open>time.Parse(time.RFC3339Nano, \<dots>)\<close>.
\<close>

section \<open>Data\<close>

definition AuthMode :: string where "AuthMode = ''agent_identity_sidecar''"
definition PluginProvider :: string where "PluginProvider = ''codex-agent-identity''"
definition RuntimeProvider :: string where "RuntimeProvider = ''codex''"
definition LegacyPluginProvider :: string where "LegacyPluginProvider = RuntimeProvider"
definition SidecarClientKeyField :: string where "SidecarClientKeyField = ''sidecar_client_key''"
definition SidecarAuthorizationHeaderAttribute :: string where "SidecarAuthorizationHeaderAttribute = ''header:Authorization''"
definition managedAuthClassification :: string where "managedAuthClassification = ''oauth''"
definition defaultRefreshInterval :: int where "defaultRefreshInterval = 24 * 60 * 60 * second"
definition refreshLead :: int where "refreshLead = 5 * 60 * second"

record Parsed =
  paID :: string
  paFileName :: string
  paLabel :: string
  paPrefix :: string
  paProxyURL :: string
  paDisabled :: bool
  paStorageJSON :: bytes
  paMetadata :: payload
  paAttributes :: "string gomap"
  paNextRefreshAfter :: time

datatype parse_result = NotHandled | ParseError string | Handled Parsed

section \<open>Values\<close>

definition isManagedProvider :: "string \<Rightarrow> bool" where
  "isManagedProvider provider \<longleftrightarrow> ToLower (TrimSpace provider) \<in> set [PluginProvider, RuntimeProvider]"

definition isManagedPayloadType :: "string \<Rightarrow> bool" where
  "isManagedPayloadType payloadType \<longleftrightarrow> ToLower (TrimSpace payloadType) \<in> set [PluginProvider, LegacyPluginProvider]"

definition boolNumber :: "string \<Rightarrow> bool option" where
  "boolNumber value =
     (let v = TrimSpace value in if v = ''0'' then Some False else if v = ''1'' then Some True else None)"

definition strictBool :: "json \<Rightarrow> bool option" where
  "strictBool v =
     (case v of
        JNull \<Rightarrow> Some False
      | JBool b \<Rightarrow> Some b
      | JStr s \<Rightarrow>
          (let t = ToLower (TrimSpace s) in
           if t \<in> set [[], ''0'', ''false'', ''no'', ''off''] then Some False
           else if t \<in> set [''1'', ''true'', ''yes'', ''on''] then Some True else None)
      | JNum n \<Rightarrow> boolNumber n
      | _ \<Rightarrow> None)"

definition pluginTimeValue :: "(string \<Rightarrow> time option) \<Rightarrow> json \<Rightarrow> time option" where
  "pluginTimeValue rfc3339 v =
     (case v of
        JNull \<Rightarrow> Some 0
      | JStr s \<Rightarrow> (let t = TrimSpace s in if t = [] then Some 0 else rfc3339 t)
      | JNum n \<Rightarrow> map_option time_Unix (ParseInt n)
      | _ \<Rightarrow> None)"

definition nextRefreshAfter :: "time \<Rightarrow> time \<Rightarrow> time" where
  "nextRefreshAfter now expiresAt =
     (let next = now + defaultRefreshInterval; candidate = expiresAt - refreshLead in
      if expiresAt = 0 then next else if candidate > now \<and> candidate < next then candidate else next)"

definition setOptionalAttribute :: "string \<Rightarrow> string \<Rightarrow> string gomap \<Rightarrow> string gomap" where
  "setOptionalAttribute key value attributes = (if TrimSpace value \<noteq> [] then map_put key value attributes else attributes)"

definition pluginIdentityID :: "string \<Rightarrow> bool" where
  "pluginIdentityID value =
     (let v = TrimSpace value in
      HasPrefix v ''agent-'' \<and> length v > length ''agent-'' \<and> list_all is_lower_hex (TrimPrefix v ''agent-''))"

section \<open>Hosts\<close>

definition canonicalSidecarHostname :: "string \<Rightarrow> string" where
  "canonicalSidecarHostname value =
     (let v = ToLower (TrimSpace value);
          v = (if HasPrefix v ''['' \<and> HasSuffix v '']'' then TrimSpace (butlast (tl v)) else v) in
      case ParseIP v of Some ip \<Rightarrow> ToLower (ip_String ip) | None \<Rightarrow> v)"

definition validSidecarHostname :: "string \<Rightarrow> bool" where
  "validSidecarHostname value =
     (let v = canonicalSidecarHostname value in
      if ParseIP v \<noteq> None then True
      else if v = [] \<or> length v > 253 \<or> HasPrefix v ''.'' \<or> HasSuffix v ''.'' \<or> Contains v ''..'' then False
      else list_all (\<lambda>c. is_lower c \<or> is_digit c \<or> c = CHR ''-'' \<or> c = CHR ''.'') v)"

definition fixed_hosts :: "string list" where
  "fixed_hosts = [''cpa-codex-agent-identity-sidecar'', ''codex-agent-identity-sidecar'', ''codex-agent-identity-sidecar-canary'', ''sidecar'']"

definition allowedSidecarHosts :: "(string \<Rightarrow> string) \<Rightarrow> string list" where
  "allowedSidecarHosts getenv =
     fixed_hosts @ [''localhost'', ''127.0.0.1'', ''::1''] @
     filter validSidecarHostname (map canonicalSidecarHostname (SplitAt (CHR '','') (getenv ''CODEX_AGENT_IDENTITY_SIDECAR_HOSTS'')))"

definition isLoopbackSidecarHost :: "string \<Rightarrow> bool" where
  "isLoopbackSidecarHost value =
     (let v = canonicalSidecarHostname value in
      v = ''localhost'' \<or> (case ParseIP v of None \<Rightarrow> False | Some ip \<Rightarrow> IsLoopback ip))"

definition port_ok :: "string \<Rightarrow> bool" where
  "port_ok port = (case ParseInt port of None \<Rightarrow> False | Some n \<Rightarrow> 1 \<le> n \<and> n \<le> 65535)"

definition allowedSidecarHTTPURL :: "(string \<Rightarrow> string) \<Rightarrow> string \<Rightarrow> string \<Rightarrow> bool" where
  "allowedSidecarHTTPURL getenv hostname port =
     (let h = canonicalSidecarHostname hostname in
      if isLoopbackSidecarHost h then
        port = ''8787'' \<or> port = ''18787'' \<or>
        list_ex (\<lambda>c. let candidate = TrimSpace c in port_ok candidate \<and> candidate = port)
          (SplitAt (CHR '','') (getenv ''CODEX_AGENT_IDENTITY_SIDECAR_HTTP_PORTS''))
      else h \<in> set fixed_hosts \<and> port = ''8787'')"

definition validateBaseURL :: "(string \<Rightarrow> string) \<Rightarrow> string \<Rightarrow> string + string" where
  "validateBaseURL getenv value =
     (case url_Parse (TrimRight (TrimSpace value) ''/'') of
        None \<Rightarrow> Inl ''sidecar base url is invalid''
      | Some parsed \<Rightarrow>
          if HasUser parsed \<or> RawQuery parsed \<noteq> [] \<or> Fragment parsed \<noteq> [] \<or> ForceQuery parsed \<or> Opaque parsed \<noteq> [] then
            Inl ''sidecar base url is invalid''
          else let scheme = ToLower (TrimSpace (Scheme parsed)) in
            if scheme \<noteq> ''http'' \<and> scheme \<noteq> ''https'' \<or> Host parsed = [] \<or> Hostname parsed = [] then Inl ''sidecar base url is invalid''
            else let u = parsed\<lparr>Scheme := scheme\<rparr>; hostname = canonicalSidecarHostname (Hostname u); port = Port u in
              if hostname \<notin> set (allowedSidecarHosts getenv) then Inl ''sidecar base url host is not allowed''
              else if EscapedPath u \<noteq> ''/backend-api/codex'' then Inl ''sidecar base url endpoint is invalid''
              else if port \<noteq> [] \<and> \<not> port_ok port then Inl ''sidecar base url port is invalid''
              else if scheme = ''http'' \<and> \<not> allowedSidecarHTTPURL getenv hostname port then
                Inl ''sidecar base url requires HTTPS outside the trusted local runtime''
              else Inr (url_String u))"

section \<open>Files\<close>

text \<open>The files that the plugin leaves to CPA: no JSON object, not marked as the sidecar's, or a native personal access token.\<close>

definition left_to_cpa :: "string \<Rightarrow> payload \<Rightarrow> bool" where
  "left_to_cpa provider payload =
     (let payloadType = ToLower (TrimSpace (jsonStringValue (lookup payload ''type''))) in
      \<not> isManagedProvider (ToLower (TrimSpace provider)) \<or> \<not> isManagedPayloadType payloadType \<or>
      \<not> EqualFold (jsonStringValue (lookup payload ''auth_mode'')) AuthMode \<or>
      payloadType = RuntimeProvider \<and> EqualFold (TrimSpace (jsonStringValue (lookup payload ''credential_kind''))) ''personal_access_token'' \<and>
      HasPrefix (TrimSpace (jsonStringValue (lookup payload ''access_token''))) ''at-'')"

definition sidecar_key :: "payload \<Rightarrow> string" where
  "sidecar_key payload =
     (let key = TrimSpace (jsonStringValue (lookup payload SidecarClientKeyField)) in
      if key = [] then TrimSpace (jsonStringValue (lookup payload ''access_token'')) else key)"

definition key_ok :: "string \<Rightarrow> bool" where
  "key_ok key \<longleftrightarrow> \<not> ContainsAny key line_chars \<and> HasPrefix key ''cais_'' \<and> length key \<ge> length ''cais_'' + 32"

text \<open>The flags and the expiry of a file, or the name of the field that is not one.\<close>

definition file_flags :: "(string \<Rightarrow> time option) \<Rightarrow> payload \<Rightarrow> string + bool \<times> bool \<times> bool \<times> time" where
  "file_flags rfc3339 payload =
     (case (case map_get payload ''websockets'' of None \<Rightarrow> Some True | Some v \<Rightarrow> strictBool v) of
        None \<Rightarrow> Inl ''auth file websockets field is invalid''
      | Some websockets \<Rightarrow>
     (case strictBool (lookup payload ''disabled'') of
        None \<Rightarrow> Inl ''auth file disabled field is invalid''
      | Some disabled \<Rightarrow>
     (case strictBool (lookup payload ''fedramp'') of
        None \<Rightarrow> Inl ''auth file fedramp field is invalid''
      | Some fedramp \<Rightarrow>
     (case pluginTimeValue rfc3339 (lookup payload ''expires_at'') of
        None \<Rightarrow> Inl ''auth file expires_at field is invalid''
      | Some expiresAt \<Rightarrow> Inr (websockets, disabled, fedramp, expiresAt)))))"

definition bool_text :: "bool \<Rightarrow> string" where
  "bool_text b = (if b then ''true'' else ''false'')"

definition file_text :: "payload \<Rightarrow> string \<Rightarrow> string" where
  "file_text payload key = TrimSpace (jsonStringValue (lookup payload key))"

definition file_attributes :: "payload \<Rightarrow> string \<Rightarrow> string \<Rightarrow> bool \<Rightarrow> bool \<Rightarrow> string gomap" where
  "file_attributes payload key baseURL websockets fedramp =
     setOptionalAttribute ''credential_kind'' (file_text payload ''credential_kind'')
     (setOptionalAttribute ''plan_type'' (ToLower (file_text payload ''plan_type''))
     (setOptionalAttribute ''chatgpt_user_id'' (file_text payload ''chatgpt_user_id'')
     (setOptionalAttribute ''account_id'' (file_text payload ''account_id'')
       [(SidecarAuthorizationHeaderAttribute, ''Bearer '' @ key), (''base_url'', baseURL), (''auth_mode'', AuthMode),
        (''auth_kind'', managedAuthClassification), (''runtime_only'', ''true''), (''websockets'', bool_text websockets),
        (''fedramp'', bool_text fedramp)])))"

definition file_metadata :: "payload \<Rightarrow> payload" where
  "file_metadata payload = map_put ''auth_kind'' (JStr managedAuthClassification) (map_del ''expired'' payload)"

definition parse_payload ::
  "(string \<Rightarrow> string) \<Rightarrow> (string \<Rightarrow> time option) \<Rightarrow> time \<Rightarrow> string \<Rightarrow> bytes \<Rightarrow> payload \<Rightarrow> string + Parsed" where
  "parse_payload getenv rfc3339 now fileName raw payload =
     (let identityID = file_text payload ''agent_identity_id''; upstreamToken = file_text payload ''access_token'';
          key = sidecar_key payload; name = filepath_Base (TrimSpace fileName) in
      if \<not> pluginIdentityID identityID then Inl ''agent identity id is invalid''
      else if upstreamToken = [] \<or> ContainsAny upstreamToken line_chars then Inl ''upstream access token is invalid''
      else if \<not> key_ok key then Inl ''sidecar client key is invalid''
      else case validateBaseURL getenv (jsonStringValue (lookup payload ''base_url'')) of
        Inl err \<Rightarrow> Inl err
      | Inr baseURL \<Rightarrow>
          if name = ''.'' \<or> name = [] \<or> \<not> HasSuffix (ToLower name) ''.json'' then Inl ''auth file name is invalid''
          else case file_flags rfc3339 payload of
            Inl err \<Rightarrow> Inl err
          | Inr (websockets, disabled, fedramp, expiresAt) \<Rightarrow>
              (let label = file_text payload ''email''; prefix = TrimBoth (file_text payload ''prefix'') ''/'' in
               if CHR ''/'' \<in> set prefix then Inl ''auth model prefix is invalid''
               else Inr \<lparr>paID = name, paFileName = name, paLabel = (if label = [] then identityID else label), paPrefix = prefix,
                 paProxyURL = file_text payload ''proxy_url'', paDisabled = disabled, paStorageJSON = raw, paMetadata = file_metadata payload,
                 paAttributes = file_attributes payload key baseURL websockets fedramp, paNextRefreshAfter = nextRefreshAfter now expiresAt\<rparr>))"

definition ParseAuthFile ::
  "(string \<Rightarrow> string) \<Rightarrow> (string \<Rightarrow> time option) \<Rightarrow> time \<Rightarrow> string \<Rightarrow> string \<Rightarrow> bytes \<Rightarrow> parse_result" where
  "ParseAuthFile getenv rfc3339 now provider fileName raw =
     (case decodeJSONMap raw of
        None \<Rightarrow> NotHandled
      | Some payload \<Rightarrow>
          if left_to_cpa provider payload then NotHandled
          else case parse_payload getenv rfc3339 now fileName raw payload of Inl err \<Rightarrow> ParseError err | Inr p \<Rightarrow> Handled p)"

end
