(* ===== verification/Plugin_Properties.thy ===== *)
theory Plugin_Properties
  imports Plugin_Credential Trim_Lower
begin

text \<open>
  Properties of the plugin's auth-file reader: what the CPA manager of \<^verbatim>\<open>Cpa_Files\<close> writes the plugin reads back, and the
  client key of a file is only attached to requests for the hosts the operator trusts.
\<close>

section \<open>Files of the manager\<close>

lemma reader_constants:
  "PluginProvider = pluginProviderID" "RuntimeProvider = runtimeProviderID" "LegacyPluginProvider = runtimeProviderID"
  "AuthMode = authMode" "SidecarClientKeyField = sidecarClientKeyField" "pluginIdentityID = validateIdentityID"
  by (simp_all add: PluginProvider_def pluginProviderID_def RuntimeProvider_def runtimeProviderID_def LegacyPluginProvider_def AuthMode_def
      authMode_def SidecarClientKeyField_def sidecarClientKeyField_def pluginIdentityID_def validateIdentityID_def fun_eq_iff)

lemma credential_lookup_rest:
  assumes "normalizeCredential c = c"
  shows "lookup (credential_payload base c d) ''fedramp'' = (if crFedRAMP c then JBool True else JNull)"
    "lookup (credential_payload base c d) ''expires_at'' = (if crExpiresAt c \<noteq> 0 then JStr (format_utc (crExpiresAt c)) else JNull)"
    "lookup (credential_payload base c d) ''prefix'' = JNull" "lookup (credential_payload base c d) ''proxy_url'' = JNull"
    "map_get (credential_payload base c d) ''websockets'' = Some (JBool True)"
    "crAccountID c = [] \<Longrightarrow> lookup (credential_payload base c d) ''account_id'' = JNull"
    "crUserID c = [] \<Longrightarrow> lookup (credential_payload base c d) ''chatgpt_user_id'' = JNull"
    "crPlanType c = [] \<Longrightarrow> lookup (credential_payload base c d) ''plan_type'' = JNull"
    "crKind c = [] \<Longrightarrow> lookup (credential_payload base c d) ''credential_kind'' = JNull"
    "crEmail c = [] \<Longrightarrow> lookup (credential_payload base c d) ''email'' = JStr (crIdentityID c @ ''@agent-identity.local'')"
  by (simp_all add: lookup_def credential_payload_def get_native_pat base_payload_def Let_def sidecarClientKeyField_def)

lemma normal_fields:
  assumes "normalizeCredential c = c"
  shows "TrimSpace (crIdentityID c) = crIdentityID c" "TrimSpace (crClientKey c) = crClientKey c"
    "TrimSpace (crUpstreamToken c) = crUpstreamToken c" "TrimSpace (crKind c) = crKind c"
    "TrimSpace (crAccountID c) = crAccountID c" "TrimSpace (crUserID c) = crUserID c" "TrimSpace (crEmail c) = crEmail c"
    "TrimSpace (crPlanType c) = crPlanType c" "ToLower (crPlanType c) = crPlanType c" "ToLower (crKind c) = crKind c"
  using assms [THEN arg_cong [where f = crIdentityID]] assms [THEN arg_cong [where f = crClientKey]] assms [THEN arg_cong [where f = crUpstreamToken]]
    assms [THEN arg_cong [where f = crKind]] assms [THEN arg_cong [where f = crAccountID]] assms [THEN arg_cong [where f = crUserID]]
    assms [THEN arg_cong [where f = crEmail]] assms [THEN arg_cong [where f = crPlanType]]
  by (simp_all add: normalizeCredential_def) (metis ToLower_idem TrimSpace_ToLower TrimSpace_idem)+

lemma generated_email:
  assumes "validateIdentityID i" "TrimSpace i = i"
  shows "TrimSpace (i @ ''@agent-identity.local'') = i @ ''@agent-identity.local''"
proof (rule TrimSpace_plain)
  obtain q where q: "i = ''agent-'' @ q" "list_all file_char q"
    using assms valid_id_suffix [OF assms(1)] HasPrefix_decomp [of i "''agent-''"] by (auto simp: validateIdentityID_def Let_def)
  have "\<forall>c \<in> set ''agent-@agent-identity.local''. \<not> space_byte c" by (simp add: space_byte_def byte_def)
  moreover have "set (i @ ''@agent-identity.local'') = set ''agent-@agent-identity.local'' \<union> set q" by (auto simp: q(1))
  moreover have "\<forall>c \<in> set q. \<not> space_byte c" using q(2) file_char_ascii by (simp add: list_all_iff)
  ultimately show "\<forall>c \<in> set (i @ ''@agent-identity.local''). \<not> space_byte c" by blast
qed

text \<open>The texts that the reader takes from a document of the manager.\<close>

lemma manager_document:
  assumes norm: "normalizeCredential c = c" and valid: "validateCredential c = None"
    and strs: "credential_text_ok c" "ValidString base"
  obtains m where "decodeJSONMap (credentialJSONWithDisabled base c d) = Some m"
    and "\<And>k. lookup m k = sort_keys (lookup (credential_payload base c d) k)"
    and "\<And>k. map_get m k = map_option sort_keys (map_get (credential_payload base c d) k)"
proof -
  have ok: "payload_ok (credential_payload base c d)" by (rule credential_payload_ok [OF norm strs])
  show thesis
    by (rule that [of "sorted_payload (credential_payload base c d)"])
       (simp_all add: decode_marshal [OF ok] credentialJSONWithDisabled_def lookup_sorted [OF payload_gomap [OF ok]]
         sorted_payload_get [OF payload_gomap [OF ok]])
qed

lemma manager_texts:
  assumes norm: "normalizeCredential c = c" and valid: "validateCredential c = None"
    and m: "\<And>k. lookup m k = sort_keys (lookup (credential_payload base c d) k)"
  shows "file_text m ''agent_identity_id'' = crIdentityID c" "file_text m ''access_token'' = crUpstreamToken c"
    "sidecar_key m = crClientKey c" "file_text m ''account_id'' = crAccountID c" "file_text m ''chatgpt_user_id'' = crUserID c"
    "file_text m ''plan_type'' = crPlanType c" "file_text m ''credential_kind'' = crKind c" "file_text m ''prefix'' = []"
    "file_text m ''proxy_url'' = []" "file_text m ''email'' = (if crEmail c = [] then crIdentityID c @ ''@agent-identity.local'' else crEmail c)"
proof -
  have js: "jsonStringValue (JStr s) = s" "jsonStringValue JNull = []" for s by (simp_all add: jsonStringValue_def)
  have v: "validateIdentityID (crIdentityID c)" "crClientKey c \<noteq> []"
    using valid by (auto simp: validateCredential_def split: if_splits)
  note facts = file_text_def m credential_lookup [OF norm] credential_lookup_rest [OF norm] js normal_fields [OF norm]
  show "file_text m ''agent_identity_id'' = crIdentityID c" "file_text m ''access_token'' = crUpstreamToken c"
    "file_text m ''prefix'' = []" "file_text m ''proxy_url'' = []"
    by (simp_all add: facts)
  show "sidecar_key m = crClientKey c" using v(2) by (simp add: sidecar_key_def facts reader_constants)
  show "file_text m ''account_id'' = crAccountID c" by (cases "crAccountID c = []") (simp_all add: facts)
  show "file_text m ''chatgpt_user_id'' = crUserID c" by (cases "crUserID c = []") (simp_all add: facts)
  show "file_text m ''plan_type'' = crPlanType c" by (cases "crPlanType c = []") (simp_all add: facts)
  show "file_text m ''credential_kind'' = crKind c" by (cases "crKind c = []") (simp_all add: facts)
  show "file_text m ''email'' = (if crEmail c = [] then crIdentityID c @ ''@agent-identity.local'' else crEmail c)"
    using generated_email [OF v(1)] by (cases "crEmail c = []") (simp_all add: facts)
qed

lemma manager_marks:
  assumes norm: "normalizeCredential c = c" and m: "\<And>k. lookup m k = sort_keys (lookup (credential_payload base c d) k)"
    and texts: "file_text m ''credential_kind'' = crKind c" "file_text m ''access_token'' = crUpstreamToken c"
    and provider: "isManagedProvider provider"
  shows "left_to_cpa provider m \<longleftrightarrow> crKind c = ''personal_access_token'' \<and> HasPrefix (crUpstreamToken c) ''at-''"
proof -
  have p: "isManagedProvider (ToLower (TrimSpace provider))"
    using provider by (simp only: isManagedProvider_def) (metis ToLower_idem TrimSpace_ToLower TrimSpace_idem)
  have t: "isManagedPayloadType pluginProviderID" "isManagedPayloadType runtimeProviderID"
    by (auto simp: isManagedPayloadType_def reader_constants plain_strings)
  have e: "EqualFold s s" for s by (simp add: EqualFold_def)
  have n: "pluginProviderID \<noteq> runtimeProviderID" by (simp add: pluginProviderID_def runtimeProviderID_def)
  have js: "jsonStringValue (JStr s) = s" for s by (simp add: jsonStringValue_def)
  have look: "ToLower (TrimSpace (jsonStringValue (lookup m ''type''))) = (if crKind c = ''personal_access_token'' then runtimeProviderID else pluginProviderID)"
    "jsonStringValue (lookup m ''auth_mode'') = authMode"
    by (simp_all add: m credential_lookup [OF norm] js plain_strings)
  show ?thesis
    unfolding left_to_cpa_def look texts [unfolded file_text_def] reader_constants
    using p t e n by (simp add: Let_def)
qed

lemma name_of_manager:
  assumes "authFileName C c = Some n"
  shows "filepath_Base (TrimSpace n) = n" "n \<noteq> []" "n \<noteq> ''.''" "HasSuffix (ToLower n) ''.json''"
proof -
  obtain p where p: "n = ''codex-'' @ p @ ''.json''" "list_all file_char p" using authFileName_shape [OF assms] by blast
  have safe: "safeAuthFileName n = Some n" using safe_name(1) [OF p(2)] p(1) by simp
  have "list_all file_char ''codex-.json''" by (simp add: file_char_def is_lower_def byte_def)
  with p have "list_all file_char n" by (auto simp: list_all_iff)
  then have t: "TrimSpace n = n" by (intro TrimSpace_plain) (use file_char_ascii in \<open>simp add: list_all_iff\<close>)
  show "n \<noteq> []" "n \<noteq> ''.''" using p(1) by auto
  show "filepath_Base (TrimSpace n) = n" "HasSuffix (ToLower n) ''.json''"
    using safe by (auto simp: safeAuthFileName_def Let_def t split: if_splits)
qed

lemma manager_flags:
  assumes norm: "normalizeCredential c = c"
    and look: "\<And>k. lookup m k = sort_keys (lookup (credential_payload base c d) k)"
    and get: "\<And>k. map_get m k = map_option sort_keys (map_get (credential_payload base c d) k)"
    and expiry: "crExpiresAt c = 0 \<and> e = 0 \<or> crExpiresAt c \<noteq> 0 \<and> rfc3339 (format_utc (crExpiresAt c)) = Some e"
  shows "file_flags rfc3339 m = Inr (True, d, crFedRAMP c, e)"
proof -
  have "\<forall>x \<in> set (format_utc t). \<not> space_byte x" for t
    by (auto dest!: format_utc_chars simp: is_digit_def space_byte_def byte_def)
  then have t: "TrimSpace (format_utc t) = format_utc t" for t by (rule TrimSpace_plain)
  have ne: "format_utc t \<noteq> []" for t by (simp add: format_utc_def Let_def split: prod.splits)
  show ?thesis
    using expiry by (auto simp: file_flags_def look get credential_lookup [OF norm] credential_lookup_rest [OF norm] strictBool_def
        pluginTimeValue_def t ne)
qed

lemma empty_base: "validateBaseURL getenv [] = Inl ''sidecar base url is invalid''"
proof -
  have "url_Parse [] = Some zero_url" by code_simp
  then show ?thesis by (simp add: validateBaseURL_def zero_url_def TrimRight_def)
qed

lemma get_optional: "map_get (setOptionalAttribute k v m) k' = (if k' = k \<and> TrimSpace v \<noteq> [] then Some v else map_get m k')"
  by (simp add: setOptionalAttribute_def)

lemma file_attributes_get:
  "map_get (file_attributes m key u w f) SidecarAuthorizationHeaderAttribute = Some (''Bearer '' @ key)"
  "map_get (file_attributes m key u w f) ''base_url'' = Some u"
  "map_get (file_attributes m key u w f) ''websockets'' = Some (bool_text w)"
  "map_get (file_attributes m key u w f) ''fedramp'' = Some (bool_text f)"
  "map_get (file_attributes m key u w f) ''account_id'' = (if file_text m ''account_id'' = [] then None else Some (file_text m ''account_id''))"
  "map_get (file_attributes m key u w f) ''chatgpt_user_id'' = (if file_text m ''chatgpt_user_id'' = [] then None else Some (file_text m ''chatgpt_user_id''))"
  by (simp_all add: file_attributes_def get_optional SidecarAuthorizationHeaderAttribute_def file_text_def)

lemma manager_files:
  assumes norm: "normalizeCredential c = c" and valid: "validateCredential c = None"
    and strs: "credential_text_ok c" "ValidString base" and name: "authFileName C c = Some n"
    and provider: "isManagedProvider provider" and url: "validateBaseURL getenv base = Inr u"
    and expiry: "crExpiresAt c = 0 \<and> e = 0 \<or> crExpiresAt c \<noteq> 0 \<and> rfc3339 (format_utc (crExpiresAt c)) = Some e"
    and raw_def: "raw = credentialJSONWithDisabled base c d"
  shows "(if crKind c = ''personal_access_token'' then
      (\<forall>p. ParseAuthFile getenv rfc3339 now provider n raw \<noteq> Handled p) \<and>
      (HasPrefix (crUpstreamToken c) ''at-'' \<longrightarrow> ParseAuthFile getenv rfc3339 now provider n raw = NotHandled)
    else \<exists>p. ParseAuthFile getenv rfc3339 now provider n raw = Handled p \<and> paID p = n \<and> paFileName p = n \<and> paStorageJSON p = raw \<and>
      paLabel p = (if crEmail c = [] then crIdentityID c @ ''@agent-identity.local'' else crEmail c) \<and> paDisabled p = d \<and>
      map_get (paAttributes p) SidecarAuthorizationHeaderAttribute = Some (''Bearer '' @ crClientKey c) \<and>
      map_get (paAttributes p) ''base_url'' = Some u \<and> map_get (paAttributes p) ''fedramp'' = Some (bool_text (crFedRAMP c)) \<and>
      map_get (paAttributes p) ''account_id'' = (if crAccountID c = [] then None else Some (crAccountID c)) \<and>
      map_get (paAttributes p) ''chatgpt_user_id'' = (if crUserID c = [] then None else Some (crUserID c)) \<and>
      paNextRefreshAfter p = nextRefreshAfter now e)"
proof -
  obtain m where dec: "decodeJSONMap raw = Some m"
    and look: "\<And>k. lookup m k = sort_keys (lookup (credential_payload base c d) k)"
    and get: "\<And>k. map_get m k = map_option sort_keys (map_get (credential_payload base c d) k)"
    using manager_document [OF norm valid strs, of d] unfolding raw_def by metis
  note texts = manager_texts [OF norm valid look]
  note marks = manager_marks [OF norm look texts(7,2) provider]
  have v: "validateIdentityID (crIdentityID c)" "key_ok (crClientKey c)" "crUpstreamToken c \<noteq> []" "\<not> ContainsAny (crUpstreamToken c) line_chars"
    using valid by (auto simp: validateCredential_def key_ok_def split: if_splits)
  have b: "jsonStringValue (lookup m ''base_url'') = (if crKind c = ''personal_access_token'' then [] else base)"
    by (simp add: look credential_lookup [OF norm] jsonStringValue_def)
  show ?thesis
  proof (cases "crKind c = ''personal_access_token''")
    case True
    have "\<exists>x. parse_payload getenv rfc3339 now n raw m = Inl x"
      using True v by (auto simp: parse_payload_def texts reader_constants b empty_base)
    with True dec marks show ?thesis by (auto simp: ParseAuthFile_def)
  next
    case False
    then show ?thesis
      using v dec marks url b name_of_manager [OF name] manager_flags [of c m base d e rfc3339, OF norm look get expiry]
      by (simp add: ParseAuthFile_def parse_payload_def texts reader_constants file_attributes_get TrimBoth_def TrimRight_def Let_def)
  qed
qed

text \<open>
  C35: the plugin reads what the manager writes.  For a normalised, valid credential, the auth file that the CPA manager writes
  under the name it computes is, when the credential is not a personal access token and the sidecar's address is one the plugin
  trusts, turned into exactly this routing material: the file's own name as identifier, the credential's client key as the only
  authorization header, the validated address, the disabled and FedRAMP flags, the account and the user of the credential, the
  refresh time computed from its expiry, and the stored document itself unchanged.  The file of a personal access token is never
  turned into routing material, and when the token is a native one it is left to CPA.
\<close>

theorem manager_files_are_read_back:
  assumes "normalizeCredential c = c" and "validateCredential c = None"
    and "credential_text_ok c" "ValidString base" and "authFileName C c = Some n"
    and "isManagedProvider provider" and "validateBaseURL getenv base = Inr u"
    and "crExpiresAt c = 0 \<and> e = 0 \<or> crExpiresAt c \<noteq> 0 \<and> rfc3339 (format_utc (crExpiresAt c)) = Some e"
    and "raw = credentialJSONWithDisabled base c d"
  shows "(if crKind c = ''personal_access_token'' then
      (\<forall>p. ParseAuthFile getenv rfc3339 now provider n raw \<noteq> Handled p) \<and>
      (HasPrefix (crUpstreamToken c) ''at-'' \<longrightarrow> ParseAuthFile getenv rfc3339 now provider n raw = NotHandled)
    else \<exists>p. ParseAuthFile getenv rfc3339 now provider n raw = Handled p \<and> paID p = n \<and> paFileName p = n \<and> paStorageJSON p = raw \<and>
      paLabel p = (if crEmail c = [] then crIdentityID c @ ''@agent-identity.local'' else crEmail c) \<and> paDisabled p = d \<and>
      map_get (paAttributes p) SidecarAuthorizationHeaderAttribute = Some (''Bearer '' @ crClientKey c) \<and>
      map_get (paAttributes p) ''base_url'' = Some u \<and> map_get (paAttributes p) ''fedramp'' = Some (bool_text (crFedRAMP c)) \<and>
      map_get (paAttributes p) ''account_id'' = (if crAccountID c = [] then None else Some (crAccountID c)) \<and>
      map_get (paAttributes p) ''chatgpt_user_id'' = (if crUserID c = [] then None else Some (crUserID c)) \<and>
      paNextRefreshAfter p = nextRefreshAfter now e)"
  using assms by (rule manager_files)

section \<open>Trusted hosts\<close>

lemma validated_base_url:
  assumes "validateBaseURL getenv value = Inr b"
  obtains u where "b = url_String u" "Scheme u \<in> {''http'', ''https''}" "\<not> HasUser u" "RawQuery u = []" "Fragment u = []" "Opaque u = []"
    "canonicalSidecarHostname (Hostname u) \<in> set (allowedSidecarHosts getenv)" "EscapedPath u = ''/backend-api/codex''"
    "Port u \<noteq> [] \<Longrightarrow> port_ok (Port u)"
    "Scheme u = ''http'' \<Longrightarrow> allowedSidecarHTTPURL getenv (canonicalSidecarHostname (Hostname u)) (Port u)"
proof -
  obtain r where r: "url_Parse (TrimRight (TrimSpace value) ''/'') = Some r" using assms by (auto simp: validateBaseURL_def split: option.splits)
  define u where "u = r\<lparr>Scheme := ToLower (TrimSpace (Scheme r))\<rparr>"
  have [simp]: "Hostname u = Hostname r" "Port u = Port r" "EscapedPath u = EscapedPath r" by (simp_all add: u_def Hostname_def Port_def EscapedPath_def)
  show thesis
    by (rule that [of u]) (use assms r in \<open>auto simp: validateBaseURL_def Let_def u_def [symmetric] split: if_splits\<close>, auto simp: u_def)
qed

lemma handled_file:
  assumes "ParseAuthFile getenv rfc3339 now provider fileName raw = Handled p"
  obtains m b w d f where "decodeJSONMap raw = Some m" "\<not> left_to_cpa provider m" "key_ok (sidecar_key m)"
    "validateBaseURL getenv (jsonStringValue (lookup m ''base_url'')) = Inr b"
    "paAttributes p = file_attributes m (sidecar_key m) b w f" "paMetadata p = file_metadata m" "paDisabled p = d"
    "strictBool (lookup m ''disabled'') = Some d" "paStorageJSON p = raw"
  using assms
  by (auto simp: ParseAuthFile_def parse_payload_def Let_def file_flags_def split: option.splits if_splits sum.splits)

text \<open>
  C36: the client key goes only to trusted hosts.  Whenever the plugin makes routing material from an auth file, whatever the file
  holds, its authorization header is a well-formed sidecar key without line breaks, and the address it is bound to is an HTTP or
  HTTPS address without user information, query or fragment, for the Codex endpoint, on a built-in or configured host name.  It
  is a cleartext address only on the loopback interface, at a built-in or configured port, or on one of the fixed service names at
  port 8787: a host name that was only configured never gets the key in clear.
\<close>

theorem client_key_goes_to_trusted_hosts:
  assumes "ParseAuthFile getenv rfc3339 now provider fileName raw = Handled p"
  shows "\<exists>u key. map_get (paAttributes p) SidecarAuthorizationHeaderAttribute = Some (''Bearer '' @ key) \<and>
    HasPrefix key ''cais_'' \<and> length key \<ge> 37 \<and> \<not> ContainsAny key line_chars \<and>
    map_get (paAttributes p) ''base_url'' = Some (url_String u) \<and> Scheme u \<in> {''http'', ''https''} \<and> \<not> HasUser u \<and>
    RawQuery u = [] \<and> Fragment u = [] \<and> EscapedPath u = ''/backend-api/codex'' \<and>
    canonicalSidecarHostname (Hostname u) \<in> set (allowedSidecarHosts getenv) \<and>
    (Scheme u = ''http'' \<longrightarrow>
      isLoopbackSidecarHost (canonicalSidecarHostname (canonicalSidecarHostname (Hostname u))) \<and>
        (Port u \<in> {''8787'', ''18787''} \<or>
         Port u \<in> TrimSpace ` set (SplitAt (CHR '','') (getenv ''CODEX_AGENT_IDENTITY_SIDECAR_HTTP_PORTS''))) \<or>
      canonicalSidecarHostname (canonicalSidecarHostname (Hostname u)) \<in> set fixed_hosts \<and> Port u = ''8787'')"
proof -
  obtain m b w d f where m: "key_ok (sidecar_key m)" "validateBaseURL getenv (jsonStringValue (lookup m ''base_url'')) = Inr b"
    "paAttributes p = file_attributes m (sidecar_key m) b w f"
    by (rule handled_file [OF assms])
  obtain u where u: "b = url_String u" "Scheme u \<in> {''http'', ''https''}" "\<not> HasUser u" "RawQuery u = []" "Fragment u = []"
    "canonicalSidecarHostname (Hostname u) \<in> set (allowedSidecarHosts getenv)" "EscapedPath u = ''/backend-api/codex''"
    "Scheme u = ''http'' \<Longrightarrow> allowedSidecarHTTPURL getenv (canonicalSidecarHostname (Hostname u)) (Port u)"
    by (rule validated_base_url [OF m(2)]) blast
  have "Scheme u = ''http'' \<longrightarrow>
      isLoopbackSidecarHost (canonicalSidecarHostname (canonicalSidecarHostname (Hostname u))) \<and>
        (Port u \<in> {''8787'', ''18787''} \<or>
         Port u \<in> TrimSpace ` set (SplitAt (CHR '','') (getenv ''CODEX_AGENT_IDENTITY_SIDECAR_HTTP_PORTS''))) \<or>
      canonicalSidecarHostname (canonicalSidecarHostname (Hostname u)) \<in> set fixed_hosts \<and> Port u = ''8787''"
    using u(8) by (auto simp: allowedSidecarHTTPURL_def Let_def list_ex_iff split: if_splits) (metis imageI)+
  with m u show ?thesis
    by (intro exI [of _ u] exI [of _ "sidecar_key m"]) (simp add: file_attributes_get key_ok_def)
qed

end
