(* ===== verification/Bridge_Target.thy ===== *)
theory Bridge_Target
  imports Api_Call Go_Text
begin

text \<open>
  The configuration of the CPA plugin and the address of the sidecar it sends management requests to
  (\<^verbatim>\<open>plugin/codex-agent-identity/plugin.go\<close>).  The state is the plugin's \<open>runtimeState\<close>, replaced as a whole by every lifecycle
  call.  Parameters (\<open>bridge_env\<close>): \<^verbatim>\<open>os.Getenv\<close>, \<^verbatim>\<open>yaml.Unmarshal\<close> into the two configuration fields, and the text of a
  \<^verbatim>\<open>url.Parse\<close> error.
\<close>

section \<open>State\<close>

record runtimeState =
  stSidecarURL :: string
  stSidecarAPIURL :: string
  stSidecarAPIURLSource :: string
  stEmbedURL :: string
  stFrameSource :: string
  stConfigError :: string

record bridge_env =
  beGetenv :: "string \<Rightarrow> string"
  beYaml :: "bytes \<Rightarrow> (string \<times> string) option"
  beURLError :: "string \<Rightarrow> string"

definition quoted :: "string \<Rightarrow> string" where "quoted s = [char_of (39 :: nat)] @ s @ [char_of (39 :: nat)]"

definition sidecarAPICallPath :: string where "sidecarAPICallPath = ''/v0/management/api-call''"
definition defaultSidecarURL :: string where "defaultSidecarURL = ''/agent-identity/''"
definition legacyLocalSidecarURL :: string where "legacyLocalSidecarURL = ''http://127.0.0.1:18787/agent-identity/''"
definition legacyLocalhostSidecarURL :: string where "legacyLocalhostSidecarURL = ''http://localhost:18787/agent-identity/''"
definition legacyIPv6SidecarURL :: string where "legacyIPv6SidecarURL = ''http://[::1]:18787/agent-identity/''"
definition legacyLocalSidecarAPIURL :: string where "legacyLocalSidecarAPIURL = ''http://127.0.0.1:18787/v0/management/api-call''"
definition defaultSidecarOrigin :: string where "defaultSidecarOrigin = quoted ''self''"
definition defaultSidecarHTTPPort :: int where "defaultSidecarHTTPPort = 8787"
definition defaultSidecarEmbedURL :: string where "defaultSidecarEmbedURL = defaultSidecarURL @ ''?embed=cpamc''"

definition zero_state :: runtimeState where
  "zero_state = \<lparr>stSidecarURL = [], stSidecarAPIURL = [], stSidecarAPIURLSource = [], stEmbedURL = [], stFrameSource = [], stConfigError = []\<rparr>"

definition initial_state :: runtimeState where
  "initial_state = zero_state\<lparr>stSidecarURL := defaultSidecarURL, stEmbedURL := defaultSidecarEmbedURL, stFrameSource := defaultSidecarOrigin\<rparr>"

section \<open>Addresses\<close>

definition IsAbs :: "url \<Rightarrow> bool" where "IsAbs u \<longleftrightarrow> Scheme u \<noteq> []"

text \<open>The normalised page address and the frame source of a \<^verbatim>\<open>sidecar_url\<close>.\<close>

definition normalizeSidecarURL :: "bridge_env \<Rightarrow> string \<Rightarrow> string + string \<times> string" where
  "normalizeSidecarURL env value =
     (let raw = (if TrimSpace value = [] then defaultSidecarURL else TrimSpace value) in
      case url_Parse raw of
        None \<Rightarrow> Inl (''sidecar_url is invalid: '' @ beURLError env raw)
      | Some u \<Rightarrow>
          let scheme = ToLower (TrimSpace (Scheme u)) in
          if HasUser u \<or> RawQuery u \<noteq> [] \<or> ForceQuery u \<or> Fragment u \<noteq> [] then
            Inl ''sidecar_url must not contain credentials, query parameters, or a fragment''
          else if \<not> IsAbs u \<and> Host u \<noteq> [] then Inl ''sidecar_url must be absolute or start with /''
          else if IsAbs u \<and> scheme \<noteq> ''http'' \<and> scheme \<noteq> ''https'' then Inl ''sidecar_url must use http:// or https://''
          else if IsAbs u \<and> Host u = [] then Inl ''sidecar_url host is required''
          else if \<not> IsAbs u \<and> \<not> HasPrefix (Path u) ''/'' then Inl ''sidecar_url must be absolute or start with /''
          else let v = (if IsAbs u then u\<lparr>Scheme := scheme\<rparr> else u);
                   path = (if Path u = [] \<or> Path u = ''/'' then ''/agent-identity/''
                     else if \<not> HasSuffix (Path u) ''/'' then Path u @ ''/'' else Path u) in
            Inr (url_String (v\<lparr>Path := path, RawPath := []\<rparr>), if IsAbs u then scheme @ ''://'' @ Host u else defaultSidecarOrigin))"

definition embedURLForSidecarURL :: "string \<Rightarrow> string + string" where
  "embedURLForSidecarURL raw =
     (case url_Parse raw of
        None \<Rightarrow> Inl ''sidecar_url is invalid''
      | Some u \<Rightarrow> Inr (url_String (u\<lparr>RawQuery := Encode (map_put ''embed'' [''cpamc''] (Query u))\<rparr>)))"

definition normalizeSidecarAPIURL :: "string \<Rightarrow> string + string" where
  "normalizeSidecarAPIURL value =
     (let raw = TrimSpace value in
      if raw = [] then Inr []
      else case url_Parse raw of
        None \<Rightarrow> Inl ''sidecar_api_url must be an absolute http(s) URL''
      | Some u \<Rightarrow>
          if \<not> IsAbs u \<or> Host u = [] \<or> Scheme u \<noteq> ''http'' \<and> Scheme u \<noteq> ''https'' then Inl ''sidecar_api_url must be an absolute http(s) URL''
          else if HasUser u \<or> RawQuery u \<noteq> [] \<or> ForceQuery u \<or> Fragment u \<noteq> [] then
            Inl ''sidecar_api_url must not contain credentials, query parameters, or a fragment''
          else Inr (url_String (u\<lparr>Path := (if Path u = [] \<or> Path u = ''/'' then sidecarAPICallPath else Path u), RawPath := []\<rparr>)))"

definition isLoopbackHost :: "string \<Rightarrow> bool" where
  "isLoopbackHost host =
     (let h = TrimBoth (TrimSpace host) ''[]'' in
      EqualFold h ''localhost'' \<or> (case ParseIP h of None \<Rightarrow> False | Some ip \<Rightarrow> IsLoopback ip))"

section \<open>The routing of the process\<close>

definition unicodeSpace :: "char \<Rightarrow> bool" where
  "unicodeSpace c \<longleftrightarrow> c = CHR '' '' \<or> byte c = 9 \<or> byte c = 13 \<or> byte c = 10"

fun fields_func :: "(char \<Rightarrow> bool) \<Rightarrow> string \<Rightarrow> string \<Rightarrow> string list" where
  "fields_func p word [] = (if word = [] then [] else [word])"
| "fields_func p word (c # s) =
     (if p c then (if word = [] then fields_func p [] s else word # fields_func p [] s) else fields_func p (word @ [c]) s)"

definition splitRuntimeList :: "string \<Rightarrow> string list" where
  "splitRuntimeList raw = fields_func (\<lambda>c. c = CHR '','' \<or> unicodeSpace c) [] raw"

definition JoinHostPort :: "string \<Rightarrow> string \<Rightarrow> string" where
  "JoinHostPort host port = (if CHR '':'' \<in> set host then ''['' @ host @ '']:'' @ port else host @ '':'' @ port)"

definition bad_host_chars :: string where "bad_host_chars = ''/?#@'' @ [backslash]"

text \<open>The first usable host of the list, with the port at its place in the other list or the default one.\<close>

fun runtime_target :: "nat \<Rightarrow> string list \<Rightarrow> string list \<Rightarrow> string" where
  "runtime_target i [] ports = []"
| "runtime_target i (h # hosts) ports =
     (let host = TrimSpace (TrimBoth h ''[]'');
          port = (if i < length ports then ParseInt (ports ! i) else Some defaultSidecarHTTPPort) in
      if host = [] \<or> ContainsAny host bad_host_chars \<or> list_ex unicodeSpace host then runtime_target (Suc i) hosts ports
      else case port of
        None \<Rightarrow> runtime_target (Suc i) hosts ports
      | Some n \<Rightarrow>
          if n < 1 \<or> n > 65535 then runtime_target (Suc i) hosts ports
          else url_String (zero_url\<lparr>Scheme := ''http'', Host := JoinHostPort host (int_text n), Path := sidecarAPICallPath\<rparr>))"

definition configuredRuntimeSidecarAPIURL :: "bridge_env \<Rightarrow> string" where
  "configuredRuntimeSidecarAPIURL env =
     (let explicit = TrimSpace (beGetenv env ''CODEX_AGENT_IDENTITY_SIDECAR_API_URL'');
          from_hosts = runtime_target 0 (splitRuntimeList (beGetenv env ''CODEX_AGENT_IDENTITY_SIDECAR_HOSTS''))
            (splitRuntimeList (beGetenv env ''CODEX_AGENT_IDENTITY_SIDECAR_HTTP_PORTS'')) in
      if explicit = [] then from_hosts
      else case normalizeSidecarAPIURL explicit of Inr normalized \<Rightarrow> normalized | Inl _ \<Rightarrow> from_hosts)"

section \<open>Lifecycle calls\<close>

definition applyDefaultRuntimeState :: "bridge_env \<Rightarrow> runtimeState \<Rightarrow> runtimeState" where
  "applyDefaultRuntimeState env next =
     (let api = configuredRuntimeSidecarAPIURL env in
      next\<lparr>stSidecarURL := defaultSidecarURL, stSidecarAPIURL := api,
        stSidecarAPIURLSource := (if api \<noteq> [] then ''runtime'' else stSidecarAPIURLSource next),
        stEmbedURL := defaultSidecarEmbedURL, stFrameSource := defaultSidecarOrigin\<rparr>)"

definition dec_uint :: "int \<Rightarrow> int decoder" where
  "dec_uint limit cur v =
     (case v of
        JNum n \<Rightarrow> (if HasPrefix n ''-'' then None else case ParseInt64 n of None \<Rightarrow> None | Some i \<Rightarrow> if i < limit then Some i else None)
      | JNull \<Rightarrow> Some cur
      | _ \<Rightarrow> None)"

text \<open>A byte slice is base64 text or an array of numbers.\<close>

definition dec_bytes :: "bytes decoder" where
  "dec_bytes cur v =
     (case v of
        JStr s \<Rightarrow> StdDecode s
      | JArr vs \<Rightarrow> map_option (map (\<lambda>i. char_of (nat i))) (dec_elems (dec_uint 256) 0 vs)
      | JNull \<Rightarrow> Some []
      | _ \<Rightarrow> None)"

record lifecycleRequest =
  lrConfigYAML :: bytes
  lrSchemaVersion :: int

definition decode_lifecycle :: "bytes \<Rightarrow> lifecycleRequest option" where
  "decode_lifecycle request =
     Option.bind (json_parse request) (\<lambda>v. Option.bind (struct_keys v) (\<lambda>kvs.
       Option.bind (field dec_bytes ''config_yaml'' kvs []) (\<lambda>y.
       Option.bind (field (dec_uint (2 ^ 32)) ''schema_version'' kvs 0) (\<lambda>s.
       Some \<lparr>lrConfigYAML = y, lrSchemaVersion = s\<rparr>))))"

definition failed_state :: "string \<Rightarrow> runtimeState" where
  "failed_state message = zero_state\<lparr>stConfigError := message\<rparr>"

definition configured_state :: "bridge_env \<Rightarrow> string \<Rightarrow> string \<Rightarrow> runtimeState" where
  "configured_state env sidecarURL sidecarAPIURL =
     (case normalizeSidecarURL env sidecarURL of
        Inl err \<Rightarrow> failed_state err
      | Inr (normalized, frameSource) \<Rightarrow>
     (case embedURLForSidecarURL normalized of
        Inl err \<Rightarrow> failed_state err
      | Inr embedURL \<Rightarrow>
     (case normalizeSidecarAPIURL sidecarAPIURL of
        Inl err \<Rightarrow> failed_state err
      | Inr apiURL \<Rightarrow>
          (let runtimeAPIURL = configuredRuntimeSidecarAPIURL env in
           zero_state\<lparr>stSidecarURL := normalized,
             stSidecarAPIURL := (if apiURL \<noteq> [] then apiURL else runtimeAPIURL),
             stSidecarAPIURLSource := (if apiURL \<noteq> [] then ''config'' else if runtimeAPIURL \<noteq> [] then ''runtime'' else []),
             stEmbedURL := embedURL, stFrameSource := frameSource\<rparr>))))"

definition applyConfig :: "bridge_env \<Rightarrow> bytes \<Rightarrow> runtimeState" where
  "applyConfig env request =
     (if TrimSpace request = [] then applyDefaultRuntimeState env zero_state
      else case decode_lifecycle request of
        None \<Rightarrow> failed_state ''invalid plugin lifecycle request''
      | Some req \<Rightarrow>
          (case (if TrimSpace (lrConfigYAML req) = [] then Some ([], []) else beYaml env (lrConfigYAML req)) of
             None \<Rightarrow> failed_state ''invalid plugin YAML config''
           | Some (sidecarURL, sidecarAPIURL) \<Rightarrow> configured_state env sidecarURL sidecarAPIURL))"

text \<open>\<^verbatim>\<open>pluginabi.SchemaVersion\<close> is the parameter \<open>newest\<close>.\<close>

definition negotiatedSchemaVersion :: "int \<Rightarrow> bytes \<Rightarrow> int" where
  "negotiatedSchemaVersion newest request =
     (case decode_lifecycle request of
        None \<Rightarrow> 1
      | Some req \<Rightarrow>
          if lrSchemaVersion req = 0 then 1 else if lrSchemaVersion req > newest then newest else lrSchemaVersion req)"

section \<open>The target of management requests\<close>

definition validateTrustedSidecarAPIURL :: "string \<Rightarrow> string \<Rightarrow> string + string" where
  "validateTrustedSidecarAPIURL raw source =
     (case normalizeSidecarAPIURL raw of
        Inl err \<Rightarrow> Inl err
      | Inr normalized \<Rightarrow>
          (case url_Parse normalized of
             None \<Rightarrow> Inl ''sidecar API target must be an absolute URL''
           | Some u \<Rightarrow>
               if \<not> IsAbs u \<or> Host u = [] then Inl ''sidecar API target must be an absolute URL''
               else if Scheme u = ''http'' \<and> source \<noteq> ''runtime'' \<and> \<not> isLoopbackHost (Hostname u) then
                 Inl ''sidecar API target must use HTTPS unless it targets loopback or trusted runtime routing''
               else Inr normalized))"

definition localSidecarFallbackEnabled :: "string \<Rightarrow> bool" where
  "localSidecarFallbackEnabled value =
     (let raw = TrimRight (TrimSpace value) ''/'' in
      raw = [] \<or> raw = TrimRight defaultSidecarURL ''/'' \<or>
      (case url_Parse raw of
         None \<Rightarrow> False
       | Some u \<Rightarrow>
           IsAbs u \<and> isLoopbackHost (Hostname u) \<and>
           list_ex (\<lambda>candidate. case url_Parse candidate of None \<Rightarrow> False | Some legacy \<Rightarrow>
               Scheme u = Scheme legacy \<and> Host u = Host legacy \<and> Path u = TrimRight (Path legacy) ''/'')
             [legacyLocalSidecarURL, legacyLocalhostSidecarURL, legacyIPv6SidecarURL]))"

definition sidecarManagementAPIURL :: "bridge_env \<Rightarrow> runtimeState \<Rightarrow> string + string" where
  "sidecarManagementAPIURL env current =
     (let configured = TrimSpace (stSidecarAPIURL current) in
      if configured \<noteq> [] then validateTrustedSidecarAPIURL configured (stSidecarAPIURLSource current)
      else case url_Parse (TrimSpace (stSidecarURL current)) of
        None \<Rightarrow> Inl ''sidecar_url is invalid''
      | Some uiURL \<Rightarrow>
          if IsAbs uiURL then
            validateTrustedSidecarAPIURL (url_String (uiURL\<lparr>Path := sidecarAPICallPath, RawPath := [], RawQuery := [], Fragment := []\<rparr>)) ''sidecar_url''
          else let runtimeAPIURL = configuredRuntimeSidecarAPIURL env in
            if runtimeAPIURL \<noteq> [] then validateTrustedSidecarAPIURL runtimeAPIURL ''runtime''
            else if localSidecarFallbackEnabled (stSidecarURL current) then
              validateTrustedSidecarAPIURL legacyLocalSidecarAPIURL ''default-loopback''
            else Inl ''sidecar_api_url or CODEX_AGENT_IDENTITY_SIDECAR_HOSTS is required when sidecar_url is relative'')"

definition sidecarUIBaseURL :: "bridge_env \<Rightarrow> runtimeState \<Rightarrow> string + url" where
  "sidecarUIBaseURL env current =
     (case sidecarManagementAPIURL env current of
        Inl err \<Rightarrow> Inl err
      | Inr apiTarget \<Rightarrow>
          (case url_Parse apiTarget of
             None \<Rightarrow> Inl ''sidecar API target is invalid''
           | Some target \<Rightarrow>
               if \<not> IsAbs target \<or> Host target = [] then Inl ''sidecar API target is invalid''
               else case url_Parse (TrimSpace (stSidecarURL current)) of
                 None \<Rightarrow> Inl ''sidecar_url is invalid''
               | Some uiURL \<Rightarrow>
                   let uiPath = (if Path uiURL \<noteq> [] \<and> Path uiURL \<noteq> ''/'' then Path uiURL else defaultSidecarURL) in
                   if \<not> HasPrefix uiPath ''/'' \<or> \<not> HasSuffix uiPath ''/'' then Inl ''sidecar_url path is invalid''
                   else Inr (target\<lparr>HasUser := False, Path := uiPath, RawPath := [], RawQuery := [], Fragment := []\<rparr>)))"

definition sidecarUIAPIURL :: "bridge_env \<Rightarrow> runtimeState \<Rightarrow> url \<Rightarrow> string + string" where
  "sidecarUIAPIURL env current relativeURL =
     (case sidecarUIBaseURL env current of
        Inl err \<Rightarrow> Inl err
      | Inr target \<Rightarrow>
          Inr (url_String (target\<lparr>Path := Path target @ ''api/'' @ TrimPrefix (Path relativeURL) ''/'', RawPath := [], RawQuery := RawQuery relativeURL\<rparr>)))"

end
