(* ===== verification/Plugin_Bridge.thy ===== *)
theory Plugin_Bridge
  imports Bridge_Target Plugin_Credential
begin

text \<open>
  The calls that CPA makes into the plugin (\<^verbatim>\<open>plugin/codex-agent-identity/plugin.go\<close>): the management routes, which
  forward to the sidecar or serve the plugin's own page, and the auth-file calls.  The sidecar is a \<open>transport\<close> of
  \<^verbatim>\<open>Go_Net\<close>; a Go map is an association list, so that a statement about all lists is one about all orders of iteration.  The texts of
  the page (\<open>bridge_pages\<close>) and the contents of the embedded files are parameters, as are the decoders of CPA's own request types.
\<close>

section \<open>Requests and responses\<close>

type_synonym string_map = "string list gomap"

record managementRequest =
  mgMethod :: string
  mgPath :: string
  mgHeaders :: string_map
  mgQuery :: string_map
  mgBody :: bytes

record managementResponse =
  mpStatusCode :: int
  mpHeaders :: header
  mpBody :: bytes

record sidecarUIAPIRequest =
  uiMethod :: string
  uiPath :: string
  uiHeaders :: "string gomap"
  uiBody :: string

record bridge_pages =
  bpAsset :: "string \<Rightarrow> bytes option"
  bpManagementHTML :: "string \<Rightarrow> string \<Rightarrow> string"
  bpConfigFallbackHTML :: "string \<Rightarrow> string"

text \<open>Decoding an object into a Go map keeps the entries of an earlier object for the same field.\<close>

fun dec_entries :: "'a decoder \<Rightarrow> 'a \<Rightarrow> (string \<times> json) list \<Rightarrow> 'a gomap \<Rightarrow> 'a gomap option" where
  "dec_entries dec zero [] m = Some m"
| "dec_entries dec zero ((k, v) # kvs) m =
     (case dec zero v of None \<Rightarrow> None | Some x \<Rightarrow> dec_entries dec zero kvs (map_put k x m))"

definition dec_map :: "'a decoder \<Rightarrow> 'a \<Rightarrow> 'a gomap decoder" where
  "dec_map dec zero cur v = (case v of JObj kvs \<Rightarrow> dec_entries dec zero kvs cur | JNull \<Rightarrow> Some [] | _ \<Rightarrow> None)"

definition decode_management :: "bytes \<Rightarrow> managementRequest option" where
  "decode_management raw =
     Option.bind (json_parse raw) (\<lambda>v. Option.bind (struct_keys v) (\<lambda>kvs.
       Option.bind (field dec_str ''Method'' kvs []) (\<lambda>m.
       Option.bind (field dec_str ''Path'' kvs []) (\<lambda>p.
       Option.bind (field (dec_map (dec_list dec_str []) []) ''Headers'' kvs []) (\<lambda>h.
       Option.bind (field (dec_map (dec_list dec_str []) []) ''Query'' kvs []) (\<lambda>q.
       Option.bind (field dec_bytes ''Body'' kvs []) (\<lambda>b.
       Some \<lparr>mgMethod = m, mgPath = p, mgHeaders = h, mgQuery = q, mgBody = b\<rparr>)))))))"

text \<open>The strict decoder refuses unknown fields and anything after the value (\<^verbatim>\<open>ensureJSONEOF\<close>).\<close>

definition ensureJSONEOF :: "string \<Rightarrow> bool" where
  "ensureJSONEOF rest = (case Decode rest of StreamEOF \<Rightarrow> True | _ \<Rightarrow> False)"

definition decode_ui_request :: "bytes \<Rightarrow> sidecarUIAPIRequest option" where
  "decode_ui_request raw =
     (case Decode raw of
        StreamValue v rest \<Rightarrow>
          Option.bind (struct_keys v) (\<lambda>kvs.
            if \<not> list_all (\<lambda>(k, _). list_ex (EqualFold k) [''method'', ''path'', ''headers'', ''body'']) kvs \<or> \<not> ensureJSONEOF rest then None
            else Option.bind (field dec_str ''method'' kvs []) (\<lambda>m.
              Option.bind (field dec_str ''path'' kvs []) (\<lambda>p.
              Option.bind (field (dec_map dec_str []) ''headers'' kvs []) (\<lambda>h.
              Option.bind (field dec_str ''body'' kvs []) (\<lambda>b.
              Some \<lparr>uiMethod = m, uiPath = p, uiHeaders = h, uiBody = b\<rparr>)))))
      | _ \<Rightarrow> None)"

definition managementErrorResponse :: "int \<Rightarrow> string \<Rightarrow> managementResponse" where
  "managementErrorResponse status message =
     \<lparr>mpStatusCode = status,
      mpHeaders = [(''Content-Type'', ''text/plain; charset=utf-8''),
        (''Content-Security-Policy'', ''default-src '' @ quoted ''none'' @ ''; frame-ancestors '' @ quoted ''none''),
        (''Referrer-Policy'', ''no-referrer''), (''Cache-Control'', ''no-store''), (''X-Content-Type-Options'', ''nosniff''),
        (''X-Frame-Options'', ''DENY'')],
      mpBody = message\<rparr>"

section \<open>Headers\<close>

definition bridgeBlockedHeader :: "string \<Rightarrow> bool" where
  "bridgeBlockedHeader name \<longleftrightarrow>
     ToLower (TrimSpace name) \<in> set [''host'', ''content-length'', ''content-encoding'', ''accept-encoding'', ''connection'', ''cookie'', ''keep-alive'',
       ''origin'', ''referer'', ''proxy-authenticate'', ''proxy-authorization'', ''te'', ''trailer'', ''transfer-encoding'', ''upgrade'',
       ''x-forwarded-for'', ''x-forwarded-host'', ''x-forwarded-proto'']"

definition response_framing :: "string \<Rightarrow> bool" where
  "response_framing name \<longleftrightarrow>
     ToLower (TrimSpace name) \<in> set [''content-length'', ''content-encoding'', ''connection'', ''keep-alive'', ''proxy-authenticate'',
       ''proxy-authorization'', ''te'', ''trailer'', ''transfer-encoding'', ''upgrade'', ''set-cookie'']"

definition deleteHeaderKey :: "string \<Rightarrow> header \<Rightarrow> header" where
  "deleteHeaderKey name headers = filter (\<lambda>(k, _). k \<noteq> name \<and> \<not> EqualFold k name) headers"

definition sanitizeResponseHeaders :: "header \<Rightarrow> header" where
  "sanitizeResponseHeaders headers = fold deleteHeaderKey (filter response_framing (map fst headers)) headers"

text \<open>\<^verbatim>\<open>Header.Add\<close> of all values of the kept names.\<close>

definition add_headers :: "(string \<Rightarrow> bool) \<Rightarrow> string_map \<Rightarrow> header" where
  "add_headers keep headers = concat (map (\<lambda>(name, vs). if keep name then map (Pair (CanonicalHeaderKey name)) vs else []) headers)"

fun forwardedUIContentType :: "string gomap \<Rightarrow> string" where
  "forwardedUIContentType [] = []"
| "forwardedUIContentType ((name, value) # headers) =
     (let v = TrimSpace value in
      if EqualFold (TrimSpace name) ''Content-Type'' \<and> length v \<le> 256 \<and> \<not> ContainsAny v line_chars then v
      else forwardedUIContentType headers)"

section \<open>Allowed routes\<close>

definition validSidecarIdentityID :: "string \<Rightarrow> bool" where
  "validSidecarIdentityID value \<longleftrightarrow>
     length value = length ''agent-'' + 12 \<and> HasPrefix value ''agent-'' \<and> list_all is_lower_hex (drop (length ''agent-'') value)"

definition validBatchImportQuery :: "url_values \<Rightarrow> bool" where
  "validBatchImportQuery query \<longleftrightarrow>
     query \<noteq> [] \<and> length query \<le> 2 \<and>
     list_all (\<lambda>(key, vs). (key = ''preview'' \<or> key = ''atomic'') \<and> (vs = [''true''] \<or> vs = [''false''])) query"

definition allowedSidecarUIAPIRoute :: "string \<Rightarrow> string list \<Rightarrow> url_values \<Rightarrow> bool" where
  "allowedSidecarUIAPIRoute m segments query =
     (case segments of
        [a] \<Rightarrow> (a = ''diagnostics'' \<or> a = ''identities'') \<and> m = ''GET'' \<and> query = []
      | [a, b] \<Rightarrow>
          a = ''identities'' \<and>
          (if b = ''import'' then m = ''POST'' \<and> query = [] else validSidecarIdentityID b \<and> m = ''DELETE'' \<and> query = [])
      | [a, b, c] \<Rightarrow>
          a = ''identities'' \<and>
          (if b = ''import'' \<and> c = ''batch'' then m = ''POST'' \<and> validBatchImportQuery query
           else validSidecarIdentityID b \<and> c = ''actions'' \<and> m = ''POST'' \<and> query = [])
      | _ \<Rightarrow> False)"

text \<open>\<^verbatim>\<open>url.ParseRequestURI\<close>: no fragment, an absolute address or a path.\<close>

definition ParseRequestURI :: "string \<Rightarrow> url option" where
  "ParseRequestURI raw =
     (if list_ex control_byte raw \<or> raw = [] then None
      else if raw = ''*'' then Some (zero_url\<lparr>Path := ''*''\<rparr>)
      else case getScheme raw of
        None \<Rightarrow> None
      | Some (sch, rest0) \<Rightarrow>
          (case split_query rest0 of (fq, q, rest) \<Rightarrow>
             if HasPrefix rest ''/'' \<and> sch = [] then setPath rest (zero_url\<lparr>ForceQuery := fq, RawQuery := q\<rparr>)
             else if sch = [] then None
             else parse_rest sch rest fq q))"

definition normalizeSidecarUIAPIRequest :: "sidecarUIAPIRequest \<Rightarrow> string + string \<times> url" where
  "normalizeSidecarUIAPIRequest request =
     (let m = ToUpper (TrimSpace (uiMethod request)); rawPath = TrimSpace (uiPath request) in
      if m \<noteq> ''GET'' \<and> m \<noteq> ''POST'' \<and> m \<noteq> ''DELETE'' then Inl ''plugin UI method is not allowed''
      else if rawPath = [] \<or> HasPrefix rawPath ''/'' \<or> backslash \<in> set rawPath then Inl ''plugin UI path is invalid''
      else case ParseRequestURI (''/'' @ rawPath) of
        None \<Rightarrow> Inl ''plugin UI path is invalid''
      | Some u \<Rightarrow>
          if IsAbs u \<or> Host u \<noteq> [] \<or> Fragment u \<noteq> [] then Inl ''plugin UI path is invalid''
          else let segments = SplitAt (CHR ''/'') (TrimPrefix (Path u) ''/'') in
            if list_ex (\<lambda>segment. segment = [] \<or> segment = ''.'' \<or> segment = ''..'') segments then Inl ''plugin UI path is invalid''
            else if \<not> allowedSidecarUIAPIRoute m segments (Query u) then Inl ''plugin UI route is not allowed''
            else Inr (m, u))"

section \<open>Forwarding\<close>

definition maxForwardBodyBytes :: nat where "maxForwardBodyBytes = 2 ^ 20"
definition maxUIBridgeRequestBytes :: nat where "maxUIBridgeRequestBytes = 16 * 2 ^ 20"
definition maxUIForwardBodyBytes :: nat where "maxUIForwardBodyBytes = 4 * 2 ^ 20"
definition maxUIAssetBytes :: nat where "maxUIAssetBytes = 2 ^ 20"
definition uiBridgeBodyPrefix :: string where "uiBridgeBodyPrefix = '')]}'' @ [char_of (39 :: nat)] @ '','' @ [char_of (10 :: nat)]"

text \<open>The client refuses to follow a redirect (\<^verbatim>\<open>rejectSidecarRedirect\<close>): such a response is an error.\<close>

definition redirected :: "response \<Rightarrow> bool" where
  "redirected r \<longleftrightarrow> rsStatus r \<in> set [301, 302, 303, 307, 308] \<and> header_get (rsHeader r) ''Location'' \<noteq> []"

definition sidecar_do :: "'u transport \<Rightarrow> 'u transport" where
  "sidecar_do cl rq u =
     (case cl rq u of
        (Response r, u') \<Rightarrow> (if redirected r then NetError False else Response r, u')
      | (out, u') \<Rightarrow> (out, u'))"

text \<open>The answer to CPA: a failure of the exchange, or the response read up to a limit.\<close>

definition sidecar_answer ::
  "nat \<Rightarrow> string \<Rightarrow> string \<Rightarrow> string \<Rightarrow> (response \<Rightarrow> bytes \<Rightarrow> managementResponse) \<Rightarrow> http_outcome \<Rightarrow> managementResponse" where
  "sidecar_answer limit build unread large ok out =
     (case out of
        BadRequest \<Rightarrow> managementErrorResponse 502 build
      | NetError _ \<Rightarrow> managementErrorResponse 502 ''sidecar management API unavailable''
      | Response r \<Rightarrow>
          (case LimitReader (Suc limit) r of
             None \<Rightarrow> managementErrorResponse 502 unread
           | Some body \<Rightarrow> if length body > limit then managementErrorResponse 502 large else ok r body))"

definition api_call_request :: "string \<Rightarrow> managementRequest \<Rightarrow> request" where
  "api_call_request target request =
     \<lparr>rqMethod = ''POST'', rqURL = target,
      rqHeader = header_del ''Content-Length'' (header_set ''Content-Type'' ''application/json'' (header_set ''Accept-Encoding'' ''identity''
        (add_headers (\<lambda>name. \<not> bridgeBlockedHeader name) (mgHeaders request)))),
      rqBody = mgBody request\<rparr>"

definition forwardSidecarAPICall :: "'u transport \<Rightarrow> bridge_env \<Rightarrow> runtimeState \<Rightarrow> managementRequest \<Rightarrow> 'u \<Rightarrow> managementResponse \<times> 'u" where
  "forwardSidecarAPICall cl env current request u =
     (if length (mgBody request) > maxForwardBodyBytes then (managementErrorResponse 413 ''management request body is too large'', u)
      else case sidecarManagementAPIURL env current of
        Inl err \<Rightarrow> (managementErrorResponse 503 err, u)
      | Inr target \<Rightarrow>
          apfst (sidecar_answer maxForwardBodyBytes ''failed to build sidecar request'' ''failed to read sidecar response'' ''sidecar response is too large''
              (\<lambda>r body. \<lparr>mpStatusCode = rsStatus r, mpHeaders = sanitizeResponseHeaders (rsHeader r), mpBody = body\<rparr>))
            (sidecar_do cl (api_call_request target request) u))"

definition ui_api_request :: "string \<Rightarrow> string \<Rightarrow> managementRequest \<Rightarrow> sidecarUIAPIRequest \<Rightarrow> request" where
  "ui_api_request m target request bridgeRequest =
     (let contentType = forwardedUIContentType (uiHeaders bridgeRequest);
          headers = header_set ''Accept-Encoding'' ''identity''
            (add_headers (\<lambda>name. EqualFold (TrimSpace name) ''Authorization'') (mgHeaders request)) in
      \<lparr>rqMethod = m, rqURL = target,
       rqHeader = (if contentType \<noteq> [] then header_set ''Content-Type'' contentType headers else header_del ''Content-Type'' headers),
       rqBody = uiBody bridgeRequest\<rparr>)"

definition ui_api_response :: "response \<Rightarrow> bytes \<Rightarrow> managementResponse" where
  "ui_api_response r body =
     \<lparr>mpStatusCode = rsStatus r,
      mpHeaders = header_set ''X-Content-Type-Options'' ''nosniff'' (header_set ''Cache-Control'' ''no-store''
        (header_set ''Content-Type'' ''text/plain; charset=utf-8'' (sanitizeResponseHeaders (rsHeader r)))),
      mpBody = uiBridgeBodyPrefix @ body\<rparr>"

definition forwardSidecarUIAPI :: "'u transport \<Rightarrow> bridge_env \<Rightarrow> runtimeState \<Rightarrow> managementRequest \<Rightarrow> 'u \<Rightarrow> managementResponse \<times> 'u" where
  "forwardSidecarUIAPI cl env current request u =
     (if length (mgBody request) > maxUIBridgeRequestBytes then (managementErrorResponse 413 ''plugin UI request body is too large'', u)
      else case decode_ui_request (mgBody request) of
        None \<Rightarrow> (managementErrorResponse 400 ''invalid plugin UI request'', u)
      | Some bridgeRequest \<Rightarrow>
          (case normalizeSidecarUIAPIRequest bridgeRequest of
             Inl err \<Rightarrow> (managementErrorResponse 400 err, u)
           | Inr (m, relativeURL) \<Rightarrow>
               if length (uiBody bridgeRequest) > maxUIForwardBodyBytes then (managementErrorResponse 413 ''sidecar UI API body is too large'', u)
               else case sidecarUIAPIURL env current relativeURL of
                 Inl err \<Rightarrow> (managementErrorResponse 503 err, u)
               | Inr target \<Rightarrow>
                   apfst (sidecar_answer maxUIForwardBodyBytes ''failed to build sidecar UI API request'' ''failed to read sidecar UI API response''
                       ''sidecar UI API response is too large'' ui_api_response)
                     (sidecar_do cl (ui_api_request m target request bridgeRequest) u)))"

section \<open>The plugin's own pages\<close>

definition ui_content_types :: "string gomap" where
  "ui_content_types = [(''index.html'', ''text/html; charset=utf-8''), (''app.js'', ''text/javascript; charset=utf-8''),
     (''style.css'', ''text/css; charset=utf-8''), (''theme.js'', ''text/javascript; charset=utf-8'')]"

definition asset_policy :: "string \<Rightarrow> string" where
  "asset_policy ancestors =
     ''default-src '' @ quoted ''self'' @ ''; script-src '' @ quoted ''self'' @ ''; style-src '' @ quoted ''self'' @ ''; connect-src '' @ quoted ''self'' @
     ''; img-src '' @ quoted ''self'' @ '' data:; form-action '' @ quoted ''none'' @ ''; frame-ancestors '' @ ancestors @ ''; base-uri '' @ quoted ''none''"

definition forwardSidecarUIAsset :: "bridge_pages \<Rightarrow> managementRequest \<Rightarrow> string \<Rightarrow> managementResponse" where
  "forwardSidecarUIAsset pages request asset =
     (let fileName = (if asset = [] then ''index.html'' else asset);
          embedded = EqualFold (TrimSpace (case map_get (mgQuery request) ''embed'' of Some (v # _) \<Rightarrow> v | _ \<Rightarrow> [])) ''cpamc'' in
      case map_get ui_content_types fileName of
        None \<Rightarrow> managementErrorResponse 404 ''plugin UI asset not found''
      | Some contentType \<Rightarrow>
          (case bpAsset pages (''ui/'' @ fileName) of
             None \<Rightarrow> managementErrorResponse 404 ''plugin UI asset not found''
           | Some body \<Rightarrow>
               if length body > maxUIAssetBytes then managementErrorResponse 500 ''plugin UI asset is too large''
               else let headers = [(''Content-Type'', contentType),
                   (''Permissions-Policy'', ''camera=(), microphone=(), geolocation=(), payment=(), usb=()''), (''Referrer-Policy'', ''no-referrer''),
                   (''X-Content-Type-Options'', ''nosniff''), (''Cache-Control'', ''no-store'')] in
                 \<lparr>mpStatusCode = 200,
                  mpHeaders = header_set ''Content-Security-Policy''
                    (asset_policy (if fileName = ''index.html'' \<and> embedded then quoted ''self'' else quoted ''none''))
                    (if fileName = ''index.html'' \<and> \<not> embedded then header_set ''X-Frame-Options'' ''DENY'' headers else headers),
                  mpBody = body\<rparr>))"

definition managementFrameSources :: "string \<Rightarrow> string" where
  "managementFrameSources value =
     (let source = TrimSpace value in
      if source = [] \<or> source = quoted ''self'' then quoted ''self''
      else if Contains source (quoted ''self'') then source
      else quoted ''self'' @ '' '' @ source)"

text \<open>\<^verbatim>\<open>strings.Fields\<close> on the runes of a text.\<close>

fun fields_loop :: "string \<Rightarrow> string list \<Rightarrow> string list" where
  "fields_loop word [] = (if word = [] then [] else [word])"
| "fields_loop word (r # rs) =
     (if r \<in> set space_encodings then (if word = [] then fields_loop [] rs else word # fields_loop [] rs) else fields_loop (word @ r) rs)"

definition containsCSPSource :: "string \<Rightarrow> string \<Rightarrow> bool" where
  "containsCSPSource sources wanted \<longleftrightarrow> wanted \<in> set (fields_loop [] (runes sources))"

definition managementFrameSourcesForState :: "runtimeState \<Rightarrow> string" where
  "managementFrameSourcesForState current =
     (let sources = managementFrameSources (stFrameSource current) in
      if \<not> localSidecarFallbackEnabled (stSidecarURL current) then sources
      else fold (\<lambda>candidate s. if containsCSPSource s candidate then s else s @ '' '' @ candidate)
        [''http://127.0.0.1:18787'', ''http://localhost:18787''] sources)"

definition page_headers :: "string \<Rightarrow> header" where
  "page_headers policy =
     [(''Content-Type'', ''text/html; charset=utf-8''), (''Content-Security-Policy'', policy), (''Referrer-Policy'', ''no-referrer''),
      (''X-Content-Type-Options'', ''nosniff''), (''X-Frame-Options'', ''SAMEORIGIN''), (''Cache-Control'', ''no-store'')]"

definition inline_policy :: "string \<Rightarrow> string" where
  "inline_policy frames =
     ''default-src '' @ quoted ''none'' @ ''; style-src '' @ quoted ''unsafe-inline'' @ ''; script-src '' @ quoted ''unsafe-inline'' @ frames @
     ''; base-uri '' @ quoted ''none'' @ ''; form-action '' @ quoted ''none'' @ ''; frame-ancestors '' @ quoted ''self''"

definition currentManagementResponse :: "bridge_pages \<Rightarrow> runtimeState \<Rightarrow> managementResponse" where
  "currentManagementResponse pages current =
     (if stConfigError current \<noteq> [] then
        \<lparr>mpStatusCode = 503, mpHeaders = page_headers (inline_policy []), mpBody = bpConfigFallbackHTML pages (stConfigError current)\<rparr>
      else
        \<lparr>mpStatusCode = 200, mpHeaders = page_headers (inline_policy (''; frame-src '' @ managementFrameSourcesForState current)),
         mpBody = bpManagementHTML pages (stSidecarURL current) (stEmbedURL current)\<rparr>)"

section \<open>Management routes\<close>

definition managementAPICallFullPath :: string where "managementAPICallFullPath = ''/v0/management/codex-agent-identity/api-call''"
definition managementUIAPIFullPath :: string where "managementUIAPIFullPath = ''/v0/management/codex-agent-identity/ui-api''"
definition managementOpenFullPath :: string where "managementOpenFullPath = ''/v0/management/codex-agent-identity/open''"
definition resource_base :: string where "resource_base = ''/v0/resource/plugins/codex-agent-identity''"
definition resourceOpenFullPath :: string where "resourceOpenFullPath = resource_base @ ''/open''"
definition legacyResourceOpenPath :: string where "legacyResourceOpenPath = resource_base @ ''/codex-agent-identity/open''"

definition resource_assets :: "string gomap" where
  "resource_assets = [(resource_base @ ''/ui'', []), (resource_base @ ''/app.js'', ''app.js''), (resource_base @ ''/style.css'', ''style.css''),
     (resource_base @ ''/theme.js'', ''theme.js'')]"

definition not_allowed :: "string \<Rightarrow> managementResponse" where
  "not_allowed allow =
     (let r = managementErrorResponse 405 ''method not allowed'' in r\<lparr>mpHeaders := header_set ''Allow'' allow (mpHeaders r)\<rparr>)"

definition dispatchManagement ::
  "'u transport \<Rightarrow> bridge_env \<Rightarrow> bridge_pages \<Rightarrow> runtimeState \<Rightarrow> managementRequest \<Rightarrow> 'u \<Rightarrow> managementResponse \<times> 'u" where
  "dispatchManagement cl env pages current request u =
     (let m = mgMethod request; path = mgPath request in
      if m = [] \<or> path = [] then (managementErrorResponse 400 ''management method and path are required'', u)
      else if path = managementAPICallFullPath then
        (if m \<noteq> ''POST'' then (not_allowed ''POST'', u) else forwardSidecarAPICall cl env current request u)
      else if path = managementUIAPIFullPath then
        (if m \<noteq> ''POST'' then (not_allowed ''POST'', u) else forwardSidecarUIAPI cl env current request u)
      else case map_get resource_assets path of
        Some asset \<Rightarrow> (if m \<noteq> ''GET'' then not_allowed ''GET'' else forwardSidecarUIAsset pages request asset, u)
      | None \<Rightarrow>
          (if path \<noteq> managementOpenFullPath \<and> path \<noteq> resourceOpenFullPath \<and> path \<noteq> legacyResourceOpenPath then
             managementErrorResponse 404 ''management route not found''
           else if m \<noteq> ''GET'' then not_allowed ''GET''
           else currentManagementResponse pages current, u))"

definition handleManagementRequest ::
  "'u transport \<Rightarrow> bridge_env \<Rightarrow> bridge_pages \<Rightarrow> runtimeState \<Rightarrow> bytes \<Rightarrow> 'u \<Rightarrow> managementResponse \<times> 'u" where
  "handleManagementRequest cl env pages current raw u =
     (case decode_management raw of
        None \<Rightarrow> (managementErrorResponse 400 ''invalid management request'', u)
      | Some request \<Rightarrow> dispatchManagement cl env pages current request u)"

section \<open>Auth files\<close>

record AuthData =
  adProvider :: string
  adID :: string
  adFileName :: string
  adLabel :: string
  adPrefix :: string
  adProxyURL :: string
  adDisabled :: bool
  adStorageJSON :: bytes
  adMetadata :: payload
  adAttributes :: "string gomap"
  adNextRefreshAfter :: time

record AuthRefreshRequest =
  rfAuthProvider :: string
  rfAuthID :: string
  rfStorageJSON :: bytes
  rfMetadata :: payload
  rfAttributes :: "string gomap"

definition authDataFromParsed :: "Parsed \<Rightarrow> AuthData" where
  "authDataFromParsed p =
     \<lparr>adProvider = RuntimeProvider, adID = paID p, adFileName = paFileName p, adLabel = paLabel p, adPrefix = paPrefix p, adProxyURL = paProxyURL p,
      adDisabled = paDisabled p, adStorageJSON = paStorageJSON p, adMetadata = paMetadata p, adAttributes = paAttributes p,
      adNextRefreshAfter = paNextRefreshAfter p\<rparr>"

definition firstNonEmptyString :: "json list \<Rightarrow> string" where
  "firstNonEmptyString values =
     first_trimmed (map (\<lambda>v. case v of JStr s \<Rightarrow> s | _ \<Rightarrow> []) values)"

text \<open>\<open>is_one\<close> says of the text of a number whether its \<^verbatim>\<open>float64\<close> value is 1.\<close>

definition boolFromValue :: "(string \<Rightarrow> bool) \<Rightarrow> json \<Rightarrow> bool" where
  "boolFromValue is_one v =
     (case v of
        JBool b \<Rightarrow> b
      | JStr s \<Rightarrow> EqualFold (TrimSpace s) ''true'' \<or> TrimSpace s = ''1''
      | JNum n \<Rightarrow> is_one n
      | _ \<Rightarrow> False)"

definition labelFromMetadata :: "payload \<Rightarrow> string \<Rightarrow> string" where
  "labelFromMetadata metadata fallback =
     (let value = firstNonEmptyString [lookup metadata ''email''] in if value \<noteq> [] then value else TrimSpace fallback)"

definition attribute :: "string gomap \<Rightarrow> string \<Rightarrow> string" where
  "attribute m k = (case map_get m k of None \<Rightarrow> [] | Some v \<Rightarrow> v)"

definition authDataForRefresh ::
  "(string \<Rightarrow> string) \<Rightarrow> (string \<Rightarrow> time option) \<Rightarrow> (string \<Rightarrow> bool) \<Rightarrow> time \<Rightarrow> AuthRefreshRequest \<Rightarrow> string \<Rightarrow> string + AuthData" where
  "authDataForRefresh getenv rfc3339 is_one now req fileName =
     (let provider = (if TrimSpace (rfAuthProvider req) = [] then RuntimeProvider else TrimSpace (rfAuthProvider req));
          metadata = rfMetadata req; attributes = rfAttributes req;
          native = \<lparr>adProvider = provider, adID = TrimSpace (rfAuthID req), adFileName = TrimSpace fileName,
            adLabel = labelFromMetadata metadata (rfAuthID req), adPrefix = [],
            adProxyURL = firstNonEmptyString [lookup metadata ''proxy_url'', JStr (attribute attributes ''proxy_url'')],
            adDisabled = (boolFromValue is_one (lookup metadata ''disabled'') \<or> EqualFold (TrimSpace (attribute attributes ''disabled'')) ''true''),
            adStorageJSON = rfStorageJSON req, adMetadata = metadata, adAttributes = attributes, adNextRefreshAfter = 0\<rparr> in
      if TrimSpace (rfStorageJSON req) = [] then Inr native
      else case ParseAuthFile getenv rfc3339 now provider fileName (rfStorageJSON req) of
        ParseError err \<Rightarrow> Inl err
      | Handled p \<Rightarrow> Inr (authDataFromParsed p)
      | NotHandled \<Rightarrow> Inr native)"

section \<open>The calls of the plugin interface\<close>

text \<open>
  The names of the calls, CPA's request types and the schema version belong to CPA's plugin interface: a call is a value of \<open>abi_call\<close>, and \<open>abi\<close>
  holds the decoders.  The JSON envelope of an answer is the constructor of \<open>abi_reply\<close>; the descriptions shown in CPA's menus are left out.
\<close>

datatype abi_call =
    PluginRegister | PluginReconfigure | ManagementRegister | ManagementHandle | AuthIdentifier | AuthParse | AuthRefresh | AuthLoginStart
  | AuthLoginPoll | UnknownMethod string

record abi =
  abSchemaVersion :: int
  abParseRequest :: "bytes \<Rightarrow> (string \<times> string \<times> bytes) option"
  abRefreshRequest :: "bytes \<Rightarrow> AuthRefreshRequest option"
  abIsOne :: "string \<Rightarrow> bool"
  abRFC3339 :: "string \<Rightarrow> time option"

datatype abi_value =
    Registration int
  | ManagementRegistration "(string \<times> string) list" "string list"
  | ManagementReply managementResponse
  | Identifier string
  | AuthParsed "AuthData option"
  | AuthRefreshed AuthData time
  | LoginRefused string

datatype abi_reply = OkEnvelope abi_value | CallError string | ErrorEnvelope string string

definition registered_routes :: "(string \<times> string) list" where
  "registered_routes = [(''GET'', ''/codex-agent-identity/open''), (''POST'', ''/codex-agent-identity/api-call''), (''POST'', ''/codex-agent-identity/ui-api'')]"

definition registered_resources :: "string list" where
  "registered_resources = [''/open'', ''/ui'', ''/app.js'', ''/style.css'', ''/theme.js'']"

definition refresh_name :: "AuthRefreshRequest \<Rightarrow> string" where
  "refresh_name req =
     (case map_get (rfMetadata req) ''file_name'' of Some (JStr s) \<Rightarrow> if TrimSpace s \<noteq> [] then s else rfAuthID req | _ \<Rightarrow> rfAuthID req)"

definition handleMethod ::
  "abi \<Rightarrow> 'u transport \<Rightarrow> bridge_env \<Rightarrow> bridge_pages \<Rightarrow> time \<Rightarrow> abi_call \<Rightarrow> bytes \<Rightarrow> runtimeState \<times> 'u \<Rightarrow> abi_reply \<times> runtimeState \<times> 'u" where
  "handleMethod ab cl env pages now call request w =
     (case w of (st, u) \<Rightarrow>
      case call of
        PluginRegister \<Rightarrow> (OkEnvelope (Registration (negotiatedSchemaVersion (abSchemaVersion ab) request)), applyConfig env request, u)
      | PluginReconfigure \<Rightarrow> (OkEnvelope (Registration (negotiatedSchemaVersion (abSchemaVersion ab) request)), applyConfig env request, u)
      | ManagementRegister \<Rightarrow> (OkEnvelope (ManagementRegistration registered_routes registered_resources), st, u)
      | ManagementHandle \<Rightarrow> (case handleManagementRequest cl env pages st request u of (r, u') \<Rightarrow> (OkEnvelope (ManagementReply r), st, u'))
      | AuthIdentifier \<Rightarrow> (OkEnvelope (Identifier PluginProvider), st, u)
      | AuthParse \<Rightarrow>
          (case abParseRequest ab request of
             None \<Rightarrow> CallError ''invalid auth parse request''
           | Some (provider, fileName, rawJSON) \<Rightarrow>
               (case ParseAuthFile (beGetenv env) (abRFC3339 ab) now provider fileName rawJSON of
                  ParseError err \<Rightarrow> CallError err
                | NotHandled \<Rightarrow> OkEnvelope (AuthParsed None)
                | Handled p \<Rightarrow> OkEnvelope (AuthParsed (Some (authDataFromParsed p)))), st, u)
      | AuthRefresh \<Rightarrow>
          (case abRefreshRequest ab request of
             None \<Rightarrow> CallError ''invalid auth refresh request''
           | Some req \<Rightarrow>
               (case authDataForRefresh (beGetenv env) (abRFC3339 ab) (abIsOne ab) now req (refresh_name req) of
                  Inl err \<Rightarrow> CallError err
                | Inr refreshed \<Rightarrow> OkEnvelope (AuthRefreshed refreshed (adNextRefreshAfter refreshed))), st, u)
      | AuthLoginStart \<Rightarrow>
          (CallError ''Codex Agent Identity login is managed through the plugin management page; native Codex OAuth login is unchanged'', st, u)
      | AuthLoginPoll \<Rightarrow> (OkEnvelope (LoginRefused ''use the Agent Identity management page''), st, u)
      | UnknownMethod name \<Rightarrow> (ErrorEnvelope ''unknown_method'' (''unknown method: '' @ name), st, u))"

text \<open>
  The exported entry (\<^verbatim>\<open>plugin/codex-agent-identity/main.go\<close>): the return code and what is written to the response buffer, which the caller may leave
  out.  A missing method name is \<open>None\<close>.
\<close>

definition writeResponse :: "bool \<Rightarrow> abi_reply \<Rightarrow> abi_reply option" where
  "writeResponse buffered reply = (if buffered then Some reply else None)"

definition cliproxyPluginCall ::
  "abi \<Rightarrow> 'u transport \<Rightarrow> bridge_env \<Rightarrow> bridge_pages \<Rightarrow> time \<Rightarrow> abi_call option \<Rightarrow> bytes \<Rightarrow> bool \<Rightarrow> runtimeState \<times> 'u \<Rightarrow>
   (int \<times> abi_reply option) \<times> runtimeState \<times> 'u" where
  "cliproxyPluginCall ab cl env pages now call request buffered w =
     (case call of
        None \<Rightarrow> ((1, writeResponse buffered (ErrorEnvelope ''invalid_method'' ''method is required'')), w)
      | Some c \<Rightarrow>
          (case handleMethod ab cl env pages now c request w of
             (CallError err, w') \<Rightarrow> ((1, writeResponse buffered (ErrorEnvelope ''plugin_error'' err)), w')
           | (reply, w') \<Rightarrow> ((0, writeResponse buffered reply), w')))"

end
