(* ===== verification/Bridge_Properties.thy ===== *)
theory Bridge_Properties
  imports Plugin_Bridge
begin

text \<open>
  Properties of the plugin's bridge to the sidecar: where management requests go, what they may be, and what comes back to CPA.
\<close>

section \<open>The target\<close>

lemma scan_http: "scheme_scan True (''http:'' @ s) = Some (Some (''http'', s))" "scheme_scan True (''https:'' @ s) = Some (Some (''https'', s))"
  by (simp_all add: is_lower_def is_upper_def is_digit_def byte_def)

lemma parse_rest_scheme: "parse_rest sch rest fq q = Some u \<Longrightarrow> Scheme u = ToLower sch"
  by (auto simp: parse_rest_def setPath_def zero_url_def Let_def split: if_splits option.splits)

lemma cut_prefix: "sep \<notin> set p \<Longrightarrow> cut sep (p @ s) = (p @ fst (cut sep s), snd (cut sep s))"
  by (induction p) (auto simp: prod.case_eq_if)

lemma parsed_scheme:
  assumes "url_Parse (sch @ '':'' @ s) = Some u" "sch = ''http'' \<or> sch = ''https''"
  shows "Scheme u = sch"
proof -
  have l: "ToLower ''http'' = ''http''" "ToLower ''https'' = ''https''" by (simp_all add: byte_def lower_byte_def is_upper_def)
  have c: "cut (CHR ''#'') (sch @ '':'' @ s) = ((sch @ '':'') @ fst (cut (CHR ''#'') s), snd (cut (CHR ''#'') s))"
    using cut_prefix [of "CHR ''#''" "sch @ '':''" s] assms(2) by auto
  have "getScheme ((sch @ '':'') @ x) = Some (sch, x)" for x
    using scan_http [of x] assms(2) by (auto simp: getScheme_def simp del: scheme_scan.simps)
  moreover have "(sch @ '':'') @ x \<noteq> ''*''" for x using assms(2) by auto
  ultimately show ?thesis
    using assms l unfolding url_Parse_def c prod.case
    by (auto simp del: ToLower.simps append.simps simp: dest!: parse_rest_scheme split: if_splits option.splits prod.splits)
qed

lemma normalized_api_url:
  assumes "normalizeSidecarAPIURL raw = Inr t" "t \<noteq> []"
  obtains v where "t = url_String v" "Scheme v = ''http'' \<or> Scheme v = ''https''" "Host v \<noteq> []" "\<not> HasUser v" "RawQuery v = []" "Fragment v = []"
  using assms by (auto simp: normalizeSidecarAPIURL_def Let_def split: if_splits option.splits)

lemma trusted_target:
  assumes "validateTrustedSidecarAPIURL raw source = Inr t"
  shows "\<exists>u. url_Parse t = Some u \<and> Host u \<noteq> [] \<and> (Scheme u = ''http'' \<or> Scheme u = ''https'') \<and>
    (Scheme u = ''http'' \<longrightarrow> source = ''runtime'' \<or> isLoopbackHost (Hostname u)) \<and> normalizeSidecarAPIURL raw = Inr t"
proof -
  from assms obtain u where n: "normalizeSidecarAPIURL raw = Inr t" "url_Parse t = Some u" "IsAbs u" "Host u \<noteq> []"
    "Scheme u = ''http'' \<longrightarrow> source = ''runtime'' \<or> isLoopbackHost (Hostname u)"
    by (auto simp: validateTrustedSidecarAPIURL_def split: sum.splits option.splits if_splits)
  have "url_Parse [] = Some zero_url" by code_simp
  with n(2,4) have "t \<noteq> []" by (auto simp: zero_url_def)
  then obtain v where v: "t = url_String v" "Scheme v = ''http'' \<or> Scheme v = ''https''" by (rule normalized_api_url [OF n(1)])
  have "\<exists>s. url_String v = Scheme v @ '':'' @ s" using v(2) by (auto simp: url_String_def)
  then have "Scheme u = Scheme v" using parsed_scheme n(2) v by metis
  with n v show ?thesis by auto
qed

text \<open>The invariant of the configuration: a target marked as the process's own is the one that the environment names.\<close>

definition bridge_inv :: "bridge_env \<Rightarrow> runtimeState \<Rightarrow> bool" where
  "bridge_inv env st \<longleftrightarrow> (stSidecarAPIURLSource st = ''runtime'' \<longrightarrow> stSidecarAPIURL st = configuredRuntimeSidecarAPIURL env)"

inductive bridge_step :: "bridge_env \<Rightarrow> runtimeState \<Rightarrow> runtimeState \<Rightarrow> bool" for env where
  lifecycle: "bridge_step env st (applyConfig env request)"

lemma configured_inv: "bridge_inv env (configured_state env ui api)"
  by (auto simp: bridge_inv_def configured_state_def failed_state_def zero_state_def Let_def split: sum.splits)

interpretation bridge: invariant_system "\<lambda>st. st = initial_state" "bridge_step env" "bridge_inv env" for env
proof unfold_locales
  fix st :: runtimeState assume "st = initial_state"
  then show "bridge_inv env st" by (simp add: bridge_inv_def initial_state_def zero_state_def)
next
  fix st st' assume "bridge_step env st st'"
  then obtain request where "st' = applyConfig env request" by (auto elim: bridge_step.cases)
  then show "bridge_inv env st'"
    using configured_inv
    by (auto simp: applyConfig_def applyDefaultRuntimeState_def bridge_inv_def failed_state_def zero_state_def Let_def split: option.splits)
qed

lemma management_target:
  assumes "bridge_inv env st" "sidecarManagementAPIURL env st = Inr t"
  shows "\<exists>u. url_Parse t = Some u \<and> Host u \<noteq> [] \<and> (Scheme u = ''http'' \<or> Scheme u = ''https'') \<and>
    (Scheme u = ''http'' \<longrightarrow> isLoopbackHost (Hostname u) \<or> normalizeSidecarAPIURL (configuredRuntimeSidecarAPIURL env) = Inr t)"
proof -
  have trim: "normalizeSidecarAPIURL (TrimSpace s) = normalizeSidecarAPIURL s" for s by (simp add: normalizeSidecarAPIURL_def)
  obtain raw source where r: "validateTrustedSidecarAPIURL raw source = Inr t"
    and s: "source = ''runtime'' \<Longrightarrow> normalizeSidecarAPIURL raw = normalizeSidecarAPIURL (configuredRuntimeSidecarAPIURL env)"
    using assms by (auto simp: sidecarManagementAPIURL_def bridge_inv_def Let_def trim split: if_splits option.splits)
  from trusted_target [OF r] s show ?thesis by auto
qed

text \<open>
  C37: the management key leaves in clear only for trusted targets.  Whatever lifecycle calls CPA has made, with whatever
  configuration, the address to which the plugin sends management requests is an absolute HTTP or HTTPS address; it is a cleartext one only
  when its host is a loopback name or when it is the address that the process environment names.  So no configuration value can direct the
  management key to another host in clear.
\<close>

theorem management_target_is_trusted:
  assumes "steps (bridge_step env) initial_state st" "sidecarManagementAPIURL env st = Inr t"
  shows "\<exists>u. url_Parse t = Some u \<and> Host u \<noteq> [] \<and> (Scheme u = ''http'' \<or> Scheme u = ''https'') \<and>
    (Scheme u = ''http'' \<longrightarrow> isLoopbackHost (Hostname u) \<or> normalizeSidecarAPIURL (configuredRuntimeSidecarAPIURL env) = Inr t)"
  by (rule management_target [OF bridge.reachable_inv [OF HOL.refl assms(1)] assms(2)])

section \<open>Requests of the page\<close>

lemma sep_by_first: "sep_by d ((c # a) # xs) = c # sep_by d (a # xs)"
  by (cases xs) auto

lemma join_split: "sep_by [c] (SplitAt c s) = s"
proof (induction c s rule: SplitAt.induct)
  case (2 sep c s)
  then show ?case by (cases "SplitAt sep s") (auto simp: sep_by_first)
qed simp

text \<open>The exchanges that the page may have with the sidecar: the call, the path below the interface and the query.\<close>

inductive ui_exchange :: "string \<Rightarrow> string \<Rightarrow> url_values \<Rightarrow> bool" where
  diagnostics: "ui_exchange ''GET'' ''diagnostics'' []"
| list_identities: "ui_exchange ''GET'' ''identities'' []"
| import_one: "ui_exchange ''POST'' ''identities/import'' []"
| import_batch: "q \<noteq> [] \<Longrightarrow> length q \<le> 2 \<Longrightarrow> \<forall>(k, vs) \<in> set q. k \<in> {''preview'', ''atomic''} \<and> vs \<in> {[''true''], [''false'']} \<Longrightarrow>
    ui_exchange ''POST'' ''identities/import/batch'' q"
| delete_identity: "length h = 12 \<Longrightarrow> list_all is_lower_hex h \<Longrightarrow> ui_exchange ''DELETE'' (''identities/agent-'' @ h) []"
| act_on_identity: "length h = 12 \<Longrightarrow> list_all is_lower_hex h \<Longrightarrow> ui_exchange ''POST'' (''identities/agent-'' @ h @ ''/actions'') []"

lemma identity_shape: "validSidecarIdentityID v \<Longrightarrow> \<exists>h. v = ''agent-'' @ h \<and> length h = 12 \<and> list_all is_lower_hex h"
  by (auto simp: validSidecarIdentityID_def HasPrefix_def prefix_def)

lemma allowed_exchange:
  assumes "allowedSidecarUIAPIRoute m segments q"
  shows "ui_exchange m (sep_by ''/'' segments) q"
proof -
  consider (one) a where "segments = [a]" | (two) a b where "segments = [a, b]" | (three) a b c where "segments = [a, b, c]"
    using assms by (auto simp: allowedSidecarUIAPIRoute_def split: list.splits)
  then show ?thesis
  proof cases
    case one
    with assms show ?thesis by (auto simp: allowedSidecarUIAPIRoute_def intro: ui_exchange.intros)
  next
    case two
    with assms show ?thesis
      using ui_exchange.import_one ui_exchange.delete_identity
      by (auto simp: allowedSidecarUIAPIRoute_def dest!: identity_shape split: if_splits)
  next
    case three
    with assms show ?thesis
      using ui_exchange.import_batch [of q] ui_exchange.act_on_identity
      by (auto simp: allowedSidecarUIAPIRoute_def validBatchImportQuery_def list_all_iff dest!: identity_shape split: if_splits)
  qed
qed

lemma normalized_request:
  assumes "normalizeSidecarUIAPIRequest request = Inr (m, u)"
  shows "ui_exchange m (TrimPrefix (Path u) ''/'') (Query u)"
proof -
  have "allowedSidecarUIAPIRoute m (SplitAt (CHR ''/'') (TrimPrefix (Path u) ''/'')) (Query u)"
    using assms by (auto simp: normalizeSidecarUIAPIRequest_def Let_def split: if_splits option.splits)
  from allowed_exchange [OF this] show ?thesis by (simp add: join_split)
qed

lemma content_type_clean:
  "length (forwardedUIContentType hs) \<le> 256 \<and> \<not> ContainsAny (forwardedUIContentType hs) line_chars"
  by (induction hs rule: forwardedUIContentType.induct) (auto simp: Let_def ContainsAny_def)

text \<open>A request that the page may send through the bridge, and one of the quota bridge.\<close>

definition page_request_ok :: "bridge_env \<Rightarrow> runtimeState \<Rightarrow> request \<Rightarrow> bool" where
  "page_request_ok env st rq \<longleftrightarrow>
     (\<exists>t u v base route. sidecarManagementAPIURL env st = Inr t \<and> url_Parse t = Some u \<and> rqURL rq = url_String v \<and>
        Scheme v = Scheme u \<and> Host v = Host u \<and> \<not> HasUser v \<and> Fragment v = [] \<and> RawPath v = [] \<and>
        Path v = base @ ''api/'' @ route \<and> ui_exchange (rqMethod rq) route (Query v)) \<and>
     (\<forall>(k, value) \<in> set (rqHeader rq).
        k = ''Accept-Encoding'' \<and> value = ''identity'' \<or>
        k = ''Content-Type'' \<and> length value \<le> 256 \<and> \<not> ContainsAny value line_chars \<or>
        (\<exists>name. EqualFold (TrimSpace name) ''Authorization'' \<and> k = CanonicalHeaderKey name)) \<and>
     length (rqBody rq) \<le> 4 * 2 ^ 20"

definition quota_request_ok :: "bridge_env \<Rightarrow> runtimeState \<Rightarrow> request \<Rightarrow> bool" where
  "quota_request_ok env st rq \<longleftrightarrow>
     rqMethod rq = ''POST'' \<and> sidecarManagementAPIURL env st = Inr (rqURL rq) \<and> length (rqBody rq) \<le> 2 ^ 20 \<and>
     (\<forall>(k, value) \<in> set (rqHeader rq).
        k = ''Accept-Encoding'' \<and> value = ''identity'' \<or> k = ''Content-Type'' \<and> value = ''application/json'' \<or>
        (\<exists>name. \<not> bridgeBlockedHeader name \<and> k = CanonicalHeaderKey name))"

lemma added_headers: "(k, v) \<in> set (add_headers keep hs) \<Longrightarrow> \<exists>name. keep name \<and> k = CanonicalHeaderKey name"
  by (auto simp: add_headers_def split: if_splits)

lemma member_set: "p \<in> set (header_set name value hs) \<Longrightarrow> p \<in> set hs \<or> p = (CanonicalHeaderKey name, value)"
  by (auto simp: header_set_def header_del_def)

lemma member_del: "p \<in> set (header_del name hs) \<Longrightarrow> p \<in> set hs"
  by (auto simp: header_del_def)

lemma canonical_names: "CanonicalHeaderKey ''Accept-Encoding'' = ''Accept-Encoding''" "CanonicalHeaderKey ''Content-Type'' = ''Content-Type''"
  by code_simp+

lemma page_request_headers:
  assumes "(k, value) \<in> set (rqHeader (ui_api_request m target request bridgeRequest))"
  shows "k = ''Accept-Encoding'' \<and> value = ''identity'' \<or>
        k = ''Content-Type'' \<and> length value \<le> 256 \<and> \<not> ContainsAny value line_chars \<or>
        (\<exists>name. EqualFold (TrimSpace name) ''Authorization'' \<and> k = CanonicalHeaderKey name)"
  using assms content_type_clean [of "uiHeaders bridgeRequest"]
  by (auto simp: ui_api_request_def Let_def canonical_names dest!: member_set member_del added_headers split: if_splits)

lemma page_target:
  assumes "sidecarUIAPIURL env st rel = Inr target"
  shows "\<exists>t u v base. sidecarManagementAPIURL env st = Inr t \<and> url_Parse t = Some u \<and> target = url_String v \<and> Scheme v = Scheme u \<and>
    Host v = Host u \<and> \<not> HasUser v \<and> Fragment v = [] \<and> RawPath v = [] \<and> Path v = base @ ''api/'' @ TrimPrefix (Path rel) ''/'' \<and> Query v = Query rel"
proof -
  from assms obtain t u b where t: "sidecarManagementAPIURL env st = Inr t" "url_Parse t = Some u"
    and b: "sidecarUIBaseURL env st = Inr b" "b = u\<lparr>HasUser := False, Path := Path b, RawPath := [], RawQuery := [], Fragment := []\<rparr>"
    and target: "target = url_String (b\<lparr>Path := Path b @ ''api/'' @ TrimPrefix (Path rel) ''/'', RawPath := [], RawQuery := RawQuery rel\<rparr>)"
    by (auto simp: sidecarUIAPIURL_def sidecarUIBaseURL_def Let_def split: sum.splits option.splits if_splits)
  define v where "v = b\<lparr>Path := Path b @ ''api/'' @ TrimPrefix (Path rel) ''/'', RawPath := [], RawQuery := RawQuery rel\<rparr>"
  have "Scheme b = Scheme u" "Host b = Host u" "\<not> HasUser b" "Fragment b = []" by (subst b(2), simp)+
  then have "Scheme v = Scheme u" "Host v = Host u" "\<not> HasUser v" "Fragment v = []" "RawPath v = []" "Query v = Query rel"
    by (simp_all add: v_def Query_def)
  moreover have "target = url_String v" "Path v = Path b @ ''api/'' @ TrimPrefix (Path rel) ''/''" by (simp_all add: v_def target)
  ultimately show ?thesis using t by blast
qed

text \<open>A handler that answers without an exchange, or makes exactly one, of an allowed form, that does not depend on the sidecar.\<close>

definition confined :: "(request \<Rightarrow> bool) \<Rightarrow> ('u transport \<Rightarrow> 'u \<Rightarrow> managementResponse \<times> 'u) \<Rightarrow> bool" where
  "confined allowed handler \<longleftrightarrow>
     (\<exists>resp. \<forall>cl u. handler cl u = (resp, u)) \<or>
     (\<exists>rq answer. allowed rq \<and> (\<forall>cl u. handler cl u = apfst answer (sidecar_do cl rq u)))"

lemma confined_local [simp]: "confined allowed (\<lambda>cl u. (resp, u))"
  by (auto simp: confined_def)

lemma confined_if [simp]:
  "confined allowed (\<lambda>cl u. if b then f cl u else g cl u) \<longleftrightarrow> (if b then confined allowed (\<lambda>cl u. f cl u) else confined allowed (\<lambda>cl u. g cl u))"
  by simp

lemma confined_sum [simp]:
  "confined allowed (\<lambda>cl u. case x of Inl e \<Rightarrow> f e cl u | Inr y \<Rightarrow> g y cl u) \<longleftrightarrow>
   (case x of Inl e \<Rightarrow> confined allowed (\<lambda>cl u. f e cl u) | Inr y \<Rightarrow> confined allowed (\<lambda>cl u. g y cl u))"
  by (cases x) simp_all

lemma confined_exchange: "allowed rq \<Longrightarrow> confined allowed (\<lambda>cl u. apfst answer (sidecar_do cl rq u))"
  by (auto simp: confined_def)

lemma confined_mono: "confined allowed handler \<Longrightarrow> (\<And>rq. allowed rq \<Longrightarrow> allowed' rq) \<Longrightarrow> confined allowed' handler"
  unfolding confined_def by blast

lemma page_bridge: "confined (page_request_ok env st) (\<lambda>cl u. forwardSidecarUIAPI cl env st request u)"
proof (cases "\<exists>b m rel target. decode_ui_request (mgBody request) = Some b \<and> normalizeSidecarUIAPIRequest b = Inr (m, rel) \<and>
    length (uiBody b) \<le> maxUIForwardBodyBytes \<and> sidecarUIAPIURL env st rel = Inr target \<and> length (mgBody request) \<le> maxUIBridgeRequestBytes")
  case True
  then obtain b m rel target where b: "decode_ui_request (mgBody request) = Some b" "normalizeSidecarUIAPIRequest b = Inr (m, rel)"
    "length (uiBody b) \<le> maxUIForwardBodyBytes" "sidecarUIAPIURL env st rel = Inr target" "length (mgBody request) \<le> maxUIBridgeRequestBytes"
    by blast
  let ?rq = "ui_api_request m target request b"
  have r: "rqURL ?rq = target" "rqMethod ?rq = m" "rqBody ?rq = uiBody b" by (simp_all add: ui_api_request_def Let_def)
  have "page_request_ok env st ?rq"
    unfolding page_request_ok_def r
  proof (intro conjI ballI, goal_cases)
    case 1
    show ?case using page_target [OF b(4)] normalized_request [OF b(2)] by metis
  next
    case (2 p)
    obtain k v where p: "p = (k, v)" by fastforce
    show ?case using 2 page_request_headers [of k v m target request b] unfolding p by simp
  next
    case 3
    show ?case using b(3) by (simp add: maxUIForwardBodyBytes_def)
  qed
  then show ?thesis using b by (simp add: forwardSidecarUIAPI_def confined_exchange)
next
  case False
  then show ?thesis
    by (cases "decode_ui_request (mgBody request)"; cases "normalizeSidecarUIAPIRequest (the (decode_ui_request (mgBody request)))")
       (auto simp: forwardSidecarUIAPI_def not_le split: sum.splits)
qed

lemma quota_bridge: "confined (quota_request_ok env st) (\<lambda>cl u. forwardSidecarAPICall cl env st request u)"
proof (cases "length (mgBody request) \<le> maxForwardBodyBytes"; cases "sidecarManagementAPIURL env st")
  fix target assume b: "length (mgBody request) \<le> maxForwardBodyBytes" "sidecarManagementAPIURL env st = Inr target"
  have "quota_request_ok env st (api_call_request target request)"
    using b by (auto simp: quota_request_ok_def api_call_request_def maxForwardBodyBytes_def canonical_names
        dest!: member_del member_set added_headers)
  then show ?thesis using b by (simp add: forwardSidecarAPICall_def confined_exchange)
qed (simp_all add: forwardSidecarAPICall_def)


section \<open>Responses\<close>

lemma fold_delete: "p \<in> set (fold deleteHeaderKey names hs) \<Longrightarrow> p \<in> set hs \<and> fst p \<notin> set names"
proof (induction names arbitrary: hs)
  case (Cons n names)
  from Cons.IH [of "deleteHeaderKey n hs"] Cons.prems show ?case by (auto simp: deleteHeaderKey_def)
qed simp

lemma sanitized: "(k, v) \<in> set (sanitizeResponseHeaders hs) \<Longrightarrow> \<not> response_framing k"
  using fold_delete [of "(k, v)" "filter response_framing (map fst hs)" hs] by (force simp: sanitizeResponseHeaders_def)

definition response_names :: "string list" where
  "response_names = [''Content-Type'', ''Content-Security-Policy'', ''Referrer-Policy'', ''Cache-Control'', ''X-Content-Type-Options'',
     ''X-Frame-Options'', ''Permissions-Policy'', ''Allow'']"

lemma plain_name_framing:
  assumes "\<forall>c \<in> set name. byte c < 128 \<and> \<not> space_byte c"
  shows "response_framing name \<longleftrightarrow> map lower_byte name \<in> set [''content-length'', ''content-encoding'', ''connection'', ''keep-alive'',
    ''proxy-authenticate'', ''proxy-authorization'', ''te'', ''trailer'', ''transfer-encoding'', ''upgrade'', ''set-cookie'']"
  using assms TrimSpace_plain [of name] ToLower_ascii [of name] unfolding response_framing_def by auto

lemma own_names: "name \<in> set response_names \<Longrightarrow> \<not> response_framing name \<and> CanonicalHeaderKey name = name"
proof -
  assume name: "name \<in> set response_names"
  have "list_all (list_all (\<lambda>c. byte c < 128 \<and> \<not> space_byte c)) response_names"
    by (simp add: response_names_def byte_def space_byte_def)
  with name have "\<forall>c \<in> set name. byte c < 128 \<and> \<not> space_byte c" by (auto simp: list_all_iff)
  moreover have "map lower_byte name \<notin> set [''content-length'', ''content-encoding'', ''connection'', ''keep-alive'',
    ''proxy-authenticate'', ''proxy-authorization'', ''te'', ''trailer'', ''transfer-encoding'', ''upgrade'', ''set-cookie'']"
    using name by (auto simp: response_names_def lower_byte_def is_upper_def byte_def char_of_def bit_0)
  moreover have "list_all (\<lambda>n. CanonicalHeaderKey n = n) response_names" unfolding response_names_def by code_simp
  ultimately show ?thesis using name plain_name_framing by (auto simp: list_all_iff)
qed

definition unframed :: "header \<Rightarrow> bool" where
  "unframed hs \<longleftrightarrow> (\<forall>(k, v) \<in> set hs. \<not> response_framing k)"

lemma unframed_set: "unframed hs \<Longrightarrow> name \<in> set response_names \<Longrightarrow> unframed (header_set name value hs)"
  using own_names [of name] by (auto simp: unframed_def dest!: member_set)

lemma unframed_own: "fst ` set hs \<subseteq> set response_names \<Longrightarrow> unframed hs"
  using own_names by (force simp: unframed_def)

lemma unframed_error: "unframed (mpHeaders (managementErrorResponse status message))" "unframed (mpHeaders (not_allowed allow))"
proof -
  show "unframed (mpHeaders (managementErrorResponse status message))" for status message
    by (rule unframed_own) (simp add: managementErrorResponse_def response_names_def)
  then show "unframed (mpHeaders (not_allowed allow))"
    using unframed_set [of "mpHeaders (managementErrorResponse 405 ''method not allowed'')" "''Allow''" allow]
    by (simp add: not_allowed_def Let_def response_names_def)
qed

lemma unframed_pages:
  "unframed (mpHeaders (forwardSidecarUIAsset pages request asset))" "unframed (mpHeaders (currentManagementResponse pages st))"
proof -
  have "unframed [(''Content-Type'', c), (''Permissions-Policy'', p), (''Referrer-Policy'', r), (''X-Content-Type-Options'', x), (''Cache-Control'', y)]"
    for c p r x y by (rule unframed_own) (simp add: response_names_def)
  then show "unframed (mpHeaders (forwardSidecarUIAsset pages request asset))"
    by (auto simp: forwardSidecarUIAsset_def Let_def unframed_error response_names_def intro!: unframed_set split: option.splits)
  show "unframed (mpHeaders (currentManagementResponse pages st))"
    by (rule unframed_own) (simp add: currentManagementResponse_def page_headers_def response_names_def)
qed

lemma unframed_answer:
  assumes "\<And>r body. unframed (mpHeaders (ok r body))"
  shows "unframed (mpHeaders (sidecar_answer limit build unread large ok out))"
  using assms unframed_error(1) by (simp add: sidecar_answer_def split: http_outcome.splits option.splits)

lemma unframed_forwarded: "unframed (sanitizeResponseHeaders hs)" "unframed (mpHeaders (ui_api_response r body))"
proof -
  show s: "unframed (sanitizeResponseHeaders hs)" for hs using sanitized by (auto simp: unframed_def)
  show "unframed (mpHeaders (ui_api_response r body))"
    by (auto simp: ui_api_response_def response_names_def intro!: unframed_set s)
qed

lemma unframed_exchange:
  "unframed (mpHeaders (fst (forwardSidecarUIAPI cl env st request u)))" "unframed (mpHeaders (fst (forwardSidecarAPICall cl env st request u)))"
  by (auto simp: forwardSidecarUIAPI_def forwardSidecarAPICall_def fst_apfst unframed_error unframed_answer unframed_forwarded
      split: option.splits sum.splits)

text \<open>
  No response of the plugin carries the sidecar's framing or cookies.  Whatever the sidecar answers, no header of any response to a
  management call names a length, an encoding, a connection property, a proxy credential, a trailer, an upgrade or a cookie, in any
  capitalisation and with any surrounding white space.
\<close>

theorem responses_carry_no_framing:
  assumes "handleManagementRequest cl env pages st raw u = (resp, u')" "(k, v) \<in> set (mpHeaders resp)"
  shows "ToLower (TrimSpace k) \<notin> {''content-length'', ''content-encoding'', ''connection'', ''keep-alive'', ''proxy-authenticate'',
    ''proxy-authorization'', ''te'', ''trailer'', ''transfer-encoding'', ''upgrade'', ''set-cookie''}"
proof -
  have "unframed (mpHeaders (fst (handleManagementRequest cl env pages st raw u)))"
    by (auto simp: handleManagementRequest_def dispatchManagement_def Let_def unframed_error unframed_pages unframed_exchange split: option.splits)
  with assms show ?thesis by (auto simp: unframed_def response_framing_def)
qed

end
