(* ===== verification/Plugin_Page.thy ===== *)
theory Plugin_Page
  imports Bridge_Properties "HOL-Library.Sublist"
begin

text \<open>
  The page that the plugin renders from a template (\<^verbatim>\<open>managementHTML\<close> and \<^verbatim>\<open>configFallbackHTML\<close> of
  \<^verbatim>\<open>plugin/codex-agent-identity/plugin.go\<close>).  The fixed markup is a parameter; what is modelled is how the
  configured addresses and the error message are escaped and put into it.
\<close>

section \<open>Escaping and replacing\<close>

text \<open>\<^verbatim>\<open>html.EscapeString\<close>.\<close>

definition html_char :: "char \<Rightarrow> string" where
  "html_char c =
     (if c = CHR ''&'' then ''&amp;'' else if byte c = 39 then ''&#39;'' else if c = CHR ''<'' then ''&lt;''
      else if c = CHR ''>'' then ''&gt;'' else if byte c = 34 then ''&#34;'' else [c])"

definition EscapeString :: "string \<Rightarrow> string" where
  "EscapeString s = concat (map html_char s)"

text \<open>\<^verbatim>\<open>Replacer.Replace\<close>: at each position the first of the markers that stands there is replaced, and the search goes on after it.\<close>

fun Replace :: "(string \<times> string) list \<Rightarrow> string \<Rightarrow> string" where
  "Replace pairs [] = []"
| "Replace pairs (c # s) =
     (case List.find (\<lambda>(old, new). old \<noteq> [] \<and> prefix old (c # s)) pairs of
        Some (old, new) \<Rightarrow> new @ Replace pairs (drop (length old - 1) s)
      | None \<Rightarrow> c # Replace pairs s)"

section \<open>The pages\<close>

definition json_string :: "string \<Rightarrow> string" where "json_string s = json_text (JStr s)"

definition page_replacements :: "string \<Rightarrow> string \<Rightarrow> (string \<times> string) list" where
  "page_replacements sidecarURL embedURL =
     [(''__EMBED_URL__'', EscapeString embedURL),
      (''__MIN_VERSION__'', ''0.3.10''),
      (''__ROOT_URL__'', json_string sidecarURL),
      (''__LOCAL_DEFAULT_URL__'', json_string defaultSidecarURL),
      (''__LEGACY_LOCAL_URL__'', json_string legacyLocalSidecarURL),
      (''__LOCAL_LOOPBACK_URLS__'', json_text (JArr [JStr legacyLocalSidecarURL, JStr legacyLocalhostSidecarURL])),
      (''__SAME_ORIGIN_PATH__'', json_string ''/agent-identity/''),
      (''__AUTH_TYPE__'', json_string ''cpa-codex-agent-identity:management-key''),
      (''__BRIDGE_QUERY_KEY__'', json_string ''cpa_bridge''),
      (''__SECURE_STORAGE_PREFIX__'', json_string ''enc::v1::''),
      (''__SECURE_STORAGE_SALT__'', json_string ''cli-proxy-api-webui::secure-storage''),
      (''__AUTH_STORAGE_KEY__'', json_string ''cli-proxy-auth''),
      (''__AUTH_SCOPE_PREFIX__'', json_string ''cli-proxy-auth:scope:''),
      (''__AUTH_SELECTION_PREFIX__'', json_string ''cli-proxy-auth:selection:''),
      (''__MANAGEMENT_OPEN_URL_PATH__'', json_string managementOpenFullPath),
      (''__RESOURCE_UI_URL_PATH__'', json_string (resource_base @ ''/ui'')),
      (''__LEGACY_MANAGEMENT_KEY_STORAGE_KEY__'', json_string ''managementKey''),
      (''__PLUGIN_ID__'', ''codex-agent-identity''),
      (''__READY_TYPE__'', ''cpa-codex-agent-identity:ready''),
      (''__UNAVAILABLE_TYPE__'', json_string ''cpa-codex-agent-identity:unavailable''),
      (''__THEME_TYPE__'', ''cpa-codex-agent-identity:theme'')]"

definition managementHTML :: "string \<Rightarrow> string \<Rightarrow> string \<Rightarrow> string" where
  "managementHTML template sidecarURL embedURL = Replace (page_replacements sidecarURL embedURL) template"

definition configFallbackHTML :: "string \<Rightarrow> string \<Rightarrow> string \<Rightarrow> string" where
  "configFallbackHTML before_message after_message message =
     before_message @ EscapeString (if TrimSpace message = [] then ''plugin configuration is invalid'' else message) @ after_message"

section \<open>No injected markup\<close>

definition angle :: "char \<Rightarrow> bool" where "angle c \<longleftrightarrow> c = CHR ''<'' \<or> c = CHR ''>''"

definition plain_value :: "string \<Rightarrow> bool" where "plain_value s \<longleftrightarrow> filter angle s = []"

lemma plain_append [simp]: "plain_value (s @ t) \<longleftrightarrow> plain_value s \<and> plain_value t" "plain_value []"
  by (simp_all add: plain_value_def)

lemma plain_Cons [simp]: "plain_value (c # s) \<longleftrightarrow> \<not> angle c \<and> plain_value s"
  by (simp add: plain_value_def)

lemma plain_concat: "(\<And>x. x \<in> set xs \<Longrightarrow> plain_value x) \<Longrightarrow> plain_value (concat xs)"
  by (induction xs) auto

lemma plain_html: "plain_value (EscapeString s)" "CHR 0x22 \<notin> set (EscapeString s)"
proof -
  have h: "plain_value (html_char c) \<and> CHR 0x22 \<notin> set (html_char c)" for c
    by (auto simp: html_char_def angle_def byte_def)
  then show "plain_value (EscapeString s)" "CHR 0x22 \<notin> set (EscapeString s)"
    by (auto simp: EscapeString_def intro!: plain_concat)
qed

lemma plain_hex: "n < 16 \<Longrightarrow> \<not> angle (hex_digit n)"
  by (auto simp: angle_def hex_digit_def less_Suc_eq numeral_eq_Suc)

lemma plain_u: "plain_value (escape_u n)"
  by (auto simp: escape_u_def hex_text_def angle_def [of "CHR ''u''"] angle_def [of backslash] intro!: plain_hex)

lemma plain_byte: "plain_value (escape_byte c)"
  using plain_u by (auto simp: escape_byte_def angle_def)

lemma plain_escape: "plain_value (escape s)"
proof (induction s rule: escape.induct)
  case (2 c cs)
  have "plain_value (escape_rune r)" for r
    using plain_u plain_byte by (auto simp: escape_rune_def intro!: plain_concat)
  with 2 plain_u show ?case by (auto simp: split: option.splits simp del: rune_len.simps)
qed simp

lemma plain_json: "plain_value (json_string s)" "plain_value (json_text (JArr [JStr a, JStr b]))"
  using plain_escape by (simp_all add: json_string_def text_str_def) (simp_all add: angle_def)

lemma plain_replacements: "\<forall>(old, new) \<in> set (page_replacements sidecarURL embedURL). plain_value new"
  using plain_json plain_html
  by (simp add: page_replacements_def) (simp add: angle_def)

lemma Replace_angles:
  assumes "\<forall>(old, new) \<in> set pairs. plain_value new"
  shows "subseq (filter angle (Replace pairs s)) (filter angle s)"
  using assms
proof (induction pairs s rule: Replace.induct)
  case (2 pairs c s)
  show ?case
  proof (cases "List.find (\<lambda>(old, new). old \<noteq> [] \<and> prefix old (c # s)) pairs")
    case None
    with 2 show ?thesis by (cases "angle c") auto
  next
    case (Some p)
    obtain old new where p: "p = (old, new)" by fastforce
    have "p \<in> set pairs" using Some by (metis find_Some_iff nth_mem)
    then have n: "filter angle new = []" using 2(3) p by (auto simp: plain_value_def)
    have "subseq (drop (length old - 1) s) (c # s)" by (metis suffix_drop suffix_ConsI suffix_imp_subseq)
    then have d: "subseq (filter angle (drop (length old - 1) s)) (filter angle (c # s))" by (rule subseq_filter)
    have "subseq (filter angle (Replace pairs (drop (length old - 1) s))) (filter angle (drop (length old - 1) s))"
      using 2(2) [OF Some p [symmetric] 2(3)] .
    with d n show ?thesis by (simp add: Some p del: filter.simps)
  qed
qed simp

text \<open>
  The configuration cannot inject markup.  Whatever the configured addresses are and whatever the template, the angle brackets of the rendered page are,
  in order, among those of the template; the address put into the frame's attribute has no quotation mark.  The page for a configuration error has exactly the
  angle brackets of its fixed parts, whatever the message.
\<close>

theorem configuration_injects_no_markup:
  "subseq (filter angle (managementHTML template sidecarURL embedURL)) (filter angle template) \<and>
   CHR 0x22 \<notin> set (EscapeString embedURL) \<and>
   filter angle (configFallbackHTML before_message after_message message) = filter angle before_message @ filter angle after_message"
  using Replace_angles [OF plain_replacements] plain_html
  by (simp add: managementHTML_def configFallbackHTML_def plain_value_def)

end
