(* ===== verification/Plugin_Witnesses.thy ===== *)
theory Plugin_Witnesses
  imports Plugin_Properties Plugin_Page Cpa_Witnesses
begin

text \<open>
  The properties of the plugin at concrete inputs.
\<close>

definition demo_base :: string where "demo_base = ''http://sidecar:8787/backend-api/codex''"

definition demo_env :: "string \<Rightarrow> string" where "demo_env name = []"

lemma demo_url:
  "url_Parse demo_base = Some (zero_url\<lparr>Scheme := ''http'', Host := ''sidecar:8787'', Path := ''/backend-api/codex''\<rparr>)"
  by (simp add: demo_base_def) code_simp

lemma demo_hosts: "ParseIP ''sidecar'' = None" "canonicalSidecarHostname ''sidecar'' = ''sidecar''" "\<not> isLoopbackSidecarHost ''sidecar''"
proof -
  have t: "TrimSpace ''sidecar'' = ''sidecar''" by (rule TrimSpace_plain) (simp add: space_byte_def byte_def)
  have l: "ToLower ''sidecar'' = ''sidecar''" by (simp add: byte_def lower_byte_def is_upper_def)
  show p: "ParseIP ''sidecar'' = None" by code_simp
  show c: "canonicalSidecarHostname ''sidecar'' = ''sidecar''" by (simp add: canonicalSidecarHostname_def t l p HasPrefix_def Let_def del: ToLower.simps)
  show "\<not> isLoopbackSidecarHost ''sidecar''" by (simp add: isLoopbackSidecarHost_def c p)
qed

lemma demo_base_ok: "validateBaseURL demo_env demo_base = Inr demo_base"
proof -
  let ?u = "zero_url\<lparr>Scheme := ''http'', Host := ''sidecar:8787'', Path := ''/backend-api/codex''\<rparr>"
  have t: "TrimSpace demo_base = demo_base" "TrimSpace ''http'' = ''http''"
    by (rule TrimSpace_plain, simp add: demo_base_def space_byte_def byte_def)+
  have r: "TrimRight demo_base ''/'' = demo_base" by (simp add: demo_base_def TrimRight_def)
  have l: "ToLower ''http'' = ''http''" by (simp add: byte_def lower_byte_def is_upper_def)
  have h: "Hostname ?u = ''sidecar''" "Port ?u = ''8787''" "EscapedPath ?u = ''/backend-api/codex''" "url_String ?u = demo_base"
    unfolding demo_base_def by code_simp+
  have "port_ok ''8787''" by code_simp
  moreover have "allowedSidecarHTTPURL demo_env ''sidecar'' ''8787''"
    using demo_hosts by (simp add: allowedSidecarHTTPURL_def fixed_hosts_def)
  moreover have "?u\<lparr>Scheme := ''http''\<rparr> = ?u" by simp
  ultimately show ?thesis
    unfolding validateBaseURL_def t(1) r demo_url using h demo_hosts t l
    by (simp add: zero_url_def allowedSidecarHosts_def fixed_hosts_def del: ToLower.simps)
qed

lemma demo_provider: "isManagedProvider ''codex''"
proof -
  have "TrimSpace ''codex'' = ''codex''" by (rule TrimSpace_plain) (simp add: space_byte_def byte_def)
  moreover have "ToLower ''codex'' = ''codex''" by (simp add: byte_def lower_byte_def is_upper_def)
  ultimately show ?thesis by (simp add: isManagedProvider_def RuntimeProvider_def del: ToLower.simps)
qed

definition demo_file :: bytes where "demo_file = credentialJSONWithDisabled demo_base demo_credential True"

lemma demo_parts_ok: "ValidString demo_base" "crKind demo_credential \<noteq> ''personal_access_token''" "crExpiresAt demo_credential = 0"
    "crClientKey demo_credential = ''cais_'' @ replicate 32 (CHR ''0'')"
proof -
  show "ValidString demo_base" unfolding demo_base_def by (rule ascii_valid) (simp add: byte_def)
qed (simp_all add: demo_credential_def identity_only_def)

lemmas demo_manager_file = demo_credential_ok demo_parts_ok(1) demo_file_name demo_provider demo_base_ok

lemma demo_handled: "\<exists>p. ParseAuthFile demo_env (\<lambda>s. None) 7 ''codex'' demo_name demo_file = Handled p"
  using manager_files [OF demo_manager_file, of 0 "\<lambda>s. None" demo_file True 7] demo_parts_ok unfolding demo_file_def by simp blast

theorem manager_files_are_read_back_witness:
  "\<exists>p. ParseAuthFile demo_env (\<lambda>s. None) 7 ''codex'' demo_name demo_file = Handled p \<and> paID p = demo_name \<and> paDisabled p \<and>
     map_get (paAttributes p) SidecarAuthorizationHeaderAttribute = Some (''Bearer '' @ ''cais_'' @ replicate 32 (CHR ''0'')) \<and>
     map_get (paAttributes p) ''base_url'' = Some demo_base"
  using manager_files_are_read_back [OF demo_manager_file, of 0 "\<lambda>s. None" demo_file True 7] demo_parts_ok
  unfolding demo_file_def by (simp del: replicate.simps) blast

theorem client_key_goes_to_trusted_hosts_witness:
  "\<exists>p u key. ParseAuthFile demo_env (\<lambda>s. None) 7 ''codex'' demo_name demo_file = Handled p \<and>
     map_get (paAttributes p) ''base_url'' = Some (url_String u) \<and> EscapedPath u = ''/backend-api/codex'' \<and>
     map_get (paAttributes p) SidecarAuthorizationHeaderAttribute = Some (''Bearer '' @ key) \<and> HasPrefix key ''cais_''"
proof -
  obtain p where p: "ParseAuthFile demo_env (\<lambda>s. None) 7 ''codex'' demo_name demo_file = Handled p"
    using demo_handled by blast
  from client_key_goes_to_trusted_hosts [OF p] p show ?thesis by blast
qed

section \<open>The bridge\<close>

definition demo_bridge :: bridge_env where
  "demo_bridge = \<lparr>beGetenv = demo_env, beYaml = \<lambda>y. None, beURLError = \<lambda>s. s\<rparr>"

lemma demo_local_api:
  "url_Parse legacyLocalSidecarAPIURL = Some (zero_url\<lparr>Scheme := ''http'', Host := ''127.0.0.1:18787'', Path := sidecarAPICallPath\<rparr>)"
  unfolding legacyLocalSidecarAPIURL_def sidecarAPICallPath_def by code_simp

lemma demo_loopback: "isLoopbackHost ''127.0.0.1''"
proof -
  have "TrimSpace ''127.0.0.1'' = ''127.0.0.1''" by (rule TrimSpace_plain) (simp add: space_byte_def byte_def)
  moreover have "TrimBoth ''127.0.0.1'' ''[]'' = ''127.0.0.1''" by (simp add: TrimBoth_def TrimRight_def)
  moreover have "case ParseIP ''127.0.0.1'' of None \<Rightarrow> False | Some ip \<Rightarrow> IsLoopback ip"
    by (simp add: ParseIP_def parseIPv4_def ipv4_field_def is_digit_def byte_def IsLoopback_def To4_def)
  ultimately show ?thesis by (simp add: isLoopbackHost_def)
qed

lemma demo_target: "sidecarManagementAPIURL demo_bridge initial_state = Inr legacyLocalSidecarAPIURL"
proof -
  let ?u = "zero_url\<lparr>Scheme := ''http'', Host := ''127.0.0.1:18787'', Path := sidecarAPICallPath\<rparr>"
  have t: "TrimSpace legacyLocalSidecarAPIURL = legacyLocalSidecarAPIURL" "TrimSpace defaultSidecarURL = defaultSidecarURL"
    by (rule TrimSpace_plain, simp add: legacyLocalSidecarAPIURL_def defaultSidecarURL_def space_byte_def byte_def)+
  have u: "url_String ?u = legacyLocalSidecarAPIURL" "Hostname ?u = ''127.0.0.1''"
    unfolding legacyLocalSidecarAPIURL_def sidecarAPICallPath_def by code_simp+
  have ne: "legacyLocalSidecarAPIURL \<noteq> []" "sidecarAPICallPath \<noteq> []" "sidecarAPICallPath \<noteq> ''/''"
    by (simp_all add: legacyLocalSidecarAPIURL_def sidecarAPICallPath_def)
  have same: "?u\<lparr>Path := sidecarAPICallPath, RawPath := []\<rparr> = ?u" by (simp add: zero_url_def)
  have n: "normalizeSidecarAPIURL legacyLocalSidecarAPIURL = Inr legacyLocalSidecarAPIURL"
    unfolding normalizeSidecarAPIURL_def t Let_def demo_local_api using ne u same by (simp add: IsAbs_def) (simp add: zero_url_def)
  have v: "validateTrustedSidecarAPIURL legacyLocalSidecarAPIURL ''default-loopback'' = Inr legacyLocalSidecarAPIURL"
    unfolding validateTrustedSidecarAPIURL_def n using u demo_loopback by (simp add: demo_local_api IsAbs_def)
  have d: "url_Parse defaultSidecarURL = Some (zero_url\<lparr>Path := defaultSidecarURL\<rparr>)" unfolding defaultSidecarURL_def by code_simp
  have c: "configuredRuntimeSidecarAPIURL demo_bridge = []"
    by (simp add: configuredRuntimeSidecarAPIURL_def demo_bridge_def demo_env_def splitRuntimeList_def)
  have f: "localSidecarFallbackEnabled defaultSidecarURL" by (simp add: localSidecarFallbackEnabled_def t)
  show ?thesis
    unfolding sidecarManagementAPIURL_def using v d c f t by (simp add: initial_state_def zero_state_def IsAbs_def zero_url_def)
qed

theorem management_target_is_trusted_witness:
  "\<exists>u. url_Parse legacyLocalSidecarAPIURL = Some u \<and> Host u \<noteq> [] \<and> (Scheme u = ''http'' \<or> Scheme u = ''https'')"
  using management_target_is_trusted [OF steps_refl demo_target] by blast

definition demo_sidecar :: "unit transport" where
  "demo_sidecar rq u = (Response \<lparr>rsStatus = 200, rsHeader = [(''Set-Cookie'', ''a=b''), (''Date'', ''x'')], rsBody = ''{}'', rsReadable = True\<rparr>, u)"

definition demo_pages :: bridge_pages where
  "demo_pages = \<lparr>bpAsset = \<lambda>n. None, bpManagementHTML = \<lambda>s e. [], bpConfigFallbackHTML = \<lambda>m. []\<rparr>"

definition demo_call :: json where
  "demo_call = JObj [(''Method'', JStr ''POST''), (''Path'', JStr managementAPICallFullPath)]"

lemma demo_decoded:
  "decode_management (json_text demo_call) =
     Some \<lparr>mgMethod = ''POST'', mgPath = managementAPICallFullPath, mgHeaders = [], mgQuery = [], mgBody = []\<rparr>"
proof -
  have v: "ValidString ''Method''" "ValidString ''Path''" "ValidString ''POST''" "ValidString managementAPICallFullPath"
    by (rule ascii_valid, simp add: managementAPICallFullPath_def byte_def)+
  have "json_parse (json_text demo_call) = Some demo_call"
    unfolding demo_call_def by (intro parse_text) (simp_all add: v maxNestingDepth_def del: ValidString.simps)
  moreover have "\<not> EqualFold ''Method'' k" if "k \<in> set [''Path'', ''Headers'', ''Query'', ''Body'']" for k
    using that by (auto simp: EqualFold_def lower_byte_def is_upper_def byte_def)
  moreover have "\<not> EqualFold ''Path'' k" if "k \<in> set [''Method'', ''Headers'', ''Query'', ''Body'']" for k
    using that by (auto simp: EqualFold_def lower_byte_def is_upper_def byte_def)
  moreover have "EqualFold ''Method'' ''Method''" "EqualFold ''Path'' ''Path''" by (simp_all add: EqualFold_def)
  ultimately show ?thesis by (simp add: decode_management_def demo_call_def struct_keys_def dec_str_def)
qed

lemma demo_forwarded:
  "handleManagementRequest demo_sidecar demo_bridge demo_pages initial_state (json_text demo_call) () =
     (\<lparr>mpStatusCode = 200, mpHeaders = sanitizeResponseHeaders [(''Set-Cookie'', ''a=b''), (''Date'', ''x'')], mpBody = ''{}''\<rparr>, ())"
  using demo_target
  by (simp add: handleManagementRequest_def demo_decoded dispatchManagement_def managementAPICallFullPath_def forwardSidecarAPICall_def
      maxForwardBodyBytes_def sidecar_do_def demo_sidecar_def redirected_def sidecar_answer_def LimitReader_def)

theorem responses_carry_no_framing_witness:
  "\<exists>resp. handleManagementRequest demo_sidecar demo_bridge demo_pages initial_state (json_text demo_call) () = (resp, ()) \<and>
     (\<forall>(k, v) \<in> set (mpHeaders resp). ToLower (TrimSpace k) \<noteq> ''set-cookie'') \<and> mpBody resp = ''{}''"
  using responses_carry_no_framing [OF demo_forwarded] demo_forwarded by fastforce

end
