(* ===== verification/Sidecar_Main.thy ===== *)
theory Sidecar_Main
  imports Outbound_Route Cpa_Guarantees Store_Reopen
begin

text \<open>
  The start of the sidecar (\<^verbatim>\<open>cmd/sidecar/main.go\<close>): the configuration read from the environment with its checks, the opening of
  the store, and the reconciliation of the stored credentials with CPA.  The listener and the signal handling that follow are not modelled.
  \<open>ctx_of\<close> gives the context with its timeout that the reconciliation makes for an identity.
\<close>

section \<open>Configuration\<close>

datatype start_error =
    StartText string | StartProxy proxy_error | StartKey crypto_error | StartStore store_error | StartChannel manager_error
  | StartServer config_error | StartRoute

record startup =
  suListenAddress :: string
  suDataDirectory :: string
  suManagementKey :: string
  suUpstreamOrigin :: url
  suCpaURL :: string
  suCpaKey :: string
  suTransport :: hotReloadTransport
  suManager :: Manager
  suEncryptionKey :: "bytes option"

definition start_key :: "sys_env \<Rightarrow> start_error + string" where
  "start_key env =
     (case readSecret env ''MANAGEMENT_KEY'' ''MANAGEMENT_KEY_FILE'' of
        Inl err \<Rightarrow> Inl (StartText err)
      | Inr key \<Rightarrow> if length key < 24 then Inl (StartText ''management key must contain at least 24 characters'') else Inr key)"

definition start_upstream :: "sys_env \<Rightarrow> start_error + url" where
  "start_upstream env =
     (case url_Parse (envOrDefault env ''UPSTREAM_ORIGIN'' ''https://chatgpt.com'') of
        None \<Rightarrow> Inl (StartText ''UPSTREAM_ORIGIN is invalid'')
      | Some u \<Rightarrow>
          if Scheme u = [] \<or> Host u = [] then Inl (StartText ''UPSTREAM_ORIGIN is invalid'')
          else case boolEnv env ''ALLOW_INSECURE_UPSTREAM'' False of
            Inl err \<Rightarrow> Inl (StartText err)
          | Inr allow \<Rightarrow>
              if HasUser u \<or> RawQuery u \<noteq> [] \<or> Fragment u \<noteq> [] \<or> Scheme u \<noteq> ''https'' \<and> \<not> (allow \<and> Scheme u = ''http'')
              then Inl (StartText ''UPSTREAM_ORIGIN must be an HTTPS origin without credentials, query, or fragment'')
              else Inr u)"

text \<open>The address and the key of CPA's management interface and the address of its configuration; all empty without CPA.\<close>

definition start_cpa :: "sys_env \<Rightarrow> string \<Rightarrow> start_error + string \<times> string \<times> string" where
  "start_cpa env managementKey =
     (let url = TrimSpace (seGetenv env ''CPA_MANAGEMENT_URL'');
          own = (seGetenv env ''CPA_MANAGEMENT_KEY'' \<noteq> [] \<or> seGetenv env ''CPA_MANAGEMENT_KEY_FILE'' \<noteq> []) in
      if url = [] then Inr ([], managementKey, [])
      else case (if own then readSecret env ''CPA_MANAGEMENT_KEY'' ''CPA_MANAGEMENT_KEY_FILE'' else Inr managementKey) of
        Inl err \<Rightarrow> Inl (StartText err)
      | Inr key \<Rightarrow> (case managementConfigURL url of Inl err \<Rightarrow> Inl (StartText err) | Inr config \<Rightarrow> Inr (url, key, config)))"

definition start_transport :: "(string \<Rightarrow> int option) \<Rightarrow> sys_env \<Rightarrow> string \<Rightarrow> string \<Rightarrow> string \<Rightarrow> start_error + hotReloadTransport" where
  "start_transport duration env cpaURL cpaKey config =
     (case readOptionalSecret env ''OUTBOUND_PROXY'' ''OUTBOUND_PROXY_FILE'' of
        Inl err \<Rightarrow> Inl (StartProxy err)
      | Inr (outboundProxy, _) \<Rightarrow>
     (case proxyPollInterval duration env of
        Inl err \<Rightarrow> Inl (StartText err)
      | Inr poll \<Rightarrow>
     (case newProxyConfigSource outboundProxy ''OUTBOUND_PROXY'' ''OUTBOUND_PROXY_FILE'' config cpaKey (cpaURL \<noteq> []) poll of
        Inl err \<Rightarrow> Inl (StartText err)
      | Inr source \<Rightarrow> (case newHotReloadTransport outboundProxy source of None \<Rightarrow> Inl StartRoute | Some t \<Rightarrow> Inr t))))"

definition start_encryption :: "sys_env \<Rightarrow> start_error + bytes option" where
  "start_encryption env =
     (case readOptionalSecret env ''DATA_ENCRYPTION_KEY'' ''DATA_ENCRYPTION_KEY_FILE'' of
        Inl err \<Rightarrow> Inl (StartProxy err)
      | Inr (value, True) \<Rightarrow> (case ParseEncryptionKey value of Inl err \<Rightarrow> Inl (StartKey err) | Inr key \<Rightarrow> Inr (Some key))
      | Inr (_, False) \<Rightarrow>
          (case boolEnv env ''ALLOW_PLAINTEXT_STORE'' False of
             Inl err \<Rightarrow> Inl (StartText err)
           | Inr allow \<Rightarrow>
               if allow then Inr None else Inl (StartText ''DATA_ENCRYPTION_KEY_FILE is required unless ALLOW_PLAINTEXT_STORE=true'')))"

definition start_config :: "(string \<Rightarrow> int option) \<Rightarrow> sys_env \<Rightarrow> start_error + startup" where
  "start_config duration env =
     (case start_key env of
        Inl err \<Rightarrow> Inl err
      | Inr key \<Rightarrow>
     (case start_upstream env of
        Inl err \<Rightarrow> Inl err
      | Inr origin \<Rightarrow>
     (case start_cpa env key of
        Inl err \<Rightarrow> Inl err
      | Inr (cpaURL, cpaKey, config) \<Rightarrow>
     (case start_transport duration env cpaURL cpaKey config of
        Inl err \<Rightarrow> Inl err
      | Inr t \<Rightarrow>
     (case start_encryption env of
        Inl err \<Rightarrow> Inl err
      | Inr encryptionKey \<Rightarrow>
          Inr \<lparr>suListenAddress = envOrDefault env ''LISTEN_ADDR'' '':8787'', suDataDirectory = envOrDefault env ''DATA_DIR'' ''/data'',
            suManagementKey = key, suUpstreamOrigin = origin, suCpaURL = cpaURL, suCpaKey = cpaKey, suTransport = t,
            suManager = NewManagerWithPersonalAccessTokenAPI (envOrDefault env ''JWKS_URL'' DefaultJWKSURL)
              (envOrDefault env ''AUTH_API_BASE_URL'' DefaultAuthAPIURL)
              (envOrDefault env ''PERSONAL_ACCESS_TOKEN_AUTH_API_BASE_URL'' DefaultPersonalAccessTokenAuthAPIURL),
            suEncryptionKey = encryptionKey\<rparr>)))))"

section \<open>Reconciliation\<close>

definition reconcile_account :: "Identity \<Rightarrow> string" where
  "reconcile_account i = (if IsPersonalAccessToken (idToken i) \<and> idAccountScoped i then idAccountID i else [])"

definition reconcile_identity :: "('u, 'w) Server \<Rightarrow> CpaManager \<Rightarrow> 'w api \<Rightarrow> (string \<Rightarrow> ctx) \<Rightarrow> Identity \<Rightarrow> ('u, 'w) world \<Rightarrow> ('u, 'w) world" where
  "reconcile_identity sv m api ctx_of i w =
     (if TrimSpace (idClientKey i) = [] then w
      else case on_cpa (ProxyForIdentity (svCrypto sv) m api (ctx_of (idID i)) (idID i)) w of
        (Inl _, w1) \<Rightarrow> w1
      | (Inr proxy, w1) \<Rightarrow>
          (case inspect sv proxy (idToken i) (reconcile_account i) w1 of
             (Inl _, w2) \<Rightarrow> w2
           | (Inr credential, w2) \<Rightarrow>
               (let w3 = snd (store_update sv (idID i) (storeMetadata (Some credential) (idAccountScoped i)) w2) in
                snd (on_cpa (UpsertIdentity (svCrypto sv) m api (ctx_of (idID i))
                  (cpaCredential (idID i) (idClientKey i) (idToken i) (Some credential))) w3))))"

definition reconcileStoredCredentials :: "('u, 'w) Server \<Rightarrow> (string \<Rightarrow> ctx) \<Rightarrow> ('u, 'w) world \<Rightarrow> ('u, 'w) world" where
  "reconcileStoredCredentials sv ctx_of w =
     (case svChannels sv of
        None \<Rightarrow> w
      | Some (m, api) \<Rightarrow> fold (reconcile_identity sv m api ctx_of) (ListForSync (stored w)) w)"

section \<open>The start\<close>

definition start_channel :: "startup \<Rightarrow> string \<Rightarrow> start_error + CpaManager option" where
  "start_channel su publicBase =
     (if suCpaURL su = [] then Inr None else map_sum StartChannel Some (NewCpaManager (suCpaURL su) (suCpaKey su) publicBase))"

definition start_server_config :: "sys_env \<Rightarrow> startup \<Rightarrow> int \<Rightarrow> string \<Rightarrow> bool \<Rightarrow> Config" where
  "start_server_config env su replay publicBase enforce =
     \<lparr>cfUpstreamOrigin = Some (suUpstreamOrigin su), cfPublicCPABaseURL = publicBase, cfManagementKey = suManagementKey su,
      cfMaxReplayBodyBytes = replay, cfEnforceIdentityProxy = enforce, cfBackupDir = [],
      cfEmbedAllowedOrigins = SplitAt (CHR '','') (seGetenv env ''EMBED_ALLOWED_ORIGINS'')\<rparr>"

text \<open>
  \<^verbatim>\<open>run\<close> up to the listener.  The result is the server's configuration with its channels and the transport; the state after a failed start is
  that of the failed call.
\<close>

definition start_service ::
  "'w api \<Rightarrow> (string \<Rightarrow> ctx) \<Rightarrow> sys_env \<Rightarrow> startup \<Rightarrow> ('u, 'w) Server \<Rightarrow> ('u, 'w) world \<Rightarrow>
   (start_error + Config \<times> ('u, 'w) Server) \<times> ('u, 'w) world" where
  "start_service api ctx_of env su sv w =
     (case int64Env env ''MAX_REPLAY_BODY_BYTES'' (16 * 2 ^ 20) of
        Inl err \<Rightarrow> (Inl (StartText err), w)
      | Inr replay \<Rightarrow>
          (let publicBase = envOrDefault env ''PUBLIC_CPA_BASE_URL'' ''http://127.0.0.1:8787/backend-api/codex'' in
           case boolEnv env ''CPA_RECONCILE_ON_START'' True of
             Inl err \<Rightarrow> (Inl (StartText err), w)
           | Inr reconcile \<Rightarrow>
               (case start_channel su publicBase of
                  Inl err \<Rightarrow> (Inl err, w)
                | Inr channel \<Rightarrow>
                    (let sv1 = sv\<lparr>svChannels := map_option (\<lambda>m. (m, api)) channel\<rparr>;
                         w1 = (if reconcile then reconcileStoredCredentials sv1 ctx_of w else w) in
                     case NewServer (svBackupEnv sv1 (wTick w1)) (stDir (stored w1)) (start_server_config env su replay publicBase (channel \<noteq> None)) (wBackup w1) of
                       (Inl err, fs) \<Rightarrow> (Inl (StartServer err), w1\<lparr>wBackup := fs\<rparr>)
                     | (Inr cfg, fs) \<Rightarrow> (Inr (cfg, sv1), w1\<lparr>wBackup := fs\<rparr>)))))"

definition run_sidecar ::
  "(string \<Rightarrow> int option) \<Rightarrow> sys_env \<Rightarrow> 'p transport \<Rightarrow> (nat \<Rightarrow> time) \<Rightarrow> 'w api \<Rightarrow> (string \<Rightarrow> ctx) \<Rightarrow> ('u, 'w) Server \<Rightarrow> (string \<Rightarrow> bytes option) \<Rightarrow>
   'p \<Rightarrow> disk \<Rightarrow> 'u \<Rightarrow> 'w env \<Rightarrow> backup_files \<Rightarrow>
   start_error + hotReloadTransport \<times> 'p \<times> (Config \<times> ('u, 'w) Server) \<times> ('u, 'w) world" where
  "run_sidecar duration env proxyClient clock api ctx_of sv rnd p d u e fs =
     (case start_config duration env of
        Inl err \<Rightarrow> Inl err
      | Inr su \<Rightarrow>
          (case refresh proxyClient env clock (suTransport su) p of
             (_, t, p') \<Rightarrow>
               (case Open (svCrypto sv) (svOS sv 0) rnd (suEncryptionKey su) (suDataDirectory su) d of
                  (Inl err, _) \<Rightarrow> Inl (StartStore err)
                | (Inr s, d') \<Rightarrow>
                    (case start_service api ctx_of env su sv \<lparr>wStore = (s, d'), wManager = (suManager su, u), wCpa = e, wBackup = fs, wTick = 1\<rparr> of
                       (Inl err, _) \<Rightarrow> Inl err
                     | (Inr r, w') \<Rightarrow> Inr (t, p', r, w')))))"

definition runHealthcheck :: "sys_env \<Rightarrow> 'u transport \<Rightarrow> 'u \<Rightarrow> string option \<times> 'u" where
  "runHealthcheck env cl u =
     (case cl \<lparr>rqMethod = ''GET'', rqURL = envOrDefault env ''HEALTHCHECK_URL'' ''http://127.0.0.1:8787/healthz'', rqHeader = [], rqBody = []\<rparr> u of
        (Response r, u') \<Rightarrow> (if rsStatus r \<noteq> 200 then Some ''healthcheck returned a non-200 status'' else None, u')
      | (_, u') \<Rightarrow> (Some ''healthcheck failed'', u'))"

end
