(* ===== verification/Sidecar_Properties.thy ===== *)
theory Sidecar_Properties
  imports Sidecar_Main
begin

text \<open>
  Properties of the start: what a started sidecar has checked, and what the reconciliation with CPA may change.
\<close>

section \<open>Reconciliation\<close>

text \<open>What identifies a stored credential, as opposed to its metadata.\<close>

definition secret_part :: "Identity \<Rightarrow> string \<times> string \<times> string \<times> time" where
  "secret_part i = (idToken i, idClientKey i, idClientKeyHash i, idCreatedAt i)"

definition secrets_kept :: "Store \<Rightarrow> Store \<Rightarrow> bool" where
  "secrets_kept s s' \<longleftrightarrow> stCipher s' = stCipher s \<and> stDir s' = stDir s \<and> fileByID s' = fileByID s \<and>
     (\<forall>k. map_option secret_part (map_get (byID s') k) = map_option secret_part (map_get (byID s) k)) \<and>
     (\<forall>h. map_option secret_part (map_get (byKeyHash s') h) = map_option secret_part (map_get (byKeyHash s) h))"

lemma secrets_refl [simp]: "secrets_kept s s"
  by (simp add: secrets_kept_def)

lemma secrets_trans: "secrets_kept s t \<Longrightarrow> secrets_kept t v \<Longrightarrow> secrets_kept s v"
  by (auto simp: secrets_kept_def)

lemma update_keeps_secrets:
  assumes ok: "store_ok C s" and "UpdateMetadata C os rnd i md (s, d) = (res, s', d')"
  shows "secrets_kept s s' \<and> store_ok C s'"
proof -
  have "store_ok C s'" by (rule UpdateMetadata_ok [OF assms])
  moreover have "secret_part (withMetadata md cur) = secret_part cur" for cur by (simp add: secret_part_def)
  moreover have "map_get (byKeyHash s) (idClientKeyHash cur) = Some cur" if "map_get (byID s) k = Some cur" for k cur
    using ok that by (auto simp: store_ok_def)
  ultimately show ?thesis
    using UpdateMetadata_cases [OF assms(2)] by (auto simp: secrets_kept_def)
qed

text \<open>What the reconciliation of one identity may change.\<close>

definition reconciled :: "crypto \<Rightarrow> ('w \<Rightarrow> string \<Rightarrow> bytes option) \<Rightarrow> Identity list \<Rightarrow> ('u, 'w) world \<Rightarrow> ('u, 'w) world \<Rightarrow> bool" where
  "reconciled C files ids w w' \<longleftrightarrow>
     store_ok C (stored w') \<and> secrets_kept (stored w) (stored w') \<and> wBackup w' = wBackup w \<and>
     (\<forall>n raw. files (wld (wCpa w)) n = Some raw \<and> (\<forall>i \<in> set ids. \<not> isManagedCredential (take (4 * mebi) raw) (idID i)) \<longrightarrow>
        files (wld (wCpa w')) n = Some raw)"

lemma proxy_reads:
  assumes "file_server m api files" "ProxyForIdentity C m api ctx i e = (r, e')"
  shows "files (wld e') = files (wld e)"
proof -
  let ?c = "normalizeCredential (identity_only (TrimSpace i))"
  obtain sn e1 where s: "SnapshotIdentity C m api ctx i e = (sn, e1)" by fastforce
  obtain f e2 where f: "managedAuthFilesForCredentials C m api ctx [?c] e = (f, e2)" by fastforce
  have "files (wld e1) = files (wld e)"
  proof (cases "validateIdentityID (crIdentityID ?c)")
    case True
    then show ?thesis
      using s discover_fact [OF assms(1) normalize_idem True f] f
      by (auto simp: SnapshotIdentity_def SnapshotCredential_def Let_def split: sum.splits)
  qed (use s in \<open>simp add: SnapshotIdentity_def SnapshotCredential_def Let_def\<close>)
  then show ?thesis using assms(2) s by (auto simp: ProxyForIdentity_def split: sum.splits list.splits)
qed

lemma upsert_keeps_foreign:
  assumes "file_server m api files" "UpsertIdentity C m api ctx c e = (r, e')" "files (wld e) n = Some raw"
    and "\<not> isManagedCredential (take (4 * mebi) raw) (crIdentityID c)"
  shows "files (wld e') n = Some raw"
proof -
  have "seen (files (wld e)) n = Some (take (4 * mebi) raw)" using assms(3) by (simp add: seen_def)
  then show ?thesis
    using upsert_fact [OF assms(1,2), THEN conjunct1] assms(3,4) unfolding foreign_kept_def isManaged_normalize by metis
qed

lemma reconcile_one:
  assumes srv: "file_server m api files" and ok: "store_ok (svCrypto sv) (stored w)"
  shows "reconciled (svCrypto sv) files [i] w (reconcile_identity sv m api ctx_of i w)"
proof -
  let ?R = "reconciled (svCrypto sv) files [i] w"
  have start: "?R w" using ok by (simp add: reconciled_def)
  obtain p w1 where w1: "on_cpa (ProxyForIdentity (svCrypto sv) m api (ctx_of (idID i)) (idID i)) w = (p, w1)" by fastforce
  note f1 = on_cpa_frame [OF w1]
  have r1: "?R w1" using start f1 proxy_reads [OF srv, of "svCrypto sv" "ctx_of (idID i)" "idID i" "wCpa w" p "wCpa w1"] by (simp add: reconciled_def)
  obtain c w2 where w2: "inspect sv (projr p) (idToken i) (reconcile_account i) w1 = (c, w2)" by fastforce
  have r2: "?R w2" using r1 inspect_frame [OF w2] by (simp add: reconciled_def)
  define md where "md = storeMetadata (Some (projr c)) (idAccountScoped i)"
  obtain u w3 where w3: "store_update sv (idID i) md w2 = (u, w3)" by fastforce
  have r3: "?R w3"
  proof -
    obtain s d where sd: "wStore w2 = (s, d)" by fastforce
    obtain os rnd where upd: "UpdateMetadata (svCrypto sv) os rnd (idID i) md (s, d) = (u, wStore w3)"
      using w3 sd by (auto simp: store_update_def Let_def split: prod.splits)
    have "store_ok (svCrypto sv) s" using r2 sd by (simp add: reconciled_def)
    from update_keeps_secrets [OF this, of os rnd "idID i" md d u "fst (wStore w3)" "snd (wStore w3)"] upd
    have "secrets_kept s (stored w3) \<and> store_ok (svCrypto sv) (stored w3)" by simp
    then show ?thesis using r2 sd store_frames(4) [OF w3] secrets_trans by (auto simp: reconciled_def)
  qed
  obtain v w4 where w4: "on_cpa (UpsertIdentity (svCrypto sv) m api (ctx_of (idID i)) (cpaCredential (idID i) (idClientKey i) (idToken i) (Some (projr c)))) w3 = (v, w4)"
    by fastforce
  have r4: "?R w4"
    using r3 on_cpa_frame [OF w4] upsert_keeps_foreign [OF srv, of "svCrypto sv" "ctx_of (idID i)" _ "wCpa w3" v "wCpa w4"]
    by (auto simp: reconciled_def cpaCredential_def)
  show ?thesis
    unfolding reconcile_identity_def using start r1 r2 r4 w1 w2 w3 w4
    by (cases p; cases c) (simp_all add: md_def)
qed

lemma reconciled_trans:
  "reconciled C files xs w w1 \<Longrightarrow> reconciled C files ys w1 w2 \<Longrightarrow> reconciled C files (xs @ ys) w w2"
  unfolding reconciled_def using secrets_trans by auto

lemma reconcile_all:
  assumes srv: "file_server m api files"
  shows "store_ok (svCrypto sv) (stored w) \<Longrightarrow> reconciled (svCrypto sv) files ids w (fold (reconcile_identity sv m api ctx_of) ids w)"
proof (induction ids arbitrary: w)
  case (Cons i ids)
  let ?w = "reconcile_identity sv m api ctx_of i w"
  have one: "reconciled (svCrypto sv) files [i] w ?w" by (rule reconcile_one [OF srv Cons.prems])
  then have "store_ok (svCrypto sv) (stored ?w)" by (simp add: reconciled_def)
  from reconciled_trans [OF one Cons.IH [OF this]] show ?case by simp
qed (simp add: reconciled_def)


section \<open>The opened store\<close>

definition migrated :: "Store \<Rightarrow> Identity \<Rightarrow> Identity" where
  "migrated s i = (if stCipher s \<noteq> None \<and> idVersion i \<noteq> identityVersionEncrypted then i\<lparr>idVersion := identityVersionEncrypted\<rparr> else i)"

lemma migrated_fields: "idID (migrated s i) = idID i" "idClientKeyHash (migrated s i) = idClientKeyHash i"
  "stCipher s \<noteq> None \<Longrightarrow> idVersion (migrated s i) = identityVersionEncrypted"
  by (simp_all add: migrated_def)

lemma migrated_valid: "validIdentity C i \<Longrightarrow> validIdentity C (migrated s i)"
  by (auto simp: migrated_def validIdentity_def split: if_splits option.splits)

lemma load_cases:
  assumes "loadIdentityFile C os rnd (name, node) (s, d) = (Inr s', d')"
  shows "s' = s \<or> (\<exists>i. validIdentity C i \<and> map_get (byID s) (idID i) = None \<and> map_get (byKeyHash s) (idClientKeyHash i) = None \<and>
    s' = s\<lparr>byID := map_put (idID i) (migrated s i) (byID s), byKeyHash := map_put (idClientKeyHash i) (migrated s i) (byKeyHash s),
      fileByID := map_put (idID i) (stDir s, name) (fileByID s)\<rparr>)"
proof (cases "s' = s")
  case False
  have skip: "\<not> (nodeDir node \<or> nodeSymlink node \<or> \<not> HasSuffix (ToLower name) ''.json'')"
    "\<not> (fails os (EntryInfo name) \<or> \<not> nodeRegular node)" "\<not> (\<not> windows os \<and> nodePerm node mod 64 \<noteq> 0)" "\<not> fails os (ReadFile name)"
    using assms False by (auto simp: loadIdentityFile_def split: if_splits)
  obtain i where i: "decodeIdentity C (stCipher s) (nodeData node) = Inr i"
    using assms skip by (cases "decodeIdentity C (stCipher s) (nodeData node)") (auto simp: loadIdentityFile_def split: if_splits)
  have v: "validIdentity C i" "\<not> (map_get (byID s) (idID i) \<noteq> None \<or> map_get (byKeyHash s) (idClientKeyHash i) \<noteq> None)"
    using assms skip i by (auto simp: loadIdentityFile_def split: if_splits)
  have "s' = s\<lparr>byID := map_put (idID i) (migrated s i) (byID s), byKeyHash := map_put (idClientKeyHash i) (migrated s i) (byKeyHash s),
      fileByID := map_put (idID i) (stDir s, name) (fileByID s)\<rparr>"
  proof (cases "stCipher s \<noteq> None \<and> idVersion i \<noteq> identityVersionEncrypted")
    case True
    then show ?thesis using assms skip i v
      by (auto simp: loadIdentityFile_def migrated_def Let_def split: if_splits sum.splits prod.splits)
  next
    case False
    then show ?thesis using assms skip i v by (auto simp: loadIdentityFile_def migrated_def Let_def split: if_splits)
  qed
  with v show ?thesis by (intro disjI2 exI [of _ i]) simp
qed simp

lemma loaded_file:
  assumes ok: "store_ok C s" and l: "loadIdentityFile C os rnd e (s, d) = (Inr s', d')"
  shows "store_ok C s' \<and> stCipher s' = stCipher s \<and> stDir s' = stDir s"
proof -
  obtain name node where e: "e = (name, node)" by fastforce
  show ?thesis
  proof (cases "s' = s")
    case False
    with load_cases [OF l [unfolded e]] obtain i where i: "validIdentity C i" "map_get (byID s) (idID i) = None"
      "map_get (byKeyHash s) (idClientKeyHash i) = None"
      "s' = s\<lparr>byID := map_put (idID i) (migrated s i) (byID s), byKeyHash := map_put (idClientKeyHash i) (migrated s i) (byKeyHash s),
        fileByID := map_put (idID i) (stDir s, name) (fileByID s)\<rparr>" by blast
    have "s' = publish (migrated s i) (stDir s, name) s" using i(2,4) by (simp add: publish_def migrated_fields)
    moreover have "store_ok C (publish (migrated s i) (stDir s, name) s)"
      using i migrated_valid by (intro publish_ok [OF ok]) (simp_all add: key_unused_def migrated_fields)
    ultimately show ?thesis by simp
  qed (use ok in simp)
qed

lemma loaded_files:
  "store_ok C s \<Longrightarrow> loadIdentityFiles C os rnd es (s, d) = (Inr s', d') \<Longrightarrow> store_ok C s' \<and> stCipher s' = stCipher s \<and> stDir s' = stDir s"
proof (induction es arbitrary: s d)
  case (Cons e es)
  obtain t d1 where t: "loadIdentityFile C os rnd e (s, d) = (Inr t, d1)" "loadIdentityFiles C os rnd es (t, d1) = (Inr s', d')"
    using Cons.prems(2) by (auto split: sum.splits prod.splits)
  from loaded_file [OF Cons.prems(1) t(1)] Cons.IH [OF _ t(2)] show ?case by simp
qed simp

text \<open>Whatever is on the disk: a store that opens is consistent, and it encrypts exactly when a key is configured.\<close>

lemma opened_store:
  assumes "Open C os rnd key dir d = (Inr s, d')"
  shows "store_ok C s \<and> (stCipher s = None \<longleftrightarrow> key = None) \<and> stDir s = TrimSpace dir"
proof -
  obtain c where c: "(case key of None \<Rightarrow> Inr None | Some k \<Rightarrow> map_sum id Some (newTokenCipher k)) = Inr c"
    and l: "loadIdentityFiles C os rnd (sort_key fst (entries d)) (emptyStore (TrimSpace dir) c, d) = (Inr s, d')"
    using assms by (auto simp: Open_def Let_def split: if_splits sum.splits)
  have "cipher_ok c" "c = None \<longleftrightarrow> key = None"
    using c by (auto simp: newTokenCipher_def cipher_ok_def split: option.splits if_splits)
  moreover have "store_ok C (emptyStore (TrimSpace dir) c)" if "cipher_ok c"
    using that by (simp add: store_ok_def emptyStore_def gomap_ok_def)
  ultimately show ?thesis using loaded_files [OF _ l] by (simp add: emptyStore_def)
qed

section \<open>A started sidecar\<close>

lemma config_checked:
  assumes "start_config duration env = Inr su"
  shows "length (suManagementKey su) \<ge> 24" "start_upstream env = Inr (suUpstreamOrigin su)"
    "start_encryption env = Inr (suEncryptionKey su)" "route_init (suTransport su)"
proof -
  obtain key origin cpaURL cpaKey config t enc where c: "start_key env = Inr key" "start_upstream env = Inr origin"
    "start_cpa env key = Inr (cpaURL, cpaKey, config)" "start_transport duration env cpaURL cpaKey config = Inr t" "start_encryption env = Inr enc"
    and su: "suManagementKey su = key" "suUpstreamOrigin su = origin" "suTransport su = t" "suEncryptionKey su = enc"
    using assms by (auto simp: start_config_def split: sum.splits)
  show "length (suManagementKey su) \<ge> 24" using c(1) su by (auto simp: start_key_def split: sum.splits if_splits)
  show "start_upstream env = Inr (suUpstreamOrigin su)" "start_encryption env = Inr (suEncryptionKey su)" using c su by simp_all
  show "route_init (suTransport su)"
    using c(4) su unfolding start_transport_def by (auto split: sum.splits option.splits intro: route_init.init)
qed

lemma checked_upstream:
  assumes "start_upstream env = Inr u"
  shows "Host u \<noteq> [] \<and> \<not> HasUser u \<and> RawQuery u = [] \<and> Fragment u = [] \<and>
    (Scheme u = ''https'' \<or> Scheme u = ''http'' \<and> boolEnv env ''ALLOW_INSECURE_UPSTREAM'' False = Inr True)"
  using assms by (auto simp: start_upstream_def split: option.splits if_splits sum.splits)

lemma checked_encryption:
  "start_encryption env = Inr None \<Longrightarrow> boolEnv env ''ALLOW_PLAINTEXT_STORE'' False = Inr True"
  by (auto simp: start_encryption_def split: sum.splits bool.splits if_splits)

lemma server_settings:
  "NewServer env dir cfg fs = (Inr cfg', fs') \<Longrightarrow>
     cfManagementKey cfg' = cfManagementKey cfg \<and> cfUpstreamOrigin cfg' = cfUpstreamOrigin cfg \<and> cfEnforceIdentityProxy cfg' = cfEnforceIdentityProxy cfg"
  by (auto simp: NewServer_def Let_def split: option.splits if_splits prod.splits bool.splits)

lemma service_parts:
  assumes "start_service api ctx_of env su sv w = (Inr (cfg, sv'), w')"
  obtains replay base reconcile channel w1 fs where
    "sv' = sv\<lparr>svChannels := map_option (\<lambda>m. (m, api)) channel\<rparr>"
    "w1 = (if reconcile then reconcileStoredCredentials sv' ctx_of w else w)"
    "NewServer (svBackupEnv sv' (wTick w1)) (stDir (stored w1)) (start_server_config env su replay base (channel \<noteq> None)) (wBackup w1) = (Inr cfg, fs)"
    "w' = w1\<lparr>wBackup := fs\<rparr>"
  using assms unfolding start_service_def Let_def by (auto split: sum.splits prod.splits)

lemma started_service:
  assumes "start_service api ctx_of env su sv w = (Inr (cfg, sv'), w')" "store_ok (svCrypto sv) (stored w)"
    and "\<And>m. svChannels sv' = Some (m, api) \<Longrightarrow> file_server m api files"
  shows "store_ok (svCrypto sv) (stored w') \<and> secrets_kept (stored w) (stored w') \<and> svCrypto sv' = svCrypto sv \<and>
    cfManagementKey cfg = suManagementKey su \<and> cfUpstreamOrigin cfg = Some (suUpstreamOrigin su) \<and>
    (cfEnforceIdentityProxy cfg \<longleftrightarrow> svChannels sv' \<noteq> None)"
proof -
  have rec: "store_ok (svCrypto sv) (stored (reconcileStoredCredentials (sv\<lparr>svChannels := ch\<rparr>) ctx_of w)) \<and>
      secrets_kept (stored w) (stored (reconcileStoredCredentials (sv\<lparr>svChannels := ch\<rparr>) ctx_of w))"
    if same: "\<And>m x. ch = Some (m, x) \<Longrightarrow> x = api \<and> file_server m api files" for ch
  proof (cases ch)
    case (Some p)
    then obtain m where "ch = Some (m, api)" "file_server m api files" using same by (metis prod.collapse)
    with reconcile_all [of m api files "sv\<lparr>svChannels := ch\<rparr>" w "ListForSync (stored w)" ctx_of] assms(2) show ?thesis
      by (simp add: reconcileStoredCredentials_def reconciled_def)
  qed (use assms(2) in \<open>simp add: reconcileStoredCredentials_def\<close>)
  obtain replay base reconcile channel w1 fs where p: "sv' = sv\<lparr>svChannels := map_option (\<lambda>m. (m, api)) channel\<rparr>"
    "w1 = (if reconcile then reconcileStoredCredentials sv' ctx_of w else w)"
    "NewServer (svBackupEnv sv' (wTick w1)) (stDir (stored w1)) (start_server_config env su replay base (channel \<noteq> None)) (wBackup w1) = (Inr cfg, fs)"
    "w' = w1\<lparr>wBackup := fs\<rparr>"
    by (rule service_parts [OF assms(1)])
  have "store_ok (svCrypto sv) (stored w1) \<and> secrets_kept (stored w) (stored w1)"
    using p(1,2) rec [of "map_option (\<lambda>m. (m, api)) channel"] assms(2,3) by auto
  then show ?thesis using p server_settings [OF p(3)] by (simp add: start_server_config_def)
qed


end
