(* ===== verification/Sidecar_Witnesses.thy ===== *)
theory Sidecar_Witnesses
  imports Sidecar_Properties Outbound_Witnesses Server_Witnesses
begin


section \<open>A start\<close>

definition start_env :: sys_env where
  "start_env = \<lparr>seGetenv = (\<lambda>n. if n = ''MANAGEMENT_KEY'' then replicate 24 (CHR ''k'') else if n = ''ALLOW_PLAINTEXT_STORE'' then ''true''
     else if n = ''OUTBOUND_PROXY'' then ''direct'' else if n = ''DATA_DIR'' then ''d'' else []), seReadFile = (\<lambda>p. None)\<rparr>"

lemma start_words: "TrimSpace (replicate 24 (CHR ''k'')) = replicate 24 (CHR ''k'')" "TrimSpace ''true'' = ''true''" "TrimSpace ''d'' = ''d''"
  by (rule TrimSpace_plain, simp add: space_byte_def byte_def)+

lemma start_words2: "TrimSpace ''OUTBOUND_PROXY'' = ''OUTBOUND_PROXY''" "TrimSpace ''OUTBOUND_PROXY_FILE'' = ''OUTBOUND_PROXY_FILE''"
  "TrimSpace (''d'' @ ''/backups/identity-delete'') = ''d'' @ ''/backups/identity-delete''"
  by (rule TrimSpace_plain, simp add: space_byte_def byte_def)+

lemma start_values:
  "start_key start_env = Inr (replicate 24 (CHR ''k''))"
  "start_upstream start_env = Inr (zero_url\<lparr>Scheme := ''https'', Host := ''chatgpt.com''\<rparr>)"
  "start_cpa start_env key = Inr ([], key, [])"
  "start_encryption start_env = Inr None"
  "\<exists>t. start_transport (\<lambda>s. None) start_env [] key [] = Inr t"
proof -
  show "start_key start_env = Inr (replicate 24 (CHR ''k''))"
    using start_words by (simp add: start_key_def readSecret_def start_env_def del: replicate.simps)
  have "url_Parse ''https://chatgpt.com'' = Some (zero_url\<lparr>Scheme := ''https'', Host := ''chatgpt.com''\<rparr>)" by code_simp
  then show "start_upstream start_env = Inr (zero_url\<lparr>Scheme := ''https'', Host := ''chatgpt.com''\<rparr>)"
    by (simp add: start_upstream_def envOrDefault_def boolEnv_def start_env_def) (simp add: zero_url_def)
  show "start_cpa start_env key = Inr ([], key, [])" by (simp add: start_cpa_def start_env_def)
  show "start_encryption start_env = Inr None"
    using start_words by (simp add: start_encryption_def readOptionalSecret_def boolEnv_def ParseBool_def start_env_def)
  show "\<exists>t. start_transport (\<lambda>s. None) start_env [] key [] = Inr t"
    using demo_words start_words2 demo_direct
    by (simp add: start_transport_def readOptionalSecret_def proxyPollInterval_def newProxyConfigSource_def newHotReloadTransport_def start_env_def
        defaultProxyConfigPollInterval_def second_def minProxyConfigPollInterval_def maxProxyConfigPollInterval_def millisecond_def minute_def)
qed

lemma start_configured: "\<exists>su. start_config (\<lambda>s. None) start_env = Inr su \<and> suCpaURL su = [] \<and> suEncryptionKey su = None \<and> suDataDirectory su = ''d'' \<and>
    suManagementKey su = replicate 24 (CHR ''k'') \<and> suUpstreamOrigin su = zero_url\<lparr>Scheme := ''https'', Host := ''chatgpt.com''\<rparr>"
proof -
  obtain t where "start_transport (\<lambda>s. None) start_env [] (replicate 24 (CHR ''k'')) [] = Inr t" using start_values(5) by blast
  moreover have "envOrDefault start_env ''DATA_DIR'' ''/data'' = ''d''" using start_words by (simp add: envOrDefault_def start_env_def)
  ultimately show ?thesis using start_values(1-4) by (simp add: start_config_def del: replicate.simps)
qed

lemma start_runs: "\<exists>t cfg sv' w. run_sidecar (\<lambda>s. None) start_env silent (\<lambda>n. 5) demo_cpa (\<lambda>i. None) (demo_server None) (\<lambda>n. None) () demo_disk () demo_state
    \<lparr>bfReal = True, bfDirs = (\<lambda>_. False), bfFiles = (\<lambda>_. None)\<rparr> = Inr (t, (), (cfg, sv'), w) \<and> svChannels sv' = None"
proof -
  obtain su where su: "start_config (\<lambda>s. None) start_env = Inr su" "suCpaURL su = []" "suEncryptionKey su = None" "suDataDirectory su = ''d''"
    "suManagementKey su = replicate 24 (CHR ''k'')" "suUpstreamOrigin su = zero_url\<lparr>Scheme := ''https'', Host := ''chatgpt.com''\<rparr>"
    using start_configured by blast
  have o: "Open demo_crypto calm (\<lambda>n. None) None ''d'' demo_disk = (Inr (emptyStore ''d'' None), demo_disk)"
    using start_words by (simp add: Open_def calm_def demo_disk_def)
  obtain e0 t where r: "refresh silent start_env (\<lambda>n. 5) (suTransport su) () = (e0, t, ())" by (metis surj_pair old.unit.exhaust)
  let ?w = "\<lparr>wStore = (emptyStore ''d'' None, demo_disk), wManager = (suManager su, ()), wCpa = demo_state,
    wBackup = \<lparr>bfReal = True, bfDirs = (\<lambda>_. False), bfFiles = (\<lambda>_. None)\<rparr>, wTick = 1\<rparr>"
  have env: "int64Env start_env ''MAX_REPLAY_BODY_BYTES'' (16 * 2 ^ 20) = Inr (16 * 2 ^ 20)" "boolEnv start_env ''CPA_RECONCILE_ON_START'' True = Inr True"
    by (simp_all add: int64Env_def boolEnv_def start_env_def)
  have rec: "reconcileStoredCredentials (demo_server None) (\<lambda>i. None) ?w = ?w" by (simp add: reconcileStoredCredentials_def)
  have dir: "TrimRight ''d'' ''/'' = ''d''" by (simp add: TrimRight_def)
  have same: "(demo_server None)\<lparr>svChannels := None\<rparr> = demo_server None" by (simp add: demo_server_def)
  have "\<exists>cfg fs. NewServer quiet_backup ''d'' (start_server_config start_env su (16 * 2 ^ 20) base False) (wBackup ?w) = (Inr cfg, fs)" for base
    using start_words start_words2 su dir
    by (simp add: NewServer_def start_server_config_def ensureOwnerOnlyDirectory_def quiet_backup_def Let_def zero_url_def del: replicate.simps)
  then obtain cfg fs where n: "NewServer quiet_backup ''d'' (start_server_config start_env su (16 * 2 ^ 20)
      (envOrDefault start_env ''PUBLIC_CPA_BASE_URL'' ''http://127.0.0.1:8787/backend-api/codex'') False) (wBackup ?w) = (Inr cfg, fs)" by blast
  have "start_service demo_cpa (\<lambda>i. None) start_env su (demo_server None) ?w = (Inr (cfg, demo_server None), ?w\<lparr>wBackup := fs\<rparr>)"
    unfolding start_service_def env sum.case Let_def using su(2) n by (simp add: start_channel_def same rec reconcileStoredCredentials_def emptyStore_def)
  then show ?thesis
    using su o r by (simp add: run_sidecar_def)
qed


end
