(* ===== verification/Release_Registry.thy ===== *)
theory Release_Registry
  imports Release_Version Json_Document Identity_Tokens Batch_Parse Cpa_Files
begin

text \<open>
  The release scripts (\<^verbatim>\<open>.github/scripts/publish-registry.go\<close>, \<^verbatim>\<open>verify-release-state.go\<close>, \<^verbatim>\<open>package-release.go\<close>): publishing the metadata
  of a release and verifying that the files of the repository agree.  A repository is a map from the paths below its root to contents, the release
  assets a map from file names to archives; the list of entries of a zip file is a parameter (\<open>zip_names\<close>), and so is the failure of a write.  The regular
  expressions of the scripts are line patterns, or, for a declaration in Go code, a scan for its leftmost occurrence.
\<close>

section \<open>The registry\<close>

record registryArtifact =
  raGOOS :: string
  raGOArch :: string
  raURL :: string
  raSHA256 :: string
  raSize :: int

record registryInstall =
  riType :: string
  riArtifacts :: "registryArtifact list"

record registryPlugin =
  rgID :: string
  rgName :: string
  rgDescription :: string
  rgAuthor :: string
  rgVersion :: string
  rgRepository :: string
  rgInstall :: registryInstall
  rgLogo :: string
  rgHomepage :: string
  rgLicense :: string
  rgTags :: "string list option"

record registryDocument =
  rdSchemaVersion :: int
  rdPlugins :: "registryPlugin list"

type_synonym repository = "string \<Rightarrow> bytes option"

record archive =
  arRegular :: bool
  arData :: bytes

datatype release_error =
    NotReadable string | NotAVersion string | RequestMismatch | RegistryUnparsable | RegistryShape | NotOlder | NoArchive string | EmptyArchive string
  | NotAnArchive string | NoLibrary string | NoImageLine | NotWritten string | MakefileVersion | PluginVersion | NoMinimum | MinimumNewer | RegistryAhead
  | RegistryMismatch | ArtifactCount nat | ArtifactTarget | ArtifactRepeated string | ArtifactAddress string | ArtifactHash string | ArtifactSize string
  | ArtifactMissing | ImageTag | NoDatedSection | NoUnreleasedSection | TagMismatch | NoRegularLibrary | EmptyLibrary | EmptyChecksum

section \<open>Decoding and encoding\<close>

definition dec_artifact :: "registryArtifact decoder" where
  "dec_artifact cur v =
     Option.bind (struct_keys v) (\<lambda>kvs.
       Option.bind (field dec_str ''goos'' kvs (raGOOS cur)) (\<lambda>g.
       Option.bind (field dec_str ''goarch'' kvs (raGOArch cur)) (\<lambda>a.
       Option.bind (field dec_str ''url'' kvs (raURL cur)) (\<lambda>u.
       Option.bind (field dec_str ''sha256'' kvs (raSHA256 cur)) (\<lambda>h.
       Option.bind (field dec_int64 ''size'' kvs (raSize cur)) (\<lambda>s.
       Some \<lparr>raGOOS = g, raGOArch = a, raURL = u, raSHA256 = h, raSize = s\<rparr>))))))"

definition zero_artifact :: registryArtifact where
  "zero_artifact = \<lparr>raGOOS = [], raGOArch = [], raURL = [], raSHA256 = [], raSize = 0\<rparr>"

definition dec_install :: "registryInstall decoder" where
  "dec_install cur v =
     Option.bind (struct_keys v) (\<lambda>kvs.
       Option.bind (field dec_str ''type'' kvs (riType cur)) (\<lambda>t.
       Option.bind (field (dec_list dec_artifact zero_artifact) ''artifacts'' kvs (riArtifacts cur)) (\<lambda>a.
       Some \<lparr>riType = t, riArtifacts = a\<rparr>)))"

definition dec_tags :: "string list option decoder" where
  "dec_tags cur v = (case v of JArr vs \<Rightarrow> map_option Some (dec_elems dec_str [] vs) | JNull \<Rightarrow> Some None | _ \<Rightarrow> None)"

definition zero_plugin :: registryPlugin where
  "zero_plugin = \<lparr>rgID = [], rgName = [], rgDescription = [], rgAuthor = [], rgVersion = [], rgRepository = [], rgInstall = \<lparr>riType = [], riArtifacts = []\<rparr>,
     rgLogo = [], rgHomepage = [], rgLicense = [], rgTags = None\<rparr>"

definition dec_plugin :: "registryPlugin decoder" where
  "dec_plugin cur v =
     Option.bind (struct_keys v) (\<lambda>kvs.
       Option.bind (field dec_str ''id'' kvs (rgID cur)) (\<lambda>i.
       Option.bind (field dec_str ''name'' kvs (rgName cur)) (\<lambda>n.
       Option.bind (field dec_str ''description'' kvs (rgDescription cur)) (\<lambda>d.
       Option.bind (field dec_str ''author'' kvs (rgAuthor cur)) (\<lambda>a.
       Option.bind (field dec_str ''version'' kvs (rgVersion cur)) (\<lambda>ver.
       Option.bind (field dec_str ''repository'' kvs (rgRepository cur)) (\<lambda>r.
       Option.bind (field dec_install ''install'' kvs (rgInstall cur)) (\<lambda>ins.
       Option.bind (field dec_str ''logo'' kvs (rgLogo cur)) (\<lambda>l.
       Option.bind (field dec_str ''homepage'' kvs (rgHomepage cur)) (\<lambda>h.
       Option.bind (field dec_str ''license'' kvs (rgLicense cur)) (\<lambda>li.
       Option.bind (field dec_tags ''tags'' kvs (rgTags cur)) (\<lambda>t.
       Some \<lparr>rgID = i, rgName = n, rgDescription = d, rgAuthor = a, rgVersion = ver, rgRepository = r, rgInstall = ins, rgLogo = l, rgHomepage = h,
             rgLicense = li, rgTags = t\<rparr>))))))))))))"

definition decode_registry :: "bytes \<Rightarrow> registryDocument option" where
  "decode_registry raw =
     Option.bind (json_parse raw) (\<lambda>v. Option.bind (struct_keys v) (\<lambda>kvs.
       Option.bind (field dec_int64 ''schema_version'' kvs 0) (\<lambda>s.
       Option.bind (field (dec_list dec_plugin zero_plugin) ''plugins'' kvs []) (\<lambda>p.
       Some \<lparr>rdSchemaVersion = s, rdPlugins = p\<rparr>))))"

definition artifact_json :: "registryArtifact \<Rightarrow> json" where
  "artifact_json a = JObj [(''goos'', JStr (raGOOS a)), (''goarch'', JStr (raGOArch a)), (''url'', JStr (raURL a)), (''sha256'', JStr (raSHA256 a)),
     (''size'', JNum (int_text (raSize a)))]"

definition install_json :: "registryInstall \<Rightarrow> json" where
  "install_json i = JObj [(''type'', JStr (riType i)), (''artifacts'', JArr (map artifact_json (riArtifacts i)))]"

definition plugin_json :: "registryPlugin \<Rightarrow> json" where
  "plugin_json p = JObj [(''id'', JStr (rgID p)), (''name'', JStr (rgName p)), (''description'', JStr (rgDescription p)), (''author'', JStr (rgAuthor p)),
     (''version'', JStr (rgVersion p)), (''repository'', JStr (rgRepository p)), (''install'', install_json (rgInstall p)), (''logo'', JStr (rgLogo p)),
     (''homepage'', JStr (rgHomepage p)), (''license'', JStr (rgLicense p)),
     (''tags'', case rgTags p of None \<Rightarrow> JNull | Some ts \<Rightarrow> JArr (map JStr ts))]"

definition registry_json :: "registryDocument \<Rightarrow> json" where
  "registry_json d = JObj [(''schema_version'', JNum (int_text (rdSchemaVersion d))), (''plugins'', JArr (map plugin_json (rdPlugins d)))]"

definition encode_registry :: "registryDocument \<Rightarrow> bytes" where
  "encode_registry d = indent_text 0 (registry_json d) @ [newline]"

section \<open>Patterns\<close>

definition regex_space :: "char \<Rightarrow> bool" where
  "regex_space c \<longleftrightarrow> byte c \<in> {9, 10, 12, 13, 32}"

text \<open>The name of the image before its tag and the rest of the line after \<^verbatim>\<open>:v\<close>.\<close>

definition image_line :: "string \<Rightarrow> (string \<times> string) option" where
  "image_line l =
     (if \<not> HasPrefix l ''SIDECAR_IMAGE='' then None
      else let rest = drop (length ''SIDECAR_IMAGE='') l; name = takeWhile (\<lambda>c. c \<noteq> CHR '':'' \<and> byte c \<noteq> 13) rest; tail = drop (length name) rest in
        if name = [] \<or> \<not> HasPrefix tail '':v'' then None else Some (name, drop 2 tail))"

text \<open>The line that the publisher rewrites has nothing after the tag; the one that the verifier reads may end with white space.\<close>

definition published_image :: "string \<Rightarrow> string \<Rightarrow> string" where
  "published_image version l =
     (case image_line l of
        Some (name, tag) \<Rightarrow> if tag \<noteq> [] \<and> list_all (\<lambda>c. \<not> regex_space c) tag then ''SIDECAR_IMAGE='' @ name @ '':v'' @ version else l
      | None \<Rightarrow> l)"

definition has_published_image :: "string \<Rightarrow> bool" where
  "has_published_image l = (case image_line l of Some (name, tag) \<Rightarrow> tag \<noteq> [] \<and> list_all (\<lambda>c. \<not> regex_space c) tag | None \<Rightarrow> False)"

definition image_tag :: "string \<Rightarrow> string option" where
  "image_tag l =
     (case image_line l of
        None \<Rightarrow> None
      | Some (name, rest) \<Rightarrow>
          (let tag = takeWhile (\<lambda>c. \<not> regex_space c) rest in
           if tag \<noteq> [] \<and> list_all regex_space (drop (length tag) rest) then Some tag else None))"

definition split_lines :: "string \<Rightarrow> string list" where
  "split_lines s = SplitAt newline s"

definition image_tag_of :: "string \<Rightarrow> string option" where
  "image_tag_of s = (case List.find (\<lambda>l. image_tag l \<noteq> None) (split_lines s) of None \<Rightarrow> None | Some l \<Rightarrow> image_tag l)"

definition declared_at :: "string \<Rightarrow> string \<Rightarrow> string option" where
  "declared_at name s =
     (if \<not> HasPrefix s name then None
      else let r = dropWhile regex_space (drop (length name) s) in
        if \<not> HasPrefix r ''='' then None
        else let q = dropWhile regex_space (tl r); v = takeWhile (\<lambda>c. c \<noteq> quotation) (tl q) in
          if q \<noteq> [] \<and> hd q = quotation \<and> v \<noteq> [] \<and> length v < length (tl q) then Some v else None)"

fun find_declared :: "string \<Rightarrow> string \<Rightarrow> string option" where
  "find_declared name [] = None"
| "find_declared name (c # s) = (case declared_at name (c # s) of Some v \<Rightarrow> Some v | None \<Rightarrow> find_declared name s)"

definition drop_cr :: "string \<Rightarrow> string" where
  "drop_cr l = (if l \<noteq> [] \<and> byte (last l) = 13 then butlast l else l)"

definition dated_heading :: "string \<Rightarrow> string \<Rightarrow> bool" where
  "dated_heading version l =
     (let h = ''## ['' @ version @ ''] - ''; d = drop (length h) (drop_cr l) in
      HasPrefix (drop_cr l) h \<and> length d = 10 \<and> d ! 4 = CHR ''-'' \<and> d ! 7 = CHR ''-'' \<and>
      list_all is_digit (take 4 d @ take 2 (drop 5 d) @ drop 8 d))"

definition unreleased_heading :: "string \<Rightarrow> bool" where
  "unreleased_heading l \<longleftrightarrow> drop_cr l = ''## [Unreleased]''"

section \<open>Publishing\<close>

definition readTrimmed :: "repository \<Rightarrow> string \<Rightarrow> release_error + string" where
  "readTrimmed repo path = (case repo path of None \<Rightarrow> Inl (NotReadable path) | Some raw \<Rightarrow> Inr (TrimSpace raw))"

definition writeAtomically :: "(string \<Rightarrow> bool) \<Rightarrow> string \<Rightarrow> bytes \<Rightarrow> repository \<Rightarrow> release_error option \<times> repository" where
  "writeAtomically denied path data repo = (if denied path then (Some (NotWritten path), repo) else (None, repo(path := Some data)))"

definition archive_name :: "string \<Rightarrow> string \<Rightarrow> string" where
  "archive_name version arch = ''codex-agent-identity_'' @ version @ ''_linux_'' @ arch @ ''.zip''"

definition archive_url :: "string \<Rightarrow> string \<Rightarrow> string" where
  "archive_url version arch = ''https://github.com/simplez2/cpa-codex-agent-identity/releases/download/v'' @ version @ ''/'' @ archive_name version arch"

definition inspectArchive ::
  "crypto \<Rightarrow> (bytes \<Rightarrow> string list option) \<Rightarrow> (string \<Rightarrow> archive option) \<Rightarrow> string \<Rightarrow> string \<Rightarrow> release_error + registryArtifact" where
  "inspectArchive C zip_names assets version arch =
     (let path = archive_name version arch in
      case assets path of
        None \<Rightarrow> Inl (NoArchive path)
      | Some a \<Rightarrow>
          if \<not> arRegular a \<or> arData a = [] then Inl (EmptyArchive path)
          else case zip_names (arData a) of
            None \<Rightarrow> Inl (NotAnArchive path)
          | Some names \<Rightarrow>
              if ''codex-agent-identity.so'' \<notin> set names then Inl (NoLibrary path)
              else Inr \<lparr>raGOOS = ''linux'', raGOArch = arch, raURL = archive_url version arch, raSHA256 = hex_encode (Sum256 C (arData a)),
                     raSize = int (length (arData a))\<rparr>)"

fun inspect_all :: "(string \<Rightarrow> release_error + registryArtifact) \<Rightarrow> string list \<Rightarrow> release_error + registryArtifact list" where
  "inspect_all f [] = Inr []"
| "inspect_all f (arch # archs) =
     (case f arch of Inl err \<Rightarrow> Inl err | Inr a \<Rightarrow> (case inspect_all f archs of Inl err \<Rightarrow> Inl err | Inr as \<Rightarrow> Inr (a # as)))"

definition architectures :: "string list" where "architectures = [''amd64'', ''arm64'']"

text \<open>The plugin entry that the publisher updates: the registry has exactly one, of an older version.\<close>

definition registry_entry :: "registryDocument \<Rightarrow> Version \<Rightarrow> release_error + registryPlugin" where
  "registry_entry d source =
     (case rdPlugins d of
        [p] \<Rightarrow>
          if rdSchemaVersion d \<noteq> 2 \<or> rgID p \<noteq> ''codex-agent-identity'' \<or> riType (rgInstall p) \<noteq> ''direct'' then Inl RegistryShape
          else (case Parse (rgVersion p) of
            Inl _ \<Rightarrow> Inl (NotAVersion (rgVersion p))
          | Inr published \<Rightarrow> if Compare published source \<ge> 0 then Inl NotOlder else Inr p)
      | _ \<Rightarrow> Inl RegistryShape)"

definition updated_env :: "string \<Rightarrow> bytes \<Rightarrow> bytes" where
  "updated_env version data = sep_by [newline] (map (published_image version) (split_lines data))"

definition write_release :: "(string \<Rightarrow> bool) \<Rightarrow> bytes \<Rightarrow> bytes \<Rightarrow> repository \<Rightarrow> release_error option \<times> repository" where
  "write_release denied registry env repo =
     (case writeAtomically denied ''registry.json'' registry repo of
        (Some err, repo1) \<Rightarrow> (Some err, repo1)
      | (None, repo1) \<Rightarrow> writeAtomically denied ''.env.example'' env repo1)"

definition publish_updates ::
  "crypto \<Rightarrow> (bytes \<Rightarrow> string list option) \<Rightarrow> (string \<Rightarrow> archive option) \<Rightarrow> string \<Rightarrow> Version \<Rightarrow> repository \<Rightarrow> release_error + bytes \<times> bytes" where
  "publish_updates C zip_names assets version source repo =
     (case repo ''registry.json'' of
        None \<Rightarrow> Inl (NotReadable ''registry.json'')
      | Some raw \<Rightarrow>
     (case decode_registry raw of
        None \<Rightarrow> Inl RegistryUnparsable
      | Some d \<Rightarrow>
     (case registry_entry d source of
        Inl err \<Rightarrow> Inl err
      | Inr p \<Rightarrow>
     (case inspect_all (inspectArchive C zip_names assets version) architectures of
        Inl err \<Rightarrow> Inl err
      | Inr artifacts \<Rightarrow>
     (case repo ''.env.example'' of
        None \<Rightarrow> Inl (NotReadable ''.env.example'')
      | Some env \<Rightarrow>
          if \<not> list_ex has_published_image (split_lines env) then Inl NoImageLine
          else Inr (encode_registry (d\<lparr>rdPlugins := [p\<lparr>rgVersion := version, rgInstall := (rgInstall p)\<lparr>riArtifacts := artifacts\<rparr>\<rparr>]\<rparr>),
                    updated_env version env))))))"

definition publishRelease ::
  "crypto \<Rightarrow> (bytes \<Rightarrow> string list option) \<Rightarrow> (string \<Rightarrow> bool) \<Rightarrow> (string \<Rightarrow> archive option) \<Rightarrow> string \<Rightarrow> repository \<Rightarrow> release_error option \<times> repository" where
  "publishRelease C zip_names denied assets requested repo =
     (case readTrimmed repo ''VERSION'' of
        Inl err \<Rightarrow> (Some err, repo)
      | Inr version \<Rightarrow>
     (case Parse version of
        Inl _ \<Rightarrow> (Some (NotAVersion version), repo)
      | Inr source \<Rightarrow>
          if requested \<noteq> [] \<and> requested \<noteq> version then (Some RequestMismatch, repo)
          else (case publish_updates C zip_names assets version source repo of
            Inl err \<Rightarrow> (Some err, repo)
          | Inr (registry, env) \<Rightarrow> write_release denied registry env repo)))"

section \<open>Verifying\<close>

text \<open>The verifier reads only the versions and the artifacts of the registry, so it accepts registries that the publisher refuses.\<close>

definition dec_artifacts :: "registryArtifact list decoder" where
  "dec_artifacts cur v = Option.bind (struct_keys v) (\<lambda>kvs. field (dec_list dec_artifact zero_artifact) ''artifacts'' kvs cur)"

definition dec_published :: "(string \<times> registryArtifact list) decoder" where
  "dec_published cur v =
     Option.bind (struct_keys v) (\<lambda>kvs.
       Option.bind (field dec_str ''version'' kvs (fst cur)) (\<lambda>ver.
       Option.bind (field dec_artifacts ''install'' kvs (snd cur)) (\<lambda>as. Some (ver, as))))"

definition decode_published :: "bytes \<Rightarrow> (string \<times> registryArtifact list) list option" where
  "decode_published raw =
     Option.bind (json_parse raw) (\<lambda>v. Option.bind (struct_keys v) (\<lambda>kvs. field (dec_list dec_published ([], [])) ''plugins'' kvs []))"

definition hash_ok :: "string \<Rightarrow> bool" where
  "hash_ok s \<longleftrightarrow> length s = 64 \<and> list_all is_lower_hex s"

fun verify_artifacts :: "string \<Rightarrow> string list \<Rightarrow> registryArtifact list \<Rightarrow> release_error + string list" where
  "verify_artifacts published seen [] = Inr seen"
| "verify_artifacts published seen (a # as) =
     (let arch = raGOArch a in
      if raGOOS a \<noteq> ''linux'' \<or> arch \<noteq> ''amd64'' \<and> arch \<noteq> ''arm64'' then Inl ArtifactTarget
      else if arch \<in> set seen then Inl (ArtifactRepeated arch)
      else if raURL a \<noteq> archive_url published arch then Inl (ArtifactAddress arch)
      else if \<not> hash_ok (raSHA256 a) then Inl (ArtifactHash arch)
      else if raSize a \<le> 0 then Inl (ArtifactSize arch)
      else verify_artifacts published (arch # seen) as)"

definition verifyRegistryArtifacts :: "registryArtifact list \<Rightarrow> string \<Rightarrow> release_error option" where
  "verifyRegistryArtifacts artifacts published =
     (if length artifacts \<noteq> 2 then Some (ArtifactCount (length artifacts))
      else case verify_artifacts published [] artifacts of
        Inl err \<Rightarrow> Some err
      | Inr seen \<Rightarrow> if ''amd64'' \<notin> set seen \<or> ''arm64'' \<notin> set seen then Some ArtifactMissing else None)"

definition plugin_path :: string where "plugin_path = ''plugin/codex-agent-identity/plugin.go''"

definition makefile_rule :: string where "makefile_rule = ''VERSION ?= $(strip $(file <VERSION))''"

text \<open>The checks of the sources.\<close>

definition verify_sources :: "repository \<Rightarrow> string \<Rightarrow> Version \<Rightarrow> release_error option" where
  "verify_sources repo sourceText source =
     (case repo ''Makefile'' of
        None \<Rightarrow> Some (NotReadable ''Makefile'')
      | Some makefile \<Rightarrow>
          if \<not> Contains makefile makefile_rule then Some MakefileVersion
          else case repo plugin_path of
            None \<Rightarrow> Some (NotReadable plugin_path)
          | Some plugin \<Rightarrow>
              if find_declared ''pluginVersion'' plugin \<noteq> Some sourceText then Some PluginVersion
              else case find_declared ''minimumSidecarVersion'' plugin of
                None \<Rightarrow> Some NoMinimum
              | Some m \<Rightarrow>
                  (case Parse m of
                     Inl _ \<Rightarrow> Some (NotAVersion m)
                   | Inr minimum \<Rightarrow> if Compare minimum source > 0 then Some MinimumNewer else None))"

definition verify_changelog :: "string \<Rightarrow> string \<Rightarrow> string \<Rightarrow> string \<Rightarrow> release_error option" where
  "verify_changelog changelog sourceText publishedText tag =
     (if publishedText = sourceText then (if list_ex (dated_heading sourceText) (split_lines changelog) then None else Some NoDatedSection)
      else if tag = [] \<and> list_ex unreleased_heading (split_lines changelog) then None
      else if Contains changelog (''## [Unreleased] - '' @ sourceText) then None
      else Some NoUnreleasedSection)"

definition verify_registry :: "repository \<Rightarrow> string \<Rightarrow> Version \<Rightarrow> bool \<Rightarrow> release_error + string" where
  "verify_registry repo sourceText source requireMatch =
     (case repo ''registry.json'' of
        None \<Rightarrow> Inl (NotReadable ''registry.json'')
      | Some raw \<Rightarrow>
     (case decode_published raw of
        None \<Rightarrow> Inl RegistryUnparsable
      | Some [(declared, artifacts)] \<Rightarrow>
          (let publishedText = TrimSpace declared in
           case Parse publishedText of
             Inl _ \<Rightarrow> Inl (NotAVersion publishedText)
           | Inr published \<Rightarrow>
               if Compare published source > 0 then Inl RegistryAhead
               else if requireMatch \<and> publishedText \<noteq> sourceText then Inl RegistryMismatch
               else case verifyRegistryArtifacts artifacts publishedText of Some err \<Rightarrow> Inl err | None \<Rightarrow> Inr publishedText)
      | Some _ \<Rightarrow> Inl RegistryShape))"

definition verifyRelease :: "repository \<Rightarrow> string \<Rightarrow> bool \<Rightarrow> release_error option" where
  "verifyRelease repo tag requireMatch =
     (case readTrimmed repo ''VERSION'' of
        Inl err \<Rightarrow> Some err
      | Inr sourceText \<Rightarrow>
     (case Parse sourceText of
        Inl _ \<Rightarrow> Some (NotAVersion sourceText)
      | Inr source \<Rightarrow>
     (case verify_sources repo sourceText source of
        Some err \<Rightarrow> Some err
      | None \<Rightarrow>
     (case verify_registry repo sourceText source requireMatch of
        Inl err \<Rightarrow> Some err
      | Inr publishedText \<Rightarrow>
     (case repo ''.env.example'' of
        None \<Rightarrow> Some (NotReadable ''.env.example'')
      | Some envExample \<Rightarrow>
          if image_tag_of envExample \<noteq> Some publishedText then Some ImageTag
          else case repo ''CHANGELOG.md'' of
            None \<Rightarrow> Some (NotReadable ''CHANGELOG.md'')
          | Some changelog \<Rightarrow>
              (case verify_changelog changelog sourceText publishedText tag of
                 Some err \<Rightarrow> Some err
               | None \<Rightarrow> if tag \<noteq> [] \<and> tag \<noteq> ''v'' @ sourceText then Some TagMismatch else None))))))"

section \<open>Packaging\<close>

text \<open>\<open>zip_write\<close> makes the archive with one entry; the checksum file has the digest, two blanks and the name of the archive.\<close>

definition packageLibrary :: "(string \<Rightarrow> bytes \<Rightarrow> bytes) \<Rightarrow> (string \<Rightarrow> bool) \<Rightarrow> string \<Rightarrow> string \<Rightarrow> archive option \<Rightarrow> release_error + bytes" where
  "packageLibrary zip_write denied libraryPath archivePath info =
     (case info of
        None \<Rightarrow> Inl (NotReadable libraryPath)
      | Some library \<Rightarrow>
          if \<not> arRegular library then Inl NoRegularLibrary
          else if arData library = [] then Inl EmptyLibrary
          else if denied archivePath then Inl (NotWritten archivePath)
          else Inr (zip_write (filepath_Base libraryPath) (arData library)))"

definition writeChecksum :: "crypto \<Rightarrow> (string \<Rightarrow> bool) \<Rightarrow> string \<Rightarrow> string \<Rightarrow> bytes \<Rightarrow> release_error + bytes" where
  "writeChecksum C denied checksumPath archivePath archiveData =
     (if archiveData = [] then Inl EmptyChecksum
      else if denied checksumPath then Inl (NotWritten checksumPath)
      else Inr (hex_encode (Sum256 C archiveData) @ ''  '' @ filepath_Base archivePath @ [newline]))"

end
