(* ===== verification/Release_Properties.thy ===== *)
theory Release_Properties
  imports Release_Registry
begin

text \<open>
  What the release scripts guarantee together: after a publication that succeeded, the strict verification accepts the repository, and the registry
  differs in the version and the artifacts only.
\<close>

section \<open>Reading back a written registry\<close>

definition artifact_ok :: "registryArtifact \<Rightarrow> bool" where
  "artifact_ok a \<longleftrightarrow> ValidString (raGOOS a) \<and> ValidString (raGOArch a) \<and> ValidString (raURL a) \<and> ValidString (raSHA256 a) \<and> int64 (raSize a)"

definition install_ok :: "registryInstall \<Rightarrow> bool" where
  "install_ok i \<longleftrightarrow> ValidString (riType i) \<and> list_all artifact_ok (riArtifacts i)"

definition tags_ok :: "string list option \<Rightarrow> bool" where
  "tags_ok t \<longleftrightarrow> (\<forall>ts. t = Some ts \<longrightarrow> list_all ValidString ts)"

definition plugin_ok :: "registryPlugin \<Rightarrow> bool" where
  "plugin_ok p \<longleftrightarrow> list_all ValidString [rgID p, rgName p, rgDescription p, rgAuthor p, rgVersion p, rgRepository p, rgLogo p,
     rgHomepage p, rgLicense p] \<and> install_ok (rgInstall p) \<and> tags_ok (rgTags p)"

definition read_of :: "(string \<times> json) list \<Rightarrow> bool" where
  "read_of kvs \<longleftrightarrow> list_all (plain_name \<circ> fst) kvs \<and> distinct (map fst kvs)"

lemma field_read: "read_of kvs \<Longrightarrow> n \<in> fst ` set kvs \<Longrightarrow> field dec n kvs cur = dec cur (the (map_get kvs n))"
proof -
  assume k: "read_of kvs" "n \<in> fst ` set kvs"
  obtain v where v: "map_get kvs n = Some v" using k(2) by (metis map_of_eq_None_iff not_None_eq)
  have "plain_name n" using k by (auto simp: read_of_def list_all_iff)
  with field_lookup [of kvs n v dec cur] k(1) v show ?thesis by (simp add: read_of_def)
qed

lemma dec_elems_map: "(\<And>x. x \<in> set xs \<Longrightarrow> dec zero (f x) = Some (g x)) \<Longrightarrow> dec_elems dec zero (map f xs) = Some (map g xs)"
  by (induction xs) simp_all

lemmas read_names = read_of_def plain_name_def is_upper_def byte_def

lemmas decode_fields = struct_keys_def dec_str_def dec_int64_def dec_list_def dec_tags_def

lemma dec_artifact_json: "int64 (raSize a) \<Longrightarrow> dec_artifact cur (artifact_json a) = Some a"
proof -
  assume i: "int64 (raSize a)"
  let ?k = "[(''goos'', JStr (raGOOS a)), (''goarch'', JStr (raGOArch a)), (''url'', JStr (raURL a)), (''sha256'', JStr (raSHA256 a)),
     (''size'', JNum (int_text (raSize a)))]"
  have r: "read_of ?k" by (simp add: read_names)
  have "ParseInt64 (int_text (raSize a)) = Some (raSize a)" using i by (simp only: int64_def ParseInt64_text)
  then show ?thesis
    by (simp add: dec_artifact_def artifact_json_def decode_fields field_read [OF r] del: field.simps)
qed

lemma dec_artifacts_json:
  "list_all artifact_ok as \<Longrightarrow> dec_list dec_artifact zero_artifact cur (JArr (map artifact_json as)) = Some as"
  using dec_elems_map [of as dec_artifact zero_artifact artifact_json "\<lambda>a. a"] by (simp add: dec_list_def dec_artifact_json list_all_iff artifact_ok_def)

lemma install_read: "read_of [(''type'', x), (''artifacts'', y)]"
  by (simp add: read_names)

lemma dec_install_json:
  "list_all artifact_ok (riArtifacts i) \<Longrightarrow> dec_install cur (install_json i) = Some i"
  "list_all artifact_ok (riArtifacts i) \<Longrightarrow> dec_artifacts as (install_json i) = Some (riArtifacts i)"
  by (simp_all add: dec_install_def dec_artifacts_def install_json_def struct_keys_def dec_str_def dec_artifacts_json field_read [OF install_read] del: field.simps)

lemma dec_tags_json:
  "dec_tags cur (case t of None \<Rightarrow> JNull | Some ts \<Rightarrow> JArr (map JStr ts)) = Some t"
  using dec_elems_map [of "the t" dec_str "[]" JStr "\<lambda>a. a"] by (cases t) (simp_all add: dec_tags_def dec_str_def)

lemma plugin_read: "read_of [(''id'', a), (''name'', b), (''description'', c), (''author'', d), (''version'', e), (''repository'', f), (''install'', g), (''logo'', h),
     (''homepage'', i), (''license'', j), (''tags'', k)]"
  by (simp add: read_names)

lemma dec_plugin_json:
  assumes "plugin_ok p"
  shows "dec_plugin cur (plugin_json p) = Some p" "dec_published vs (plugin_json p) = Some (rgVersion p, riArtifacts (rgInstall p))"
  using assms
  by (simp_all add: plugin_ok_def install_ok_def dec_plugin_def dec_published_def plugin_json_def struct_keys_def dec_str_def dec_install_json dec_tags_json
      field_read [OF plugin_read] del: field.simps)

lemma registry_read: "read_of [(''schema_version'', x), (''plugins'', y)]"
  by (simp add: read_names)

lemma newline_char: "newline = CHR 0x0A"
  unfolding newline_def by code_simp

lemma depth_list: "(\<And>x. x \<in> set xs \<Longrightarrow> json_depth (f x) \<le> n) \<Longrightarrow> foldr max (map (json_depth \<circ> f) xs) 0 \<le> n"
  by (induction xs) auto

lemma registry_depth: "json_depth (registry_json d) \<le> 7"
proof -
  have art: "foldr max (map (json_depth \<circ> artifact_json) as) 0 \<le> 1" for as
    by (rule depth_list) (simp add: artifact_json_def)
  have inst: "json_depth (install_json i) \<le> 3" for i using art [of "riArtifacts i"] by (simp add: install_json_def)
  have tags: "foldr max (map (json_depth \<circ> JStr) ts) 0 \<le> 0" for ts by (rule depth_list) simp
  have "json_depth (plugin_json p) \<le> 4" for p
    using inst [of "rgInstall p"] tags [of "the (rgTags p)"] by (cases "rgTags p") (simp_all add: plugin_json_def)
  then have "foldr max (map (json_depth \<circ> plugin_json) (rdPlugins d)) 0 \<le> 4" by (rule depth_list)
  then show ?thesis by (simp add: registry_json_def)
qed

lemma encode_registry_parse:
  assumes "list_all plugin_ok (rdPlugins d)"
  shows "json_parse (encode_registry d) = Some (registry_json d)"
proof -
  have art: "clean (artifact_json a)" if "artifact_ok a" for a
    using that by (simp add: artifact_json_def artifact_ok_def number_ok_int ascii_valid byte_def)
  have "clean (plugin_json p)" if "plugin_ok p" for p
    using that art by (auto simp: plugin_json_def plugin_ok_def install_ok_def tags_ok_def install_json_def ascii_valid byte_def list_all_iff split: option.splits)
  then have c: "clean (registry_json d)"
    using assms by (auto simp: registry_json_def number_ok_int ascii_valid byte_def list_all_iff)
  have "lex [newline] = Some []" by (simp add: lex.simps json_space_def newline_char byte_def)
  moreover have "delimited [newline]" by (simp add: delimited_def newline_char is_digit_def byte_def)
  ultimately have "lex (encode_registry d) = Some (toks (registry_json d))"
    using lex_indent [OF c] by (simp add: encode_registry_def)
  moreover have "json_depth (registry_json d) \<le> maxNestingDepth" using registry_depth [of d] by (simp add: maxNestingDepth_def)
  ultimately show ?thesis using run_toks [of "[]" "registry_json d" False] c by (simp add: json_parse_def)
qed

lemma registry_roundtrip:
  assumes "list_all plugin_ok (rdPlugins d)" "int64 (rdSchemaVersion d)"
  shows "decode_registry (encode_registry d) = Some d"
    "decode_published (encode_registry d) = Some (map (\<lambda>p. (rgVersion p, riArtifacts (rgInstall p))) (rdPlugins d))"
proof -
  have p: "dec_elems dec_plugin zero_plugin (map plugin_json (rdPlugins d)) = Some (rdPlugins d)"
    using dec_elems_map [of "rdPlugins d" dec_plugin zero_plugin plugin_json "\<lambda>p. p"] assms(1) by (simp add: dec_plugin_json list_all_iff)
  have q: "dec_elems dec_published ([], []) (map plugin_json (rdPlugins d)) = Some (map (\<lambda>p. (rgVersion p, riArtifacts (rgInstall p))) (rdPlugins d))"
    using assms(1) by (intro dec_elems_map) (simp add: dec_plugin_json list_all_iff)
  have i: "ParseInt64 (int_text (rdSchemaVersion d)) = Some (rdSchemaVersion d)" using assms(2) by (simp only: int64_def ParseInt64_text)
  show "decode_registry (encode_registry d) = Some d"
    using p i by (simp add: decode_registry_def encode_registry_parse [OF assms(1)] registry_json_def decode_fields field_read [OF registry_read] del: field.simps)
  show "decode_published (encode_registry d) = Some (map (\<lambda>p. (rgVersion p, riArtifacts (rgInstall p))) (rdPlugins d))"
    using q by (simp add: decode_published_def encode_registry_parse [OF assms(1)] registry_json_def decode_fields field_read [OF registry_read] del: field.simps)
qed

section \<open>What was read can be written\<close>

definition keeps :: "('a \<Rightarrow> bool) \<Rightarrow> 'a decoder \<Rightarrow> bool" where
  "keeps P dec \<longleftrightarrow> (\<forall>cur v x. P cur \<longrightarrow> clean v \<longrightarrow> dec cur v = Some x \<longrightarrow> P x)"

lemma keepsD: "keeps P dec \<Longrightarrow> P cur \<Longrightarrow> clean v \<Longrightarrow> dec cur v = Some x \<Longrightarrow> P x"
  by (simp add: keeps_def)

lemma keeps_field:
  assumes "keeps P dec" "clean (JObj kvs)" "field dec n kvs cur = Some x" "P cur"
  shows "P x"
  using assms(2-4)
proof (induction kvs arbitrary: cur)
  case (Cons kv kvs)
  obtain k v where kv: "kv = (k, v)" by (cases kv)
  show ?case
  proof (cases "EqualFold k n")
    case True
    with Cons.prems kv obtain y where y: "dec cur v = Some y" "field dec n kvs y = Some x" by (auto split: option.splits)
    have "P y" using keepsD [OF assms(1) Cons.prems(3) _ y(1)] Cons.prems(1) kv by simp
    with Cons.IH y(2) Cons.prems(1) kv show ?thesis by simp
  next
    case False
    with Cons kv show ?thesis by simp
  qed
qed simp

lemma keeps_elems:
  "keeps P dec \<Longrightarrow> P zero \<Longrightarrow> list_all clean vs \<Longrightarrow> dec_elems dec zero vs = Some xs \<Longrightarrow> list_all P xs"
  by (induction vs arbitrary: xs) (auto dest: keepsD split: option.splits)

lemma keeps_list: "keeps P dec \<Longrightarrow> P zero \<Longrightarrow> keeps (list_all P) (dec_list dec zero)"
  unfolding keeps_def [of "list_all P"] by (auto simp: dec_list_def dest: keeps_elems split: json.splits)

lemma keeps_str: "keeps ValidString dec_str"
  by (auto simp: keeps_def dec_str_def split: json.splits)

lemma keeps_int: "keeps int64 dec_int64"
  by (auto simp: keeps_def dec_int64_def ParseInt64_def Let_def int64_def split: json.splits if_splits)

lemma struct_clean: "clean v \<Longrightarrow> struct_keys v = Some kvs \<Longrightarrow> clean (JObj kvs)"
  by (auto simp: struct_keys_def split: json.splits)

lemmas str_field = keeps_field [OF keeps_str]

lemma keeps_artifact: "keeps artifact_ok dec_artifact"
  unfolding keeps_def
proof (intro allI impI)
  fix cur v a assume *: "artifact_ok cur" "clean v" "dec_artifact cur v = Some a"
  obtain kvs where k: "struct_keys v = Some kvs" "field dec_str ''goos'' kvs (raGOOS cur) = Some (raGOOS a)"
    "field dec_str ''goarch'' kvs (raGOArch cur) = Some (raGOArch a)" "field dec_str ''url'' kvs (raURL cur) = Some (raURL a)"
    "field dec_str ''sha256'' kvs (raSHA256 cur) = Some (raSHA256 a)" "field dec_int64 ''size'' kvs (raSize cur) = Some (raSize a)"
    using *(3) by (auto simp: dec_artifact_def bind_eq_Some_conv)
  have c: "clean (JObj kvs)" by (rule struct_clean [OF *(2) k(1)])
  show "artifact_ok a"
    using *(1) k(2-5) [THEN str_field [OF c]] keeps_field [OF keeps_int c k(6)] by (simp add: artifact_ok_def)
qed

lemma keeps_artifacts: "keeps (list_all artifact_ok) (dec_list dec_artifact zero_artifact)"
  by (rule keeps_list [OF keeps_artifact]) (simp add: artifact_ok_def zero_artifact_def int64_def)

lemma keeps_install: "keeps install_ok dec_install"
  unfolding keeps_def
proof (intro allI impI)
  fix cur v i assume *: "install_ok cur" "clean v" "dec_install cur v = Some i"
  obtain kvs where k: "struct_keys v = Some kvs" "field dec_str ''type'' kvs (riType cur) = Some (riType i)"
    "field (dec_list dec_artifact zero_artifact) ''artifacts'' kvs (riArtifacts cur) = Some (riArtifacts i)"
    using *(3) by (auto simp: dec_install_def bind_eq_Some_conv)
  have c: "clean (JObj kvs)" by (rule struct_clean [OF *(2) k(1)])
  show "install_ok i" using *(1) str_field [OF c k(2)] keeps_field [OF keeps_artifacts c k(3)] by (simp add: install_ok_def)
qed

lemma keeps_tags: "keeps tags_ok dec_tags"
  using keeps_elems [OF keeps_str, of "[]"] by (auto simp: keeps_def dec_tags_def tags_ok_def split: json.splits)

lemma keeps_plugin: "keeps plugin_ok dec_plugin"
  unfolding keeps_def
proof (intro allI impI)
  fix cur v p assume *: "plugin_ok cur" "clean v" "dec_plugin cur v = Some p"
  obtain kvs where k: "struct_keys v = Some kvs" and f: "field dec_str ''id'' kvs (rgID cur) = Some (rgID p)" "field dec_str ''name'' kvs (rgName cur) = Some (rgName p)"
    "field dec_str ''description'' kvs (rgDescription cur) = Some (rgDescription p)" "field dec_str ''author'' kvs (rgAuthor cur) = Some (rgAuthor p)"
    "field dec_str ''version'' kvs (rgVersion cur) = Some (rgVersion p)" "field dec_str ''repository'' kvs (rgRepository cur) = Some (rgRepository p)"
    "field dec_str ''logo'' kvs (rgLogo cur) = Some (rgLogo p)" "field dec_str ''homepage'' kvs (rgHomepage cur) = Some (rgHomepage p)"
    "field dec_str ''license'' kvs (rgLicense cur) = Some (rgLicense p)"
    and i: "field dec_install ''install'' kvs (rgInstall cur) = Some (rgInstall p)" and t: "field dec_tags ''tags'' kvs (rgTags cur) = Some (rgTags p)"
    using *(3) unfolding dec_plugin_def bind_eq_Some_conv by fastforce
  have c: "clean (JObj kvs)" by (rule struct_clean [OF *(2) k])
  have "install_ok (rgInstall p)"
    using keeps_field [OF keeps_install c i] *(1) by (simp add: plugin_ok_def)
  moreover have "tags_ok (rgTags p)"
    using keeps_field [OF keeps_tags c t] *(1) by (simp add: plugin_ok_def)
  moreover have "list_all ValidString [rgID p, rgName p, rgDescription p, rgAuthor p, rgVersion p, rgRepository p, rgLogo p, rgHomepage p, rgLicense p]"
  proof -
    have "list_all ValidString [rgID cur, rgName cur, rgDescription cur, rgAuthor cur, rgVersion cur, rgRepository cur, rgLogo cur, rgHomepage cur, rgLicense cur]"
      using *(1) by (simp add: plugin_ok_def)
    then show ?thesis unfolding list.pred_inject by (elim conjE) (intro conjI TrueI f [THEN str_field [OF c]])
  qed
  ultimately show "plugin_ok p" by (simp add: plugin_ok_def)
qed

lemma decoded_registry_ok:
  assumes "decode_registry raw = Some d"
  shows "list_all plugin_ok (rdPlugins d) \<and> int64 (rdSchemaVersion d)"
proof -
  obtain v kvs where v: "json_parse raw = Some v" "struct_keys v = Some kvs" "field dec_int64 ''schema_version'' kvs 0 = Some (rdSchemaVersion d)"
    "field (dec_list dec_plugin zero_plugin) ''plugins'' kvs [] = Some (rdPlugins d)"
    using assms by (auto simp: decode_registry_def bind_eq_Some_conv)
  have "clean v" using Decode_parse [OF v(1)] Decode_clean by blast
  then have c: "clean (JObj kvs)" using v(2) by (rule struct_clean)
  have z: "plugin_ok zero_plugin" by (simp add: plugin_ok_def install_ok_def tags_ok_def zero_plugin_def)
  show ?thesis
    using keeps_field [OF keeps_int c v(3)] keeps_field [OF keeps_list [OF keeps_plugin z] c v(4)] by (simp add: int64_def)
qed

section \<open>Versions in the rewritten lines\<close>

lemma version_bytes:
  assumes "Parse s = Inr v" "c \<in> set s"
  shows "identifier_byte c \<or> c = CHR ''.''"
proof -
  have v: "version_ok v" "s = format v" using assms(1) by (simp_all add: Parse_iff)
  have num: "list_all identifier_byte n" if "numeric_group n" for n
    using that by (auto simp: numeric_group_def list_all_iff identifier_byte_def is_digit_def byte_def)
  have "c \<in> set (dotted ss) \<Longrightarrow> c = CHR ''.'' \<or> (\<exists>t \<in> set ss. c \<in> set t)" for ss
    by (induction ss rule: dotted.induct) auto
  with v num assms(2) show ?thesis
    by (auto simp: format_def version_ok_def identifier_ok_def list_all_iff identifier_byte_def split: if_splits)
qed

lemma version_text:
  assumes "Parse s = Inr v"
  shows "s \<noteq> []" "list_all (\<lambda>c. \<not> regex_space c) s" "newline \<notin> set s" "ValidString s" "TrimSpace s = s"
proof -
  have b: "byte c < 128 \<and> byte c > 32" if "c \<in> set s" for c
    using version_bytes [OF assms that] by (auto simp: identifier_byte_def is_digit_def is_upper_def is_lower_def byte_def)
  show "s \<noteq> []" using assms by (auto simp: Parse_iff format_def)
  show "list_all (\<lambda>c. \<not> regex_space c) s" using b by (fastforce simp: list_all_iff regex_space_def)
  show "newline \<notin> set s" using b by (fastforce simp: newline_char byte_def)
  show "ValidString s" using b by (intro ascii_valid) simp
  show "TrimSpace s = s"
    using version_bytes [OF assms]
    by (intro TrimSpace_plain) (fastforce simp: space_byte_def identifier_byte_def is_digit_def is_upper_def is_lower_def byte_def)
qed

lemma plain_tag: "image_line l = Some (name, tag) \<Longrightarrow> tag \<noteq> [] \<Longrightarrow> list_all (\<lambda>c. \<not> regex_space c) tag \<Longrightarrow> image_tag l = Some tag"
proof -
  assume l: "image_line l = Some (name, tag)" "tag \<noteq> []" "list_all (\<lambda>c. \<not> regex_space c) tag"
  have tw: "takeWhile (\<lambda>c. \<not> regex_space c) tag = tag" using l(3) by (simp add: list_all_iff)
  show ?thesis by (simp only: image_tag_def Let_def l(1) tw option.case prod.case) (simp add: l(2))
qed

lemma has_published_tag:
  assumes "Parse version = Inr v" "has_published_image l"
  shows "image_tag (published_image version l) = Some version" "image_tag l \<noteq> None"
proof -
  obtain name tag where l: "image_line l = Some (name, tag)" "tag \<noteq> []" "list_all (\<lambda>c. \<not> regex_space c) tag"
    using assms(2) by (auto simp: has_published_image_def split: option.splits)
  have n: "name \<noteq> []" "list_all (\<lambda>c. c \<noteq> CHR '':'' \<and> byte c \<noteq> 13) name"
    using l(1) by (auto simp: image_line_def Let_def list_all_iff split: if_splits dest: set_takeWhileD)
  have "image_line (''SIDECAR_IMAGE='' @ name @ '':v'' @ version) = Some (name, version)"
    using n by (simp add: image_line_def Let_def HasPrefix_def list_all_iff takeWhile_append)
  moreover have "published_image version l = ''SIDECAR_IMAGE='' @ name @ '':v'' @ version" using l by (simp add: published_image_def)
  ultimately have "image_line (published_image version l) = Some (name, version)" by simp
  then show "image_tag (published_image version l) = Some version" using version_text(1,2) [OF assms(1)] by (rule plain_tag)
  show "image_tag l \<noteq> None" using plain_tag [OF l] by simp
qed

lemma published_other: "\<not> has_published_image l \<Longrightarrow> published_image version l = l"
  by (auto simp: published_image_def has_published_image_def split: option.splits)

lemma published_line: 
  assumes "Parse version = Inr v" "newline \<notin> set l"
  shows "newline \<notin> set (published_image version l)"
proof (cases "has_published_image l")
  case True
  then obtain name tag where l: "image_line l = Some (name, tag)" "published_image version l = ''SIDECAR_IMAGE='' @ name @ '':v'' @ version"
    by (auto simp: has_published_image_def published_image_def split: option.splits)
  have "set name \<subseteq> set l" using l(1) by (auto simp: image_line_def Let_def split: if_splits dest!: set_takeWhileD in_set_dropD)
  with l(2) assms version_text(3) [OF assms(1)] show ?thesis by (auto simp: newline_char)
qed (simp add: published_other assms)

lemma updated_lines:
  assumes "Parse version = Inr v"
  shows "split_lines (updated_env version e) = map (published_image version) (split_lines e)"
  unfolding split_lines_def updated_env_def
  by (rule SplitAt_sep_by) (auto simp: published_line [OF assms] SplitAt_no_sep)

lemma updated_tag:
  assumes "Parse version = Inr v" "list_ex has_published_image (split_lines e)"
    and "\<And>l. l \<in> set (split_lines e) \<Longrightarrow> image_tag l \<noteq> None \<Longrightarrow> has_published_image l"
  shows "image_tag_of (updated_env version e) = Some version"
proof -
  have f: "image_tag (published_image version l) = (if has_published_image l then Some version else None)" if "l \<in> set (split_lines e)" for l
    using has_published_tag(1) [OF assms(1)] published_other [of l version] assms(3) [OF that] by (cases "has_published_image l"; cases "image_tag l") auto
  have "(case List.find (\<lambda>l. image_tag l \<noteq> None) (map (published_image version) ls) of None \<Rightarrow> None | Some l \<Rightarrow> image_tag l) = Some version"
    if "list_ex has_published_image ls" "set ls \<subseteq> set (split_lines e)" for ls
    using that by (induction ls) (auto simp: f)
  then show ?thesis using assms(2) by (simp add: image_tag_of_def updated_lines [OF assms(1)])
qed

section \<open>Artifacts\<close>

definition artifact_of :: "crypto \<Rightarrow> (string \<Rightarrow> archive option) \<Rightarrow> string \<Rightarrow> string \<Rightarrow> registryArtifact" where
  "artifact_of C assets version arch =
     (let d = arData (the (assets (archive_name version arch))) in
      \<lparr>raGOOS = ''linux'', raGOArch = arch, raURL = archive_url version arch, raSHA256 = hex_encode (Sum256 C d), raSize = int (length d)\<rparr>)"

lemma inspected:
  assumes "inspectArchive C zip_names assets version arch = Inr a"
  shows "a = artifact_of C assets version arch \<and> raSize a > 0 \<and>
    (\<exists>x names. assets (archive_name version arch) = Some x \<and> zip_names (arData x) = Some names \<and> ''codex-agent-identity.so'' \<in> set names)"
  using assms by (auto simp: inspectArchive_def artifact_of_def Let_def split: option.splits if_splits)

lemma inspected_all:
  assumes "inspect_all (inspectArchive C zip_names assets version) architectures = Inr as"
  shows "as = map (artifact_of C assets version) architectures \<and> (\<forall>a \<in> set as. raSize a > 0) \<and>
    (\<forall>arch \<in> set architectures. \<exists>x names. assets (archive_name version arch) = Some x \<and> zip_names (arData x) = Some names \<and> ''codex-agent-identity.so'' \<in> set names)"
  using assms by (auto simp: architectures_def split: sum.splits dest!: inspected)

lemma address_valid: "ValidString version \<Longrightarrow> arch \<in> set architectures \<Longrightarrow> ValidString (archive_url version arch)"
proof -
  assume v: "ValidString version" "arch \<in> set architectures"
  have "ValidString arch" using v(2) by (auto simp: architectures_def ascii_valid byte_def)
  moreover have "ValidString ''https://github.com/simplez2/cpa-codex-agent-identity/releases/download/v''" "ValidString ''/''" "ValidString ''codex-agent-identity_''"
    "ValidString ''_linux_''" "ValidString ''.zip''"
    by (simp_all add: ascii_valid byte_def)
  ultimately show ?thesis unfolding archive_url_def archive_name_def using v(1) by (intro ValidString_append)
qed

lemma artifacts_verified:
  assumes "crypto_ok C" "ValidString version" "\<And>arch. arch \<in> set architectures \<Longrightarrow> 0 < raSize (artifact_of C assets version arch)"
    and "\<And>arch. arch \<in> set architectures \<Longrightarrow> raSize (artifact_of C assets version arch) < 2 ^ 63"
  shows "verifyRegistryArtifacts (map (artifact_of C assets version) architectures) version = None"
    "list_all artifact_ok (map (artifact_of C assets version) architectures)"
proof -
  have h: "hash_ok (hex_encode (Sum256 C x))" for x
    using assms(1) by (auto simp: hash_ok_def crypto_ok_def list_all_iff intro: hex_encode_lower)
  have v: "ValidString (hex_encode x)" for x
    by (intro ascii_valid) (use hex_encode_lower [of _ x] lower_hex_plain in blast)
  show "verifyRegistryArtifacts (map (artifact_of C assets version) architectures) version = None"
    using assms(3) [of "''amd64''"] assms(3) [of "''arm64''"] h
    by (simp add: verifyRegistryArtifacts_def architectures_def artifact_of_def Let_def)
  show "list_all artifact_ok (map (artifact_of C assets version) architectures)"
    using assms(4) v address_valid [OF assms(2)]
    by (auto simp: list_all_iff artifact_ok_def artifact_of_def Let_def int64_def architectures_def ascii_valid byte_def)
qed

section \<open>A publication and its verification\<close>

definition updated_registry :: "crypto \<Rightarrow> (string \<Rightarrow> archive option) \<Rightarrow> string \<Rightarrow> registryDocument \<Rightarrow> registryPlugin \<Rightarrow> registryDocument" where
  "updated_registry C assets version d p =
     d\<lparr>rdPlugins := [p\<lparr>rgVersion := version, rgInstall := (rgInstall p)\<lparr>riArtifacts := map (artifact_of C assets version) architectures\<rparr>\<rparr>]\<rparr>"

lemma prepared_cases:
  assumes "publish_updates C zip_names assets version source repo = Inr upd"
  obtains raw d p e where "repo ''registry.json'' = Some raw" "decode_registry raw = Some d" "rdPlugins d = [p]" "rdSchemaVersion d = 2"
    "inspect_all (inspectArchive C zip_names assets version) architectures = Inr (map (artifact_of C assets version) architectures)"
    "repo ''.env.example'' = Some e" "list_ex has_published_image (split_lines e)"
    "upd = (encode_registry (updated_registry C assets version d p), updated_env version e)"
    "rgID p = ''codex-agent-identity''" "riType (rgInstall p) = ''direct''"
proof -
  obtain raw d p as e where u: "repo ''registry.json'' = Some raw" "decode_registry raw = Some d" "registry_entry d source = Inr p"
    "inspect_all (inspectArchive C zip_names assets version) architectures = Inr as" "repo ''.env.example'' = Some e"
    "list_ex has_published_image (split_lines e)"
    "upd = (encode_registry (d\<lparr>rdPlugins := [p\<lparr>rgVersion := version, rgInstall := (rgInstall p)\<lparr>riArtifacts := as\<rparr>\<rparr>]\<rparr>), updated_env version e)"
    using assms unfolding publish_updates_def by (auto split: option.splits sum.splits if_splits)
  have "as = map (artifact_of C assets version) architectures" using inspected_all [OF u(4)] by simp
  moreover have "rdPlugins d = [p] \<and> rdSchemaVersion d = 2 \<and> rgID p = ''codex-agent-identity'' \<and> riType (rgInstall p) = ''direct''"
    using u(3) by (auto simp: registry_entry_def split: list.splits if_splits sum.splits)
  ultimately show thesis using that u by (simp add: updated_registry_def)
qed

lemma write_release_cases:
  assumes "write_release denied registry env repo = (r, repo')" "r = None \<or> r = Some (NotWritten ''.env.example'')"
  shows "repo' = (if r = None then repo(''registry.json'' \<mapsto> registry, ''.env.example'' \<mapsto> env) else repo(''registry.json'' \<mapsto> registry))"
  using assms by (auto simp: write_release_def writeAtomically_def split: if_splits prod.splits option.splits)

lemma inspect_denied: "inspect_all (inspectArchive C zip_names assets version) archs \<noteq> Inl (NotWritten x)"
proof (induction archs)
  case (Cons arch archs)
  have "inspectArchive C zip_names assets version arch \<noteq> Inl (NotWritten x)" by (auto simp: inspectArchive_def Let_def split: option.splits if_splits)
  with Cons show ?case by (auto split: sum.splits)
qed simp

lemma prepared_denied: "publish_updates C zip_names assets version source repo \<noteq> Inl (NotWritten x)"
  using inspect_denied [of C zip_names assets version architectures x]
  by (auto simp: publish_updates_def registry_entry_def split: option.splits sum.splits if_splits list.splits)

lemma published_cases:
  assumes "publishRelease C zip_names denied assets requested repo = (r, repo')" "r = None \<or> r = Some (NotWritten ''.env.example'')"
  obtains version source upd where "readTrimmed repo ''VERSION'' = Inr version" "Parse version = Inr source"
    "publish_updates C zip_names assets version source repo = Inr upd"
    "repo' = (if r = None then repo(''registry.json'' \<mapsto> fst upd, ''.env.example'' \<mapsto> snd upd) else repo(''registry.json'' \<mapsto> fst upd))"
proof -
  have "\<exists>version source upd. readTrimmed repo ''VERSION'' = Inr version \<and> Parse version = Inr source \<and>
      publish_updates C zip_names assets version source repo = Inr upd \<and> write_release denied (fst upd) (snd upd) repo = (r, repo')"
    using assms prepared_denied by (fastforce simp: publishRelease_def readTrimmed_def split: option.splits sum.splits if_splits prod.splits)
  with write_release_cases [OF _ assms(2)] that show thesis by metis
qed

lemma updated_registry_ok:
  assumes "crypto_ok C" "Parse version = Inr source" "decode_registry raw = Some d" "rdPlugins d = [p]"
    and "inspect_all (inspectArchive C zip_names assets version) architectures = Inr (map (artifact_of C assets version) architectures)"
    and "\<And>arch. arch \<in> set architectures \<Longrightarrow> raSize (artifact_of C assets version arch) < 2 ^ 63"
  shows "decode_registry (encode_registry (updated_registry C assets version d p)) = Some (updated_registry C assets version d p)"
    "decode_published (encode_registry (updated_registry C assets version d p)) = Some [(version, map (artifact_of C assets version) architectures)]"
    "verifyRegistryArtifacts (map (artifact_of C assets version) architectures) version = None"
proof -
  let ?as = "map (artifact_of C assets version) architectures"
  note t = version_text [OF assms(2)]
  have i: "\<forall>a \<in> set ?as. raSize a > 0" using inspected_all [OF assms(5)] by blast
  then show "verifyRegistryArtifacts ?as version = None" using artifacts_verified(1) [OF assms(1) t(4), of assets] assms(6) by auto
  have "list_all artifact_ok ?as" using artifacts_verified(2) [OF assms(1) t(4), of assets] i assms(6) by auto
  moreover have "plugin_ok p" "int64 (rdSchemaVersion d)" using decoded_registry_ok [OF assms(3)] assms(4) by simp_all
  ultimately have "list_all plugin_ok (rdPlugins (updated_registry C assets version d p))" "int64 (rdSchemaVersion (updated_registry C assets version d p))"
    using t(4) by (simp_all add: plugin_ok_def install_ok_def updated_registry_def)
  from registry_roundtrip [OF this] show "decode_registry (encode_registry (updated_registry C assets version d p)) = Some (updated_registry C assets version d p)"
    "decode_published (encode_registry (updated_registry C assets version d p)) = Some [(version, ?as)]"
    by (simp_all add: updated_registry_def)
qed

lemma Compare_same: "Parse s = Inr v \<Longrightarrow> Compare v v = 0"
  using versions.zero_iff [of v v] by (simp add: Parse_iff)

text \<open>
  C40: a published release verifies.  If the release check accepted the repository before a publication that succeeded, the change log has the dated section of the version and no image line
  carries trailing white space, then afterwards the strict check accepts the repository.  The registry then holds the new version and, for each
  architecture, the address, the hash and the size of the inspected archive, which contains the library; everything else in it is as before.
\<close>

theorem published_release_verifies:
  assumes "crypto_ok C" and "verifyRelease repo tag False = None"
    and "publishRelease C zip_names denied assets requested repo = (None, repo')"
    and "readTrimmed repo ''VERSION'' = Inr version" and "repo ''CHANGELOG.md'' = Some changelog" and "list_ex (dated_heading version) (split_lines changelog)"
    and "repo ''.env.example'' = Some e" and "\<And>l. l \<in> set (split_lines e) \<Longrightarrow> image_tag l \<noteq> None \<Longrightarrow> has_published_image l"
    and "\<And>arch. arch \<in> set architectures \<Longrightarrow> raSize (artifact_of C assets version arch) < 2 ^ 63"
  shows "verifyRelease repo' tag True = None \<and>
    (\<exists>d p. Option.bind (repo ''registry.json'') decode_registry = Some d \<and> rdPlugins d = [p] \<and>
       Option.bind (repo' ''registry.json'') decode_registry = Some (d\<lparr>rdPlugins := [p\<lparr>rgVersion := version,
         rgInstall := (rgInstall p)\<lparr>riArtifacts := map (artifact_of C assets version) architectures\<rparr>\<rparr>]\<rparr>)) \<and>
    (\<forall>arch \<in> set architectures. \<exists>x names. assets (archive_name version arch) = Some x \<and> zip_names (arData x) = Some names \<and> ''codex-agent-identity.so'' \<in> set names)"
proof -
  obtain source upd where s: "Parse version = Inr source" "publish_updates C zip_names assets version source repo = Inr upd"
    "repo' = repo(''registry.json'' \<mapsto> fst upd, ''.env.example'' \<mapsto> snd upd)"
    using published_cases [OF assms(3)] assms(4) by (metis sum.inject(2))
  obtain raw d p where u: "repo ''registry.json'' = Some raw" "decode_registry raw = Some d" "rdPlugins d = [p]"
    "inspect_all (inspectArchive C zip_names assets version) architectures = Inr (map (artifact_of C assets version) architectures)"
    "list_ex has_published_image (split_lines e)" "upd = (encode_registry (updated_registry C assets version d p), updated_env version e)"
    using prepared_cases [OF s(2)] assms(7) by (metis option.inject)
  note reread = updated_registry_ok [OF assms(1) s(1) u(2,3,4) assms(9)]
  have reg: "verify_registry repo' version source True = Inr version"
    using reread(2,3) s(1) version_text(5) [OF s(1)] Compare_same [OF s(1)] by (simp add: verify_registry_def s(3) u(6))
  have env: "image_tag_of (updated_env version e) = Some version" by (rule updated_tag [OF s(1) u(5) assms(8)])
  have src: "verify_sources repo' version source = None" and tag: "tag = [] \<or> tag = ''v'' @ version"
    using assms(2) s(1) unfolding verifyRelease_def assms(4) s(3)
    by (auto simp: verify_sources_def plugin_path_def split: option.splits sum.splits if_splits)
  have "verifyRelease repo' tag True = None"
    using assms(4-6) s(1) src reg env tag unfolding verifyRelease_def
    by (auto simp: readTrimmed_def verify_changelog_def s(3) u(6))
  with reread(1) u(1-3) inspected_all [OF u(4)] show ?thesis by (auto simp: s(3) u(6) updated_registry_def)
qed

text \<open>
  A publication that was cut in half cannot be repeated.  When the registry was written but the image line was not, the image line still names the old release, and every
  further publication of the version is refused, because the registry is no longer older.
\<close>

lemma half_publication_blocks_retry:
  assumes "crypto_ok C" and "publishRelease C zip_names denied assets requested repo = (Some (NotWritten ''.env.example''), repo')"
    and "readTrimmed repo ''VERSION'' = Inr version"
    and "\<And>arch. arch \<in> set architectures \<Longrightarrow> raSize (artifact_of C assets version arch) < 2 ^ 63"
  shows "repo' ''.env.example'' = repo ''.env.example''" "publishRelease C zip_names' denied' assets' [] repo' = (Some NotOlder, repo')"
proof -
  obtain source upd where s: "Parse version = Inr source" "publish_updates C zip_names assets version source repo = Inr upd"
    "repo' = repo(''registry.json'' \<mapsto> fst upd)"
    using published_cases [OF assms(2)] assms(3) by (metis option.distinct(1) sum.inject(2))
  obtain raw d p e where u: "decode_registry raw = Some d" "rdPlugins d = [p]"
    "inspect_all (inspectArchive C zip_names assets version) architectures = Inr (map (artifact_of C assets version) architectures)"
    "upd = (encode_registry (updated_registry C assets version d p), updated_env version e)" "rdSchemaVersion d = 2"
    "rgID p = ''codex-agent-identity''" "riType (rgInstall p) = ''direct''"
    by (rule prepared_cases [OF s(2)])
  have "registry_entry (updated_registry C assets version d p) source = Inl NotOlder"
    using u(5-7) s(1) Compare_same [OF s(1)] by (simp add: registry_entry_def updated_registry_def)
  then have "publish_updates C zip_names' assets' version source repo' = Inl NotOlder"
    using updated_registry_ok(1) [OF assms(1) s(1) u(1-3) assms(4)] by (simp add: publish_updates_def s(3) u(4))
  then show "publishRelease C zip_names' denied' assets' [] repo' = (Some NotOlder, repo')"
    using assms(3) s(1) by (simp add: publishRelease_def readTrimmed_def s(3) split: option.splits)
  show "repo' ''.env.example'' = repo ''.env.example''" by (simp add: s(3))
qed

end
