(* ===== verification/Release_Witnesses.thy ===== *)
theory Release_Witnesses
  imports Release_Properties
begin

text \<open>A small repository whose release is published and verified.\<close>

definition demo_old :: string where "demo_old = ''1.0.0''"
definition demo_new :: string where "demo_new = ''1.1.0''"

definition demo_assets :: "string \<Rightarrow> archive option" where
  "demo_assets name = Some \<lparr>arRegular = True, arData = ''zip''\<rparr>"

definition demo_zip :: "bytes \<Rightarrow> string list option" where
  "demo_zip raw = Some [''codex-agent-identity.so'']"

definition demo_registry :: registryDocument where
  "demo_registry = \<lparr>rdSchemaVersion = 2, rdPlugins = [zero_plugin\<lparr>rgID := ''codex-agent-identity'', rgVersion := demo_old,
     rgInstall := \<lparr>riType = ''direct'', riArtifacts = map (artifact_of demo_crypto demo_assets demo_old) architectures\<rparr>\<rparr>]\<rparr>"

definition demo_image :: string where "demo_image = ''SIDECAR_IMAGE=a:v1.0.0''"

definition demo_log :: string where "demo_log = ''## [1.1.0] - 2026-01-01'' @ [newline] @ ''## [Unreleased]''"

definition demo_plugin :: string where
  "demo_plugin = ''pluginVersion='' @ [quotation] @ demo_new @ [quotation] @ ''minimumSidecarVersion='' @ [quotation] @ demo_old @ [quotation]"

definition demo_release :: repository where
  "demo_release = [''VERSION'' \<mapsto> demo_new, ''Makefile'' \<mapsto> makefile_rule, plugin_path \<mapsto> demo_plugin, ''registry.json'' \<mapsto> encode_registry demo_registry,
     ''.env.example'' \<mapsto> demo_image, ''CHANGELOG.md'' \<mapsto> demo_log]"

lemma demo_parse:
  "Parse demo_old = Inr \<lparr>major = ''1'', minor = ''0'', patch = ''0'', prerelease = []\<rparr>"
  "Parse demo_new = Inr \<lparr>major = ''1'', minor = ''1'', patch = ''0'', prerelease = []\<rparr>"
  by (simp_all add: Parse_iff version_ok_def format_def numeric_group_def is_digit_def byte_def demo_old_def demo_new_def)

lemma demo_order:
  "Compare \<lparr>major = ''1'', minor = ''0'', patch = ''0'', prerelease = []\<rparr> \<lparr>major = ''1'', minor = ''1'', patch = ''0'', prerelease = []\<rparr> = - 1"
  by (simp add: Compare_def compareNumeric_def Let_def less_char_def)

lemma demo_files:
  "demo_release ''VERSION'' = Some demo_new" "demo_release ''Makefile'' = Some makefile_rule" "demo_release plugin_path = Some demo_plugin"
  "demo_release ''registry.json'' = Some (encode_registry demo_registry)" "demo_release ''.env.example'' = Some demo_image" "demo_release ''CHANGELOG.md'' = Some demo_log"
  by (simp_all add: demo_release_def plugin_path_def)

lemma demo_lines: "split_lines demo_image = [demo_image]" "split_lines demo_log = [''## [1.1.0] - 2026-01-01'', ''## [Unreleased]'']"
  by (simp_all add: split_lines_def demo_image_def demo_log_def newline_char)

lemma demo_image_line: "image_line demo_image = Some (''a'', demo_old)"
  by (simp add: image_line_def demo_image_def demo_old_def HasPrefix_def Let_def byte_def)

lemma demo_dated: "dated_heading demo_new ''## [1.1.0] - 2026-01-01''"
  by (simp add: dated_heading_def demo_new_def drop_cr_def HasPrefix_def Let_def is_digit_def byte_def)

lemma demo_unreleased: "unreleased_heading ''## [Unreleased]''"
  by (simp add: unreleased_heading_def drop_cr_def byte_def)

lemma demo_declared: "find_declared ''pluginVersion'' demo_plugin = Some demo_new" "find_declared ''minimumSidecarVersion'' demo_plugin = Some demo_old"
  by (simp_all add: demo_plugin_def demo_new_def demo_old_def declared_at_def HasPrefix_def Let_def regex_space_def byte_def)

lemma demo_artifacts:
  assumes "version \<in> {demo_old, demo_new}"
  shows "verifyRegistryArtifacts (map (artifact_of demo_crypto demo_assets version) architectures) version = None"
    "list_all artifact_ok (map (artifact_of demo_crypto demo_assets version) architectures)"
    "inspect_all (inspectArchive demo_crypto demo_zip demo_assets version) architectures = Inr (map (artifact_of demo_crypto demo_assets version) architectures)"
    "raSize (artifact_of demo_crypto demo_assets version arch) = 3"
proof -
  have "ValidString version" using assms version_text(4) demo_parse by blast
  then show "verifyRegistryArtifacts (map (artifact_of demo_crypto demo_assets version) architectures) version = None"
    "list_all artifact_ok (map (artifact_of demo_crypto demo_assets version) architectures)"
    by (rule artifacts_verified [OF demo_crypto_ok]; simp add: artifact_of_def demo_assets_def)+
  show "inspect_all (inspectArchive demo_crypto demo_zip demo_assets version) architectures = Inr (map (artifact_of demo_crypto demo_assets version) architectures)"
    by (simp add: architectures_def inspectArchive_def artifact_of_def demo_assets_def demo_zip_def Let_def)
  show "raSize (artifact_of demo_crypto demo_assets version arch) = 3" by (simp add: artifact_of_def demo_assets_def)
qed

lemma demo_reread:
  "decode_registry (encode_registry demo_registry) = Some demo_registry"
  "decode_published (encode_registry demo_registry) = Some [(demo_old, map (artifact_of demo_crypto demo_assets demo_old) architectures)]"
proof -
  have "list_all plugin_ok (rdPlugins demo_registry)" "int64 (rdSchemaVersion demo_registry)"
    using demo_artifacts(2) [of demo_old] version_text(4) [OF demo_parse(1)]
    by (simp_all add: demo_registry_def plugin_ok_def install_ok_def tags_ok_def zero_plugin_def int64_def ascii_valid byte_def)
  from registry_roundtrip [OF this] show "decode_registry (encode_registry demo_registry) = Some demo_registry"
    "decode_published (encode_registry demo_registry) = Some [(demo_old, map (artifact_of demo_crypto demo_assets demo_old) architectures)]"
    by (simp_all add: demo_registry_def)
qed

lemma demo_published: "has_published_image demo_image" "image_tag_of demo_image = Some demo_old"
proof -
  have t: "demo_old \<noteq> []" "list_all (\<lambda>c. \<not> regex_space c) demo_old" using version_text(1,2) [OF demo_parse(1)] by simp_all
  show "has_published_image demo_image" using demo_image_line t by (simp add: has_published_image_def)
  show "image_tag_of demo_image = Some demo_old" using plain_tag [OF demo_image_line t] by (simp add: image_tag_of_def demo_lines)
qed

lemma demo_verified: "verifyRelease demo_release [] False = None"
proof -
  note t = version_text(5) [OF demo_parse(1)] version_text(5) [OF demo_parse(2)]
  have "verify_sources demo_release demo_new \<lparr>major = ''1'', minor = ''1'', patch = ''0'', prerelease = []\<rparr> = None"
    by (simp add: verify_sources_def demo_files demo_declared demo_parse demo_order Contains_def)
  moreover have "verify_registry demo_release demo_new \<lparr>major = ''1'', minor = ''1'', patch = ''0'', prerelease = []\<rparr> False = Inr demo_old"
    using demo_artifacts(1) [of demo_old] by (simp add: verify_registry_def demo_files demo_reread t demo_parse demo_order)
  moreover have "verify_changelog demo_log demo_new demo_old [] = None"
    using demo_unreleased by (simp add: verify_changelog_def demo_lines demo_old_def demo_new_def)
  ultimately show ?thesis by (simp add: verifyRelease_def readTrimmed_def demo_files t demo_parse demo_published)
qed

lemma demo_publish: "\<exists>repo'. publishRelease demo_crypto demo_zip (\<lambda>_. False) demo_assets [] demo_release = (None, repo')"
proof -
  have "registry_entry demo_registry \<lparr>major = ''1'', minor = ''1'', patch = ''0'', prerelease = []\<rparr> = Inr (hd (rdPlugins demo_registry))"
    by (simp add: registry_entry_def demo_registry_def demo_parse demo_order)
  then show ?thesis
    using demo_artifacts(3) [of demo_new] demo_published(1)
    by (simp add: publishRelease_def publish_updates_def readTrimmed_def demo_files version_text(5) [OF demo_parse(2)] demo_parse demo_reread demo_lines
        write_release_def writeAtomically_def)
qed

theorem published_release_verifies_witness:
  "\<exists>repo'. publishRelease demo_crypto demo_zip (\<lambda>_. False) demo_assets [] demo_release = (None, repo') \<and> verifyRelease repo' [] True = None"
proof -
  obtain repo' where r: "publishRelease demo_crypto demo_zip (\<lambda>_. False) demo_assets [] demo_release = (None, repo')" using demo_publish by blast
  have "readTrimmed demo_release ''VERSION'' = Inr demo_new" by (simp add: readTrimmed_def demo_files version_text(5) [OF demo_parse(2)])
  from published_release_verifies [OF demo_crypto_ok demo_verified r this demo_files(6) _ demo_files(5)] r show ?thesis
    using demo_dated demo_published(1) demo_artifacts(4) [of demo_new] by (auto simp: demo_lines)
qed

end
