(* ===== verification/Task_Flight.thy ===== *)
theory Task_Flight
  imports Identity_Manager
begin

text \<open>
  Concurrent requests for one task (\<^verbatim>\<open>Manager.task\<close> of \<^verbatim>\<open>internal/identity/manager.go\<close>).  The sections under the manager's mutex are atomic steps; between them
  the goroutines interleave freely.  A call that finds neither a task nor a registration of its key under way registers itself as a flight and leads it; later
  calls wait for the flight's channel or for the end of their own context.  Calls and flights are numbered; \<open>fbClosed\<close> holds the key and the
  result of every flight whose channel is closed.
\<close>

section \<open>Steps\<close>

datatype phase =
    Waiting string nat
  | Leading string nat
  | Returned string "nat option" "id_error + string"

record flight_board =
  fbManager :: Manager
  fbFlights :: "nat gomap"
  fbClosed :: "nat \<Rightarrow> (string \<times> (id_error + string)) option"
  fbCalls :: "nat \<Rightarrow> phase option"
  fbNext :: nat

definition set_call :: "nat \<Rightarrow> phase \<Rightarrow> flight_board \<Rightarrow> flight_board" where
  "set_call c p b = b\<lparr>fbCalls := (fbCalls b)(c \<mapsto> p)\<rparr>"

text \<open>The first section of the call: a cached task is returned, a flight of the key is joined, or a new one is started.\<close>

definition enter_task :: "nat \<Rightarrow> string \<Rightarrow> flight_board \<Rightarrow> flight_board" where
  "enter_task c key b =
     (let cached = (case map_get (tasks (fbManager b)) key of None \<Rightarrow> [] | Some t \<Rightarrow> t) in
      if cached \<noteq> [] then set_call c (Returned key None (Inr cached)) b
      else case map_get (fbFlights b) key of
        Some f \<Rightarrow> set_call c (Waiting key f) b
      | None \<Rightarrow> set_call c (Leading key (fbNext b)) (b\<lparr>fbFlights := map_put key (fbNext b) (fbFlights b), fbNext := Suc (fbNext b)\<rparr>))"

text \<open>The second section of the leader, after the registration returned \<open>r\<close>.\<close>

definition finish_flight :: "nat \<Rightarrow> id_error + string \<Rightarrow> flight_board \<Rightarrow> flight_board" where
  "finish_flight c r b =
     (case fbCalls b c of
        Some (Leading key f) \<Rightarrow>
          set_call c (Returned key (Some f) r)
            (b\<lparr>fbManager := (case r of
                  Inr t \<Rightarrow> if t \<noteq> [] then (fbManager b)\<lparr>tasks := map_put key t (tasks (fbManager b))\<rparr> else fbManager b
                | Inl _ \<Rightarrow> fbManager b),
               fbFlights := map_del key (fbFlights b), fbClosed := (fbClosed b)(f \<mapsto> (key, r))\<rparr>)
      | _ \<Rightarrow> b)"

definition wake_waiter :: "nat \<Rightarrow> flight_board \<Rightarrow> flight_board" where
  "wake_waiter c b =
     (case fbCalls b c of
        Some (Waiting key f) \<Rightarrow> (case fbClosed b f of None \<Rightarrow> b | Some (_, r) \<Rightarrow> set_call c (Returned key (Some f) r) b)
      | _ \<Rightarrow> b)"

definition cancel_waiter :: "nat \<Rightarrow> flight_board \<Rightarrow> flight_board" where
  "cancel_waiter c b =
     (case fbCalls b c of
        Some (Waiting key f) \<Rightarrow> set_call c (Returned key (Some f) (Inl ContextDone)) b
      | _ \<Rightarrow> b)"

definition invalidate_task :: "crypto \<Rightarrow> string \<Rightarrow> string \<Rightarrow> string \<Rightarrow> flight_board \<Rightarrow> flight_board" where
  "invalidate_task C identityID tokenHash sessionID b = b\<lparr>fbManager := InvalidateTask C identityID tokenHash sessionID (fbManager b)\<rparr>"

inductive flight_step :: "flight_board \<Rightarrow> flight_board \<Rightarrow> bool" where
  enters: "fbCalls b c = None \<Longrightarrow> flight_step b (enter_task c key b)"
| finishes: "flight_step b (finish_flight c r b)"
| wakes: "flight_step b (wake_waiter c b)"
| cancels: "flight_step b (cancel_waiter c b)"
| invalidates: "flight_step b (invalidate_task C identityID tokenHash sessionID b)"

inductive_cases flight_stepE: "flight_step b b'"

definition flight_init :: "flight_board \<Rightarrow> bool" where
  "flight_init b \<longleftrightarrow> tasks (fbManager b) = [] \<and> fbFlights b = [] \<and> fbClosed b = Map.empty \<and> fbCalls b = Map.empty"

section \<open>The invariant\<close>

definition phase_ok :: "flight_board \<Rightarrow> phase \<Rightarrow> bool" where
  "phase_ok b p =
     (case p of
        Leading key f \<Rightarrow> f < fbNext b \<and> fbClosed b f = None \<and> map_get (fbFlights b) key = Some f
      | Waiting key f \<Rightarrow> f < fbNext b \<and> (map_get (fbFlights b) key = Some f \<or> (\<exists>r. fbClosed b f = Some (key, r)))
      | Returned key f r \<Rightarrow> (\<forall>g. f = Some g \<longrightarrow> g < fbNext b \<and> (r = Inl ContextDone \<or> fbClosed b g = Some (key, r))))"

definition flight_inv :: "flight_board \<Rightarrow> bool" where
  "flight_inv b \<longleftrightarrow>
     (\<forall>c p. fbCalls b c = Some p \<longrightarrow> phase_ok b p) \<and>
     (\<forall>c c' k k' f. fbCalls b c = Some (Leading k f) \<and> fbCalls b c' = Some (Leading k' f) \<longrightarrow> c = c') \<and>
     (\<forall>k f. map_get (fbFlights b) k = Some f \<longrightarrow> (\<exists>c. fbCalls b c = Some (Leading k f))) \<and>
     (\<forall>f. fbClosed b f \<noteq> None \<longrightarrow> f < fbNext b) \<and>
     (\<forall>k t. map_get (tasks (fbManager b)) k = Some t \<longrightarrow> (\<exists>f. fbClosed b f = Some (k, Inr t)))"

lemmas flight_invD =
  flight_inv_def [THEN iffD1, THEN conjunct1, rule_format]
  flight_inv_def [THEN iffD1, THEN conjunct2, THEN conjunct1, rule_format]
  flight_inv_def [THEN iffD1, THEN conjunct2, THEN conjunct2, THEN conjunct1, rule_format]
  flight_inv_def [THEN iffD1, THEN conjunct2, THEN conjunct2, THEN conjunct2, THEN conjunct1, rule_format]
  flight_inv_def [THEN iffD1, THEN conjunct2, THEN conjunct2, THEN conjunct2, THEN conjunct2, rule_format]

lemma flight_inv_init: "flight_init b \<Longrightarrow> flight_inv b"
  by (simp add: flight_init_def flight_inv_def)

lemma set_call_simps [simp]:
  "fbManager (set_call c p b) = fbManager b" "fbFlights (set_call c p b) = fbFlights b" "fbClosed (set_call c p b) = fbClosed b"
  "fbNext (set_call c p b) = fbNext b" "fbCalls (set_call c p b) = (fbCalls b)(c \<mapsto> p)"
  by (simp_all add: set_call_def)

lemma phase_ok_set_call [simp]: "phase_ok (set_call c p b) = phase_ok b"
  by (rule ext) (simp add: phase_ok_def split: phase.splits)

text \<open>A step that only moves a call that does not lead.\<close>

lemma set_call_inv:
  assumes "flight_inv b" "phase_ok b p" "\<And>k f. p \<noteq> Leading k f" "\<And>k f. fbCalls b c \<noteq> Some (Leading k f)"
  shows "flight_inv (set_call c p b)"
  using assms unfolding flight_inv_def by (simp split: if_splits) metis

lemma enter_inv:
  assumes inv: "flight_inv b" and new: "fbCalls b c = None"
  shows "flight_inv (enter_task c key b)"
proof (cases "(case map_get (tasks (fbManager b)) key of None \<Rightarrow> [] | Some t \<Rightarrow> t) = []")
  case False
  then show ?thesis using set_call_inv [OF inv] new by (simp add: enter_task_def Let_def phase_ok_def)
next
  case uncached: True
  show ?thesis
  proof (cases "map_get (fbFlights b) key")
    case (Some f)
    then obtain l where "fbCalls b l = Some (Leading key f)" using flight_invD(3) [OF inv] by blast
    then have "f < fbNext b" using flight_invD(1) [OF inv] by (fastforce simp: phase_ok_def)
    with Some uncached show ?thesis using set_call_inv [OF inv] new by (simp add: enter_task_def Let_def phase_ok_def)
  next
    case None
    let ?b = "b\<lparr>fbFlights := map_put key (fbNext b) (fbFlights b), fbNext := Suc (fbNext b)\<rparr>"
    have old: "phase_ok ?b p" if "fbCalls b l = Some p" for l p
      using flight_invD(1) [OF inv that] None by (auto simp: phase_ok_def split: phase.splits)
    have fresh: "f < fbNext b" if "fbCalls b l = Some (Leading k f)" for l k f
      using flight_invD(1) [OF inv that] by (simp add: phase_ok_def)
    have closed: "fbClosed b (fbNext b) = None" using flight_invD(4) [OF inv, of "fbNext b"] by (cases "fbClosed b (fbNext b)") simp_all
    have "enter_task c key b = set_call c (Leading key (fbNext b)) ?b" using uncached None by (simp add: enter_task_def)
    moreover have "flight_inv \<dots>" unfolding flight_inv_def
    proof (intro conjI allI impI)
      fix l p assume "fbCalls (set_call c (Leading key (fbNext b)) ?b) l = Some p"
      then show "phase_ok (set_call c (Leading key (fbNext b)) ?b) p"
        using old closed by (auto simp: phase_ok_def split: if_splits)
    next
      fix l l' k k' f
      assume "fbCalls (set_call c (Leading key (fbNext b)) ?b) l = Some (Leading k f) \<and> fbCalls (set_call c (Leading key (fbNext b)) ?b) l' = Some (Leading k' f)"
      then show "l = l'" using flight_invD(2) [OF inv] fresh by (fastforce split: if_splits)
    next
      fix k f assume "map_get (fbFlights (set_call c (Leading key (fbNext b)) ?b)) k = Some f"
      then show "\<exists>l. fbCalls (set_call c (Leading key (fbNext b)) ?b) l = Some (Leading k f)"
        using flight_invD(3) [OF inv, of k f] new by (auto split: if_splits) (metis option.distinct(1))
    next
      fix f assume "fbClosed (set_call c (Leading key (fbNext b)) ?b) f \<noteq> None"
      then show "f < fbNext (set_call c (Leading key (fbNext b)) ?b)" using inv by (auto simp: flight_inv_def less_Suc_eq)
    next
      fix k t assume "map_get (tasks (fbManager (set_call c (Leading key (fbNext b)) ?b))) k = Some t"
      then show "\<exists>f. fbClosed (set_call c (Leading key (fbNext b)) ?b) f = Some (k, Inr t)" using inv by (simp add: flight_inv_def)
    qed
    ultimately show ?thesis by simp
  qed
qed

lemma finish_inv:
  assumes inv: "flight_inv b"
  shows "flight_inv (finish_flight c r b)"
proof (cases "\<exists>key f. fbCalls b c = Some (Leading key f)")
  case True
  then obtain key f where l: "fbCalls b c = Some (Leading key f)" by blast
  let ?b = "finish_flight c r b"
  have f: "f < fbNext b" "fbClosed b f = None" "map_get (fbFlights b) key = Some f" using flight_invD(1) [OF inv l] by (simp_all add: phase_ok_def)
  have alone: "k \<noteq> key \<and> g \<noteq> f" if "fbCalls b d = Some (Leading k g)" "d \<noteq> c" for d k g
    using flight_invD(1) [OF inv that(1)] flight_invD(2) [OF inv, of d _ g c] that l f(3) by (auto simp: phase_ok_def)
  have b [simp]: "fbCalls ?b = (fbCalls b)(c \<mapsto> Returned key (Some f) r)" "fbFlights ?b = map_del key (fbFlights b)" "fbClosed ?b = (fbClosed b)(f \<mapsto> (key, r))"
    "fbNext ?b = fbNext b"
    using l by (simp_all add: finish_flight_def)
  have moved: "phase_ok ?b p" if "fbCalls b d = Some p" "d \<noteq> c" for d p
    using flight_invD(1) [OF inv that(1)] alone [of d] that f(2,3) by (cases p) (auto simp: phase_ok_def)
  show ?thesis unfolding flight_inv_def
  proof (intro conjI allI impI)
    fix d p assume "fbCalls ?b d = Some p"
    then show "phase_ok ?b p" using moved [of d p] f(1) by (auto simp: phase_ok_def split: if_splits)
  next
    fix d d' k k' g assume "fbCalls ?b d = Some (Leading k g) \<and> fbCalls ?b d' = Some (Leading k' g)"
    then show "d = d'" using flight_invD(2) [OF inv, of d k g d' k'] by (simp split: if_splits)
  next
    fix k g assume "map_get (fbFlights ?b) k = Some g"
    then show "\<exists>d. fbCalls ?b d = Some (Leading k g)" using flight_invD(3) [OF inv, of k g] l by (auto split: if_splits) (metis option.inject phase.inject(2))
  next
    fix g assume "fbClosed ?b g \<noteq> None"
    then show "g < fbNext ?b" using flight_invD(4) [OF inv, of g] f(1) by (auto split: if_splits)
  next
    fix k t assume t: "map_get (tasks (fbManager ?b)) k = Some t"
    show "\<exists>g. fbClosed ?b g = Some (k, Inr t)"
    proof (cases "r = Inr t \<and> k = key")
      case False
      have "map_get (tasks (fbManager b)) k = Some t"
        using t False l by (auto simp: finish_flight_def split: sum.splits if_splits)
      then obtain g where "fbClosed b g = Some (k, Inr t)" using flight_invD(5) [OF inv] by blast
      with f(2) show ?thesis by (intro exI [of _ g]) auto
    next
      case True
      then show ?thesis using b(3) by (intro exI [of _ f]) simp
    qed
  qed
qed (use inv in \<open>auto simp: finish_flight_def split: option.splits phase.splits\<close>)

lemma wait_inv: "flight_inv b \<Longrightarrow> flight_inv (wake_waiter c b)" "flight_inv b \<Longrightarrow> flight_inv (cancel_waiter c b)"
proof -
  assume inv: "flight_inv b"
  have w: "flight_inv (set_call c (Returned key (Some f) r) b)"
    if "fbCalls b c = Some (Waiting key f)" "r = Inl ContextDone \<or> fbClosed b f = Some (k, r)" for key f r k
  proof (rule set_call_inv [OF inv])
    have "f < fbNext b" "map_get (fbFlights b) key = Some f \<or> (\<exists>r. fbClosed b f = Some (key, r))"
      using flight_invD(1) [OF inv that(1)] by (simp_all add: phase_ok_def)
    moreover have "fbClosed b f = None" if g: "map_get (fbFlights b) key = Some f"
      using flight_invD(3) [OF inv g] flight_invD(1) [OF inv] by (fastforce simp: phase_ok_def)
    ultimately show "phase_ok b (Returned key (Some f) r)" using that(2) by (auto simp: phase_ok_def)
  qed (use that in simp_all)
  then show "flight_inv (wake_waiter c b)" "flight_inv (cancel_waiter c b)"
    using inv by (auto simp: wake_waiter_def cancel_waiter_def split: option.splits phase.splits)
qed

lemma invalidate_inv: "flight_inv b \<Longrightarrow> flight_inv (invalidate_task C identityID tokenHash sessionID b)"
proof -
  assume inv: "flight_inv b"
  have "phase_ok (invalidate_task C identityID tokenHash sessionID b) = phase_ok b"
    by (rule ext) (simp add: phase_ok_def invalidate_task_def split: phase.splits)
  then show ?thesis using inv by (auto simp: flight_inv_def invalidate_task_def InvalidateTask_def split: if_splits)
qed

interpretation flights: invariant_system flight_init flight_step flight_inv
proof
  show "flight_init s \<Longrightarrow> flight_inv s" for s by (rule flight_inv_init)
  show "flight_inv s \<Longrightarrow> flight_step s t \<Longrightarrow> flight_inv t" for s t
    by (erule flight_stepE) (auto intro: enter_inv finish_inv wait_inv invalidate_inv)
qed

section \<open>What the requests can rely on\<close>

text \<open>A call that runs alone does what the sequential \<open>task\<close> does.\<close>

lemma task_alone:
  assumes "task S client stop clock key mat (fbManager b, w) = (r, m', w')" "map_get (fbFlights b) key = None" "fbCalls b c = None"
  shows "\<exists>b' f. steps flight_step b b' \<and> fbManager b' = m' \<and> fbCalls b' c = Some (Returned key f r) \<and> map_get (fbFlights b') = map_get (fbFlights b)"
proof (cases "(case map_get (tasks (fbManager b)) key of None \<Rightarrow> [] | Some t \<Rightarrow> t) = []")
  case False
  have "steps flight_step b (enter_task c key b)" by (intro steps_step [OF steps_refl] enters assms(3))
  with False assms(1) show ?thesis by (intro exI [of _ "enter_task c key b"]) (auto simp: enter_task_def task_def Let_def)
next
  case True
  let ?b = "finish_flight c r (enter_task c key b)"
  have "steps flight_step b ?b"
    by (rule steps_step [where t = "enter_task c key b"]) (intro steps_step [OF steps_refl] enters finishes assms(3))+
  moreover have "fbManager ?b = m'" "fbCalls ?b c = Some (Returned key (Some (fbNext b)) r)" "map_get (fbFlights ?b) = map_get (fbFlights b)"
    using True assms(1,2) by (auto simp: enter_task_def finish_flight_def task_def Let_def fun_eq_iff split: prod.splits sum.splits)
  ultimately show ?thesis by blast
qed

text \<open>
  C39: one registration per task, and no call is lost.  Whatever concurrent calls, cancellations, invalidations and answers interleave: at most one call registers a task for a
  key at any time; a waiting call can either take the result of its flight at once or its flight has a leader, whose answer, whatever it is, releases it with that
  answer; every call that waited and was not cancelled returned the answer of its flight, for its own key; and every cached task was granted by a
  finished registration of its key.
\<close>

theorem one_registration_per_task:
  assumes "flight_init b0" "steps flight_step b0 b"
  shows "(\<forall>k c c' f f'. fbCalls b c = Some (Leading k f) \<and> fbCalls b c' = Some (Leading k f') \<longrightarrow> c = c') \<and>
    (\<forall>c k f. fbCalls b c = Some (Waiting k f) \<longrightarrow>
       (\<exists>r. fbCalls (wake_waiter c b) c = Some (Returned k (Some f) r)) \<or>
       (\<exists>l. fbCalls b l = Some (Leading k f) \<and> (\<forall>r. fbCalls (wake_waiter c (finish_flight l r b)) c = Some (Returned k (Some f) r)))) \<and>
    (\<forall>c k f r. fbCalls b c = Some (Returned k (Some f) r) \<longrightarrow> r = Inl ContextDone \<or> fbClosed b f = Some (k, r)) \<and>
    (\<forall>k t. map_get (tasks (fbManager b)) k = Some t \<longrightarrow> (\<exists>f. fbClosed b f = Some (k, Inr t)))"
proof (intro conjI allI impI)
  have inv: "flight_inv b" by (rule flights.reachable_inv [OF assms])
  show "c = c'" if "fbCalls b c = Some (Leading k f) \<and> fbCalls b c' = Some (Leading k f')" for k c c' f f'
    using flight_invD(1) [OF inv, of c] flight_invD(1) [OF inv, of c'] flight_invD(2) [OF inv, of c k f c'] that by (auto simp: phase_ok_def)
  show "r = Inl ContextDone \<or> fbClosed b f = Some (k, r)" if "fbCalls b c = Some (Returned k (Some f) r)" for c k f r
    using flight_invD(1) [OF inv that] by (simp add: phase_ok_def)
  show "\<exists>f. fbClosed b f = Some (k, Inr t)" if "map_get (tasks (fbManager b)) k = Some t" for k t
    by (rule flight_invD(5) [OF inv that])
  show "(\<exists>r. fbCalls (wake_waiter c b) c = Some (Returned k (Some f) r)) \<or>
       (\<exists>l. fbCalls b l = Some (Leading k f) \<and> (\<forall>r. fbCalls (wake_waiter c (finish_flight l r b)) c = Some (Returned k (Some f) r)))"
    if c: "fbCalls b c = Some (Waiting k f)" for c k f
  proof (cases "map_get (fbFlights b) k = Some f")
    case True
    then obtain l where l: "fbCalls b l = Some (Leading k f)" using flight_invD(3) [OF inv] by blast
    then have "l \<noteq> c" using c by auto
    with l c show ?thesis by (intro disjI2 exI [of _ l]) (simp add: finish_flight_def wake_waiter_def)
  next
    case False
    then show ?thesis using flight_invD(1) [OF inv c] c by (auto simp: phase_ok_def wake_waiter_def)
  qed
qed

definition demo_board :: flight_board where
  "demo_board = \<lparr>fbManager = NewManager [] [], fbFlights = [], fbClosed = Map.empty, fbCalls = Map.empty, fbNext = 0\<rparr>"

theorem one_registration_per_task_witness:
  "let b = enter_task 1 ''k'' (enter_task 0 ''k'' demo_board) in
     fbCalls b 0 = Some (Leading ''k'' 0) \<and> fbCalls b 1 = Some (Waiting ''k'' 0) \<and>
     ((\<exists>r. fbCalls (wake_waiter 1 b) 1 = Some (Returned ''k'' (Some 0) r)) \<or>
      (\<exists>l. fbCalls b l = Some (Leading ''k'' 0) \<and> (\<forall>r. fbCalls (wake_waiter 1 (finish_flight l r b)) 1 = Some (Returned ''k'' (Some 0) r))))"
proof -
  let ?a = "enter_task 0 ''k'' demo_board" and ?b = "enter_task 1 ''k'' (enter_task 0 ''k'' demo_board)"
  have init: "flight_init demo_board" by (simp add: flight_init_def demo_board_def NewManager_def NewManagerWithPersonalAccessTokenAPI_def)
  have a: "fbCalls demo_board 0 = None" "fbCalls ?a 1 = None"
    by (simp_all add: demo_board_def enter_task_def NewManager_def NewManagerWithPersonalAccessTokenAPI_def)
  have calls: "fbCalls ?b 0 = Some (Leading ''k'' 0)" "fbCalls ?b 1 = Some (Waiting ''k'' 0)"
    by (simp_all add: demo_board_def enter_task_def NewManager_def NewManagerWithPersonalAccessTokenAPI_def)
  have "steps flight_step demo_board ?b"
    by (rule steps_step [where t = ?a]) (intro steps_step [OF steps_refl] enters a)+
  from one_registration_per_task [OF init this] calls show ?thesis by (simp add: Let_def)
qed

end
