(* ===== verification/Spec2Isabelle.thy ===== *)
theory Spec2Isabelle
  imports Store_Properties Identity_Sessions Release_Version Batch_Parse Quota_Policy Cpa_Witnesses Batch_Properties Delete_Properties Proxy_Properties Server_Witnesses Proxy_Witnesses Image_Witnesses Outbound_Witnesses Plugin_Witnesses Sidecar_Witnesses Release_Witnesses Task_Flight
begin

text \<open>
  Verification of the Codex agent identity sidecar and its CPA plugin.

  \<^bold>\<open>The program.\<close>  The sidecar stores Codex credentials (agent identities and personal access tokens), gives out opaque client keys for them, and forwards
  requests that present such a key to the upstream with the credential of its owner.  It keeps the auth files of CPA (a proxy that serves the
  models) in step with its store through CPA's management interface.  A plugin inside CPA reads these auth files and bridges CPA's management page to the sidecar.
  Release scripts publish the plugin.

  \<^bold>\<open>Parts, and the theories that model them.\<close>  Source paths are those of the repository; definitions have the names of the functions and types they translate, except
  where a name clashes, and helper definitions translate a part of a function.

  \<^item> Language and libraries: \<^verbatim>\<open>Prelude\<close> (Go strings are byte sequences; \<^verbatim>\<open>strings\<close>, maps as association lists, the contracts \<open>normaliser\<close> and
    \<open>invariant_system\<close>), \<^verbatim>\<open>Utf8\<close>, \<^verbatim>\<open>Encoding\<close> (hex and base64, contract \<open>codec\<close>), \<^verbatim>\<open>Go_Json\<close> (\<^verbatim>\<open>encoding/json\<close>: lexer, push-down parser, printer, stream
    decoder, decoding into structs), \<^verbatim>\<open>Json_Document\<close> (indented printing, maps of \<^verbatim>\<open>any\<close>), \<^verbatim>\<open>Go_Url\<close>, \<^verbatim>\<open>Go_Net\<close> (requests, responses, headers, time), \<^verbatim>\<open>Go_Text\<close>
    (integers and IP addresses), \<^verbatim>\<open>Trim_Lower\<close>.
  \<^item> Identity store (\<^verbatim>\<open>internal/store\<close>): \<^verbatim>\<open>Store_Crypto\<close> (AES-GCM sealing of tokens), \<^verbatim>\<open>Identity_Store\<close> (the \<open>Store\<close> record with its two indexes and an explicit
    directory; every system call may fail), \<^verbatim>\<open>Store_Invariant\<close>, \<^verbatim>\<open>Store_Durability\<close>, \<^verbatim>\<open>Store_Reopen\<close>, \<^verbatim>\<open>Store_Properties\<close>.
  \<^item> Agent Identity protocol and credential manager (\<^verbatim>\<open>internal/identity\<close>): \<^verbatim>\<open>Identity_Protocol\<close> (JWT verification, assertions, task registration, key-set cache),
    \<^verbatim>\<open>Identity_Manager\<close> (the \<open>Manager\<close> record with its caches), \<^verbatim>\<open>Task_Flight\<close> (concurrent calls of \<^verbatim>\<open>Manager.task\<close> as a step relation), \<^verbatim>\<open>Identity_Tokens\<close>,
    \<^verbatim>\<open>Identity_Sessions\<close>.
  \<^item> CPA synchronisation (\<^verbatim>\<open>internal/cpa\<close>): \<^verbatim>\<open>Cpa_Files\<close> (names and documents of auth files), \<^verbatim>\<open>Cpa_Documents\<close>, \<^verbatim>\<open>Cpa_Api\<close> (the calls with their retries and polling),
    \<^verbatim>\<open>Cpa_Sync\<close> (the transactions with snapshots and rollback), \<^verbatim>\<open>Cpa_Properties\<close>, \<^verbatim>\<open>Cpa_Guarantees\<close>, \<^verbatim>\<open>Cpa_Witnesses\<close>.
  \<^item> Quota policy (\<^verbatim>\<open>internal/quota\<close>): \<^verbatim>\<open>Quota_Policy\<close>.  Release versions (\<^verbatim>\<open>internal/releaseversion\<close>): \<^verbatim>\<open>Release_Version\<close>, with the comparison contract \<open>three_way\<close>.
  \<^item> HTTP server (\<^verbatim>\<open>internal/server\<close>): \<^verbatim>\<open>Batch_Parse\<close>, \<^verbatim>\<open>Server_State\<close> (the \<open>world\<close>: store, manager, CPA, backups, a counter that numbers the system's choices),
    \<^verbatim>\<open>Management_Import\<close>, \<^verbatim>\<open>Batch_Import\<close>, \<^verbatim>\<open>Delete_Backup\<close>, \<^verbatim>\<open>Server_Http\<close>, \<^verbatim>\<open>Server_Handlers\<close>, \<^verbatim>\<open>Api_Call\<close>, \<^verbatim>\<open>Server_Proxy\<close>, \<^verbatim>\<open>Direct_Images\<close>; the properties are in
    \<^verbatim>\<open>Import_Properties\<close>, \<^verbatim>\<open>Batch_Properties\<close>, \<^verbatim>\<open>Delete_Properties\<close>, \<^verbatim>\<open>Proxy_Properties\<close> (with the contract \<open>upstream_watch\<close>), \<^verbatim>\<open>Image_Properties\<close>, the witnesses in
    \<^verbatim>\<open>Server_Witnesses\<close>, \<^verbatim>\<open>Proxy_Witnesses\<close>, \<^verbatim>\<open>Image_Witnesses\<close>.
  \<^item> Sidecar process (\<^verbatim>\<open>cmd/sidecar\<close>): \<^verbatim>\<open>Outbound_Route\<close> (\<^verbatim>\<open>proxy.go\<close>: source of the outbound proxy, hot-reloaded transport; requests and refreshes are a step relation),
    \<^verbatim>\<open>Sidecar_Main\<close> (\<^verbatim>\<open>main.go\<close>: configuration, start, reconciliation with CPA), \<^verbatim>\<open>Sidecar_Properties\<close>, \<^verbatim>\<open>Outbound_Witnesses\<close>, \<^verbatim>\<open>Sidecar_Witnesses\<close>.
  \<^item> Plugin (\<^verbatim>\<open>plugin/codex-agent-identity\<close>): \<^verbatim>\<open>Plugin_Credential\<close> (reading auth files), \<^verbatim>\<open>Bridge_Target\<close> (configuration and choice of the target),
    \<^verbatim>\<open>Plugin_Bridge\<close> (forwarding, management pages, plugin calls), \<^verbatim>\<open>Plugin_Page\<close> (substitution into the page), \<^verbatim>\<open>Plugin_Properties\<close>, \<^verbatim>\<open>Bridge_Properties\<close>,
    \<^verbatim>\<open>Plugin_Witnesses\<close>.
  \<^item> Release scripts (\<^verbatim>\<open>.github/scripts\<close>): \<^verbatim>\<open>Release_Registry\<close>, \<^verbatim>\<open>Release_Properties\<close>, \<^verbatim>\<open>Release_Witnesses\<close>.

  \<^bold>\<open>How the parts meet.\<close>  The handlers of the server call the store, the manager and the CPA manager; the composed state is the \<open>world\<close> record, and the theorems about imports,
  batches and deletions hold for the composition, whatever the other parts answer.  The data path authorises a client key in the store, obtains the authorization from the
  manager and sends through the transport.  The plugin's reader and the CPA manager meet in the auth file: what one writes, the other reads.  The start of the
  sidecar composes configuration, store, manager, CPA manager and transport.  The release scripts use the version order.

  \<^bold>\<open>What the theorems show.\<close>
  \<^item> Store: the indexes agree in every reachable state, failed operations are atomic, files round-trip and hide tokens, a directory reopened after any successful run is
    the store that was left, deleting revokes.
  \<^item> Identity: only signed, current tokens are accepted and issued ones verify; a personal access token is never used for another account; retries are bounded; at most one
    registration of a task runs at a time and no waiting request is lost.
  \<^item> CPA: files of others survive, acknowledged changes have happened, removals can be undone, user fields are kept, polling ends.
  \<^item> Server: a refused import is undone, an atomic batch is all or nothing, nothing is deleted without a verified backup, management needs its key, every upstream
    request carries the identity of its client key and nothing else, and there is at most one retry.
  \<^item> Process: the default route fails closed and follows the configuration, failing polls back off, a started sidecar has been checked, reconciliation keeps credentials.
  \<^item> Plugin: its reader inverts the CPA manager's writer, client keys and the management key are bound to trusted addresses, the bridge forwards listed operations only,
    responses carry no framing, configuration injects no markup.
  \<^item> Releases: the version order is SemVer precedence, and a published release passes the strict check.

  \<^bold>\<open>Effects, bounds and fuel.\<close>  State is passed explicitly; errors are values of sum types, one constructor or text per error of the code.  Loops are structural or
  have termination proofs; the loops with a limit in the code (three registration attempts, four attempts per management request) take that limit as the
  number of rounds, and the polling of CPA ends because its sleeps use up the window of time the code sets, so no fuel is chosen freely.  The nesting depth of JSON is that of Go's decoder.  Where Go's \<^verbatim>\<open>int\<close> can overflow, the
  model keeps 64 bits (RSA exponents) or checks the range (decoded integers).  Iteration over Go maps is an arbitrary order where the outcome can depend on it.

  \<^bold>\<open>Parameters.\<close>  Cryptography (SHA-256, AES-GCM, RSA, Ed25519, X25519 sealed boxes) with its documented laws; the answers of HTTP servers, of the operating system, of
  the clock and of random sources, all of which may fail; \<^verbatim>\<open>time.Parse\<close> and \<^verbatim>\<open>time.ParseDuration\<close>; \<^verbatim>\<open>mime\<close>, \<^verbatim>\<open>mime/multipart\<close> and content sniffing; YAML; \<^verbatim>\<open>archive/zip\<close>; CPA's plugin
  interface; the redirects that an \<^verbatim>\<open>http.Client\<close> follows.

  \<^bold>\<open>Not modelled.\<close>  The listener, \<^verbatim>\<open>ServeMux\<close> patterns, signals and shutdown; protocol upgrades through the reverse proxy; logging; closing of idle connections; the
  JavaScript, CSS and HTML of the pages (the templates are arguments); the C side of the plugin's buffers; command-line flags of the scripts.  Concurrency is
  modelled where the code's own synchronisation matters (task registration, validation workers of a batch, transport refreshes); elsewhere operations that
  hold a mutex for their whole duration are atomic steps.
\<close>

end
